(* ===== verification/Prelude.thy ===== *)
theory Prelude
  imports Complex_Main "HOL-Library.AList" "HOL-Library.Sublist"
begin

text \<open>
  Shared ground of the development: the parts of the JavaScript language and of the browser
  that the portal's code uses everywhere (strings, truthiness, decimal printing, the
  \<open>Storage\<close> objects \<open>localStorage\<close> and \<open>sessionStorage\<close>), the rendered interface as a tree,
  and two interfaces stated as locales: what a key/value storage promises, and what it takes
  for a property to hold in every state of an event-driven component.

  A JavaScript string is a \<^typ>\<open>string\<close> holding its UTF-8 bytes; every constant of the code
  that is outside ASCII is written as its bytes.
\<close>

named_theorems storage_simps \<open>rewrite rules for reads after writes of a browser storage\<close>
named_theorems view_simps \<open>rewrite rules that evaluate questions about a rendered tree\<close>

section \<open>Strings\<close>

type_synonym path = string

definition is_digit :: "char \<Rightarrow> bool" where
  "is_digit c \<longleftrightarrow> c \<in> set ''0123456789''"

definition digit_char :: "nat \<Rightarrow> char" where
  "digit_char d = ''0123456789'' ! d"

definition digit_val :: "char \<Rightarrow> nat" where
  "digit_val c = of_char c - 48"

fun showNat :: "nat \<Rightarrow> string" where
  "showNat n = (if n < 10 then [digit_char n] else showNat (n div 10) @ [digit_char (n mod 10)])"

declare showNat.simps [simp del]

definition showInt :: "int \<Rightarrow> string" where
  "showInt i = (if i < 0 then ''-'' @ showNat (nat (- i)) else showNat (nat i))"

fun readNat_acc :: "nat \<Rightarrow> string \<Rightarrow> nat" where
  "readNat_acc a [] = a"
| "readNat_acc a (c # cs) = readNat_acc (10 * a + digit_val c) cs"

abbreviation readNat :: "string \<Rightarrow> nat" where
  "readNat \<equiv> readNat_acc 0"

text \<open>\<open>s.length\<close> counts UTF-16 units: one for each encoded character, two for those whose encoding
  has four bytes.\<close>

definition jsLength :: "string \<Rightarrow> nat" where
  "jsLength s =
     length (filter (\<lambda>c. \<not> (0x80 \<le> (of_char c :: nat) \<and> (of_char c :: nat) < 0xC0)) s)
     + length (filter (\<lambda>c. 0xF0 \<le> (of_char c :: nat)) s)"

text \<open>\<open>s.startsWith(p)\<close> and \<open>s.substring(i, j)\<close> on in-range indices.\<close>

definition startsWith :: "string \<Rightarrow> string \<Rightarrow> bool" where
  "startsWith s p \<longleftrightarrow> take (length p) s = p"

definition substring :: "string \<Rightarrow> nat \<Rightarrow> nat \<Rightarrow> string" where
  "substring s i j = take (j - i) (drop i s)"

text \<open>\<open>s.split(c)\<close> on a one-character separator: never empty, like JavaScript's.\<close>

fun splitOn :: "char \<Rightarrow> string \<Rightarrow> string list" where
  "splitOn c [] = [[]]"
| "splitOn c (x # xs) =
     (if x = c then [] # splitOn c xs
      else (case splitOn c xs of [] \<Rightarrow> [[x]] | w # ws \<Rightarrow> (x # w) # ws))"

text \<open>\<open>toUpperCase\<close>, \<open>toLowerCase\<close> and \<open>trim\<close> on ASCII.\<close>

definition upperChar :: "char \<Rightarrow> char" where
  "upperChar c = (if c \<in> set ''abcdefghijklmnopqrstuvwxyz''
                  then char_of (of_char c - 32 :: nat) else c)"

definition toUpperCase :: "string \<Rightarrow> string" where
  "toUpperCase s = map upperChar s"

definition lowerChar :: "char \<Rightarrow> char" where
  "lowerChar c = (if c \<in> set ''ABCDEFGHIJKLMNOPQRSTUVWXYZ''
                  then char_of (of_char c + 32 :: nat) else c)"

definition toLowerCase :: "string \<Rightarrow> string" where
  "toLowerCase s = map lowerChar s"

definition is_space :: "char \<Rightarrow> bool" where
  "is_space c \<longleftrightarrow> c \<in> {CHR 0x09, CHR 0x0A, CHR 0x0B, CHR 0x0C, CHR 0x0D, CHR '' ''}"

definition trim :: "string \<Rightarrow> string" where
  "trim s = rev (dropWhile is_space (rev (dropWhile is_space s)))"

text \<open>Truthiness of a nullable string: \<open>null\<close> and the empty string are false.\<close>

fun truthy :: "string option \<Rightarrow> bool" where
  "truthy None = False"
| "truthy (Some s) = (s \<noteq> [])"

text \<open>\<open>x ?? d\<close> and \<open>x || d\<close>.\<close>

fun nullish :: "'a option \<Rightarrow> 'a \<Rightarrow> 'a" where
  "nullish None d = d"
| "nullish (Some x) d = x"

definition orElse :: "string option \<Rightarrow> string \<Rightarrow> string" where
  "orElse x d = (case x of None \<Rightarrow> d | Some s \<Rightarrow> if s = [] then d else s)"

section \<open>Browser storage\<close>

type_synonym storage = "(string \<times> string) list"

definition getItem :: "storage \<Rightarrow> string \<Rightarrow> string option" where
  "getItem s k = map_of s k"

definition setItem :: "string \<Rightarrow> string \<Rightarrow> storage \<Rightarrow> storage" where
  "setItem k v s = AList.update k v s"

definition removeItem :: "string \<Rightarrow> storage \<Rightarrow> storage" where
  "removeItem k s = AList.delete k s"

definition objectKeys :: "storage \<Rightarrow> string list" where
  "objectKeys s = map fst s"

section \<open>Rendered trees\<close>

text \<open>
  What a component returns to React, without class names, icons and layout containers: text,
  groups, buttons (with their \<open>disabled\<close> flag, their content and what a click does), inputs
  (placeholder, value, and what a change to a new text does), links and dialogs. The type
  variable is the type of the component's own actions.
\<close>

datatype 'a view =
    Txt string
  | Group "'a view list"
  | Btn bool "'a view list" 'a
  | Inp string string "string \<Rightarrow> 'a"
  | Link path "'a view list"

primrec texts :: "'a view \<Rightarrow> string list" where
  "texts (Txt t) = [t]"
| "texts (Group vs) = concat (map texts vs)"
| "texts (Btn d vs a) = concat (map texts vs)"
| "texts (Inp p v h) = []"
| "texts (Link p vs) = concat (map texts vs)"

primrec buttons :: "'a view \<Rightarrow> (bool \<times> 'a) list" where
  "buttons (Txt t) = []"
| "buttons (Group vs) = concat (map buttons vs)"
| "buttons (Btn d vs a) = [(d, a)]"
| "buttons (Inp p v h) = []"
| "buttons (Link p vs) = concat (map buttons vs)"

primrec inputs :: "'a view \<Rightarrow> (string \<Rightarrow> 'a) list" where
  "inputs (Txt t) = []"
| "inputs (Group vs) = concat (map inputs vs)"
| "inputs (Btn d vs a) = concat (map inputs vs)"
| "inputs (Inp p v h) = [h]"
| "inputs (Link p vs) = concat (map inputs vs)"

definition shows_text :: "'a view \<Rightarrow> string \<Rightarrow> bool" where
  "shows_text v t \<longleftrightarrow> t \<in> set (texts v)"

definition clickable :: "'a view \<Rightarrow> 'a \<Rightarrow> bool" where
  "clickable v a \<longleftrightarrow> (False, a) \<in> set (buttons v)"

text \<open>Conditional children, \<open>{c && v}\<close> in the source.\<close>

definition onlyIf :: "bool \<Rightarrow> 'a view list \<Rightarrow> 'a view list" where
  "onlyIf c vs = (if c then vs else [])"

section \<open>Lemmas\<close>

lemma shows_text_simps [view_simps]:
  "shows_text (Txt s) t \<longleftrightarrow> t = s"
  "shows_text (Group vs) t \<longleftrightarrow> (\<exists>v \<in> set vs. shows_text v t)"
  "shows_text (Btn d vs a) t \<longleftrightarrow> (\<exists>v \<in> set vs. shows_text v t)"
  "shows_text (Inp p w h) t \<longleftrightarrow> False"
  "shows_text (Link p vs) t \<longleftrightarrow> (\<exists>v \<in> set vs. shows_text v t)"
  by (auto simp: shows_text_def)

lemma clickable_simps [view_simps]:
  "clickable (Txt s) a \<longleftrightarrow> False"
  "clickable (Group vs) a \<longleftrightarrow> (\<exists>v \<in> set vs. clickable v a)"
  "clickable (Btn d vs b) a \<longleftrightarrow> \<not> d \<and> a = b"
  "clickable (Inp p w h) a \<longleftrightarrow> False"
  "clickable (Link p vs) a \<longleftrightarrow> (\<exists>v \<in> set vs. clickable v a)"
  by (auto simp: clickable_def)

lemma set_onlyIf [view_simps]: "v \<in> set (onlyIf c vs) \<longleftrightarrow> c \<and> v \<in> set vs"
  by (simp add: onlyIf_def)

lemma jsLength_Nil [simp]: "jsLength [] = 0"
  by (simp add: jsLength_def)

lemma jsLength_Cons [simp]:
  "jsLength (c # s) = (if 0x80 \<le> (of_char c :: nat) \<and> (of_char c :: nat) < 0xC0 then 0 else 1)
     + (if 0xF0 \<le> (of_char c :: nat) then 1 else 0) + jsLength s"
  by (simp add: jsLength_def)

lemma jsLength_pos: "Suc n \<le> jsLength s \<Longrightarrow> s \<noteq> []"
  by auto

lemma startsWith_prefix: "startsWith s p \<longleftrightarrow> prefix p s"
  by (metis append_eq_conv_conj prefix_def startsWith_def append_take_drop_id)

lemma startsWith_append [simp]: "startsWith (p @ s) p"
  by (simp add: startsWith_def)

lemma splitOn_not_Nil [simp]: "splitOn c s \<noteq> []"
  by (cases s) (auto split: list.splits)

lemma splitOn_free [simp]: "c \<notin> set s \<Longrightarrow> splitOn c s = [s]"
  by (induction s) auto

lemma splitOn_append: "c \<notin> set s \<Longrightarrow> splitOn c (s @ c # t) = s # splitOn c t"
  by (induction s) auto

lemma digit_val_char: "d < 10 \<Longrightarrow> digit_val (digit_char d) = d"
proof -
  assume "d < 10"
  then have "d = 0 \<or> d = 1 \<or> d = 2 \<or> d = 3 \<or> d = 4 \<or> d = 5 \<or> d = 6 \<or> d = 7 \<or> d = 8 \<or> d = 9"
    by arith
  then show ?thesis
    by (elim disjE) (simp_all add: digit_val_def digit_char_def)
qed

lemma is_digit_char: "d < 10 \<Longrightarrow> is_digit (digit_char d)"
  unfolding is_digit_def digit_char_def by (rule nth_mem) simp

lemma showNat_digits: "\<forall>c \<in> set (showNat n). is_digit c"
proof (induction n rule: showNat.induct)
  case (1 n)
  then show ?case
    by (subst showNat.simps) (auto simp: is_digit_char)
qed

lemma readNat_acc_append: "readNat_acc a (s @ [c]) = 10 * readNat_acc a s + digit_val c"
  by (induction s arbitrary: a) auto

lemma readNat_showNat [simp]: "readNat (showNat n) = n"
proof (induction n rule: showNat.induct)
  case (1 n)
  then show ?case
    by (subst showNat.simps) (auto simp: digit_val_char readNat_acc_append)
qed

lemma showNat_inj [simp]: "showNat m = showNat n \<longleftrightarrow> m = n"
  by (metis readNat_showNat)

lemma showNat_not_Nil [simp]: "showNat n \<noteq> []"
  by (subst showNat.simps) simp

section \<open>Interfaces\<close>

text \<open>
  What the portal relies on of a storage: a read after a write or a removal, and that the
  enumerated keys are the ones that hold a value. The client idiom of the code, enumerate the
  keys, filter them and remove each, is proved once here.
\<close>

locale web_storage =
  fixes get :: "'s \<Rightarrow> 'k \<Rightarrow> 'v option"
    and put :: "'k \<Rightarrow> 'v \<Rightarrow> 's \<Rightarrow> 's"
    and del :: "'k \<Rightarrow> 's \<Rightarrow> 's"
    and keys :: "'s \<Rightarrow> 'k list"
  assumes get_put: "get (put k v s) k' = (if k' = k then Some v else get s k')"
    and get_del: "get (del k s) k' = (if k' = k then None else get s k')"
    and keys_get: "k \<in> set (keys s) \<longleftrightarrow> get s k \<noteq> None"
begin

lemma get_fold_del: "get (fold del ks s) k = (if k \<in> set ks then None else get s k)"
  by (induction ks arbitrary: s) (auto simp: get_del)

lemma get_sweep: "get (fold del (filter P (keys s)) s) k = (if P k then None else get s k)"
  by (auto simp: get_fold_del keys_get)

end

interpretation ls: web_storage getItem setItem removeItem objectKeys
proof
  show "getItem (setItem k v s) k' = (if k' = k then Some v else getItem s k')" for k v s k'
    by (simp add: getItem_def setItem_def update_conv')
  show "getItem (removeItem k s) k' = (if k' = k then None else getItem s k')" for k s k'
    by (simp add: getItem_def removeItem_def delete_conv')
  show "k \<in> set (objectKeys s) \<longleftrightarrow> getItem s k \<noteq> None" for k s
    by (simp add: getItem_def objectKeys_def map_of_eq_None_iff)
qed

lemmas storage_laws [storage_simps] = ls.get_put ls.get_del ls.get_sweep

text \<open>
  An event-driven component: an initial state, a step per event, a property of the states.
  If the start has it and every step keeps it, every run has it.
\<close>

locale invariant_system =
  fixes init :: 's
    and step :: "'s \<Rightarrow> 'e \<Rightarrow> 's"
    and inv :: "'s \<Rightarrow> bool"
  assumes inv_init: "inv init"
    and inv_step: "inv s \<Longrightarrow> inv (step s e)"
begin

lemma run_from: "inv s \<Longrightarrow> inv (foldl step s es)"
  by (induction es arbitrary: s) (simp_all add: inv_step)

lemma run_inv: "inv (foldl step init es)"
  by (rule run_from) (rule inv_init)

end

end
