(* ===== verification/Json.thy ===== *)
theory Json
  imports Prelude
begin

text \<open>
  The part of JavaScript's \<open>JSON\<close> object the portal uses: \<open>JSON.parse\<close> reads the payload of
  a token and the records kept in \<open>localStorage\<close>, \<open>JSON.stringify\<close> writes those records. A
  number is the rational it denotes. The parser is fuelled; \<open>jparse\<close> gives it twice the
  length of the input plus one, and \<open>pval_enough\<close> shows that more never changes the answer.
\<close>

datatype json =
    JNull
  | JBool bool
  | JNum rat
  | JStr string
  | JArr "json list"
  | JObj "(string \<times> json) list"

section \<open>Parsing\<close>

definition is_ws :: "char \<Rightarrow> bool" where
  "is_ws c \<longleftrightarrow> c = CHR 0x20 \<or> c = CHR 0x09 \<or> c = CHR 0x0A \<or> c = CHR 0x0D"

definition skipWs :: "string \<Rightarrow> string" where
  "skipWs s = dropWhile is_ws s"

definition hexVal :: "char \<Rightarrow> nat option" where
  "hexVal c =
     (if is_digit c then Some (of_char c - 48)
      else if c \<in> set ''abcdef'' then Some (of_char c - 87)
      else if c \<in> set ''ABCDEF'' then Some (of_char c - 55)
      else None)"

definition hex4 :: "char \<Rightarrow> char \<Rightarrow> char \<Rightarrow> char \<Rightarrow> nat option" where
  "hex4 a b c d =
     (case (hexVal a, hexVal b, hexVal c, hexVal d) of
        (Some i, Some j, Some k, Some l) \<Rightarrow> Some (((i * 16 + j) * 16 + k) * 16 + l)
      | _ \<Rightarrow> None)"

text \<open>The UTF-8 bytes of a code point.\<close>

definition utf8 :: "nat \<Rightarrow> string" where
  "utf8 n =
     (if n < 0x80 then [char_of n]
      else if n < 0x800 then [char_of (0xC0 + n div 64), char_of (0x80 + n mod 64)]
      else if n < 0x10000 then
        [char_of (0xE0 + n div 4096), char_of (0x80 + n div 64 mod 64), char_of (0x80 + n mod 64)]
      else
        [char_of (0xF0 + n div 262144), char_of (0x80 + n div 4096 mod 64),
         char_of (0x80 + n div 64 mod 64), char_of (0x80 + n mod 64)])"

text \<open>A string literal is read as raw bytes and escaped code units; a surrogate pair of code
  units is one code point.\<close>

fun joinUnits :: "(char + nat) list \<Rightarrow> string" where
  "joinUnits [] = []"
| "joinUnits (Inl c # us) = c # joinUnits us"
| "joinUnits (Inr h # Inr l # us) =
     (if 0xD800 \<le> h \<and> h < 0xDC00 \<and> 0xDC00 \<le> l \<and> l < 0xE000
      then utf8 (0x10000 + (h - 0xD800) * 1024 + (l - 0xDC00)) @ joinUnits us
      else utf8 h @ joinUnits (Inr l # us))"
| "joinUnits (Inr h # us) = utf8 h @ joinUnits us"

definition unescape :: "char \<Rightarrow> char option" where
  "unescape e =
     (if e = CHR 0x22 \<or> e = CHR 0x5C \<or> e = CHR 0x2F then Some e
      else if e = CHR ''b'' then Some (CHR 0x08)
      else if e = CHR ''f'' then Some (CHR 0x0C)
      else if e = CHR ''n'' then Some (CHR 0x0A)
      else if e = CHR ''r'' then Some (CHR 0x0D)
      else if e = CHR ''t'' then Some (CHR 0x09)
      else None)"

definition push :: "'u \<Rightarrow> ('u list \<times> 'r) option \<Rightarrow> ('u list \<times> 'r) option" where
  "push u x = map_option (\<lambda>(us, r). (u # us, r)) x"

fun pstr :: "string \<Rightarrow> ((char + nat) list \<times> string) option" where
  "pstr [] = None"
| "pstr (c # cs) =
     (if c = CHR 0x22 then Some ([], cs)
      else if c = CHR 0x5C then
        (case cs of
           [] \<Rightarrow> None
         | e # r \<Rightarrow>
             if e = CHR ''u'' then
               (case r of
                  h1 # h2 # h3 # h4 # r' \<Rightarrow>
                    (case hex4 h1 h2 h3 h4 of
                       None \<Rightarrow> None
                     | Some n \<Rightarrow> push (Inr n) (pstr r'))
                | _ \<Rightarrow> None)
             else (case unescape e of
                     None \<Rightarrow> None
                   | Some x \<Rightarrow> push (Inl x) (pstr r)))
      else if (of_char c :: nat) < 0x20 then None
      else push (Inl c) (pstr cs))"

definition readFrac :: "string \<Rightarrow> rat" where
  "readFrac ds = of_nat (readNat ds) / 10 ^ length ds"

text \<open>Numbers: an optional minus, an integer part without leading zeros, an optional fraction
  and an optional exponent.\<close>

definition pexp :: "rat \<Rightarrow> string \<Rightarrow> (json \<times> string) option" where
  "pexp m s =
     (case s of
        c # r \<Rightarrow>
          if c = CHR ''e'' \<or> c = CHR ''E'' then
            (let neg = (r \<noteq> [] \<and> hd r = CHR ''-'');
                 r' = (if r \<noteq> [] \<and> (hd r = CHR ''-'' \<or> hd r = CHR ''+'') then tl r else r);
                 ds = takeWhile is_digit r'
             in if ds = [] then None
                else Some (JNum (if neg then m / 10 ^ readNat ds else m * 10 ^ readNat ds),
                           dropWhile is_digit r'))
          else Some (JNum m, s)
      | [] \<Rightarrow> Some (JNum m, s))"

definition pfrac :: "rat \<Rightarrow> rat \<Rightarrow> string \<Rightarrow> (json \<times> string) option" where
  "pfrac sg m s =
     (case s of
        c # r \<Rightarrow>
          if c = CHR ''.'' then
            (let ds = takeWhile is_digit r
             in if ds = [] then None else pexp (sg * (m + readFrac ds)) (dropWhile is_digit r))
          else pexp (sg * m) s
      | [] \<Rightarrow> pexp (sg * m) s)"

definition pnum :: "string \<Rightarrow> (json \<times> string) option" where
  "pnum s =
     (let neg = (s \<noteq> [] \<and> hd s = CHR ''-'');
          s' = (if neg then tl s else s);
          ds = takeWhile is_digit s'
      in if ds = [] \<or> (hd ds = CHR ''0'' \<and> length ds > 1) then None
         else pfrac (if neg then - 1 else 1) (of_nat (readNat ds)) (dropWhile is_digit s'))"

definition plit :: "string \<Rightarrow> json \<Rightarrow> string \<Rightarrow> (json \<times> string) option" where
  "plit w v s = (if startsWith s w then Some (v, drop (length w) s) else None)"

definition objOf :: "(string \<times> json) list \<Rightarrow> json" where
  "objOf kvs = JObj (foldl (\<lambda>m kv. AList.update (fst kv) (snd kv) m) [] kvs)"

fun pval :: "nat \<Rightarrow> string \<Rightarrow> (json \<times> string) option"
  and pelems :: "nat \<Rightarrow> string \<Rightarrow> (json list \<times> string) option"
  and pmembers :: "nat \<Rightarrow> string \<Rightarrow> ((string \<times> json) list \<times> string) option" where
  "pval 0 s = None"
| "pval (Suc n) s =
     (case skipWs s of
        [] \<Rightarrow> None
      | c # cs \<Rightarrow>
          if c = CHR 0x22 then map_option (\<lambda>(us, r). (JStr (joinUnits us), r)) (pstr cs)
          else if c = CHR ''['' then
            (case skipWs cs of
               [] \<Rightarrow> None
             | d # ds \<Rightarrow> if d = CHR '']'' then Some (JArr [], ds)
                         else map_option (\<lambda>(vs, r). (JArr vs, r)) (pelems n cs))
          else if c = CHR ''{'' then
            (case skipWs cs of
               [] \<Rightarrow> None
             | d # ds \<Rightarrow> if d = CHR ''}'' then Some (JObj [], ds)
                         else map_option (\<lambda>(kvs, r). (objOf kvs, r)) (pmembers n cs))
          else if c = CHR ''t'' then plit ''true'' (JBool True) (c # cs)
          else if c = CHR ''f'' then plit ''false'' (JBool False) (c # cs)
          else if c = CHR ''n'' then plit ''null'' JNull (c # cs)
          else pnum (c # cs))"
| "pelems 0 s = None"
| "pelems (Suc n) s =
     (case pval n s of
        None \<Rightarrow> None
      | Some (v, r) \<Rightarrow>
          (case skipWs r of
             [] \<Rightarrow> None
           | d # ds \<Rightarrow> if d = CHR '']'' then Some ([v], ds)
                       else if d = CHR '','' then push v (pelems n ds)
                       else None))"
| "pmembers 0 s = None"
| "pmembers (Suc n) s =
     (case skipWs s of
        [] \<Rightarrow> None
      | q # qs \<Rightarrow>
          if q \<noteq> CHR 0x22 then None
          else (case pstr qs of
                  None \<Rightarrow> None
                | Some (us, r) \<Rightarrow>
                    (case skipWs r of
                       [] \<Rightarrow> None
                     | d # ds \<Rightarrow>
                         if d \<noteq> CHR '':'' then None
                         else (case pval n ds of
                                 None \<Rightarrow> None
                               | Some (v, r') \<Rightarrow>
                                   (case skipWs r' of
                                      [] \<Rightarrow> None
                                    | e # es \<Rightarrow>
                                        if e = CHR ''}'' then Some ([(joinUnits us, v)], es)
                                        else if e = CHR '','' then
                                          push (joinUnits us, v) (pmembers n es)
                                        else None)))))"

definition jparse :: "string \<Rightarrow> json option" where
  "jparse s =
     (case pval (Suc (2 * length s)) s of
        None \<Rightarrow> None
      | Some (v, r) \<Rightarrow> if skipWs r = [] then Some v else None)"

section \<open>Printing\<close>

definition hexDigit :: "nat \<Rightarrow> char" where
  "hexDigit d = ''0123456789abcdef'' ! d"

definition escapeChar :: "char \<Rightarrow> string" where
  "escapeChar c =
     (if c = CHR 0x22 then [CHR 0x5C, CHR 0x22]
      else if c = CHR 0x5C then [CHR 0x5C, CHR 0x5C]
      else if c = CHR 0x08 then [CHR 0x5C, CHR ''b'']
      else if c = CHR 0x0C then [CHR 0x5C, CHR ''f'']
      else if c = CHR 0x0A then [CHR 0x5C, CHR ''n'']
      else if c = CHR 0x0D then [CHR 0x5C, CHR ''r'']
      else if c = CHR 0x09 then [CHR 0x5C, CHR ''t'']
      else if (of_char c :: nat) < 0x20
        then [CHR 0x5C, CHR ''u'', CHR ''0'', CHR ''0'', hexDigit (of_char c div 16),
              hexDigit (of_char c mod 16)]
      else [c])"

definition jquote :: "string \<Rightarrow> string" where
  "jquote s = [CHR 0x22] @ concat (map escapeChar s) @ [CHR 0x22]"

fun fracDigits :: "nat \<Rightarrow> rat \<Rightarrow> string" where
  "fracDigits 0 r = []"
| "fracDigits (Suc n) r =
     (if r = 0 then []
      else digit_char (nat \<lfloor>10 * r\<rfloor>) # fracDigits n (10 * r - of_int \<lfloor>10 * r\<rfloor>))"

text \<open>Decimal notation, to thirty places; no record the portal stores holds a number.\<close>

definition showNum :: "rat \<Rightarrow> string" where
  "showNum r =
     (let a = \<bar>r\<bar>; w = \<lfloor>a\<rfloor>; f = a - of_int w
      in (if r < 0 then ''-'' else []) @ showNat (nat w)
         @ (if f = 0 then [] else ''.'' @ fracDigits 30 f))"

fun commaSep :: "string list \<Rightarrow> string" where
  "commaSep [] = []"
| "commaSep [x] = x"
| "commaSep (x # xs) = x @ '','' @ commaSep xs"

primrec stringify :: "json \<Rightarrow> string" where
  "stringify JNull = ''null''"
| "stringify (JBool b) = (if b then ''true'' else ''false'')"
| "stringify (JNum r) = showNum r"
| "stringify (JStr s) = jquote s"
| "stringify (JArr vs) = ''['' @ commaSep (map stringify vs) @ '']''"
| "stringify (JObj kvs) =
     ''{'' @ commaSep (map (\<lambda>kv. jquote (fst kv) @ '':'' @ snd kv) (map (map_prod id stringify) kvs))
     @ ''}''"

section \<open>Reading a field\<close>

text \<open>\<open>v.k\<close> on a parsed value; only objects have the fields the portal reads.\<close>

definition jfield :: "json \<Rightarrow> string \<Rightarrow> json option" where
  "jfield v k = (case v of JObj kvs \<Rightarrow> map_of kvs k | _ \<Rightarrow> None)"

definition jfield_str :: "json \<Rightarrow> string \<Rightarrow> string option" where
  "jfield_str v k = (case jfield v k of Some (JStr s) \<Rightarrow> Some s | _ \<Rightarrow> None)"

definition jfield_num :: "json \<Rightarrow> string \<Rightarrow> rat option" where
  "jfield_num v k = (case jfield v k of Some (JNum r) \<Rightarrow> Some r | _ \<Rightarrow> None)"

definition jfield_bool :: "json \<Rightarrow> string \<Rightarrow> bool option" where
  "jfield_bool v k = (case jfield v k of Some (JBool b) \<Rightarrow> Some b | _ \<Rightarrow> None)"

definition jtruthy :: "json \<Rightarrow> bool" where
  "jtruthy v = (case v of JNull \<Rightarrow> False | JBool b \<Rightarrow> b | JNum r \<Rightarrow> r \<noteq> 0 | JStr s \<Rightarrow> s \<noteq> []
                | _ \<Rightarrow> True)"

text \<open>Values without numbers whose objects have distinct keys: what the portal stores.\<close>

primrec plain :: "json \<Rightarrow> bool" where
  "plain JNull = True"
| "plain (JBool b) = True"
| "plain (JNum r) = False"
| "plain (JStr s) = True"
| "plain (JArr vs) = list_all id (map plain vs)"
| "plain (JObj kvs) =
     (distinct (map fst kvs) \<and> list_all id (map snd (map (map_prod id plain) kvs)))"

section \<open>Lemmas\<close>

subsection \<open>String literals\<close>

definition unitOf :: "char \<Rightarrow> char + nat" where
  "unitOf c =
     (if (of_char c :: nat) < 0x20 \<and> c \<notin> {CHR 0x08, CHR 0x0C, CHR 0x0A, CHR 0x0D, CHR 0x09}
      then Inr (of_char c) else Inl c)"

lemma joinUnits_small:
  "\<forall>h l. (Inr h) \<in> set us \<longrightarrow> h < 0x80 \<Longrightarrow> joinUnits (Inr n # us) = utf8 n @ joinUnits us"
  by (cases us rule: joinUnits.cases) auto

lemma joinUnits_unitOf [simp]: "joinUnits (map unitOf s) = s"
proof (induction s)
  case (Cons c s)
  have "\<forall>h. Inr h \<in> set (map unitOf s) \<longrightarrow> h < 0x80"
    by (auto simp: unitOf_def split: if_splits)
  then have "joinUnits (Inr n # map unitOf s) = utf8 n @ s" for n :: nat
    using Cons joinUnits_small by simp
  moreover have "unitOf c = Inl c \<or> unitOf c = Inr (of_char c) \<and> utf8 (of_char c) = [c]"
    by (auto simp: unitOf_def utf8_def)
  ultimately show ?case
    using Cons by auto
qed simp

lemma hexVal_hexDigit: "d < 16 \<Longrightarrow> hexVal (hexDigit d) = Some d"
proof -
  assume "d < 16"
  then have "d \<in> set [0..<16]" by simp
  moreover have "\<forall>d \<in> set [0..<16]. hexVal (hexDigit d) = Some d"
    by code_simp
  ultimately show ?thesis by blast
qed

lemma hex4_control:
  "(n::nat) < 0x20 \<Longrightarrow> hex4 (CHR ''0'') (CHR ''0'') (hexDigit (n div 16)) (hexDigit (n mod 16)) = Some n"
  by (simp add: hex4_def hexVal_hexDigit) (simp add: hexVal_def is_digit_def)

lemma pstr_escapeChar:
  "pstr (escapeChar c @ r) = push (unitOf c) (pstr r)"
  by (auto simp: escapeChar_def unitOf_def unescape_def hex4_control split: if_splits)

lemma pstr_quoted:
  "pstr (concat (map escapeChar s) @ CHR 0x22 # r) = Some (map unitOf s, r)"
  by (induction s) (simp_all add: pstr_escapeChar push_def)

lemma jquote_append: "jquote s @ r = CHR 0x22 # concat (map escapeChar s) @ CHR 0x22 # r"
  by (simp add: jquote_def)

subsection \<open>Parsing what was printed\<close>

definition opener :: "char \<Rightarrow> bool" where
  "opener c \<longleftrightarrow> \<not> is_ws c \<and> c \<noteq> CHR '']'' \<and> c \<noteq> CHR ''}'' \<and> c \<noteq> CHR '',''"

lemma stringify_opener: "plain v \<Longrightarrow> \<exists>c cs. stringify v = c # cs \<and> opener c"
  by (cases v) (auto simp: jquote_def opener_def is_ws_def)

lemma skipWs_opener [simp]: "opener c \<Longrightarrow> skipWs (c # cs) = c # cs"
  by (simp add: skipWs_def opener_def)

lemma skipWs_closers [simp]:
  "skipWs (CHR '']'' # s) = CHR '']'' # s" "skipWs (CHR ''}'' # s) = CHR ''}'' # s"
  "skipWs (CHR '','' # s) = CHR '','' # s" "skipWs (CHR '':'' # s) = CHR '':'' # s"
  "skipWs (CHR 0x22 # s) = CHR 0x22 # s" "skipWs [] = []"
  "skipWs (CHR ''['' # s) = CHR ''['' # s" "skipWs (CHR ''{'' # s) = CHR ''{'' # s"
  by (simp_all add: skipWs_def is_ws_def)

lemma skipWs_stringify: "plain v \<Longrightarrow> skipWs (stringify v @ r) = stringify v @ r"
  using stringify_opener [of v] by auto

lemma pval_str: "pval (Suc n) (jquote s @ r) = Some (JStr s, r)"
  unfolding jquote_append by (simp add: pstr_quoted)

definition member :: "string \<times> json \<Rightarrow> string" where
  "member kv = jquote (fst kv) @ '':'' @ stringify (snd kv)"

lemma stringify_JObj: "stringify (JObj kvs) = ''{'' @ commaSep (map member kvs) @ ''}''"
  by (simp add: member_def [abs_def] comp_def)

lemma member_append:
  "member kv @ r =
     CHR 0x22 # concat (map escapeChar (fst kv)) @ CHR 0x22 # CHR '':'' # stringify (snd kv) @ r"
  by (simp add: member_def jquote_def)

lemma commaSep_Cons:
  "xs \<noteq> [] \<Longrightarrow> commaSep (x # xs) = x @ '','' @ commaSep xs"
  by (cases xs) auto

lemma pelems_print:
  assumes IH: "\<And>v n r. v \<in> set vs \<Longrightarrow> Suc (2 * length (stringify v)) \<le> n \<Longrightarrow>
                 pval n (stringify v @ r) = Some (v, r)"
    and "vs \<noteq> []" and "2 * Suc (length (commaSep (map stringify vs))) \<le> n"
  shows "pelems n (commaSep (map stringify vs) @ CHR '']'' # r) = Some (vs, r)"
  using assms
proof (induction vs arbitrary: n)
  case (Cons v vs)
  then obtain m where n: "n = Suc m" by (cases n) auto
  show ?case
  proof (cases "vs = []")
    case True
    with Cons.prems n show ?thesis by simp
  next
    case False
    have rest: "pelems m (commaSep (map stringify vs) @ CHR '']'' # r) = Some (vs, r)"
      using Cons.IH [of m] Cons.prems False n by (simp add: commaSep_Cons)
    with Cons.prems False n show ?thesis
      by (simp add: commaSep_Cons push_def)
  qed
qed simp

lemma pmembers_print:
  assumes IH: "\<And>kv n r. kv \<in> set kvs \<Longrightarrow> Suc (2 * length (stringify (snd kv))) \<le> n \<Longrightarrow>
                 pval n (stringify (snd kv) @ r) = Some (snd kv, r)"
    and "kvs \<noteq> []" and "2 * Suc (length (commaSep (map member kvs))) \<le> n"
  shows "pmembers n (commaSep (map member kvs) @ CHR ''}'' # r) = Some (kvs, r)"
  using assms
proof (induction kvs arbitrary: n)
  case (Cons kv kvs)
  then obtain m where n: "n = Suc m" by (cases n) auto
  have len: "length (member kv) = length (jquote (fst kv)) + Suc (length (stringify (snd kv)))"
    by (simp add: member_def)
  show ?case
  proof (cases "kvs = []")
    case True
    with Cons.prems n len show ?thesis
      by (simp add: member_append pstr_quoted)
  next
    case False
    have rest: "pmembers m (commaSep (map member kvs) @ CHR ''}'' # r) = Some (kvs, r)"
      using Cons.IH [of m] Cons.prems False n len by (simp add: commaSep_Cons)
    with Cons.prems False n len show ?thesis
      by (simp add: commaSep_Cons push_def member_append pstr_quoted)
  qed
qed simp

lemma update_fresh: "k \<notin> fst ` set m \<Longrightarrow> AList.update k v m = m @ [(k, v)]"
  by (induction m) auto

lemma objOf_distinct: "distinct (map fst kvs) \<Longrightarrow> objOf kvs = JObj kvs"
proof -
  have "distinct (map fst (acc @ kvs)) \<Longrightarrow>
    foldl (\<lambda>m kv. AList.update (fst kv) (snd kv) m) acc kvs = acc @ kvs" for acc
  proof (induction kvs arbitrary: acc)
    case (Cons kv kvs)
    have "AList.update (fst kv) (snd kv) acc = acc @ [kv]"
      using Cons.prems by (subst update_fresh) auto
    with Cons.IH [of "acc @ [kv]"] Cons.prems show ?case by simp
  qed simp
  from this [of "[]"] show "distinct (map fst kvs) \<Longrightarrow> ?thesis"
    by (simp add: objOf_def)
qed

lemma pval_print:
  "plain v \<Longrightarrow> Suc (2 * length (stringify v)) \<le> n \<Longrightarrow> pval n (stringify v @ r) = Some (v, r)"
proof (induction v arbitrary: n r)
  case JNull
  then show ?case by (cases n) (simp_all add: plit_def startsWith_def is_ws_def skipWs_def)
next
  case (JBool b)
  then show ?case by (cases n) (auto simp: plit_def startsWith_def is_ws_def skipWs_def)
next
  case (JStr s)
  then show ?case by (cases n) (simp_all add: pval_str del: pval.simps)
next
  case (JArr vs)
  then obtain m where n: "n = Suc m" by (cases n) auto
  show ?case
  proof (cases vs)
    case (Cons w ws)
    have "plain w" using JArr.prems Cons by simp
    then obtain c cs where w: "stringify w = c # cs" "opener c"
      using stringify_opener by blast
    have "pelems m (commaSep (map stringify vs) @ CHR '']'' # r) = Some (vs, r)"
      using JArr n Cons by (intro pelems_print) (auto simp: list_all_iff)
    moreover obtain ds where "commaSep (map stringify vs) = c # ds"
      using w Cons by (cases ws) auto
    ultimately show ?thesis
      using n w(2) by (simp add: opener_def)
  qed (simp add: n)
next
  case (JObj kvs)
  then obtain m where n: "n = Suc m" by (cases n) auto
  show ?case
  proof (cases kvs)
    case (Cons kv rest)
    have "pmembers m (commaSep (map member kvs) @ CHR ''}'' # r) = Some (kvs, r)"
    proof (rule pmembers_print)
      fix x k r' assume x: "x \<in> set kvs" and k: "Suc (2 * length (stringify (snd x))) \<le> k"
      have "snd x \<in> Basic_BNFs.snds x" by (cases x) auto
      moreover have "plain (snd x)"
        using x JObj.prems by (auto simp: list_all_iff)
      ultimately show "pval k (stringify (snd x) @ r') = Some (snd x, r')"
        using JObj.IH x k by blast
    next
      show "2 * Suc (length (commaSep (map member kvs))) \<le> m"
        using JObj.prems(2) unfolding n stringify_JObj by simp
    qed (simp add: Cons)
    moreover obtain ds where "commaSep (map member kvs) = CHR 0x22 # ds"
      using Cons by (cases rest) (auto simp: member_def jquote_def)
    moreover have "objOf kvs = JObj kvs"
      using JObj.prems(1) by (simp add: objOf_distinct)
    ultimately show ?thesis
      unfolding stringify_JObj n by simp
  qed (simp add: n)
qed simp

lemma jparse_stringify: "plain v \<Longrightarrow> jparse (stringify v) = Some v"
  using pval_print [of v "Suc (2 * length (stringify v))" "[]"] by (simp add: jparse_def)

subsection \<open>The fuel is enough\<close>

lemma skipWs_length: "skipWs s = c # cs \<Longrightarrow> length cs < length s"
  by (metis Suc_le_eq length_Cons length_dropWhile_le skipWs_def)

lemma push_Some: "push u x = Some (us, r) \<longleftrightarrow> (\<exists>ws. us = u # ws \<and> x = Some (ws, r))"
  by (auto simp: push_def)

lemma pstr_rest: "pstr s = Some (us, r) \<Longrightarrow> length r < length s"
proof (induction "length s" arbitrary: s us rule: less_induct)
  case less
  have IH: "length r < n" if "pstr t = Some (ws, r)" "length t < length s" "length t \<le> n" for t ws n
    using less.hyps [OF that(2,1)] that(3) by simp
  show ?case
  proof (cases s)
    case (Cons c cs)
    have tails: "length r < length t" if "push u (pstr t) = Some (us, r)" "length t < length s" for u t
      using that IH [of t _ "length t"] by (auto simp: push_Some)
    from less.prems Cons show ?thesis
      by (auto split: if_splits list.splits option.splits) (drule tails, simp, simp)+
  qed (use less.prems in simp)
qed

lemma dropWhile_shorter: "takeWhile P s \<noteq> [] \<Longrightarrow> length (dropWhile P s) < length s"
  by (cases s) (auto simp: less_Suc_eq_le length_dropWhile_le split: if_splits)

lemma dropWhile_Suc: "length (dropWhile P s) \<le> n \<Longrightarrow> length (dropWhile P s) \<le> Suc n"
  by simp

lemma pexp_rest: "pexp m s = Some (v, r) \<Longrightarrow> length r \<le> length s"
  by (cases s; cases "tl s")
    (auto simp: pexp_def Let_def length_dropWhile_le split: if_splits intro!: dropWhile_Suc)

lemma pfrac_rest: "pfrac g m s = Some (v, r) \<Longrightarrow> length r \<le> length s"
  using dropWhile_shorter [of is_digit "tl s"]
  by (cases s) (auto simp: pfrac_def Let_def split: if_splits dest!: pexp_rest)

lemma pnum_rest: "pnum s = Some (v, r) \<Longrightarrow> length r < length s"
  using dropWhile_shorter [of is_digit s] dropWhile_shorter [of is_digit "tl s"]
  by (cases s) (auto simp: pnum_def Let_def split: if_splits dest!: pfrac_rest)

lemma plit_rest: "plit w x s = Some (v, r) \<Longrightarrow> w \<noteq> [] \<Longrightarrow> length r < length s"
  by (cases s) (auto simp: plit_def startsWith_def split: if_splits)

lemma parser_rest:
  "pval n s = Some (v, r) \<Longrightarrow> length r < length s"
  "pelems n s = Some (vs, r) \<Longrightarrow> length r < length s"
  "pmembers n s = Some (kvs, r) \<Longrightarrow> length r < length s"
proof (induction n s and n s and n s arbitrary: v r and vs r and kvs r
       rule: pval_pelems_pmembers.induct)
  case (2 n s)
  then show ?case
    by (auto split: list.splits if_splits dest!: skipWs_length pstr_rest pnum_rest plit_rest) fastforce+
next
  case (4 n s)
  then show ?case
    by (fastforce simp: push_Some split: list.splits if_splits option.splits dest!: skipWs_length)
next
  case (6 n s)
  then show ?case
    by (fastforce simp: push_Some split: list.splits if_splits option.splits
          dest!: skipWs_length pstr_rest)
qed simp_all

lemma parser_stable:
  "(2 * length s < m \<longrightarrow> 2 * length s < n \<longrightarrow> pval m s = pval n s) \<and>
   (2 * length s + 2 \<le> m \<longrightarrow> 2 * length s + 2 \<le> n \<longrightarrow>
      pelems m s = pelems n s \<and> pmembers m s = pmembers n s)"
proof (induction "length s" arbitrary: s m n rule: less_induct)
  case less
  have pv: "pval m s = pval n s" if b: "2 * length s < m" "2 * length s < n" for m n
  proof -
    obtain m' n' where mn: "m = Suc m'" "n = Suc n'" using b by (cases m; cases n) auto
    have "skipWs s = c # cs \<Longrightarrow> pelems m' cs = pelems n' cs \<and> pmembers m' cs = pmembers n' cs" for c cs
      using less [of cs m' n'] b mn skipWs_length [of s c cs] by simp
    then show ?thesis by (auto simp: mn split: list.splits)
  qed
  moreover have "pelems m s = pelems n s" if b: "2 * length s + 2 \<le> m" "2 * length s + 2 \<le> n" for m n
  proof -
    obtain m' n' where mn: "m = Suc m'" "n = Suc n'" using b by (cases m; cases n) auto
    have "pval m' s = pval n' s" using pv b mn by simp
    moreover have "pelems m' ds = pelems n' ds"
      if "pval n' s = Some (v, r)" "skipWs r = d # ds" for v r d ds
      using less [of ds m' n'] parser_rest(1) [OF that(1)] skipWs_length [OF that(2)]
        b mn by simp
    ultimately show ?thesis by (auto simp: mn split: option.splits list.splits)
  qed
  moreover have "pmembers m s = pmembers n s" if b: "2 * length s + 2 \<le> m" "2 * length s + 2 \<le> n" for m n
  proof -
    obtain m' n' where mn: "m = Suc m'" "n = Suc n'" using b by (cases m; cases n) auto
    have v: "pval m' ds = pval n' ds"
      if "skipWs s = q # qs" "pstr qs = Some (us, r)" "skipWs r = d # ds" for q qs us r d ds
      using less [of ds m' n'] skipWs_length [OF that(1)] pstr_rest [OF that(2)] skipWs_length [OF that(3)]
        b mn by simp
    have k: "pmembers m' es = pmembers n' es"
      if "skipWs s = q # qs" "pstr qs = Some (us, r)" "skipWs r = d # ds"
        "pval n' ds = Some (w, r')" "skipWs r' = e # es" for q qs us r d ds w r' e es
      using less [of es m' n'] skipWs_length [OF that(1)] pstr_rest [OF that(2)] skipWs_length [OF that(3)]
        parser_rest(1) [OF that(4)] skipWs_length [OF that(5)]
        b mn by simp
    show ?thesis
      by (auto simp: mn v k split: option.splits list.splits)
  qed
  ultimately show ?case by blast
qed

lemma pval_enough: "Suc (2 * length s) \<le> n \<Longrightarrow> pval n s = pval (Suc (2 * length s)) s"
  using parser_stable [of s n "Suc (2 * length s)"] by simp

text \<open>What the clients of the codec rely on.\<close>

locale json_codec =
  fixes encode :: "json \<Rightarrow> string"
    and decode :: "string \<Rightarrow> json option"
    and storable :: "json \<Rightarrow> bool"
  assumes decode_encode: "storable v \<Longrightarrow> decode (encode v) = Some v"
begin

lemma encode_inj: "storable v \<Longrightarrow> storable w \<Longrightarrow> encode v = encode w \<Longrightarrow> v = w"
  using decode_encode by (metis option.inject)

lemma stored_field:
  "storable v \<Longrightarrow> map_option (\<lambda>x. jfield x k) (decode (encode v)) = Some (jfield v k)"
  by (simp add: decode_encode)

end

interpretation codec: json_codec stringify jparse plain
  by unfold_locales (rule jparse_stringify)


end
