(* ===== verification/Auth_Lib.thy ===== *)
theory Auth_Lib
  imports Json
begin

text \<open>
  \<open>frontend/src/lib/auth.ts\<close> and \<open>types/auth.ts\<close>: the tenant-scoped token store in
  \<open>localStorage\<close> and the decoding of a JSON web token, with the browser functions it calls
  (\<open>atob\<close>, \<open>decodeURIComponent\<close>) written out. The lemmas show the store's laws (what a read
  returns after logins for several tenants, what a sweep removes and leaves alone) and that
  decoding inverts the encoding of a token's payload.
\<close>

section \<open>The token store\<close>

definition TOKEN_KEY :: "string \<Rightarrow> string" where
  "TOKEN_KEY tenantId = ''Frixel Connect_token_'' @ tenantId"

definition REFRESH_KEY :: "string \<Rightarrow> string" where
  "REFRESH_KEY tenantId = ''Frixel Connect_refresh_'' @ tenantId"

definition ACTIVE_TENANT_KEY :: string where
  "ACTIVE_TENANT_KEY = ''Frixel Connect_active_tenant''"

definition saveToken :: "string \<Rightarrow> string \<Rightarrow> storage \<Rightarrow> storage" where
  "saveToken token tenantId s =
     setItem ACTIVE_TENANT_KEY tenantId (setItem (TOKEN_KEY tenantId) token s)"

definition getToken :: "storage \<Rightarrow> string option" where
  "getToken s =
     (case getItem s ACTIVE_TENANT_KEY of
        None \<Rightarrow> None
      | Some tenantId \<Rightarrow> if tenantId = [] then None else getItem s (TOKEN_KEY tenantId))"

definition getTokenForTenant :: "storage \<Rightarrow> string \<Rightarrow> string option" where
  "getTokenForTenant s tenantId = getItem s (TOKEN_KEY tenantId)"

definition clearToken :: "storage \<Rightarrow> storage" where
  "clearToken s =
     removeItem ACTIVE_TENANT_KEY
       (case getItem s ACTIVE_TENANT_KEY of
          None \<Rightarrow> s
        | Some tenantId \<Rightarrow>
            if tenantId = [] then s
            else removeItem (REFRESH_KEY tenantId) (removeItem (TOKEN_KEY tenantId) s))"

definition clearAllTenantTokens :: "storage \<Rightarrow> storage" where
  "clearAllTenantTokens s =
     (let s1 = fold removeItem
                 (filter (\<lambda>k. startsWith k ''Frixel Connect_token_'') (objectKeys s)) s;
          s2 = fold removeItem
                 (filter (\<lambda>k. startsWith k ''Frixel Connect_refresh_'') (objectKeys s1)) s1
      in removeItem ACTIVE_TENANT_KEY s2)"

definition saveRefreshToken :: "string \<Rightarrow> string \<Rightarrow> storage \<Rightarrow> storage" where
  "saveRefreshToken token tenantId s = setItem (REFRESH_KEY tenantId) token s"

definition getRefreshToken :: "storage \<Rightarrow> string option" where
  "getRefreshToken s =
     (case getItem s ACTIVE_TENANT_KEY of
        None \<Rightarrow> None
      | Some tenantId \<Rightarrow> if tenantId = [] then None else getItem s (REFRESH_KEY tenantId))"

definition clearRefreshToken :: "storage \<Rightarrow> storage" where
  "clearRefreshToken s =
     (case getItem s ACTIVE_TENANT_KEY of
        None \<Rightarrow> s
      | Some tenantId \<Rightarrow> if tenantId = [] then s else removeItem (REFRESH_KEY tenantId) s)"

section \<open>Decoding a token\<close>

text \<open>\<open>window.atob\<close>: white space is dropped, up to two padding characters are dropped from a
  text whose length is a multiple of four, and what is left must be base64 of a length that
  is not one more than a multiple of four.\<close>

definition b64alphabet :: string where
  "b64alphabet = ''ABCDEFGHIJKLMNOPQRSTUVWXYZabcdefghijklmnopqrstuvwxyz0123456789+/''"

definition b64val :: "char \<Rightarrow> nat option" where
  "b64val c =
     (if c \<in> set b64alphabet
      then Some (length (takeWhile (\<lambda>x. x \<noteq> c) b64alphabet)) else None)"

fun b64bytes :: "nat list \<Rightarrow> nat list" where
  "b64bytes (a # b # c # d # r) =
     [a * 4 + b div 16, b mod 16 * 16 + c div 4, c mod 4 * 64 + d] @ b64bytes r"
| "b64bytes [a, b, c] = [a * 4 + b div 16, b mod 16 * 16 + c div 4]"
| "b64bytes [a, b] = [a * 4 + b div 16]"
| "b64bytes _ = []"

definition dropPad :: "string \<Rightarrow> string" where
  "dropPad s =
     (if length s mod 4 \<noteq> 0 then s
      else case rev s of
        x # y # r \<Rightarrow> if x = CHR ''='' \<and> y = CHR ''='' then rev r
                     else if x = CHR ''='' then rev (y # r) else s
      | _ \<Rightarrow> s)"

definition atob :: "string \<Rightarrow> string option" where
  "atob s =
     (let t = dropPad (filter (\<lambda>c. c \<notin> {CHR 0x09, CHR 0x0A, CHR 0x0C, CHR 0x0D, CHR 0x20}) s)
      in if length t mod 4 = 1 \<or> (\<exists>c \<in> set t. b64val c = None) then None
         else Some (map char_of (b64bytes (map (\<lambda>c. the (b64val c)) t))))"

text \<open>Well-formed UTF-8: no overlong forms, no surrogates, nothing above U+10FFFF.\<close>

definition cont :: "nat \<Rightarrow> bool" where
  "cont b \<longleftrightarrow> 0x80 \<le> b \<and> b < 0xC0"

fun utf8Valid :: "nat list \<Rightarrow> bool" where
  "utf8Valid [] = True"
| "utf8Valid (a # r) =
     (if a < 0x80 then utf8Valid r
      else if 0xC2 \<le> a \<and> a < 0xE0 then
        (case r of b # r' \<Rightarrow> cont b \<and> utf8Valid r' | _ \<Rightarrow> False)
      else if 0xE0 \<le> a \<and> a < 0xF0 then
        (case r of
           b # c # r' \<Rightarrow> cont b \<and> cont c \<and> (a = 0xE0 \<longrightarrow> 0xA0 \<le> b) \<and> (a = 0xED \<longrightarrow> b < 0xA0)
                        \<and> utf8Valid r'
         | _ \<Rightarrow> False)
      else if 0xF0 \<le> a \<and> a < 0xF5 then
        (case r of
           b # c # d # r' \<Rightarrow> cont b \<and> cont c \<and> cont d \<and> (a = 0xF0 \<longrightarrow> 0x90 \<le> b)
                            \<and> (a = 0xF4 \<longrightarrow> b < 0x90) \<and> utf8Valid r'
         | _ \<Rightarrow> False)
      else False)"

text \<open>\<open>'%' + ('00' + c.charCodeAt(0).toString(16)).slice(-2)\<close>\<close>

definition pct :: "char \<Rightarrow> string" where
  "pct c = [CHR ''%'', hexDigit (of_char c div 16), hexDigit (of_char c mod 16)]"

fun pctBytes :: "string \<Rightarrow> string option" where
  "pctBytes [] = Some []"
| "pctBytes (c # r) =
     (if c = CHR ''%'' then
        (case r of
           a # b # r' \<Rightarrow>
             (case (hexVal a, hexVal b) of
                (Some i, Some j) \<Rightarrow> map_option (\<lambda>t. char_of (i * 16 + j) # t) (pctBytes r')
              | _ \<Rightarrow> None)
         | _ \<Rightarrow> None)
      else map_option (\<lambda>t. c # t) (pctBytes r))"

definition decodeURIComponent :: "string \<Rightarrow> string option" where
  "decodeURIComponent s =
     (case pctBytes s of
        None \<Rightarrow> None
      | Some bs \<Rightarrow> if utf8Valid (map of_char bs) then Some bs else None)"

text \<open>\<open>DecodedToken\<close>. The cast in the source is unchecked, so each claim may be missing; a
  claim that is not of the declared type counts as missing.\<close>

record decoded_token =
  dt_sub :: "string option"
  dt_role :: "string option"
  dt_reseller_id :: "string option"
  dt_tenant_id :: "string option"
  dt_tenant_status :: "string option"
  dt_exp :: "rat option"
  dt_iat :: "rat option"

definition castToken :: "json \<Rightarrow> decoded_token option" where
  "castToken v =
     (if jtruthy v
      then Some \<lparr> dt_sub = jfield_str v ''sub'', dt_role = jfield_str v ''role'',
                  dt_reseller_id = jfield_str v ''reseller_id'',
                  dt_tenant_id = jfield_str v ''tenant_id'',
                  dt_tenant_status = jfield_str v ''tenant_status'',
                  dt_exp = jfield_num v ''exp'', dt_iat = jfield_num v ''iat'' \<rparr>
      else None)"

text \<open>\<open>replace(/-/g, '+').replace(/_/g, '/')\<close>\<close>

definition fromBase64Url :: "string \<Rightarrow> string" where
  "fromBase64Url s =
     map (\<lambda>c. if c = CHR ''_'' then CHR ''/'' else c)
       (map (\<lambda>c. if c = CHR ''-'' then CHR ''+'' else c) s)"

definition tokenPayload :: "string \<Rightarrow> json option" where
  "tokenPayload token =
     (case splitOn (CHR ''.'') token of
        _ # base64Url # _ \<Rightarrow>
          if base64Url = [] then None
          else (case atob (fromBase64Url base64Url) of
                  None \<Rightarrow> None
                | Some raw \<Rightarrow>
                    (case decodeURIComponent (concat (map pct raw)) of
                       None \<Rightarrow> None
                     | Some jsonPayload \<Rightarrow> jparse jsonPayload))
      | _ \<Rightarrow> None)"

definition decodeToken :: "string \<Rightarrow> decoded_token option" where
  "decodeToken token = Option.bind (tokenPayload token) castToken"

text \<open>\<open>decoded.exp < Date.now() / 1000\<close>; a missing \<open>exp\<close> compares false.\<close>

definition isTokenExpired :: "int \<Rightarrow> string \<Rightarrow> bool" where
  "isTokenExpired now token =
     (case decodeToken token of
        None \<Rightarrow> True
      | Some d \<Rightarrow> (case dt_exp d of None \<Rightarrow> False | Some e \<Rightarrow> e < of_int now / 1000))"

text \<open>\<open>decoded?.role || null\<close> and \<open>decoded?.sub || null\<close>.\<close>

definition nonEmpty :: "string option \<Rightarrow> string option" where
  "nonEmpty x = (if truthy x then x else None)"

definition getUserRole :: "storage \<Rightarrow> string option" where
  "getUserRole s =
     (case getToken s of
        None \<Rightarrow> None
      | Some token \<Rightarrow>
          if token = [] then None
          else Option.bind (decodeToken token) (\<lambda>d. nonEmpty (dt_role d)))"

definition getUserId :: "storage \<Rightarrow> string option" where
  "getUserId s =
     (case getToken s of
        None \<Rightarrow> None
      | Some token \<Rightarrow>
          if token = [] then None
          else Option.bind (decodeToken token) (\<lambda>d. nonEmpty (dt_sub d)))"

section \<open>The token store: lemmas\<close>

lemma key_simps [simp]:
  "TOKEN_KEY a = TOKEN_KEY b \<longleftrightarrow> a = b"
  "REFRESH_KEY a = REFRESH_KEY b \<longleftrightarrow> a = b"
  "TOKEN_KEY a \<noteq> REFRESH_KEY b" "REFRESH_KEY b \<noteq> TOKEN_KEY a"
  "TOKEN_KEY a \<noteq> ACTIVE_TENANT_KEY" "ACTIVE_TENANT_KEY \<noteq> TOKEN_KEY a"
  "REFRESH_KEY a \<noteq> ACTIVE_TENANT_KEY" "ACTIVE_TENANT_KEY \<noteq> REFRESH_KEY a"
  by (auto simp: TOKEN_KEY_def REFRESH_KEY_def ACTIVE_TENANT_KEY_def)

text \<open>A key of the tenant session: what the sweep removes.\<close>

definition session_key :: "string \<Rightarrow> bool" where
  "session_key k \<longleftrightarrow>
     startsWith k ''Frixel Connect_token_'' \<or> startsWith k ''Frixel Connect_refresh_''
     \<or> k = ACTIVE_TENANT_KEY"

lemma session_key_simps [simp]:
  "session_key (TOKEN_KEY t)" "session_key (REFRESH_KEY t)" "session_key ACTIVE_TENANT_KEY"
  by (simp_all add: session_key_def TOKEN_KEY_def REFRESH_KEY_def del: append_Cons)

lemma getItem_clearAll [storage_simps]:
  "getItem (clearAllTenantTokens s) k = (if session_key k then None else getItem s k)"
  by (simp add: clearAllTenantTokens_def Let_def storage_simps session_key_def)

lemma getItem_saveToken [storage_simps]:
  "getItem (saveToken t tid s) k =
     (if k = ACTIVE_TENANT_KEY then Some tid else if k = TOKEN_KEY tid then Some t else getItem s k)"
  by (simp add: saveToken_def storage_simps)

lemma getItem_saveRefreshToken [storage_simps]:
  "getItem (saveRefreshToken t tid s) k = (if k = REFRESH_KEY tid then Some t else getItem s k)"
  by (simp add: saveRefreshToken_def storage_simps)

lemma getItem_clearToken_other [storage_simps]:
  "\<not> session_key k \<Longrightarrow> getItem (clearToken s) k = getItem s k"
  by (auto simp: clearToken_def storage_simps split: option.splits)

lemma getItem_clearRefreshToken_other [storage_simps]:
  "\<not> session_key k \<Longrightarrow> getItem (clearRefreshToken s) k = getItem s k"
  by (auto simp: clearRefreshToken_def storage_simps split: option.splits)

lemma clearToken_reads [simp]:
  "getToken (clearToken s) = None" "getRefreshToken (clearToken s) = None"
  by (simp_all add: getToken_def getRefreshToken_def clearToken_def storage_simps)

lemma clearAll_reads [simp]:
  "getToken (clearAllTenantTokens s) = None" "getRefreshToken (clearAllTenantTokens s) = None"
  "getTokenForTenant (clearAllTenantTokens s) tid = None"
  by (simp_all add: getToken_def getRefreshToken_def getTokenForTenant_def storage_simps)

lemma saveToken_reads [simp]:
  "tid \<noteq> [] \<Longrightarrow> getToken (saveToken t tid s) = Some t"
  "tid \<noteq> [] \<Longrightarrow> getToken (saveRefreshToken r tid (saveToken t tid s)) = Some t"
  "tid \<noteq> [] \<Longrightarrow> getRefreshToken (saveRefreshToken r tid (saveToken t tid s)) = Some r"
  by (simp_all add: getToken_def getRefreshToken_def storage_simps)

lemma getToken_clearRefreshToken [simp]: "getToken (clearRefreshToken s) = getToken s"
  by (auto simp: getToken_def clearRefreshToken_def storage_simps split: option.splits)

text \<open>
  The contract of a store of sessions by tenant: the last save is the active session, a save
  touches one tenant only, a wipe leaves nothing. What a history of logins leaves behind is
  proved here once.
\<close>

locale tenant_sessions =
  fixes save :: "'v \<Rightarrow> string \<Rightarrow> 's \<Rightarrow> 's"
    and active :: "'s \<Rightarrow> 'v option"
    and session_of :: "'s \<Rightarrow> string \<Rightarrow> 'v option"
    and wipe :: "'s \<Rightarrow> 's"
  assumes active_save: "tid \<noteq> [] \<Longrightarrow> active (save v tid s) = Some v"
    and session_of_save:
      "session_of (save v tid s) tid' = (if tid' = tid then Some v else session_of s tid')"
    and active_wipe: "active (wipe s) = None"
    and session_of_wipe: "session_of (wipe s) tid = None"
begin

definition logins :: "('v \<times> string) list \<Rightarrow> 's \<Rightarrow> 's" where
  "logins h s = fold (\<lambda>(v, tid). save v tid) h s"

lemma active_logins:
  "h \<noteq> [] \<Longrightarrow> snd (last h) \<noteq> [] \<Longrightarrow> active (logins h s) = Some (fst (last h))"
  by (cases h rule: rev_cases) (auto simp: logins_def active_save split: prod.splits)

lemma session_of_logins:
  "session_of (logins h s) tid =
     (case find (\<lambda>e. snd e = tid) (rev h) of Some e \<Rightarrow> Some (fst e) | None \<Rightarrow> session_of s tid)"
proof (induction h rule: rev_induct)
  case (snoc e h)
  then show ?case by (cases e) (auto simp: logins_def session_of_save)
qed (simp add: logins_def)

lemma wiped_history: "session_of (wipe (logins h s)) tid = None" "active (wipe (logins h s)) = None"
  by (simp_all add: session_of_wipe active_wipe)

end

interpretation tokens: tenant_sessions saveToken getToken getTokenForTenant clearAllTenantTokens
  by unfold_locales (auto simp: getTokenForTenant_def storage_simps)

section \<open>Decoding: lemmas\<close>

text \<open>The encoding a token issuer applies to the payload: base64 with the URL alphabet and no
  padding.\<close>

definition b64urlAlphabet :: string where
  "b64urlAlphabet = ''ABCDEFGHIJKLMNOPQRSTUVWXYZabcdefghijklmnopqrstuvwxyz0123456789-_''"

fun b64sextets :: "nat list \<Rightarrow> nat list" where
  "b64sextets (a # b # c # r) =
     [a div 4, a mod 4 * 16 + b div 16, b mod 16 * 4 + c div 64, c mod 64] @ b64sextets r"
| "b64sextets [a, b] = [a div 4, a mod 4 * 16 + b div 16, b mod 16 * 4]"
| "b64sextets [a] = [a div 4, a mod 4 * 16]"
| "b64sextets [] = []"

definition b64urlEncode :: "string \<Rightarrow> string" where
  "b64urlEncode s = map (\<lambda>n. b64urlAlphabet ! n) (b64sextets (map of_char s))"

definition mkToken :: "string \<Rightarrow> string \<Rightarrow> string \<Rightarrow> string" where
  "mkToken header payload signature =
     header @ ''.'' @ b64urlEncode payload @ ''.'' @ signature"

lemma b64bytes_sextets: "\<forall>x \<in> set bs. x < 256 \<Longrightarrow> b64bytes (b64sextets bs) = bs"
proof (induction bs rule: b64sextets.induct)
  case (1 a b c r)
  have "a div 4 * 4 + (a mod 4 * 16 + b div 16) div 16 = a"
    "(a mod 4 * 16 + b div 16) mod 16 * 16 + (b mod 16 * 4 + c div 64) div 4 = b"
    "(b mod 16 * 4 + c div 64) mod 4 * 64 + c mod 64 = c"
    using "1.prems" by auto
  with 1 show ?case by simp
next
  case (2 a b)
  have "a div 4 * 4 + (a mod 4 * 16 + b div 16) div 16 = a"
    "(a mod 4 * 16 + b div 16) mod 16 * 16 + (b mod 16 * 4) div 4 = b"
    using "2.prems" by auto
  then show ?case by simp
next
  case (3 a)
  have "a div 4 * 4 + (a mod 4 * 16) div 16 = a" by presburger
  then show ?case by simp
qed simp

lemma b64sextets_bound: "\<forall>x \<in> set bs. x < 256 \<Longrightarrow> \<forall>y \<in> set (b64sextets bs). y < 64"
  by (induction bs rule: b64sextets.induct) auto

lemma b64sextets_length: "length (b64sextets bs) mod 4 \<noteq> 1"
  by (induction bs rule: b64sextets.induct) auto

lemma b64sextets_Nil: "b64sextets bs = [] \<longleftrightarrow> bs = []"
  by (cases bs rule: b64sextets.cases) auto

lemma b64url_table:
  "\<forall>n \<in> set [0..<64]. b64urlAlphabet ! n \<notin> {CHR 0x09, CHR 0x0A, CHR 0x0C, CHR 0x0D, CHR 0x20, CHR ''='', CHR ''.''}
     \<and> hd (fromBase64Url [b64urlAlphabet ! n]) \<notin> {CHR 0x09, CHR 0x0A, CHR 0x0C, CHR 0x0D, CHR 0x20, CHR ''=''}
     \<and> b64val (hd (fromBase64Url [b64urlAlphabet ! n])) = Some n"
  by code_simp

lemma fromBase64Url_map: "fromBase64Url s = map (\<lambda>c. hd (fromBase64Url [c])) s"
  by (simp add: fromBase64Url_def)

lemma filter_id: "\<forall>x \<in> set xs. P x \<Longrightarrow> filter P xs = xs"
  by (induction xs) auto

lemma dropPad_free: "CHR ''='' \<notin> set s \<Longrightarrow> dropPad s = s"
  by (auto simp: dropPad_def rev_swap split: list.splits)

lemma atob_encode: "atob (fromBase64Url (b64urlEncode s)) = Some s"
proof -
  let ?bs = "map of_char s :: nat list"
  let ?t = "fromBase64Url (b64urlEncode s)"
  have b: "\<forall>x \<in> set ?bs. x < 256" by (auto simp: of_char_def)
  have t: "?t = map (\<lambda>n. hd (fromBase64Url [b64urlAlphabet ! n])) (b64sextets ?bs)"
    by (subst fromBase64Url_map) (simp add: b64urlEncode_def)
  have tab: "y \<in> set (b64sextets ?bs) \<Longrightarrow>
      hd (fromBase64Url [b64urlAlphabet ! y]) \<notin> {CHR 0x09, CHR 0x0A, CHR 0x0C, CHR 0x0D, CHR 0x20, CHR ''=''}
      \<and> b64val (hd (fromBase64Url [b64urlAlphabet ! y])) = Some y" for y
    using b64url_table b64sextets_bound [OF b] by simp
  have f: "filter (\<lambda>c. c \<notin> {CHR 0x09, CHR 0x0A, CHR 0x0C, CHR 0x0D, CHR 0x20}) ?t = ?t"
    using tab unfolding t by (intro filter_id) auto
  moreover have "dropPad ?t = ?t"
    using tab unfolding t by (intro dropPad_free) force
  moreover have "length ?t mod 4 \<noteq> 1"
    using b64sextets_length [of ?bs] unfolding t by simp
  moreover have "\<forall>c \<in> set ?t. b64val c \<noteq> None"
    using tab unfolding t by auto
  moreover have "map (\<lambda>c. the (b64val c)) ?t = b64sextets ?bs"
    using tab unfolding t by (simp add: comp_def map_idI)
  ultimately show ?thesis
    using b64bytes_sextets [OF b] by (simp add: atob_def Let_def comp_def)
qed

lemma pctBytes_pct: "pctBytes (concat (map pct bs)) = Some bs"
proof (induction bs)
  case (Cons c bs)
  have "(of_char c :: nat) div 16 < 16"
    by (rule less_mult_imp_div_less) simp
  then have "hexVal (hexDigit (of_char c div 16)) = Some (of_char c div 16)"
    "hexVal (hexDigit (of_char c mod 16)) = Some (of_char c mod 16)"
    by (simp_all add: hexVal_hexDigit)
  with Cons show ?case by (simp add: pct_def)
qed simp

lemma b64urlEncode_no_dot: "CHR ''.'' \<notin> set (b64urlEncode s)"
proof -
  have "\<forall>y \<in> set (b64sextets (map of_char s)). y < 64"
    by (rule b64sextets_bound) simp
  then show ?thesis
    using b64url_table by (auto simp: b64urlEncode_def)
qed

lemma tokenPayload_mkToken:
  assumes "CHR ''.'' \<notin> set h" and "p \<noteq> []"
  shows "tokenPayload (mkToken h p sg) =
    (if utf8Valid (map of_char p) then jparse p else None)"
proof -
  have "b64urlEncode p \<noteq> []"
    using assms(2) by (simp add: b64urlEncode_def b64sextets_Nil)
  moreover have "splitOn (CHR ''.'') (mkToken h p sg) = h # b64urlEncode p # splitOn (CHR ''.'') sg"
    using assms(1) b64urlEncode_no_dot by (simp add: mkToken_def splitOn_append)
  ultimately show ?thesis
    by (simp add: tokenPayload_def atob_encode decodeURIComponent_def pctBytes_pct)
qed

lemma decodeToken_mkToken:
  assumes "CHR ''.'' \<notin> set h" and "plain v" and "utf8Valid (map of_char (stringify v))"
  shows "decodeToken (mkToken h (stringify v) sg) = castToken v"
proof -
  have "stringify v \<noteq> []"
    using stringify_opener [OF assms(2)] by auto
  then show ?thesis
    using assms by (simp add: decodeToken_def tokenPayload_mkToken jparse_stringify)
qed

text \<open>A concrete token for tenant \<open>t1\<close>, used to instantiate the properties.\<close>

definition sampleClaims :: json where
  "sampleClaims = JObj [(''sub'', JStr ''u1''), (''role'', JStr ''admin''), (''tenant_id'', JStr ''t1'')]"

definition sampleToken :: string where
  "sampleToken = mkToken ''h'' (stringify sampleClaims) ''s''"

lemma decode_sampleToken:
  "decodeToken sampleToken =
     Some \<lparr>dt_sub = Some ''u1'', dt_role = Some ''admin'', dt_reseller_id = None,
           dt_tenant_id = Some ''t1'', dt_tenant_status = None, dt_exp = None, dt_iat = None\<rparr>"
proof -
  have "utf8Valid (map of_char (stringify sampleClaims))" by code_simp
  then have "decodeToken sampleToken = castToken sampleClaims"
    unfolding sampleToken_def by (intro decodeToken_mkToken) (simp_all add: sampleClaims_def)
  also have "\<dots> = Some \<lparr>dt_sub = Some ''u1'', dt_role = Some ''admin'', dt_reseller_id = None,
           dt_tenant_id = Some ''t1'', dt_tenant_status = None, dt_exp = None, dt_iat = None\<rparr>"
    by (simp add: castToken_def sampleClaims_def jtruthy_def jfield_str_def jfield_num_def jfield_def)
  finally show ?thesis .
qed

lemma sampleToken_fresh [simp]: "\<not> isTokenExpired now sampleToken"
  by (simp add: isTokenExpired_def decode_sampleToken)

lemma sampleToken_not_Nil [simp]: "sampleToken \<noteq> []"
  by (simp add: sampleToken_def mkToken_def)

section \<open>Properties\<close>

text \<open>C13: sessions of different tenants do not mix: after any history of saved tokens, the
  active token is the last one saved, each tenant's token is the last one saved for it (or
  what was there before), and a sweep of the store leaves none.\<close>

theorem tenant_tokens_do_not_mix:
  assumes "h \<noteq> []" and "snd (last h) \<noteq> []"
  shows "let s' = fold (\<lambda>(t, tid). saveToken t tid) h s in
      getToken s' = Some (fst (last h))
      \<and> getTokenForTenant s' tid =
          (case find (\<lambda>e. snd e = tid) (rev h) of
             Some e \<Rightarrow> Some (fst e) | None \<Rightarrow> getTokenForTenant s tid)
      \<and> getTokenForTenant (clearAllTenantTokens s') tid = None
      \<and> getToken (clearAllTenantTokens s') = None"
  using assms tokens.active_logins [of h s] tokens.session_of_logins [of h s tid]
  by (simp add: tokens.logins_def)

theorem tenant_tokens_do_not_mix_witness:
  "let s' = fold (\<lambda>(t, tid). saveToken t tid) [(''a'', ''t1''), (''b'', ''t2'')] [] in
      getToken s' = Some ''b''
      \<and> getTokenForTenant s' ''t1'' =
          (case find (\<lambda>e. snd e = ''t1'') (rev [(''a'', ''t1''), (''b'', ''t2'')]) of
             Some e \<Rightarrow> Some (fst e) | None \<Rightarrow> getTokenForTenant [] ''t1'')
      \<and> getTokenForTenant (clearAllTenantTokens s') ''t1'' = None
      \<and> getToken (clearAllTenantTokens s') = None"
  using tenant_tokens_do_not_mix [of "[(''a'', ''t1''), (''b'', ''t2'')]" "[]" "''t1''"] by simp

text \<open>The sweep on logout removes exactly the tenant session: a key keeps its value
  unless it is an access token, a refresh token or the active-tenant marker, and those are
  all gone.\<close>

lemma sweep_is_exact:
  "getItem (clearAllTenantTokens s) k =
     (if startsWith k ''Frixel Connect_token_'' \<or> startsWith k ''Frixel Connect_refresh_''
         \<or> k = ACTIVE_TENANT_KEY
      then None else getItem s k)"
  by (simp add: getItem_clearAll session_key_def)

text \<open>C14: decoding inverts the encoding of a token: for every token whose payload is the
  URL-safe base64 of a non-empty text, \<open>decodeToken\<close> reads the claims of that JSON text if
  it is UTF-8 and parses, and returns null otherwise; for claims without numbers printed by
  \<open>JSON.stringify\<close> it returns exactly those claims.\<close>

theorem decodeToken_inverts_encoding:
  assumes "CHR ''.'' \<notin> set h" and "p \<noteq> []"
  shows "decodeToken (mkToken h p sg) =
      (if utf8Valid (map of_char p) then Option.bind (jparse p) castToken else None)
    \<and> (if plain v \<and> p = stringify v \<and> utf8Valid (map of_char p)
       then decodeToken (mkToken h p sg) = castToken v else True)"
  using assms by (auto simp: decodeToken_def tokenPayload_mkToken jparse_stringify)

theorem decodeToken_inverts_encoding_witness:
  "decodeToken (mkToken ''h'' (stringify sampleClaims) ''s'') =
      (if utf8Valid (map of_char (stringify sampleClaims))
       then Option.bind (jparse (stringify sampleClaims)) castToken else None)
    \<and> (if plain sampleClaims \<and> stringify sampleClaims = stringify sampleClaims
          \<and> utf8Valid (map of_char (stringify sampleClaims))
       then decodeToken (mkToken ''h'' (stringify sampleClaims) ''s'') = castToken sampleClaims
       else True)"
proof -
  have "CHR ''.'' \<notin> set ''h''" by simp
  moreover have "stringify sampleClaims \<noteq> []" by (simp add: sampleClaims_def)
  ultimately show ?thesis by (rule decodeToken_inverts_encoding)
qed

end
