(* ===== verification/Format.thy ===== *)
theory Format
  imports Prelude
begin

text \<open>
  The formatting and validation helpers shared by the pages: \<open>lib/formatDuration.ts\<close>,
  \<open>formatPhone\<close> of \<open>lib/utils.ts\<close>, and the Kenyan phone number pattern the purchase and
  registration forms check. The lemmas show that no two durations share a label, and that
  every accepted way of writing a phone number is displayed as the same local number.
\<close>

section \<open>Definitions\<close>

definition plural :: "int \<Rightarrow> string" where
  "plural n = (if n \<noteq> 1 then ''s'' else [])"

definition formatDuration :: "int \<Rightarrow> string" where
  "formatDuration minutes =
     (if minutes mod 1440 = 0 then
        (let days = minutes div 1440 in showInt days @ '' Day'' @ plural days)
      else if minutes mod 60 = 0 then
        (let hours = minutes div 60 in showInt hours @ '' Hour'' @ plural hours)
      else showInt minutes @ '' Minute'' @ plural minutes)"

definition spaced :: "string \<Rightarrow> string" where
  "spaced s = substring s 0 4 @ '' '' @ substring s 4 7 @ '' '' @ drop 7 s"

definition formatPhone :: "string \<Rightarrow> string" where
  "formatPhone phone =
     (if phone = [] then phone
      else
        (let numeric = filter is_digit phone
         in if startsWith numeric ''254'' \<and> length numeric = 12
            then spaced (''0'' @ drop 3 numeric)
            else if startsWith numeric ''0'' \<and> length numeric = 10 then spaced numeric
            else phone))"

text \<open>\<open>[17]\d{8}$\<close>\<close>

definition isSubscriber :: "string \<Rightarrow> bool" where
  "isSubscriber s \<longleftrightarrow>
     length s = 9 \<and> list_all is_digit s \<and> (hd s = CHR ''1'' \<or> hd s = CHR ''7'')"

text \<open>\<open>/^(?:0|254|\+254)[17]\d{8}$/\<close>; no two of the prefixes can match the same text.\<close>

definition subscriberOf :: "string \<Rightarrow> string option" where
  "subscriberOf s =
     (let r = (if startsWith s ''0'' then Some (drop 1 s)
               else if startsWith s ''254'' then Some (drop 3 s)
               else if startsWith s ''+254'' then Some (drop 4 s)
               else None)
      in case r of None \<Rightarrow> None | Some t \<Rightarrow> if isSubscriber t then Some t else None)"

definition kenyanPhone :: "string \<Rightarrow> bool" where
  "kenyanPhone s \<longleftrightarrow> subscriberOf s \<noteq> None"

section \<open>Lemmas\<close>

lemma is_digit_not [simp]: "is_digit (CHR '' '') = False" "is_digit (CHR ''-'') = False"
    "is_digit (CHR ''+'') = False" "is_digit (CHR ''0'')" "is_digit (CHR ''2'')"
    "is_digit (CHR ''5'')" "is_digit (CHR ''4'')"
  by (simp_all add: is_digit_def)

lemma showInt_no_space: "CHR '' '' \<notin> set (showInt i)"
  using showNat_digits [of "nat i"] showNat_digits [of "nat (- i)"]
  by (auto simp: showInt_def)

lemma showNat_no_minus: "hd (showNat n) \<noteq> CHR ''-''"
  using showNat_digits [of n] showNat_not_Nil [of n]
  by (metis is_digit_not(2) list.set_sel(1))

lemma showInt_inj: "showInt i = showInt j \<longleftrightarrow> i = j"
proof
  assume eq: "showInt i = showInt j"
  have "CHR ''-'' # x \<noteq> showNat n" for x n
    using showNat_no_minus [of n] by (metis list.sel(1))
  with eq show "i = j"
    by (auto simp: showInt_def split: if_splits) (metis list.inject)+
qed simp

lemma split_at_space:
  "CHR '' '' \<notin> set a \<Longrightarrow> CHR '' '' \<notin> set b \<Longrightarrow> a @ CHR '' '' # s = b @ CHR '' '' # t \<longleftrightarrow> a = b \<and> s = t"
proof (induction a arbitrary: b)
  case Nil
  then show ?case by (cases b) auto
next
  case (Cons x a)
  then show ?case by (cases b) auto
qed

text \<open>Minutes per unit of a label.\<close>

definition unitMinutes :: "string \<Rightarrow> int" where
  "unitMinutes u =
     (if u = ''Day'' \<or> u = ''Days'' then 1440 else if u = ''Hour'' \<or> u = ''Hours'' then 60 else 1)"

lemma unitMinutes_plural [simp]:
  "unitMinutes (''Day'' @ plural n) = 1440" "unitMinutes (''Hour'' @ plural n) = 60"
  "unitMinutes (''Minute'' @ plural n) = 1"
  by (simp_all add: unitMinutes_def plural_def)

lemma formatDuration_shape:
  "\<exists>n u. formatDuration m = showInt n @ CHR '' '' # u \<and> m = unitMinutes u * n"
proof -
  consider "m mod 1440 = 0" | "m mod 1440 \<noteq> 0" "m mod 60 = 0" | "m mod 1440 \<noteq> 0" "m mod 60 \<noteq> 0"
    by blast
  then show ?thesis
  proof cases
    case 1
    then have "m = unitMinutes (''Day'' @ plural (m div 1440)) * (m div 1440)"
      unfolding unitMinutes_plural using mult_div_mod_eq [of 1440 m] by simp
    moreover have "formatDuration m = showInt (m div 1440) @ CHR '' '' # ''Day'' @ plural (m div 1440)"
      using 1 by (simp add: formatDuration_def Let_def)
    ultimately show ?thesis by blast
  next
    case 2
    then have "m = unitMinutes (''Hour'' @ plural (m div 60)) * (m div 60)"
      unfolding unitMinutes_plural using mult_div_mod_eq [of 60 m] by simp
    moreover have "formatDuration m = showInt (m div 60) @ CHR '' '' # ''Hour'' @ plural (m div 60)"
      using 2 by (simp add: formatDuration_def Let_def)
    ultimately show ?thesis by blast
  next
    case 3
    then have "formatDuration m = showInt m @ CHR '' '' # ''Minute'' @ plural m"
      by (simp add: formatDuration_def)
    moreover have "m = unitMinutes (''Minute'' @ plural m) * m"
      unfolding unitMinutes_plural by simp
    ultimately show ?thesis by blast
  qed
qed

lemma formatDuration_inj: "formatDuration a = formatDuration b \<longleftrightarrow> a = b"
proof
  assume eq: "formatDuration a = formatDuration b"
  obtain n u where a: "formatDuration a = showInt n @ CHR '' '' # u" "a = unitMinutes u * n"
    using formatDuration_shape by blast
  obtain k v where b: "formatDuration b = showInt k @ CHR '' '' # v" "b = unitMinutes v * k"
    using formatDuration_shape by blast
  have "n = k \<and> u = v"
    using eq a(1) b(1) by (simp add: split_at_space showInt_no_space showInt_inj)
  with a(2) b(2) show "a = b" by simp
qed simp

lemma startsWith_split: "startsWith s p \<Longrightarrow> s = p @ drop (length p) s"
  by (metis append_take_drop_id startsWith_def)

lemma filter_all: "list_all P s \<Longrightarrow> filter P s = s"
  by (induction s) auto

lemma formatPhone_subscriber:
  assumes "subscriberOf s = Some t"
  shows "formatPhone s = spaced (''0'' @ t)"
proof -
  have t: "length t = 9" "list_all is_digit t"
    using assms by (auto simp: subscriberOf_def isSubscriber_def Let_def split: if_splits)
  consider "s = ''0'' @ t" | "s = ''254'' @ t" | "s = ''+254'' @ t"
  proof -
    have "(startsWith s ''0'' \<and> t = drop 1 s) \<or> (startsWith s ''254'' \<and> t = drop 3 s)
        \<or> (startsWith s ''+254'' \<and> t = drop 4 s)"
      using assms by (auto simp: subscriberOf_def Let_def split: if_splits)
    then show thesis
      using that startsWith_split [of s "''0''"] startsWith_split [of s "''254''"]
        startsWith_split [of s "''+254''"] by (auto simp: eval_nat_numeral)
  qed
  then show ?thesis
    using t by cases (simp_all add: formatPhone_def filter_all startsWith_def)
qed

lemma spaced_inj: "length s = 10 \<Longrightarrow> length t = 10 \<Longrightarrow> spaced s = spaced t \<longleftrightarrow> s = t"
proof
  assume l: "length s = 10" "length t = 10" and eq: "spaced s = spaced t"
  have "take 4 s = take 4 t \<and> take 3 (drop 4 s) = take 3 (drop 4 t) \<and> drop 7 s = drop 7 t"
    using eq l by (simp add: spaced_def substring_def)
  then have "take 4 s @ take 3 (drop 4 s) @ drop 7 s = take 4 t @ take 3 (drop 4 t) @ drop 7 t"
    by simp
  moreover have "take 4 x @ take 3 (drop 4 x) @ drop 7 x = x" for x :: string
  proof -
    have "take 3 (drop 4 x) @ drop 7 x = drop 4 x"
      using append_take_drop_id [of 3 "drop 4 x"] by simp
    then show ?thesis by simp
  qed
  ultimately show "s = t" by metis
qed simp

section \<open>Properties\<close>

text \<open>No two durations share a label: the text shown for a duration in minutes
  determines the duration.\<close>

lemma duration_label_injective: "formatDuration a = formatDuration b \<longleftrightarrow> a = b"
  by (rule formatDuration_inj)

text \<open>Every accepted spelling of a phone number is shown in the same local form: if the
  pattern accepts a text, \<open>formatPhone\<close> shows the subscriber digits as a ten-digit local
  number in groups of four, three and three, so two accepted texts are shown alike exactly
  when they name the same subscriber.\<close>

lemma phone_display_canonical:
  assumes "kenyanPhone s" and "kenyanPhone t"
  shows "formatPhone s = spaced (''0'' @ the (subscriberOf s))
    \<and> (formatPhone s = formatPhone t \<longleftrightarrow> subscriberOf s = subscriberOf t)"
proof -
  obtain u v where uv: "subscriberOf s = Some u" "subscriberOf t = Some v"
    using assms by (auto simp: kenyanPhone_def)
  then have "length u = 9" "length v = 9"
    by (auto simp: subscriberOf_def isSubscriber_def Let_def split: if_splits)
  with uv show ?thesis by (simp add: formatPhone_subscriber spaced_inj)
qed

end
