(* ===== verification/Submission.thy ===== *)
theory Submission
  imports Prelude
begin

text \<open>
  Forms that send a request and wait for its answer. A user can only trigger what the rendered
  page offers, and an answer only arrives while a request is outstanding; \<open>guarded_run\<close> runs a
  list of actions under such a guard. The locale states the contract a form has to meet so
  that no sequence of clicks sends a second request while one is outstanding.
\<close>

text \<open>What a rendered tree offers the user: a click on an enabled button, or a new text in an
  input.\<close>

definition typable :: "'a view \<Rightarrow> 'a \<Rightarrow> bool" where
  "typable v a \<longleftrightarrow> (\<exists>h \<in> set (inputs v). \<exists>t. a = h t)"

definition offers :: "'a view \<Rightarrow> 'a \<Rightarrow> bool" where
  "offers v a \<longleftrightarrow> clickable v a \<or> typable v a"

lemma typable_simps [view_simps]:
  "typable (Txt s) a \<longleftrightarrow> False"
  "typable (Group vs) a \<longleftrightarrow> (\<exists>v \<in> set vs. typable v a)"
  "typable (Btn d vs b) a \<longleftrightarrow> (\<exists>v \<in> set vs. typable v a)"
  "typable (Inp p w h) a \<longleftrightarrow> (\<exists>t. a = h t)"
  "typable (Link p vs) a \<longleftrightarrow> (\<exists>v \<in> set vs. typable v a)"
  by (auto simp: typable_def)

lemma offers_simps [view_simps]:
  "offers (Txt s) a \<longleftrightarrow> False"
  "offers (Group vs) a \<longleftrightarrow> (\<exists>v \<in> set vs. offers v a)"
  "offers (Btn d vs b) a \<longleftrightarrow> \<not> d \<and> a = b \<or> (\<exists>v \<in> set vs. typable v a)"
  "offers (Inp p w h) a \<longleftrightarrow> (\<exists>t. a = h t)"
  "offers (Link p vs) a \<longleftrightarrow> (\<exists>v \<in> set vs. offers v a)"
  by (auto simp: offers_def view_simps)

text \<open>The same for a list of children, in the form the simplifier evaluates.\<close>

lemma offers_Group: "offers (Group vs) a \<longleftrightarrow> list_ex (\<lambda>v. offers v a) vs"
  by (simp add: offers_simps list_ex_iff)

lemma clickable_Group: "clickable (Group vs) a \<longleftrightarrow> list_ex (\<lambda>v. clickable v a) vs"
  by (simp add: clickable_simps list_ex_iff)

lemma list_ex_onlyIf: "list_ex P (onlyIf c vs) \<longleftrightarrow> c \<and> list_ex P vs"
  by (simp add: onlyIf_def)

lemmas view_lists = offers_Group clickable_Group list_ex_onlyIf offers_simps(1,3,4) clickable_simps(1,3,4)
  typable_simps(1)

fun guarded_run ::
    "('s \<Rightarrow> 'a \<Rightarrow> bool) \<Rightarrow> ('s \<Rightarrow> 'a \<Rightarrow> 's \<times> 'r list) \<Rightarrow> 's \<Rightarrow> 'a list \<Rightarrow> ('s \<times> 'r list) option" where
  "guarded_run ok stp s [] = Some (s, [])"
| "guarded_run ok stp s (a # as) =
     (if ok s a
      then (case guarded_run ok stp (fst (stp s a)) as of
              None \<Rightarrow> None
            | Some (s', rs) \<Rightarrow> Some (s', snd (stp s a) @ rs))
      else None)"

lemma guarded_run_Cons:
  "guarded_run ok stp s (a # as) = Some (s', rs) \<longleftrightarrow>
     ok s a \<and> (\<exists>rs'. guarded_run ok stp (fst (stp s a)) as = Some (s', rs') \<and> rs = snd (stp s a) @ rs')"
  by (auto split: option.splits)

declare guarded_run.simps(2) [simp del]

text \<open>That a concrete run is possible, step by step.\<close>

lemma guarded_runs: "guarded_run ok stp s (a # as) \<noteq> None \<longleftrightarrow>
    ok s a \<and> guarded_run ok stp (fst (stp s a)) as \<noteq> None"
  by (auto simp: guarded_run.simps split: option.splits)

lemma guarded_run_append:
  "guarded_run ok stp s as = Some (s', rs) \<Longrightarrow>
   guarded_run ok stp s (as @ bs) = map_option (map_prod id ((@) rs)) (guarded_run ok stp s' bs)"
proof (induction as arbitrary: s rs)
  case Nil
  then show ?case by (cases "guarded_run ok stp s' bs") auto
next
  case (Cons a as)
  then obtain rs' where run: "ok s a" "guarded_run ok stp (fst (stp s a)) as = Some (s', rs')"
    "rs = snd (stp s a) @ rs'"
    by (auto simp: guarded_run_Cons)
  show ?case
    using Cons.IH [OF run(2)] run by (cases "guarded_run ok stp s' bs") (auto simp: guarded_run.simps)
qed

lemma guarded_run_split:
  assumes "guarded_run ok stp s (as @ bs) \<noteq> None"
  obtains s1 r1 s2 r2 where "guarded_run ok stp s as = Some (s1, r1)" "guarded_run ok stp s1 bs = Some (s2, r2)"
proof -
  have "\<exists>s1 r1 s2 r2. guarded_run ok stp s as = Some (s1, r1) \<and> guarded_run ok stp s1 bs = Some (s2, r2)"
    using assms
    by (induction as arbitrary: s) (fastforce simp: guarded_run.simps split: if_splits option.splits)+
  with that show thesis by blast
qed

lemma guarded_run_inv:
  assumes "\<And>s a. P s \<Longrightarrow> ok s a \<Longrightarrow> P (fst (stp s a))" and "P s"
    and "guarded_run ok stp s as = Some (s', rs)"
  shows "P s'"
  using assms(2,3) by (induction as arbitrary: s rs) (auto simp: guarded_run_Cons intro: assms(1))

lemma guarded_run_outputs:
  assumes "\<And>s a r. ok s a \<Longrightarrow> r \<in> set (snd (stp s a)) \<Longrightarrow> Q r"
    and "guarded_run ok stp s as = Some (s', rs)" and "r \<in> set rs"
  shows "Q r"
  using assms(2,3) by (induction as arbitrary: s rs) (auto simp: guarded_run_Cons intro: assms(1))

text \<open>An invariant of the runs whose actions come from a given set, with what it says of the outputs.\<close>

lemma guarded_run_trace:
  assumes "guarded_run ok stp s as = Some (s', rs)" and "P s"
    and step: "\<And>s a. P s \<Longrightarrow> ok s a \<Longrightarrow> a \<in> set as \<Longrightarrow> P (fst (stp s a)) \<and> (\<forall>r \<in> set (snd (stp s a)). Q r)"
  shows "P s'" and "\<forall>r \<in> set rs. Q r"
proof -
  have "P s' \<and> (\<forall>r \<in> set rs. Q r)"
    if "guarded_run ok stp s bs = Some (s', rs)" "P s" "set bs \<subseteq> set as" for s bs rs
    using that
  proof (induction bs arbitrary: s rs)
    case (Cons a bs)
    then obtain rs' where run: "ok s a" "guarded_run ok stp (fst (stp s a)) bs = Some (s', rs')"
      "rs = snd (stp s a) @ rs'"
      by (auto simp: guarded_run_Cons)
    have "P (fst (stp s a)) \<and> (\<forall>r \<in> set (snd (stp s a)). Q r)"
      using step [OF Cons.prems(2) run(1)] Cons.prems(3) by simp
    with Cons.IH [OF run(2)] Cons.prems(3) run(3) show ?case by auto
  qed simp
  from this [OF assms(1,2)] show "P s'" and "\<forall>r \<in> set rs. Q r" by auto
qed

text \<open>An invariant can be added to the guard.\<close>

lemma guarded_run_strengthen:
  assumes "\<And>s a. P s \<Longrightarrow> ok s a \<Longrightarrow> P (fst (stp s a))" and "P s"
    and "guarded_run ok stp s as = Some (s', rs)"
  shows "guarded_run (\<lambda>s a. P s \<and> ok s a) stp s as = Some (s', rs)"
  using assms(2,3) by (induction as arbitrary: s rs) (auto simp: guarded_run_Cons intro: assms(1))

locale single_flight =
  fixes stp :: "'s \<Rightarrow> 'a \<Rightarrow> 's \<times> 'r list"
    and ok :: "'s \<Rightarrow> 'a \<Rightarrow> bool"
    and busy :: "'s \<Rightarrow> bool"
    and answer :: "'a \<Rightarrow> bool"
  assumes answered: "ok s a \<Longrightarrow> answer a \<Longrightarrow> busy s \<and> \<not> busy (fst (stp s a)) \<and> snd (stp s a) = []"
    and acted: "ok s a \<Longrightarrow> \<not> answer a \<Longrightarrow>
      (snd (stp s a) = [] \<and> busy (fst (stp s a)) = busy s)
      \<or> (length (snd (stp s a)) = 1 \<and> \<not> busy s \<and> busy (fst (stp s a)))"
begin

lemma flights:
  "guarded_run ok stp s as = Some (s', rs) \<Longrightarrow>
   length rs + of_bool (busy s) = length (filter answer as) + of_bool (busy s')"
proof (induction as arbitrary: s rs)
  case (Cons a as)
  obtain rs' where run: "ok s a" "guarded_run ok stp (fst (stp s a)) as = Some (s', rs')"
    "rs = snd (stp s a) @ rs'"
    using Cons.prems by (auto simp: guarded_run_Cons)
  then show ?case
    using Cons.IH [OF run(2)] answered [OF run(1)] acted [OF run(1)] by (cases "answer a") auto
qed simp

end

text \<open>Pages that also send other things: only the outputs that are requests of one kind count.\<close>

definition only :: "('r \<Rightarrow> bool) \<Rightarrow> ('s \<Rightarrow> 'a \<Rightarrow> 's \<times> 'r list) \<Rightarrow> 's \<Rightarrow> 'a \<Rightarrow> 's \<times> 'r list" where
  "only P stp s a = map_prod id (filter P) (stp s a)"

lemma guarded_run_only:
  "guarded_run ok stp s as = Some (s', rs) \<Longrightarrow> guarded_run ok (only P stp) s as = Some (s', filter P rs)"
  by (induction as arbitrary: s rs) (auto simp: guarded_run_Cons only_def)

locale request_flight =
  fixes stp :: "'s \<Rightarrow> 'a \<Rightarrow> 's \<times> 'r list"
    and ok :: "'s \<Rightarrow> 'a \<Rightarrow> bool"
    and busy :: "'s \<Rightarrow> bool"
    and answer :: "'a \<Rightarrow> bool"
    and request :: "'r \<Rightarrow> bool"
  assumes request_answered: "ok s a \<Longrightarrow> answer a \<Longrightarrow>
      busy s \<and> \<not> busy (fst (stp s a)) \<and> filter request (snd (stp s a)) = []"
    and request_acted: "ok s a \<Longrightarrow> \<not> answer a \<Longrightarrow>
      (filter request (snd (stp s a)) = [] \<and> busy (fst (stp s a)) = busy s)
      \<or> (length (filter request (snd (stp s a))) = 1 \<and> \<not> busy s \<and> busy (fst (stp s a)))"

sublocale request_flight \<subseteq> flight: single_flight "only request stp" ok busy answer
  by unfold_locales (use request_answered request_acted in \<open>auto simp: only_def\<close>)

context request_flight
begin

lemma request_flights:
  "guarded_run ok stp s as = Some (s', rs) \<Longrightarrow>
   length (filter request rs) + of_bool (busy s) = length (filter answer as) + of_bool (busy s')"
  by (rule flight.flights) (rule guarded_run_only)

end

text \<open>A component inside another one: the outer component passes some of its actions on and leaves the
  inner one alone otherwise. Its runs contain runs of the inner one, with the same outputs of the
  relevant kind.\<close>

locale embedding =
  fixes stp :: "'s \<Rightarrow> 'a \<Rightarrow> 's \<times> 'r list"
    and ok :: "'s \<Rightarrow> 'a \<Rightarrow> bool"
    and istp :: "'t \<Rightarrow> 'b \<Rightarrow> 't \<times> 'r list"
    and iok :: "'t \<Rightarrow> 'b \<Rightarrow> bool"
    and inner :: "'s \<Rightarrow> 't"
    and passes :: "'a \<Rightarrow> 'b option"
    and relevant :: "'r \<Rightarrow> bool"
  assumes inside: "ok s a \<Longrightarrow> passes a = Some b \<Longrightarrow> iok (inner s) b
      \<and> inner (fst (stp s a)) = fst (istp (inner s) b)
      \<and> filter relevant (snd (stp s a)) = filter relevant (snd (istp (inner s) b))"
    and outside: "ok s a \<Longrightarrow> passes a = None \<Longrightarrow>
      inner (fst (stp s a)) = inner s \<and> filter relevant (snd (stp s a)) = []"
begin

lemma contains_run:
  "guarded_run ok stp s as = Some (s', rs) \<Longrightarrow>
   \<exists>rs'. guarded_run iok istp (inner s) (List.map_filter passes as) = Some (inner s', rs')
     \<and> filter relevant rs' = filter relevant rs"
proof (induction as arbitrary: s rs)
  case (Cons a as)
  then obtain rs1 where run: "ok s a" "guarded_run ok stp (fst (stp s a)) as = Some (s', rs1)"
    "rs = snd (stp s a) @ rs1"
    by (auto simp: guarded_run_Cons)
  from Cons.IH [OF run(2)] obtain rs' where
    rest: "guarded_run iok istp (inner (fst (stp s a))) (List.map_filter passes as) = Some (inner s', rs')"
    and same: "filter relevant rs' = filter relevant rs1"
    by blast
  show ?case
  proof (cases "passes a")
    case None
    with outside [OF run(1)] rest same run(3) show ?thesis by (auto simp: map_filter_simps)
  next
    case (Some b)
    with inside [OF run(1)] rest same run(3)
    have "guarded_run iok istp (inner s) (b # List.map_filter passes as)
          = Some (inner s', snd (istp (inner s) b) @ rs')"
      by (simp add: guarded_run_Cons)
    with Some inside [OF run(1)] same run(3) show ?thesis by (auto simp: map_filter_simps)
  qed
qed (simp add: map_filter_simps)

end

text \<open>The rendered tree of an inner component, with its actions wrapped.\<close>

lemma buttons_map_view: "buttons (map_view f v) = map (map_prod id f) (buttons v)"
  by (induction v) (simp_all add: map_concat comp_def cong: map_cong)

lemma inputs_map_view: "inputs (map_view f v) = map (\<lambda>h. f \<circ> h) (inputs v)"
  by (induction v) (simp_all add: map_concat comp_def cong: map_cong)

lemma offers_map_view: "offers (map_view f v) b \<longleftrightarrow> (\<exists>a. b = f a \<and> offers v a)"
  by (force simp: offers_def clickable_def typable_def buttons_map_view inputs_map_view image_iff)

end
