(* ===== verification/Packages.thy ===== *)
theory Packages
  imports Json Format Submission
begin

text \<open>
  Service packages: the record of \<open>types/packages.ts\<close>, the client-side store of their service
  types (\<open>lib/packageServiceType.ts\<close>), and the form that creates and edits them
  (\<open>components/admin/PackageForm.tsx\<close>). Prices are kept in cents.
\<close>

section \<open>Data\<close>

datatype service_type = Hotspot | Pppoe

definition serviceName :: "service_type \<Rightarrow> string" where
  "serviceName t = (case t of Hotspot \<Rightarrow> ''hotspot'' | Pppoe \<Rightarrow> ''pppoe'')"

record package =
  pk_id :: string
  pk_name :: string
  pk_description :: string
  pk_price_kes :: int
  pk_duration_minutes :: int
  pk_speed_mbps :: int
  pk_is_active :: bool
  pk_created_at :: string
  pk_service_type :: "string option"

section \<open>Service types of packages\<close>

definition PACKAGE_TYPES_KEY :: string where
  "PACKAGE_TYPES_KEY = ''Frixel Connect_package_service_types''"

text \<open>\<open>readMap\<close>: whatever JSON value is stored, \<open>{}\<close> if there is none or it does not parse.\<close>

definition readMap :: "storage \<Rightarrow> json" where
  "readMap s =
     (case getItem s PACKAGE_TYPES_KEY of
        None \<Rightarrow> JObj []
      | Some raw \<Rightarrow>
          if raw = [] then JObj []
          else case jparse raw of None \<Rightarrow> JObj [] | Some v \<Rightarrow> v)"

datatype js_error = TypeError

text \<open>Assigning a property throws on \<open>null\<close> and on primitives (modules are strict), and is lost on
  an array once it is written as JSON. A package id is not an array index.\<close>

definition savePackageServiceType :: "string \<Rightarrow> service_type \<Rightarrow> storage \<Rightarrow> js_error + storage" where
  "savePackageServiceType packageId t s =
     (case readMap s of
        JObj kvs \<Rightarrow>
          Inr (setItem PACKAGE_TYPES_KEY (stringify (JObj (AList.update packageId (JStr (serviceName t)) kvs))) s)
      | JArr vs \<Rightarrow> Inr (setItem PACKAGE_TYPES_KEY (stringify (JArr vs)) s)
      | _ \<Rightarrow> Inl TypeError)"

text \<open>The result is a JSON value because the stored map is not checked.\<close>

definition storedServiceType :: "string \<Rightarrow> storage \<Rightarrow> js_error + json" where
  "storedServiceType packageId s =
     (case readMap s of
        JNull \<Rightarrow> Inl TypeError
      | v \<Rightarrow> Inr (case jfield v packageId of
                   None \<Rightarrow> JStr ''hotspot'' | Some JNull \<Rightarrow> JStr ''hotspot'' | Some x \<Rightarrow> x))"

definition resolvePackageServiceType :: "package \<Rightarrow> storage \<Rightarrow> js_error + json" where
  "resolvePackageServiceType pkg s =
     (if pk_service_type pkg = Some ''pppoe'' \<or> pk_service_type pkg = Some ''hotspot''
      then Inr (JStr (the (pk_service_type pkg)))
      else storedServiceType (pk_id pkg) s)"

section \<open>The package form\<close>

text \<open>\<open>Number(text)\<close> on the texts a number input can hold: nothing, which is zero, or a decimal
  number with an optional exponent. \<open>None\<close> is NaN.\<close>

definition Number :: "string \<Rightarrow> rat option" where
  "Number t =
     (if t = [] then Some 0
      else
        (let neg = startsWith t ''-'';
             r = (if neg then drop 1 t else t);
             ds = takeWhile is_digit r;
             r1 = dropWhile is_digit r;
             fs = (if startsWith r1 ''.'' then takeWhile is_digit (drop 1 r1) else []);
             r2 = (if startsWith r1 ''.'' then dropWhile is_digit (drop 1 r1) else r1);
             m = of_nat (readNat ds) + readFrac fs
         in if ds = [] \<and> fs = [] then None
            else case pexp (if neg then - m else m) r2 of
                   Some (JNum v, []) \<Rightarrow> Some v
                 | _ \<Rightarrow> None))"

record package_request =
  rq_name :: string
  rq_description :: string
  rq_price_kes :: rat
  rq_speed_mbps :: rat
  rq_duration_minutes :: rat

definition HOTSPOT_DURATION_PRESETS :: "(string \<times> int) list" where
  "HOTSPOT_DURATION_PRESETS =
     [(''1 hour'', 60), (''3 hours'', 180), (''12 hours'', 720), (''1 day'', 1440), (''7 days'', 10080),
      (''30 days'', 43200), (''Custom'', -1)]"

text \<open>The properties that decide the form's behaviour, then its state. The duration field holds a
  number (\<open>None\<close> for NaN); the other fields hold their text.\<close>

record form_props =
  fp_serviceType :: "service_type option"
  fp_allowSelect :: bool
  fp_showBadge :: bool
  fp_submitLabel :: string
  fp_canCancel :: bool

record package_form =
  pf_selected :: service_type
  pf_preset :: int
  pf_name :: string
  pf_description :: string
  pf_price :: string
  pf_speed :: string
  pf_duration :: "rat option"
  pf_errors :: "(string \<times> string) list"
  pf_pending :: bool

datatype form_action =
    FSelect service_type | FName string | FDescription string | FPrice string | FSpeed string
  | FPreset int | FCustom string | FSubmit | FCancel | FSettled

datatype form_out = OnSubmit package_request | OnServiceTypeChange service_type | OnCancel

definition effectiveServiceType :: "form_props \<Rightarrow> package_form \<Rightarrow> service_type option" where
  "effectiveServiceType pr f = (if fp_allowSelect pr then Some (pf_selected f) else fp_serviceType pr)"

definition isPppoe :: "form_props \<Rightarrow> package_form \<Rightarrow> bool" where
  "isPppoe pr f \<longleftrightarrow> effectiveServiceType pr f = Some Pppoe"

text \<open>The effect on \<open>[isPppoe]\<close>.\<close>

definition pppoeEffect :: "form_props \<Rightarrow> package_form \<Rightarrow> package_form" where
  "pppoeEffect pr f = (if isPppoe pr f then f\<lparr>pf_duration := Some 43200, pf_preset := 43200\<rparr> else f)"

text \<open>Mounting, with the default values of the fields as texts; the effect runs at once.\<close>

definition formStart ::
    "form_props \<Rightarrow> string \<Rightarrow> string \<Rightarrow> string \<Rightarrow> string \<Rightarrow> rat option \<Rightarrow> package_form" where
  "formStart pr name description price speed duration =
     (let sel = nullish (fp_serviceType pr) Hotspot;
          pppoe = ((if fp_allowSelect pr then Some sel else fp_serviceType pr) = Some Pppoe)
      in pppoeEffect pr
           \<lparr>pf_selected = sel, pf_preset = (if pppoe then 43200 else 1440), pf_name = name,
            pf_description = description, pf_price = price, pf_speed = speed,
            pf_duration = Some (if pppoe then 43200 else nullish duration 1440),
            pf_errors = [], pf_pending = False\<rparr>)"

definition atLeastOne :: "string \<Rightarrow> string \<Rightarrow> rat option \<Rightarrow> (string \<times> string) list" where
  "atLeastOne field msg v =
     (case v of None \<Rightarrow> [(field, [])] | Some x \<Rightarrow> if x < 1 then [(field, msg)] else [])"

text \<open>\<open>baseSchema\<close>; messages that are the library's own are left empty.\<close>

definition baseSchema :: "package_form \<Rightarrow> (string \<times> string) list" where
  "baseSchema f =
     (if pf_name f = [] then [(''name'', ''Name is required'')]
      else if 100 < jsLength (pf_name f) then [(''name'', [])] else [])
     @ atLeastOne ''price_kes'' ''Price must be at least KES 1'' (Number (pf_price f))
     @ atLeastOne ''speed_mbps'' ''Speed must be at least 1 Mbps'' (Number (pf_speed f))
     @ (case pf_duration f of
          None \<Rightarrow> [(''duration_minutes'', [])]
        | Some d \<Rightarrow> (if of_int (floor d) = d then [] else [(''duration_minutes'', [])])
                    @ (if 0 < d then [] else [(''duration_minutes'', ''Duration must be positive'')]))"

fun form_step :: "form_props \<Rightarrow> package_form \<Rightarrow> form_action \<Rightarrow> package_form \<times> form_out list" where
  "form_step pr f (FSelect t) =
     (let f1 = f\<lparr>pf_selected := t\<rparr>
      in (if isPppoe pr f1 \<noteq> isPppoe pr f then pppoeEffect pr f1 else f1, [OnServiceTypeChange t]))"
| "form_step pr f (FName v) = (f\<lparr>pf_name := v\<rparr>, [])"
| "form_step pr f (FDescription v) = (f\<lparr>pf_description := v\<rparr>, [])"
| "form_step pr f (FPrice v) = (f\<lparr>pf_price := v\<rparr>, [])"
| "form_step pr f (FSpeed v) = (f\<lparr>pf_speed := v\<rparr>, [])"
| "form_step pr f (FPreset m) =
     (if 0 < m then f\<lparr>pf_preset := m, pf_duration := Some (of_int m)\<rparr> else f\<lparr>pf_preset := m\<rparr>, [])"
| "form_step pr f (FCustom v) = (f\<lparr>pf_duration := Number v\<rparr>, [])"
| "form_step pr f FSubmit =
     (let errs = baseSchema f
      in if errs \<noteq> [] then (f\<lparr>pf_errors := errs\<rparr>, [])
         else (f\<lparr>pf_errors := [], pf_pending := True\<rparr>,
               [OnSubmit \<lparr>rq_name = pf_name f, rq_description = pf_description f,
                          rq_price_kes = the (Number (pf_price f)),
                          rq_speed_mbps = the (Number (pf_speed f)),
                          rq_duration_minutes = the (pf_duration f)\<rparr>]))"
| "form_step pr f FCancel = (f, [OnCancel])"
| "form_step pr f FSettled = (f\<lparr>pf_pending := False\<rparr>, [])"

definition errorText :: "(string \<times> string) list \<Rightarrow> string \<Rightarrow> 'a view list" where
  "errorText errs f = (case map_of errs f of None \<Rightarrow> [] | Some m \<Rightarrow> [Txt m])"

text \<open>The select offers each preset; it is drawn as one button per item. \<open>customText\<close> is
  \<open>String(field.value)\<close> of the custom minutes.\<close>

definition durationView :: "string \<Rightarrow> form_props \<Rightarrow> package_form \<Rightarrow> form_action view list" where
  "durationView customText pr f =
     (if isPppoe pr f then
        [Txt ''30 days (monthly)'', Txt ''Fiber subscriptions bill monthly. Duration is fixed at 30 days.'']
      else
        map (\<lambda>(label, m). Btn False [Txt label] (FPreset m)) HOTSPOT_DURATION_PRESETS
        @ onlyIf (pf_preset f = -1) [Inp ''Custom minutes'' customText FCustom]
        @ onlyIf (pf_preset f \<noteq> -1)
            [Txt (formatDuration (floor (nullish (pf_duration f) 0)) @ '' session'')])"

definition serviceLabel :: "service_type \<Rightarrow> string" where
  "serviceLabel t = (if t = Hotspot then ''Hotspot'' else ''Fiber PPPoE'')"

definition formView :: "string \<Rightarrow> form_props \<Rightarrow> package_form \<Rightarrow> form_action view" where
  "formView customText pr f = Group
     (onlyIf (fp_allowSelect pr)
        ([Txt ''Service type'',
          Btn False [Txt ''Hotspot''] (FSelect Hotspot), Btn False [Txt ''Fiber PPPoE''] (FSelect Pppoe)]
         @ onlyIf (isPppoe pr f)
             [Txt ''Fiber packages are billed monthly via M-Pesa recurring payment.''])
      @ onlyIf (fp_showBadge pr \<and> effectiveServiceType pr f \<noteq> None \<and> \<not> fp_allowSelect pr)
          [Txt ''Service type'', Txt (serviceLabel (the (effectiveServiceType pr f)))]
      @ [Txt ''Package name'',
         Inp (if isPppoe pr f then ''e.g. Home Fiber 20Mbps'' else ''e.g. Daily 10Mbps'') (pf_name f) FName]
      @ errorText (pf_errors f) ''name''
      @ [Txt ''Description (optional)'', Inp ''Short description'' (pf_description f) FDescription,
         Txt ''Price (KES)'', Inp [] (pf_price f) FPrice]
      @ errorText (pf_errors f) ''price_kes''
      @ [Txt ''Speed (Mbps)'', Inp [] (pf_speed f) FSpeed]
      @ errorText (pf_errors f) ''speed_mbps''
      @ [Txt ''Duration''] @ durationView customText pr f
      @ errorText (pf_errors f) ''duration_minutes''
      @ onlyIf (fp_canCancel pr) [Btn (pf_pending f) [Txt ''Cancel''] FCancel]
      @ [Btn (pf_pending f) [Txt (if pf_pending f then ''Saving...'' else fp_submitLabel pr)] FSubmit])"

text \<open>What can happen: what the form offers, and the parent's request settling.\<close>

fun form_ok :: "string \<Rightarrow> form_props \<Rightarrow> package_form \<Rightarrow> form_action \<Rightarrow> bool" where
  "form_ok customText pr f FSettled = pf_pending f"
| "form_ok customText pr f a = offers (formView customText pr f) a"

section \<open>Lemmas\<close>

text \<open>The form's own requests.\<close>

fun is_submit :: "form_out \<Rightarrow> bool" where
  "is_submit (OnSubmit r) = True"
| "is_submit _ = False"

fun form_answer :: "form_action \<Rightarrow> bool" where
  "form_answer FSettled = True"
| "form_answer _ = False"

definition validRequest :: "package_request \<Rightarrow> bool" where
  "validRequest r \<longleftrightarrow> rq_name r \<noteq> [] \<and> jsLength (rq_name r) \<le> 100 \<and> 1 \<le> rq_price_kes r
     \<and> 1 \<le> rq_speed_mbps r \<and> 0 < rq_duration_minutes r
     \<and> of_int (floor (rq_duration_minutes r)) = rq_duration_minutes r"

lemma atLeastOne_Nil: "atLeastOne f m v = [] \<longleftrightarrow> (\<exists>x. v = Some x \<and> 1 \<le> x)"
  by (auto simp: atLeastOne_def split: option.splits)

lemma form_step_valid: "OnSubmit r \<in> set (snd (form_step pr f a)) \<Longrightarrow> validRequest r"
  by (cases a) (auto simp: Let_def baseSchema_def validRequest_def atLeastOne_Nil split: if_splits option.splits)

lemma not_offers_errorText [simp]: "v \<in> set (errorText errs k) \<Longrightarrow> \<not> offers v a"
  by (auto simp: errorText_def view_simps split: option.splits)

lemma durationView_offers:
  "v \<in> set (durationView ct pr f) \<Longrightarrow> offers v a \<Longrightarrow>
     \<not> isPppoe pr f \<and> ((\<exists>m. a = FPreset m) \<or> (\<exists>t. a = FCustom t))"
  by (auto simp: durationView_def HOTSPOT_DURATION_PRESETS_def view_simps split: if_splits)

lemma form_offers:
  "offers (formView ct pr f) FSubmit \<Longrightarrow> \<not> pf_pending f"
  "offers (formView ct pr f) (FPreset m) \<Longrightarrow> \<not> isPppoe pr f"
  "offers (formView ct pr f) (FCustom t) \<Longrightarrow> \<not> isPppoe pr f"
  by (auto simp: formView_def view_simps dest: durationView_offers)

text \<open>A fiber package has the fixed duration.\<close>

definition fiber_fixed :: "form_props \<Rightarrow> package_form \<Rightarrow> bool" where
  "fiber_fixed pr f \<longleftrightarrow> (isPppoe pr f \<longrightarrow> pf_duration f = Some 43200)"

lemma isPppoe_update [simp]:
  "isPppoe pr (f\<lparr>pf_duration := d\<rparr>) = isPppoe pr f" "isPppoe pr (f\<lparr>pf_preset := m\<rparr>) = isPppoe pr f"
  "isPppoe pr (f\<lparr>pf_name := t\<rparr>) = isPppoe pr f" "isPppoe pr (f\<lparr>pf_description := t\<rparr>) = isPppoe pr f"
  "isPppoe pr (f\<lparr>pf_price := t\<rparr>) = isPppoe pr f" "isPppoe pr (f\<lparr>pf_speed := t\<rparr>) = isPppoe pr f"
  "isPppoe pr (f\<lparr>pf_errors := e\<rparr>) = isPppoe pr f" "isPppoe pr (f\<lparr>pf_pending := b\<rparr>) = isPppoe pr f"
  by (simp_all add: isPppoe_def effectiveServiceType_def)

lemma fiber_fixed_step:
  "fiber_fixed pr f \<Longrightarrow> form_ok ct pr f a \<Longrightarrow> fiber_fixed pr (fst (form_step pr f a))"
  by (cases a) (auto simp: fiber_fixed_def pppoeEffect_def Let_def dest: form_offers)

lemma form_offered:
  "offers (formView ct pr f) (FName t)" "offers (formView ct pr f) (FPrice t)"
  "offers (formView ct pr f) (FSpeed t)" "fp_allowSelect pr \<Longrightarrow> offers (formView ct pr f) (FSelect k)"
  "\<not> pf_pending f \<Longrightarrow> offers (formView ct pr f) FSubmit"
  by (cases k; simp add: formView_def view_lists)+

lemma fiber_fixed_start: "fiber_fixed pr (formStart pr n d p s dur)"
  by (auto simp: fiber_fixed_def formStart_def pppoeEffect_def Let_def)

interpretation package_form: request_flight "form_step pr" "form_ok ct pr" pf_pending form_answer is_submit
  for ct pr
proof
  fix f :: package_form and a
  show "form_ok ct pr f a \<Longrightarrow> form_answer a \<Longrightarrow> pf_pending f \<and> \<not> pf_pending (fst (form_step pr f a))
      \<and> filter is_submit (snd (form_step pr f a)) = []"
    by (cases a) auto
  show "form_ok ct pr f a \<Longrightarrow> \<not> form_answer a \<Longrightarrow>
      (filter is_submit (snd (form_step pr f a)) = [] \<and> pf_pending (fst (form_step pr f a)) = pf_pending f)
      \<or> (length (filter is_submit (snd (form_step pr f a))) = 1 \<and> \<not> pf_pending f
         \<and> pf_pending (fst (form_step pr f a)))"
    by (cases a) (auto simp: Let_def pppoeEffect_def dest: form_offers)
qed

text \<open>Maps that hold only what \<open>savePackageServiceType\<close> writes.\<close>

definition saveTypes :: "(string \<times> service_type) list \<Rightarrow> storage \<Rightarrow> storage" where
  "saveTypes ts s = fold (\<lambda>(i, t) s. case savePackageServiceType i t s of Inr s' \<Rightarrow> s' | Inl _ \<Rightarrow> s) ts s"

definition typesMap :: "(string \<times> service_type) list \<Rightarrow> (string \<times> json) list" where
  "typesMap ts = fold (\<lambda>(i, t) m. AList.update i (JStr (serviceName t)) m) ts []"

lemma plain_typesMap_aux:
  "plain (JObj m) \<Longrightarrow> plain (JObj (fold (\<lambda>(i, t) m. AList.update i (JStr (serviceName t)) m) ts m))"
proof (induction ts arbitrary: m)
  case (Cons x ts)
  obtain i t where x: "x = (i, t)" by (cases x)
  have "set (AList.update i (JStr (serviceName t)) m) \<subseteq> insert (i, JStr (serviceName t)) (set m)"
    by (induction m) auto
  with Cons.prems have "plain (JObj (AList.update i (JStr (serviceName t)) m))"
    by (auto simp: list_all_iff distinct_update)
  from Cons.IH [OF this] show ?case by (simp add: x)
qed simp

lemma plain_typesMap: "plain (JObj (typesMap ts))"
  unfolding typesMap_def by (rule plain_typesMap_aux) simp

lemma stringify_not_Nil: "stringify (JObj m) \<noteq> []"
  by (simp add: stringify_JObj)

lemma readMap_saveTypes:
  assumes "getItem s PACKAGE_TYPES_KEY = None"
  shows "readMap (saveTypes ts s) = JObj (typesMap ts)"
proof (induction ts rule: rev_induct)
  case Nil
  with assms show ?case by (simp add: saveTypes_def typesMap_def readMap_def)
next
  case (snoc x ts)
  obtain i t where x: "x = (i, t)" by (cases x)
  have "saveTypes (ts @ [x]) s =
      setItem PACKAGE_TYPES_KEY (stringify (JObj (typesMap (ts @ [x])))) (saveTypes ts s)"
    using snoc by (simp add: saveTypes_def typesMap_def x savePackageServiceType_def)
  then show ?case
    using codec.decode_encode [OF plain_typesMap [of "ts @ [x]"]]
    by (simp add: readMap_def storage_simps stringify_not_Nil)
qed

lemma map_of_typesMap: "map_of (typesMap ts) i = map_option (\<lambda>t. JStr (serviceName t)) (map_of (rev ts) i)"
proof (induction ts rule: rev_induct)
  case (snoc x ts)
  then show ?case by (cases x) (simp add: typesMap_def update_conv')
qed (simp add: typesMap_def)

section \<open>Properties\<close>

text \<open>The service type of a package survives in the browser: after any sequence of saves into
  an empty store, a package whose API record carries no type has the type saved last under its
  id, or hotspot if none was; a type in the API record always wins.\<close>

lemma service_type_roundtrip:
  assumes "getItem s PACKAGE_TYPES_KEY = None"
  shows "resolvePackageServiceType pkg (saveTypes ts s) =
    Inr (JStr (if pk_service_type pkg \<in> {Some ''pppoe'', Some ''hotspot''} then the (pk_service_type pkg)
               else case map_of (rev ts) (pk_id pkg) of None \<Rightarrow> ''hotspot'' | Some t \<Rightarrow> serviceName t))"
  by (auto simp: resolvePackageServiceType_def storedServiceType_def readMap_saveTypes [OF assms] jfield_def
      map_of_typesMap split: option.splits)

definition samplePackage :: package where
  "samplePackage = \<lparr>pk_id = ''p1'', pk_name = ''Daily'', pk_description = [], pk_price_kes = 5000,
     pk_duration_minutes = 1440, pk_speed_mbps = 5, pk_is_active = True, pk_created_at = [],
     pk_service_type = None\<rparr>"

text \<open>The package form submits only valid packages, one at a time: in every sequence of
  actions the rendered form offers, each submitted request has a name of 1 to 100 characters, a
  price and a speed of at least one and a positive whole number of minutes; there are as many
  requests as settled ones plus the pending one; and whenever the form is on fiber, the duration
  is the fixed thirty days.\<close>

lemma package_requests_valid:
  assumes "guarded_run (form_ok ct pr) (form_step pr) (formStart pr n d p s dur) as = Some (f, outs)"
  shows "(\<forall>r. OnSubmit r \<in> set outs \<longrightarrow> validRequest r)
    \<and> length (filter is_submit outs) = length (filter form_answer as) + of_bool (pf_pending f)
    \<and> (isPppoe pr f \<longrightarrow> pf_duration f = Some 43200)"
proof -
  have "validRequest r" if "OnSubmit r \<in> set outs" for r
  proof -
    have "\<forall>r'. OnSubmit r = OnSubmit r' \<longrightarrow> validRequest r'"
      by (rule guarded_run_outputs [OF _ assms that]) (auto dest: form_step_valid)
    then show ?thesis by simp
  qed
  moreover have "fiber_fixed pr f"
    by (rule guarded_run_inv [where P = "fiber_fixed pr", OF _ _ assms]) (rule fiber_fixed_step fiber_fixed_start | assumption)+
  moreover have "\<not> pf_pending (formStart pr n d p s dur)"
    by (simp add: formStart_def pppoeEffect_def Let_def)
  ultimately show ?thesis
    using package_form.request_flights [OF assms] by (simp add: fiber_fixed_def)
qed

definition sampleProps :: form_props where
  "sampleProps = \<lparr>fp_serviceType = None, fp_allowSelect = True, fp_showBadge = False,
                  fp_submitLabel = ''Save Package'', fp_canCancel = False\<rparr>"

end
