(* ===== verification/Payment_Status.thy ===== *)
theory Payment_Status
  imports Format Submission
begin

text \<open>
  Waiting for a payment: the polled status queries (\<open>useHotspotPaymentStatus\<close>,
  \<open>usePaymentStatus\<close>, and \<open>useRouterStatus\<close>, which follows the same pattern), the captive
  portal's waiting screen \<open>components/hotspot/PaymentPolling.tsx\<close> with its 90 second countdown,
  and the customer's \<open>PaymentStatusPage\<close>. A polled query is the cache entry of the query client
  (data, error flag, whether a fetch is running); which fetches can start is given by the
  hook's own \<open>enabled\<close> and \<open>refetchInterval\<close>. The locale \<open>poller\<close> holds what follows from the
  contract between the two.
\<close>

section \<open>Polled queries\<close>

record 'd poll =
  pl_data :: "'d option"
  pl_isError :: bool
  pl_fetching :: bool

text \<open>A fetch starts on mount, when the interval elapses, when the window regains focus or when
  the component asks for it; it ends with an answer or, after the retries, with a failure.\<close>

datatype 'd poll_event = PollInterval | PollFocus | PollRefetch | PollAnswer 'd | PollFailed

definition startFetch :: "'d poll \<Rightarrow> 'd poll" where
  "startFetch q = q\<lparr>pl_fetching := True, pl_isError := pl_isError q \<and> pl_data q \<noteq> None\<rparr>"

fun poll_step :: "'d poll \<Rightarrow> 'd poll_event \<Rightarrow> 'd poll \<times> unit list" where
  "poll_step q PollInterval = (startFetch q, [()])"
| "poll_step q PollFocus = (startFetch q, [()])"
| "poll_step q PollRefetch = (startFetch q, [()])"
| "poll_step q (PollAnswer d) = (q\<lparr>pl_data := Some d, pl_isError := False, pl_fetching := False\<rparr>, [])"
| "poll_step q PollFailed = (q\<lparr>pl_isError := True, pl_fetching := False\<rparr>, [])"

fun poll_ok :: "bool \<Rightarrow> ('d option \<Rightarrow> nat option) \<Rightarrow> 'd poll \<Rightarrow> 'd poll_event \<Rightarrow> bool" where
  "poll_ok enabled refetchInterval q PollInterval =
     (enabled \<and> refetchInterval (pl_data q) \<noteq> None \<and> \<not> pl_fetching q)"
| "poll_ok enabled refetchInterval q PollFocus = (enabled \<and> \<not> pl_fetching q)"
| "poll_ok enabled refetchInterval q PollRefetch = (\<not> pl_fetching q)"
| "poll_ok enabled refetchInterval q _ = pl_fetching q"

text \<open>A query that has just been mounted: enabled ones fetch at once.\<close>

definition mounted :: "bool \<Rightarrow> 'd poll" where
  "mounted enabled = \<lparr>pl_data = None, pl_isError = False, pl_fetching = enabled\<rparr>"

definition isLoading :: "'d poll \<Rightarrow> bool" where
  "isLoading q \<longleftrightarrow> pl_fetching q \<and> pl_data q = None \<and> \<not> pl_isError q"

section \<open>The status hooks\<close>

record payment_status =
  ps_payment_id :: string
  ps_status :: string
  ps_voucher_code :: "string option"

definition hotspotStatusEnabled :: "string option \<Rightarrow> bool \<Rightarrow> bool" where
  "hotspotStatusEnabled paymentId enabled \<longleftrightarrow> enabled \<and> truthy paymentId"

definition hotspotStatusInterval :: "payment_status option \<Rightarrow> nat option" where
  "hotspotStatusInterval data =
     (let status = map_option ps_status data
      in if status = Some ''confirmed'' \<or> status = Some ''failed'' then None else Some 3000)"

definition statusUrl :: "string \<Rightarrow> path" where
  "statusUrl pid = ''/hotspot/payments/'' @ pid @ ''/status''"

text \<open>The query function: an error without a payment id, otherwise a request.\<close>

definition hotspotStatusRequest :: "string option \<Rightarrow> string + path" where
  "hotspotStatusRequest paymentId =
     (if \<not> truthy paymentId then Inl ''No payment ID''
      else Inr (statusUrl (the paymentId)))"

definition paymentStatusEnabled :: "string \<Rightarrow> string \<Rightarrow> bool \<Rightarrow> bool" where
  "paymentStatusEnabled tenantId paymentId enabled \<longleftrightarrow> enabled \<and> paymentId \<noteq> [] \<and> tenantId \<noteq> []"

definition paymentStatusInterval :: "payment_status option \<Rightarrow> nat option" where
  "paymentStatusInterval data =
     (if map_option ps_status data = Some ''confirmed'' \<or> map_option ps_status data = Some ''failed''
      then None else Some 3000)"

record router_status =
  rs_router_id :: string
  rs_status :: string

definition routerStatusEnabled :: "string option \<Rightarrow> bool \<Rightarrow> bool" where
  "routerStatusEnabled routerId enabled \<longleftrightarrow> enabled \<and> truthy routerId"

definition routerStatusInterval :: "router_status option \<Rightarrow> nat option" where
  "routerStatusInterval data =
     (let status = map_option rs_status data
      in if status = Some ''online'' \<or> status = Some ''failed'' then None else Some 3000)"

section \<open>The waiting screen of the captive portal\<close>

text \<open>Amounts are kept in cents; \<open>showKes\<close> prints them the way JavaScript prints the number.\<close>

definition showKes :: "int \<Rightarrow> string" where
  "showKes c =
     (if c mod 100 = 0 then showInt (c div 100)
      else if c mod 10 = 0 then showInt (c div 100) @ ''.'' @ showInt (c mod 100 div 10)
      else showInt (c div 100) @ ''.'' @ showInt (c mod 100 div 10) @ showInt (c mod 10))"

definition TIMEOUT_SECONDS :: int where
  "TIMEOUT_SECONDS = 90"

record polling =
  pp_paymentId :: string
  pp_price :: int
  pp_name :: string
  pp_startTime :: int
  pp_timeLeft :: int
  pp_timer :: bool
  pp_query :: "payment_status poll"
  pp_due :: "string list"

definition timedOut :: "polling \<Rightarrow> bool" where
  "timedOut p \<longleftrightarrow> pp_timeLeft p = 0"

text \<open>Mounting the component: the status is fetched at once.\<close>

definition pollingStart :: "int \<Rightarrow> string \<Rightarrow> int \<Rightarrow> string \<Rightarrow> polling" where
  "pollingStart now paymentId price name =
     \<lparr>pp_paymentId = paymentId, pp_price = price, pp_name = name, pp_startTime = now,
      pp_timeLeft = TIMEOUT_SECONDS, pp_timer = True,
      pp_query = mounted (hotspotStatusEnabled (Some paymentId) True), pp_due = []\<rparr>"

text \<open>\<open>Tick now\<close> is the one second interval, \<open>Query e\<close> an event of the polled query,
  \<open>Rerendered\<close> a render with a new \<open>onConfirmed\<close> closure, \<open>Due\<close> the end of a 1.5 second delay.\<close>

datatype polling_action =
  Tick int | Query "payment_status poll_event" | Rerendered | Due | ReloadClick

datatype polling_out = GetStatus path | OnConfirmed string | WindowReload

definition handleTick :: "int \<Rightarrow> polling \<Rightarrow> polling" where
  "handleTick now p =
     (let elapsed = (now - pp_startTime p) div 1000;
          remaining = max 0 (TIMEOUT_SECONDS - elapsed)
      in p\<lparr>pp_timeLeft := remaining, pp_timer := 0 < remaining\<rparr>)"

text \<open>The effect on \<open>[data, onConfirmed]\<close>.\<close>

definition confirmEffect :: "polling \<Rightarrow> polling" where
  "confirmEffect p =
     (case pl_data (pp_query p) of
        None \<Rightarrow> p
      | Some d \<Rightarrow>
          if ps_status d = ''confirmed'' \<and> truthy (ps_voucher_code d)
          then p\<lparr>pp_due := pp_due p @ [the (ps_voucher_code d)]\<rparr> else p)"

fun polling_step :: "polling \<Rightarrow> polling_action \<Rightarrow> polling \<times> polling_out list" where
  "polling_step p (Tick now) = (handleTick now p, [])"
| "polling_step p (Query e) =
     (let (q, fetches) = poll_step (pp_query p) e;
          p1 = p\<lparr>pp_query := q\<rparr>;
          outs = map (\<lambda>_. GetStatus (statusUrl (pp_paymentId p))) fetches
      in (if pl_data q \<noteq> pl_data (pp_query p) then confirmEffect p1 else p1, outs))"
| "polling_step p Rerendered = (confirmEffect p, [])"
| "polling_step p Due =
     (case pp_due p of [] \<Rightarrow> (p, []) | c # cs \<Rightarrow> (p\<lparr>pp_due := cs\<rparr>, [OnConfirmed c]))"
| "polling_step p ReloadClick = (p, [WindowReload])"

definition paybillAccount :: "polling \<Rightarrow> string" where
  "paybillAccount p = ''WIFI-'' @ toUpperCase (take 7 (pp_paymentId p))"

text \<open>The manual payment card; \<open>paybill\<close> is \<open>VITE_MPESA_PAYBILL\<close>.\<close>

definition manualCard :: "string option \<Rightarrow> polling \<Rightarrow> polling_action view list" where
  "manualCard paybill p =
     [Txt ''1. Paybill No'', Txt (orElse paybill ''174379''),
      Txt ''2. Account No'', Txt (paybillAccount p),
      Txt ''3. Amount'', Txt (''KES '' @ showKes (pp_price p))]"

definition timedOutView :: "string option \<Rightarrow> polling \<Rightarrow> polling_action view" where
  "timedOutView paybill p = Group
     ([Txt ''This is taking longer than usual'',
       Txt ''Your M-Pesa prompt may still be processing. You can check again manually below.'',
       Btn (pl_fetching (pp_query p))
         [Txt (if pl_fetching (pp_query p) then ''Verifying...'' else ''Verify Status'')]
         (Query PollRefetch),
       Btn False [Txt ''Back to Packages''] ReloadClick,
       Txt ''Pay Manually via Lipa na M-Pesa'']
      @ manualCard paybill p)"

definition waitingView :: "string option \<Rightarrow> polling \<Rightarrow> polling_action view" where
  "waitingView paybill p = Group
     ([Txt ''Waiting for M-Pesa PIN'',
       Txt (''Please check your phone, enter your M-Pesa PIN for '' @ pp_name p
            @ '', and wait for confirmation.''),
       Txt (''Request timing out in '' @ showInt (pp_timeLeft p) @ ''s''),
       Btn (pl_fetching (pp_query p))
         [Txt (if pl_fetching (pp_query p) then ''Checking status...'' else ''Verify Status'')]
         (Query PollRefetch)]
      @ onlyIf (pp_timeLeft p \<le> 75)
          ([Txt ''Prompt delayed? Pay manually:''] @ manualCard paybill p
           @ [Txt ''* M-Pesa will auto-confirm within seconds of entering your PIN.'']))"

definition pollingView :: "string option \<Rightarrow> polling \<Rightarrow> polling_action view" where
  "pollingView paybill p =
     (let status = map_option ps_status (pl_data (pp_query p))
      in if status = Some ''confirmed'' then
           Group [Txt ''Payment Confirmed!'', Txt ''Activating your internet connection...'']
         else if status = Some ''failed'' then
           Group [Txt ''Payment Failed'',
                  Txt ''Please make sure you entered the correct PIN or have enough balance.'',
                  Btn False [Txt ''Try Again''] ReloadClick]
         else if timedOut p then timedOutView paybill p
         else waitingView paybill p)"

text \<open>What can happen on the screen: the interval while it is set, events of the query as its
  options allow, a delay that is running, and what the view offers.\<close>

fun polling_ok :: "string option \<Rightarrow> polling \<Rightarrow> polling_action \<Rightarrow> bool" where
  "polling_ok paybill p (Tick now) = pp_timer p"
| "polling_ok paybill p (Query PollRefetch) =
     (clickable (pollingView paybill p) (Query PollRefetch))"
| "polling_ok paybill p (Query e) =
     poll_ok (hotspotStatusEnabled (Some (pp_paymentId p)) (\<not> timedOut p)) hotspotStatusInterval
       (pp_query p) e"
| "polling_ok paybill p Rerendered = True"
| "polling_ok paybill p Due = (pp_due p \<noteq> [])"
| "polling_ok paybill p ReloadClick = clickable (pollingView paybill p) ReloadClick"

section \<open>The customer's payment page\<close>

datatype status_action = ToDashboard

record status_page =
  sg_id :: "string option"
  sg_query :: "payment_status poll"

definition stkPendingState :: "string option \<Rightarrow> string option \<Rightarrow> 'a view list" where
  "stkPendingState title description =
     [Txt (nullish title ''Waiting for M-Pesa...''),
      Txt (nullish description ''Please check your phone and enter your M-Pesa PIN. We're waiting for the confirmation. This page will update automatically.'')]"

text \<open>The effect on \<open>[id, navigate]\<close>.\<close>

definition statusRedirect :: "status_page \<Rightarrow> path option" where
  "statusRedirect g = (if \<not> truthy (sg_id g) then Some ''/customer/dashboard'' else None)"

definition statusPageView :: "status_page \<Rightarrow> status_action view option" where
  "statusPageView g =
     (if \<not> truthy (sg_id g) then None
      else
        (let info = pl_data (sg_query g); status = map_option ps_status info
         in Some (Group
              ([Txt ''Payment Status'']
               @ onlyIf (status = Some ''pending'') [Txt ''Waiting for M-Pesa confirmation...'']
               @ onlyIf (status = Some ''confirmed'') [Txt ''Payment successful!'']
               @ onlyIf (status = Some ''failed'') [Txt ''Payment failed or cancelled.'']
               @ onlyIf (info = None) [Txt ''Loading status...'']
               @ (if isLoading (sg_query g) then stkPendingState None None
                  else if pl_isError (sg_query g) then [Txt ''Failed to fetch payment status.'']
                  else if status = Some ''pending'' then stkPendingState None None
                  else if status = Some ''confirmed'' then
                    [Txt ''Your WiFi Voucher Code'',
                     Txt (orElse (Option.bind info ps_voucher_code) ''N/A''),
                     Txt ''Connect to our WiFi network and enter this code to start browsing.'']
                  else [Txt ''Payment Failed'',
                        Txt ''The transaction was cancelled or failed to process.''])
               @ [Btn False [Txt (if status = Some ''confirmed'' then ''Go to Dashboard''
                                  else ''Back to Dashboard'')] ToDashboard]))))"

section \<open>The contract of a polled query\<close>

text \<open>What a polling hook promises: its interval is off exactly on a final answer.\<close>

locale poller =
  fixes refetchInterval :: "'d option \<Rightarrow> nat option"
    and final :: "'d \<Rightarrow> bool"
  assumes interval_final: "refetchInterval (Some d) = None \<longleftrightarrow> final d"
    and interval_first: "refetchInterval None \<noteq> None"
begin

text \<open>On a final answer only the user or a focus change can start another fetch.\<close>

lemma settled:
  "pl_data q = Some d \<Longrightarrow> final d \<Longrightarrow> \<not> pl_fetching q \<Longrightarrow> poll_ok enabled refetchInterval q e \<Longrightarrow>
   e = PollRefetch \<or> (e = PollFocus \<and> enabled)"
  by (cases e) (auto simp: interval_final)

text \<open>Until then an enabled query is never stuck.\<close>

lemma not_stuck:
  "enabled \<Longrightarrow> (\<And>d. pl_data q = Some d \<Longrightarrow> \<not> final d) \<Longrightarrow>
   pl_fetching q \<or> poll_ok enabled refetchInterval q PollInterval"
  by (cases "pl_data q") (auto simp: interval_final interval_first)

text \<open>While the answers are not final, answer and interval alternate.\<close>

lemma keeps_polling:
  "enabled \<Longrightarrow> pl_fetching q \<Longrightarrow> \<forall>d \<in> set ds. \<not> final d \<Longrightarrow>
   \<exists>q'. guarded_run (poll_ok enabled refetchInterval) poll_step q
          (concat (map (\<lambda>d. [PollAnswer d, PollInterval]) ds)) = Some (q', replicate (length ds) ())
      \<and> pl_fetching q' \<and> pl_data q' = (if ds = [] then pl_data q else Some (last ds))"
proof (induction ds arbitrary: q)
  case (Cons d ds)
  then have "pl_fetching (startFetch (q\<lparr>pl_data := Some d, pl_isError := False, pl_fetching := False\<rparr>))"
    by (simp add: startFetch_def)
  with Cons show ?case
    by (force simp: guarded_run_Cons interval_final startFetch_def)
qed simp

end

definition paymentFinal :: "payment_status \<Rightarrow> bool" where
  "paymentFinal d \<longleftrightarrow> ps_status d = ''confirmed'' \<or> ps_status d = ''failed''"

definition routerFinal :: "router_status \<Rightarrow> bool" where
  "routerFinal d \<longleftrightarrow> rs_status d = ''online'' \<or> rs_status d = ''failed''"

interpretation hotspot: poller hotspotStatusInterval paymentFinal
  by unfold_locales (auto simp: hotspotStatusInterval_def paymentFinal_def)

interpretation payment: poller paymentStatusInterval paymentFinal
  by unfold_locales (auto simp: paymentStatusInterval_def paymentFinal_def)

interpretation router: poller routerStatusInterval routerFinal
  by unfold_locales (auto simp: routerStatusInterval_def routerFinal_def)

section \<open>Lemmas on the waiting screen\<close>

text \<open>The answers a wait goes through before the last one.\<close>

definition awaiting :: "payment_status list \<Rightarrow> polling_action list" where
  "awaiting ds = map Query (concat (map (\<lambda>d. [PollAnswer d, PollInterval]) ds))"

fun unconfirmed :: "payment_status poll_event \<Rightarrow> bool" where
  "unconfirmed (PollAnswer d) = (ps_status d \<noteq> ''confirmed'')"
| "unconfirmed e = (e \<noteq> PollRefetch)"

lemma polling_okQ:
  "e \<noteq> PollRefetch \<Longrightarrow> polling_ok paybill p (Query e) =
     poll_ok (hotspotStatusEnabled (Some (pp_paymentId p)) (\<not> timedOut p)) hotspotStatusInterval (pp_query p) e"
  by (cases e) auto

lemma polling_stepQ:
  "unconfirmed e \<Longrightarrow> polling_step p (Query e) =
     (p\<lparr>pp_query := fst (poll_step (pp_query p) e)\<rparr>,
      map (\<lambda>_. GetStatus (statusUrl (pp_paymentId p))) (snd (poll_step (pp_query p) e)))"
  by (cases e) (auto simp: Let_def confirmEffect_def startFetch_def)

declare polling_step.simps(2) [simp del] polling_ok.simps(2-6) [simp del]

text \<open>A run of the query without a confirmation is a run of the screen.\<close>

lemma query_run:
  assumes "guarded_run (poll_ok (hotspotStatusEnabled (Some pid) (\<not> timedOut p)) hotspotStatusInterval)
             poll_step (pp_query p) es = Some (q, rs)"
    and "list_all unconfirmed es" and "pp_paymentId p = pid"
  shows "guarded_run (polling_ok paybill) polling_step p (map Query es)
     = Some (p\<lparr>pp_query := q\<rparr>, map (\<lambda>_. GetStatus (statusUrl pid)) rs)"
  using assms
proof (induction es arbitrary: p rs)
  case (Cons e es)
  let ?p = "p\<lparr>pp_query := fst (poll_step (pp_query p) e)\<rparr>"
  have same: "timedOut ?p = timedOut p" by (simp add: timedOut_def)
  from Cons.prems obtain rs' where
    run: "guarded_run (poll_ok (hotspotStatusEnabled (Some pid) (\<not> timedOut ?p)) hotspotStatusInterval)
            poll_step (pp_query ?p) es = Some (q, rs')"
    and rs: "rs = snd (poll_step (pp_query p) e) @ rs'"
    and ok: "poll_ok (hotspotStatusEnabled (Some pid) (\<not> timedOut p)) hotspotStatusInterval (pp_query p) e"
    by (auto simp: guarded_run_Cons same)
  have "e \<noteq> PollRefetch" "unconfirmed e" using Cons.prems(2) by auto
  then show ?case
    using Cons.IH [OF run] Cons.prems(2,3) rs ok
    by (simp add: guarded_run_Cons polling_okQ polling_stepQ)
qed simp

lemma pollingStart_simps [simp]:
  "pp_paymentId (pollingStart now pid price name) = pid"
  "pp_due (pollingStart now pid price name) = []"
  "pp_query (pollingStart now pid price name) = mounted (pid \<noteq> [])"
  "timedOut (pollingStart now pid price name) = False"
  by (simp_all add: pollingStart_def timedOut_def TIMEOUT_SECONDS_def hotspotStatusEnabled_def)

lemma awaiting_run:
  assumes "pid \<noteq> []" and "\<forall>d \<in> set ds. \<not> paymentFinal d"
  shows "\<exists>q. guarded_run (polling_ok paybill) polling_step (pollingStart now pid price name) (awaiting ds)
       = Some ((pollingStart now pid price name)\<lparr>pp_query := q\<rparr>,
               replicate (length ds) (GetStatus (statusUrl pid)))
     \<and> pl_fetching q \<and> pl_data q = (if ds = [] then None else Some (last ds))"
proof -
  let ?p = "pollingStart now pid price name"
  have on: "hotspotStatusEnabled (Some pid) (\<not> timedOut ?p)"
    using assms(1) by (simp add: hotspotStatusEnabled_def)
  have fetch: "pl_fetching (pp_query ?p)" using assms(1) by (simp add: mounted_def)
  have "list_all unconfirmed (concat (map (\<lambda>d. [PollAnswer d, PollInterval]) ds))"
    using assms(2) by (auto simp: list_all_iff paymentFinal_def)
  moreover from hotspot.keeps_polling [OF on fetch assms(2)] obtain q where
    "guarded_run (poll_ok (hotspotStatusEnabled (Some pid) (\<not> timedOut ?p)) hotspotStatusInterval) poll_step
       (pp_query ?p) (concat (map (\<lambda>d. [PollAnswer d, PollInterval]) ds)) = Some (q, replicate (length ds) ())"
    "pl_fetching q" "pl_data q = (if ds = [] then None else Some (last ds))"
    by (auto simp: mounted_def)
  ultimately show ?thesis
    using query_run [of pid ?p _ q "replicate (length ds) ()" paybill]
    by (intro exI [of _ q]) (simp add: awaiting_def)
qed

text \<open>Codes on their way to \<open>onConfirmed\<close>, and the code of the data shown.\<close>

definition codes_from :: "string set \<Rightarrow> polling \<Rightarrow> bool" where
  "codes_from C p \<longleftrightarrow> set (pp_due p) \<subseteq> C \<and>
     (\<forall>d c. pl_data (pp_query p) = Some d \<longrightarrow> ps_status d = ''confirmed'' \<longrightarrow>
        ps_voucher_code d = Some c \<longrightarrow> c \<noteq> [] \<longrightarrow> c \<in> C)"

definition confirmedCodes :: "polling_action list \<Rightarrow> string set" where
  "confirmedCodes as = {c. c \<noteq> [] \<and> (\<exists>d. Query (PollAnswer d) \<in> set as \<and> ps_status d = ''confirmed''
                             \<and> ps_voucher_code d = Some c)}"

lemma truthy_eq: "truthy x \<longleftrightarrow> (\<exists>s. x = Some s \<and> s \<noteq> [])"
  by (cases x) auto

lemma confirmEffect_keeps [simp]:
  "pp_query (confirmEffect p) = pp_query p" "pp_paymentId (confirmEffect p) = pp_paymentId p"
  "pp_timeLeft (confirmEffect p) = pp_timeLeft p" "pp_timer (confirmEffect p) = pp_timer p"
  "pp_startTime (confirmEffect p) = pp_startTime p"
  by (auto simp: confirmEffect_def split: option.splits)

lemma confirmEffect_codes: "codes_from C p \<Longrightarrow> codes_from C (confirmEffect p)"
  by (auto simp: codes_from_def confirmEffect_def truthy_eq split: option.splits)

lemma polling_step_codes:
  assumes "codes_from C p" and "confirmedCodes [a] \<subseteq> C"
  shows "codes_from C (fst (polling_step p a)) \<and> (\<forall>c. OnConfirmed c \<in> set (snd (polling_step p a)) \<longrightarrow> c \<in> C)"
proof (cases a)
  case (Query e)
  have "codes_from C (p\<lparr>pp_query := fst (poll_step (pp_query p) e)\<rparr>)"
    using assms Query by (cases e) (auto simp: codes_from_def confirmedCodes_def startFetch_def)
  then show ?thesis
    using Query by (auto simp: polling_step.simps Let_def split: prod.splits dest: confirmEffect_codes)
next
  case Due
  then show ?thesis using assms(1) by (cases "pp_due p") (auto simp: codes_from_def)
qed (use assms(1) confirmEffect_codes in \<open>auto simp: codes_from_def handleTick_def Let_def\<close>)

lemma polling_run_codes:
  "guarded_run (polling_ok paybill) polling_step p as = Some (p', outs) \<Longrightarrow> codes_from C p \<Longrightarrow>
   confirmedCodes as \<subseteq> C \<Longrightarrow> OnConfirmed c \<in> set outs \<Longrightarrow> c \<in> C"
proof (induction as arbitrary: p outs)
  case (Cons a as)
  from Cons.prems obtain outs' where run: "guarded_run (polling_ok paybill) polling_step
      (fst (polling_step p a)) as = Some (p', outs')" and outs: "outs = snd (polling_step p a) @ outs'"
    by (auto simp: guarded_run_Cons)
  have sub: "confirmedCodes [a] \<subseteq> C" "confirmedCodes as \<subseteq> C"
    using Cons.prems(3) by (auto simp: confirmedCodes_def)
  show ?case
    using polling_step_codes [OF Cons.prems(2) sub(1)] Cons.IH [OF run _ sub(2)] Cons.prems(4) outs by auto
qed simp

lemma polling_step_urls:
  "pp_paymentId (fst (polling_step p a)) = pp_paymentId p
   \<and> (\<forall>u. GetStatus u \<in> set (snd (polling_step p a)) \<longrightarrow> u = statusUrl (pp_paymentId p))"
  by (cases a) (auto simp: polling_step.simps handleTick_def Let_def split: list.splits prod.splits)

lemma polling_run_urls:
  "guarded_run (polling_ok paybill) polling_step p as = Some (p', outs) \<Longrightarrow> GetStatus u \<in> set outs \<Longrightarrow>
   u = statusUrl (pp_paymentId p)"
proof (induction as arbitrary: p outs)
  case (Cons a as)
  then show ?case using polling_step_urls [of p a] by (fastforce simp: guarded_run_Cons)
qed simp

text \<open>The countdown: the interval is cleared exactly when it has reached zero.\<close>

definition countdown :: "polling \<Rightarrow> bool" where
  "countdown p \<longleftrightarrow> 0 \<le> pp_timeLeft p \<and> pp_timer p = (0 < pp_timeLeft p)"

lemma polling_step_countdown:
  "countdown p \<Longrightarrow> countdown (fst (polling_step p a))"
  by (cases a) (auto simp: countdown_def polling_step.simps handleTick_def Let_def split: list.splits prod.splits)

lemma polling_step_timedOut:
  assumes "countdown p" "timedOut p" "polling_ok paybill p a"
  shows "timedOut (fst (polling_step p a)) \<and> a \<noteq> Query PollInterval \<and> a \<noteq> Query PollFocus"
  using assms
  by (cases a) (auto simp: countdown_def timedOut_def polling_step.simps polling_okQ hotspotStatusEnabled_def
      Let_def split: list.splits prod.splits)

lemma polling_run_timedOut:
  "guarded_run (polling_ok paybill) polling_step p as = Some (p', outs) \<Longrightarrow> countdown p \<Longrightarrow> timedOut p \<Longrightarrow>
   timedOut p' \<and> Query PollInterval \<notin> set as \<and> Query PollFocus \<notin> set as"
proof (induction as arbitrary: p outs)
  case (Cons a as)
  then have ok: "polling_ok paybill p a" by (auto simp: guarded_run_Cons)
  show ?case
    using Cons polling_step_timedOut [OF Cons.prems(2,3) ok] polling_step_countdown [OF Cons.prems(2), of a]
    by (fastforce simp: guarded_run_Cons)
qed simp

lemma polling_run_late:
  "guarded_run (polling_ok paybill) polling_step p as = Some (p', outs) \<Longrightarrow> countdown p \<Longrightarrow>
   Tick now \<in> set as \<Longrightarrow> pp_startTime p + 90000 \<le> now \<Longrightarrow> timedOut p'"
proof (induction as arbitrary: p outs)
  case (Cons a as)
  let ?p = "fst (polling_step p a)"
  obtain outs' where run: "guarded_run (polling_ok paybill) polling_step ?p as = Some (p', outs')"
    using Cons.prems(1) by (auto simp: guarded_run_Cons)
  have cd: "countdown ?p" using Cons.prems(2) by (rule polling_step_countdown)
  have start: "pp_startTime ?p = pp_startTime p"
    by (cases a) (auto simp: polling_step.simps handleTick_def Let_def split: list.splits prod.splits)
  show ?case
  proof (cases "a = Tick now")
    case True
    have "90 \<le> (now - pp_startTime p) div 1000" using Cons.prems(4) by linarith
    with True have "timedOut ?p" by (simp add: timedOut_def handleTick_def TIMEOUT_SECONDS_def Let_def)
    with polling_run_timedOut [OF run cd] show ?thesis by blast
  next
    case False
    with Cons.IH [OF run cd] Cons.prems(3,4) start show ?thesis by simp
  qed
qed simp

lemma countdown_start: "countdown (pollingStart now pid price name)"
  by (simp add: countdown_def pollingStart_def TIMEOUT_SECONDS_def)

lemma polling_run_countdown:
  "guarded_run (polling_ok paybill) polling_step p as = Some (p', outs) \<Longrightarrow> countdown p \<Longrightarrow> countdown p'"
  by (erule guarded_run_inv [rotated 2]) (auto intro: polling_step_countdown)

lemma clickable_manualCard [simp]: "v \<in> set (manualCard paybill p) \<Longrightarrow> \<not> clickable v a"
  by (auto simp: manualCard_def view_simps)

lemma pollingView_refetch:
  "clickable (pollingView paybill p) (Query PollRefetch) \<longleftrightarrow>
     \<not> pl_fetching (pp_query p) \<and> (\<forall>d. pl_data (pp_query p) = Some d \<longrightarrow> \<not> paymentFinal d)"
  by (cases "pl_data (pp_query p)")
     (auto simp: pollingView_def timedOutView_def waitingView_def paymentFinal_def view_simps Let_def)

lemma pollingView_confirmed:
  "map_option ps_status (pl_data (pp_query p)) = Some ''confirmed'' \<Longrightarrow>
   shows_text (pollingView paybill p) ''Payment Confirmed!'' \<and> \<not> clickable (pollingView paybill p) a"
  by (simp add: pollingView_def view_simps)

text \<open>A screen that shows a confirmation without a voucher.\<close>

definition voucherless :: "polling \<Rightarrow> bool" where
  "voucherless p \<longleftrightarrow> \<not> pl_fetching (pp_query p) \<and> pp_due p = [] \<and>
     (\<exists>d. pl_data (pp_query p) = Some d \<and> ps_status d = ''confirmed'' \<and> ps_voucher_code d = None)"

lemma voucherless_step:
  assumes "voucherless p" "polling_ok paybill p a" "a \<noteq> Query PollFocus"
  shows "voucherless (fst (polling_step p a)) \<and> snd (polling_step p a) = []"
proof -
  obtain d where d: "pl_data (pp_query p) = Some d" "ps_status d = ''confirmed''" "ps_voucher_code d = None"
    "\<not> pl_fetching (pp_query p)" "pp_due p = []"
    using assms(1) by (auto simp: voucherless_def)
  have fin: "paymentFinal d" using d(2) by (simp add: paymentFinal_def)
  show ?thesis
  proof (cases a)
    case (Query e)
    with assms(2,3) have "e = PollRefetch"
      using hotspot.settled [OF d(1) fin d(4), of _ e] by (cases "e = PollRefetch") (auto simp: polling_okQ)
    with Query assms(2) d fin show ?thesis by (simp add: polling_ok.simps pollingView_refetch)
  next
    case ReloadClick
    with assms(2) d show ?thesis by (simp add: polling_ok.simps pollingView_confirmed)
  qed (use d assms(2) in \<open>auto simp: voucherless_def handleTick_def confirmEffect_def polling_ok.simps Let_def\<close>)
qed

lemma voucherless_run:
  "guarded_run (polling_ok paybill) polling_step p bs = Some (p', outs) \<Longrightarrow> voucherless p \<Longrightarrow>
   Query PollFocus \<notin> set bs \<Longrightarrow> outs = [] \<and> voucherless p'"
proof (induction bs arbitrary: p outs)
  case (Cons b bs)
  from Cons.prems(1) obtain os where ok: "polling_ok paybill p b"
    and tail: "guarded_run (polling_ok paybill) polling_step (fst (polling_step p b)) bs = Some (p', os)"
    and os: "outs = snd (polling_step p b) @ os" by (auto simp: guarded_run_Cons)
  have "voucherless (fst (polling_step p b)) \<and> snd (polling_step p b) = []"
    using voucherless_step [OF Cons.prems(2) ok] Cons.prems(3) by auto
  then show ?case using Cons.IH [OF tail] Cons.prems(3) os by simp
qed simp

text \<open>Screens that show one confirmed payment: what is on its way is its code, once for every run of the
  effect.\<close>

definition confirmation :: "string \<Rightarrow> string \<Rightarrow> payment_status" where
  "confirmation pid c = \<lparr>ps_payment_id = pid, ps_status = ''confirmed'', ps_voucher_code = Some c\<rparr>"

fun is_handover :: "polling_out \<Rightarrow> bool" where
  "is_handover (OnConfirmed c) = True"
| "is_handover _ = False"

definition confirmedWith :: "payment_status \<Rightarrow> polling \<Rightarrow> bool" where
  "confirmedWith d p \<longleftrightarrow> pl_data (pp_query p) = Some d
     \<and> set (pp_due p) \<subseteq> {c. ps_voucher_code d = Some c}"

text \<open>The answers after the confirmation repeat it.\<close>

definition repeating :: "payment_status \<Rightarrow> polling_action \<Rightarrow> bool" where
  "repeating d a \<longleftrightarrow> (\<forall>d'. a = Query (PollAnswer d') \<longrightarrow> d' = d)"

lemma confirmedWith_step:
  assumes "confirmedWith d p" "ps_status d = ''confirmed''" "ps_voucher_code d = Some c" "c \<noteq> []"
    and "polling_ok paybill p a" "repeating d a"
  shows "confirmedWith d (fst (polling_step p a))
    \<and> a \<noteq> Query PollInterval \<and> a \<noteq> Query PollRefetch \<and> a \<noteq> ReloadClick
    \<and> length (filter is_handover (snd (polling_step p a))) + length (pp_due (fst (polling_step p a)))
        = length (pp_due p) + of_bool (a = Rerendered)"
proof -
  have d: "pl_data (pp_query p) = Some d" "set (pp_due p) \<subseteq> {c}" using assms(1,3) by (auto simp: confirmedWith_def)
  have fin: "paymentFinal d" using assms(2) by (simp add: paymentFinal_def)
  show ?thesis
  proof (cases a)
    case (Query e)
    have "e \<noteq> PollRefetch" "e \<noteq> PollInterval"
      using Query assms(2,5) d fin by (auto simp: polling_ok.simps polling_okQ pollingView_refetch hotspotStatusInterval_def)
    then show ?thesis
      using Query assms(3,6) d by (cases e) (auto simp: polling_step.simps confirmedWith_def repeating_def startFetch_def Let_def)
  next
    case Due
    with assms(5) d(2) show ?thesis
      using d(1) assms(3) by (cases "pp_due p") (auto simp: polling_ok.simps confirmedWith_def)
  next
    case Rerendered
    then show ?thesis using d assms(2-4) by (auto simp: confirmEffect_def confirmedWith_def)
  next
    case ReloadClick
    with assms(2,5) d show ?thesis by (simp add: polling_ok.simps pollingView_confirmed)
  qed (use d assms(3) in \<open>auto simp: confirmedWith_def handleTick_def Let_def\<close>)
qed

lemma confirmedWith_run:
  assumes "guarded_run (polling_ok paybill) polling_step p bs = Some (p', outs)" and "confirmedWith d p"
    and d: "ps_status d = ''confirmed''" "ps_voucher_code d = Some c" "c \<noteq> []" and "\<forall>a \<in> set bs. repeating d a"
  shows "confirmedWith d p' \<and> (\<forall>a \<in> set bs. a \<noteq> Query PollInterval \<and> a \<noteq> Query PollRefetch \<and> a \<noteq> ReloadClick)
    \<and> length (filter is_handover outs) + length (pp_due p') = length (pp_due p) + count_list bs Rerendered"
  using assms(1,2,6)
proof (induction bs arbitrary: p outs)
  case (Cons b bs)
  from Cons.prems(1) obtain os where ok: "polling_ok paybill p b"
    and tail: "guarded_run (polling_ok paybill) polling_step (fst (polling_step p b)) bs = Some (p', os)"
    and os: "outs = snd (polling_step p b) @ os" by (auto simp: guarded_run_Cons)
  have step: "confirmedWith d (fst (polling_step p b))
    \<and> b \<noteq> Query PollInterval \<and> b \<noteq> Query PollRefetch \<and> b \<noteq> ReloadClick
    \<and> length (filter is_handover (snd (polling_step p b))) + length (pp_due (fst (polling_step p b)))
        = length (pp_due p) + of_bool (b = Rerendered)"
    using confirmedWith_step [OF Cons.prems(2) d ok] Cons.prems(3) by simp
  then show ?case using Cons.IH [OF tail] Cons.prems(3) os by auto
qed simp

lemma polling_run_due:
  assumes "guarded_run (polling_ok paybill) polling_step (pollingStart now pid price name) as = Some (p, outs)"
    and "confirmedCodes as = {}"
  shows "codes_from {} p" and "pp_paymentId p = pid"
proof -
  have step: "codes_from {} (fst (polling_step q a)) \<and> pp_paymentId (fst (polling_step q a)) = pid"
    if "codes_from {} q \<and> pp_paymentId q = pid" "a \<in> set as" for q a
  proof -
    have "confirmedCodes [a] \<subseteq> {}" using assms(2) that(2) by (auto simp: confirmedCodes_def)
    then show ?thesis using polling_step_codes [of "{}" q a] polling_step_urls [of q a] that(1) by auto
  qed
  have "codes_from {} (pollingStart now pid price name) \<and> pp_paymentId (pollingStart now pid price name) = pid"
    by (simp add: codes_from_def mounted_def)
  from guarded_run_trace(1) [where P = "\<lambda>q. codes_from {} q \<and> pp_paymentId q = pid" and Q = "\<lambda>_. True", OF assms(1) this] step
  show "codes_from {} p" "pp_paymentId p = pid" by auto
qed

text \<open>The confirming answer: its code is on its way, and it is what the screen shows.\<close>

lemma confirming_answer:
  assumes "codes_from {} p" and "c \<noteq> []"
  shows "confirmedWith (confirmation pid c) (fst (polling_step p (Query (PollAnswer (confirmation pid c)))))
    \<and> pp_due (fst (polling_step p (Query (PollAnswer (confirmation pid c))))) = [c]
    \<and> snd (polling_step p (Query (PollAnswer (confirmation pid c)))) = []"
proof -
  have "pl_data (pp_query p) \<noteq> Some (confirmation pid c)" "pp_due p = []"
    using assms by (auto simp: codes_from_def confirmation_def)
  then show ?thesis
    using assms(2) by (simp add: confirmation_def polling_step.simps confirmEffect_def confirmedWith_def Let_def)
qed

section \<open>Properties\<close>

text \<open>C7: a confirmed payment reaches the customer, whatever happened on the waiting screen before (ticks,
  failed and unfinished checks, checks by hand, renders): as long as the payment is unsettled a check
  is running or can be asked for, by the interval itself until the screen has timed out; and when a
  running check says \<open>confirmed\<close> with a code for the first time, the screen shows it, its code is
  the only one on its way, and in every continuation whose answers repeat it no further check is
  started except on focus, only that code is handed over, and it is handed over, or on its way, once
  for the answer and once more for each render with a new \<open>onConfirmed\<close>.\<close>

theorem polling_delivers:
  assumes "guarded_run (polling_ok paybill) polling_step (pollingStart now pid price name) as = Some (p, outs)"
    and "confirmedCodes as = {}" and "pid \<noteq> []" and "c \<noteq> []"
  shows "((\<forall>d. pl_data (pp_query p) = Some d \<longrightarrow> \<not> paymentFinal d) \<longrightarrow>
       pl_fetching (pp_query p) \<or> polling_ok paybill p (Query PollRefetch) \<and> (timedOut p \<or> polling_ok paybill p (Query PollInterval)))
    \<and> polling_ok paybill p (Query (PollAnswer (confirmation pid c))) = pl_fetching (pp_query p)
    \<and> (let p1 = fst (polling_step p (Query (PollAnswer (confirmation pid c)))) in
         shows_text (pollingView paybill p1) ''Payment Confirmed!'' \<and> pp_due p1 = [c]
         \<and> (\<forall>bs p2 outs2. guarded_run (polling_ok paybill) polling_step p1 bs = Some (p2, outs2) \<longrightarrow>
              (\<forall>a \<in> set bs. repeating (confirmation pid c) a) \<longrightarrow>
              Query PollInterval \<notin> set bs \<and> Query PollRefetch \<notin> set bs
              \<and> (\<forall>c'. OnConfirmed c' \<in> set outs2 \<longrightarrow> c' = c)
              \<and> length (filter is_handover outs2) + length (pp_due p2) = 1 + count_list bs Rerendered
              \<and> polling_ok paybill p2 Due = (pp_due p2 \<noteq> [])))"
proof -
  let ?d = "confirmation pid c"
  let ?p1 = "fst (polling_step p (Query (PollAnswer ?d)))"
  note due = polling_run_due [OF assms(1,2)]
  note conf = confirming_answer [OF due(1) assms(4), of pid]
  have d: "ps_status ?d = ''confirmed''" "ps_voucher_code ?d = Some c" by (simp_all add: confirmation_def)
  have "pl_fetching (pp_query p) \<or> polling_ok paybill p (Query PollRefetch) \<and> (timedOut p \<or> polling_ok paybill p (Query PollInterval))"
    if "\<forall>d. pl_data (pp_query p) = Some d \<longrightarrow> \<not> paymentFinal d"
    using hotspot.not_stuck [of True "pp_query p"] that due(2) assms(3)
    by (auto simp: polling_ok.simps pollingView_refetch hotspotStatusEnabled_def)
  moreover have "shows_text (pollingView paybill ?p1) ''Payment Confirmed!''"
    using conf d by (intro pollingView_confirmed [THEN conjunct1]) (simp add: confirmedWith_def)
  moreover have "Query PollInterval \<notin> set bs \<and> Query PollRefetch \<notin> set bs
      \<and> (\<forall>c'. OnConfirmed c' \<in> set outs2 \<longrightarrow> c' = c)
      \<and> length (filter is_handover outs2) + length (pp_due p2) = 1 + count_list bs Rerendered
      \<and> polling_ok paybill p2 Due = (pp_due p2 \<noteq> [])"
    if run: "guarded_run (polling_ok paybill) polling_step ?p1 bs = Some (p2, outs2)"
      and rep: "\<forall>a \<in> set bs. repeating ?d a" for bs p2 outs2
  proof -
    have "codes_from {c} ?p1" using conf d by (auto simp: codes_from_def confirmedWith_def)
    moreover have "confirmedCodes bs \<subseteq> {c}" using rep d by (auto simp: confirmedCodes_def repeating_def)
    ultimately have "\<forall>c'. OnConfirmed c' \<in> set outs2 \<longrightarrow> c' = c" using polling_run_codes [OF run] by blast
    then show ?thesis
      using confirmedWith_run [OF run _ d assms(4) rep] conf by (auto simp: polling_ok.simps)
  qed
  ultimately show ?thesis using conf by (auto simp: Let_def polling_okQ)
qed

theorem polling_delivers_witness:
  "let as = [Query PollFailed, Query PollInterval, Tick 95000];
       p = fst (the (guarded_run (polling_ok None) polling_step (pollingStart 0 ''x'' 100 ''n'') as));
       p1 = fst (polling_step p (Query (PollAnswer (confirmation ''x'' ''C''))));
       (p2, outs2) = the (guarded_run (polling_ok None) polling_step p1 [Rerendered, Due, Due]) in
     polling_ok None p (Query (PollAnswer (confirmation ''x'' ''C''))) \<and> pp_due p1 = [''C'']
     \<and> (\<forall>c'. OnConfirmed c' \<in> set outs2 \<longrightarrow> c' = ''C'')
     \<and> length (filter is_handover outs2) + length (pp_due p2) = 2"
proof -
  let ?as = "[Query PollFailed, Query PollInterval, Tick 95000]"
  let ?d = "confirmation ''x'' ''C''"
  have "guarded_run (polling_ok None) polling_step (pollingStart 0 ''x'' 100 ''n'') ?as \<noteq> None"
    by (simp add: guarded_runs polling_okQ polling_step.simps hotspotStatusEnabled_def hotspotStatusInterval_def Let_def
        mounted_def del: not_None_eq) (simp add: pollingStart_def timedOut_def TIMEOUT_SECONDS_def hotspotStatusEnabled_def mounted_def)
  then obtain p outs where run: "guarded_run (polling_ok None) polling_step (pollingStart 0 ''x'' 100 ''n'') ?as
      = Some (p, outs)" by auto
  have fetching: "pl_fetching (pp_query p)"
    using run by (auto simp: guarded_run_Cons polling_step.simps handleTick_def startFetch_def Let_def)
  have "confirmedCodes ?as = {}" by (simp add: confirmedCodes_def)
  note deliv = polling_delivers [OF run this, of "''C''", unfolded Let_def, simplified]
  let ?p1 = "fst (polling_step p (Query (PollAnswer ?d)))"
  have due: "pp_due ?p1 = [''C'']" using deliv by blast
  have data: "pl_data (pp_query ?p1) = Some ?d" by (simp add: polling_step.simps Let_def)
  have "guarded_run (polling_ok None) polling_step ?p1 [Rerendered, Due, Due] \<noteq> None"
    using due data by (simp add: guarded_runs polling_ok.simps confirmEffect_def del: not_None_eq) (simp add: confirmation_def)
  then obtain p2 outs2 where run2: "guarded_run (polling_ok None) polling_step ?p1 [Rerendered, Due, Due] = Some (p2, outs2)"
    by auto
  then show ?thesis using deliv fetching due run by (auto simp: repeating_def)
qed

text \<open>C8: no voucher out of thin air: in every run of the waiting screen a code is handed over
  only if an answer of this payment's status endpoint said \<open>confirmed\<close> and carried that code,
  and every request goes to this payment's status.\<close>

theorem confirmed_codes_genuine:
  assumes "guarded_run (polling_ok paybill) polling_step (pollingStart now pid price name) as = Some (p, outs)"
  shows "(\<forall>c. OnConfirmed c \<in> set outs \<longrightarrow> c \<in> confirmedCodes as)
    \<and> (\<forall>u. GetStatus u \<in> set outs \<longrightarrow> u = statusUrl pid)"
proof -
  have "codes_from (confirmedCodes as) (pollingStart now pid price name)"
    by (simp add: codes_from_def mounted_def)
  then show ?thesis
    using polling_run_codes [OF assms] polling_run_urls [OF assms] by auto
qed

theorem confirmed_codes_genuine_witness:
  "let as = [Query (PollAnswer \<lparr>ps_payment_id = ''x'', ps_status = ''confirmed'', ps_voucher_code = Some ''C''\<rparr>),
             Rerendered, Due, Due];
       (p, outs) = the (guarded_run (polling_ok None) polling_step (pollingStart 0 ''x'' 100 ''n'') as) in
     (\<forall>c. OnConfirmed c \<in> set outs \<longrightarrow> c \<in> confirmedCodes as)
    \<and> (\<forall>u. GetStatus u \<in> set outs \<longrightarrow> u = statusUrl ''x'')"
proof -
  let ?as = "[Query (PollAnswer \<lparr>ps_payment_id = ''x'', ps_status = ''confirmed'', ps_voucher_code = Some ''C''\<rparr>),
             Rerendered, Due, Due]"
  have "guarded_run (polling_ok None) polling_step (pollingStart 0 ''x'' 100 ''n'') ?as \<noteq> None"
    by (simp add: guarded_run.simps polling_okQ polling_ok.simps polling_step.simps confirmEffect_def Let_def
        mounted_def)
  then obtain p outs where run: "guarded_run (polling_ok None) polling_step (pollingStart 0 ''x'' 100 ''n'') ?as
      = Some (p, outs)" by auto
  from confirmed_codes_genuine [OF run] show ?thesis unfolding Let_def run option.sel prod.case .
qed

text \<open>C9: the wait is bounded: once the second hand ticks 90 seconds or more after the start, the
  screen has timed out for good, whatever the clock does later; no automatic request is made
  any more, and unless the payment is settled the customer can check the status by hand (while
  no check is running) or go back to the packages.\<close>

theorem polling_bounded:
  assumes "guarded_run (polling_ok paybill) polling_step (pollingStart now pid price name) as = Some (p, outs)"
    and "Tick t \<in> set as" and "now + 90000 \<le> t"
    and "guarded_run (polling_ok paybill) polling_step p bs = Some (p', outs')"
  shows "timedOut p' \<and> Query PollInterval \<notin> set bs \<and> Query PollFocus \<notin> set bs
    \<and> ((\<forall>d. pl_data (pp_query p') = Some d \<longrightarrow> \<not> paymentFinal d) \<longrightarrow>
         clickable (pollingView paybill p') (Query PollRefetch) = (\<not> pl_fetching (pp_query p'))
         \<and> clickable (pollingView paybill p') ReloadClick)"
proof -
  have "timedOut p"
    using polling_run_late [OF assms(1) countdown_start assms(2)] assms(3) by (simp add: pollingStart_def)
  then have late: "timedOut p' \<and> Query PollInterval \<notin> set bs \<and> Query PollFocus \<notin> set bs"
    using polling_run_timedOut [OF assms(4) polling_run_countdown [OF assms(1) countdown_start]] by blast
  moreover have "clickable (pollingView paybill p') ReloadClick"
    if "\<forall>d. pl_data (pp_query p') = Some d \<longrightarrow> \<not> paymentFinal d"
    using late that by (cases "pl_data (pp_query p')")
      (auto simp: pollingView_def timedOutView_def paymentFinal_def view_simps)
  ultimately show ?thesis by (simp add: pollingView_refetch)
qed

theorem polling_bounded_witness:
  "let as = [Query PollFailed, Tick 95000];
       (p, outs) = the (guarded_run (polling_ok None) polling_step (pollingStart 0 ''x'' 100 ''n'') as);
       bs = [Query PollRefetch, Query PollFailed];
       (p', outs') = the (guarded_run (polling_ok None) polling_step p bs) in
     timedOut p' \<and> Query PollInterval \<notin> set bs \<and> Query PollFocus \<notin> set bs
    \<and> ((\<forall>d. pl_data (pp_query p') = Some d \<longrightarrow> \<not> paymentFinal d) \<longrightarrow>
         clickable (pollingView None p') (Query PollRefetch) = (\<not> pl_fetching (pp_query p'))
         \<and> clickable (pollingView None p') ReloadClick)"
proof -
  let ?as = "[Query PollFailed, Tick 95000]" and ?bs = "[Query PollRefetch, Query PollFailed]"
  have "guarded_run (polling_ok None) polling_step (pollingStart 0 ''x'' 100 ''n'') (?as @ ?bs) \<noteq> None"
    by (simp add: guarded_run.simps polling_okQ polling_ok.simps polling_step.simps Let_def
        mounted_def pollingView_refetch handleTick_def) (simp add: pollingStart_def startFetch_def mounted_def)
  then obtain p outs p' outs' where run: "guarded_run (polling_ok None) polling_step (pollingStart 0 ''x'' 100 ''n'') ?as
      = Some (p, outs)"
    and run': "guarded_run (polling_ok None) polling_step p ?bs = Some (p', outs')"
    by (rule guarded_run_split)
  have "Tick 95000 \<in> set ?as" "0 + 90000 \<le> (95000::int)" by simp_all
  from polling_bounded [OF run this run'] show ?thesis unfolding Let_def run run' option.sel prod.case .
qed

text \<open>A confirmation without a voucher is a dead end: if the status endpoint says
  \<open>confirmed\<close> before the voucher exists, the screen shows that the connection is being activated,
  stops polling and offers no control; as long as the window does not regain focus nothing
  ever happens again, neither a request nor a hand-over.\<close>

lemma confirmed_without_voucher_stuck:
  assumes "pid \<noteq> []" and "\<forall>d \<in> set ds. \<not> paymentFinal d"
    and "guarded_run (polling_ok paybill) polling_step (pollingStart now pid price name)
        (awaiting ds @ [Query (PollAnswer \<lparr>ps_payment_id = pid, ps_status = ''confirmed'', ps_voucher_code = None\<rparr>)])
      = Some (p, outs)"
    and "guarded_run (polling_ok paybill) polling_step p bs = Some (p', outs')"
    and "Query PollFocus \<notin> set bs"
  shows "outs' = [] \<and> shows_text (pollingView paybill p') ''Activating your internet connection...''
    \<and> \<not> clickable (pollingView paybill p') a"
proof -
  let ?d = "\<lparr>ps_payment_id = pid, ps_status = ''confirmed'', ps_voucher_code = None\<rparr>"
  let ?start = "pollingStart now pid price name"
  obtain q where q: "guarded_run (polling_ok paybill) polling_step ?start (awaiting ds)
       = Some (?start\<lparr>pp_query := q\<rparr>, replicate (length ds) (GetStatus (statusUrl pid)))" "pl_fetching q"
    using awaiting_run [OF assms(1,2)] by blast
  let ?p = "?start\<lparr>pp_query := q\<lparr>pl_data := Some ?d, pl_isError := False, pl_fetching := False\<rparr>\<rparr>"
  have "confirmEffect ?p = ?p" by (simp add: confirmEffect_def)
  then have "polling_step (?start\<lparr>pp_query := q\<rparr>) (Query (PollAnswer ?d)) = (?p, [])"
    by (simp add: polling_step.simps Let_def)
  with assms(3) q have "p = ?p" by (simp add: guarded_run_append guarded_run.simps polling_okQ)
  then have "voucherless p" by (simp add: voucherless_def)
  then have "outs' = []" "voucherless p'" using voucherless_run [OF assms(4)] assms(5) by auto
  then show ?thesis by (auto simp: voucherless_def pollingView_def view_simps)
qed

end
