(* ===== verification/Captive_Portal.thy ===== *)
theory Captive_Portal
  imports Auth_Lib Packages Payment_Status
begin

text \<open>
  The captive portal a customer meets on the WiFi: \<open>components/hotspot/BuyPackageFlow.tsx\<close>
  (choosing a package, paying by STK push, the free trial, entering or reusing a voucher),
  \<open>components/hotspot/HotspotLoginRedirect.tsx\<close> (logging the device in at the router) and
  \<open>pages/public/CaptivePortalPage.tsx\<close>, which switches between them. The currency formatter is
  \<open>Intl.NumberFormat\<close> and is a parameter. The query hook is \<open>hooks/useHotspotPackages.ts\<close>.
\<close>

section \<open>Packages on offer\<close>

definition hotspotPackagesEnabled :: "string option \<Rightarrow> bool" where
  "hotspotPackagesEnabled tenantId \<longleftrightarrow> truthy tenantId"

text \<open>The query function: no request without a tenant.\<close>

definition hotspotPackagesRequest :: "string option \<Rightarrow> (path \<times> string) option" where
  "hotspotPackagesRequest tenantId =
     (if \<not> truthy tenantId then None else Some (''/hotspot/packages'', the tenantId))"

definition ACTIVE_VOUCHER_KEY :: string where
  "ACTIVE_VOUCHER_KEY = ''active_wifi_voucher''"

section \<open>Buying a package\<close>

record buy =
  by_tenantId :: string
  by_mac :: string
  by_ip :: string
  by_packages :: "package list option"
  by_isLoading :: bool
  by_selected :: "string option"
  by_phone :: string
  by_paymentId :: "string option"
  by_phoneError :: string
  by_existing :: string
  by_showVoucher :: bool
  by_showTips :: bool
  by_saved :: "string option"
  by_checkoutOpen :: bool
  by_trialOpen :: bool
  by_trialPhone :: string
  by_trialPhoneError :: string
  by_trialLoading :: bool
  by_latency :: "int option"
  by_pingError :: bool
  by_stkPending :: bool
  by_stkError :: bool
  by_due :: "string list"
  by_local :: storage

datatype buy_action =
    PackagesLoaded "package list" | PackagesFailed
  | PingAnswered int | PingFailed int
  | SelectPackage string | CloseCheckout | TypePhone string | Pay | StkOk string | StkFailed
  | OpenTrial | CloseTrial | TypeTrialPhone string | ActivateTrial
  | TrialOk string | TrialFailed "string option" | TrialDue
  | ShowBuy | ShowVoucher | TypeVoucher string | UseVoucher
  | Reconnect | ClearSaved | ToggleTips | ManageAccount
  | PaymentConfirmed string

datatype buy_out =
    PostStk string string string string string
  | PostTrial string string string
  | VoucherReceived string
  | Toast string
  | ToastErr string
  | GoTo path

definition buyStart :: "string \<Rightarrow> string \<Rightarrow> string \<Rightarrow> storage \<Rightarrow> buy" where
  "buyStart tenantId mac ip s =
     \<lparr>by_tenantId = tenantId, by_mac = mac, by_ip = ip, by_packages = None,
      by_isLoading = hotspotPackagesEnabled (Some tenantId), by_selected = None, by_phone = [],
      by_paymentId = None, by_phoneError = [], by_existing = [], by_showVoucher = False,
      by_showTips = False, by_saved = getItem s ACTIVE_VOUCHER_KEY, by_checkoutOpen = False,
      by_trialOpen = False, by_trialPhone = [], by_trialPhoneError = [], by_trialLoading = False,
      by_latency = None, by_pingError = False, by_stkPending = False, by_stkError = False,
      by_due = [], by_local = s\<rparr>"

definition selectedPackage :: "buy \<Rightarrow> package option" where
  "selectedPackage b =
     (case by_packages b of
        None \<Rightarrow> None
      | Some ps \<Rightarrow> find (\<lambda>p. Some (pk_id p) = by_selected b) ps)"

text \<open>Both ends of \<open>checkPing\<close>; \<open>t\<close> is the elapsed time.\<close>

definition pingAnswered :: "int \<Rightarrow> buy \<Rightarrow> buy" where
  "pingAnswered t b = b\<lparr>by_latency := Some t, by_pingError := False\<rparr>"

definition pingFailed :: "int \<Rightarrow> buy \<Rightarrow> buy" where
  "pingFailed t b = b\<lparr>by_latency := Some t, by_pingError := False\<rparr>"

abbreviation phoneMessage :: string where
  "phoneMessage \<equiv> ''Enter a valid Kenyan phone number (e.g. 0712 345 678)''"

definition handleActivateTrial :: "buy \<Rightarrow> buy \<times> buy_out list" where
  "handleActivateTrial b =
     (if \<not> kenyanPhone (by_trialPhone b) then (b\<lparr>by_trialPhoneError := phoneMessage\<rparr>, [])
      else (b\<lparr>by_trialPhoneError := [], by_trialLoading := True\<rparr>,
            [PostTrial (by_trialPhone b) (by_tenantId b) (by_mac b)]))"

definition trialOk :: "string \<Rightarrow> buy \<Rightarrow> buy \<times> buy_out list" where
  "trialOk code b =
     (b\<lparr>by_local := setItem ACTIVE_VOUCHER_KEY code (by_local b), by_trialOpen := False,
        by_due := by_due b @ [code], by_trialLoading := False\<rparr>,
      [Toast ''Free trial activated! Connecting...''])"

definition trialFailed :: "string option \<Rightarrow> buy \<Rightarrow> buy \<times> buy_out list" where
  "trialFailed detail b =
     (b\<lparr>by_trialLoading := False\<rparr>,
      [ToastErr (orElse detail ''You have already claimed a free trial or an error occurred.'')])"

definition getSpeedDescription :: "int \<Rightarrow> string" where
  "getSpeedDescription speed =
     (if speed \<le> 2 then ''Chatting & browsing''
      else if speed \<le> 7 then ''HD streaming & video'' else ''Ultra-fast / gaming'')"

definition handleClearSavedVoucher :: "buy \<Rightarrow> buy \<times> buy_out list" where
  "handleClearSavedVoucher b =
     (b\<lparr>by_local := removeItem ACTIVE_VOUCHER_KEY (by_local b), by_saved := None\<rparr>,
      [Toast ''Saved voucher cleared''])"

definition validatePhone :: "string \<Rightarrow> buy \<Rightarrow> bool \<times> buy" where
  "validatePhone v b =
     (if \<not> kenyanPhone v then (False, b\<lparr>by_phoneError := phoneMessage\<rparr>)
      else (True, b\<lparr>by_phoneError := []\<rparr>))"

definition handlePay :: "buy \<Rightarrow> buy \<times> buy_out list" where
  "handlePay b =
     (if \<not> truthy (by_selected b) then (b, [])
      else
        (let (valid, b1) = validatePhone (by_phone b) b
         in if \<not> valid then (b1, [])
            else (b1\<lparr>by_stkPending := True, by_stkError := False\<rparr>,
                  [PostStk (by_phone b) (the (by_selected b)) (by_tenantId b) (by_mac b) (by_ip b)])))"

text \<open>\<open>onConfirmed\<close> of the waiting screen, and the button of an existing voucher.\<close>

definition keepVoucher :: "string \<Rightarrow> buy \<Rightarrow> buy \<times> buy_out list" where
  "keepVoucher code b =
     (b\<lparr>by_local := setItem ACTIVE_VOUCHER_KEY code (by_local b)\<rparr>, [VoucherReceived code])"

fun buy_step :: "buy \<Rightarrow> buy_action \<Rightarrow> buy \<times> buy_out list" where
  "buy_step b (PackagesLoaded ps) = (b\<lparr>by_packages := Some ps, by_isLoading := False\<rparr>, [])"
| "buy_step b PackagesFailed = (b\<lparr>by_isLoading := False\<rparr>, [])"
| "buy_step b (PingAnswered t) = (pingAnswered t b, [])"
| "buy_step b (PingFailed t) = (pingFailed t b, [])"
| "buy_step b (SelectPackage i) = (b\<lparr>by_selected := Some i, by_checkoutOpen := True\<rparr>, [])"
| "buy_step b CloseCheckout = (b\<lparr>by_checkoutOpen := False\<rparr>, [])"
| "buy_step b (TypePhone t) = (b\<lparr>by_phone := t\<rparr>, [])"
| "buy_step b Pay = handlePay b"
| "buy_step b (StkOk i) =
     (b\<lparr>by_stkPending := False, by_paymentId := Some i, by_checkoutOpen := False\<rparr>, [])"
| "buy_step b StkFailed = (b\<lparr>by_stkPending := False, by_stkError := True\<rparr>, [])"
| "buy_step b OpenTrial = (b\<lparr>by_trialOpen := True\<rparr>, [])"
| "buy_step b CloseTrial = (b\<lparr>by_trialOpen := False\<rparr>, [])"
| "buy_step b (TypeTrialPhone t) = (b\<lparr>by_trialPhone := t\<rparr>, [])"
| "buy_step b ActivateTrial = handleActivateTrial b"
| "buy_step b (TrialOk code) = trialOk code b"
| "buy_step b (TrialFailed detail) = trialFailed detail b"
| "buy_step b TrialDue =
     (case by_due b of [] \<Rightarrow> (b, []) | c # cs \<Rightarrow> (b\<lparr>by_due := cs\<rparr>, [VoucherReceived c]))"
| "buy_step b ShowBuy = (b\<lparr>by_showVoucher := False\<rparr>, [])"
| "buy_step b ShowVoucher = (b\<lparr>by_showVoucher := True\<rparr>, [])"
| "buy_step b (TypeVoucher t) = (b\<lparr>by_existing := trim (toUpperCase t)\<rparr>, [])"
| "buy_step b UseVoucher = keepVoucher (by_existing b) b"
| "buy_step b Reconnect =
     (b, case by_saved b of None \<Rightarrow> [] | Some c \<Rightarrow> [VoucherReceived c])"
| "buy_step b ClearSaved = handleClearSavedVoucher b"
| "buy_step b ToggleTips = (b\<lparr>by_showTips := \<not> by_showTips b\<rparr>, [])"
| "buy_step b ManageAccount = (b, [GoTo ''/login''])"
| "buy_step b (PaymentConfirmed code) = keepVoucher code b"

section \<open>The rendered page\<close>

definition statusBar :: "buy \<Rightarrow> buy_action view list" where
  "statusBar b =
     [Txt (if by_pingError b then ''System Offline'' else ''System Online''),
      Txt (case by_latency b of
             Some t \<Rightarrow> if \<not> by_pingError b then ''Ping: '' @ showInt t @ ''ms'' else ''Checking latency...''
           | None \<Rightarrow> ''Checking latency...''),
      Txt ''Keep this window open!'',
      Txt ''Closing this page or pressing \"Cancel\" will disconnect you from the WiFi.'']"

definition savedVoucherCard :: "buy \<Rightarrow> buy_action view list" where
  "savedVoucherCard b =
     onlyIf (truthy (by_saved b))
       [Txt ''Saved WiFi Voucher'', Txt (the (by_saved b)),
        Btn False [Txt ''Reconnect''] Reconnect, Btn False [] ClearSaved]"

definition tabButtons :: "buy_action view list" where
  "tabButtons =
     [Btn False [Txt ''Buy WiFi Package''] ShowBuy, Btn False [Txt ''Use Existing Voucher''] ShowVoucher]"

definition voucherTab :: "buy \<Rightarrow> buy_action view list" where
  "voucherTab b =
     [Txt ''Enter your voucher code below to connect to the internet'', Txt ''Voucher Code / PIN'',
      Inp ''e.g. ABCDEFGHJK'' (by_existing b) TypeVoucher,
      Btn (by_existing b = []) [Txt ''Connect to Internet''] UseVoucher]"

text \<open>A package card; the whole card is clickable.\<close>

definition packageCard :: "(int \<Rightarrow> string) \<Rightarrow> package list \<Rightarrow> package \<Rightarrow> buy_action view" where
  "packageCard formatKES ps p =
     (let maxSpeed = Max (set (map pk_speed_mbps ps));
          isFastest = (pk_speed_mbps p = maxSpeed \<and> 0 < maxSpeed)
      in Btn False
           (onlyIf isFastest [Txt ''Best Value'']
            @ [Txt (pk_name p), Txt (showInt (pk_speed_mbps p) @ '' Mbps''),
               Txt (formatDuration (pk_duration_minutes p)), Txt (getSpeedDescription (pk_speed_mbps p)),
               Txt (formatKES (pk_price_kes p))])
           (SelectPackage (pk_id p)))"

definition packageCards :: "(int \<Rightarrow> string) \<Rightarrow> buy \<Rightarrow> buy_action view list" where
  "packageCards formatKES b =
     (if by_isLoading b then []
      else case by_packages b of
             None \<Rightarrow> []
           | Some ps \<Rightarrow> map (packageCard formatKES ps) ps
                        @ onlyIf (ps = []) [Txt ''No packages available.''])"

definition trialDialog :: "buy \<Rightarrow> buy_action view list" where
  "trialDialog b =
     onlyIf (by_trialOpen b)
       ([Btn False [] CloseTrial, Txt ''Claim Free Trial'',
         Txt ''Enjoy 5 minutes of free internet access at 2 Mbps. Limit: once every 24 hours.'',
         Txt ''Your Phone Number'', Inp ''e.g. 0712 345 678'' (by_trialPhone b) TypeTrialPhone]
        @ onlyIf (by_trialPhoneError b \<noteq> []) [Txt (by_trialPhoneError b)]
        @ [Btn (by_trialPhone b = [] \<or> by_trialLoading b)
             [Txt (if by_trialLoading b then ''Activating trial...'' else ''Activate 10 Mins Free'')]
             ActivateTrial])"

definition checkoutDialog :: "(int \<Rightarrow> string) \<Rightarrow> buy \<Rightarrow> buy_action view list" where
  "checkoutDialog formatKES b =
     (let pkg = selectedPackage b;
          price = (case pkg of None \<Rightarrow> [] | Some p \<Rightarrow> formatKES (pk_price_kes p));
          duration = (case pkg of None \<Rightarrow> [] | Some p \<Rightarrow> formatDuration (pk_duration_minutes p));
          speed = (case pkg of None \<Rightarrow> [] | Some p \<Rightarrow> showInt (pk_speed_mbps p));
          name = (case pkg of None \<Rightarrow> [] | Some p \<Rightarrow> pk_name p)
      in onlyIf (by_checkoutOpen b)
           ([Btn False [] CloseCheckout, Txt (''Activate '' @ name),
             Txt ''Pay via M-Pesa to connect to the internet.'', Txt ''Speed / Duration'',
             Txt (speed @ '' Mbps for '' @ duration), Txt ''Amount'', Txt price,
             Txt ''Your M-Pesa Phone Number'', Inp ''e.g. 0712 345 678'' (by_phone b) TypePhone]
            @ onlyIf (by_phoneError b \<noteq> []) [Txt (by_phoneError b)]
            @ [Btn (by_phone b = [] \<or> by_stkPending b)
                 [Txt (if by_stkPending b then ''Requesting payment PIN...'' else ''Pay '' @ price)] Pay]
            @ onlyIf (by_stkError b) [Txt ''Failed to send prompt. Please try again.'']
            @ [Txt ''You will receive an M-Pesa STK push prompt on your phone.'',
               Txt ''Enter your PIN to complete the connection.'']))"

definition buyTab :: "(int \<Rightarrow> string) \<Rightarrow> buy \<Rightarrow> buy_action view list" where
  "buyTab formatKES b =
     [Txt ''Select a plan to get online instantly''] @ packageCards formatKES b
     @ [Btn False [Txt ''Want to test the speed? Try 10 Mins Free''] OpenTrial]
     @ trialDialog b @ checkoutDialog formatKES b"

definition tipsSection :: "buy \<Rightarrow> buy_action view list" where
  "tipsSection b =
     [Btn False [Txt ''Connection issues or self diagnostics?''] ToggleTips]
     @ onlyIf (by_showTips b)
         [Txt ''Disconnecting frequently?'',
          Txt ''If you turn off Wi-Fi or leave the area, the network terminates active sessions. Keep your voucher code safe to reuse it on the \"Use Existing Voucher\" tab.'',
          Txt ''CNA / Private MAC Address Issue'',
          Txt ''To let the Wi-Fi recognize your device and log you in automatically next time:'',
          Txt ''Go to your phone's Settings > Wi-Fi.'',
          Txt ''Tap the info icon (i) next to this Wi-Fi network.'',
          Txt ''Disable \"Private Wi-Fi Address\" or \"Use Randomized MAC\" (change it to \"Use Device MAC\").'',
          Txt ''Self-Service Connection Diagnostics'', Txt ''Router Connection'', Txt ''ACTIVE'',
          Txt ''IP Address Assigned'', Txt (if by_ip b = [] then ''10.10.10.X'' else by_ip b),
          Txt ''DNS Servers Configured'', Txt ''Automatic'']"

definition partnerDeal :: "buy_action view list" where
  "partnerDeal =
     [Txt ''Partner Deal'', Txt ''Get 10% Off at Coffee Bistro!'',
      Txt ''Connect to this WiFi network, select any plan, and show your active voucher screen at Coffee Bistro next door to redeem your discount.'']"

text \<open>\<open>if (paymentId && selectedPackage)\<close>: the waiting screen replaces the page.\<close>

definition showsPolling :: "buy \<Rightarrow> bool" where
  "showsPolling b \<longleftrightarrow> truthy (by_paymentId b) \<and> selectedPackage b \<noteq> None"

definition buyView :: "(int \<Rightarrow> string) \<Rightarrow> buy \<Rightarrow> buy_action view" where
  "buyView formatKES b = Group
     (statusBar b @ savedVoucherCard b @ tabButtons
      @ (if by_showVoucher b then voucherTab b else buyTab formatKES b)
      @ partnerDeal @ tipsSection b
      @ [Txt ''Already have an account?'', Btn False [Txt ''Manage My Account''] ManageAccount])"

section \<open>Logging the device in\<close>

text \<open>\<open>copyToClipboard\<close>: with a clipboard interface its \<open>writeText\<close> decides; without one,
  \<open>execCommand\<close>, which succeeds, fails, or throws (\<open>None\<close>).\<close>

definition copyToClipboard :: "bool option \<Rightarrow> bool option \<Rightarrow> string + unit" where
  "copyToClipboard writeText execCommand =
     (case writeText of
        Some ok \<Rightarrow> (if ok then Inr () else Inl ''writeText'')
      | None \<Rightarrow>
          (case execCommand of
             Some ok \<Rightarrow> (if ok then Inr () else Inl ''Fallback copy failed'')
           | None \<Rightarrow> Inl ''thrown''))"

text \<open>\<open>encodeURIComponent\<close> on UTF-8 bytes.\<close>

definition uriUnreserved :: "char \<Rightarrow> bool" where
  "uriUnreserved c \<longleftrightarrow>
     c \<in> set ''ABCDEFGHIJKLMNOPQRSTUVWXYZabcdefghijklmnopqrstuvwxyz0123456789-_.!~*'()''"

definition hexUpper :: "nat \<Rightarrow> char" where
  "hexUpper d = ''0123456789ABCDEF'' ! d"

definition uriByte :: "char \<Rightarrow> string" where
  "uriByte c =
     (if uriUnreserved c then [c] else [CHR ''%'', hexUpper (of_char c div 16), hexUpper (of_char c mod 16)])"

definition encodeURIComponent :: "string \<Rightarrow> string" where
  "encodeURIComponent s = concat (map uriByte s)"

record redirect =
  rd_voucherCode :: string
  rd_linkLogin :: string
  rd_copied :: bool
  rd_isLoggingIn :: bool
  rd_isOnline :: bool
  rd_timer :: bool
  rd_fetches :: nat
  rd_resets :: nat

datatype redirect_action =
    CopyClick | CopyEnded bool | AutoCopyEnded bool | CopiedReset
  | LoginTimer | GoOnline | LoginEnded bool | PrintTicket | ShareWhatsApp

datatype redirect_out =
    WriteClipboard string | LoginPost string string | RedirectToast string | RedirectToastErr string
  | WindowPrint | WindowOpen string

text \<open>Mounting: the code is copied at once, and with a login link the timer is set.\<close>

definition redirectStart :: "string \<Rightarrow> string \<Rightarrow> redirect" where
  "redirectStart voucherCode linkLogin =
     \<lparr>rd_voucherCode = voucherCode, rd_linkLogin = linkLogin, rd_copied = False, rd_isLoggingIn = False,
      rd_isOnline = False, rd_timer = (linkLogin \<noteq> []), rd_fetches = 0, rd_resets = 0\<rparr>"

definition loginUrl :: "string \<Rightarrow> string" where
  "loginUrl linkLogin =
     (let baseUrl = hd (splitOn (CHR ''?'') linkLogin)
      in if startsWith baseUrl ''http'' then baseUrl else ''http://'' @ baseUrl)"

definition loginBody :: "string \<Rightarrow> string" where
  "loginBody code = ''username='' @ encodeURIComponent code @ ''&password='' @ encodeURIComponent code"

text \<open>\<open>performLogin\<close>, with the values of \<open>isLoggingIn\<close> and \<open>isOnline\<close> its closure has captured.\<close>

definition performLogin :: "bool \<Rightarrow> bool \<Rightarrow> redirect \<Rightarrow> redirect \<times> redirect_out list" where
  "performLogin isLoggingIn isOnline r =
     (if rd_linkLogin r = [] then (r, [])
      else if isLoggingIn \<or> isOnline then (r, [])
      else (r\<lparr>rd_isLoggingIn := True, rd_fetches := Suc (rd_fetches r)\<rparr>,
            [LoginPost (loginUrl (rd_linkLogin r)) (loginBody (rd_voucherCode r))]))"

definition shareText :: "string \<Rightarrow> string" where
  "shareText code =
     ''My WiFi Voucher PIN is: *'' @ code @ ''* '' @ [CHR 0xF0, CHR 0x9F, CHR 0x93, CHR 0xB6]
     @ [CHR 0x0A, CHR 0x0A]
     @ ''Use this PIN to connect or log back in at the captive portal.''"

text \<open>The timer's closure is the one of the first render, the button's that of the current one.\<close>

fun redirect_step :: "redirect \<Rightarrow> redirect_action \<Rightarrow> redirect \<times> redirect_out list" where
  "redirect_step r CopyClick = (r, [WriteClipboard (rd_voucherCode r)])"
| "redirect_step r (CopyEnded ok) =
     (if ok then (r\<lparr>rd_copied := True, rd_resets := Suc (rd_resets r)\<rparr>, [RedirectToast ''Voucher PIN copied!''])
      else (r, [RedirectToastErr ''Failed to copy PIN. Copy it manually from the screen.'']))"
| "redirect_step r (AutoCopyEnded ok) =
     (r, if ok then [RedirectToast ''Voucher PIN automatically copied to clipboard!''] else [])"
| "redirect_step r CopiedReset = (r\<lparr>rd_copied := False, rd_resets := rd_resets r - 1\<rparr>, [])"
| "redirect_step r LoginTimer = performLogin False False (r\<lparr>rd_timer := False\<rparr>)"
| "redirect_step r GoOnline = performLogin (rd_isLoggingIn r) (rd_isOnline r) r"
| "redirect_step r (LoginEnded ok) =
     (r\<lparr>rd_isLoggingIn := False, rd_isOnline := True, rd_fetches := rd_fetches r - 1\<rparr>, [])"
| "redirect_step r PrintTicket = (r, [WindowPrint])"
| "redirect_step r ShareWhatsApp =
     (r, [WindowOpen (''https://wa.me/?text='' @ encodeURIComponent (shareText (rd_voucherCode r)))])"

definition redirectView :: "redirect \<Rightarrow> redirect_action view" where
  "redirectView r = Group
     ([Txt ''Voucher Activated'', Txt ''Payment successful. Access is provisioned.'',
       Txt ''Network Status'', Txt ''Connected'', Txt ''Your WiFi Voucher PIN'', Txt (rd_voucherCode r),
       Btn False [] CopyClick, Txt ''Important Notice'',
       Txt ''Take a screenshot or print this voucher ticket now. You will need this PIN to reconnect if you are logged out.'',
       Btn False [Txt ''Print Ticket''] PrintTicket, Btn False [Txt ''Share on WA''] ShareWhatsApp]
      @ (if rd_linkLogin r \<noteq> [] then
           (if rd_isOnline r then
              [Txt ''You are Connected!'',
               Txt ''The WiFi icon will appear at the top of your screen shortly. You may now click \"Done\" or close this window.'']
            else
              [Btn (rd_isLoggingIn r)
                 [Txt (if rd_isLoggingIn r then ''Connecting...'' else ''Go Online Now'')] GoOnline,
               Txt ''Connecting automatically in a few seconds...''])
         else [Txt ''Make sure you are connected to the Wi-Fi network.'']))"

fun redirect_ok :: "redirect \<Rightarrow> redirect_action \<Rightarrow> bool" where
  "redirect_ok r LoginTimer = rd_timer r"
| "redirect_ok r (LoginEnded ok) = (0 < rd_fetches r)"
| "redirect_ok r CopiedReset = (0 < rd_resets r)"
| "redirect_ok r (CopyEnded ok) = True"
| "redirect_ok r (AutoCopyEnded ok) = True"
| "redirect_ok r a = clickable (redirectView r) a"

section \<open>The captive portal page\<close>

record captive =
  cp_voucherCode :: "string option"
  cp_linkLogin :: string
  cp_buy :: buy
  cp_polling :: "polling option"
  cp_redirect :: "redirect option"

text \<open>The search parameters of the router's redirect.\<close>

definition captiveStart :: "(string \<times> string) list \<Rightarrow> storage \<Rightarrow> captive" where
  "captiveStart params s =
     \<lparr>cp_voucherCode = None, cp_linkLogin = nullish (map_of params ''link-login'') [],
      cp_buy = buyStart (nullish (map_of params ''tenant_id'') []) (nullish (map_of params ''mac'') [])
                 (nullish (map_of params ''ip'') []) s,
      cp_polling = None, cp_redirect = None\<rparr>"

datatype screen = LoginScreen | ErrorScreen | PollingScreen | BuyScreen

definition captiveScreen :: "captive \<Rightarrow> screen" where
  "captiveScreen c =
     (if truthy (cp_voucherCode c) then LoginScreen
      else if by_tenantId (cp_buy c) = [] then ErrorScreen
      else if showsPolling (cp_buy c) then PollingScreen
      else BuyScreen)"

text \<open>\<open>setVoucherCode\<close> for every code handed up.\<close>

definition receive :: "buy_out list \<Rightarrow> captive \<Rightarrow> captive" where
  "receive outs c =
     (case [x. VoucherReceived x \<leftarrow> outs] of
        [] \<Rightarrow> c
      | x # xs \<Rightarrow> c\<lparr>cp_voucherCode := Some (last (x # xs))\<rparr>)"

text \<open>Children mount when their screen appears and unmount when it goes.\<close>

definition remount :: "int \<Rightarrow> captive \<Rightarrow> captive" where
  "remount now c =
     (case captiveScreen c of
        LoginScreen \<Rightarrow>
          c\<lparr>cp_polling := None,
            cp_redirect := (case cp_redirect c of
                              None \<Rightarrow> Some (redirectStart (the (cp_voucherCode c)) (cp_linkLogin c))
                            | Some r \<Rightarrow> Some (r\<lparr>rd_voucherCode := the (cp_voucherCode c)\<rparr>))\<rparr>
      | PollingScreen \<Rightarrow>
          (case selectedPackage (cp_buy c) of
             None \<Rightarrow> c
           | Some p \<Rightarrow>
               c\<lparr>cp_polling := Some (case cp_polling c of
                    None \<Rightarrow> pollingStart now (the (by_paymentId (cp_buy c))) (pk_price_kes p) (pk_name p)
                  | Some q \<Rightarrow> q\<lparr>pp_price := pk_price_kes p, pp_name := pk_name p\<rparr>)\<rparr>)
      | _ \<Rightarrow> c\<lparr>cp_polling := None\<rparr>)"

datatype captive_action = BuyAct buy_action | PollAct polling_action | LoginAct redirect_action

definition handUp :: "polling_out list \<Rightarrow> buy \<Rightarrow> buy \<times> buy_out list" where
  "handUp outs b =
     fold (\<lambda>x (b, os). case x of
               OnConfirmed code \<Rightarrow> (let (b', os') = buy_step b (PaymentConfirmed code) in (b', os @ os'))
             | _ \<Rightarrow> (b, os)) outs (b, [])"

text \<open>A new state of the buy flow renders it again, which gives the waiting screen inside it a new
  \<open>onConfirmed\<close>.\<close>

definition rerender :: "buy \<Rightarrow> captive \<Rightarrow> captive" where
  "rerender b c =
     c\<lparr>cp_buy := b,
       cp_polling := (if b = cp_buy c then cp_polling c
                      else map_option (\<lambda>q. fst (polling_step q Rerendered)) (cp_polling c))\<rparr>"

fun captive_step :: "int \<Rightarrow> captive \<Rightarrow> captive_action \<Rightarrow> captive" where
  "captive_step now c (BuyAct a) =
     (let (b, outs) = buy_step (cp_buy c) a in remount now (receive outs (rerender b c)))"
| "captive_step now c (PollAct a) =
     (case cp_polling c of
        None \<Rightarrow> c
      | Some q \<Rightarrow>
          (let (q', pouts) = polling_step q a;
               (b, outs) = handUp pouts (cp_buy c)
           in remount now (receive outs (c\<lparr>cp_buy := b, cp_polling := Some q'\<rparr>))))"
| "captive_step now c (LoginAct a) =
     (case cp_redirect c of
        None \<Rightarrow> c
      | Some r \<Rightarrow> c\<lparr>cp_redirect := Some (fst (redirect_step r a))\<rparr>)"

text \<open>What can happen on the page of the buy flow: what it offers, and the environment's answers.
  The waiting screen hands codes up while it is shown; a running delay of the trial survives.\<close>

fun buy_ok :: "(int \<Rightarrow> string) \<Rightarrow> buy \<Rightarrow> buy_action \<Rightarrow> bool" where
  "buy_ok fmt b (PackagesLoaded ps) = True"
| "buy_ok fmt b PackagesFailed = True"
| "buy_ok fmt b (PingAnswered t) = True"
| "buy_ok fmt b (PingFailed t) = True"
| "buy_ok fmt b (StkOk i) = by_stkPending b"
| "buy_ok fmt b StkFailed = by_stkPending b"
| "buy_ok fmt b (TrialOk c) = by_trialLoading b"
| "buy_ok fmt b (TrialFailed d) = by_trialLoading b"
| "buy_ok fmt b TrialDue = (by_due b \<noteq> [])"
| "buy_ok fmt b (PaymentConfirmed c) = showsPolling b"
| "buy_ok fmt b a = (\<not> showsPolling b \<and> offers (buyView fmt b) a)"

section \<open>Lemmas on the buy flow\<close>

lemmas buy_views = statusBar_def savedVoucherCard_def tabButtons_def voucherTab_def
  trialDialog_def checkoutDialog_def buyTab_def tipsSection_def partnerDeal_def packageCards_def packageCard_def

lemma packageCard_offers: "offers (packageCard fmt ps p) a \<longleftrightarrow> a = SelectPackage (pk_id p)"
  by (auto simp: packageCard_def view_simps Let_def)

lemma packageCards_offers:
  "list_ex (\<lambda>v. offers v a) (packageCards fmt b) \<longleftrightarrow>
     \<not> by_isLoading b \<and> (\<exists>ps p. by_packages b = Some ps \<and> p \<in> set ps \<and> a = SelectPackage (pk_id p))"
  by (cases "by_packages b")
     (auto simp: packageCards_def packageCard_offers list_ex_iff onlyIf_def offers_simps bex_Un)

lemma buy_offers:
  "offers (buyView fmt b) Pay \<longleftrightarrow>
     \<not> by_showVoucher b \<and> by_checkoutOpen b \<and> by_phone b \<noteq> [] \<and> \<not> by_stkPending b"
  "offers (buyView fmt b) (SelectPackage i) \<longleftrightarrow>
     \<not> by_showVoucher b \<and> \<not> by_isLoading b
     \<and> (case by_packages b of None \<Rightarrow> False | Some ps \<Rightarrow> i \<in> pk_id ` set ps)"
  "offers (buyView fmt b) UseVoucher \<longleftrightarrow> by_showVoucher b \<and> by_existing b \<noteq> []"
  "offers (buyView fmt b) Reconnect \<longleftrightarrow> truthy (by_saved b)"
  "offers (buyView fmt b) ActivateTrial \<longleftrightarrow>
     \<not> by_showVoucher b \<and> by_trialOpen b \<and> by_trialPhone b \<noteq> [] \<and> \<not> by_trialLoading b"
  "offers (buyView fmt b) (TypePhone t) \<longleftrightarrow> \<not> by_showVoucher b \<and> by_checkoutOpen b"
  "offers (buyView fmt b) CloseCheckout \<longleftrightarrow> \<not> by_showVoucher b \<and> by_checkoutOpen b"
  by (simp_all add: buyView_def buyTab_def statusBar_def savedVoucherCard_def tabButtons_def voucherTab_def
      trialDialog_def checkoutDialog_def tipsSection_def partnerDeal_def packageCards_offers view_lists Let_def
      image_iff Bex_def split: option.splits)

fun stk_answer :: "buy_action \<Rightarrow> bool" where
  "stk_answer (StkOk i) = True"
| "stk_answer StkFailed = True"
| "stk_answer _ = False"

fun is_stk :: "buy_out \<Rightarrow> bool" where
  "is_stk (PostStk ph p t m i) = True"
| "is_stk _ = False"

lemmas buy_handlers = handlePay_def validatePhone_def handleActivateTrial_def trialOk_def trialFailed_def
  handleClearSavedVoucher_def keepVoucher_def pingAnswered_def pingFailed_def

interpretation stk: request_flight buy_step "buy_ok fmt" by_stkPending stk_answer is_stk
  for fmt
proof
  fix b :: buy and a
  show "buy_ok fmt b a \<Longrightarrow> stk_answer a \<Longrightarrow>
      by_stkPending b \<and> \<not> by_stkPending (fst (buy_step b a)) \<and> filter is_stk (snd (buy_step b a)) = []"
    by (cases a) auto
  show "buy_ok fmt b a \<Longrightarrow> \<not> stk_answer a \<Longrightarrow>
      (filter is_stk (snd (buy_step b a)) = [] \<and> by_stkPending (fst (buy_step b a)) = by_stkPending b)
      \<or> (length (filter is_stk (snd (buy_step b a))) = 1 \<and> \<not> by_stkPending b
         \<and> by_stkPending (fst (buy_step b a)))"
    by (cases a) (auto simp: buy_handlers buy_offers Let_def split: list.splits option.splits)
qed

lemma buy_step_props:
  "by_tenantId (fst (buy_step b a)) = by_tenantId b \<and> by_mac (fst (buy_step b a)) = by_mac b
   \<and> by_ip (fst (buy_step b a)) = by_ip b"
  by (cases a) (auto simp: buy_handlers Let_def split: list.splits)

lemma buy_step_stk:
  "PostStk ph pkg t m i \<in> set (snd (buy_step b a)) \<Longrightarrow>
   kenyanPhone ph \<and> by_selected b = Some pkg \<and> pkg \<noteq> [] \<and> t = by_tenantId b \<and> m = by_mac b \<and> i = by_ip b"
  by (cases a) (auto simp: buy_handlers Let_def truthy_eq split: list.splits option.splits if_splits)

text \<open>What the customer entered last, and the lists the page has loaded.\<close>

fun picks :: "string option \<Rightarrow> buy_action \<Rightarrow> string option" where
  "picks x (SelectPackage i) = Some i"
| "picks x _ = x"

fun types :: "string \<Rightarrow> buy_action \<Rightarrow> string" where
  "types x (TypePhone t) = t"
| "types x _ = x"

definition lastSelected :: "buy_action list \<Rightarrow> string option" where
  "lastSelected as = foldl picks None as"

definition lastPhone :: "buy_action list \<Rightarrow> string" where
  "lastPhone as = foldl types [] as"

definition loadedLists :: "buy_action list \<Rightarrow> package list list" where
  "loadedLists as = [ps. PackagesLoaded ps \<leftarrow> as]"

lemma in_loadedLists: "ps \<in> set (loadedLists as) \<longleftrightarrow> PackagesLoaded ps \<in> set as"
  by (induction as) (auto simp: loadedLists_def split: buy_action.splits)

lemma buy_step_entries:
  "by_selected (fst (buy_step b a)) = picks (by_selected b) a" "by_phone (fst (buy_step b a)) = types (by_phone b) a"
  by (cases a; auto simp: buy_handlers Let_def split: list.splits)+

lemma buy_run_entries:
  "guarded_run (buy_ok fmt) buy_step b as = Some (b', outs) \<Longrightarrow>
   by_selected b' = foldl picks (by_selected b) as \<and> by_phone b' = foldl types (by_phone b) as"
proof (induction as arbitrary: b outs)
  case (Cons a as)
  then obtain os where "guarded_run (buy_ok fmt) buy_step (fst (buy_step b a)) as = Some (b', os)"
    by (auto simp: guarded_run_Cons)
  from Cons.IH [OF this] show ?case by (simp add: buy_step_entries)
qed simp

lemma buy_run_props:
  "guarded_run (buy_ok fmt) buy_step b as = Some (b', outs) \<Longrightarrow>
   by_tenantId b' = by_tenantId b \<and> by_mac b' = by_mac b \<and> by_ip b' = by_ip b"
  by (rule guarded_run_inv [where P = "\<lambda>x. by_tenantId x = by_tenantId b \<and> by_mac x = by_mac b \<and> by_ip x = by_ip b"])
     (simp_all add: buy_step_props)

definition onOffer :: "package list list \<Rightarrow> buy \<Rightarrow> bool" where
  "onOffer L b \<longleftrightarrow> (\<forall>ps. by_packages b = Some ps \<longrightarrow> ps \<in> set L)
     \<and> (\<forall>i. by_selected b = Some i \<longrightarrow> (\<exists>ps \<in> set L. i \<in> pk_id ` set ps))"

lemma onOffer_step:
  assumes "onOffer L b" "buy_ok fmt b a"
  shows "onOffer (L @ loadedLists [a]) (fst (buy_step b a))"
  using assms
  by (cases a) (auto simp: onOffer_def loadedLists_def buy_offers buy_handlers Let_def split: list.splits option.splits)

lemma onOffer_run:
  "guarded_run (buy_ok fmt) buy_step b as = Some (b', outs) \<Longrightarrow> onOffer L b \<Longrightarrow> onOffer (L @ loadedLists as) b'"
proof (induction as arbitrary: b outs L)
  case (Cons a as)
  then obtain os where "buy_ok fmt b a" "guarded_run (buy_ok fmt) buy_step (fst (buy_step b a)) as = Some (b', os)"
    by (auto simp: guarded_run_Cons)
  from Cons.IH [OF this(2) onOffer_step [OF Cons.prems(2) this(1)]] show ?case by (simp add: loadedLists_def)
qed (simp add: loadedLists_def)

text \<open>On a loaded page the selection is one of the packages, so a payment shows the waiting screen.\<close>

definition chosen :: "buy \<Rightarrow> bool" where
  "chosen b \<longleftrightarrow> (by_stkPending b \<or> truthy (by_paymentId b) \<longrightarrow> selectedPackage b \<noteq> None)
     \<and> (truthy (by_selected b) \<longrightarrow> selectedPackage b \<noteq> None)
     \<and> (truthy (by_paymentId b) \<longrightarrow> \<not> by_stkPending b)"

fun is_reload :: "buy_action \<Rightarrow> bool" where
  "is_reload (PackagesLoaded ps) = True"
| "is_reload _ = False"

fun is_charge :: "buy_action \<Rightarrow> bool" where
  "is_charge (StkOk i) = (i \<noteq> [])"
| "is_charge _ = False"

lemma selectedPackage_cong:
  "by_packages b' = by_packages b \<Longrightarrow> by_selected b' = by_selected b \<Longrightarrow> selectedPackage b' = selectedPackage b"
  by (simp add: selectedPackage_def split: option.splits)

lemma selectedPackage_in:
  "by_packages b = Some ps \<Longrightarrow> p \<in> set ps \<Longrightarrow> by_selected b = Some (pk_id p) \<Longrightarrow> selectedPackage b \<noteq> None"
  by (auto simp: selectedPackage_def find_None_iff)

lemma chosen_step:
  assumes "chosen b" "buy_ok fmt b a" "\<not> is_reload a"
  shows "chosen (fst (buy_step b a))
    \<and> (truthy (by_paymentId b) \<longrightarrow> \<not> is_charge a \<and> truthy (by_paymentId (fst (buy_step b a))))
    \<and> (is_charge a \<longrightarrow> truthy (by_paymentId (fst (buy_step b a))))"
proof (cases "\<exists>i. a = SelectPackage i")
  case True
  then obtain ps p where "by_packages b = Some ps" "p \<in> set ps" "a = SelectPackage (pk_id p)" "\<not> showsPolling b"
    using assms(2) by (auto simp: buy_offers split: option.splits)
  then show ?thesis
    using assms(1) selectedPackage_in [of "b\<lparr>by_selected := Some (pk_id p), by_checkoutOpen := True\<rparr>" ps p]
    by (auto simp: chosen_def showsPolling_def)
next
  case False
  then have "selectedPackage (fst (buy_step b a)) = selectedPackage b"
    using assms(3)
    by (intro selectedPackage_cong; cases a) (auto simp: buy_handlers Let_def split: list.splits)
  with False assms show ?thesis
    by (cases a) (auto simp: chosen_def buy_handlers buy_offers showsPolling_def Let_def split: list.splits)
qed

lemma charges_at_most:
  "guarded_run (buy_ok fmt) buy_step b as = Some (b', outs) \<Longrightarrow> chosen b \<Longrightarrow> \<not> list_ex is_reload as \<Longrightarrow>
   length (filter is_charge as) + of_bool (truthy (by_paymentId b)) \<le> (1::nat)"
proof (induction as arbitrary: b outs)
  case (Cons a as)
  from Cons.prems(1) obtain os where ok: "buy_ok fmt b a"
    and run: "guarded_run (buy_ok fmt) buy_step (fst (buy_step b a)) as = Some (b', os)"
    by (auto simp: guarded_run_Cons)
  have st: "chosen (fst (buy_step b a))
    \<and> (truthy (by_paymentId b) \<longrightarrow> \<not> is_charge a \<and> truthy (by_paymentId (fst (buy_step b a))))
    \<and> (is_charge a \<longrightarrow> truthy (by_paymentId (fst (buy_step b a))))"
    using chosen_step [OF Cons.prems(2) ok] Cons.prems(3) by simp
  then have "length (filter is_charge as) + of_bool (truthy (by_paymentId (fst (buy_step b a)))) \<le> (1::nat)"
    using Cons.IH [OF run] Cons.prems(3) by simp
  with st show ?case by (auto split: if_splits)
qed simp

text \<open>Where a voucher code can come from.\<close>

definition voucherSources :: "storage \<Rightarrow> buy_action list \<Rightarrow> string set" where
  "voucherSources s as =
     {c. TrialOk c \<in> set as \<or> PaymentConfirmed c \<in> set as
         \<or> (\<exists>t. TypeVoucher t \<in> set as \<and> c = trim (toUpperCase t) \<and> c \<noteq> [])
         \<or> getItem s ACTIVE_VOUCHER_KEY = Some c}"

definition sourced :: "string set \<Rightarrow> buy \<Rightarrow> bool" where
  "sourced C b \<longleftrightarrow> set (by_due b) \<subseteq> C \<and> (by_existing b \<noteq> [] \<longrightarrow> by_existing b \<in> C)
     \<and> (\<forall>c. by_saved b = Some c \<longrightarrow> c \<in> C) \<and> (\<forall>c. getItem (by_local b) ACTIVE_VOUCHER_KEY = Some c \<longrightarrow> c \<in> C)"

lemma sourced_step:
  assumes "sourced C b" "buy_ok fmt b a" "voucherSources [] [a] \<subseteq> C"
  shows "sourced C (fst (buy_step b a)) \<and> (\<forall>c. VoucherReceived c \<in> set (snd (buy_step b a)) \<longrightarrow> c \<in> C)"
  using assms
  by (cases a) (auto simp: sourced_def buy_handlers buy_offers voucherSources_def storage_simps Let_def
      split: list.splits option.splits if_splits)

lemma sourced_run:
  "guarded_run (buy_ok fmt) buy_step b as = Some (b', outs) \<Longrightarrow> sourced C b \<Longrightarrow> voucherSources [] as \<subseteq> C \<Longrightarrow>
   sourced C b' \<and> (\<forall>c. VoucherReceived c \<in> set outs \<longrightarrow> c \<in> C)"
proof (induction as arbitrary: b outs)
  case (Cons a as)
  from Cons.prems(1) obtain os where ok: "buy_ok fmt b a"
    and run: "guarded_run (buy_ok fmt) buy_step (fst (buy_step b a)) as = Some (b', os)"
    and outs: "outs = snd (buy_step b a) @ os" by (auto simp: guarded_run_Cons)
  have sub: "voucherSources [] [a] \<subseteq> C" "voucherSources [] as \<subseteq> C"
    using Cons.prems(3) by (auto simp: voucherSources_def)
  have st: "sourced C (fst (buy_step b a))" "\<forall>c. VoucherReceived c \<in> set (snd (buy_step b a)) \<longrightarrow> c \<in> C"
    using sourced_step [OF Cons.prems(2) ok sub(1)] by auto
  show ?case using Cons.IH [OF run st(1) sub(2)] st(2) outs by auto
qed simp

section \<open>Lemmas on the device login\<close>

text \<open>Login posts that can still happen: one for the timer, one for a first click.\<close>

definition loginBudget :: "redirect \<Rightarrow> nat" where
  "loginBudget r = of_bool (rd_timer r) + of_bool (\<not> rd_isLoggingIn r \<and> \<not> rd_isOnline r)"

fun is_login :: "redirect_out \<Rightarrow> bool" where
  "is_login (LoginPost u b) = True"
| "is_login _ = False"

lemma redirect_offers: "clickable (redirectView r) GoOnline \<longleftrightarrow>
    rd_linkLogin r \<noteq> [] \<and> \<not> rd_isOnline r \<and> \<not> rd_isLoggingIn r"
  by (simp add: redirectView_def view_lists)

lemma redirect_step_budget:
  "redirect_ok r a \<Longrightarrow>
   length (filter is_login (snd (redirect_step r a))) + loginBudget (fst (redirect_step r a)) \<le> loginBudget r"
  by (cases a) (auto simp: loginBudget_def performLogin_def redirect_offers)

lemma redirect_run_budget:
  "guarded_run redirect_ok redirect_step r as = Some (r', outs) \<Longrightarrow>
   length (filter is_login outs) + loginBudget r' \<le> loginBudget r"
proof (induction as arbitrary: r outs)
  case (Cons a as)
  then show ?case using redirect_step_budget [of r a] by (fastforce simp: guarded_run_Cons)
qed simp

lemma redirect_step_post:
  "rd_voucherCode (fst (redirect_step r a)) = rd_voucherCode r \<and> rd_linkLogin (fst (redirect_step r a)) = rd_linkLogin r
   \<and> (\<forall>u b. LoginPost u b \<in> set (snd (redirect_step r a)) \<longrightarrow>
        rd_linkLogin r \<noteq> [] \<and> u = loginUrl (rd_linkLogin r) \<and> b = loginBody (rd_voucherCode r))"
  by (cases a) (auto simp: performLogin_def)

lemma redirect_run_post:
  "guarded_run redirect_ok redirect_step r as = Some (r', outs) \<Longrightarrow> LoginPost u b \<in> set outs \<Longrightarrow>
   rd_linkLogin r \<noteq> [] \<and> u = loginUrl (rd_linkLogin r) \<and> b = loginBody (rd_voucherCode r)"
proof (induction as arbitrary: r outs)
  case (Cons a as)
  from Cons.prems(1) obtain os where
    run: "guarded_run redirect_ok redirect_step (fst (redirect_step r a)) as = Some (r', os)"
    and outs: "outs = snd (redirect_step r a) @ os" by (auto simp: guarded_run_Cons)
  show ?case
    using Cons.IH [OF run] Cons.prems(2) outs redirect_step_post [of r a] by auto
qed simp

subsection \<open>The form body\<close>

lemma hexUpper_facts:
  "d < 16 \<Longrightarrow> hexVal (hexUpper d) = Some d \<and> hexUpper d \<noteq> CHR ''&'' \<and> hexUpper d \<noteq> CHR ''=''"
proof -
  assume "d < 16"
  then have "d \<in> set [0..<16]" by simp
  moreover have "\<forall>d \<in> set [0..<16]. hexVal (hexUpper d) = Some d \<and> hexUpper d \<noteq> CHR ''&'' \<and> hexUpper d \<noteq> CHR ''=''"
    by code_simp
  ultimately show ?thesis by blast
qed

lemma nibbles: "(of_char c :: nat) div 16 < 16" "(of_char c :: nat) mod 16 < 16"
    "char_of ((of_char c :: nat) div 16 * 16 + of_char c mod 16) = c"
  by (rule less_mult_imp_div_less) simp_all

lemma pctBytes_encode: "pctBytes (encodeURIComponent s) = Some s"
proof (induction s)
  case (Cons c s)
  have "\<not> uriUnreserved (CHR ''%'')" by (simp add: uriUnreserved_def)
  then show ?case
    using Cons hexUpper_facts [OF nibbles(1) [of c]] hexUpper_facts [OF nibbles(2) [of c]] nibbles(3) [of c]
    by (auto simp: encodeURIComponent_def uriByte_def)
qed (simp add: encodeURIComponent_def)

lemma uriByte_separators: "CHR ''&'' \<notin> set (uriByte c)" "CHR ''='' \<notin> set (uriByte c)"
proof -
  have "\<not> uriUnreserved (CHR ''&'')" "\<not> uriUnreserved (CHR ''='')" by (simp_all add: uriUnreserved_def)
  then show "CHR ''&'' \<notin> set (uriByte c)" "CHR ''='' \<notin> set (uriByte c)"
    using hexUpper_facts [OF nibbles(1) [of c]] hexUpper_facts [OF nibbles(2) [of c]]
    by (auto simp: uriByte_def)
qed

lemma encode_separators: "CHR ''&'' \<notin> set (encodeURIComponent s)" "CHR ''='' \<notin> set (encodeURIComponent s)"
  by (simp_all add: encodeURIComponent_def uriByte_separators)

text \<open>How a form body is read at the other end: pairs between ampersands, percent-decoded.\<close>

definition formFields :: "string \<Rightarrow> (string \<times> string option) list" where
  "formFields body =
     map (\<lambda>kv. case splitOn (CHR ''='') kv of k # v # _ \<Rightarrow> (k, decodeURIComponent v) | k # _ \<Rightarrow> (k, Some [])
             | [] \<Rightarrow> ([], None))
       (splitOn (CHR ''&'') body)"

section \<open>Properties\<close>

text \<open>C10: the purchase form charges deliberately: in every sequence of actions the page offers,
  the number of payment prompts requested is the number answered plus at most the one
  outstanding; and whatever happened before, the next prompt is requested by the pay button only,
  goes to the phone number typed last, which is a Kenyan one, is for the package selected last, which
  is one of a list the page has loaded, and carries the tenant and the device the router reported.\<close>

theorem stk_push_safe:
  assumes "guarded_run (buy_ok fmt) buy_step (buyStart tenant mac ip s) as = Some (b, outs)" and "buy_ok fmt b a"
  shows "length (filter is_stk outs) = length (filter stk_answer as) + of_bool (by_stkPending b)
    \<and> (\<forall>ph pkg t m i. PostStk ph pkg t m i \<in> set (snd (buy_step b a)) \<longrightarrow>
         a = Pay \<and> \<not> by_stkPending b
         \<and> kenyanPhone ph \<and> ph = lastPhone as
         \<and> lastSelected as = Some pkg \<and> (\<exists>ps p. PackagesLoaded ps \<in> set as \<and> p \<in> set ps \<and> pk_id p = pkg)
         \<and> t = tenant \<and> m = mac \<and> i = ip)"
proof -
  have post: "a = Pay \<and> \<not> by_stkPending b \<and> kenyanPhone ph \<and> ph = lastPhone as
      \<and> lastSelected as = Some pkg \<and> (\<exists>ps p. PackagesLoaded ps \<in> set as \<and> p \<in> set ps \<and> pk_id p = pkg)
      \<and> t = tenant \<and> m = mac \<and> i = ip"
    if "PostStk ph pkg t m i \<in> set (snd (buy_step b a))" for ph pkg t m i
  proof -
    note stk = buy_step_stk [OF that]
    have "a = Pay" "by_phone b = ph"
      using that by (cases a; auto simp: buy_handlers Let_def split: list.splits option.splits if_splits)+
    moreover have "\<not> by_stkPending b" using assms(2) \<open>a = Pay\<close> by (simp add: buy_offers)
    moreover have "by_selected b = lastSelected as" "by_phone b = lastPhone as"
      using buy_run_entries [OF assms(1)] by (simp_all add: buyStart_def lastSelected_def lastPhone_def)
    moreover have "onOffer (loadedLists as) b"
      using onOffer_run [OF assms(1), of "[]"] by (simp add: onOffer_def buyStart_def)
    moreover from this stk obtain ps where "ps \<in> set (loadedLists as)" "pkg \<in> pk_id ` set ps"
      by (auto simp: onOffer_def)
    then have "\<exists>ps p. PackagesLoaded ps \<in> set as \<and> p \<in> set ps \<and> pk_id p = pkg" by (auto simp: in_loadedLists)
    ultimately show ?thesis
      using stk buy_run_props [OF assms(1)] by (simp add: buyStart_def)
  qed
  show ?thesis using stk.request_flights [OF assms(1)] post by (auto simp: buyStart_def)
qed

definition samplePackages :: "package list" where
  "samplePackages =
     [samplePackage, samplePackage\<lparr>pk_id := ''p2'', pk_name := ''Weekly'', pk_price_kes := 25000\<rparr>]"

lemmas buy_eval = guarded_runs buy_offers buy_handlers buyStart_def showsPolling_def selectedPackage_def
  samplePackages_def samplePackage_def Let_def

lemma kenyan_sample: "kenyanPhone ''0712345678''"
  by code_simp

theorem stk_push_safe_witness:
  "let as = [PackagesLoaded samplePackages, SelectPackage ''p2'', CloseCheckout, SelectPackage ''p1'',
             TypePhone ''0712345678'', Pay, StkFailed];
       (b, outs) = the (guarded_run (buy_ok showKes) buy_step (buyStart ''t'' ''m'' ''i'' []) as) in
     length (filter is_stk outs) = 1 \<and> buy_ok showKes b Pay
     \<and> snd (buy_step b Pay) = [PostStk ''0712345678'' ''p1'' ''t'' ''m'' ''i'']
     \<and> lastSelected as = Some ''p1'' \<and> lastPhone as = ''0712345678''"
proof -
  let ?as = "[PackagesLoaded samplePackages, SelectPackage ''p2'', CloseCheckout, SelectPackage ''p1'',
             TypePhone ''0712345678'', Pay, StkFailed]"
  have "guarded_run (buy_ok showKes) buy_step (buyStart ''t'' ''m'' ''i'' []) (?as @ [Pay]) \<noteq> None"
    by (simp add: buy_eval kenyan_sample del: not_None_eq)
  then obtain b outs b' outs' where run: "guarded_run (buy_ok showKes) buy_step (buyStart ''t'' ''m'' ''i'' []) ?as
      = Some (b, outs)" and "guarded_run (buy_ok showKes) buy_step b [Pay] = Some (b', outs')"
    by (rule guarded_run_split)
  then have ok: "buy_ok showKes b Pay" by (auto simp: guarded_run_Cons)
  have b: "truthy (by_selected b)" "by_phone b = ''0712345678''" "\<not> by_stkPending b"
    using buy_run_entries [OF run] ok by (simp_all add: buyStart_def buy_offers)
  then have "snd (buy_step b Pay) = [PostStk (by_phone b) (the (by_selected b)) (by_tenantId b) (by_mac b) (by_ip b)]"
    by (simp add: buy_handlers kenyan_sample)
  with stk_push_safe [OF run ok] b run ok show ?thesis by (auto simp: lastSelected_def lastPhone_def)
qed

text \<open>C11: one payment per page: once the packages have been loaded, and as long as they are not
  loaded again, the page accepts at most one payment, because the accepted payment replaces the
  whole page by the waiting screen.\<close>

theorem one_payment_per_page:
  assumes "guarded_run (buy_ok fmt) buy_step (fst (buy_step (buyStart tenant mac ip s) (PackagesLoaded ps))) as
           = Some (b, outs)"
    and "\<not> list_ex is_reload as"
  shows "length (filter is_charge as) \<le> 1"
proof -
  have "chosen (fst (buy_step (buyStart tenant mac ip s) (PackagesLoaded ps)))"
    by (simp add: chosen_def buyStart_def)
  from charges_at_most [OF assms(1) this assms(2)] show ?thesis by simp
qed

theorem one_payment_per_page_witness:
  "let as = [SelectPackage ''p1'', TypePhone ''0712345678'', Pay, StkOk ''pay1''] in
     guarded_run (buy_ok showKes) buy_step
       (fst (buy_step (buyStart ''t'' ''m'' ''i'' []) (PackagesLoaded samplePackages))) as \<noteq> None
     \<and> length (filter is_charge as) = 1 \<and> length (filter is_charge as) \<le> 1"
proof -
  let ?as = "[SelectPackage ''p1'', TypePhone ''0712345678'', Pay, StkOk ''pay1'']"
  let ?b = "fst (buy_step (buyStart ''t'' ''m'' ''i'' []) (PackagesLoaded samplePackages))"
  have possible: "guarded_run (buy_ok showKes) buy_step ?b ?as \<noteq> None"
    by (simp add: buy_eval kenyan_sample del: not_None_eq)
  then obtain b outs where run: "guarded_run (buy_ok showKes) buy_step ?b ?as = Some (b, outs)" by auto
  have "length (filter is_charge ?as) \<le> 1" by (rule one_payment_per_page [OF run]) simp
  with possible show ?thesis by simp
qed

text \<open>When the list is loaded again without the package, the page of the running payment shows the packages once
  more; one that is selected then and is missing from the list loaded next can be paid for as well.\<close>

lemma reload_allows_second_payment:
  "\<exists>as. guarded_run (buy_ok showKes) buy_step (buyStart ''t'' ''m'' ''i'' []) as \<noteq> None \<and> length (filter is_charge as) = 2"
  by (rule exI [of _ "[PackagesLoaded samplePackages, SelectPackage ''p1'', TypePhone ''0712345678'', Pay, StkOk ''pay1'',
        PackagesLoaded [samplePackage\<lparr>pk_id := ''p2''\<rparr>], SelectPackage ''p2'', PackagesLoaded [samplePackage], Pay, StkOk ''pay2'']"])
     (simp add: buy_eval kenyan_sample del: not_None_eq)

text \<open>Every voucher has a source: a code the flow hands on, and the code it leaves in the
  browser's storage, was returned by the trial endpoint, confirmed by the payment, typed by the
  customer (trimmed, in capitals, not empty) or stored in the browser before.\<close>

lemma vouchers_accounted:
  assumes "guarded_run (buy_ok fmt) buy_step (buyStart tenant mac ip s) as = Some (b, outs)"
  shows "(\<forall>c. VoucherReceived c \<in> set outs \<longrightarrow> c \<in> voucherSources s as)
    \<and> (\<forall>c. getItem (by_local b) ACTIVE_VOUCHER_KEY = Some c \<longrightarrow> c \<in> voucherSources s as)"
proof -
  have start: "sourced (voucherSources s as) (buyStart tenant mac ip s)"
    by (auto simp: sourced_def buyStart_def voucherSources_def)
  have "voucherSources [] as \<subseteq> voucherSources s as"
    unfolding voucherSources_def by (rule subsetI) (simp add: getItem_def, blast)
  from sourced_run [OF assms start this] show ?thesis by (simp add: sourced_def)
qed

text \<open>The amount on the waiting screen can be wrong: while the payment prompt for one package
  is being requested the dialog can be closed and another package selected, and when the request
  is accepted the waiting screen asks to pay the other package's price by hand.\<close>

lemma manual_amount_mismatch:
  "\<exists>as b. guarded_run (buy_ok showKes) buy_step (buyStart ''t'' ''m'' ''i'' []) as
        = Some (b, [PostStk ''0712345678'' ''p1'' ''t'' ''m'' ''i''])
     \<and> showsPolling b \<and> map_option pk_id (selectedPackage b) = Some ''p2''
     \<and> map_option pk_price_kes (selectedPackage b) \<noteq> Some (pk_price_kes samplePackage)"
  by (rule exI [of _ "[PackagesLoaded samplePackages, SelectPackage ''p1'', TypePhone ''0712345678'', Pay,
        CloseCheckout, SelectPackage ''p2'', StkOk ''pay1'']"])
     (simp add: buy_eval guarded_run.simps kenyan_sample)

text \<open>The device is logged in at most twice: in every sequence of actions of the login screen
  at most two login posts are sent (the timer does not see that the button was used), none
  without a login link, and each goes to the router's address, with a scheme and without query.\<close>

lemma device_login_bounded:
  assumes "guarded_run redirect_ok redirect_step (redirectStart code link) as = Some (r, outs)"
  shows "length (filter is_login outs) \<le> 2
    \<and> (\<forall>u b. LoginPost u b \<in> set outs \<longrightarrow> link \<noteq> [] \<and> u = loginUrl link \<and> b = loginBody code
         \<and> startsWith u ''http'')"
proof -
  have "startsWith (loginUrl link) ''http''"
    by (simp add: loginUrl_def Let_def startsWith_def)
  then show ?thesis
    using redirect_run_budget [OF assms] redirect_run_post [OF assms]
    by (auto simp: redirectStart_def loginBudget_def of_bool_def split: if_splits)
qed

text \<open>Two posts do happen: the button, then the timer.\<close>

lemma device_login_twice:
  "length (filter is_login (snd (the (guarded_run redirect_ok redirect_step
     (redirectStart ''AB'' ''10.0.0.1/login'') [GoOnline, LoginTimer])))) = 2"
  by (simp add: guarded_run.simps redirect_offers redirectStart_def performLogin_def)

text \<open>The router reads back the voucher: for every voucher code that is valid text, splitting
  the posted body at its ampersands and decoding each field gives the code as user name and as
  password, whatever characters it has.\<close>

lemma login_body_roundtrip:
  assumes "utf8Valid (map of_char code)"
  shows "formFields (loginBody code) = [(''username'', Some code), (''password'', Some code)]"
proof -
  have eq: "splitOn (CHR ''='') (k @ CHR ''='' # encodeURIComponent code) = [k, encodeURIComponent code]"
    if "CHR ''='' \<notin> set k" for k
    using that by (simp add: splitOn_append encode_separators)
  have "splitOn (CHR ''&'') (loginBody code)
      = [''username='' @ encodeURIComponent code, ''password='' @ encodeURIComponent code]"
    using splitOn_append [of "CHR ''&''" "''username='' @ encodeURIComponent code"
        "''password='' @ encodeURIComponent code"]
    by (simp add: loginBody_def encode_separators)
  then show ?thesis
    using assms eq [of "''username''"] eq [of "''password''"]
    by (simp add: formFields_def decodeURIComponent_def pctBytes_encode)
qed

text \<open>A confirmed payment brings the device online: when the delay after a confirmation ends,
  the page switches from the waiting screen to the login screen for exactly that code, the code is
  kept in the browser, and if the router gave a login link the login timer is running.\<close>

lemma confirmation_reaches_login:
  assumes "captiveScreen c = PollingScreen" and "cp_polling c = Some q" and "pp_due q = code # cs"
    and "code \<noteq> []" and "cp_redirect c = None"
  shows "let c' = captive_step now c (PollAct Due) in
      captiveScreen c' = LoginScreen \<and> cp_polling c' = None
      \<and> cp_redirect c' = Some (redirectStart code (cp_linkLogin c))
      \<and> rd_timer (redirectStart code (cp_linkLogin c)) = (cp_linkLogin c \<noteq> [])
      \<and> getItem (by_local (cp_buy c')) ACTIVE_VOUCHER_KEY = Some code"
  using assms
  by (simp add: handUp_def receive_def remount_def captiveScreen_def keepVoucher_def redirectStart_def
      storage_simps Let_def)

definition confirmedPage :: captive where
  "confirmedPage =
     (let c0 = captiveStart [(''tenant_id'', ''t''), (''link-login'', ''10.0.0.1/login'')] [];
          c1 = fold (\<lambda>a c. captive_step 0 c a)
                 [BuyAct (PackagesLoaded samplePackages), BuyAct (SelectPackage ''p1''),
                  BuyAct (TypePhone ''0712345678''), BuyAct Pay, BuyAct (StkOk ''pay1'')] c0
      in captive_step 0 c1 (PollAct (Query (PollAnswer
           \<lparr>ps_payment_id = ''pay1'', ps_status = ''confirmed'', ps_voucher_code = Some ''ABC''\<rparr>))))"

lemma confirmedPage_facts:
  "captiveScreen confirmedPage = PollingScreen" "map_option pp_due (cp_polling confirmedPage) = Some [''ABC'']"
  "cp_redirect confirmedPage = None"
  by code_simp+

end
