(* ===== verification/Api_Client.thy ===== *)
theory Api_Client
  imports Auth_Lib "HOL-Library.Multiset"
begin

text \<open>
  \<open>frontend/src/lib/api.ts\<close>: the tenant portal's HTTP client. The request interceptor
  attaches a bearer token; the response interceptor turns rate limiting into its own error,
  drops an expired impersonation session, and on a 401 refreshes the access token once,
  parking further failures in a queue until the refresh settles.

  An asynchronous handler is modelled by the state between its suspension points: the module
  variables \<open>isRefreshing\<close> and \<open>failedQueue\<close>, the handlers suspended at \<open>await
  axios.post(.../auth/refresh)\<close>, the two storages and the location of the tab. A step handles
  one event and returns what the handler emits. \<open>OtherTab\<close> is a write to the shared
  \<open>localStorage\<close> by another tab; \<open>PageLoad\<close> restarts the module.
\<close>

section \<open>State\<close>

definition IMPERSONATION_TOKEN_KEY :: string where
  "IMPERSONATION_TOKEN_KEY = ''Frixel Connect_impersonation_token''"

text \<open>A request: identity, the \<open>_retry\<close> mark of its config, its \<open>Authorization\<close> header.\<close>

record request =
  rq_id :: nat
  rq_retry :: bool
  rq_auth :: "string option"

text \<open>\<open>RateLimitedError\<close>, or the error of axios with the status of its response if any.\<close>

datatype failure = RateLimitedError | AxiosError "nat option"

record tab =
  local_storage :: storage
  session_storage :: storage
  pathname :: path
  isRefreshing :: bool
  failedQueue :: "request list"
  awaiting :: "request list"
  defaultAuth :: "string option"

datatype emission =
    Reject request failure
  | Resend request
  | PostRefresh string
  | GoTo path

datatype api_event =
    Failed request "nat option"
  | RefreshOk string string
  | RefreshFailed failure
  | OtherTab storage
  | PageLoad path

definition bearer :: "string \<Rightarrow> string" where
  "bearer token = ''Bearer '' @ token"

section \<open>Handlers\<close>

definition getRequestToken :: "int \<Rightarrow> tab \<Rightarrow> string option" where
  "getRequestToken now tb =
     (let impersonationToken = getItem (session_storage tb) IMPERSONATION_TOKEN_KEY
      in if truthy impersonationToken then impersonationToken
         else (let token = getToken (local_storage tb)
               in if truthy token \<and> isTokenExpired now (the token) then None else token))"

definition onRequest :: "int \<Rightarrow> tab \<Rightarrow> request \<Rightarrow> request" where
  "onRequest now tb rq =
     (let token = getRequestToken now tb
      in if truthy token then rq\<lparr>rq_auth := Some (bearer (the token))\<rparr> else rq)"

text \<open>\<open>processQueue(error, token)\<close>: each parked promise is rejected with the error, or
  resolved, upon which its continuation sets the header and sends the request again.\<close>

definition processQueue :: "failure option \<Rightarrow> string \<Rightarrow> tab \<Rightarrow> tab \<times> emission list" where
  "processQueue err token tb =
     (tb\<lparr>failedQueue := []\<rparr>,
      map (\<lambda>rq. case err of
                  Some e \<Rightarrow> Reject rq e
                | None \<Rightarrow> Resend (rq\<lparr>rq_auth := Some (bearer token)\<rparr>)) (failedQueue tb))"

definition toLogin :: "tab \<Rightarrow> emission list" where
  "toLogin tb = (if pathname tb \<noteq> ''/login'' then [GoTo ''/login''] else [])"

definition onError :: "tab \<Rightarrow> request \<Rightarrow> nat option \<Rightarrow> tab \<times> emission list" where
  "onError tb rq status =
     (if status = Some 429 then (tb, [Reject rq RateLimitedError])
      else if truthy (getItem (session_storage tb) IMPERSONATION_TOKEN_KEY) then
        (if status = Some 401
         then (tb\<lparr>session_storage := removeItem IMPERSONATION_TOKEN_KEY (session_storage tb)\<rparr>,
               toLogin tb @ [Reject rq (AxiosError status)])
         else (tb, [Reject rq (AxiosError status)]))
      else if status = Some 401 \<and> \<not> rq_retry rq then
        (if isRefreshing tb then (tb\<lparr>failedQueue := failedQueue tb @ [rq]\<rparr>, [])
         else
           (let originalRequest = rq\<lparr>rq_retry := True\<rparr>;
                tb1 = tb\<lparr>isRefreshing := True\<rparr>;
                refreshToken = getRefreshToken (local_storage tb1)
            in if \<not> truthy refreshToken
               then (tb1\<lparr>local_storage := clearRefreshToken (clearToken (local_storage tb1))\<rparr>,
                     toLogin tb1 @ [Reject originalRequest (AxiosError status)])
               else (tb1\<lparr>awaiting := awaiting tb1 @ [originalRequest]\<rparr>,
                     [PostRefresh (the refreshToken)])))
      else (tb, [Reject rq (AxiosError status)]))"

text \<open>The suspended handler resumes with the response of \<open>/auth/refresh\<close>. Its own
  \<open>api(originalRequest)\<close> runs before the continuations of the parked promises.\<close>

definition onRefreshOk :: "tab \<Rightarrow> request \<Rightarrow> string \<Rightarrow> string \<Rightarrow> tab \<times> emission list" where
  "onRefreshOk tb originalRequest access_token newRefreshToken =
     (let tenantId = Option.bind (decodeToken access_token) dt_tenant_id;
          ls1 = (if truthy tenantId
                 then saveRefreshToken newRefreshToken (the tenantId)
                        (saveToken access_token (the tenantId) (local_storage tb))
                 else local_storage tb);
          tb1 = tb\<lparr>local_storage := ls1, defaultAuth := Some (bearer access_token)\<rparr>;
          (tb2, outs) = processQueue None access_token tb1
      in (tb2\<lparr>isRefreshing := False\<rparr>,
          Resend (originalRequest\<lparr>rq_auth := Some (bearer access_token)\<rparr>) # outs))"

definition onRefreshFailed :: "tab \<Rightarrow> request \<Rightarrow> failure \<Rightarrow> tab \<times> emission list" where
  "onRefreshFailed tb originalRequest refreshError =
     (let (tb1, outs) = processQueue (Some refreshError) [] tb;
          tb2 = tb1\<lparr>isRefreshing := False,
                    local_storage := removeItem ACTIVE_TENANT_KEY
                                       (clearAllTenantTokens (local_storage tb1))\<rparr>
      in (tb2, outs @ toLogin tb2 @ [Reject originalRequest refreshError]))"

fun api_step :: "tab \<Rightarrow> api_event \<Rightarrow> tab \<times> emission list" where
  "api_step tb (Failed rq status) = onError tb rq status"
| "api_step tb (RefreshOk access refresh) =
     (case awaiting tb of
        [] \<Rightarrow> (tb, [])
      | rq # rest \<Rightarrow> onRefreshOk (tb\<lparr>awaiting := rest\<rparr>) rq access refresh)"
| "api_step tb (RefreshFailed e) =
     (case awaiting tb of
        [] \<Rightarrow> (tb, [])
      | rq # rest \<Rightarrow> onRefreshFailed (tb\<lparr>awaiting := rest\<rparr>) rq e)"
| "api_step tb (OtherTab s) = (tb\<lparr>local_storage := s\<rparr>, [])"
| "api_step tb (PageLoad p) =
     (tb\<lparr>pathname := p, isRefreshing := False, failedQueue := [], awaiting := [],
         defaultAuth := None\<rparr>, [])"

definition freshTab :: "storage \<Rightarrow> storage \<Rightarrow> path \<Rightarrow> tab" where
  "freshTab l s p =
     \<lparr>local_storage = l, session_storage = s, pathname = p, isRefreshing = False,
      failedQueue = [], awaiting = [], defaultAuth = None\<rparr>"

fun api_run :: "tab \<Rightarrow> api_event list \<Rightarrow> tab \<times> emission list" where
  "api_run tb [] = (tb, [])"
| "api_run tb (e # es) =
     (let (tb1, o1) = api_step tb e; (tb2, o2) = api_run tb1 es in (tb2, o1 @ o2))"

section \<open>Specification vocabulary\<close>

text \<open>The requests a list of outputs settles, and the ones a tab still owes an answer.\<close>

fun settles :: "emission \<Rightarrow> nat list" where
  "settles (Reject rq e) = [rq_id rq]"
| "settles (Resend rq) = [rq_id rq]"
| "settles _ = []"

definition settled :: "emission list \<Rightarrow> nat multiset" where
  "settled os = mset (concat (map settles os))"

definition pending :: "tab \<Rightarrow> nat multiset" where
  "pending tb = mset (map rq_id (failedQueue tb)) + mset (map rq_id (awaiting tb))"

fun submitted :: "api_event \<Rightarrow> nat multiset" where
  "submitted (Failed rq status) = {#rq_id rq#}"
| "submitted _ = {#}"

definition refresh_inv :: "tab \<Rightarrow> bool" where
  "refresh_inv tb \<longleftrightarrow>
     length (awaiting tb) \<le> 1
     \<and> (awaiting tb \<noteq> [] \<longrightarrow> isRefreshing tb)
     \<and> (failedQueue tb \<noteq> [] \<longrightarrow> isRefreshing tb)"

text \<open>A tab that believes a refresh is running when none is.\<close>

definition wedged :: "tab \<Rightarrow> bool" where
  "wedged tb \<longleftrightarrow> isRefreshing tb \<and> awaiting tb = []"

definition impersonating :: "tab \<Rightarrow> bool" where
  "impersonating tb \<longleftrightarrow> truthy (getItem (session_storage tb) IMPERSONATION_TOKEN_KEY)"

section \<open>Lemmas\<close>

lemmas api_defs = onError_def onRefreshOk_def onRefreshFailed_def processQueue_def toLogin_def Let_def

lemma settled_simps [simp]:
  "settled [] = {#}" "settled (o1 # os) = mset (settles o1) + settled os"
  "settled (os @ os') = settled os + settled os'"
  by (simp_all add: settled_def)

lemma settled_queue [simp]:
  "settled (map (\<lambda>rq. Reject rq e) q) = mset (map rq_id q)"
  "settled (map (\<lambda>rq. Resend (rq\<lparr>rq_auth := a\<rparr>)) q) = mset (map rq_id q)"
  by (induction q) auto

lemma step_refresh_inv: "refresh_inv tb \<Longrightarrow> refresh_inv (fst (api_step tb ev))"
  by (cases ev) (auto simp: refresh_inv_def api_defs split: list.splits)

interpretation refresh: invariant_system "freshTab l s p" "\<lambda>tb e. fst (api_step tb e)" refresh_inv
  for l s p
  by unfold_locales (simp_all add: step_refresh_inv, simp add: refresh_inv_def freshTab_def)

lemma api_run_Cons:
  "api_run tb (e # es) =
     (fst (api_run (fst (api_step tb e)) es),
      snd (api_step tb e) @ snd (api_run (fst (api_step tb e)) es))"
  by (auto simp: Let_def split: prod.splits)

declare api_run.simps(2) [simp del]

lemma api_run_fst: "fst (api_run tb es) = foldl (\<lambda>tb e. fst (api_step tb e)) tb es"
  by (induction es arbitrary: tb) (auto simp: api_run_Cons)

lemma run_refresh_inv: "refresh_inv (fst (api_run (freshTab l s p) es))"
  unfolding api_run_fst by (rule refresh.run_inv)

lemma step_conserves:
  "(\<And>p. ev \<noteq> PageLoad p) \<Longrightarrow>
   settled (snd (api_step tb ev)) + pending (fst (api_step tb ev)) = pending tb + submitted ev"
  by (cases ev) (auto simp: pending_def api_defs split: list.splits)

lemma run_conserves:
  "\<forall>e \<in> set es. \<forall>p. e \<noteq> PageLoad p \<Longrightarrow>
   settled (snd (api_run tb es)) + pending (fst (api_run tb es))
     = pending tb + sum_list (map submitted es)"
proof (induction es arbitrary: tb)
  case (Cons e es)
  have "settled (snd (api_step tb e)) + pending (fst (api_step tb e)) = pending tb + submitted e"
    using Cons.prems by (intro step_conserves) auto
  moreover have "settled (snd (api_run (fst (api_step tb e)) es))
      + pending (fst (api_run (fst (api_step tb e)) es))
      = pending (fst (api_step tb e)) + sum_list (map submitted es)"
    using Cons by simp
  ultimately show ?case
    by (simp add: api_run_Cons ac_simps)
qed simp

lemma wedged_queues:
  "wedged tb \<Longrightarrow> \<not> impersonating tb \<Longrightarrow> \<forall>r \<in> set rs. \<not> rq_retry r \<Longrightarrow>
   api_run tb (map (\<lambda>r. Failed r (Some 401)) rs) = (tb\<lparr>failedQueue := failedQueue tb @ rs\<rparr>, [])"
proof (induction rs arbitrary: tb)
  case (Cons r rs)
  let ?tb = "tb\<lparr>failedQueue := failedQueue tb @ [r]\<rparr>"
  have "api_step tb (Failed r (Some 401)) = (?tb, [])"
    using Cons.prems by (simp add: onError_def wedged_def impersonating_def)
  moreover have "api_run ?tb (map (\<lambda>r. Failed r (Some 401)) rs)
      = (?tb\<lparr>failedQueue := failedQueue ?tb @ rs\<rparr>, [])"
    using Cons.prems by (intro Cons.IH) (auto simp: wedged_def impersonating_def)
  ultimately show ?case by (simp add: api_run_Cons)
qed simp

lemma onError_PostRefresh:
  "PostRefresh t \<in> set (snd (onError tb rq st)) \<Longrightarrow> \<not> isRefreshing tb"
  by (auto simp: onError_def toLogin_def Let_def split: if_splits)

lemma step_PostRefresh:
  assumes "PostRefresh t \<in> set (snd (api_step tb ev))"
  shows "\<not> isRefreshing tb"
proof (cases ev)
  case (Failed rq st)
  with assms show ?thesis by (simp add: onError_PostRefresh)
qed (use assms in \<open>auto simp: onRefreshOk_def onRefreshFailed_def processQueue_def toLogin_def
       Let_def split: list.splits if_splits\<close>)

section \<open>Properties\<close>

text \<open>C2: at most one refresh is ever in flight: in every run of a tab from a page load, at
  most one handler waits for \<open>/auth/refresh\<close>, failures are parked only while a refresh is
  marked as running, and a refresh request is only posted when none is in flight.\<close>

theorem at_most_one_refresh:
  "let tb = fst (api_run (freshTab l s p) es) in
     length (awaiting tb) \<le> 1 \<and> (failedQueue tb @ awaiting tb = [] \<or> isRefreshing tb)
     \<and> (if PostRefresh t \<in> set (snd (api_step tb ev)) then awaiting tb = [] else True)"
proof -
  let ?tb = "fst (api_run (freshTab l s p) es)"
  have inv: "refresh_inv ?tb" by (rule run_refresh_inv)
  have "awaiting ?tb = []" if "PostRefresh t \<in> set (snd (api_step ?tb ev))"
    using step_PostRefresh [OF that] inv by (auto simp: refresh_inv_def)
  with inv show ?thesis by (auto simp: refresh_inv_def Let_def)
qed

text \<open>C1: no failed request is lost or answered twice: over any run without a page load, the
  requests that were rejected or sent again, together with those still parked or waiting, are
  exactly (as a multiset) the ones that were pending before and the ones that failed since.\<close>

theorem requests_conserved:
  assumes "\<forall>e \<in> set es. \<forall>p. e \<noteq> PageLoad p"
  shows "settled (snd (api_run tb es)) + pending (fst (api_run tb es))
    = pending tb + sum_list (map submitted es)"
  using assms by (rule run_conserves)

theorem requests_conserved_witness:
  "let tb = freshTab [] [] ''/admin''; rq = \<lparr>rq_id = 7, rq_retry = False, rq_auth = None\<rparr>;
       es = [Failed rq (Some 500), Failed rq (Some 401)] in
     settled (snd (api_run tb es)) + pending (fst (api_run tb es))
     = pending tb + sum_list (map submitted es)"
  unfolding Let_def by (rule requests_conserved) simp

text \<open>C4: a successful refresh drains the queue in order with the new token: the waiting
  request is sent again, then every parked request in the order it failed, all with the new
  bearer token; nothing stays pending, the new session is stored for the token's tenant, and
  from then on the request interceptor attaches the new token.\<close>

theorem refresh_success_drains:
  assumes "awaiting tb = [rq]" and "decodeToken acc = Some d" and "dt_tenant_id d = Some tid"
    and "tid \<noteq> []" and "\<not> impersonating tb" and "\<not> isTokenExpired now acc" and "acc \<noteq> []"
  shows "let (tb', outs) = api_step tb (RefreshOk acc rfr) in
      outs = map (\<lambda>r. Resend (r\<lparr>rq_auth := Some (bearer acc)\<rparr>)) (rq # failedQueue tb)
      \<and> pending tb' = {#} \<and> \<not> isRefreshing tb'
      \<and> getToken (local_storage tb') = Some acc \<and> getRefreshToken (local_storage tb') = Some rfr
      \<and> rq_auth (onRequest now tb' r) = Some (bearer acc)"
  using assms
  by (simp add: api_defs pending_def onRequest_def getRequestToken_def impersonating_def)

definition waitingTab :: tab where
  "waitingTab = (freshTab [] [] ''/admin'')\<lparr>
     isRefreshing := True,
     awaiting := [\<lparr>rq_id = 1, rq_retry = True, rq_auth = None\<rparr>],
     failedQueue := [\<lparr>rq_id = 2, rq_retry = False, rq_auth = None\<rparr>]\<rparr>"

theorem refresh_success_drains_witness:
  "let (tb', outs) = api_step waitingTab (RefreshOk sampleToken ''r2'') in
      outs = map (\<lambda>r. Resend (r\<lparr>rq_auth := Some (bearer sampleToken)\<rparr>))
               (\<lparr>rq_id = 1, rq_retry = True, rq_auth = None\<rparr> # failedQueue waitingTab)
      \<and> pending tb' = {#} \<and> \<not> isRefreshing tb'
      \<and> getToken (local_storage tb') = Some sampleToken
      \<and> getRefreshToken (local_storage tb') = Some ''r2''
      \<and> rq_auth (onRequest 0 tb' \<lparr>rq_id = 3, rq_retry = False, rq_auth = None\<rparr>)
          = Some (bearer sampleToken)"
  by (rule refresh_success_drains [where tid = "''t1''", OF _ decode_sampleToken])
     (simp_all add: waitingTab_def freshTab_def impersonating_def getItem_def)

text \<open>C5: a failed refresh ends the session everywhere: every waiting and parked request is
  rejected with the refresh error, no access token and no refresh token of any tenant is left in
  the storage, nor the choice of a tenant, every other key keeps its value, and the tab goes to
  the login page unless it is there.\<close>

theorem refresh_failure_ends_session:
  assumes "awaiting tb = [rq]"
  shows "let (tb', outs) = api_step tb (RefreshFailed e) in
      outs = map (\<lambda>r. Reject r e) (failedQueue tb)
             @ (if pathname tb = ''/login'' then [] else [GoTo ''/login'']) @ [Reject rq e]
      \<and> pending tb' = {#} \<and> \<not> isRefreshing tb'
      \<and> getToken (local_storage tb') = None \<and> getRefreshToken (local_storage tb') = None
      \<and> getItem (local_storage tb') ACTIVE_TENANT_KEY = None
      \<and> (\<forall>tid. getItem (local_storage tb') (TOKEN_KEY tid) = None
              \<and> getItem (local_storage tb') (REFRESH_KEY tid) = None)
      \<and> (\<forall>k. getItem (local_storage tb') k = (if session_key k then None else getItem (local_storage tb) k))"
  using assms
  by (auto simp: api_defs pending_def storage_simps getItem_clearAll getToken_def getRefreshToken_def)

text \<open>The same tab over a storage with the sessions of two tenants and a setting of its own.\<close>

definition twoTenantsTab :: tab where
  "twoTenantsTab = waitingTab\<lparr>local_storage :=
     saveRefreshToken ''r2'' ''t2'' (saveToken ''a2'' ''t2'' (saveRefreshToken ''r1'' ''t1'' (saveToken ''a1'' ''t1''
       [(''theme'', ''dark'')])))\<rparr>"

theorem refresh_failure_ends_session_witness:
  "let (tb', outs) = api_step twoTenantsTab (RefreshFailed (AxiosError (Some 401))) in
      outs = map (\<lambda>r. Reject r (AxiosError (Some 401))) (failedQueue twoTenantsTab)
             @ (if pathname twoTenantsTab = ''/login'' then [] else [GoTo ''/login''])
             @ [Reject \<lparr>rq_id = 1, rq_retry = True, rq_auth = None\<rparr> (AxiosError (Some 401))]
      \<and> pending tb' = {#} \<and> \<not> isRefreshing tb'
      \<and> getToken (local_storage tb') = None \<and> getRefreshToken (local_storage tb') = None
      \<and> getItem (local_storage tb') ACTIVE_TENANT_KEY = None
      \<and> (\<forall>tid. getItem (local_storage tb') (TOKEN_KEY tid) = None
              \<and> getItem (local_storage tb') (REFRESH_KEY tid) = None)
      \<and> (\<forall>k. getItem (local_storage tb') k
              = (if session_key k then None else getItem (local_storage twoTenantsTab) k))"
  by (rule refresh_failure_ends_session) (simp add: twoTenantsTab_def waitingTab_def)

text \<open>The refresh is not retried by the same request: a request that already went through
  one refresh and fails again with 401 is rejected, leaves the tab as it was, and the request
  a successful refresh sends again carries the mark that makes it so.\<close>

lemma one_refresh_per_request:
  assumes "rq_retry rq" and "\<not> impersonating tb"
  shows "onError tb rq (Some 401) = (tb, [Reject rq (AxiosError (Some 401))])
    \<and> (\<forall>r \<in> set (awaiting (fst (onError tb' rq' (Some 401)))). r \<in> set (awaiting tb') \<or> rq_retry r)"
  using assms by (auto simp: api_defs impersonating_def)

text \<open>C6: impersonation is isolated from the tenant session: while an impersonation token is
  set, a failed request never reads, refreshes or clears the tenant tokens in
  \<open>localStorage\<close>, never parks, and a 401 removes the impersonation token.\<close>

theorem impersonation_isolated:
  assumes "impersonating tb"
  shows "let (tb', outs) = onError tb rq status in
      local_storage tb' = local_storage tb \<and> failedQueue tb' = failedQueue tb
      \<and> awaiting tb' = awaiting tb \<and> isRefreshing tb' = isRefreshing tb
      \<and> (\<forall>t. PostRefresh t \<notin> set outs) \<and> (impersonating tb' = (status \<noteq> Some 401))"
  using assms by (auto simp: api_defs impersonating_def storage_simps)

theorem impersonation_isolated_witness:
  "let tb = freshTab [] [(IMPERSONATION_TOKEN_KEY, ''x'')] ''/admin'';
       (tb', outs) = onError tb \<lparr>rq_id = 1, rq_retry = False, rq_auth = None\<rparr> (Some 401) in
      local_storage tb' = local_storage tb \<and> failedQueue tb' = failedQueue tb
      \<and> awaiting tb' = awaiting tb \<and> isRefreshing tb' = isRefreshing tb
      \<and> (\<forall>t. PostRefresh t \<notin> set outs) \<and> (impersonating tb' = (Some 401 \<noteq> (Some 401 :: nat option)))"
  unfolding Let_def [where s = "freshTab _ _ _"]
  by (rule impersonation_isolated) (simp add: freshTab_def impersonating_def getItem_def)

text \<open>After a 401 on the login page without a refresh token the client is stuck: the first
  failure is rejected, but \<open>isRefreshing\<close> stays set with no refresh in flight, so every later
  401 on that page (a second wrong password, say) is parked and never answered.\<close>

lemma login_page_401_never_answered:
  assumes "\<not> isRefreshing tb" and "awaiting tb = []" and "\<not> impersonating tb"
    and "pathname tb = ''/login''" and "\<not> truthy (getRefreshToken (local_storage tb))"
    and "\<forall>r \<in> set (rq # rs). \<not> rq_retry r"
  shows "let (tb', outs) = api_run tb (map (\<lambda>r. Failed r (Some 401)) (rq # rs)) in
      outs = [Reject (rq\<lparr>rq_retry := True\<rparr>) (AxiosError (Some 401))]
      \<and> wedged tb' \<and> failedQueue tb' = failedQueue tb @ rs"
proof -
  let ?tb1 = "fst (onError tb rq (Some 401))"
  have first: "snd (onError tb rq (Some 401)) = [Reject (rq\<lparr>rq_retry := True\<rparr>) (AxiosError (Some 401))]"
      "wedged ?tb1" "\<not> impersonating ?tb1" "failedQueue ?tb1 = failedQueue tb"
    using assms by (simp_all add: api_defs wedged_def impersonating_def)
  then have "api_run ?tb1 (map (\<lambda>r. Failed r (Some 401)) rs)
      = (?tb1\<lparr>failedQueue := failedQueue ?tb1 @ rs\<rparr>, [])"
    using assms by (intro wedged_queues) auto
  with first show ?thesis
    by (simp add: api_run_Cons wedged_def)
qed

end
