(* ===== verification/Auth_Context.thy ===== *)
theory Auth_Context
  imports Api_Client Format Submission
begin

text \<open>
  Tenant authentication in the portal: \<open>context/AuthContext.tsx\<close> (who is logged in),
  \<open>hooks/useAuth.ts\<close> (what a login or registration response does), the start-up script
  \<open>main.tsx\<close> that receives an impersonation token, and the two forms
  \<open>pages/public/LoginPage.tsx\<close> and \<open>RegisterPage.tsx\<close>. An operation takes the provider's state
  together with the storage and returns them with the effects it causes. The check of an
  email address is zod's and is a parameter.
\<close>

section \<open>The authentication context\<close>

record auth_user =
  user_id :: "string option"
  user_role :: "string option"
  user_tenant :: "string option"

record auth_state =
  au_user :: "auth_user option"
  au_loading :: bool
  au_local :: storage

datatype auth_effect = ClearCache | Location path | NavigateTo path

definition isAuthenticated :: "auth_state \<Rightarrow> bool" where
  "isAuthenticated st \<longleftrightarrow> au_user st \<noteq> None"

definition userOf :: "decoded_token \<Rightarrow> auth_user" where
  "userOf d = \<lparr>user_id = dt_sub d, user_role = dt_role d, user_tenant = dt_tenant_id d\<rparr>"

definition providerStart :: "storage \<Rightarrow> auth_state" where
  "providerStart s = \<lparr>au_user = None, au_loading = True, au_local = s\<rparr>"

definition initAuth :: "int \<Rightarrow> auth_state \<Rightarrow> auth_state" where
  "initAuth now st =
     (let token = getToken (au_local st);
          st1 = (if truthy token \<and> \<not> isTokenExpired now (the token) then
                   (case decodeToken (the token) of
                      None \<Rightarrow> st
                    | Some decoded \<Rightarrow>
                        if truthy (dt_tenant_id decoded)
                        then st\<lparr>au_user := Some (userOf decoded)\<rparr> else st)
                 else if truthy token then
                   st\<lparr>au_local := clearRefreshToken (clearToken (au_local st)), au_user := None\<rparr>
                 else st\<lparr>au_user := None\<rparr>)
      in st1\<lparr>au_loading := False\<rparr>)"

definition login :: "string \<Rightarrow> string \<Rightarrow> auth_state \<Rightarrow> auth_state \<times> auth_effect list" where
  "login accessToken refreshToken st =
     (case decodeToken accessToken of
        None \<Rightarrow> (st, [ClearCache])
      | Some decoded \<Rightarrow>
          if truthy (dt_tenant_id decoded)
          then (st\<lparr>au_local := saveRefreshToken refreshToken (the (dt_tenant_id decoded))
                                (saveToken accessToken (the (dt_tenant_id decoded)) (au_local st)),
                   au_user := Some (userOf decoded)\<rparr>, [ClearCache])
          else (st, [ClearCache]))"

definition logout :: "auth_state \<Rightarrow> auth_state \<times> auth_effect list" where
  "logout st =
     (st\<lparr>au_local := clearRefreshToken (clearAllTenantTokens (au_local st)), au_user := None\<rparr>,
      [ClearCache, Location ''/login''])"

definition refreshUser :: "auth_state \<Rightarrow> auth_state" where
  "refreshUser st =
     (let token = getToken (au_local st)
      in if truthy token then
           (case decodeToken (the token) of
              None \<Rightarrow> st
            | Some decoded \<Rightarrow>
                if truthy (dt_tenant_id decoded)
                then st\<lparr>au_user := Some (userOf decoded)\<rparr> else st)
         else st)"

text \<open>\<open>useAuthContext\<close> throws outside the provider.\<close>

definition useAuthContext :: "auth_state option \<Rightarrow> string + auth_state" where
  "useAuthContext ctx =
     (case ctx of
        None \<Rightarrow> Inl ''useAuthContext must be used within an AuthProvider''
      | Some st \<Rightarrow> Inr st)"

section \<open>Login and registration responses\<close>

record token_response =
  tr_access :: string
  tr_refresh :: string
  tr_token_type :: string
  tr_role :: string
  tr_user_id :: string
  tr_tenant_id :: string

definition navigateBasedOnRole :: "string \<Rightarrow> auth_effect list" where
  "navigateBasedOnRole role =
     (if role = ''admin'' then [NavigateTo ''/admin/dashboard'']
      else if role = ''reseller'' then [NavigateTo ''/reseller/dashboard'']
      else if role = ''customer'' then [NavigateTo ''/customer/dashboard'']
      else [])"

definition onLoginSuccess :: "token_response \<Rightarrow> auth_state \<Rightarrow> auth_state \<times> auth_effect list" where
  "onLoginSuccess r st =
     (let (st', effs) = login (tr_access r) (tr_refresh r) st
      in (st', effs @ navigateBasedOnRole (tr_role r)))"

definition onRegisterSuccess :: "token_response \<Rightarrow> auth_state \<Rightarrow> auth_state \<times> auth_effect list" where
  "onRegisterSuccess r st =
     (let (st', effs) = login (tr_access r) (tr_refresh r) st
      in (st', effs @ navigateBasedOnRole (tr_role r)))"

section \<open>Start-up: theme and impersonation token\<close>

record boot =
  bt_dark :: bool
  bt_session :: storage
  bt_listening :: bool

datatype boot_effect = PostReady | Reload

definition boot_start :: "bool \<Rightarrow> storage \<Rightarrow> storage \<Rightarrow> boot \<times> boot_effect list" where
  "boot_start hasOpener local session =
     (let listen = (hasOpener \<and> \<not> truthy (getItem session IMPERSONATION_TOKEN_KEY))
      in (\<lparr>bt_dark = (getItem local ''theme'' \<noteq> Some ''light''), bt_session = session,
           bt_listening = listen\<rparr>,
          if listen then [PostReady] else []))"

text \<open>A message: whether it is from the page's own origin, its \<open>type\<close> if it has one, its
  \<open>token\<close>.\<close>

definition handleImpersonationToken ::
    "bool \<Rightarrow> string option \<Rightarrow> string \<Rightarrow> boot \<Rightarrow> boot \<times> boot_effect list" where
  "handleImpersonationToken sameOrigin type token b =
     (if bt_listening b \<and> sameOrigin \<and> type = Some ''impersonation_token''
      then (b\<lparr>bt_session := setItem IMPERSONATION_TOKEN_KEY token (bt_session b),
              bt_listening := False\<rparr>, [Reload])
      else (b, []))"

section \<open>The login form\<close>

type_synonym field_errors = "(string \<times> string) list"

definition minLength :: "nat \<Rightarrow> string \<Rightarrow> string \<Rightarrow> string \<Rightarrow> field_errors" where
  "minLength n field msg v = (if jsLength v < n then [(field, msg)] else [])"

definition loginSchema :: "string \<Rightarrow> string \<Rightarrow> field_errors" where
  "loginSchema email password =
     minLength 1 ''email'' ''Enter your email or phone number'' email
     @ minLength 8 ''password'' ''Password must be at least 8 characters'' password"

record login_page =
  lp_email :: string
  lp_password :: string
  lp_showPassword :: bool
  lp_errors :: field_errors
  lp_pending :: bool

datatype login_action =
  LoginEmail string | LoginPassword string | LoginToggle | LoginSubmit
  | LoginSucceeded | LoginFailed failure

datatype page_request = PostLogin string string | PostRegister string string string string

definition loginPage0 :: login_page where
  "loginPage0 = \<lparr>lp_email = [], lp_password = [], lp_showPassword = False, lp_errors = [],
                 lp_pending = False\<rparr>"

definition errorStatus :: "failure \<Rightarrow> nat option" where
  "errorStatus e = (case e of RateLimitedError \<Rightarrow> None | AxiosError st \<Rightarrow> st)"

definition loginSetError :: "failure \<Rightarrow> field_errors" where
  "loginSetError e =
     (if errorStatus e = Some 401 then [(''root'', ''Invalid email or password'')]
      else [(''root'', ''An unexpected error occurred. Please try again.'')])"

fun login_step :: "login_page \<Rightarrow> login_action \<Rightarrow> login_page \<times> page_request list" where
  "login_step p (LoginEmail v) = (p\<lparr>lp_email := v\<rparr>, [])"
| "login_step p (LoginPassword v) = (p\<lparr>lp_password := v\<rparr>, [])"
| "login_step p LoginToggle = (p\<lparr>lp_showPassword := \<not> lp_showPassword p\<rparr>, [])"
| "login_step p LoginSubmit =
     (let errs = loginSchema (lp_email p) (lp_password p)
      in if errs \<noteq> [] then (p\<lparr>lp_errors := errs\<rparr>, [])
         else (p\<lparr>lp_errors := [], lp_pending := True\<rparr>,
               [PostLogin (lp_email p) (lp_password p)]))"
| "login_step p LoginSucceeded = (p\<lparr>lp_pending := False\<rparr>, [])"
| "login_step p (LoginFailed e) = (p\<lparr>lp_pending := False, lp_errors := loginSetError e\<rparr>, [])"

definition fieldError :: "field_errors \<Rightarrow> string \<Rightarrow> 'a view list" where
  "fieldError errs f = (case map_of errs f of None \<Rightarrow> [] | Some m \<Rightarrow> [Txt m])"

definition loginView :: "login_page \<Rightarrow> login_action view" where
  "loginView p = Group
     ([Txt ''Welcome back'', Txt ''Enter your credentials to login to your account.'',
       Txt ''Email or Phone Number'',
       Inp ''you@example.com or 2547...'' (lp_email p) LoginEmail]
      @ fieldError (lp_errors p) ''email''
      @ [Txt ''Password'', Inp [] (lp_password p) LoginPassword, Btn False [] LoginToggle]
      @ fieldError (lp_errors p) ''password''
      @ fieldError (lp_errors p) ''root''
      @ [Btn (lp_pending p) [Txt (if lp_pending p then ''Logging in...'' else ''Login'')] LoginSubmit,
         Txt ''Don't have an account?'', Link ''/register'' [Txt ''Register'']])"

section \<open>The registration form\<close>

record register_page =
  rp_email :: string
  rp_phone :: string
  rp_password :: string
  rp_confirm :: string
  rp_role :: string
  rp_showPassword :: bool
  rp_showConfirm :: bool
  rp_errors :: field_errors
  rp_pending :: bool

datatype register_action =
  RegEmail string | RegPhone string | RegPassword string | RegConfirm string
  | RegTogglePassword | RegToggleConfirm | RegSubmit | RegSucceeded | RegFailed failure

definition registerPage0 :: register_page where
  "registerPage0 = \<lparr>rp_email = [], rp_phone = [], rp_password = [], rp_confirm = [],
     rp_role = ''customer'', rp_showPassword = False, rp_showConfirm = False, rp_errors = [],
     rp_pending = False\<rparr>"

text \<open>zod runs the refinement on the whole object only when the fields are valid.\<close>

definition registerSchema :: "(string \<Rightarrow> bool) \<Rightarrow> register_page \<Rightarrow> field_errors" where
  "registerSchema isEmail p =
     (let errs = (if isEmail (rp_email p) then [] else [(''email'', ''Enter a valid email address'')])
                 @ (if kenyanPhone (rp_phone p) then []
                    else [(''phone'', ''Enter a valid Kenyan phone number'')])
                 @ minLength 8 ''password'' ''Password must be at least 8 characters'' (rp_password p)
                 @ (if rp_role p \<in> {''admin'', ''reseller'', ''customer''} then []
                    else [(''role'', [])])
      in if errs \<noteq> [] then errs
         else if rp_password p = rp_confirm p then []
         else [(''confirm'', ''Passwords don't match'')])"

definition registerSetError :: "failure \<Rightarrow> field_errors" where
  "registerSetError e =
     (if errorStatus e = Some 409 then [(''email'', ''This email or phone is already registered'')]
      else [(''root'', ''An unexpected error occurred. Please try again.'')])"

fun register_step ::
    "(string \<Rightarrow> bool) \<Rightarrow> register_page \<Rightarrow> register_action \<Rightarrow> register_page \<times> page_request list" where
  "register_step isEmail p (RegEmail v) = (p\<lparr>rp_email := v\<rparr>, [])"
| "register_step isEmail p (RegPhone v) = (p\<lparr>rp_phone := v\<rparr>, [])"
| "register_step isEmail p (RegPassword v) = (p\<lparr>rp_password := v\<rparr>, [])"
| "register_step isEmail p (RegConfirm v) = (p\<lparr>rp_confirm := v\<rparr>, [])"
| "register_step isEmail p RegTogglePassword = (p\<lparr>rp_showPassword := \<not> rp_showPassword p\<rparr>, [])"
| "register_step isEmail p RegToggleConfirm = (p\<lparr>rp_showConfirm := \<not> rp_showConfirm p\<rparr>, [])"
| "register_step isEmail p RegSubmit =
     (let errs = registerSchema isEmail p
      in if errs \<noteq> [] then (p\<lparr>rp_errors := errs\<rparr>, [])
         else (p\<lparr>rp_errors := [], rp_pending := True\<rparr>,
               [PostRegister (rp_email p) (rp_phone p) (rp_password p) (rp_role p)]))"
| "register_step isEmail p RegSucceeded = (p\<lparr>rp_pending := False\<rparr>, [])"
| "register_step isEmail p (RegFailed e) =
     (p\<lparr>rp_pending := False, rp_errors := registerSetError e\<rparr>, [])"

definition registerView :: "register_page \<Rightarrow> register_action view" where
  "registerView p = Group
     ([Txt ''Create an account'', Txt ''Get started with Frixel Connect.'',
       Txt ''Email'', Inp ''you@example.com'' (rp_email p) RegEmail]
      @ fieldError (rp_errors p) ''email''
      @ [Txt ''Phone Number'', Inp ''0712 345 678'' (rp_phone p) RegPhone]
      @ fieldError (rp_errors p) ''phone''
      @ [Txt ''Password'', Inp [] (rp_password p) RegPassword, Btn False [] RegTogglePassword]
      @ fieldError (rp_errors p) ''password''
      @ [Txt ''Confirm Password'', Inp [] (rp_confirm p) RegConfirm, Btn False [] RegToggleConfirm]
      @ fieldError (rp_errors p) ''confirm''
      @ fieldError (rp_errors p) ''root''
      @ [Btn (rp_pending p) [Txt (if rp_pending p then ''Creating account...'' else ''Register'')]
           RegSubmit,
         Txt ''Already have an account?'', Link ''/login'' [Txt ''Login'']])"

section \<open>Lemmas\<close>

lemmas auth_defs = initAuth_def login_def logout_def refreshUser_def Let_def

text \<open>The user shown is the one of the stored active token.\<close>

definition user_of_token :: "auth_state \<Rightarrow> bool" where
  "user_of_token st \<longleftrightarrow>
     (case au_user st of
        None \<Rightarrow> True
      | Some u \<Rightarrow> (\<exists>t d. getToken (au_local st) = Some t \<and> t \<noteq> [] \<and> decodeToken t = Some d
                       \<and> truthy (dt_tenant_id d) \<and> u = userOf d))"

datatype auth_op = OpInit int | OpLogin string string | OpLogout | OpRefresh

fun auth_op_step :: "auth_state \<Rightarrow> auth_op \<Rightarrow> auth_state" where
  "auth_op_step st (OpInit now) = initAuth now st"
| "auth_op_step st (OpLogin a r) = fst (login a r st)"
| "auth_op_step st OpLogout = fst (logout st)"
| "auth_op_step st OpRefresh = refreshUser st"

lemma decodeToken_Nil [simp]: "decodeToken [] = None"
  by (simp add: decodeToken_def tokenPayload_def)

lemma decodeToken_Some_not_Nil: "decodeToken t = Some d \<Longrightarrow> t \<noteq> []"
  by auto

lemma truthy_the: "truthy x \<longleftrightarrow> (\<exists>s. x = Some s \<and> s \<noteq> [])"
  by (cases x) auto

lemma user_of_token_step: "user_of_token st \<Longrightarrow> user_of_token (auth_op_step st e)"
proof (cases e)
  case (OpInit now)
  assume "user_of_token st"
  with OpInit show ?thesis
    by (auto simp: user_of_token_def auth_defs truthy_the split: option.splits)
next
  case (OpLogin a r)
  assume "user_of_token st"
  with OpLogin show ?thesis
    by (auto simp: user_of_token_def auth_defs truthy_the split: option.splits)
next
  case OpLogout
  then show ?thesis by (simp add: user_of_token_def auth_defs)
next
  case OpRefresh
  assume "user_of_token st"
  with OpRefresh show ?thesis
    by (auto simp: user_of_token_def auth_defs truthy_the split: option.splits)
qed

interpretation auth: invariant_system "providerStart s" auth_op_step user_of_token for s
  by unfold_locales (simp_all add: user_of_token_step, simp add: user_of_token_def providerStart_def)

text \<open>What the rendered form lets happen: a submit only through an enabled button, an answer
  only while a request is outstanding.\<close>

fun login_ok :: "login_page \<Rightarrow> login_action \<Rightarrow> bool" where
  "login_ok p LoginSucceeded = lp_pending p"
| "login_ok p (LoginFailed e) = lp_pending p"
| "login_ok p LoginSubmit = clickable (loginView p) LoginSubmit"
| "login_ok p a = True"

fun login_answer :: "login_action \<Rightarrow> bool" where
  "login_answer LoginSucceeded = True"
| "login_answer (LoginFailed e) = True"
| "login_answer _ = False"

fun register_ok :: "register_page \<Rightarrow> register_action \<Rightarrow> bool" where
  "register_ok p RegSucceeded = rp_pending p"
| "register_ok p (RegFailed e) = rp_pending p"
| "register_ok p RegSubmit = clickable (registerView p) RegSubmit"
| "register_ok p a = True"

fun register_answer :: "register_action \<Rightarrow> bool" where
  "register_answer RegSucceeded = True"
| "register_answer (RegFailed e) = True"
| "register_answer _ = False"

lemma not_clickable_fieldError [simp]: "v \<in> set (fieldError errs f) \<Longrightarrow> \<not> clickable v a"
  by (auto simp: fieldError_def view_simps split: option.splits)

lemma not_offers_fieldError [simp]: "v \<in> set (fieldError errs f) \<Longrightarrow> \<not> offers v a"
  by (auto simp: fieldError_def view_simps split: option.splits)

lemma clickable_loginView: "clickable (loginView p) LoginSubmit \<longleftrightarrow> \<not> lp_pending p"
  by (auto simp: loginView_def view_simps)

lemma clickable_registerView: "clickable (registerView p) RegSubmit \<longleftrightarrow> \<not> rp_pending p"
  by (auto simp: registerView_def view_simps)

lemma register_role_step: "rp_role (fst (register_step isEmail p a)) = rp_role p"
  by (cases a) (auto simp: Let_def)

interpretation login_form: single_flight login_step login_ok lp_pending login_answer
proof
  fix p :: login_page and a
  show "login_ok p a \<Longrightarrow> login_answer a \<Longrightarrow>
      lp_pending p \<and> \<not> lp_pending (fst (login_step p a)) \<and> snd (login_step p a) = []"
    by (cases a) auto
  show "login_ok p a \<Longrightarrow> \<not> login_answer a \<Longrightarrow>
      (snd (login_step p a) = [] \<and> lp_pending (fst (login_step p a)) = lp_pending p)
      \<or> (length (snd (login_step p a)) = 1 \<and> \<not> lp_pending p \<and> lp_pending (fst (login_step p a)))"
    by (cases a) (auto simp: clickable_loginView Let_def)
qed

interpretation register_form: single_flight "register_step isEmail" register_ok rp_pending register_answer
  for isEmail
proof
  fix p :: register_page and a
  show "register_ok p a \<Longrightarrow> register_answer a \<Longrightarrow>
      rp_pending p \<and> \<not> rp_pending (fst (register_step isEmail p a)) \<and> snd (register_step isEmail p a) = []"
    by (cases a) auto
  show "register_ok p a \<Longrightarrow> \<not> register_answer a \<Longrightarrow>
      (snd (register_step isEmail p a) = [] \<and> rp_pending (fst (register_step isEmail p a)) = rp_pending p)
      \<or> (length (snd (register_step isEmail p a)) = 1 \<and> \<not> rp_pending p
         \<and> rp_pending (fst (register_step isEmail p a)))"
    by (cases a) (auto simp: clickable_registerView Let_def)
qed

section \<open>Properties\<close>

text \<open>A session survives a page reload: after a login with a token that names a tenant, a
  fresh provider over the same storage restores exactly the same user as long as the token
  has not expired, and once it has expired it is logged out with the tenant's tokens gone.\<close>

lemma session_survives_reload:
  assumes "decodeToken acc = Some d" and "truthy (dt_tenant_id d)"
  shows "let st1 = fst (login acc rfr st);
             st2 = initAuth now (providerStart (au_local st1)) in
      au_user st1 = Some (userOf d) \<and> \<not> au_loading st2
      \<and> (if isTokenExpired now acc
         then au_user st2 = None \<and> getToken (au_local st2) = None \<and> getRefreshToken (au_local st2) = None
         else au_user st2 = Some (userOf d) \<and> au_local st2 = au_local st1)"
proof -
  obtain tid where "dt_tenant_id d = Some tid" "tid \<noteq> []"
    using assms(2) by (auto simp: truthy_the)
  moreover have "acc \<noteq> []"
    using assms(1) by (rule decodeToken_Some_not_Nil)
  moreover have "getRefreshToken (clearRefreshToken (clearToken s)) = None" for s
    by (simp add: getRefreshToken_def clearRefreshToken_def clearToken_def storage_simps)
  ultimately show ?thesis
    using assms by (auto simp: auth_defs providerStart_def)
qed

text \<open>C16: the user shown is always the one of the stored token: whatever sequence of start-up,
  login, logout and refresh a provider goes through, a logged-in user's id, role and tenant
  are the claims of the active token in the storage, and that token names a tenant.\<close>

theorem user_is_token_owner:
  "case au_user (foldl auth_op_step (providerStart s) ops) of
     None \<Rightarrow> True
   | Some u \<Rightarrow> (\<exists>t d. getToken (au_local (foldl auth_op_step (providerStart s) ops)) = Some t
                  \<and> decodeToken t = Some d \<and> truthy (dt_tenant_id d) \<and> u = userOf d)"
  using auth.run_inv [of s ops] by (auto simp: user_of_token_def split: option.splits)

text \<open>Logout is complete: nobody is logged in, no tenant has a token or a refresh token,
  the query cache is cleared before the browser leaves for the login page, and entries of the
  storage outside the tenant sessions keep their values.\<close>

lemma logout_complete:
  "let (st', effs) = logout st in
     au_user st' = None \<and> getToken (au_local st') = None \<and> getRefreshToken (au_local st') = None
     \<and> getTokenForTenant (au_local st') tid = None
     \<and> effs = [ClearCache, Location ''/login'']
     \<and> getItem (au_local st') k = (if session_key k then None else getItem (au_local st) k)"
  by (simp add: logout_def clearRefreshToken_def getToken_def getRefreshToken_def
      getTokenForTenant_def storage_simps)

text \<open>The login form never sends twice and never sends invalid input: in any sequence of
  actions the rendered form offers, the number of requests sent is the number answered plus
  at most the one outstanding, and each carries a non-empty identifier and a password of at
  least eight characters.\<close>

lemma login_form_single_flight:
  assumes "guarded_run login_ok login_step loginPage0 as = Some (p, rs)"
  shows "length rs = length (filter login_answer as) + of_bool (lp_pending p)
    \<and> (\<forall>r \<in> set rs. \<exists>email password.
         r = PostLogin email password \<and> email \<noteq> [] \<and> 8 \<le> jsLength password)"
proof -
  have sent: "\<exists>email password. r = PostLogin email password \<and> email \<noteq> [] \<and> 8 \<le> jsLength password"
    if "r \<in> set (snd (login_step p a))" for p a r
    using that by (cases a) (auto simp: Let_def loginSchema_def minLength_def split: if_splits)
  have "\<exists>email password. r = PostLogin email password \<and> email \<noteq> [] \<and> 8 \<le> jsLength password"
    if "r \<in> set rs" for r
    by (rule guarded_run_outputs [OF _ assms that]) (rule sent)
  then show ?thesis
    using login_form.flights [OF assms] by (auto simp: loginPage0_def)
qed

text \<open>What registration accepts: from any reachable form, an enabled submit sends exactly
  one request with the entered values if the email is well formed, the phone is a Kenyan
  number, the password has eight characters and matches its confirmation; in every other case
  it sends nothing and shows at least one error. The role sent is always \<open>customer\<close>.\<close>

lemma registration_accepts:
  assumes "guarded_run register_ok (register_step isEmail) registerPage0 as = Some (p, rs)"
    and "clickable (registerView p) RegSubmit"
  shows "let valid = (isEmail (rp_email p) \<and> kenyanPhone (rp_phone p) \<and> 8 \<le> jsLength (rp_password p)
                     \<and> rp_password p = rp_confirm p);
             (p', out) = register_step isEmail p RegSubmit in
      out = (if valid then [PostRegister (rp_email p) (rp_phone p) (rp_password p) ''customer''] else [])
      \<and> (rp_errors p' = []) = valid \<and> rp_pending p' = valid
      \<and> length rs = length (filter register_answer as)"
proof -
  have "rp_role p = ''customer''"
    using guarded_run_inv [of "\<lambda>p. rp_role p = ''customer''", OF _ _ assms(1)]
    by (metis (no_types, lifting) register_page.select_convs(5) registerPage0_def register_role_step)
  then show ?thesis
    using assms register_form.flights [OF assms(1)]
    by (auto simp: registerSchema_def minLength_def Let_def clickable_registerView registerPage0_def)
qed

end
