(* ===== verification/Onboarding.thy ===== *)
theory Onboarding
  imports Auth_Context Packages
begin

text \<open>
  A new tenant's first steps: the sign-up hook (\<open>hooks/useTenantSignup.ts\<close>), the onboarding
  progress kept in the browser (\<open>hooks/useOnboarding.ts\<close>, \<open>types/onboarding.ts\<close>,
  \<open>lib/onboarding.ts\<close>) and the page that leads through it
  (\<open>pages/admin/onboarding/OnboardingPage.tsx\<close>). The stored progress is JSON read without a check,
  so it is a JSON value here too.
\<close>

section \<open>Stored progress\<close>

definition ONBOARDING_STATE_KEY :: string where
  "ONBOARDING_STATE_KEY = ''Frixel Connect_onboarding_state''"

definition ONBOARDING_SERVICE_KEY :: string where
  "ONBOARDING_SERVICE_KEY = ''Frixel Connect_onboarding_service''"

text \<open>\<open>t0\<close> is the time the module was loaded, as text.\<close>

definition DEFAULT_STATE :: "string \<Rightarrow> (string \<times> json) list" where
  "DEFAULT_STATE t0 =
     [(''step'', JStr ''packages''), (''packages_done'', JBool False), (''router_done'', JBool False),
      (''router_id'', JNull), (''package_id'', JNull), (''service_type'', JStr ''hotspot''),
      (''started_at'', JStr t0)]"

text \<open>\<open>null\<close>, missing and unreadable values are \<open>None\<close>.\<close>

definition getOnboardingState :: "storage \<Rightarrow> json option" where
  "getOnboardingState s =
     (case getItem s ONBOARDING_STATE_KEY of
        None \<Rightarrow> None
      | Some raw \<Rightarrow>
          if raw = [] then None
          else case jparse raw of Some JNull \<Rightarrow> None | v \<Rightarrow> v)"

text \<open>\<open>{...v}\<close>: the own properties of a value; arrays and strings have their indices.\<close>

definition spread :: "json \<Rightarrow> (string \<times> json) list" where
  "spread v =
     (case v of
        JObj kvs \<Rightarrow> kvs
      | JArr vs \<Rightarrow> zip (map showNat [0..<length vs]) vs
      | JStr t \<Rightarrow> zip (map showNat [0..<length t]) (map (\<lambda>c. JStr [c]) t)
      | _ \<Rightarrow> [])"

text \<open>\<open>{...a, ...b}\<close>: later properties replace earlier ones in place.\<close>

definition merge :: "(string \<times> json) list \<Rightarrow> (string \<times> json) list \<Rightarrow> (string \<times> json) list" where
  "merge a b = fold (\<lambda>(k, v) m. AList.update k v m) b a"

definition saveOnboardingState :: "string \<Rightarrow> json \<Rightarrow> storage \<Rightarrow> storage" where
  "saveOnboardingState t0 part s =
     (let existing = (case getOnboardingState s of None \<Rightarrow> DEFAULT_STATE t0 | Some v \<Rightarrow> spread v)
      in setItem ONBOARDING_STATE_KEY (stringify (JObj (merge existing (spread part)))) s)"

definition clearOnboardingState :: "storage \<Rightarrow> storage" where
  "clearOnboardingState s = removeItem ONBOARDING_SERVICE_KEY (removeItem ONBOARDING_STATE_KEY s)"

definition storedService :: "storage \<Rightarrow> json" where
  "storedService s =
     JStr (if getItem s ONBOARDING_SERVICE_KEY = Some ''pppoe'' then ''pppoe'' else ''hotspot'')"

definition getServiceType :: "storage \<Rightarrow> json" where
  "getServiceType s =
     (case Option.bind (getOnboardingState s) (\<lambda>v. jfield v ''service_type'') of
        Some t \<Rightarrow> if jtruthy t then t else storedService s
      | None \<Rightarrow> storedService s)"

definition initOnboardingState :: "string \<Rightarrow> string \<Rightarrow> service_type \<Rightarrow> storage \<Rightarrow> json \<times> storage" where
  "initOnboardingState t0 now serviceType s =
     (let state = JObj (merge (DEFAULT_STATE t0)
                          [(''service_type'', JStr (serviceName serviceType)), (''started_at'', JStr now)])
      in (state,
          setItem ONBOARDING_STATE_KEY (stringify state)
            (setItem ONBOARDING_SERVICE_KEY (serviceName serviceType) s)))"

definition isOnboardingIncomplete :: "storage \<Rightarrow> bool" where
  "isOnboardingIncomplete s =
     (case getOnboardingState s of
        None \<Rightarrow> False
      | Some v \<Rightarrow> jtruthy v \<and> jfield v ''step'' \<noteq> Some (JStr ''complete''))"

text \<open>The slice the shell shows: \<open>state?.f ?? d\<close>.\<close>

definition progressField :: "json option \<Rightarrow> string \<Rightarrow> json \<Rightarrow> json" where
  "progressField st f d =
     (case Option.bind st (\<lambda>v. jfield v f) of None \<Rightarrow> d | Some JNull \<Rightarrow> d | Some x \<Rightarrow> x)"

definition useOnboardingProgress :: "storage \<Rightarrow> json \<times> json \<times> json \<times> json" where
  "useOnboardingProgress s =
     (let st = getOnboardingState s
      in (progressField st ''step'' (JStr ''packages''), progressField st ''packages_done'' (JBool False),
          progressField st ''router_done'' (JBool False),
          progressField st ''service_type'' (getServiceType s)))"

section \<open>Signing up a tenant\<close>

record signup_request =
  su_business_name :: string
  su_owner_name :: string
  su_owner_email :: string
  su_owner_phone :: string
  su_password :: string
  su_subscription_tier :: string
  su_service_type :: service_type

text \<open>The body sent: no owner name, no service type, the phone without white space.\<close>

definition registerBody :: "signup_request \<Rightarrow> (string \<times> string) list" where
  "registerBody d =
     [(''business_name'', su_business_name d), (''owner_email'', su_owner_email d),
      (''owner_phone'', filter (\<lambda>c. \<not> is_space c) (su_owner_phone d)), (''password'', su_password d),
      (''subscription_tier'', su_subscription_tier d)]"

definition onSignupSuccess ::
    "string \<Rightarrow> string \<Rightarrow> string \<Rightarrow> signup_request \<Rightarrow> auth_state \<Rightarrow> auth_state \<times> auth_effect list" where
  "onSignupSuccess t0 now accessToken d st =
     (let (st1, effs) = login accessToken [] st;
          (_, s) = initOnboardingState t0 now (su_service_type d) (au_local st1)
      in (st1\<lparr>au_local := s\<rparr>, effs @ [NavigateTo ''/admin/onboarding'']))"

section \<open>The onboarding page\<close>

record onboarding_page =
  op_state :: json
  op_local :: storage
  op_createPending :: bool

datatype onboarding_action =
    SubmitPackage package_request | PackageCreated string string | PackageRejected | SkipPackage
  | RouterConnected string string | SkipRouter | GoToDashboard | SignOutClick

datatype onboarding_out = PostPackage package_request | OToast string | OToastErr string | ONavigate path | OLogout

definition pageStep :: "onboarding_page \<Rightarrow> json option" where
  "pageStep p = jfield (op_state p) ''step''"

text \<open>The effects on \<open>[state]\<close> and \<open>[state.step]\<close>, in this order.\<close>

definition writeEffect :: "string \<Rightarrow> onboarding_page \<Rightarrow> onboarding_page" where
  "writeEffect t0 p = p\<lparr>op_local := saveOnboardingState t0 (op_state p) (op_local p)\<rparr>"

definition clearEffect :: "onboarding_page \<Rightarrow> onboarding_page" where
  "clearEffect p =
     (if pageStep p = Some (JStr ''complete'') then p\<lparr>op_local := clearOnboardingState (op_local p)\<rparr> else p)"

definition freshState :: "string \<Rightarrow> storage \<Rightarrow> json" where
  "freshState now s = JObj
     [(''step'', JStr ''packages''), (''packages_done'', JBool False), (''router_done'', JBool False),
      (''router_id'', JNull), (''router_name'', JNull), (''package_id'', JNull), (''package_name'', JNull),
      (''service_type'', getServiceType s), (''started_at'', JStr now)]"

definition initialState :: "string \<Rightarrow> storage \<Rightarrow> json" where
  "initialState now s =
     (case getOnboardingState s of
        Some v \<Rightarrow> if jtruthy v then v else freshState now s
      | None \<Rightarrow> freshState now s)"

definition onboardingStart :: "string \<Rightarrow> string \<Rightarrow> storage \<Rightarrow> onboarding_page" where
  "onboardingStart t0 now s =
     clearEffect (writeEffect t0 \<lparr>op_state = initialState now s, op_local = s, op_createPending = False\<rparr>)"

text \<open>\<open>advanceTo(step, patch)\<close>, with the effects of the new state.\<close>

definition advanceTo :: "string \<Rightarrow> string \<Rightarrow> (string \<times> json) list \<Rightarrow> onboarding_page \<Rightarrow> onboarding_page" where
  "advanceTo t0 stp patch p =
     (let p1 = p\<lparr>op_state := JObj (merge (merge (spread (op_state p)) patch) [(''step'', JStr stp)])\<rparr>;
          p2 = writeEffect t0 p1
      in if pageStep p1 \<noteq> pageStep p then clearEffect p2 else p2)"

fun onboarding_step :: "string \<Rightarrow> onboarding_page \<Rightarrow> onboarding_action \<Rightarrow> onboarding_page \<times> onboarding_out list" where
  "onboarding_step t0 p (SubmitPackage r) = (p\<lparr>op_createPending := True\<rparr>, [PostPackage r])"
| "onboarding_step t0 p (PackageCreated i name) =
     (advanceTo t0 ''router''
        [(''packages_done'', JBool True), (''package_id'', JStr i), (''package_name'', JStr name)]
        (p\<lparr>op_createPending := False\<rparr>),
      [OToast ''Package created!''])"
| "onboarding_step t0 p PackageRejected =
     (p\<lparr>op_createPending := False\<rparr>, [OToastErr ''Failed to create package. Please try again.''])"
| "onboarding_step t0 p SkipPackage = (advanceTo t0 ''router'' [(''packages_done'', JBool False)] p, [])"
| "onboarding_step t0 p (RouterConnected i name) =
     (advanceTo t0 ''complete''
        [(''router_done'', JBool True), (''router_id'', JStr i), (''router_name'', JStr name)] p, [])"
| "onboarding_step t0 p SkipRouter = (advanceTo t0 ''complete'' [(''router_done'', JBool False)] p, [])"
| "onboarding_step t0 p GoToDashboard = (p, [ONavigate ''/admin/dashboard''])"
| "onboarding_step t0 p SignOutClick = (p, [OLogout])"

definition STEPS :: "(string \<times> nat \<times> string) list" where
  "STEPS =
     [(''packages'', 1, ''Create a package''), (''router'', 2, ''Connect your router''),
      (''complete'', 3, ''Go live'')]"

text \<open>\<open>findIndex\<close>, which is -1 when no step matches.\<close>

definition stepIndex :: "json option \<Rightarrow> int" where
  "stepIndex st =
     (let n = length (takeWhile (\<lambda>s. st \<noteq> Some (JStr (fst s))) STEPS)
      in if n < length STEPS then int n else -1)"

definition flag :: "onboarding_page \<Rightarrow> string \<Rightarrow> bool" where
  "flag p f = (case jfield (op_state p) f of None \<Rightarrow> False | Some v \<Rightarrow> jtruthy v)"

text \<open>\<open>state.f ?? d\<close> of a field that holds a text or \<open>null\<close>.\<close>

definition fieldText :: "onboarding_page \<Rightarrow> string \<Rightarrow> string \<Rightarrow> string" where
  "fieldText p f d = (case jfield (op_state p) f of Some (JStr t) \<Rightarrow> t | _ \<Rightarrow> d)"

definition skippedItems :: "onboarding_page \<Rightarrow> string list" where
  "skippedItems p =
     (if flag p ''packages_done'' then [] else [''packages''])
     @ (if flag p ''router_done'' then [] else [''router setup''])"

definition packageSubtitle :: "onboarding_page \<Rightarrow> string" where
  "packageSubtitle p =
     (if jfield (op_state p) ''service_type'' = Some (JStr ''hotspot'')
      then ''Define what your customers buy-daily, weekly, or custom sessions with speed tiers.''
      else ''Define your monthly subscription plans-set the speed and price your customers pay each month.'')"

definition progressBar :: "onboarding_page \<Rightarrow> onboarding_action view list" where
  "progressBar p =
     concat (map (\<lambda>(i, (key, number, title)).
       onlyIf (\<not> int i < stepIndex (pageStep p)) [Txt (showNat number)] @ [Txt title])
       (zip [0..<length STEPS] STEPS))"

definition checkOrWarn :: "bool \<Rightarrow> string" where
  "checkOrWarn b =
     (if b then [CHR 0xE2, CHR 0x9C, CHR 0x85] else [CHR 0xE2, CHR 0x9A, CHR 0xA0, CHR 0xEF, CHR 0xB8, CHR 0x8F])"

definition completeStep :: "string option \<Rightarrow> onboarding_page \<Rightarrow> onboarding_action view list" where
  "completeStep businessName p =
     [Txt (''You're ready to go, '' @ nullish businessName ''there'' @ ''!''),
      Txt ''Account created'', Txt (checkOrWarn True),
      Txt (''First package: '' @ fieldText p ''package_name'' ''None yet''),
      Txt (checkOrWarn (flag p ''packages_done'')),
      Txt (''Router connected: '' @ fieldText p ''router_name'' ''None yet''),
      Txt (checkOrWarn (flag p ''router_done''))]
     @ onlyIf (skippedItems p \<noteq> [])
         ([Txt (''You skipped '' @
             (case skippedItems p of [] \<Rightarrow> [] | x # xs \<Rightarrow> x @ concat (map ((@) '' and '') xs)) @ ''. Visit '')]
          @ onlyIf (\<not> flag p ''packages_done'') [Link ''/admin/packages'' [Txt ''Packages'']]
          @ onlyIf (\<not> flag p ''packages_done'' \<and> \<not> flag p ''router_done'') [Txt '' or '']
          @ onlyIf (\<not> flag p ''router_done'') [Link ''/admin/routers'' [Txt ''Routers'']]
          @ [Txt '' from your dashboard to complete setup.''])
     @ onlyIf (\<not> flag p ''router_done'')
         [Txt ''Without a router, Frixel Connect can't accept payments or create vouchers. You can connect one anytime from the Routers section in your dashboard.'']
     @ [Btn False [Txt (''Go to my dashboard '' @ [CHR 0xE2, CHR 0x86, CHR 0x92])] GoToDashboard]"

text \<open>The package form and the router wizard are the children of the first two steps.\<close>

definition onboardingView ::
    "onboarding_action view list \<Rightarrow> onboarding_action view list \<Rightarrow> string option \<Rightarrow> string option \<Rightarrow>
     onboarding_page \<Rightarrow> onboarding_action view" where
  "onboardingView packageForm wizard ownerEmail businessName p = Group
     ([Link ''/'' [Txt ''Frixel Connect''], Txt (nullish ownerEmail []), Btn False [Txt ''Sign out''] SignOutClick]
      @ progressBar p
      @ onlyIf (pageStep p = Some (JStr ''packages''))
          ([Txt ''Create your first package'', Txt (packageSubtitle p)] @ packageForm
           @ [Btn False [Txt ''Skip for now''] SkipPackage])
      @ onlyIf (pageStep p = Some (JStr ''router''))
          ([Txt ''Connect your MikroTik router'',
            Txt ''Your router configures itself with one command. Takes about 60 seconds.''] @ wizard
           @ [Btn False [Txt ''I'll connect my router later''] SkipRouter])
      @ onlyIf (pageStep p = Some (JStr ''complete'')) (completeStep businessName p))"

text \<open>The form submits while it is shown and nothing is pending; answers come while it is pending;
  the wizard reports while it is shown; the rest is what the page offers.\<close>

fun onboarding_ok :: "onboarding_page \<Rightarrow> onboarding_action \<Rightarrow> bool" where
  "onboarding_ok p (SubmitPackage r) = (pageStep p = Some (JStr ''packages'') \<and> \<not> op_createPending p)"
| "onboarding_ok p (PackageCreated i n) = op_createPending p"
| "onboarding_ok p PackageRejected = op_createPending p"
| "onboarding_ok p (RouterConnected i n) = (pageStep p = Some (JStr ''router''))"
| "onboarding_ok p a = clickable (onboardingView [] [] None None p) a"

section \<open>Lemmas\<close>

lemma map_of_merge: "map_of (merge a b) = map_of a ++ map_of (rev b)"
proof (induction b arbitrary: a)
  case (Cons x b)
  obtain k v where x: "x = (k, v)" by (cases x)
  show ?case
    using Cons [of "AList.update k v a"] by (auto simp: merge_def x update_conv' map_add_def fun_eq_iff split: option.splits)
qed (simp add: merge_def)

lemma update_plain: "plain (JObj m) \<Longrightarrow> plain v \<Longrightarrow> plain (JObj (AList.update k v m))"
proof -
  assume m: "plain (JObj m)" and v: "plain v"
  have "set (AList.update k v m) \<subseteq> insert (k, v) (set m)" by (induction m) auto
  with m v show ?thesis by (fastforce simp: list_all_iff distinct_update)
qed

lemma merge_plain: "plain (JObj a) \<Longrightarrow> list_all (plain \<circ> snd) b \<Longrightarrow> plain (JObj (merge a b))"
proof (induction b arbitrary: a)
  case (Cons x b)
  then show ?case by (cases x) (simp add: merge_def update_plain del: plain.simps)
qed (simp add: merge_def)

lemma plain_values: "plain (JObj m) \<Longrightarrow> list_all (plain \<circ> snd) m"
  by (auto simp: list_all_iff)

lemma getOnboardingState_stored:
  "getItem s ONBOARDING_STATE_KEY = Some (stringify (JObj m)) \<Longrightarrow> plain (JObj m) \<Longrightarrow>
   getOnboardingState s = Some (JObj m)"
  using codec.decode_encode [of "JObj m"] stringify_not_Nil [of m]
  by (auto simp: getOnboardingState_def del: not_None_eq)

lemma keys_distinct [simp]: "ONBOARDING_STATE_KEY \<noteq> ONBOARDING_SERVICE_KEY"
    "ONBOARDING_SERVICE_KEY \<noteq> ONBOARDING_STATE_KEY"
  by (simp_all add: ONBOARDING_STATE_KEY_def ONBOARDING_SERVICE_KEY_def)

text \<open>An object the page holds: readable, and with every field of the default.\<close>

definition goodObject :: "(string \<times> json) list \<Rightarrow> bool" where
  "goodObject m \<longleftrightarrow> plain (JObj m) \<and> fst ` set (DEFAULT_STATE []) \<subseteq> dom (map_of m)"

definition goodStore :: "storage \<Rightarrow> bool" where
  "goodStore s \<longleftrightarrow> getOnboardingState s = None
     \<or> (\<exists>m. getItem s ONBOARDING_STATE_KEY = Some (stringify (JObj m)) \<and> goodObject m)"

text \<open>Page and storage agree: a reload finds the same fields, or nothing once setup is complete.\<close>

definition resumable :: "onboarding_page \<Rightarrow> bool" where
  "resumable p \<longleftrightarrow> (\<exists>m. op_state p = JObj m \<and> goodObject m \<and>
     (if pageStep p = Some (JStr ''complete'')
      then getItem (op_local p) ONBOARDING_STATE_KEY = None \<and> getItem (op_local p) ONBOARDING_SERVICE_KEY = None
      else \<exists>m'. getItem (op_local p) ONBOARDING_STATE_KEY = Some (stringify (JObj m')) \<and> plain (JObj m')
              \<and> map_of m' = map_of m))"

lemma map_of_rev_distinct: "distinct (map fst m) \<Longrightarrow> map_of (rev m) = map_of m"
  by (rule map_of_inject_set [THEN iffD2]) (auto simp: rev_map [symmetric])

lemma merge_onto:
  assumes "plain (JObj e)" "plain (JObj m)" "dom (map_of e) \<subseteq> dom (map_of m)"
  shows "plain (JObj (merge e m))" "map_of (merge e m) = map_of m"
proof -
  show "plain (JObj (merge e m))" using assms(1,2) by (intro merge_plain plain_values)
  have "map_of (rev m) = map_of m" using assms(2) by (simp add: map_of_rev_distinct)
  then show "map_of (merge e m) = map_of m"
    using assms(3) by (auto simp: map_of_merge map_add_def fun_eq_iff split: option.splits)
qed

lemma default_good: "plain (JObj (DEFAULT_STATE t0))" "dom (map_of (DEFAULT_STATE t0)) = fst ` set (DEFAULT_STATE [])"
  by (simp_all add: DEFAULT_STATE_def dom_map_of_conv_image_fst)

lemma save_stored:
  assumes "goodObject m"
    and "getOnboardingState s = None
      \<or> (\<exists>e. getItem s ONBOARDING_STATE_KEY = Some (stringify (JObj e)) \<and> plain (JObj e)
            \<and> dom (map_of e) \<subseteq> dom (map_of m))"
  shows "\<exists>m'. getItem (saveOnboardingState t0 (JObj m) s) ONBOARDING_STATE_KEY = Some (stringify (JObj m'))
            \<and> plain (JObj m') \<and> map_of m' = map_of m"
  using assms(2)
proof
  assume "getOnboardingState s = None"
  then have "getItem (saveOnboardingState t0 (JObj m) s) ONBOARDING_STATE_KEY
      = Some (stringify (JObj (merge (DEFAULT_STATE t0) m)))"
    by (simp add: saveOnboardingState_def spread_def storage_simps Let_def)
  with merge_onto [of "DEFAULT_STATE t0" m] assms(1) default_good show ?thesis
    unfolding goodObject_def by metis
next
  assume "\<exists>e. getItem s ONBOARDING_STATE_KEY = Some (stringify (JObj e)) \<and> plain (JObj e)
            \<and> dom (map_of e) \<subseteq> dom (map_of m)"
  then obtain e where e: "getItem s ONBOARDING_STATE_KEY = Some (stringify (JObj e))" "plain (JObj e)"
    "dom (map_of e) \<subseteq> dom (map_of m)" by blast
  then have "getItem (saveOnboardingState t0 (JObj m) s) ONBOARDING_STATE_KEY = Some (stringify (JObj (merge e m)))"
    by (simp add: saveOnboardingState_def spread_def getOnboardingState_stored storage_simps Let_def del: plain.simps)
  with merge_onto [OF e(2) _ e(3)] assms(1) show ?thesis unfolding goodObject_def by blast
qed

lemma goodObject_merge: "goodObject m \<Longrightarrow> list_all (plain \<circ> snd) patch \<Longrightarrow> goodObject (merge m patch)"
  unfolding goodObject_def by (auto simp: map_of_merge simp del: plain.simps intro: merge_plain)

lemma initial_good:
  assumes "goodStore s"
  shows "\<exists>m. initialState now s = JObj m \<and> goodObject m
    \<and> (getOnboardingState s = None \<or> getItem s ONBOARDING_STATE_KEY = Some (stringify (JObj m)))"
  using assms unfolding goodStore_def
proof
  assume none: "getOnboardingState s = None"
  then have "getServiceType s = storedService s" by (simp add: getServiceType_def)
  with none show ?thesis
    by (simp add: initialState_def freshState_def goodObject_def storedService_def DEFAULT_STATE_def)
next
  assume "\<exists>m. getItem s ONBOARDING_STATE_KEY = Some (stringify (JObj m)) \<and> goodObject m"
  then obtain m where "getItem s ONBOARDING_STATE_KEY = Some (stringify (JObj m))" "goodObject m" by blast
  then show ?thesis
    by (auto simp: initialState_def goodObject_def getOnboardingState_stored jtruthy_def simp del: plain.simps)
qed

lemma clearEffect_simps [simp]:
  "op_state (clearEffect p) = op_state p" "pageStep (clearEffect p) = pageStep p"
  by (simp_all add: clearEffect_def pageStep_def)

lemma clear_stored: "getItem (clearOnboardingState s) ONBOARDING_STATE_KEY = None"
    "getItem (clearOnboardingState s) ONBOARDING_SERVICE_KEY = None"
  by (simp_all add: clearOnboardingState_def storage_simps)

lemma resumable_effects:
  assumes "op_state p = JObj m" "goodObject m"
    and "getOnboardingState (op_local p) = None
      \<or> (\<exists>e. getItem (op_local p) ONBOARDING_STATE_KEY = Some (stringify (JObj e)) \<and> plain (JObj e)
            \<and> dom (map_of e) \<subseteq> dom (map_of m))"
  shows "resumable (clearEffect (writeEffect t0 p))"
    and "pageStep p \<noteq> Some (JStr ''complete'') \<Longrightarrow> resumable (writeEffect t0 p)"
proof -
  have written: "\<exists>m'. getItem (op_local (writeEffect t0 p)) ONBOARDING_STATE_KEY = Some (stringify (JObj m'))
      \<and> plain (JObj m') \<and> map_of m' = map_of m"
    using save_stored [OF assms(2,3)] assms(1) by (simp add: writeEffect_def)
  have fields: "op_state (writeEffect t0 p) = JObj m" "pageStep (writeEffect t0 p) = pageStep p"
    using assms(1) by (simp_all add: writeEffect_def pageStep_def)
  show "pageStep p \<noteq> Some (JStr ''complete'') \<Longrightarrow> resumable (writeEffect t0 p)"
    unfolding resumable_def using written fields assms(2) by auto
  then show "resumable (clearEffect (writeEffect t0 p))"
    using fields assms(2) by (cases "pageStep p = Some (JStr ''complete'')")
      (auto simp: clearEffect_def resumable_def clear_stored pageStep_def)
qed

lemma resumable_start: "goodStore s \<Longrightarrow> resumable (onboardingStart t0 now s)"
proof -
  assume "goodStore s"
  from initial_good [OF this, of now] obtain m where m: "initialState now s = JObj m" "goodObject m"
    "getOnboardingState s = None \<or> getItem s ONBOARDING_STATE_KEY = Some (stringify (JObj m))" by blast
  then show ?thesis
    unfolding onboardingStart_def
    by (intro resumable_effects(1) [where m = m]) (auto simp: goodObject_def simp del: plain.simps)
qed

lemma resumable_stored:
  assumes "resumable p" "op_state p = JObj m" "dom (map_of m) \<subseteq> dom (map_of m2)"
  shows "getOnboardingState (op_local p) = None
      \<or> (\<exists>e. getItem (op_local p) ONBOARDING_STATE_KEY = Some (stringify (JObj e)) \<and> plain (JObj e)
            \<and> dom (map_of e) \<subseteq> dom (map_of m2))"
  using assms by (fastforce simp: resumable_def getOnboardingState_def simp del: plain.simps split: if_splits)

lemma resumable_advance:
  assumes "resumable p" "list_all (plain \<circ> snd) patch"
    and "stp = ''complete'' \<Longrightarrow> pageStep p \<noteq> Some (JStr ''complete'')"
  shows "resumable (advanceTo t0 stp patch p)"
proof -
  obtain m where m: "op_state p = JObj m" "goodObject m" using assms(1) by (auto simp: resumable_def)
  define m2 where "m2 = merge (merge m patch) [(''step'', JStr stp)]"
  let ?p = "p\<lparr>op_state := JObj m2\<rparr>"
  have good: "goodObject m2" unfolding m2_def using m(2) assms(2) by (intro goodObject_merge) auto
  have "dom (map_of m) \<subseteq> dom (map_of m2)" by (auto simp: m2_def map_of_merge)
  then have stored: "getOnboardingState (op_local ?p) = None
      \<or> (\<exists>e. getItem (op_local ?p) ONBOARDING_STATE_KEY = Some (stringify (JObj e)) \<and> plain (JObj e)
            \<and> dom (map_of e) \<subseteq> dom (map_of m2))"
    using resumable_stored [OF assms(1) m(1)] by simp
  have step_eq: "pageStep ?p = Some (JStr stp)" by (simp add: pageStep_def m2_def jfield_def map_of_merge)
  have "advanceTo t0 stp patch p = (if pageStep ?p \<noteq> pageStep p then clearEffect (writeEffect t0 ?p)
      else writeEffect t0 ?p)"
    by (simp add: advanceTo_def m2_def m(1) spread_def Let_def)
  then show ?thesis
    using resumable_effects [OF _ good stored, of t0] step_eq assms(3) by (cases "stp = ''complete''") simp_all
qed

lemma onboarding_offers:
  "clickable (onboardingView [] [] None None p) SkipRouter \<longleftrightarrow> pageStep p = Some (JStr ''router'')"
proof -
  have "\<not> list_ex (\<lambda>v. clickable v SkipRouter) (completeStep None p)"
    "\<not> list_ex (\<lambda>v. clickable v SkipRouter) (progressBar p)"
    by (simp_all add: completeStep_def progressBar_def STEPS_def view_lists clickable_simps(5) upt_rec)
  then show ?thesis by (simp add: onboardingView_def view_lists clickable_simps(5))
qed

lemma resumable_pending: "resumable (p\<lparr>op_createPending := b\<rparr>) = resumable p"
  by (simp add: resumable_def pageStep_def)

lemma resumable_step:
  "resumable p \<Longrightarrow> onboarding_ok p a \<Longrightarrow> resumable (fst (onboarding_step t0 p a))"
  by (cases a) (auto simp: resumable_pending onboarding_offers intro!: resumable_advance)

lemma init_good: "goodStore (snd (initOnboardingState t0 now svc s))"
proof -
  have "goodObject (merge (DEFAULT_STATE t0)
      [(''service_type'', JStr (serviceName svc)), (''started_at'', JStr now)])"
    unfolding goodObject_def
    by (auto simp: map_of_merge DEFAULT_STATE_def merge_def)
  then show ?thesis
    by (auto simp: goodStore_def initOnboardingState_def storage_simps Let_def)
qed

lemma init_reads:
  "getOnboardingState (snd (initOnboardingState t0 now svc s)) = Some (fst (initOnboardingState t0 now svc s))"
  "jfield (fst (initOnboardingState t0 now svc s)) ''service_type'' = Some (JStr (serviceName svc))"
  "jfield (fst (initOnboardingState t0 now svc s)) ''step'' = Some (JStr ''packages'')"
  "jtruthy (fst (initOnboardingState t0 now svc s))"
proof -
  have plain: "plain (JObj (merge (DEFAULT_STATE t0)
      [(''service_type'', JStr (serviceName svc)), (''started_at'', JStr now)]))"
    by (rule merge_plain) (simp_all add: DEFAULT_STATE_def)
  then show "getOnboardingState (snd (initOnboardingState t0 now svc s)) = Some (fst (initOnboardingState t0 now svc s))"
    by (simp add: initOnboardingState_def getOnboardingState_stored storage_simps Let_def del: plain.simps)
  show "jfield (fst (initOnboardingState t0 now svc s)) ''service_type'' = Some (JStr (serviceName svc))"
    "jfield (fst (initOnboardingState t0 now svc s)) ''step'' = Some (JStr ''packages'')"
    "jtruthy (fst (initOnboardingState t0 now svc s))"
    by (simp_all add: initOnboardingState_def jfield_def map_of_merge DEFAULT_STATE_def jtruthy_def Let_def)
qed

lemma onboarding_keys [simp]: "\<not> session_key ONBOARDING_STATE_KEY" "\<not> session_key ONBOARDING_SERVICE_KEY"
  by (simp_all add: session_key_def ONBOARDING_STATE_KEY_def ONBOARDING_SERVICE_KEY_def ACTIVE_TENANT_KEY_def
      startsWith_def)

lemma getItem_init:
  "k \<noteq> ONBOARDING_STATE_KEY \<Longrightarrow> k \<noteq> ONBOARDING_SERVICE_KEY \<Longrightarrow>
   getItem (snd (initOnboardingState t0 now svc s)) k = getItem s k"
  by (simp add: initOnboardingState_def storage_simps Let_def)

lemma tokens_init:
  "getToken (snd (initOnboardingState t0 now svc s)) = getToken s"
  "getRefreshToken (snd (initOnboardingState t0 now svc s)) = getRefreshToken s"
proof -
  have "getItem (snd (initOnboardingState t0 now svc s)) k = getItem s k" if "session_key k" for k
    using that onboarding_keys by (metis getItem_init)
  then show "getToken (snd (initOnboardingState t0 now svc s)) = getToken s"
    "getRefreshToken (snd (initOnboardingState t0 now svc s)) = getRefreshToken s"
    by (simp_all add: getToken_def getRefreshToken_def split: option.splits)
qed

lemma resumable_finished:
  assumes "resumable p" and "pageStep p = Some (JStr ''complete'')"
  shows "getOnboardingState (op_local p) = None \<and> \<not> isOnboardingIncomplete (op_local p)"
  using assms by (auto simp: resumable_def getOnboardingState_def isOnboardingIncomplete_def)

lemma resumable_reload:
  assumes "resumable p" and "pageStep p \<noteq> Some (JStr ''complete'')"
  shows "(\<forall>k. jfield (op_state (onboardingStart t1 now1 (op_local p))) k = jfield (op_state p) k)
    \<and> isOnboardingIncomplete (op_local p)"
proof -
  from assms obtain m m' where m: "op_state p = JObj m" and
    m': "getItem (op_local p) ONBOARDING_STATE_KEY = Some (stringify (JObj m'))" "plain (JObj m')" "map_of m' = map_of m"
    by (auto simp: resumable_def simp del: plain.simps)
  from getOnboardingState_stored [OF m'(1,2)] m m'(3) assms(2) show ?thesis
    by (simp add: onboardingStart_def initialState_def writeEffect_def isOnboardingIncomplete_def pageStep_def
        jfield_def jtruthy_def)
qed

section \<open>Properties\<close>

text \<open>Onboarding resumes where it stopped: after any sequence of actions the page allows, from
  a store that is empty or was written by the sign-up, a reload of the page restores every field
  of its state as long as setup is not complete; once it is complete nothing is left in the
  store and the tenant no longer counts as being onboarded.\<close>

lemma onboarding_resumes:
  assumes "goodStore s"
    and "guarded_run onboarding_ok (onboarding_step t0) (onboardingStart t0 now s) as = Some (p, outs)"
  shows "if pageStep p = Some (JStr ''complete'')
      then getOnboardingState (op_local p) = None \<and> \<not> isOnboardingIncomplete (op_local p)
      else (\<forall>k. jfield (op_state (onboardingStart t1 now1 (op_local p))) k = jfield (op_state p) k)
           \<and> isOnboardingIncomplete (op_local p)"
proof -
  have "resumable p"
    by (rule guarded_run_inv [where P = resumable, OF _ resumable_start [OF assms(1)] assms(2)])
       (rule resumable_step)
  then show ?thesis using resumable_finished [of p] resumable_reload [of p t1 now1] by simp
qed

text \<open>What a sign-up leaves behind: the new owner is logged in, onboarding has begun with the
  chosen service type, and the page moves to it; but the empty refresh token makes the session
  end at the first 401: instead of a refresh the tokens are dropped and the tab goes to the login
  page.\<close>

lemma signup_session:
  assumes "decodeToken acc = Some d" and "truthy (dt_tenant_id d)" and "path \<noteq> ''/login''"
  shows "let (st', effs) = onSignupSuccess t0 now acc req st;
             tb = freshTab (au_local st') [] path;
             (tb', outs) = api_step tb (Failed (rq\<lparr>rq_retry := False\<rparr>) (Some 401)) in
      au_user st' = Some (userOf d) \<and> getToken (au_local st') = Some acc
      \<and> isOnboardingIncomplete (au_local st')
      \<and> getServiceType (au_local st') = JStr (serviceName (su_service_type req))
      \<and> effs = [ClearCache, NavigateTo ''/admin/onboarding'']
      \<and> outs = [GoTo ''/login'', Reject (rq\<lparr>rq_retry := True\<rparr>) (AxiosError (Some 401))]
      \<and> getToken (local_storage tb') = None"
proof -
  obtain tid where tid: "dt_tenant_id d = Some tid" "tid \<noteq> []"
    using assms(2) by (auto simp: truthy_the)
  define st1 where "st1 = fst (login acc [] st)"
  have st1: "login acc [] st = (st1, [ClearCache])" "au_user st1 = Some (userOf d)"
      "getToken (au_local st1) = Some acc" "getRefreshToken (au_local st1) = Some []"
    using assms(1) tid by (simp_all add: st1_def login_def)
  let ?s = "snd (initOnboardingState t0 now (su_service_type req) (au_local st1))"
  have "onSignupSuccess t0 now acc req st = (st1\<lparr>au_local := ?s\<rparr>, [ClearCache, NavigateTo ''/admin/onboarding''])"
    by (simp add: onSignupSuccess_def st1(1) split: prod.splits)
  moreover have "isOnboardingIncomplete ?s" "getServiceType ?s = JStr (serviceName (su_service_type req))"
    by (simp_all add: isOnboardingIncomplete_def getServiceType_def init_reads)
       (simp add: jtruthy_def serviceName_def split: service_type.splits)
  moreover have "getToken ?s = Some acc" "getRefreshToken ?s = Some []"
    using st1 by (simp_all add: tokens_init)
  ultimately show ?thesis
    using st1(2) assms(3)
    by (simp add: freshTab_def onError_def toLogin_def getItem_def Let_def)
qed

end
