(* ===== verification/Super_Admin.thy ===== *)
theory Super_Admin
  imports Auth_Context
begin

text \<open>
  The super admin's sign-in: \<open>lib/superAdminApi.ts\<close> (its own HTTP client and token),
  \<open>context/SuperAdminAuthContext.tsx\<close>, \<open>hooks/useSuperAdminAuth.ts\<close>, the guard
  \<open>components/shared/SuperAdminRoute.tsx\<close> and \<open>pages/super-admin/SuperAdminLoginPage.tsx\<close>, a
  state machine of password, authenticator set-up and verification. The main result is that
  the second factor cannot be skipped. The check of an email address is zod's and is a
  parameter.
\<close>

section \<open>The super admin's HTTP client\<close>

definition SUPER_ADMIN_TOKEN_KEY :: string where
  "SUPER_ADMIN_TOKEN_KEY = ''Frixel Connect_super_admin_token''"

definition getSuperAdminToken :: "storage \<Rightarrow> string option" where
  "getSuperAdminToken s = getItem s SUPER_ADMIN_TOKEN_KEY"

definition saveSuperAdminToken :: "string \<Rightarrow> storage \<Rightarrow> storage" where
  "saveSuperAdminToken token s = setItem SUPER_ADMIN_TOKEN_KEY token s"

definition clearSuperAdminToken :: "storage \<Rightarrow> storage" where
  "clearSuperAdminToken s = removeItem SUPER_ADMIN_TOKEN_KEY s"

text \<open>\<open>url.replace(/\/api\/v1\/?$/, '')\<close> on the configured URL or its default.\<close>

definition endsWith :: "string \<Rightarrow> string \<Rightarrow> bool" where
  "endsWith s p \<longleftrightarrow> length p \<le> length s \<and> drop (length s - length p) s = p"

definition getBaseURL :: "string option \<Rightarrow> string" where
  "getBaseURL env =
     (let url = orElse env ''http://localhost:8000/api/v1''
      in if endsWith url ''/api/v1'' then take (length url - 7) url
         else if endsWith url ''/api/v1/'' then take (length url - 8) url
         else url)"

definition saOnRequest :: "storage \<Rightarrow> request \<Rightarrow> request" where
  "saOnRequest s rq =
     (let token = getSuperAdminToken s
      in if truthy token then rq\<lparr>rq_auth := Some (bearer (the token))\<rparr> else rq)"

definition saOnError :: "storage \<Rightarrow> path \<Rightarrow> request \<Rightarrow> nat option \<Rightarrow> storage \<times> emission list" where
  "saOnError s location rq status =
     (if status = Some 401
      then (clearSuperAdminToken s,
            (if location \<noteq> ''/super-admin/login'' then [GoTo ''/super-admin/login''] else [])
            @ [Reject rq (AxiosError status)])
      else (s, [Reject rq (AxiosError status)]))"

section \<open>The super admin's context\<close>

datatype loginStep = Idle | Password | TotpSetup | TotpVerify | Done

record sa_claims =
  sc_sub :: "string option"
  sc_full_name :: "string option"
  sc_exp :: "rat option"

record sa_user =
  sa_id :: "string option"
  sa_full_name :: string

record sa_ctx =
  superAdmin :: "sa_user option"
  loginStep :: loginStep
  preAuthToken :: "string option"
  sa_loading :: bool
  sa_local :: storage

definition decodeSuperAdminToken :: "string \<Rightarrow> sa_claims option" where
  "decodeSuperAdminToken token =
     (case tokenPayload token of
        None \<Rightarrow> None
      | Some v \<Rightarrow>
          if jtruthy v
          then Some \<lparr>sc_sub = jfield_str v ''sub'', sc_full_name = jfield_str v ''full_name'',
                     sc_exp = jfield_num v ''exp''\<rparr>
          else None)"

definition saTokenExpired :: "int \<Rightarrow> string \<Rightarrow> bool" where
  "saTokenExpired now token =
     (case decodeSuperAdminToken token of
        None \<Rightarrow> True
      | Some d \<Rightarrow> (case sc_exp d of None \<Rightarrow> False | Some e \<Rightarrow> e < of_int now / 1000))"

definition saProviderStart :: "storage \<Rightarrow> sa_ctx" where
  "saProviderStart s =
     \<lparr>superAdmin = None, loginStep = Idle, preAuthToken = None, sa_loading = True, sa_local = s\<rparr>"

text \<open>The effect that runs when the provider is mounted.\<close>

definition saInit :: "int \<Rightarrow> sa_ctx \<Rightarrow> sa_ctx" where
  "saInit now c =
     (let token = getSuperAdminToken (sa_local c);
          c1 = (if truthy token then
                  (if \<not> saTokenExpired now (the token) then
                     (case decodeSuperAdminToken (the token) of
                        Some decoded \<Rightarrow>
                          c\<lparr>superAdmin := Some \<lparr>sa_id = sc_sub decoded,
                                 sa_full_name = orElse (sc_full_name decoded) ''Super Admin''\<rparr>,
                            loginStep := Done\<rparr>
                      | None \<Rightarrow> c\<lparr>sa_local := clearSuperAdminToken (sa_local c)\<rparr>)
                   else c\<lparr>sa_local := clearSuperAdminToken (sa_local c)\<rparr>)
                else c)
      in c1\<lparr>sa_loading := False\<rparr>)"

definition saLogin :: "string \<Rightarrow> sa_user \<Rightarrow> sa_ctx \<Rightarrow> sa_ctx" where
  "saLogin token profile c =
     c\<lparr>sa_local := saveSuperAdminToken token (sa_local c), superAdmin := Some profile,
       loginStep := Done\<rparr>"

definition saLogout :: "sa_ctx \<Rightarrow> sa_ctx \<times> emission list" where
  "saLogout c =
     (c\<lparr>sa_local := clearSuperAdminToken (sa_local c), superAdmin := None, loginStep := Idle,
        preAuthToken := None\<rparr>, [GoTo ''/super-admin/login''])"

datatype guard = ShowLoading | RedirectTo path | ShowOutlet

definition superAdminRoute :: "sa_ctx \<Rightarrow> guard" where
  "superAdminRoute c =
     (if sa_loading c then ShowLoading
      else if superAdmin c = None \<or> loginStep c \<noteq> Done then RedirectTo ''/super-admin/login''
      else ShowOutlet)"

section \<open>The sign-in page\<close>

record sa_page =
  pg_ctx :: sa_ctx
  pg_email :: string
  pg_password :: string
  pg_errors :: field_errors
  pg_showPassword :: bool
  pg_pwPending :: bool
  pg_pwError :: "string option"
  pg_setupPending :: bool
  pg_verifyPending :: bool
  pg_verifyError :: "string option"
  pg_totpCode :: string
  pg_shake :: bool
  pg_showSuccessCheck :: bool
  pg_hadSetup :: bool
  pg_qr :: "(string \<times> string) option"

datatype sa_action =
    SaEmail string | SaPassword string | SaToggle | SaSubmit
  | PasswordOk string bool | PasswordFailed "string option"
  | SetupOk string string | SetupFailed
  | Scanned | ResetAuth
  | TotpChange string | VerifyOk string string string | VerifyFailed "string option"
  | ShakeEnd

datatype sa_out =
    PostPassword string string
  | PostSetup string
  | PostVerify string string
  | SaNavigate path

definition saPageStart :: "sa_ctx \<Rightarrow> sa_page" where
  "saPageStart c =
     \<lparr>pg_ctx = c, pg_email = [], pg_password = [], pg_errors = [], pg_showPassword = False,
      pg_pwPending = False, pg_pwError = None, pg_setupPending = False, pg_verifyPending = False,
      pg_verifyError = None, pg_totpCode = [], pg_shake = False, pg_showSuccessCheck = False,
      pg_hadSetup = False, pg_qr = None\<rparr>"

definition saLoginSchema :: "(string \<Rightarrow> bool) \<Rightarrow> string \<Rightarrow> string \<Rightarrow> field_errors" where
  "saLoginSchema isEmail email password =
     (if isEmail email then [] else [(''email'', ''Please enter a valid email address'')])
     @ minLength 1 ''password'' ''Password is required'' password"

text \<open>\<open>usePasswordLogin().onSuccess\<close>\<close>

definition onPasswordLogin :: "string \<Rightarrow> bool \<Rightarrow> sa_ctx \<Rightarrow> sa_ctx" where
  "onPasswordLogin pre setupRequired c =
     c\<lparr>preAuthToken := Some pre, loginStep := (if setupRequired then TotpSetup else TotpVerify)\<rparr>"

text \<open>The effect on \<open>[loginStep, preAuthToken]\<close>: on entering the set-up step with a pre-auth
  token, ask for the QR code.\<close>

definition setupEffect :: "sa_page \<Rightarrow> sa_page \<Rightarrow> sa_page \<times> sa_out list" where
  "setupEffect old p =
     (if (loginStep (pg_ctx old), preAuthToken (pg_ctx old))
           \<noteq> (loginStep (pg_ctx p), preAuthToken (pg_ctx p))
         \<and> loginStep (pg_ctx p) = TotpSetup \<and> truthy (preAuthToken (pg_ctx p))
      then (p\<lparr>pg_hadSetup := True, pg_setupPending := True\<rparr>,
            [PostSetup (the (preAuthToken (pg_ctx p)))])
      else (p, []))"

definition handleTotpChange :: "string \<Rightarrow> sa_page \<Rightarrow> sa_page \<times> sa_out list" where
  "handleTotpChange input p =
     (let val = take 6 (filter is_digit input);
          p1 = p\<lparr>pg_totpCode := val\<rparr>
      in if length val = 6 \<and> truthy (preAuthToken (pg_ctx p))
         then (p1\<lparr>pg_verifyPending := True, pg_verifyError := None\<rparr>,
               [PostVerify (the (preAuthToken (pg_ctx p))) val])
         else (p1, []))"

definition handleResetAuth :: "sa_page \<Rightarrow> sa_page" where
  "handleResetAuth p =
     p\<lparr>pg_ctx := (pg_ctx p)\<lparr>preAuthToken := None, loginStep := Idle\<rparr>, pg_totpCode := [],
       pg_qr := None\<rparr>"

fun sa_handler :: "(string \<Rightarrow> bool) \<Rightarrow> sa_page \<Rightarrow> sa_action \<Rightarrow> sa_page \<times> sa_out list" where
  "sa_handler isEmail p (SaEmail v) = (p\<lparr>pg_email := v\<rparr>, [])"
| "sa_handler isEmail p (SaPassword v) = (p\<lparr>pg_password := v\<rparr>, [])"
| "sa_handler isEmail p SaToggle = (p\<lparr>pg_showPassword := \<not> pg_showPassword p\<rparr>, [])"
| "sa_handler isEmail p SaSubmit =
     (let errs = saLoginSchema isEmail (pg_email p) (pg_password p)
      in if errs \<noteq> [] then (p\<lparr>pg_errors := errs\<rparr>, [])
         else (p\<lparr>pg_errors := [], pg_pwPending := True, pg_pwError := None\<rparr>,
               [PostPassword (pg_email p) (pg_password p)]))"
| "sa_handler isEmail p (PasswordOk pre req) =
     (p\<lparr>pg_pwPending := False, pg_ctx := onPasswordLogin pre req (pg_ctx p)\<rparr>, [])"
| "sa_handler isEmail p (PasswordFailed detail) =
     (p\<lparr>pg_pwPending := False, pg_pwError := Some (orElse detail ''Authentication failed'')\<rparr>, [])"
| "sa_handler isEmail p (SetupOk qr preview) =
     (p\<lparr>pg_setupPending := False, pg_qr := Some (qr, preview)\<rparr>, [])"
| "sa_handler isEmail p SetupFailed = (p\<lparr>pg_setupPending := False\<rparr>, [])"
| "sa_handler isEmail p Scanned = (p\<lparr>pg_ctx := (pg_ctx p)\<lparr>loginStep := TotpVerify\<rparr>\<rparr>, [])"
| "sa_handler isEmail p ResetAuth = (handleResetAuth p, [])"
| "sa_handler isEmail p (TotpChange v) = handleTotpChange v p"
| "sa_handler isEmail p (VerifyOk token i name) =
     (p\<lparr>pg_verifyPending := False, pg_showSuccessCheck := True,
        pg_ctx := saLogin token \<lparr>sa_id = Some i, sa_full_name = name\<rparr> (pg_ctx p)\<rparr>,
      [SaNavigate ''/super-admin/dashboard''])"
| "sa_handler isEmail p (VerifyFailed detail) =
     (p\<lparr>pg_verifyPending := False, pg_verifyError := Some (orElse detail ''Invalid verification code''),
        pg_shake := True, pg_totpCode := []\<rparr>, [])"
| "sa_handler isEmail p ShakeEnd = (p\<lparr>pg_shake := False\<rparr>, [])"

definition sa_step :: "(string \<Rightarrow> bool) \<Rightarrow> sa_page \<Rightarrow> sa_action \<Rightarrow> sa_page \<times> sa_out list" where
  "sa_step isEmail p a =
     (let (p1, o1) = sa_handler isEmail p a; (p2, o2) = setupEffect p p1 in (p2, o1 @ o2))"

text \<open>An input that is disabled offers nothing to type into and is left out.\<close>

definition passwordScreen :: "sa_page \<Rightarrow> sa_action view list" where
  "passwordScreen p =
     [Txt ''Sign In'', Txt ''Credentials verification gateway'', Txt ''Administrative Email'']
     @ onlyIf (\<not> pg_pwPending p) [Inp ''fredrick@Frixel Connect.com'' (pg_email p) SaEmail]
     @ fieldError (pg_errors p) ''email''
     @ [Txt ''Password'']
     @ onlyIf (\<not> pg_pwPending p) [Inp [] (pg_password p) SaPassword]
     @ [Btn False [] SaToggle]
     @ fieldError (pg_errors p) ''password''
     @ (case pg_pwError p of None \<Rightarrow> [] | Some m \<Rightarrow> [Txt m])
     @ [Btn (pg_pwPending p) [Txt (if pg_pwPending p then ''Verifying...'' else ''Sign In'')] SaSubmit,
        Link ''/login'' [Txt ''Back to ISP portal'']]"

definition setupScreen :: "sa_page \<Rightarrow> sa_action view list" where
  "setupScreen p =
     [Txt ''Set up authenticator'',
      Txt ''Scan this QR code with Google Authenticator, Authy, or any TOTP app. You'll need this app every time you log in. If you lose access, database-level recovery is required.'']
     @ (if pg_setupPending p then []
        else case pg_qr p of
               Some (qr, preview) \<Rightarrow>
                 [Txt qr, Txt ''Can't scan? Enter code manually:'', Txt (preview @ ''...'')]
             | None \<Rightarrow>
                 [Txt ''Failed to load setup details. Please restart the login process.''])
     @ [Btn (pg_setupPending p \<or> pg_qr p = None) [Txt ''I've scanned it''] Scanned,
        Btn False [Txt ''Cancel setup''] ResetAuth]"

definition verifyScreen :: "sa_page \<Rightarrow> sa_action view list" where
  "verifyScreen p =
     [Txt ''Enter security code'',
      Txt (if pg_hadSetup p then ''Enter the code from your authenticator app to confirm setup.''
           else ''Open your authenticator app and enter the current code.'')]
     @ (if pg_showSuccessCheck p then []
        else onlyIf (\<not> pg_verifyPending p) [Inp ''000 000'' (pg_totpCode p) TotpChange]
             @ (case pg_verifyError p of None \<Rightarrow> [] | Some m \<Rightarrow> [Txt m])
             @ [Txt ''CODE REFRESH WINDOW''])
     @ [Btn (pg_verifyPending p) [Txt ''Use a different account''] ResetAuth]"

definition saLoginView :: "sa_page \<Rightarrow> sa_action view" where
  "saLoginView p = Group
     ([Txt ''Frixel Connect Admin'']
      @ onlyIf (loginStep (pg_ctx p) = Idle \<or> loginStep (pg_ctx p) = Password) (passwordScreen p)
      @ onlyIf (loginStep (pg_ctx p) = TotpSetup) (setupScreen p)
      @ onlyIf (loginStep (pg_ctx p) = TotpVerify) (verifyScreen p))"

section \<open>Lemmas\<close>

text \<open>What can happen on the page: what it offers, and answers to outstanding requests.\<close>

fun sa_ok :: "sa_page \<Rightarrow> sa_action \<Rightarrow> bool" where
  "sa_ok p (PasswordOk pre req) = pg_pwPending p"
| "sa_ok p (PasswordFailed d) = pg_pwPending p"
| "sa_ok p (SetupOk qr preview) = pg_setupPending p"
| "sa_ok p SetupFailed = pg_setupPending p"
| "sa_ok p (VerifyOk t i n) = pg_verifyPending p"
| "sa_ok p (VerifyFailed d) = pg_verifyPending p"
| "sa_ok p ShakeEnd = True"
| "sa_ok p a = offers (saLoginView p) a"

fun is_verify :: "sa_out \<Rightarrow> bool" where
  "is_verify (PostVerify pre code) = True"
| "is_verify _ = False"

fun verify_answer :: "sa_action \<Rightarrow> bool" where
  "verify_answer (VerifyOk t i n) = True"
| "verify_answer (VerifyFailed d) = True"
| "verify_answer _ = False"

definition sa_verify_step :: "(string \<Rightarrow> bool) \<Rightarrow> sa_page \<Rightarrow> sa_action \<Rightarrow> sa_page \<times> sa_out list" where
  "sa_verify_step isEmail p a = (fst (sa_step isEmail p a), filter is_verify (snd (sa_step isEmail p a)))"

lemma setupEffect_simps [simp]:
  "pg_ctx (fst (setupEffect old p)) = pg_ctx p"
  "pg_verifyPending (fst (setupEffect old p)) = pg_verifyPending p"
  "filter is_verify (snd (setupEffect old p)) = []"
  "PostVerify pre code \<notin> set (snd (setupEffect old p))"
  by (simp_all add: setupEffect_def)

lemma sa_step_simps:
  "pg_ctx (fst (sa_step isEmail p a)) = pg_ctx (fst (sa_handler isEmail p a))"
  "pg_verifyPending (fst (sa_step isEmail p a)) = pg_verifyPending (fst (sa_handler isEmail p a))"
  "filter is_verify (snd (sa_step isEmail p a)) = filter is_verify (snd (sa_handler isEmail p a))"
  "PostVerify pre code \<in> set (snd (sa_step isEmail p a)) \<longleftrightarrow>
     PostVerify pre code \<in> set (snd (sa_handler isEmail p a))"
  by (auto simp: sa_step_def split: prod.splits)
    (metis setupEffect_simps fst_conv snd_conv append_Nil2)+

text \<open>Not signed in: no profile, no completed step, no stored token.\<close>

definition signed_out :: "sa_page \<Rightarrow> bool" where
  "signed_out p \<longleftrightarrow> superAdmin (pg_ctx p) = None \<and> loginStep (pg_ctx p) \<noteq> Done
     \<and> getSuperAdminToken (sa_local (pg_ctx p)) = None"

lemma signed_out_step:
  "signed_out p \<Longrightarrow> (\<And>t i n. a \<noteq> VerifyOk t i n) \<Longrightarrow> signed_out (fst (sa_step isEmail p a))"
  by (cases a) (auto simp: signed_out_def sa_step_simps handleResetAuth_def handleTotpChange_def
      onPasswordLogin_def Let_def)

lemma handleTotpChange_out:
  "PostVerify pre code \<in> set (snd (handleTotpChange v p)) \<Longrightarrow>
     preAuthToken (pg_ctx p) = Some pre \<and> pre \<noteq> [] \<and> length code = 6 \<and> list_all is_digit code"
  by (auto simp: handleTotpChange_def Let_def truthy_the list_all_iff dest!: in_set_takeD split: if_splits)

lemma handler_PostVerify:
  "PostVerify pre code \<in> set (snd (sa_handler isEmail p a)) \<Longrightarrow>
     preAuthToken (pg_ctx p) = Some pre \<and> pre \<noteq> [] \<and> length code = 6 \<and> list_all is_digit code"
  by (cases a) (auto simp: Let_def dest: handleTotpChange_out split: if_splits)

lemma screen_TotpChange:
  "v \<in> set (passwordScreen p) \<Longrightarrow> \<not> offers v (TotpChange t)"
  "v \<in> set (setupScreen p) \<Longrightarrow> \<not> offers v (TotpChange t)"
  "v \<in> set (verifyScreen p) \<Longrightarrow> offers v (TotpChange t) \<Longrightarrow> \<not> pg_verifyPending p"
  by (auto simp: passwordScreen_def setupScreen_def verifyScreen_def set_onlyIf offers_simps
        typable_simps split: if_splits option.splits)

lemma offers_TotpChange:
  "offers (saLoginView p) (TotpChange v) \<Longrightarrow> \<not> pg_verifyPending p"
  using screen_TotpChange [where p = p and t = v]
  by (auto simp: saLoginView_def offers_simps onlyIf_def split: if_splits)

interpretation verify: single_flight "sa_verify_step isEmail" sa_ok pg_verifyPending verify_answer
  for isEmail
proof
  fix p :: sa_page and a
  show "sa_ok p a \<Longrightarrow> verify_answer a \<Longrightarrow> pg_verifyPending p
      \<and> \<not> pg_verifyPending (fst (sa_verify_step isEmail p a)) \<and> snd (sa_verify_step isEmail p a) = []"
    by (cases a) (auto simp: sa_verify_step_def sa_step_simps)
  show "sa_ok p a \<Longrightarrow> \<not> verify_answer a \<Longrightarrow>
      (snd (sa_verify_step isEmail p a) = []
        \<and> pg_verifyPending (fst (sa_verify_step isEmail p a)) = pg_verifyPending p)
      \<or> (length (snd (sa_verify_step isEmail p a)) = 1 \<and> \<not> pg_verifyPending p
        \<and> pg_verifyPending (fst (sa_verify_step isEmail p a)))"
    by (cases a) (auto simp: sa_verify_step_def sa_step_simps handleResetAuth_def handleTotpChange_def
        Let_def dest: offers_TotpChange)
qed

lemma sa_step_loading: "sa_loading (pg_ctx (fst (sa_step isEmail p a))) = sa_loading (pg_ctx p)"
  by (cases a) (auto simp: sa_step_simps handleResetAuth_def handleTotpChange_def onPasswordLogin_def
      saLogin_def Let_def)

lemma signed_out_run:
  "signed_out p \<Longrightarrow> \<forall>t i n. VerifyOk t i n \<notin> set as \<Longrightarrow>
   signed_out (foldl (\<lambda>p a. fst (sa_step isEmail p a)) p as)
   \<and> sa_loading (pg_ctx (foldl (\<lambda>p a. fst (sa_step isEmail p a)) p as)) = sa_loading (pg_ctx p)"
proof (induction as arbitrary: p)
  case (Cons a as)
  then have "signed_out (fst (sa_step isEmail p a))"
    by (intro signed_out_step) auto
  with Cons show ?case by (simp add: sa_step_loading)
qed simp

lemma preAuthToken_step:
  "preAuthToken (pg_ctx (fst (sa_step isEmail p a))) = Some pre \<Longrightarrow>
     preAuthToken (pg_ctx p) = Some pre \<or> (\<exists>req. a = PasswordOk pre req)"
  by (cases a) (auto simp: sa_step_simps handleResetAuth_def handleTotpChange_def onPasswordLogin_def
      saLogin_def Let_def split: if_splits)

definition verify_request :: "sa_page \<Rightarrow> sa_action list \<Rightarrow> sa_out \<Rightarrow> bool" where
  "verify_request p as r \<longleftrightarrow>
     (\<exists>pre code. r = PostVerify pre code \<and> length code = 6 \<and> list_all is_digit code
        \<and> (preAuthToken (pg_ctx p) = Some pre \<or> (\<exists>req. PasswordOk pre req \<in> set as)))"

lemma sa_verify_step_sel:
  "fst (sa_verify_step isEmail p a) = fst (sa_step isEmail p a)"
  "snd (sa_verify_step isEmail p a) = filter is_verify (snd (sa_step isEmail p a))"
  by (simp_all add: sa_verify_step_def)

lemma verify_requests:
  "guarded_run sa_ok (sa_verify_step isEmail) p as = Some (p', rs) \<Longrightarrow> r \<in> set rs \<Longrightarrow>
   verify_request p as r"
proof (induction as arbitrary: p rs)
  case (Cons a as)
  let ?p1 = "fst (sa_step isEmail p a)"
  obtain rs' where run: "guarded_run sa_ok (sa_verify_step isEmail) ?p1 as = Some (p', rs')"
    "rs = filter is_verify (snd (sa_step isEmail p a)) @ rs'"
    using Cons.prems by (auto simp: guarded_run_Cons sa_verify_step_sel)
  show ?case
  proof (cases "r \<in> set rs'")
    case True
    from Cons.IH [OF run(1) this] show ?thesis
      unfolding verify_request_def using preAuthToken_step [of isEmail p a]
      by (metis list.set_intros)
  next
    case False
    then obtain pre code where r: "r = PostVerify pre code"
      "PostVerify pre code \<in> set (snd (sa_handler isEmail p a))"
      using run Cons.prems by (cases r) (auto simp: sa_step_simps)
    with handler_PostVerify [OF r(2)] show ?thesis
      by (auto simp: verify_request_def)
  qed
qed simp

lemma super_admin_key [simp]: "\<not> session_key SUPER_ADMIN_TOKEN_KEY"
  by (simp add: session_key_def SUPER_ADMIN_TOKEN_KEY_def ACTIVE_TENANT_KEY_def startsWith_def)

lemma super_admin_key_distinct [simp]:
  "TOKEN_KEY t \<noteq> SUPER_ADMIN_TOKEN_KEY" "REFRESH_KEY t \<noteq> SUPER_ADMIN_TOKEN_KEY"
  "ACTIVE_TENANT_KEY \<noteq> SUPER_ADMIN_TOKEN_KEY"
  "SUPER_ADMIN_TOKEN_KEY \<noteq> TOKEN_KEY t" "SUPER_ADMIN_TOKEN_KEY \<noteq> REFRESH_KEY t"
  "SUPER_ADMIN_TOKEN_KEY \<noteq> ACTIVE_TENANT_KEY"
  by (metis session_key_simps super_admin_key)+

lemma api_step_super_admin:
  assumes "\<And>s. ev \<noteq> OtherTab s"
  shows "getSuperAdminToken (local_storage (fst (api_step tb ev))) = getSuperAdminToken (local_storage tb)"
proof (cases ev)
  case (Failed rq st)
  then show ?thesis
    by (simp add: getSuperAdminToken_def onError_def Let_def storage_simps)
next
  case (RefreshOk acc rfr)
  then show ?thesis
    by (auto simp: getSuperAdminToken_def onRefreshOk_def processQueue_def Let_def storage_simps
        split: list.splits)
next
  case (RefreshFailed e)
  then show ?thesis
    by (auto simp: getSuperAdminToken_def onRefreshFailed_def processQueue_def Let_def storage_simps
        split: list.splits)
qed (use assms in \<open>auto simp: getSuperAdminToken_def\<close>)

section \<open>Properties\<close>

text \<open>C17: the second factor cannot be skipped: starting without a stored super admin token,
  whatever happens on the sign-in page short of a successful verification of the code, the
  guard of the super admin pages redirects to the sign-in page, no token is stored, and a
  provider mounted later over the same storage redirects as well.\<close>

theorem second_factor_required:
  assumes "getSuperAdminToken s = None" and "\<forall>t i n. VerifyOk t i n \<notin> set as"
  shows "let p = foldl (\<lambda>p a. fst (sa_step isEmail p a))
                   (saPageStart (saInit now (saProviderStart s))) as in
      superAdminRoute (pg_ctx p) = RedirectTo ''/super-admin/login''
      \<and> getSuperAdminToken (sa_local (pg_ctx p)) = None
      \<and> superAdminRoute (saInit now' (saProviderStart (sa_local (pg_ctx p))))
          = RedirectTo ''/super-admin/login''"
proof -
  let ?p0 = "saPageStart (saInit now (saProviderStart s))"
  have "signed_out ?p0" "\<not> sa_loading (pg_ctx ?p0)"
    using assms(1) by (simp_all add: signed_out_def saPageStart_def saInit_def saProviderStart_def)
  with signed_out_run [OF this(1) assms(2)] show ?thesis
    by (auto simp: signed_out_def superAdminRoute_def saInit_def saProviderStart_def Let_def)
qed

theorem second_factor_required_witness:
  "let p = foldl (\<lambda>p a. fst (sa_step (\<lambda>e. True) p a))
             (saPageStart (saInit 0 (saProviderStart []))) [SaPassword ''x'', SaSubmit, PasswordOk ''pre'' False] in
      superAdminRoute (pg_ctx p) = RedirectTo ''/super-admin/login''
      \<and> getSuperAdminToken (sa_local (pg_ctx p)) = None
      \<and> superAdminRoute (saInit 9 (saProviderStart (sa_local (pg_ctx p))))
          = RedirectTo ''/super-admin/login''"
  by (rule second_factor_required) (simp_all add: getSuperAdminToken_def getItem_def)

text \<open>Verification requests are well formed and never overlap: in any sequence of events
  the page allows, the number of verification requests is the number answered plus at most
  the one outstanding, and each carries exactly six digits and a pre-auth token that came from
  a successful password step.\<close>

lemma totp_requests_single_flight:
  assumes "guarded_run sa_ok (sa_verify_step isEmail) (saPageStart c) as = Some (p, rs)"
    and "preAuthToken c = None"
  shows "length rs = length (filter verify_answer as) + of_bool (pg_verifyPending p)
    \<and> (\<forall>r \<in> set rs. \<exists>pre code req. r = PostVerify pre code \<and> length code = 6
         \<and> list_all is_digit code \<and> PasswordOk pre req \<in> set as)"
  using verify.flights [OF assms(1)] verify_requests [OF assms(1)] assms(2)
  by (fastforce simp: saPageStart_def verify_request_def)

text \<open>No operation of the tenant's provider touches the super admin's token.\<close>

lemma auth_op_super_admin:
  "getItem (au_local (auth_op_step st e)) SUPER_ADMIN_TOKEN_KEY = getItem (au_local st) SUPER_ADMIN_TOKEN_KEY"
  by (cases e) (auto simp: auth_defs storage_simps split: option.splits)

lemma auth_ops_super_admin:
  "getItem (au_local (foldl auth_op_step st ops)) SUPER_ADMIN_TOKEN_KEY = getItem (au_local st) SUPER_ADMIN_TOKEN_KEY"
  by (induction ops arbitrary: st) (simp_all add: auth_op_super_admin)

text \<open>What the super admin's side writes is its own key.\<close>

lemma sa_step_other_keys:
  "k \<noteq> SUPER_ADMIN_TOKEN_KEY \<Longrightarrow> getItem (sa_local (pg_ctx (fst (sa_step isEmail p a)))) k = getItem (sa_local (pg_ctx p)) k"
  by (cases a)
     (auto simp: sa_step_def setupEffect_def handleTotpChange_def handleResetAuth_def onPasswordLogin_def saLogin_def
       saveSuperAdminToken_def storage_simps Let_def)

lemma sa_steps_other_keys:
  "k \<noteq> SUPER_ADMIN_TOKEN_KEY \<Longrightarrow>
   getItem (sa_local (pg_ctx (foldl (\<lambda>p a. fst (sa_step isEmail p a)) p as))) k = getItem (sa_local (pg_ctx p)) k"
  by (induction as arbitrary: p) (simp_all add: sa_step_other_keys)

text \<open>C18: the two portals do not touch each other's tokens. On the tenant's side neither a run of the client
  (without writes of other tabs) nor any sequence of start-ups, sign-ins, sign-outs and refreshes changes the
  super admin's token. On the super admin's side an error of the client, any sequence of actions of
  the sign-in page, the start-up and the sign-out leave every key of the storage as it was but their own;
  a 401 and the sign-out remove that one.\<close>

theorem portals_keep_apart:
  assumes "\<forall>e \<in> set es. \<forall>s. e \<noteq> OtherTab s"
  shows "getSuperAdminToken (local_storage (fst (api_run tb es))) = getSuperAdminToken (local_storage tb)
    \<and> getSuperAdminToken (au_local (foldl auth_op_step st ops)) = getSuperAdminToken (au_local st)
    \<and> (\<forall>k. k \<noteq> SUPER_ADMIN_TOKEN_KEY \<longrightarrow>
         getItem (fst (saOnError s loc rq status)) k = getItem s k
         \<and> getItem (sa_local (pg_ctx (foldl (\<lambda>p a. fst (sa_step isEmail p a)) (saPageStart c) as))) k = getItem (sa_local c) k
         \<and> getItem (sa_local (saInit now c)) k = getItem (sa_local c) k
         \<and> getItem (sa_local (fst (saLogout c))) k = getItem (sa_local c) k)
    \<and> getSuperAdminToken (fst (saOnError s loc rq status)) = (if status = Some 401 then None else getSuperAdminToken s)
    \<and> getSuperAdminToken (sa_local (fst (saLogout c))) = None"
proof -
  have "getSuperAdminToken (local_storage (fst (api_run tb es))) = getSuperAdminToken (local_storage tb)"
    using assms by (induction es arbitrary: tb) (auto simp: api_run_Cons api_step_super_admin)
  moreover have "getItem (sa_local (saInit now c)) k = getItem (sa_local c) k" if "k \<noteq> SUPER_ADMIN_TOKEN_KEY" for k
    using that by (auto simp: saInit_def clearSuperAdminToken_def storage_simps Let_def split: option.splits)
  ultimately show ?thesis
    by (auto simp: saOnError_def saLogout_def clearSuperAdminToken_def getSuperAdminToken_def auth_ops_super_admin
        sa_steps_other_keys saPageStart_def storage_simps)
qed

theorem portals_keep_apart_witness:
  "let s = [(SUPER_ADMIN_TOKEN_KEY, ''sa''), (TOKEN_KEY ''t1'', ''x''), (REFRESH_KEY ''t1'', ''r'')];
       tb = freshTab s [] ''/admin'';
       es = [Failed \<lparr>rq_id = 1, rq_retry = False, rq_auth = None\<rparr> (Some 401)] in
    getSuperAdminToken (local_storage (fst (api_run tb es))) = Some ''sa''
    \<and> getSuperAdminToken (au_local (foldl auth_op_step (providerStart s) [OpInit 0, OpLogout])) = Some ''sa''
    \<and> getItem (sa_local (fst (saLogout (saProviderStart s)))) (REFRESH_KEY ''t1'') = Some ''r''
    \<and> getItem (fst (saOnError s ''/super-admin'' \<lparr>rq_id = 2, rq_retry = False, rq_auth = None\<rparr> (Some 401))) (TOKEN_KEY ''t1'')
        = Some ''x''"
proof -
  let ?s = "[(SUPER_ADMIN_TOKEN_KEY, ''sa''), (TOKEN_KEY ''t1'', ''x''), (REFRESH_KEY ''t1'', ''r'')]"
  let ?es = "[Failed \<lparr>rq_id = 1, rq_retry = False, rq_auth = None\<rparr> (Some 401)]"
  have "\<forall>e \<in> set ?es. \<forall>s. e \<noteq> OtherTab s" by simp
  from portals_keep_apart [OF this, of "freshTab ?s [] ''/admin''" "providerStart ?s" "[OpInit 0, OpLogout]" ?s "''/super-admin''"
      "\<lparr>rq_id = 2, rq_retry = False, rq_auth = None\<rparr>" "Some 401" "\<lambda>_. True" "saProviderStart ?s" "[]" 0]
  show ?thesis
    by (auto simp: freshTab_def providerStart_def saProviderStart_def getSuperAdminToken_def getItem_def
        SUPER_ADMIN_TOKEN_KEY_def TOKEN_KEY_def REFRESH_KEY_def Let_def)
qed

end
