(* ===== verification/App_Shell.thy ===== *)
theory App_Shell
  imports Super_Admin
begin

text \<open>
  The shell around the pages: the route table of \<open>router/index.tsx\<close>, the guards
  \<open>ProtectedRoute\<close>, \<open>TenantStatusGuard\<close> (and \<open>SuperAdminRoute\<close> of \<open>Super_Admin\<close>), the page a
  suspended tenant sees, and the theme switch. The route table is data; \<open>leaves\<close> lists every
  page with its full path and the elements around it, so that statements about who can see
  which page range over the whole table.
\<close>

section \<open>Guards\<close>

definition hasRole :: "auth_user \<Rightarrow> string \<Rightarrow> bool" where
  "hasRole u r \<longleftrightarrow> user_role u = Some r"

definition protectedRoute :: "auth_state \<Rightarrow> string list \<Rightarrow> guard" where
  "protectedRoute st allowedRoles =
     (if au_loading st then ShowLoading
      else case au_user st of
        None \<Rightarrow> RedirectTo ''/login''
      | Some user \<Rightarrow>
          if \<not> (\<exists>r \<in> set allowedRoles. hasRole user r) then
            (if hasRole user ''admin'' then RedirectTo ''/admin/dashboard''
             else if hasRole user ''reseller'' then RedirectTo ''/reseller/dashboard''
             else if hasRole user ''customer'' then RedirectTo ''/customer/dashboard''
             else RedirectTo ''/login'')
          else ShowOutlet)"

text \<open>The live tenant record an admin's guard fetches.\<close>

record live_tenant =
  lt_status :: string
  lt_billing_status :: string

datatype shell = SuspendedPage | Children

definition tenantStatusGuard :: "auth_state \<Rightarrow> live_tenant option \<Rightarrow> shell" where
  "tenantStatusGuard st tenant =
     (let isAdmin = (case au_user st of None \<Rightarrow> False | Some u \<Rightarrow> hasRole u ''admin'');
          token = getToken (au_local st);
          decoded = (if truthy token then decodeToken (the token) else None);
          tokenStatus = Option.bind decoded dt_tenant_status;
          isSuspended =
            (isAdmin \<and> (case tenant of
                           None \<Rightarrow> False
                         | Some t \<Rightarrow> lt_status t = ''suspended'' \<or> lt_billing_status t = ''suspended'')
             \<or> tokenStatus = Some ''suspended'')
      in if isAuthenticated st \<and> isSuspended then SuspendedPage else Children)"

text \<open>When the live query runs: \<open>enabled: isAuthenticated && isAdmin\<close>.\<close>

definition liveTenantEnabled :: "auth_state \<Rightarrow> bool" where
  "liveTenantEnabled st =
     (isAuthenticated st \<and> (case au_user st of None \<Rightarrow> False | Some u \<Rightarrow> hasRole u ''admin''))"

section \<open>The page of a suspended tenant\<close>

record suspended_page =
  sp_isAdmin :: bool
  sp_pending :: bool
  sp_isPaying :: bool

datatype suspended_action = PayNow | PayOk | PayFailed "string option" | PayTimer | SignOut

datatype suspended_out = PostPayNow | ToastSuccess string | ToastError string | ReloadPage | DoLogout

fun suspended_step :: "suspended_page \<Rightarrow> suspended_action \<Rightarrow> suspended_page \<times> suspended_out list" where
  "suspended_step p PayNow = (p\<lparr>sp_pending := True\<rparr>, [PostPayNow])"
| "suspended_step p PayOk = (p\<lparr>sp_pending := False, sp_isPaying := True\<rparr>, [])"
| "suspended_step p (PayFailed detail) =
     (p\<lparr>sp_pending := False\<rparr>, [ToastError (orElse detail ''Failed to initiate payment.'')])"
| "suspended_step p PayTimer =
     (p\<lparr>sp_isPaying := False\<rparr>,
      [ToastSuccess ''Payment received successfully. Thank you!'', ReloadPage])"
| "suspended_step p SignOut = (p, [DoLogout])"

definition suspendedView :: "suspended_page \<Rightarrow> suspended_action view" where
  "suspendedView p = Group
     ([Txt ''Access Suspended'',
       Txt (if sp_isAdmin p
            then ''Your ISP's Frixel Connect subscription has lapsed or been suspended. Please pay the outstanding balance to restore services immediately.''
            else ''This service provider's account is temporarily unavailable. Please contact your ISP support team for further details.'')]
      @ (if sp_isAdmin p \<and> sp_isPaying p
         then [Txt ''Confirm Payment on your Phone'',
               Txt ''An M-Pesa prompt has been sent to your registered phone number. Enter your PIN to reactivate your account.'']
         else onlyIf (sp_isAdmin p)
                [Btn (sp_pending p)
                   [Txt (if sp_pending p then ''Initiating...'' else ''Pay Now to Reactivate'')] PayNow]
              @ [Btn False [Txt ''Sign Out''] SignOut]))"

section \<open>Theme\<close>

datatype theme = Light | Dark

definition themeName :: "theme \<Rightarrow> string" where
  "themeName t = (case t of Light \<Rightarrow> ''light'' | Dark \<Rightarrow> ''dark'')"

definition initialTheme :: "storage \<Rightarrow> theme" where
  "initialTheme s = (if getItem s ''theme'' = Some ''light'' then Light else Dark)"

definition setTheme :: "theme \<Rightarrow> storage \<Rightarrow> theme \<times> storage" where
  "setTheme t s = (t, setItem ''theme'' (themeName t) s)"

text \<open>The effect on the document element: whether it has the class \<open>dark\<close>.\<close>

definition themeClass :: "theme \<Rightarrow> bool" where
  "themeClass t \<longleftrightarrow> t = Dark"

section \<open>The route table\<close>

datatype elem =
    PublicLayout | AdminLayout | ResellerLayout | CustomerLayout | SuperAdminLayout
  | ProtectedRoute "string list"
  | SuperAdminRoute
  | SuperAdminProvider
  | Navigate path
  | Page string

datatype route =
    Route path elem "route list"
  | Layout elem "route list"
  | Index elem

definition publicRoutes :: route where
  "publicRoutes = Route ''/'' PublicLayout
     [Index (Page ''LandingPage''),
      Route ''login'' (Page ''LoginPage'') [],
      Route ''register'' (Page ''RegisterPage'') [],
      Route ''signup'' (Page ''TenantSignupPage'') [],
      Route ''hotspot/login'' (Page ''CaptivePortalPage'') []]"

definition adminRoutes :: route where
  "adminRoutes = Route ''/admin'' (ProtectedRoute [''admin''])
     [Route ''onboarding'' (Page ''OnboardingPage'') [],
      Route ''onboarding/router'' (Page ''RouterOnboardingWizard'') [],
      Layout AdminLayout
        [Index (Navigate ''/admin/dashboard''),
         Route ''dashboard'' (Page ''AdminDashboard'') [],
         Route ''customers'' (Page ''AdminCustomers'') [],
         Route ''packages'' (Page ''AdminPackages'') [],
         Route ''payments'' (Page ''AdminPayments'') [],
         Route ''vouchers'' (Page ''AdminVouchers'') [],
         Route ''sessions'' (Page ''AdminSessions'') [],
         Route ''routers'' (Page ''AdminRouters'') [],
         Route ''subscriptions'' (Page ''AdminSubscriptions'') [],
         Route ''invoices'' (Page ''AdminInvoices'') [],
         Route ''system-health'' (Page ''AdminSystemHealth'') [],
         Route ''audit-log'' (Page ''AdminAuditLog'') [],
         Route ''account'' (Page ''AdminAccount'') []]]"

definition resellerRoutes :: route where
  "resellerRoutes = Route ''/reseller'' (ProtectedRoute [''reseller''])
     [Layout ResellerLayout
        [Index (Navigate ''/reseller/dashboard''),
         Route ''dashboard'' (Page ''ResellerDashboard'') [],
         Route ''customers'' (Page ''ResellerCustomers'') [],
         Route ''payments'' (Page ''ResellerPayments'') [],
         Route ''vouchers'' (Page ''ResellerVouchers'') [],
         Route ''wallet'' (Page ''ResellerWallet'') []]]"

definition customerRoutes :: route where
  "customerRoutes = Route ''/customer'' (ProtectedRoute [''customer''])
     [Layout CustomerLayout
        [Index (Navigate ''/customer/dashboard''),
         Route ''dashboard'' (Page ''CustomerDashboard'') [],
         Route ''buy'' (Page ''CustomerBuyPackage'') [],
         Route ''status/:id'' (Page ''CustomerPaymentStatus'') [],
         Route ''vouchers'' (Page ''CustomerVouchers'') [],
         Route ''invoices'' (Page ''CustomerInvoices'') [],
         Route ''profile'' (Page ''CustomerProfile'') [],
         Route ''privacy'' (Page ''CustomerDataPrivacy'') []]]"

definition superAdminRoutes :: "route list" where
  "superAdminRoutes =
     [Route ''/super-admin'' SuperAdminRoute
        [Layout SuperAdminLayout
           [Index (Navigate ''/super-admin/dashboard''),
            Route ''dashboard'' (Page ''SuperAdminDashboardPage'') [],
            Route ''tenants'' (Page ''TenantsPage'') [],
            Route ''tenants/:id'' (Page ''TenantDetailPage'') [],
            Route ''audit-log'' (Page ''AuditLogPage'') [],
            Route ''accounts'' (Page ''AccountsPage'') []]],
      Route ''/super-admin/login'' SuperAdminProvider [Index (Page ''SuperAdminLoginPage'')]]"

definition router :: "route list" where
  "router =
     [publicRoutes, adminRoutes, resellerRoutes, customerRoutes] @ superAdminRoutes
     @ [Route ''*'' (Page ''NotFound'') []]"

definition joinPath :: "path \<Rightarrow> path \<Rightarrow> path" where
  "joinPath base p =
     (if base = [] then p else if base = ''/'' then base @ p else base @ ''/'' @ p)"

text \<open>Every page with its path and the elements from the outermost to itself.\<close>

fun leaves :: "path \<Rightarrow> elem list \<Rightarrow> route \<Rightarrow> (path \<times> elem list) list" where
  "leaves base around (Route p e []) = [(joinPath base p, around @ [e])]"
| "leaves base around (Route p e cs) = concat (map (leaves (joinPath base p) (around @ [e])) cs)"
| "leaves base around (Layout e cs) = concat (map (leaves base (around @ [e])) cs)"
| "leaves base around (Index e) = [(base, around @ [e])]"

definition appLeaves :: "(path \<times> elem list) list" where
  "appLeaves = concat (map (leaves [] []) router)"

section \<open>Who sees a page\<close>

fun elemGuard :: "auth_state \<Rightarrow> sa_ctx \<Rightarrow> elem \<Rightarrow> guard" where
  "elemGuard st c (ProtectedRoute roles) = protectedRoute st roles"
| "elemGuard st c SuperAdminRoute = superAdminRoute c"
| "elemGuard st c (Navigate p) = RedirectTo p"
| "elemGuard st c e = ShowOutlet"

text \<open>The elements render from the outside in; the first one that does not pass decides.\<close>

fun renderChain :: "auth_state \<Rightarrow> sa_ctx \<Rightarrow> elem list \<Rightarrow> guard" where
  "renderChain st c [] = ShowOutlet"
| "renderChain st c (e # es) =
     (case elemGuard st c e of ShowOutlet \<Rightarrow> renderChain st c es | g \<Rightarrow> g)"

definition visible :: "auth_state \<Rightarrow> sa_ctx \<Rightarrow> elem list \<Rightarrow> bool" where
  "visible st c chain \<longleftrightarrow> renderChain st c chain = ShowOutlet"

section \<open>Lemmas\<close>

lemma renderChain_passes: "renderChain st c es = ShowOutlet \<longleftrightarrow> (\<forall>e \<in> set es. elemGuard st c e = ShowOutlet)"
  by (induction es) (auto split: guard.splits)

lemma renderChain_redirect:
  "renderChain st c es = RedirectTo q \<Longrightarrow>
   \<exists>pre e post. es = pre @ e # post \<and> elemGuard st c e = RedirectTo q
     \<and> (\<forall>x \<in> set pre. elemGuard st c x = ShowOutlet)"
proof (induction es)
  case (Cons x es)
  show ?case
  proof (cases "elemGuard st c x = ShowOutlet")
    case True
    with Cons obtain pre e post where "es = pre @ e # post" "elemGuard st c e = RedirectTo q"
      "\<forall>y \<in> set pre. elemGuard st c y = ShowOutlet" by auto
    with True show ?thesis
      by (intro exI [of _ "x # pre"] exI [of _ e] exI [of _ post]) simp
  next
    case False
    with Cons.prems have "elemGuard st c x = RedirectTo q" by (auto split: guard.splits)
    then show ?thesis by (intro exI [of _ "[]"]) simp
  qed
qed simp

declare renderChain.simps(2) [simp del]

text \<open>Facts of the table, by evaluation.\<close>

lemma admin_leaves:
  "\<forall>x \<in> set appLeaves. startsWith (fst x) ''/admin'' \<longrightarrow> ProtectedRoute [''admin''] \<in> set (snd x)"
  by code_simp

lemma reseller_leaves:
  "\<forall>x \<in> set appLeaves. startsWith (fst x) ''/reseller'' \<longrightarrow> ProtectedRoute [''reseller''] \<in> set (snd x)"
  by code_simp

lemma customer_leaves:
  "\<forall>x \<in> set appLeaves. startsWith (fst x) ''/customer'' \<longrightarrow> ProtectedRoute [''customer''] \<in> set (snd x)"
  by code_simp

lemma super_admin_leaves:
  "\<forall>x \<in> set appLeaves. startsWith (fst x) ''/super-admin'' \<and> fst x \<noteq> ''/super-admin/login'' \<longrightarrow>
     SuperAdminRoute \<in> set (snd x)"
  by code_simp

lemma landing_leaves:
  "(''/login'', [PublicLayout, Page ''LoginPage'']) \<in> set appLeaves"
  "(''/admin/dashboard'', [ProtectedRoute [''admin''], AdminLayout, Page ''AdminDashboard'']) \<in> set appLeaves"
  "(''/reseller/dashboard'', [ProtectedRoute [''reseller''], ResellerLayout, Page ''ResellerDashboard'']) \<in> set appLeaves"
  "(''/customer/dashboard'', [ProtectedRoute [''customer''], CustomerLayout, Page ''CustomerDashboard'']) \<in> set appLeaves"
  "(''/super-admin/login'', [SuperAdminProvider, Page ''SuperAdminLoginPage'']) \<in> set appLeaves"
  by code_simp+

fun isPage :: "elem \<Rightarrow> bool" where
  "isPage (Page n) = True"
| "isPage _ = False"

definition navigateLands :: "elem list \<Rightarrow> bool" where
  "navigateLands ch =
     (case last ch of
        Navigate q \<Rightarrow> list_ex (\<lambda>x. fst x = q \<and> list_all (\<lambda>e. e \<in> set (butlast ch) \<or> isPage e) (snd x)) appLeaves
      | _ \<Rightarrow> True)"

definition navigateLast :: "elem list \<Rightarrow> bool" where
  "navigateLast ch = list_all (\<lambda>e. case e of Navigate q \<Rightarrow> False | _ \<Rightarrow> True) (butlast ch)"

lemma navigate_leaves: "\<forall>x \<in> set appLeaves. navigateLands (snd x) \<and> navigateLast (snd x)"
  by code_simp

lemma elemGuard_isPage [simp]: "isPage e \<Longrightarrow> elemGuard st c e = ShowOutlet"
  by (cases e) auto

lemma protectedRoute_outlet:
  "protectedRoute st roles = ShowOutlet \<longleftrightarrow>
     \<not> au_loading st \<and> (\<exists>u. au_user st = Some u \<and> (\<exists>r \<in> set roles. hasRole u r))"
  by (auto simp: protectedRoute_def split: option.splits if_splits)

lemma protectedRoute_redirect:
  assumes "protectedRoute st roles = RedirectTo q"
  shows "\<exists>chain. (q, chain) \<in> set appLeaves \<and> visible st c chain"
proof -
  have load: "\<not> au_loading st" using assms by (auto simp: protectedRoute_def split: if_splits)
  consider "q = ''/login''" | u where "au_user st = Some u" "hasRole u ''admin''" "q = ''/admin/dashboard''"
    | u where "au_user st = Some u" "hasRole u ''reseller''" "q = ''/reseller/dashboard''"
    | u where "au_user st = Some u" "hasRole u ''customer''" "q = ''/customer/dashboard''"
    using assms by (auto simp: protectedRoute_def split: option.splits if_splits)
  then show ?thesis
  proof cases
    case 1
    then show ?thesis using landing_leaves(1) by (fastforce simp: visible_def renderChain_passes)
  next
    case 2
    with load have "visible st c [ProtectedRoute [''admin''], AdminLayout, Page ''AdminDashboard'']"
      by (simp add: visible_def renderChain_passes protectedRoute_outlet)
    with 2 landing_leaves(2) show ?thesis by blast
  next
    case 3
    with load have "visible st c [ProtectedRoute [''reseller''], ResellerLayout, Page ''ResellerDashboard'']"
      by (simp add: visible_def renderChain_passes protectedRoute_outlet)
    with 3 landing_leaves(3) show ?thesis by blast
  next
    case 4
    with load have "visible st c [ProtectedRoute [''customer''], CustomerLayout, Page ''CustomerDashboard'']"
      by (simp add: visible_def renderChain_passes protectedRoute_outlet)
    with 4 landing_leaves(4) show ?thesis by blast
  qed
qed

lemma navigate_redirect:
  assumes "(p, pre @ Navigate q # post) \<in> set appLeaves" and "\<forall>x \<in> set pre. elemGuard st c x = ShowOutlet"
  shows "\<exists>chain. (q, chain) \<in> set appLeaves \<and> visible st c chain"
proof -
  have nav: "navigateLands (pre @ Navigate q # post)" "navigateLast (pre @ Navigate q # post)"
    using navigate_leaves assms(1) by force+
  have "post = []"
    using nav(2) by (cases post) (auto simp: navigateLast_def butlast_append)
  with nav(1) obtain chain where "(q, chain) \<in> set appLeaves" "\<forall>e \<in> set chain. e \<in> set pre \<or> isPage e"
    by (auto simp: navigateLands_def list_ex_iff list_all_iff)
  moreover from this assms(2) have "visible st c chain"
    by (fastforce simp: visible_def renderChain_passes)
  ultimately show ?thesis by blast
qed

section \<open>Properties\<close>

text \<open>C19: no page of a portal is shown to another role: for every page of the route table, if
  the guards around it let it render, then under \<open>/admin\<close>, \<open>/reseller\<close> and \<open>/customer\<close> a
  user with exactly that role is logged in, and under \<open>/super-admin\<close> (its sign-in page aside)
  a super admin has completed the sign-in.\<close>

theorem portal_pages_need_role:
  assumes "(p, chain) \<in> set appLeaves" and "visible st c chain"
  shows "(startsWith p ''/admin'' \<longrightarrow> (\<exists>u. au_user st = Some u \<and> user_role u = Some ''admin''))
    \<and> (startsWith p ''/reseller'' \<longrightarrow> (\<exists>u. au_user st = Some u \<and> user_role u = Some ''reseller''))
    \<and> (startsWith p ''/customer'' \<longrightarrow> (\<exists>u. au_user st = Some u \<and> user_role u = Some ''customer''))
    \<and> (startsWith p ''/super-admin'' \<and> p \<noteq> ''/super-admin/login'' \<longrightarrow>
         superAdmin c \<noteq> None \<and> loginStep c = Done)"
proof -
  have pass: "e \<in> set chain \<Longrightarrow> elemGuard st c e = ShowOutlet" for e
    using assms(2) by (simp add: visible_def renderChain_passes)
  have role: "ProtectedRoute [r] \<in> set chain \<Longrightarrow> \<exists>u. au_user st = Some u \<and> user_role u = Some r" for r
    using pass [of "ProtectedRoute [r]"] by (auto simp: protectedRoute_outlet hasRole_def)
  have "SuperAdminRoute \<in> set chain \<Longrightarrow> superAdmin c \<noteq> None \<and> loginStep c = Done"
    using pass [of SuperAdminRoute] by (auto simp: superAdminRoute_def split: if_splits)
  with role show ?thesis
    using bspec [OF admin_leaves assms(1)] bspec [OF reseller_leaves assms(1)]
      bspec [OF customer_leaves assms(1)] bspec [OF super_admin_leaves assms(1)] by simp
qed

definition adminSession :: auth_state where
  "adminSession = initAuth 0 (providerStart (saveToken sampleToken ''t1'' []))"

lemma adminSession_eq:
  "au_user adminSession = Some \<lparr>user_id = Some ''u1'', user_role = Some ''admin'', user_tenant = Some ''t1''\<rparr>"
  "\<not> au_loading adminSession"
  by (simp_all add: adminSession_def initAuth_def providerStart_def decode_sampleToken userOf_def Let_def)

theorem portal_pages_need_role_witness:
  "renderChain adminSession (saProviderStart []) [ProtectedRoute [''admin''], AdminLayout, Page ''AdminDashboard'']
     = ShowOutlet
   \<and> (\<exists>u. au_user adminSession = Some u \<and> user_role u = Some ''admin'')"
proof -
  have shown: "visible adminSession (saProviderStart []) [ProtectedRoute [''admin''], AdminLayout, Page ''AdminDashboard'']"
    by (simp add: visible_def renderChain_passes protectedRoute_outlet adminSession_eq hasRole_def)
  from portal_pages_need_role [OF landing_leaves(2) shown] shown show ?thesis
    by (simp add: startsWith_def visible_def)
qed

text \<open>C20: a redirect lands in one step: whenever, after loading, the guards around a page of
  the table redirect, the target is a page of the table that the same user is shown without
  a further redirect. There is no redirect loop.\<close>

theorem redirects_land:
  assumes "(p, chain) \<in> set appLeaves" and "renderChain st c chain = RedirectTo q"
  shows "\<exists>chain'. (q, chain') \<in> set appLeaves \<and> renderChain st c chain' = ShowOutlet"
proof -
  obtain pre e post where e: "chain = pre @ e # post" "elemGuard st c e = RedirectTo q"
    "\<forall>x \<in> set pre. elemGuard st c x = ShowOutlet"
    using renderChain_redirect [OF assms(2)] by blast
  have "\<exists>chain'. (q, chain') \<in> set appLeaves \<and> visible st c chain'"
  proof (cases e)
    case (ProtectedRoute roles)
    with e(2) show ?thesis by (simp add: protectedRoute_redirect)
  next
    case SuperAdminRoute
    with e(2) have "q = ''/super-admin/login''" by (auto simp: superAdminRoute_def split: if_splits)
    then show ?thesis
      using landing_leaves(5) by (fastforce simp: visible_def renderChain_passes)
  next
    case (Navigate q')
    with e assms(1) show ?thesis by (auto intro: navigate_redirect)
  qed (use e(2) in simp_all)
  then show ?thesis by (simp add: visible_def)
qed

theorem redirects_land_witness:
  "\<exists>chain'. (''/login'', chain') \<in> set appLeaves
     \<and> renderChain (initAuth 0 (providerStart [])) (saProviderStart []) chain' = ShowOutlet"
  by (rule redirects_land [OF landing_leaves(2)])
     (simp add: renderChain.simps protectedRoute_def initAuth_def providerStart_def getToken_def
       getItem_def)

text \<open>An impersonation tab is sent to the login page: after the tab has received its
  impersonation token, every request carries that token, but the provider only looks at the
  tenant session in \<open>localStorage\<close>, so without one the admin dashboard the tab was opened on
  redirects to \<open>/login\<close>.\<close>

lemma impersonation_tab_redirected:
  assumes "bt_listening b" and "tok \<noteq> []" and "\<not> truthy (getToken local)"
  shows "let b' = fst (handleImpersonationToken True (Some ''impersonation_token'') tok b);
             tb = freshTab local (bt_session b') ''/admin/dashboard'';
             st = initAuth now (providerStart local) in
      getRequestToken now tb = Some tok
      \<and> renderChain st c [ProtectedRoute [''admin''], AdminLayout, Page ''AdminDashboard'']
          = RedirectTo ''/login''"
  using assms
  by (auto simp: handleImpersonationToken_def freshTab_def getRequestToken_def storage_simps
      initAuth_def providerStart_def protectedRoute_def renderChain.simps Let_def
      split: option.splits)

text \<open>A provider after a login, as long as nobody logs in or out again: the token and its user, or, once a
  start-up has found the token expired, nobody.\<close>

definition heldSession :: "string \<Rightarrow> decoded_token \<Rightarrow> bool \<Rightarrow> auth_state \<Rightarrow> bool" where
  "heldSession acc d expired st \<longleftrightarrow>
     (if expired then au_user st = None \<and> getToken (au_local st) = None
      else au_user st = Some (userOf d) \<and> getToken (au_local st) = Some acc)"

fun keeps_session :: "auth_op \<Rightarrow> bool" where
  "keeps_session (OpInit now) = True"
| "keeps_session OpRefresh = True"
| "keeps_session _ = False"

fun finds_expired :: "string \<Rightarrow> auth_op \<Rightarrow> bool" where
  "finds_expired acc (OpInit now) = isTokenExpired now acc"
| "finds_expired acc _ = False"

lemma heldSession_step:
  assumes "decodeToken acc = Some d" and "truthy (dt_tenant_id d)" and "heldSession acc d e st" and "keeps_session op"
  shows "heldSession acc d (e \<or> finds_expired acc op) (auth_op_step st op)"
proof -
  have "acc \<noteq> []" using assms(1) by auto
  then show ?thesis
    using assms by (cases op; cases e) (auto simp: heldSession_def initAuth_def refreshUser_def Let_def)
qed

lemma heldSession_run:
  assumes "decodeToken acc = Some d" and "truthy (dt_tenant_id d)" and "heldSession acc d e st" and "list_all keeps_session ops"
  shows "heldSession acc d (e \<or> list_ex (finds_expired acc) ops) (foldl auth_op_step st ops)"
  using assms(3,4)
proof (induction ops arbitrary: e st)
  case (Cons op ops)
  from Cons.prems have "heldSession acc d (e \<or> finds_expired acc op) (auth_op_step st op)"
    by (intro heldSession_step [OF assms(1,2)]) auto
  from Cons.IH [OF this] Cons.prems(2) show ?case by (simp add: disj_assoc)
qed simp

text \<open>C21: a suspended tenant is locked out from login to logout: after a login, and after any start-ups and
  refreshes of the provider that follow it, the user is the one of the token, unless a start-up has found
  the token expired, which ends the session. While it lasts, a token that says the tenant is suspended
  gives every user the suspended page, whatever the live record says, an admin also gets it when the live
  record says so, and nobody else does; after the end of the session or a logout nobody is locked out.\<close>

theorem suspended_tenant_locked_out:
  assumes "decodeToken acc = Some d" and "truthy (dt_tenant_id d)" and "list_all keeps_session ops"
  shows "let st1 = foldl auth_op_step (fst (login acc rfr st)) ops;
             expired = list_ex (finds_expired acc) ops;
             live = (\<exists>t. tenant = Some t \<and> (lt_status t = ''suspended'' \<or> lt_billing_status t = ''suspended'')) in
      au_user st1 = (if expired then None else Some (userOf d))
      \<and> tenantStatusGuard st1 tenant
          = (if \<not> expired \<and> (dt_tenant_status d = Some ''suspended'' \<or> dt_role d = Some ''admin'' \<and> live)
             then SuspendedPage else Children)
      \<and> liveTenantEnabled st1 = (\<not> expired \<and> dt_role d = Some ''admin'')
      \<and> tenantStatusGuard (fst (logout st1)) tenant = Children"
proof -
  obtain tid where "dt_tenant_id d = Some tid" "tid \<noteq> []"
    using assms(2) by (auto simp: truthy_the)
  moreover have acc: "acc \<noteq> []" using assms(1) by auto
  ultimately have "heldSession acc d False (fst (login acc rfr st))"
    using assms(1) by (simp add: heldSession_def login_def)
  from heldSession_run [OF assms(1,2) this assms(3)]
  have held: "heldSession acc d (list_ex (finds_expired acc) ops) (foldl auth_op_step (fst (login acc rfr st)) ops)" by simp
  show ?thesis
    using held acc assms(1)
    by (auto simp: heldSession_def logout_def tenantStatusGuard_def liveTenantEnabled_def isAuthenticated_def userOf_def
        hasRole_def Let_def split: option.splits if_splits)
qed

text \<open>A customer of a suspended tenant.\<close>

definition suspendedClaims :: json where
  "suspendedClaims = JObj [(''sub'', JStr ''u2''), (''role'', JStr ''customer''), (''tenant_id'', JStr ''t1''),
     (''tenant_status'', JStr ''suspended'')]"

definition suspendedToken :: string where
  "suspendedToken = mkToken ''h'' (stringify suspendedClaims) ''s''"

lemma decode_suspendedToken:
  "decodeToken suspendedToken =
     Some \<lparr>dt_sub = Some ''u2'', dt_role = Some ''customer'', dt_reseller_id = None,
           dt_tenant_id = Some ''t1'', dt_tenant_status = Some ''suspended'', dt_exp = None, dt_iat = None\<rparr>"
proof -
  have "utf8Valid (map of_char (stringify suspendedClaims))" by code_simp
  then have "decodeToken suspendedToken = castToken suspendedClaims"
    unfolding suspendedToken_def by (intro decodeToken_mkToken) (simp_all add: suspendedClaims_def)
  then show ?thesis
    by (simp add: castToken_def suspendedClaims_def jtruthy_def jfield_str_def jfield_num_def jfield_def)
qed

theorem suspended_tenant_locked_out_witness:
  "let st1 = foldl auth_op_step (fst (login suspendedToken ''r'' (providerStart []))) [OpInit 5, OpRefresh] in
     tenantStatusGuard st1 None = SuspendedPage \<and> map_option user_id (au_user st1) = Some (Some ''u2'')
     \<and> tenantStatusGuard (fst (logout st1)) None = Children"
  using suspended_tenant_locked_out [OF decode_suspendedToken, of "[OpInit 5, OpRefresh]" "''r''" "providerStart []" None]
  by (simp add: isTokenExpired_def decode_suspendedToken userOf_def Let_def)

text \<open>The theme written is the theme read back, and it is the class the start-up script sets.\<close>

lemma theme_roundtrip:
  "initialTheme (snd (setTheme t s)) = t"
  "bt_dark (fst (boot_start hasOpener (snd (setTheme t s)) session)) = themeClass t"
  by (cases t; simp add: initialTheme_def setTheme_def themeName_def boot_start_def themeClass_def
      storage_simps Let_def)+

text \<open>The thank-you toast of the suspended page depends on the timer only.\<close>

lemma suspended_toast_unconditional:
  "snd (suspended_step p PayTimer)
     = [ToastSuccess ''Payment received successfully. Thank you!'', ReloadPage]"
  by simp

end
