(* ===== verification/Query_Cache.thy ===== *)
theory Query_Cache
  imports App_Shell Payment_Status
begin

text \<open>
  The data hooks of the portal and the cache they share: the keys of \<open>lib/queryKeys.ts\<close>, the
  defaults of \<open>lib/queryClient.ts\<close>, and for every hook under \<open>hooks/\<close> its key, its request, when
  it is enabled, and, for a mutation, the keys it invalidates. The query client itself is not part
  of the repository. What the code relies on of it is visible in the statements: an invalidation
  reaches the entries whose key starts with the given key, and the cache holds only answers to
  fetches made since it was cleared last, so the log of those fetches says whose data can be in it.
\<close>

section \<open>Keys\<close>

datatype kval = KNull | KS string | KN int | KB bool | KObj "(string \<times> kval) list"

type_synonym key = "kval list"

datatype query_key =
    PackagesAll string | PackagesById string string
  | PaymentsAll string | PaymentsAdmin string | PaymentsReseller string | PaymentsCustomer string
  | PaymentsById string string | PaymentsStatus string string | PaymentsPortal string
  | VouchersAll string | VouchersAdmin string | VouchersReseller string | VouchersCustomer string
  | VouchersById string string
  | UsersMe string | UsersAdminCustomers string | UsersResellerCustomers string | UsersProfile string
  | RoutersAll string | RoutersById string string | RoutersStatus string string
  | RoutersOnboarding string string
  | SessionsAdmin string | SessionsCustomer string
  | SubscriptionsMine string | SubscriptionsAdmin string "string option"
  | WalletsBalance string string | WalletsTransactions string string
  | InvoicesAdmin string | InvoicesMine string
  | StatsDashboard string | StatsSystemHealth string | StatsStuckPayments string
  | StatsAuditLog string string int int
  | TenantMe string

fun queryKeys :: "query_key \<Rightarrow> key" where
  "queryKeys (PackagesAll t) = [KS ''packages'', KS ''all'', KS t]"
| "queryKeys (PackagesById t i) = [KS ''packages'', KS ''by-id'', KS i, KS t]"
| "queryKeys (PaymentsAll t) = [KS ''payments'', KS ''all'', KS t]"
| "queryKeys (PaymentsAdmin t) = [KS ''payments'', KS ''admin'', KS t]"
| "queryKeys (PaymentsReseller t) = [KS ''payments'', KS ''reseller'', KS t]"
| "queryKeys (PaymentsCustomer t) = [KS ''payments'', KS ''customer'', KS t]"
| "queryKeys (PaymentsById t i) = [KS ''payments'', KS ''by-id'', KS i, KS t]"
| "queryKeys (PaymentsStatus t i) = [KS ''payments'', KS ''status'', KS i, KS t]"
| "queryKeys (PaymentsPortal i) = [KS ''portal'', KS ''payment-status'', KS i]"
| "queryKeys (VouchersAll t) = [KS ''vouchers'', KS ''all'', KS t]"
| "queryKeys (VouchersAdmin t) = [KS ''vouchers'', KS ''admin'', KS t]"
| "queryKeys (VouchersReseller t) = [KS ''vouchers'', KS ''reseller'', KS t]"
| "queryKeys (VouchersCustomer t) = [KS ''vouchers'', KS ''customer'', KS t]"
| "queryKeys (VouchersById t i) = [KS ''vouchers'', KS ''by-id'', KS i, KS t]"
| "queryKeys (UsersMe t) = [KS ''users'', KS ''me'', KS t]"
| "queryKeys (UsersAdminCustomers t) = [KS ''users'', KS ''admin-customers'', KS t]"
| "queryKeys (UsersResellerCustomers t) = [KS ''users'', KS ''reseller-customers'', KS t]"
| "queryKeys (UsersProfile t) = [KS ''users'', KS ''profile'', KS t]"
| "queryKeys (RoutersAll t) = [KS ''routers'', KS ''all'', KS t]"
| "queryKeys (RoutersById t i) = [KS ''routers'', KS ''by-id'', KS i, KS t]"
| "queryKeys (RoutersStatus t i) = [KS ''routers'', KS ''status'', KS i, KS t]"
| "queryKeys (RoutersOnboarding t i) = [KS ''routers'', KS ''onboarding'', KS i, KS t]"
| "queryKeys (SessionsAdmin t) = [KS ''sessions'', KS ''admin'', KS t]"
| "queryKeys (SessionsCustomer t) = [KS ''sessions'', KS ''customer'', KS t]"
| "queryKeys (SubscriptionsMine t) = [KS ''subscriptions'', KS ''mine'', KS t]"
| "queryKeys (SubscriptionsAdmin t status) =
     [KS ''subscriptions'', KS ''admin'', KS t, KS (nullish status ''all'')]"
| "queryKeys (WalletsBalance t r) = [KS ''wallet'', KS ''balance'', KS r, KS t]"
| "queryKeys (WalletsTransactions t r) = [KS ''wallet'', KS ''transactions'', KS r, KS t]"
| "queryKeys (InvoicesAdmin t) = [KS ''invoices'', KS ''admin'', KS t]"
| "queryKeys (InvoicesMine t) = [KS ''invoices'', KS ''mine'', KS t]"
| "queryKeys (StatsDashboard t) = [KS ''stats'', KS ''dashboard'', KS t]"
| "queryKeys (StatsSystemHealth t) = [KS ''stats'', KS ''system-health'', KS t]"
| "queryKeys (StatsStuckPayments t) = [KS ''stats'', KS ''stuck-payments'', KS t]"
| "queryKeys (StatsAuditLog t action limit offset) =
     [KS ''stats'', KS ''audit-log'', KS t, KS action, KN limit, KN offset]"
| "queryKeys (TenantMe t) = [KS ''tenant'', KS ''me'', KS t]"

section \<open>The client's defaults\<close>

definition STALE_TIME :: nat where
  "STALE_TIME = 30 * 1000"

text \<open>\<open>retry(failureCount, error)\<close>: only an error of axios has a response with a status.\<close>

definition retryQuery :: "nat \<Rightarrow> failure \<Rightarrow> bool" where
  "retryQuery failureCount err \<longleftrightarrow>
     (if err = AxiosError (Some 401) then False else failureCount < 1)"

text \<open>How often a query function that keeps failing in the given ways is called.\<close>

fun attemptsFrom :: "nat \<Rightarrow> failure list \<Rightarrow> nat" where
  "attemptsFrom n [] = 1"
| "attemptsFrom n (e # es) = (if retryQuery n e then Suc (attemptsFrom (Suc n) es) else 1)"

section \<open>Queries\<close>

record query =
  q_key :: key
  q_url :: path
  q_params :: "(string \<times> kval) list"
  q_enabled :: bool
  q_staleTime :: nat
  q_interval :: "nat option"
  q_retry :: bool

definition fetching :: "key \<Rightarrow> path \<Rightarrow> bool \<Rightarrow> query" where
  "fetching k url en =
     \<lparr>q_key = k, q_url = url, q_params = [], q_enabled = en, q_staleTime = STALE_TIME,
      q_interval = None, q_retry = True\<rparr>"

text \<open>\<open>user?.tenant_id ?? ''\<close> and \<open>user?.user_id ?? ''\<close>.\<close>

definition tenantIdOf :: "auth_user option \<Rightarrow> string" where
  "tenantIdOf u = nullish (Option.bind u user_tenant) []"

definition userIdOf :: "auth_user option \<Rightarrow> string" where
  "userIdOf u = nullish (Option.bind u user_id) []"

definition ofTenant :: "auth_user option \<Rightarrow> (string \<Rightarrow> query_key) \<Rightarrow> path \<Rightarrow> query" where
  "ofTenant u k url = fetching (queryKeys (k (tenantIdOf u))) url (tenantIdOf u \<noteq> [])"

definition useAdminVouchers :: "auth_user option \<Rightarrow> query" where
  "useAdminVouchers u = ofTenant u VouchersAdmin ''/reseller/vouchers''"

definition useResellerVouchers :: "auth_user option \<Rightarrow> query" where
  "useResellerVouchers u = ofTenant u VouchersReseller ''/reseller/vouchers''"

definition useCustomerVouchers :: "auth_user option \<Rightarrow> query" where
  "useCustomerVouchers u = ofTenant u VouchersCustomer ''/vouchers/me''"

definition useWalletBalance :: "auth_user option \<Rightarrow> query" where
  "useWalletBalance u =
     fetching (queryKeys (WalletsBalance (tenantIdOf u) (userIdOf u))) ''/reseller/wallet''
       (tenantIdOf u \<noteq> [] \<and> userIdOf u \<noteq> [])"

definition useWalletTransactions :: "auth_user option \<Rightarrow> query" where
  "useWalletTransactions u =
     fetching (queryKeys (WalletsTransactions (tenantIdOf u) (userIdOf u))) ''/reseller/wallet''
       (tenantIdOf u \<noteq> [] \<and> userIdOf u \<noteq> [])"

definition useMySubscription :: "auth_user option \<Rightarrow> query" where
  "useMySubscription u = ofTenant u SubscriptionsMine ''/subscriptions/me''"

definition useAdminSubscriptions :: "string option \<Rightarrow> auth_user option \<Rightarrow> query" where
  "useAdminSubscriptions status u =
     (ofTenant u (\<lambda>t. SubscriptionsAdmin t status) ''/admin/subscriptions'')
       \<lparr>q_params := (if truthy status \<and> status \<noteq> Some ''All''
                     then [(''status'', KS (toLowerCase (the status)))] else [])\<rparr>"

definition useAdminInvoices :: "auth_user option \<Rightarrow> query" where
  "useAdminInvoices u = ofTenant u InvoicesAdmin ''/admin/invoices''"

definition useMyInvoices :: "auth_user option \<Rightarrow> query" where
  "useMyInvoices u = ofTenant u InvoicesMine ''/invoices/me''"

definition useAdminSessions :: "auth_user option \<Rightarrow> query" where
  "useAdminSessions u = ofTenant u SessionsAdmin ''/admin/sessions''"

definition useCustomerSessions :: "auth_user option \<Rightarrow> query" where
  "useCustomerSessions u = ofTenant u SessionsCustomer ''/sessions/me''"

definition usePackages :: "auth_user option \<Rightarrow> query" where
  "usePackages u = (ofTenant u PackagesAll ''/packages'')\<lparr>q_staleTime := 5 * 60 * 1000\<rparr>"

definition useAdminCustomers :: "auth_user option \<Rightarrow> query" where
  "useAdminCustomers u = ofTenant u UsersAdminCustomers ''/admin/users''"

definition useResellerCustomers :: "auth_user option \<Rightarrow> query" where
  "useResellerCustomers u = ofTenant u UsersResellerCustomers ''/reseller/customers''"

definition useCustomerProfile :: "auth_user option \<Rightarrow> query" where
  "useCustomerProfile u = ofTenant u UsersProfile ''/customers/me''"

definition useSystemHealth :: "auth_user option \<Rightarrow> query" where
  "useSystemHealth u =
     (ofTenant u StatsSystemHealth ''/admin/system-health'')
       \<lparr>q_staleTime := 30000, q_interval := Some 30000\<rparr>"

definition useStuckPayments :: "auth_user option \<Rightarrow> query" where
  "useStuckPayments u =
     (ofTenant u StatsStuckPayments ''/admin/payments/stuck'')\<lparr>q_interval := Some 60000\<rparr>"

definition useAuditLog :: "string option \<Rightarrow> int \<Rightarrow> int \<Rightarrow> auth_user option \<Rightarrow> query" where
  "useAuditLog action limit offset u =
     (ofTenant u (\<lambda>t. StatsAuditLog t (nullish action ''All'') limit offset) ''/admin/audit-log'')
       \<lparr>q_params := [(''limit'', KN limit), (''offset'', KN offset)]
          @ (if truthy action \<and> action \<noteq> Some ''All'' then [(''action'', KS (the action))] else [])\<rparr>"

definition useRouters :: "auth_user option \<Rightarrow> query" where
  "useRouters u = ofTenant u RoutersAll ''/admin/routers''"

definition useRouterSummaryQuery :: "auth_user option \<Rightarrow> query" where
  "useRouterSummaryQuery u = (ofTenant u RoutersAll ''/admin/routers'')\<lparr>q_staleTime := 5 * 60 * 1000\<rparr>"

definition useTenantMe :: "auth_user option \<Rightarrow> query" where
  "useTenantMe u =
     fetching (queryKeys (TenantMe (tenantIdOf u))) ''/tenants/me'' (u \<noteq> None \<and> tenantIdOf u \<noteq> [])"

definition useAdminPayments :: "auth_user option \<Rightarrow> query" where
  "useAdminPayments u = ofTenant u PaymentsAdmin ''/admin/payments''"

definition useResellerPayments :: "auth_user option \<Rightarrow> query" where
  "useResellerPayments u = ofTenant u PaymentsReseller ''/reseller/payments''"

definition useCustomerPayments :: "auth_user option \<Rightarrow> query" where
  "useCustomerPayments u = ofTenant u PaymentsCustomer ''/payments/me''"

definition usePaymentStatus :: "string \<Rightarrow> bool \<Rightarrow> auth_user option \<Rightarrow> query" where
  "usePaymentStatus paymentId enabled u =
     (fetching (queryKeys (PaymentsStatus (tenantIdOf u) paymentId))
        (''/payments/'' @ paymentId @ ''/status'')
        (paymentStatusEnabled (tenantIdOf u) paymentId enabled))
       \<lparr>q_interval := paymentStatusInterval None\<rparr>"

text \<open>A missing router id is printed as \<open>null\<close> in the path; the query is then disabled.\<close>

definition useRouterStatus :: "string option \<Rightarrow> bool \<Rightarrow> auth_user option \<Rightarrow> query" where
  "useRouterStatus routerId enabled u =
     (fetching (queryKeys (RoutersOnboarding (tenantIdOf u) (nullish routerId [])))
        (''/admin/routers/onboarding/status/'' @ nullish routerId ''null'')
        (routerStatusEnabled routerId enabled))
       \<lparr>q_staleTime := 0, q_interval := routerStatusInterval None, q_retry := False\<rparr>"

text \<open>The live status query of \<open>TenantStatusGuard\<close>; its key does not name the tenant.\<close>

definition liveTenant :: "auth_user option \<Rightarrow> query" where
  "liveTenant u =
     (fetching [KS ''tenant_me''] ''/tenants/me''
        (case u of None \<Rightarrow> False | Some usr \<Rightarrow> hasRole usr ''admin''))
       \<lparr>q_staleTime := 15000\<rparr>"

text \<open>What two of the query functions make of an answer: the wallet's fields are renamed, and a
  missing subscription is not an error.\<close>

record wallet_balance =
  wb_balance_kes :: int
  wb_paybill_number :: string
  wb_wallet_reference :: string

definition walletBalanceOf :: "int \<Rightarrow> string \<Rightarrow> string \<Rightarrow> wallet_balance" where
  "walletBalanceOf balance paybill reference =
     \<lparr>wb_balance_kes = balance, wb_paybill_number = paybill, wb_wallet_reference = reference\<rparr>"

definition axiosIs404 :: "failure \<Rightarrow> bool" where
  "axiosIs404 err \<longleftrightarrow> err = AxiosError (Some 404)"

definition mySubscriptionAnswer :: "failure + 'd \<Rightarrow> failure + 'd option" where
  "mySubscriptionAnswer r =
     (case r of Inl err \<Rightarrow> if axiosIs404 err then Inr None else Inl err | Inr d \<Rightarrow> Inr (Some d))"

text \<open>Every query hook of the signed-in portal, with its arguments.\<close>

datatype hook =
    HAdminVouchers | HResellerVouchers | HCustomerVouchers
  | HWalletBalance | HWalletTransactions
  | HMySubscription | HAdminSubscriptions "string option"
  | HAdminInvoices | HMyInvoices | HAdminSessions | HCustomerSessions
  | HPackages | HAdminCustomers | HResellerCustomers | HCustomerProfile
  | HSystemHealth | HStuckPayments | HAuditLog "string option" int int
  | HRouters | HRouterSummary | HTenantMe
  | HAdminPayments | HResellerPayments | HCustomerPayments
  | HPaymentStatus string bool | HRouterStatus "string option" bool
  | HLiveTenant

fun queryOf :: "auth_user option \<Rightarrow> hook \<Rightarrow> query" where
  "queryOf u HAdminVouchers = useAdminVouchers u"
| "queryOf u HResellerVouchers = useResellerVouchers u"
| "queryOf u HCustomerVouchers = useCustomerVouchers u"
| "queryOf u HWalletBalance = useWalletBalance u"
| "queryOf u HWalletTransactions = useWalletTransactions u"
| "queryOf u HMySubscription = useMySubscription u"
| "queryOf u (HAdminSubscriptions status) = useAdminSubscriptions status u"
| "queryOf u HAdminInvoices = useAdminInvoices u"
| "queryOf u HMyInvoices = useMyInvoices u"
| "queryOf u HAdminSessions = useAdminSessions u"
| "queryOf u HCustomerSessions = useCustomerSessions u"
| "queryOf u HPackages = usePackages u"
| "queryOf u HAdminCustomers = useAdminCustomers u"
| "queryOf u HResellerCustomers = useResellerCustomers u"
| "queryOf u HCustomerProfile = useCustomerProfile u"
| "queryOf u HSystemHealth = useSystemHealth u"
| "queryOf u HStuckPayments = useStuckPayments u"
| "queryOf u (HAuditLog action limit offset) = useAuditLog action limit offset u"
| "queryOf u HRouters = useRouters u"
| "queryOf u HRouterSummary = useRouterSummaryQuery u"
| "queryOf u HTenantMe = useTenantMe u"
| "queryOf u HAdminPayments = useAdminPayments u"
| "queryOf u HResellerPayments = useResellerPayments u"
| "queryOf u HCustomerPayments = useCustomerPayments u"
| "queryOf u (HPaymentStatus i en) = usePaymentStatus i en u"
| "queryOf u (HRouterStatus i en) = useRouterStatus i en u"
| "queryOf u HLiveTenant = liveTenant u"

section \<open>Mutations\<close>

datatype http_method = POST | PUT | DELETE

text \<open>A mutation: the method, path and body of its request, and the keys its \<open>onSuccess\<close>
  invalidates.\<close>

type_synonym body = "(string \<times> kval) list"

record mutation =
  m_method :: http_method
  m_url :: path
  m_body :: body
  m_invalidates :: "key list"

text \<open>\<open>if (!tenantId) return\<close> before the invalidations.\<close>

definition ifTenant :: "auth_user option \<Rightarrow> (string \<Rightarrow> query_key list) \<Rightarrow> key list" where
  "ifTenant u ks = (if tenantIdOf u = [] then [] else map queryKeys (ks (tenantIdOf u)))"

definition useRevokeVoucher :: "string \<Rightarrow> auth_user option \<Rightarrow> mutation" where
  "useRevokeVoucher i u =
     \<lparr>m_method = POST, m_url = ''/vouchers/'' @ i @ ''/revoke'', m_body = [],
      m_invalidates = ifTenant u (\<lambda>t. [VouchersAdmin t, VouchersReseller t, VouchersCustomer t])\<rparr>"

definition useRetryVoucher :: "string \<Rightarrow> auth_user option \<Rightarrow> mutation" where
  "useRetryVoucher i u =
     \<lparr>m_method = POST, m_url = ''/vouchers/'' @ i @ ''/retry'', m_body = [],
      m_invalidates = ifTenant u (\<lambda>t. [VouchersAdmin t, VouchersReseller t, VouchersCustomer t])\<rparr>"

definition useGenerateWalletVoucher :: "body \<Rightarrow> auth_user option \<Rightarrow> mutation" where
  "useGenerateWalletVoucher data u =
     \<lparr>m_method = POST, m_url = ''/reseller/vouchers/generate'', m_body = data,
      m_invalidates = ifTenant u (\<lambda>t. [WalletsBalance t (userIdOf u), VouchersReseller t])\<rparr>"

definition useToggleAutoRenew :: "body \<Rightarrow> auth_user option \<Rightarrow> mutation" where
  "useToggleAutoRenew data u =
     \<lparr>m_method = PUT, m_url = ''/subscriptions/me'', m_body = data,
      m_invalidates = ifTenant u (\<lambda>t. [SubscriptionsMine t])\<rparr>"

text \<open>The key \<open>['subscriptions', 'admin', tenantId]\<close> is written out, without a status.\<close>

definition subscriptionsChanged :: "auth_user option \<Rightarrow> key list" where
  "subscriptionsChanged u =
     (if tenantIdOf u = [] then []
      else [[KS ''subscriptions'', KS ''admin'', KS (tenantIdOf u)],
            queryKeys (SubscriptionsMine (tenantIdOf u))])"

definition useSuspendSubscription :: "string \<Rightarrow> auth_user option \<Rightarrow> mutation" where
  "useSuspendSubscription i u =
     \<lparr>m_method = POST, m_url = ''/admin/subscriptions/'' @ i @ ''/suspend'', m_body = [],
      m_invalidates = subscriptionsChanged u\<rparr>"

definition useReactivateSubscription :: "string \<Rightarrow> auth_user option \<Rightarrow> mutation" where
  "useReactivateSubscription i u =
     \<lparr>m_method = POST, m_url = ''/admin/subscriptions/'' @ i @ ''/reactivate'', m_body = [],
      m_invalidates = subscriptionsChanged u\<rparr>"

definition useCreatePackage :: "body \<Rightarrow> auth_user option \<Rightarrow> mutation" where
  "useCreatePackage data u =
     \<lparr>m_method = POST, m_url = ''/packages'', m_body = data, m_invalidates = ifTenant u (\<lambda>t. [PackagesAll t])\<rparr>"

definition useUpdatePackage :: "string \<Rightarrow> body \<Rightarrow> auth_user option \<Rightarrow> mutation" where
  "useUpdatePackage i data u =
     \<lparr>m_method = PUT, m_url = ''/packages/'' @ i, m_body = data, m_invalidates = ifTenant u (\<lambda>t. [PackagesAll t])\<rparr>"

definition useDeactivatePackage :: "string \<Rightarrow> auth_user option \<Rightarrow> mutation" where
  "useDeactivatePackage i u =
     \<lparr>m_method = DELETE, m_url = ''/packages/'' @ i, m_body = [],
      m_invalidates = ifTenant u (\<lambda>t. [PackagesAll t])\<rparr>"

definition useCreateResellerCustomer :: "body \<Rightarrow> auth_user option \<Rightarrow> mutation" where
  "useCreateResellerCustomer data u =
     \<lparr>m_method = POST, m_url = ''/reseller/customers'', m_body = data,
      m_invalidates = ifTenant u (\<lambda>t. [UsersResellerCustomers t])\<rparr>"

definition useUpdateCustomerProfile :: "body \<Rightarrow> auth_user option \<Rightarrow> mutation" where
  "useUpdateCustomerProfile data u =
     \<lparr>m_method = PUT, m_url = ''/customers/me'', m_body = data, m_invalidates = ifTenant u (\<lambda>t. [UsersProfile t])\<rparr>"

definition useAdminCreateUser :: "body \<Rightarrow> auth_user option \<Rightarrow> mutation" where
  "useAdminCreateUser data u =
     \<lparr>m_method = POST, m_url = ''/admin/users'', m_body = data,
      m_invalidates = ifTenant u (\<lambda>t. [UsersAdminCustomers t])\<rparr>"

definition useAdminUpdateUser :: "string \<Rightarrow> body \<Rightarrow> auth_user option \<Rightarrow> mutation" where
  "useAdminUpdateUser i data u =
     \<lparr>m_method = PUT, m_url = ''/admin/users/'' @ i, m_body = data,
      m_invalidates = ifTenant u (\<lambda>t. [UsersAdminCustomers t])\<rparr>"

definition useAdminDeleteUser :: "string \<Rightarrow> auth_user option \<Rightarrow> mutation" where
  "useAdminDeleteUser i u =
     \<lparr>m_method = DELETE, m_url = ''/admin/users/'' @ i, m_body = [],
      m_invalidates = ifTenant u (\<lambda>t. [UsersAdminCustomers t])\<rparr>"

definition useRetryProvisioning :: "string \<Rightarrow> auth_user option \<Rightarrow> mutation" where
  "useRetryProvisioning paymentId u =
     \<lparr>m_method = POST, m_url = ''/admin/payments/'' @ paymentId @ ''/retry-provision'', m_body = [],
      m_invalidates = ifTenant u (\<lambda>t. [StatsStuckPayments t, StatsSystemHealth t])\<rparr>"

definition useCreateRouter :: "body \<Rightarrow> auth_user option \<Rightarrow> mutation" where
  "useCreateRouter data u =
     \<lparr>m_method = POST, m_url = ''/admin/routers'', m_body = data, m_invalidates = ifTenant u (\<lambda>t. [RoutersAll t])\<rparr>"

definition useUpdateRouter :: "string \<Rightarrow> body \<Rightarrow> auth_user option \<Rightarrow> mutation" where
  "useUpdateRouter i data u =
     \<lparr>m_method = PUT, m_url = ''/admin/routers/'' @ i, m_body = data,
      m_invalidates = ifTenant u (\<lambda>t. [RoutersAll t])\<rparr>"

definition useDeleteRouter :: "string \<Rightarrow> auth_user option \<Rightarrow> mutation" where
  "useDeleteRouter i u =
     \<lparr>m_method = DELETE, m_url = ''/admin/routers/'' @ i, m_body = [],
      m_invalidates = ifTenant u (\<lambda>t. [RoutersAll t])\<rparr>"

definition useInitMagic :: "body \<Rightarrow> auth_user option \<Rightarrow> mutation" where
  "useInitMagic data u =
     \<lparr>m_method = POST, m_url = ''/admin/routers/onboarding/init-magic'', m_body = data,
      m_invalidates = ifTenant u (\<lambda>t. [RoutersAll t])\<rparr>"

definition useInitiateSTKPush :: "body \<Rightarrow> auth_user option \<Rightarrow> mutation" where
  "useInitiateSTKPush data u = \<lparr>m_method = POST, m_url = ''/payments/stk'', m_body = data, m_invalidates = []\<rparr>"

definition useTenantPayNow :: "auth_user option \<Rightarrow> mutation" where
  "useTenantPayNow u = \<lparr>m_method = POST, m_url = ''/tenants/me/billing/pay-now'', m_body = [], m_invalidates = []\<rparr>"

text \<open>The older tenant registration hook: what a successful answer does.\<close>

definition useRegisterTenant :: "token_response \<Rightarrow> auth_state \<Rightarrow> auth_state \<times> auth_effect list" where
  "useRegisterTenant r st =
     (let (st', effs) = login (tr_access r) (tr_refresh r) st in (st', effs @ [NavigateTo ''/admin/onboarding'']))"

datatype mhook =
    MRevokeVoucher string | MRetryVoucher string | MGenerateWalletVoucher body
  | MToggleAutoRenew body | MSuspendSubscription string | MReactivateSubscription string
  | MCreatePackage body | MUpdatePackage string body | MDeactivatePackage string
  | MCreateResellerCustomer body | MUpdateCustomerProfile body
  | MAdminCreateUser body | MAdminUpdateUser string body | MAdminDeleteUser string
  | MRetryProvisioning string
  | MCreateRouter body | MUpdateRouter string body | MDeleteRouter string | MInitMagic body
  | MInitiateSTKPush body | MTenantPayNow

fun mutationOf :: "auth_user option \<Rightarrow> mhook \<Rightarrow> mutation" where
  "mutationOf u (MRevokeVoucher i) = useRevokeVoucher i u"
| "mutationOf u (MRetryVoucher i) = useRetryVoucher i u"
| "mutationOf u (MGenerateWalletVoucher data) = useGenerateWalletVoucher data u"
| "mutationOf u (MToggleAutoRenew data) = useToggleAutoRenew data u"
| "mutationOf u (MSuspendSubscription i) = useSuspendSubscription i u"
| "mutationOf u (MReactivateSubscription i) = useReactivateSubscription i u"
| "mutationOf u (MCreatePackage data) = useCreatePackage data u"
| "mutationOf u (MUpdatePackage i data) = useUpdatePackage i data u"
| "mutationOf u (MDeactivatePackage i) = useDeactivatePackage i u"
| "mutationOf u (MCreateResellerCustomer data) = useCreateResellerCustomer data u"
| "mutationOf u (MUpdateCustomerProfile data) = useUpdateCustomerProfile data u"
| "mutationOf u (MAdminCreateUser data) = useAdminCreateUser data u"
| "mutationOf u (MAdminUpdateUser i data) = useAdminUpdateUser i data u"
| "mutationOf u (MAdminDeleteUser i) = useAdminDeleteUser i u"
| "mutationOf u (MRetryProvisioning i) = useRetryProvisioning i u"
| "mutationOf u (MCreateRouter data) = useCreateRouter data u"
| "mutationOf u (MUpdateRouter i data) = useUpdateRouter i data u"
| "mutationOf u (MDeleteRouter i) = useDeleteRouter i u"
| "mutationOf u (MInitMagic data) = useInitMagic data u"
| "mutationOf u (MInitiateSTKPush data) = useInitiateSTKPush data u"
| "mutationOf u MTenantPayNow = useTenantPayNow u"

text \<open>An invalidation reaches every entry whose key starts with the given key.\<close>

definition refreshes :: "mutation \<Rightarrow> query \<Rightarrow> bool" where
  "refreshes m q \<longleftrightarrow> list_ex (\<lambda>k. prefix k (q_key q)) (m_invalidates m)"

section \<open>The super admin's hooks\<close>

text \<open>Their requests go through the super admin's client. An argument that is \<open>undefined\<close> is in
  neither the key nor the query string; an empty one is in the key only.\<close>

definition optField :: "string \<Rightarrow> string option \<Rightarrow> (string \<times> kval) list" where
  "optField k v = (case v of None \<Rightarrow> [] | Some x \<Rightarrow> [(k, KS x)])"

definition usePlatformStats :: query where
  "usePlatformStats =
     (fetching [KS ''super-admin'', KS ''stats''] ''/super-admin/stats'' True)\<lparr>q_staleTime := 60000\<rparr>"

definition useTenants :: "int \<Rightarrow> int \<Rightarrow> string option \<Rightarrow> string option \<Rightarrow> query" where
  "useTenants page limit status search =
     (fetching [KS ''super-admin'', KS ''tenants'',
                KObj ([(''page'', KN page), (''limit'', KN limit)]
                      @ optField ''status'' status @ optField ''search'' search)]
        ''/super-admin/tenants'' True)
       \<lparr>q_params := [(''page'', KN page), (''limit'', KN limit)]
          @ (if truthy status then optField ''status_filter'' status else [])
          @ (if truthy search then optField ''search'' search else [])\<rparr>"

definition useTenantDetail :: "string \<Rightarrow> query" where
  "useTenantDetail tenantId =
     fetching [KS ''super-admin'', KS ''tenants'', KS tenantId] (''/super-admin/tenants/'' @ tenantId)
       (tenantId \<noteq> [])"

definition useSuperAdminAuditLog :: "int \<Rightarrow> int \<Rightarrow> string option \<Rightarrow> query" where
  "useSuperAdminAuditLog page limit action =
     (fetching [KS ''super-admin'', KS ''audit-log'',
                KObj ([(''page'', KN page), (''limit'', KN limit)] @ optField ''action'' action)]
        ''/super-admin/audit-log'' True)
       \<lparr>q_params := [(''page'', KN page), (''limit'', KN limit)]
          @ (if truthy action then optField ''action'' action else [])\<rparr>"

definition useSuperAdmins :: query where
  "useSuperAdmins = fetching [KS ''super-admin'', KS ''accounts''] ''/super-admin/accounts'' True"

definition superAdminMe :: query where
  "superAdminMe = fetching [KS ''super-admin'', KS ''me''] ''/super-admin/auth/me'' True"

definition tenantStatusChanged :: "key list" where
  "tenantStatusChanged =
     [[KS ''super-admin'', KS ''tenants''], [KS ''super-admin'', KS ''stats'']]"

definition useSuspendTenant :: "string \<Rightarrow> string \<Rightarrow> mutation" where
  "useSuspendTenant tenantId reason =
     \<lparr>m_method = POST, m_url = ''/super-admin/tenants/'' @ tenantId @ ''/suspend'', m_body = [(''reason'', KS reason)],
      m_invalidates = tenantStatusChanged\<rparr>"

definition useReactivateTenant :: "string \<Rightarrow> mutation" where
  "useReactivateTenant tenantId =
     \<lparr>m_method = POST, m_url = ''/super-admin/tenants/'' @ tenantId @ ''/reactivate'', m_body = [],
      m_invalidates = tenantStatusChanged\<rparr>"

definition useImpersonateTenant :: "string \<Rightarrow> int \<Rightarrow> mutation" where
  "useImpersonateTenant tenantId durationMinutes =
     \<lparr>m_method = POST, m_url = ''/super-admin/tenants/'' @ tenantId @ ''/impersonate'', m_body = [(''duration_minutes'', KN durationMinutes)],
      m_invalidates = []\<rparr>"

definition useTriggerBilling :: "string \<Rightarrow> mutation" where
  "useTriggerBilling tenantId =
     \<lparr>m_method = POST, m_url = ''/super-admin/tenants/'' @ tenantId @ ''/billing/trigger'', m_body = [],
      m_invalidates = []\<rparr>"

definition useCreateSuperAdmin :: "body \<Rightarrow> mutation" where
  "useCreateSuperAdmin data =
     \<lparr>m_method = POST, m_url = ''/super-admin/accounts'', m_body = data,
      m_invalidates = [[KS ''super-admin'', KS ''accounts'']]\<rparr>"

section \<open>Whose answers the cache can hold\<close>

text \<open>A tab with a signed-in user: the provider's state, the tab's own storage, the default header
  the HTTP client keeps after a refresh, and the fetches made since the cache was cleared, each with
  its key, its path and the header it carried.\<close>

type_synonym cache_log = "(key \<times> path \<times> string option) list"

record portal =
  po_auth :: auth_state
  po_session :: storage
  po_default :: "string option"
  po_log :: cache_log

datatype portal_event =
    SignIn string string
  | SignOut
  | Fetch hook int
  | TokenRefreshed string string
  | OtherTabWrites storage

definition tabOf :: "portal \<Rightarrow> tab" where
  "tabOf p = (freshTab (au_local (po_auth p)) (po_session p) [])\<lparr>defaultAuth := po_default p\<rparr>"

text \<open>A request starts with the client's default header; the interceptor may replace it.\<close>

definition fetchAuth :: "int \<Rightarrow> portal \<Rightarrow> string option" where
  "fetchAuth now p =
     rq_auth (onRequest now (tabOf p) \<lparr>rq_id = 0, rq_retry = False, rq_auth = po_default p\<rparr>)"

text \<open>\<open>queryClient.clear()\<close>, and a new location, which loads the page again.\<close>

definition applyEffects :: "auth_effect list \<Rightarrow> portal \<Rightarrow> portal" where
  "applyEffects effs p =
     (let p1 = (if ClearCache \<in> set effs then p\<lparr>po_log := []\<rparr> else p)
      in if Location ''/login'' \<in> set effs then p1\<lparr>po_default := None, po_log := []\<rparr> else p1)"

fun portal_step :: "portal \<Rightarrow> portal_event \<Rightarrow> portal \<times> path list" where
  "portal_step p (SignIn access refresh) =
     (let (st, effs) = login access refresh (po_auth p) in (applyEffects effs (p\<lparr>po_auth := st\<rparr>), []))"
| "portal_step p SignOut =
     (let (st, effs) = logout (po_auth p) in (applyEffects effs (p\<lparr>po_auth := st\<rparr>), []))"
| "portal_step p (Fetch h now) =
     (let q = queryOf (au_user (po_auth p)) h
      in if q_enabled q
         then (p\<lparr>po_log := po_log p @ [(q_key q, q_url q, fetchAuth now p)]\<rparr>, [q_url q])
         else (p, []))"
| "portal_step p (TokenRefreshed access refresh) =
     (let tb = fst (onRefreshOk (tabOf p) \<lparr>rq_id = 0, rq_retry = True, rq_auth = None\<rparr> access refresh)
      in (p\<lparr>po_auth := (po_auth p)\<lparr>au_local := local_storage tb\<rparr>, po_default := defaultAuth tb\<rparr>, []))"
| "portal_step p (OtherTabWrites s) = (p\<lparr>po_auth := (po_auth p)\<lparr>au_local := s\<rparr>\<rparr>, [])"

definition portalStart :: "int \<Rightarrow> storage \<Rightarrow> storage \<Rightarrow> portal" where
  "portalStart now s session =
     \<lparr>po_auth = initAuth now (providerStart s), po_session = session, po_default = None, po_log = []\<rparr>"

text \<open>Pages fetch behind the guards of the portals, so while somebody is signed in; everything else can happen at
  any moment, the answer of a refresh with any token.\<close>

fun portal_ok :: "portal \<Rightarrow> portal_event \<Rightarrow> bool" where
  "portal_ok p (Fetch h now) = isAuthenticated (po_auth p)"
| "portal_ok p _ = True"

section \<open>Lemmas\<close>

lemmas query_defs = fetching_def ofTenant_def useAdminVouchers_def useResellerVouchers_def
  useCustomerVouchers_def useWalletBalance_def useWalletTransactions_def useMySubscription_def
  useAdminSubscriptions_def useAdminInvoices_def useMyInvoices_def useAdminSessions_def
  useCustomerSessions_def usePackages_def useAdminCustomers_def useResellerCustomers_def
  useCustomerProfile_def useSystemHealth_def useStuckPayments_def useAuditLog_def useRouters_def
  useRouterSummaryQuery_def useTenantMe_def useAdminPayments_def useResellerPayments_def
  useCustomerPayments_def usePaymentStatus_def useRouterStatus_def liveTenant_def

lemmas mutation_defs = ifTenant_def subscriptionsChanged_def useRevokeVoucher_def
  useRetryVoucher_def useGenerateWalletVoucher_def useToggleAutoRenew_def
  useSuspendSubscription_def useReactivateSubscription_def useCreatePackage_def
  useUpdatePackage_def useDeactivatePackage_def useCreateResellerCustomer_def
  useUpdateCustomerProfile_def useAdminCreateUser_def useAdminUpdateUser_def
  useAdminDeleteUser_def useRetryProvisioning_def useCreateRouter_def useUpdateRouter_def
  useDeleteRouter_def useInitMagic_def useInitiateSTKPush_def useTenantPayNow_def

text \<open>What the header of a tab outside impersonation is.\<close>

lemma fetchAuth_token:
  assumes "\<not> truthy (getItem (po_session p) IMPERSONATION_TOKEN_KEY)"
    and "getToken (au_local (po_auth p)) = Some t" "t \<noteq> []" "\<not> isTokenExpired now t"
  shows "fetchAuth now p = Some (bearer t)"
  using assms by (simp add: fetchAuth_def onRequest_def getRequestToken_def tabOf_def freshTab_def Let_def)

lemma getItem_Nil [simp]: "getItem [] k = None"
  by (simp add: getItem_def)

definition names_user :: "string \<Rightarrow> auth_user option \<Rightarrow> bool" where
  "names_user t u \<longleftrightarrow> (\<exists>d. decodeToken t = Some d \<and> u = Some (userOf d))"

text \<open>The tokens that reached the tab past the sign-in form: by a refresh, or by a write of another tab.\<close>

definition outsideTokens :: "portal_event list \<Rightarrow> string set" where
  "outsideTokens es = {t. (\<exists>r. TokenRefreshed t r \<in> set es) \<or> (\<exists>s. OtherTabWrites s \<in> set es \<and> getToken s = Some t)}"

definition accounted :: "string set \<Rightarrow> auth_user option \<Rightarrow> string option \<Rightarrow> bool" where
  "accounted R u a \<longleftrightarrow> (\<forall>h. a = Some h \<longrightarrow> (\<exists>t. h = bearer t \<and> (names_user t u \<or> t \<in> R)))"

definition own_cache :: "string set \<Rightarrow> portal \<Rightarrow> bool" where
  "own_cache R p \<longleftrightarrow>
     \<not> truthy (getItem (po_session p) IMPERSONATION_TOKEN_KEY)
     \<and> (\<forall>t. isAuthenticated (po_auth p) \<and> getToken (au_local (po_auth p)) = Some t
           \<longrightarrow> names_user t (au_user (po_auth p)) \<or> t \<in> R)
     \<and> (\<forall>h. po_default p = Some h \<longrightarrow> (\<exists>t \<in> R. h = bearer t))
     \<and> (\<forall>(k, url, a) \<in> set (po_log p). accounted R (au_user (po_auth p)) a)"

lemma own_cache_start:
  assumes "\<not> truthy (getItem session IMPERSONATION_TOKEN_KEY)"
  shows "own_cache R (portalStart now s session)"
proof -
  have "user_of_token (initAuth now (providerStart s))"
    using auth.run_inv [of s "[OpInit now]"] by simp
  then show ?thesis
    using assms by (auto simp: own_cache_def portalStart_def names_user_def user_of_token_def
        isAuthenticated_def split: option.splits)
qed

lemma own_cache_SignIn: "own_cache R p \<Longrightarrow> own_cache R (fst (portal_step p (SignIn a r)))"
  by (auto simp: own_cache_def login_def applyEffects_def names_user_def isAuthenticated_def truthy_the
      Let_def split: option.splits)

lemma own_cache_SignOut: "own_cache R p \<Longrightarrow> own_cache R (fst (portal_step p SignOut))"
  by (auto simp: own_cache_def logout_def applyEffects_def isAuthenticated_def Let_def)

text \<open>The header of a fetch: the stored token, or the default when that one has expired or is missing.\<close>

lemma fetchAuth_accounted:
  assumes "own_cache R p" and "isAuthenticated (po_auth p)"
  shows "accounted R (au_user (po_auth p)) (fetchAuth now p)"
proof (cases "getToken (au_local (po_auth p))")
  case (Some t)
  have "fetchAuth now p = Some (bearer t) \<or> fetchAuth now p = po_default p"
    using assms(1) Some
    by (auto simp: own_cache_def fetchAuth_def onRequest_def getRequestToken_def tabOf_def freshTab_def Let_def)
  then show ?thesis using assms Some by (auto simp: own_cache_def accounted_def)
next
  case None
  then have "fetchAuth now p = po_default p"
    using assms(1) by (simp add: own_cache_def fetchAuth_def onRequest_def getRequestToken_def tabOf_def freshTab_def Let_def)
  then show ?thesis using assms by (auto simp: own_cache_def accounted_def)
qed

lemma own_cache_Fetch:
  assumes "own_cache R p" and "isAuthenticated (po_auth p)"
  shows "own_cache R (fst (portal_step p (Fetch h now)))"
  using assms fetchAuth_accounted [OF assms, of now] by (auto simp: own_cache_def Let_def)

lemma own_cache_TokenRefreshed:
  assumes "own_cache R p" and "a \<in> R"
  shows "own_cache R (fst (portal_step p (TokenRefreshed a r)))"
  using assms
  by (auto simp: own_cache_def onRefreshOk_def processQueue_def tabOf_def freshTab_def
      isAuthenticated_def truthy_the Let_def split: if_splits)

lemma own_cache_step:
  assumes "own_cache R p" and "portal_ok p e" and "outsideTokens [e] \<subseteq> R"
  shows "own_cache R (fst (portal_step p e))"
proof (cases e)
  case (OtherTabWrites s)
  with assms show ?thesis by (auto simp: own_cache_def outsideTokens_def isAuthenticated_def)
qed (use assms own_cache_SignIn own_cache_SignOut own_cache_Fetch own_cache_TokenRefreshed in
      \<open>auto simp: outsideTokens_def simp del: portal_step.simps\<close>)

text \<open>The keys of all hooks at a glance.\<close>

lemma query_keys:
  "q_key (queryOf u HAdminVouchers) = [KS ''vouchers'', KS ''admin'', KS (tenantIdOf u)]"
  "q_key (queryOf u HResellerVouchers) = [KS ''vouchers'', KS ''reseller'', KS (tenantIdOf u)]"
  "q_key (queryOf u HCustomerVouchers) = [KS ''vouchers'', KS ''customer'', KS (tenantIdOf u)]"
  "q_key (queryOf u HMySubscription) = [KS ''subscriptions'', KS ''mine'', KS (tenantIdOf u)]"
  "q_key (queryOf u HAdminInvoices) = [KS ''invoices'', KS ''admin'', KS (tenantIdOf u)]"
  "q_key (queryOf u HMyInvoices) = [KS ''invoices'', KS ''mine'', KS (tenantIdOf u)]"
  "q_key (queryOf u HAdminSessions) = [KS ''sessions'', KS ''admin'', KS (tenantIdOf u)]"
  "q_key (queryOf u HCustomerSessions) = [KS ''sessions'', KS ''customer'', KS (tenantIdOf u)]"
  "q_key (queryOf u HPackages) = [KS ''packages'', KS ''all'', KS (tenantIdOf u)]"
  "q_key (queryOf u HAdminCustomers) = [KS ''users'', KS ''admin-customers'', KS (tenantIdOf u)]"
  "q_key (queryOf u HResellerCustomers) = [KS ''users'', KS ''reseller-customers'', KS (tenantIdOf u)]"
  "q_key (queryOf u HCustomerProfile) = [KS ''users'', KS ''profile'', KS (tenantIdOf u)]"
  "q_key (queryOf u HSystemHealth) = [KS ''stats'', KS ''system-health'', KS (tenantIdOf u)]"
  "q_key (queryOf u HStuckPayments) = [KS ''stats'', KS ''stuck-payments'', KS (tenantIdOf u)]"
  "q_key (queryOf u HRouters) = [KS ''routers'', KS ''all'', KS (tenantIdOf u)]"
  "q_key (queryOf u HRouterSummary) = [KS ''routers'', KS ''all'', KS (tenantIdOf u)]"
  "q_key (queryOf u HTenantMe) = [KS ''tenant'', KS ''me'', KS (tenantIdOf u)]"
  "q_key (queryOf u HAdminPayments) = [KS ''payments'', KS ''admin'', KS (tenantIdOf u)]"
  "q_key (queryOf u HResellerPayments) = [KS ''payments'', KS ''reseller'', KS (tenantIdOf u)]"
  "q_key (queryOf u HCustomerPayments) = [KS ''payments'', KS ''customer'', KS (tenantIdOf u)]"
  "q_key (queryOf u HWalletBalance) = [KS ''wallet'', KS ''balance'', KS (userIdOf u), KS (tenantIdOf u)]"
  "q_key (queryOf u HWalletTransactions) = [KS ''wallet'', KS ''transactions'', KS (userIdOf u), KS (tenantIdOf u)]"
  "q_key (queryOf u (HAdminSubscriptions st)) =
     [KS ''subscriptions'', KS ''admin'', KS (tenantIdOf u), KS (nullish st ''all'')]"
  "q_key (queryOf u (HAuditLog ac l f)) =
     [KS ''stats'', KS ''audit-log'', KS (tenantIdOf u), KS (nullish ac ''All''), KN l, KN f]"
  "q_key (queryOf u (HPaymentStatus i en)) = [KS ''payments'', KS ''status'', KS i, KS (tenantIdOf u)]"
  "q_key (queryOf u (HRouterStatus ri en)) =
     [KS ''routers'', KS ''onboarding'', KS (nullish ri []), KS (tenantIdOf u)]"
  "q_key (queryOf u HLiveTenant) = [KS ''tenant_me'']"
  by (simp_all add: query_defs)

declare queryOf.simps [simp del] mutationOf.simps [simp del]

text \<open>Only the requests about a single payment, router or wallet have another value before the
  tenant in their key.\<close>

lemma prefix_names_tenant:
  "prefix [KS a, KS b, KS t] (q_key (queryOf v h)) \<Longrightarrow>
     b \<notin> {''status'', ''onboarding'', ''balance'', ''transactions''} \<Longrightarrow> t = tenantIdOf v"
  by (cases h) (simp_all add: query_keys)

lemma wallet_names_tenant:
  "prefix [KS ''wallet'', KS ''balance'', KS r, KS t] (q_key (queryOf v h)) \<Longrightarrow> t = tenantIdOf v"
  by (cases h) (simp_all add: query_keys)

text \<open>What each mutation invalidates.\<close>

lemmas invalidates = mutationOf.simps mutation_defs

lemma invalidates_own_tenant:
  assumes "tenantIdOf u \<noteq> []" and "refreshes (mutationOf u m) (queryOf v h)"
  shows "tenantIdOf v = tenantIdOf u"
  using assms by (cases m) (auto simp: refreshes_def invalidates dest!: prefix_names_tenant wallet_names_tenant)

definition is_list :: "hook \<Rightarrow> bool" where
  "is_list h \<longleftrightarrow> (case h of HPaymentStatus i en \<Rightarrow> False | HRouterStatus i en \<Rightarrow> False | _ \<Rightarrow> True)"

text \<open>Requests below the path of a list that leave the list as it was cached.\<close>

definition leaves_stale :: "mhook \<Rightarrow> hook \<Rightarrow> bool" where
  "leaves_stale m h \<longleftrightarrow>
     (case m of
        MGenerateWalletVoucher data \<Rightarrow> h = HAdminVouchers
      | MRetryProvisioning i \<Rightarrow> h = HAdminPayments
      | MTenantPayNow \<Rightarrow> h = HTenantMe \<or> h = HLiveTenant
      | _ \<Rightarrow> False)"

lemma invalidates_live:
  assumes "tenantIdOf u \<noteq> []" and "k \<in> set (m_invalidates (mutationOf u m))"
  shows "\<exists>h. prefix k (q_key (queryOf u h))"
proof -
  have "list_ex (\<lambda>h. prefix k (q_key (queryOf u h)))
     [HAdminVouchers, HResellerVouchers, HCustomerVouchers, HWalletBalance, HMySubscription,
      HAdminSubscriptions None, HPackages, HResellerCustomers, HCustomerProfile, HAdminCustomers,
      HStuckPayments, HSystemHealth, HRouters]"
    using assms by (cases m) (auto simp: query_keys invalidates)
  then show ?thesis by (auto simp: list_ex_iff)
qed

lemma query_urls:
  "q_url (queryOf u HAdminVouchers) = ''/reseller/vouchers''"
  "q_url (queryOf u HResellerVouchers) = ''/reseller/vouchers''"
  "q_url (queryOf u HCustomerVouchers) = ''/vouchers/me''"
  "q_url (queryOf u HWalletBalance) = ''/reseller/wallet''"
  "q_url (queryOf u HWalletTransactions) = ''/reseller/wallet''"
  "q_url (queryOf u HMySubscription) = ''/subscriptions/me''"
  "q_url (queryOf u (HAdminSubscriptions st)) = ''/admin/subscriptions''"
  "q_url (queryOf u HAdminInvoices) = ''/admin/invoices''"
  "q_url (queryOf u HMyInvoices) = ''/invoices/me''"
  "q_url (queryOf u HAdminSessions) = ''/admin/sessions''"
  "q_url (queryOf u HCustomerSessions) = ''/sessions/me''"
  "q_url (queryOf u HPackages) = ''/packages''"
  "q_url (queryOf u HAdminCustomers) = ''/admin/users''"
  "q_url (queryOf u HResellerCustomers) = ''/reseller/customers''"
  "q_url (queryOf u HCustomerProfile) = ''/customers/me''"
  "q_url (queryOf u HSystemHealth) = ''/admin/system-health''"
  "q_url (queryOf u HStuckPayments) = ''/admin/payments/stuck''"
  "q_url (queryOf u (HAuditLog ac l f)) = ''/admin/audit-log''"
  "q_url (queryOf u HRouters) = ''/admin/routers''"
  "q_url (queryOf u HRouterSummary) = ''/admin/routers''"
  "q_url (queryOf u HTenantMe) = ''/tenants/me''"
  "q_url (queryOf u HAdminPayments) = ''/admin/payments''"
  "q_url (queryOf u HResellerPayments) = ''/reseller/payments''"
  "q_url (queryOf u HCustomerPayments) = ''/payments/me''"
  "q_url (queryOf u HLiveTenant) = ''/tenants/me''"
  "q_url (queryOf u (HPaymentStatus i en)) = ''/payments/'' @ i @ ''/status''"
  "q_url (queryOf u (HRouterStatus ri en)) = ''/admin/routers/onboarding/status/'' @ nullish ri ''null''"
  by (simp_all add: queryOf.simps query_defs)

lemma query_params:
  "q_params (queryOf u h) =
     (case h of
        HAdminSubscriptions st \<Rightarrow>
          (if truthy st \<and> st \<noteq> Some ''All'' then [(''status'', KS (toLowerCase (the st)))] else [])
      | HAuditLog ac l f \<Rightarrow>
          [(''limit'', KN l), (''offset'', KN f)]
          @ (if truthy ac \<and> ac \<noteq> Some ''All'' then [(''action'', KS (the ac))] else [])
      | _ \<Rightarrow> [])"
  by (cases h) (simp_all add: queryOf.simps query_defs)

text \<open>The one pair of hooks that share a key and not a request: the filter \<open>all\<close> in lower case.\<close>

definition clash :: "hook \<Rightarrow> hook \<Rightarrow> bool" where
  "clash h h' \<longleftrightarrow> {h, h'} = {HAdminSubscriptions None, HAdminSubscriptions (Some ''all'')}"

lemma nullish_eq: "nullish x d = nullish y d \<longleftrightarrow> x = y \<or> (x = None \<and> y = Some d) \<or> (x = Some d \<and> y = None)"
  by (cases x; cases y) auto

lemma same_key_same_params:
  assumes "q_key (queryOf u h) = q_key (queryOf v h')" and "\<not> clash h h'"
  shows "q_params (queryOf u h) = q_params (queryOf v h')"
  using assms
  by (cases h; cases h') (simp_all add: query_keys query_params nullish_eq clash_def, auto)

lemma same_key_same_url:
  assumes "q_key (queryOf u h) = q_key (queryOf v h')"
    and "\<forall>en. h \<noteq> HRouterStatus None en" "\<forall>en. h' \<noteq> HRouterStatus None en"
  shows "q_url (queryOf u h) = q_url (queryOf v h')"
  using assms by (cases h; cases h') (simp_all add: query_keys query_urls nullish_eq, auto)

lemma staleness:
  assumes "tenantIdOf u \<noteq> []" and "is_list h"
    and "prefix (q_url (queryOf u h)) (m_url (mutationOf u m))"
  shows "refreshes (mutationOf u m) (queryOf u h) \<longleftrightarrow> \<not> leaves_stale m h"
  using assms
  by (cases m; cases h) (simp_all add: query_keys query_urls refreshes_def invalidates is_list_def leaves_stale_def)

section \<open>Properties\<close>

text \<open>C26: whose data the cache can hold: in a tab outside impersonation, whatever the order of sign-ins, sign-outs,
  fetches of any hook, answers of refreshes with any token and writes of other tabs, everything fetched since
  the cache was cleared was fetched without a token, with a token of the user who is signed in now, or with
  a token that a refresh or another tab put into the storage; so a foreign answer can only come in that way.\<close>

theorem cached_data_is_own:
  assumes "\<not> truthy (getItem session IMPERSONATION_TOKEN_KEY)"
    and "guarded_run portal_ok portal_step (portalStart now s session) es = Some (p, urls)"
    and "(k, url, a) \<in> set (po_log p)"
  shows "a = None
    \<or> (\<exists>t d. a = Some (bearer t) \<and> decodeToken t = Some d \<and> au_user (po_auth p) = Some (userOf d))
    \<or> (\<exists>t r. a = Some (bearer t) \<and> TokenRefreshed t r \<in> set es)
    \<or> (\<exists>t s'. a = Some (bearer t) \<and> OtherTabWrites s' \<in> set es \<and> getToken s' = Some t)"
proof -
  have "own_cache (outsideTokens es) (fst (portal_step q e))"
    if "own_cache (outsideTokens es) q" "portal_ok q e" "e \<in> set es" for q e
    using that by (intro own_cache_step) (auto simp: outsideTokens_def)
  then have "own_cache (outsideTokens es) p"
    using guarded_run_trace(1) [where P = "own_cache (outsideTokens es)" and Q = "\<lambda>_. True", OF assms(2) own_cache_start [OF assms(1)]]
    by blast
  with assms(3) have "accounted (outsideTokens es) (au_user (po_auth p)) a" by (auto simp: own_cache_def)
  then show ?thesis by (cases a) (auto simp: accounted_def names_user_def outsideTokens_def)
qed

text \<open>A second account, of another tenant.\<close>

definition otherClaims :: json where
  "otherClaims = JObj [(''sub'', JStr ''u2''), (''role'', JStr ''admin''), (''tenant_id'', JStr ''t2'')]"

definition otherToken :: string where
  "otherToken = mkToken ''h'' (stringify otherClaims) ''s''"

lemma decode_otherToken:
  "decodeToken otherToken =
     Some \<lparr>dt_sub = Some ''u2'', dt_role = Some ''admin'', dt_reseller_id = None,
           dt_tenant_id = Some ''t2'', dt_tenant_status = None, dt_exp = None, dt_iat = None\<rparr>"
proof -
  have "utf8Valid (map of_char (stringify otherClaims))" by code_simp
  then have "decodeToken otherToken = castToken otherClaims"
    unfolding otherToken_def by (intro decodeToken_mkToken) (simp_all add: otherClaims_def)
  then show ?thesis
    by (simp add: castToken_def otherClaims_def jtruthy_def jfield_str_def jfield_num_def jfield_def)
qed

lemma otherToken_simps [simp]: "\<not> isTokenExpired now otherToken" "otherToken \<noteq> []"
  by (simp_all add: isTokenExpired_def decode_otherToken) (simp add: otherToken_def mkToken_def)

theorem cached_data_is_own_witness:
  "let es = [SignIn sampleToken ''r'', Fetch HPackages 5, SignIn otherToken ''q'', Fetch HLiveTenant 9];
       p = fst (the (guarded_run portal_ok portal_step (portalStart 0 [] []) es))
   in po_log p = [([KS ''tenant_me''], ''/tenants/me'', Some (bearer otherToken))]
      \<and> (\<exists>t d. Some (bearer otherToken) = Some (bearer t) \<and> decodeToken t = Some d
             \<and> au_user (po_auth p) = Some (userOf d))"
proof -
  define es where "es = [SignIn sampleToken ''r'', Fetch HPackages 5, SignIn otherToken ''q'', Fetch HLiveTenant 9]"
  have log: "\<exists>p urls. guarded_run portal_ok portal_step (portalStart 0 [] []) es = Some (p, urls)
     \<and> po_log p = [([KS ''tenant_me''], ''/tenants/me'', Some (bearer otherToken))]"
    by (simp add: es_def guarded_run.simps portalStart_def initAuth_def providerStart_def login_def
        decode_sampleToken decode_otherToken applyEffects_def isAuthenticated_def userOf_def queryOf.simps
        query_defs tenantIdOf_def hasRole_def fetchAuth_token Let_def)
  then obtain p urls where run: "guarded_run portal_ok portal_step (portalStart 0 [] []) es = Some (p, urls)"
    and entry: "po_log p = [([KS ''tenant_me''], ''/tenants/me'', Some (bearer otherToken))]"
    by blast
  have "([KS ''tenant_me''], ''/tenants/me'', Some (bearer otherToken)) \<in> set (po_log p)" by (simp add: entry)
  from cached_data_is_own [OF _ run this]
  have "\<exists>t d. Some (bearer otherToken) = Some (bearer t) \<and> decodeToken t = Some d \<and> au_user (po_auth p) = Some (userOf d)"
    by (auto simp: es_def)
  with run entry show ?thesis by (simp add: es_def Let_def)
qed

text \<open>The cache keeps the data of an account under the key of another tenant when the token
  changes behind the provider's back: after another tab has signed in to a second account, or when
  a refresh of the previous account is answered after the sign-in, the next fetch for the tenant on
  the screen carries the other account's token.\<close>

lemma accounts_mix:
  assumes "decodeToken b = Some db" and "dt_tenant_id db = Some tb" and "tb \<noteq> []"
    and "decodeToken a = Some da" and "dt_tenant_id da = Some ta" and "ta \<noteq> []"
    and "\<not> isTokenExpired now a"
    and "p1 = fst (portal_step (portalStart 0 [] []) (SignIn b q))"
    and "e = TokenRefreshed a r \<or> e = OtherTabWrites (au_local (fst (login a r (po_auth p1))))"
  shows "let p = fst (portal_step (fst (portal_step p1 e)) (Fetch HPackages now))
   in au_user (po_auth p) = Some (userOf db)
      \<and> po_log p = [(queryKeys (PackagesAll tb), ''/packages'', Some (bearer a))]"
proof -
  define p2 where "p2 = fst (portal_step p1 e)"
  have p1: "au_user (po_auth p1) = Some (userOf db)" "po_log p1 = []" "po_session p1 = []"
    using assms(1-3,8)
    by (auto simp: portalStart_def initAuth_def providerStart_def login_def applyEffects_def Let_def)
  then have p2: "au_user (po_auth p2) = Some (userOf db)" "po_log p2 = []" "po_session p2 = []"
    "getToken (au_local (po_auth p2)) = Some a"
    using assms(4-6,9)
    by (auto simp: p2_def login_def onRefreshOk_def processQueue_def tabOf_def freshTab_def Let_def)
  have "a \<noteq> []" using assms(4) by auto
  then have "fetchAuth now p2 = Some (bearer a)"
    using p2 assms(7) by (simp add: fetchAuth_token)
  then show ?thesis
    using p2 assms(2,3)
    by (simp add: queryOf.simps query_defs tenantIdOf_def userOf_def Let_def flip: p2_def)
qed

text \<open>C27: a key identifies its request: two enabled hooks with the same key, whoever is signed in, fetch the same
  path with the same arguments for the same tenant. There are two exceptions. The live status query has no
  tenant in its key, so all tenants share it; and the subscriptions without a filter have the key of those
  with the filter \<open>all\<close>, which is sent as an argument. These are exceptions indeed.\<close>

theorem cache_keys_faithful:
  assumes "q_key (queryOf u h) = q_key (queryOf v h')"
    and "q_enabled (queryOf u h)" and "q_enabled (queryOf v h')"
  shows "q_url (queryOf u h) = q_url (queryOf v h')
      \<and> (tenantIdOf u = tenantIdOf v \<or> h = HLiveTenant \<and> h' = HLiveTenant)
      \<and> (q_params (queryOf u h) = q_params (queryOf v h') \<or> clash h h')
      \<and> q_key (queryOf u HLiveTenant) = q_key (queryOf v HLiveTenant)
      \<and> q_key (queryOf u (HAdminSubscriptions None)) = q_key (queryOf u (HAdminSubscriptions (Some ''all'')))
      \<and> q_params (queryOf u (HAdminSubscriptions None)) \<noteq> q_params (queryOf u (HAdminSubscriptions (Some ''all'')))"
proof -
  have router: "\<forall>en. g \<noteq> HRouterStatus None en" if "q_enabled (queryOf w g)" for w g
    using that by (auto simp: queryOf.simps query_defs routerStatusEnabled_def)
  have "tenantIdOf u = tenantIdOf v \<or> h = HLiveTenant \<and> h' = HLiveTenant"
    using assms(1) by (cases h; cases h') (simp_all add: query_keys)
  with same_key_same_url [OF assms(1) router [OF assms(2)] router [OF assms(3)]]
    same_key_same_params [OF assms(1)]
  show ?thesis by (simp add: query_keys query_params) blast
qed

definition sampleUser :: "auth_user option" where
  "sampleUser = Some \<lparr>user_id = Some ''u1'', user_role = Some ''admin'', user_tenant = Some ''t1''\<rparr>"

theorem cache_keys_faithful_witness:
  "let h = HAuditLog None 50 0; h' = HAuditLog (Some ''All'') 50 0 in
     q_key (queryOf sampleUser h) = q_key (queryOf sampleUser h')
     \<and> q_enabled (queryOf sampleUser h) \<and> q_enabled (queryOf sampleUser h')
     \<and> q_url (queryOf sampleUser h) = q_url (queryOf sampleUser h')
     \<and> (q_params (queryOf sampleUser h) = q_params (queryOf sampleUser h') \<or> clash h h')"
  using cache_keys_faithful [of sampleUser "HAuditLog None 50 0" sampleUser "HAuditLog (Some ''All'') 50 0"]
  by (simp add: queryOf.simps query_defs query_keys sampleUser_def tenantIdOf_def Let_def)

text \<open>What a mutation invalidates is exact: every key it invalidates belongs to a query of the
  same user, no query of another tenant is touched, and a list whose path the mutation's request
  goes below is refreshed, apart from the four pairs of \<open>leaves_stale\<close>, where the page keeps
  showing the old list.\<close>

lemma mutations_refresh_lists:
  assumes "tenantIdOf u \<noteq> []"
  shows "(\<forall>k \<in> set (m_invalidates (mutationOf u m)). \<exists>h. prefix k (q_key (queryOf u h)))
      \<and> (\<forall>v h. refreshes (mutationOf u m) (queryOf v h) \<longrightarrow> tenantIdOf v = tenantIdOf u)
      \<and> (\<forall>h. is_list h \<and> prefix (q_url (queryOf u h)) (m_url (mutationOf u m)) \<longrightarrow>
            (refreshes (mutationOf u m) (queryOf u h) \<longleftrightarrow> \<not> leaves_stale m h))"
  using assms invalidates_live invalidates_own_tenant staleness by blast

text \<open>The wallet page shows a balance and the transactions of one answer; generating a voucher
  refreshes only the first.\<close>

lemma wallet_transactions_stale:
  assumes "tenantIdOf u \<noteq> []"
  shows "q_url (queryOf u HWalletBalance) = q_url (queryOf u HWalletTransactions)
      \<and> refreshes (mutationOf u (MGenerateWalletVoucher data)) (queryOf u HWalletBalance)
      \<and> \<not> refreshes (mutationOf u (MGenerateWalletVoucher data)) (queryOf u HWalletTransactions)"
  using assms by (simp add: query_urls query_keys refreshes_def invalidates)

text \<open>A change of a tenant's status refreshes every page of the tenant list, every detail page and
  the statistics; the super admin's audit log, which records the change, is left as it is.\<close>

lemma tenant_status_refreshes:
  assumes "m = useSuspendTenant t reason \<or> m = useReactivateTenant t"
  shows "refreshes m (useTenants page limit status search)" "refreshes m (useTenantDetail t')"
    "refreshes m usePlatformStats" "\<not> refreshes m (useSuperAdminAuditLog page limit action)"
  using assms
  by (auto simp: refreshes_def useSuspendTenant_def useReactivateTenant_def tenantStatusChanged_def
      useTenants_def useTenantDetail_def usePlatformStats_def useSuperAdminAuditLog_def fetching_def)

text \<open>A query is tried at most twice, and once only when the first failure is a 401.\<close>

lemma attempts_bounded: "attemptsFrom 0 es \<le> 2" "attemptsFrom 0 (AxiosError (Some 401) # es) = 1"
  by (cases es rule: list.exhaust; cases "tl es") (auto simp: retryQuery_def)

end
