(* ===== verification/Byte_Sizes.thy ===== *)
theory Byte_Sizes
  imports Json
begin

text \<open>
  The display of amounts of data and money: \<open>formatBytes\<close> and the choice of decimals of \<open>formatKES\<close> in
  \<open>lib/utils.ts\<close>. The quotient \<open>Math.log(bytes) / Math.log(k)\<close> is an argument, because the language leaves
  the precision of \<open>Math.log\<close> to the implementation; the division by a power of two and \<open>toFixed\<close> are exact.
\<close>

section \<open>Definitions\<close>

definition byteUnits :: "string list" where
  "byteUnits = [''Bytes'', ''KB'', ''MB'', ''GB'', ''TB'']"

text \<open>\<open>sizes[i]\<close>, which is \<open>undefined\<close> outside of the array.\<close>

definition unitAt :: "int \<Rightarrow> string" where
  "unitAt i = (if 0 \<le> i \<and> i < int (length byteUnits) then byteUnits ! nat i else ''undefined'')"

definition kPow :: "int \<Rightarrow> rat" where
  "kPow i = (if 0 \<le> i then 1024 ^ nat i else 1 / 1024 ^ nat (- i))"

text \<open>\<open>parseFloat(x.toFixed(2))\<close>: the nearest hundredth, the larger one of two.\<close>

definition toFixed2 :: "rat \<Rightarrow> rat" where
  "toFixed2 x = of_int \<lfloor>100 * x + 1 / 2\<rfloor> / 100"

definition formatBytesAt :: "rat \<Rightarrow> int \<Rightarrow> string" where
  "formatBytesAt logQuotient bytes =
     (if bytes = 0 then ''0 Bytes''
      else if bytes < 0 then ''NaN undefined''
      else (let i = \<lfloor>logQuotient\<rfloor> in showNum (toFixed2 (of_int bytes / kPow i)) @ '' '' @ unitAt i))"

text \<open>The number of decimals \<open>formatKES\<close> asks for; amounts are in cents.\<close>

definition kesDigits :: "int \<Rightarrow> nat" where
  "kesDigits cents = (if cents mod 100 = 0 then 0 else 2)"

section \<open>Lemmas\<close>

text \<open>A logarithm that is off by less than \<open>2^-40\<close> is off by less than a millionth in the argument.\<close>

lemma log_slack: "1024 powr (1 / 2 ^ 40) \<le> (1 + 1 / 10 ^ 6 :: real)"
proof -
  let ?e = "1 / 10 ^ 6 :: real"
  have "1024 \<le> 1 + real (2 ^ 40) * ?e" by simp
  also have "\<dots> \<le> (1 + ?e) ^ (2 ^ 40)" by (rule Bernoulli_inequality) simp
  also have "\<dots> = (1 + ?e) powr real (2 ^ 40)" by (rule powr_realpow [symmetric]) simp
  finally have "1024 powr (1 / 2 ^ 40) \<le> ((1 + ?e) powr real (2 ^ 40)) powr (1 / 2 ^ 40)"
    by (intro powr_mono2) auto
  also have "\<dots> = 1 + ?e" by (subst powr_powr) simp
  finally show ?thesis .
qed

definition accurate :: "rat \<Rightarrow> int \<Rightarrow> bool" where
  "accurate l b \<longleftrightarrow> \<bar>of_rat l - log 1024 (real_of_int b)\<bar> < 1 / 2 ^ 40 \<and> (b = 1 \<longrightarrow> l = 0)"

lemma accurate_nonneg:
  assumes "accurate l b" and "0 < b"
  shows "0 \<le> \<lfloor>l\<rfloor>"
proof (cases "b = 1")
  case False
  with assms(2) have "2 \<le> real_of_int b" by simp
  moreover have "log 1024 2 = (1 / 10 :: real)"
    using log_pow_cancel [of "2 :: real" 10] by (simp add: log_base_pow [of 2 10 2, simplified])
  ultimately have "1 / 10 \<le> log 1024 (real_of_int b)"
    by (metis log_le_cancel_iff one_less_numeral_iff order_less_le_trans semiring_norm(76) zero_less_numeral)
  moreover have "log 1024 (real_of_int b) - of_rat l < 1 / 2 ^ 40" using assms(1) unfolding accurate_def by linarith
  moreover have "1 / 2 ^ 40 < (1 / 10 :: real)" by simp
  ultimately have "0 < real_of_rat l" by linarith
  then show ?thesis by simp
qed (use assms in \<open>simp add: accurate_def\<close>)

lemma accurate_window:
  assumes "accurate l b" and "0 < b"
  shows "1024 ^ nat \<lfloor>l\<rfloor> \<le> real_of_int b * (1 + 1 / 10 ^ 6)"
    and "real_of_int b \<le> 1024 ^ Suc (nat \<lfloor>l\<rfloor>) * (1 + 1 / 10 ^ 6)"
proof -
  define i where "i = nat \<lfloor>l\<rfloor>"
  let ?b = "real_of_int b" let ?s = "1024 powr (1 / 2 ^ 40) :: real"
  have i: "of_nat i \<le> l" "l < of_nat i + 1"
  proof -
    have "of_nat i = (of_int \<lfloor>l\<rfloor> :: rat)" using accurate_nonneg [OF assms] by (simp add: i_def)
    then show "of_nat i \<le> l" "l < of_nat i + 1" by linarith+
  qed
  then have "real i \<le> of_rat l" "of_rat l < real i + 1"
    using of_rat_less_eq [of "of_nat i" l, where ?'a = real] of_rat_less [of l "of_nat i + 1", where ?'a = real]
    by (simp_all add: of_rat_add)
  then have w: "real i \<le> log 1024 ?b + 1 / 2 ^ 40" "log 1024 ?b \<le> real (Suc i) + 1 / 2 ^ 40"
    using assms(1) unfolding accurate_def of_nat_Suc by linarith+
  have b: "1024 powr log 1024 ?b = ?b" using assms(2) by simp
  have "1024 ^ i = 1024 powr real i" by (simp add: powr_realpow)
  also have "\<dots> \<le> 1024 powr (log 1024 ?b + 1 / 2 ^ 40)" using w(1) by (intro powr_mono) auto
  also have "\<dots> = ?b * ?s" by (simp add: powr_add b)
  also have "\<dots> \<le> ?b * (1 + 1 / 10 ^ 6)" using log_slack assms(2) by (intro mult_left_mono) auto
  finally show "1024 ^ nat \<lfloor>l\<rfloor> \<le> real_of_int b * (1 + 1 / 10 ^ 6)" by (simp add: i_def)
  have "?b = 1024 powr log 1024 ?b" using b by simp
  also have "\<dots> \<le> 1024 powr (real (Suc i) + 1 / 2 ^ 40)" using w(2) by (intro powr_mono) auto
  also have "\<dots> = 1024 powr real (Suc i) * ?s" by (simp only: powr_add)
  also have "\<dots> = 1024 ^ Suc i * ?s" by (subst powr_realpow) simp_all
  also have "\<dots> \<le> 1024 ^ Suc i * (1 + 1 / 10 ^ 6)" using log_slack by (intro mult_left_mono) auto
  finally show "real_of_int b \<le> 1024 ^ Suc (nat \<lfloor>l\<rfloor>) * (1 + 1 / 10 ^ 6)" by (simp add: i_def)
qed

lemma toFixed2_near: "\<bar>toFixed2 x - x\<bar> \<le> 1 / 200"
proof -
  have "of_int \<lfloor>100 * x + 1 / 2\<rfloor> \<le> 100 * x + 1 / 2" "100 * x + 1 / 2 < of_int \<lfloor>100 * x + 1 / 2\<rfloor> + 1" by linarith+
  then show ?thesis unfolding toFixed2_def abs_le_iff by (simp add: field_simps)
qed

lemma toFixed2_int [simp]: "toFixed2 (of_int n) = of_int n"
proof -
  have "\<lfloor>100 * of_int n + 1 / 2 :: rat\<rfloor> = 100 * n" by linarith
  then show ?thesis by (simp add: toFixed2_def)
qed

lemma toFixed2_range:
  assumes "1 \<le> x * (1 + 1 / 10 ^ 6)" and "x \<le> 1024 * (1 + 1 / 10 ^ 6)"
  shows "1 \<le> toFixed2 x" and "toFixed2 x \<le> 1024"
proof -
  have "100 \<le> \<lfloor>100 * x + 1 / 2\<rfloor>" using assms(1) by (simp add: le_floor_iff)
  then show "1 \<le> toFixed2 x" by (simp add: toFixed2_def)
  have "\<lfloor>100 * x + 1 / 2\<rfloor> \<le> 102400" using assms(2) by (simp add: floor_le_iff)
  then show "toFixed2 x \<le> 1024" by (simp add: toFixed2_def)
qed

lemma formatBytesAt_shape:
  assumes "accurate l b" and "0 < b"
  shows "formatBytesAt l b = showNum (toFixed2 (of_int b / 1024 ^ nat \<lfloor>l\<rfloor>)) @ '' '' @ unitAt \<lfloor>l\<rfloor>"
  using accurate_nonneg [OF assms] assms(2) by (simp add: formatBytesAt_def kPow_def Let_def)

text \<open>Past the last unit there is none, and an amount just below a unit is rounded up to 1024 of the
  smaller one.\<close>

lemma no_petabytes: "formatBytesAt 5 (1024 ^ 5) = ''1 undefined''"
  by code_simp

lemma a_megabyte_in_kilobytes: "formatBytesAt (199 / 100) (1024 ^ 2 - 1) = ''1024 KB''"
  by code_simp

section \<open>Properties\<close>

text \<open>C29: The amounts of data on the pages are right to the second decimal: for a positive amount of up to 1023
  terabytes and a logarithm off by less than \<open>2^-40\<close>, the text is a number from 1 to 1024 and one of
  the five units, the number is within half a hundredth of the amount in that unit, and every amount below a
  kilobyte is shown exactly, in bytes.\<close>

theorem format_bytes_accurate:
  assumes "0 < b" and "b \<le> 1023 * 1024 ^ 4" and "accurate l b"
  shows "\<exists>v i. formatBytesAt l b = showNum v @ '' '' @ byteUnits ! i \<and> i < 5 \<and> 1 \<le> v \<and> v \<le> 1024
    \<and> \<bar>v * 1024 ^ i - of_int b\<bar> \<le> 1024 ^ i / 200
    \<and> (b < 1024 \<longrightarrow> i = 0 \<and> v = of_int b \<and> formatBytesAt l b = showNum (of_int b) @ '' Bytes'')"
proof -
  define i where "i = nat \<lfloor>l\<rfloor>" define x where "x = (of_int b / 1024 ^ i :: rat)"
  have floor: "\<lfloor>l\<rfloor> = int i" using accurate_nonneg [OF assms(3,1)] by (simp add: i_def)
  have low: "1024 ^ i \<le> real_of_int b * (1 + 1 / 10 ^ 6)" and high: "real_of_int b \<le> 1024 ^ Suc i * (1 + 1 / 10 ^ 6)"
    using accurate_window [OF assms(3,1)] by (simp_all add: i_def)
  have "real_of_int b \<le> 1023 * 1024 ^ 4"
    using of_int_le_iff [of b "1023 * 1024 ^ 4", where ?'a = real] assms(2) by simp
  with low have "(1024 :: real) ^ i < 1024 ^ 5" by simp
  then have i: "i < 5" by (rule power_less_imp_less_exp [rotated]) simp
  have ints: "10 ^ 6 * 1024 ^ i \<le> b * (10 ^ 6 + 1)" "10 ^ 6 * b \<le> 1024 ^ Suc i * (10 ^ 6 + 1)"
    using low high of_int_le_iff [of "10 ^ 6 * 1024 ^ i" "b * (10 ^ 6 + 1)", where ?'a = real]
      of_int_le_iff [of "10 ^ 6 * b" "1024 ^ Suc i * (10 ^ 6 + 1)", where ?'a = real] by simp_all
  have "10 ^ 6 * 1024 ^ i \<le> rat_of_int b * (10 ^ 6 + 1)" "10 ^ 6 * rat_of_int b \<le> 1024 ^ Suc i * (10 ^ 6 + 1)"
    using ints [THEN of_int_le_iff [where ?'a = rat, THEN iffD2]] by simp_all
  then have "1 \<le> x * (1 + 1 / 10 ^ 6)" "x \<le> 1024 * (1 + 1 / 10 ^ 6)"
    by (simp_all add: x_def field_simps)
  note range = toFixed2_range [OF this]
  have "\<bar>toFixed2 x * 1024 ^ i - of_int b\<bar> = \<bar>toFixed2 x - x\<bar> * 1024 ^ i"
    by (simp add: x_def flip: abs_mult_pos) (simp add: field_simps)
  also have "\<dots> \<le> 1 / 200 * 1024 ^ i" using toFixed2_near [of x] by (intro mult_right_mono) auto
  finally have "\<bar>toFixed2 x * 1024 ^ i - of_int b\<bar> \<le> 1024 ^ i / 200" by simp
  moreover have shown: "formatBytesAt l b = showNum (toFixed2 x) @ '' '' @ byteUnits ! i"
    using formatBytesAt_shape [OF assms(3,1)] i by (simp add: floor x_def unitAt_def byteUnits_def)
  moreover have "i = 0 \<and> toFixed2 x = of_int b \<and> formatBytesAt l b = showNum (of_int b) @ '' Bytes''" if "b < 1024"
  proof -
    have "real_of_int b \<le> 1023" using that by linarith
    with low have "(1024 :: real) ^ i < 1024 ^ 1" by simp
    then have "i < 1" by (rule power_less_imp_less_exp [rotated]) simp
    then show ?thesis using shown by (simp add: x_def byteUnits_def)
  qed
  ultimately show ?thesis using range i by blast
qed

theorem format_bytes_accurate_witness:
  "accurate (1 :: rat) 1024
   \<and> (\<exists>v i. formatBytesAt 1 1024 = showNum v @ '' '' @ byteUnits ! i \<and> i < 5 \<and> 1 \<le> v \<and> v \<le> 1024
        \<and> \<bar>v * 1024 ^ i - 1024\<bar> \<le> 1024 ^ i / 200)
   \<and> accurate (0 :: rat) 1 \<and> formatBytesAt 0 1 = showNum 1 @ '' Bytes''"
proof -
  have kilo: "accurate (1 :: rat) 1024" and one: "accurate (0 :: rat) 1" by (simp_all add: accurate_def)
  have "formatBytesAt 0 1 = showNum 1 @ '' Bytes''" using format_bytes_accurate [OF _ _ one] by auto
  moreover have "\<exists>v i. formatBytesAt 1 1024 = showNum v @ '' '' @ byteUnits ! i \<and> i < 5 \<and> 1 \<le> v \<and> v \<le> 1024
        \<and> \<bar>v * 1024 ^ i - 1024\<bar> \<le> 1024 ^ i / 200"
    using format_bytes_accurate [OF _ _ kilo] by auto
  ultimately show ?thesis using kilo one by blast
qed

end
