(* ===== verification/Tables.thy ===== *)
theory Tables
  imports Format Submission Byte_Sizes "HOL-Library.Multiset"
begin

text \<open>
  What the list pages have in common: the records of the API (\<open>types/vouchers.ts\<close>,
  \<open>types/payments.ts\<close>, \<open>types/users.ts\<close>, \<open>types/subscriptions.ts\<close>, \<open>types/invoices.ts\<close>,
  \<open>types/sessions.ts\<close>), the badge of \<open>components/shared/StatusBadge.tsx\<close>, sorting by date, filtering
  by a tab, searching, and cutting a list into pages. The locale \<open>table\<close> is the contract of a
  sorted and filtered table: every row that matches is shown once, no other is, the newest first.
  The locale \<open>pager\<close> is the contract of a list cut into pages.

  The clock, the parsing and display of dates, the layout of a currency amount and the logarithm belong to
  the JavaScript runtime, to \<open>Intl\<close> and to date-fns; they are the fields of \<open>intl\<close>.
\<close>

section \<open>Records\<close>

record intl =
  getTime :: "string \<Rightarrow> int"
  showDate :: "string \<Rightarrow> string"
  numberFormatKES :: "nat \<Rightarrow> int \<Rightarrow> string"
  logQuotient :: "int \<Rightarrow> rat"
  distanceToNow :: "string \<Rightarrow> string"
  showDay :: "string \<Rightarrow> string"
  validDate :: "string \<Rightarrow> bool"

definition formatKES :: "intl \<Rightarrow> int \<Rightarrow> string" where
  "formatKES i amount = numberFormatKES i (kesDigits amount) amount"

definition formatBytes :: "intl \<Rightarrow> int \<Rightarrow> string" where
  "formatBytes i bytes = formatBytesAt (logQuotient i bytes) bytes"

definition formatNairobiDate :: "intl \<Rightarrow> string \<Rightarrow> string" where
  "formatNairobiDate i s = (if s = [] then [] else showDate i s)"

record voucher =
  vo_id :: string
  vo_code :: string
  vo_status :: string
  vo_expires_at :: string
  vo_activated_at :: "string option"
  vo_created_at :: string
  vo_customer_id :: string
  vo_package_id :: string
  vo_package_name :: string
  vo_payment_id :: string

record payment =
  py_id :: string
  py_customer_id :: string
  py_package_id :: string
  py_package_name :: string
  py_amount_kes :: int
  py_status :: string
  py_phone_number :: string
  py_mpesa_receipt_number :: "string option"
  py_created_at :: string

record user =
  us_id :: string
  us_email :: string
  us_phone :: string
  us_role :: string
  us_reseller_id :: "string option"
  us_router_id :: "string option"
  us_is_active :: bool
  us_created_at :: string

record subscription =
  sb_id :: string
  sb_customer_id :: string
  sb_package_id :: string
  sb_package_name :: string
  sb_status :: string
  sb_current_period_end :: string
  sb_auto_renew :: bool
  sb_created_at :: string

record invoice =
  iv_id :: string
  iv_payment_id :: string
  iv_invoice_number :: int
  iv_kra_etims_qr_code :: "string option"
  iv_pdf_url :: "string option"
  iv_amount_kes :: int
  iv_created_at :: string

record session =
  se_id :: string
  se_voucher_id :: string
  se_customer_id :: string
  se_mac_address :: "string option"
  se_ip_address :: "string option"
  se_bytes_uploaded :: int
  se_bytes_downloaded :: int
  se_started_at :: string
  se_ended_at :: "string option"

section \<open>Operations on lists\<close>

text \<open>\<open>[...xs].sort((a, b) => new Date(b.t).getTime() - new Date(a.t).getTime())\<close>; JavaScript's
  sort is stable.\<close>

definition newestFirst :: "('a \<Rightarrow> int) \<Rightarrow> 'a list \<Rightarrow> 'a list" where
  "newestFirst time xs = sort_key (\<lambda>x. - time x) xs"

text \<open>A tab filter: \<open>all\<close> keeps everything.\<close>

definition byTab :: "('a \<Rightarrow> string) \<Rightarrow> string \<Rightarrow> 'a list \<Rightarrow> 'a list" where
  "byTab field sel xs = (if sel \<noteq> ''all'' then filter (\<lambda>x. field x = sel) xs else xs)"

text \<open>\<open>s.includes(q)\<close>.\<close>

fun strIncludes :: "string \<Rightarrow> string \<Rightarrow> bool" where
  "strIncludes [] q = (q = [])"
| "strIncludes (c # s) q = (take (length q) (c # s) = q \<or> strIncludes s q)"

text \<open>The search boxes: the email without regard to case, the phone number as typed.\<close>

definition userMatches :: "string \<Rightarrow> user \<Rightarrow> bool" where
  "userMatches q u \<longleftrightarrow>
     strIncludes (toLowerCase (us_email u)) (toLowerCase q) \<or> strIncludes (us_phone u) (toLowerCase q)"

text \<open>\<open>xs?.find(p)\<close>.\<close>

definition findIn :: "'a list option \<Rightarrow> ('a \<Rightarrow> bool) \<Rightarrow> 'a option" where
  "findIn xs P = Option.bind xs (List.find P)"

definition getCustomerPhone :: "user list option \<Rightarrow> string \<Rightarrow> string" where
  "getCustomerPhone customers cid =
     orElse (map_option us_phone (findIn customers (\<lambda>c. us_id c = cid))) ''Unknown''"

definition getVoucherForPayment :: "voucher list option \<Rightarrow> string \<Rightarrow> voucher option" where
  "getVoucherForPayment vouchers pid = findIn vouchers (\<lambda>v. vo_payment_id v = pid)"

text \<open>\<open>s.substring(0, 8) + '...'\<close>.\<close>

definition shortId :: "string \<Rightarrow> string" where
  "shortId s = take 8 s @ ''...''"

section \<open>Badges and tabs\<close>

definition underscoresToSpaces :: "string \<Rightarrow> string" where
  "underscoresToSpaces s = map (\<lambda>c. if c = CHR ''_'' then CHR '' '' else c) s"

definition statusBadge :: "string \<Rightarrow> 'a view" where
  "statusBadge status = Txt (underscoresToSpaces (if status = [] then ''unknown'' else status))"

definition statusColor :: "string \<Rightarrow> string" where
  "statusColor status =
     (if status = ''pending'' then ''amber''
      else if status \<in> {''confirmed'', ''active''} then ''green''
      else if status \<in> {''failed'', ''revoked'', ''suspended''} then ''red''
      else if status = ''used'' then ''blue''
      else if status = ''pending_provision'' then ''yellow''
      else if status = ''grace'' then ''orange''
      else ''gray'')"

definition tabList :: "(string \<Rightarrow> 'a) \<Rightarrow> (string \<times> string) list \<Rightarrow> 'a view list" where
  "tabList act ts = map (\<lambda>(v, l). Btn False [Txt l] (act v)) ts"

definition headers :: "string list \<Rightarrow> 'a view list" where
  "headers hs = map Txt hs"

text \<open>The three states of a table body: loading, nothing to show, the rows.\<close>

definition tableBody :: "bool \<Rightarrow> string \<Rightarrow> ('r \<Rightarrow> 'a view) \<Rightarrow> 'r list \<Rightarrow> 'a view list" where
  "tableBody isLoading none row rs =
     (if isLoading then [] else if rs = [] then [Txt none] else map row rs)"

section \<open>The contract of a table\<close>

text \<open>Each page keeps this contract for its own records, filter and date; what it means for the
  reader is proved here once.\<close>

locale table =
  fixes rows :: "'f \<Rightarrow> 'r list \<Rightarrow> 'r list"
    and keep :: "'f \<Rightarrow> 'r \<Rightarrow> bool"
    and time :: "'r \<Rightarrow> int"
  assumes rows_exact: "mset (rows f xs) = filter_mset (keep f) (mset xs)"
    and rows_sorted: "sorted_wrt (\<lambda>a b. time b \<le> time a) (rows f xs)"
begin

lemma shown_iff: "r \<in> set (rows f xs) \<longleftrightarrow> r \<in> set xs \<and> keep f r"
proof -
  have "r \<in># mset (rows f xs) \<longleftrightarrow> r \<in># filter_mset (keep f) (mset xs)" by (simp add: rows_exact)
  then show ?thesis by simp
qed

lemma shown_once: "distinct xs \<Longrightarrow> distinct (rows f xs)"
proof -
  assume "distinct xs"
  then have "distinct (filter (keep f) xs)" by simp
  moreover have "mset (rows f xs) = mset (filter (keep f) xs)" by (simp add: rows_exact)
  ultimately show ?thesis by (metis mset_eq_imp_distinct_iff)
qed

lemma empty_iff: "rows f xs = [] \<longleftrightarrow> (\<forall>r \<in> set xs. \<not> keep f r)"
  using shown_iff by (metis empty_set ex_in_conv list.set_intros(1) neq_Nil_conv)

lemma first_newest: "rows f xs = r # rs \<Longrightarrow> s \<in> set xs \<Longrightarrow> keep f s \<Longrightarrow> time s \<le> time r"
  using rows_sorted [of f xs] shown_iff [of s f xs] by auto

end

lemma mset_newestFirst [simp]: "mset (newestFirst time xs) = mset xs"
  by (simp add: newestFirst_def)

lemma set_newestFirst [simp]: "set (newestFirst time xs) = set xs"
  by (simp add: newestFirst_def)

lemma length_newestFirst [simp]: "length (newestFirst time xs) = length xs"
  by (simp add: newestFirst_def)

lemma sorted_newestFirst: "sorted_wrt (\<lambda>a b. time b \<le> time a) (newestFirst time xs)"
proof -
  have "sorted (map (\<lambda>x. - time x) (newestFirst time xs))" by (simp add: newestFirst_def)
  then show ?thesis by (simp add: sorted_wrt_map)
qed

text \<open>Rows of the same time keep the order in which the API returned them.\<close>

lemma newestFirst_stable: "filter (\<lambda>x. time x = t) (newestFirst time xs) = filter (\<lambda>x. time x = t) xs"
proof -
  have "(\<lambda>x. time x = t) = (\<lambda>x. - time x = - t)" by auto
  then show ?thesis
    unfolding newestFirst_def using sort_key_stable [of "\<lambda>x. - time x" "- t" xs] by simp
qed

text \<open>The newest \<open>n\<close> of a list, as the boxes of recent records show them.\<close>

definition newest_of :: "('a \<Rightarrow> int) \<Rightarrow> nat \<Rightarrow> 'a list \<Rightarrow> 'a list \<Rightarrow> bool" where
  "newest_of time n xs ys \<longleftrightarrow> length ys = min n (length xs) \<and> sorted_wrt (\<lambda>a b. time b \<le> time a) ys
     \<and> (\<exists>rest. mset xs = mset ys + mset rest \<and> (\<forall>y \<in> set ys. \<forall>r \<in> set rest. time r \<le> time y))"

lemma newest_of_take: "newest_of time n xs (take n (newestFirst time xs))"
proof -
  let ?s = "newestFirst time xs"
  have "sorted_wrt (\<lambda>a b. time b \<le> time a) (take n ?s @ drop n ?s)"
    using sorted_newestFirst [of time xs] by simp
  then have "sorted_wrt (\<lambda>a b. time b \<le> time a) (take n ?s)"
    "\<forall>y \<in> set (take n ?s). \<forall>r \<in> set (drop n ?s). time r \<le> time y"
    unfolding sorted_wrt_append by auto
  moreover have "mset xs = mset (take n ?s) + mset (drop n ?s)"
    by (metis append_take_drop_id mset_append mset_newestFirst)
  ultimately show ?thesis unfolding newest_of_def by auto
qed

lemma byTab_mset: "mset (byTab field sel xs) = filter_mset (\<lambda>x. sel = ''all'' \<or> field x = sel) (mset xs)"
  by (auto simp: byTab_def)

lemma byTab_sorted: "sorted_wrt P xs \<Longrightarrow> sorted_wrt P (byTab field sel xs)"
  by (simp add: byTab_def sorted_wrt_filter)

lemmas table_laws = byTab_mset byTab_sorted sorted_newestFirst

lemma strIncludes_sublist: "strIncludes s q \<longleftrightarrow> sublist q s"
proof (induction s)
  case (Cons c s)
  then show ?case
    by (simp add: sublist_Cons_right prefix_def) (metis append_eq_conv_conj append_take_drop_id)
qed simp

lemma strIncludes_Nil [simp]: "strIncludes s []"
  by (cases s) simp_all

lemma findIn_Some: "findIn xs P = Some x \<Longrightarrow> x \<in> set (nullish xs []) \<and> P x"
  by (cases xs) (auto simp: findIn_def find_Some_iff)

section \<open>The contract of a pager\<close>

definition totalPages :: "nat \<Rightarrow> nat \<Rightarrow> nat" where
  "totalPages per n = (n + per - 1) div per"

definition slice :: "nat \<Rightarrow> nat \<Rightarrow> 'a list \<Rightarrow> 'a list" where
  "slice i j xs = take (j - i) (drop i xs)"

text \<open>The page numbers start at 1.\<close>

definition pageOf :: "nat \<Rightarrow> nat \<Rightarrow> 'a list \<Rightarrow> 'a list" where
  "pageOf per p xs = slice ((p - 1) * per) ((p - 1) * per + per) xs"

locale pager =
  fixes per :: nat
    and cut :: "nat \<Rightarrow> 'a list \<Rightarrow> 'a list"
    and pages :: "'a list \<Rightarrow> nat"
  assumes per_pos: "0 < per"
    and cut_eq: "1 \<le> p \<Longrightarrow> cut p xs = take per (drop ((p - 1) * per) xs)"
    and pages_eq: "pages xs = (length xs + per - 1) div per"
begin

lemma first_pages: "concat (map (\<lambda>p. cut p xs) [1..<Suc n]) = take (n * per) xs"
proof (induction n)
  case (Suc n)
  have "concat (map (\<lambda>p. cut p xs) [1..<Suc (Suc n)]) = take (n * per) xs @ cut (Suc n) xs"
    using Suc by simp
  also have "\<dots> = take (n * per) xs @ take per (drop (n * per) xs)"
    using cut_eq [of "Suc n" xs] by simp
  also have "\<dots> = take (Suc n * per) xs"
    by (metis add.commute mult_Suc take_add)
  finally show ?case .
qed simp

lemma enough: "length xs \<le> pages xs * per"
proof -
  have "(length xs + per - 1) mod per < per" using per_pos by simp
  then have "length xs + per - 1 < pages xs * per + per"
    unfolding pages_eq by (metis add_less_cancel_left div_mult_mod_eq)
  then show ?thesis using per_pos by linarith
qed

lemma pages_are_everything: "concat (map (\<lambda>p. cut p xs) [1..<Suc (pages xs)]) = xs"
  using first_pages [of xs "pages xs"] enough [of xs] by simp

lemma pages_not_empty:
  assumes "1 \<le> p" "p \<le> pages xs"
  shows "cut p xs \<noteq> []"
proof -
  have "pages xs * per \<le> length xs + per - 1"
    unfolding pages_eq by (metis div_mult_mod_eq le_add1)
  moreover have "p * per \<le> pages xs * per" using assms(2) by simp
  ultimately have "(p - 1) * per < length xs"
    using assms(1) per_pos by (cases p) auto
  then show ?thesis using cut_eq [OF assms(1)] per_pos by simp
qed

end

end
