(* ===== verification/Ledger_Pages.thy ===== *)
theory Ledger_Pages
  imports Query_Cache Tables
begin

text \<open>
  The pages that list what the service recorded: vouchers (\<open>pages/admin/VouchersPage.tsx\<close>, its
  reseller and customer variants), payments (\<open>pages/admin/PaymentsPage.tsx\<close>, its reseller variant)
  and sessions (\<open>pages/admin/SessionsPage.tsx\<close>). The data of a query is loading, loaded or failed;
  what a page sends is a mutation of \<open>Query_Cache\<close>.
\<close>

section \<open>Data and effects of a page\<close>

datatype 'd fetched = FLoading | FLoaded 'd | FFailed

fun dataOf :: "'d fetched \<Rightarrow> 'd option" where
  "dataOf (FLoaded d) = Some d"
| "dataOf _ = None"

definition isLoadingQuery :: "'d fetched \<Rightarrow> bool" where
  "isLoadingQuery q \<longleftrightarrow> q = FLoading"

text \<open>An answer of a query: data, or a failure, which leaves data that is already there.\<close>

fun answered :: "'d option \<Rightarrow> 'd fetched \<Rightarrow> 'd fetched" where
  "answered (Some d) q = FLoaded d"
| "answered None (FLoaded d) = FLoaded d"
| "answered None q = FFailed"

datatype page_out =
    Mutate mhook
  | Clipboard string
  | ToastSuccess string
  | ToastError string
  | Goto path
  | Refetch hook

text \<open>The form library checks all fields on a submit; after the first submit it checks a field again
  when it changes: the errors of that field become those of the schema, the others stay.\<close>

definition recheck :: "bool \<Rightarrow> string \<Rightarrow> field_errors \<Rightarrow> field_errors \<Rightarrow> field_errors" where
  "recheck isSubmitted n fresh errs =
     (if isSubmitted then filter (\<lambda>e. fst e \<noteq> n) errs @ filter (\<lambda>e. fst e = n) fresh else errs)"

section \<open>Vouchers\<close>

record voucher_page =
  vp_vouchers :: "voucher list fetched"
  vp_customers :: "user list fetched"
  vp_statusFilter :: string
  vp_revoking :: bool
  vp_retrying :: bool

datatype voucher_action =
    VouchersAnswer "voucher list option"
  | CustomersAnswer "user list option"
  | SetVoucherTab string
  | CopyCode string
  | RevokeClick string
  | RevokeSettled bool
  | RetryClick string
  | RetrySettled bool

definition voucherStart :: voucher_page where
  "voucherStart =
     \<lparr>vp_vouchers = FLoading, vp_customers = FLoading, vp_statusFilter = ''all'', vp_revoking = False,
      vp_retrying = False\<rparr>"

definition filteredVouchers :: "intl \<Rightarrow> string \<Rightarrow> voucher list option \<Rightarrow> voucher list" where
  "filteredVouchers i statusFilter vouchers =
     (case vouchers of
        None \<Rightarrow> []
      | Some vs \<Rightarrow> byTab vo_status statusFilter (newestFirst (\<lambda>v. getTime i (vo_created_at v)) vs))"

fun voucher_step :: "voucher_page \<Rightarrow> voucher_action \<Rightarrow> voucher_page \<times> page_out list" where
  "voucher_step p (VouchersAnswer d) = (p\<lparr>vp_vouchers := answered d (vp_vouchers p)\<rparr>, [])"
| "voucher_step p (CustomersAnswer d) = (p\<lparr>vp_customers := answered d (vp_customers p)\<rparr>, [])"
| "voucher_step p (SetVoucherTab t) = (p\<lparr>vp_statusFilter := t\<rparr>, [])"
| "voucher_step p (CopyCode c) = (p, [Clipboard c, ToastSuccess ''Voucher code copied to clipboard''])"
| "voucher_step p (RevokeClick v) = (p\<lparr>vp_revoking := True\<rparr>, [Mutate (MRevokeVoucher v)])"
| "voucher_step p (RevokeSettled ok) =
     (p\<lparr>vp_revoking := False\<rparr>,
      [if ok then ToastSuccess ''Voucher revoked successfully'' else ToastError ''Failed to revoke voucher''])"
| "voucher_step p (RetryClick v) = (p\<lparr>vp_retrying := True\<rparr>, [Mutate (MRetryVoucher v)])"
| "voucher_step p (RetrySettled ok) =
     (p\<lparr>vp_retrying := False\<rparr>,
      [if ok then ToastSuccess ''Voucher provisioned successfully''
       else ToastError ''Failed to provision voucher''])"

definition voucherRow :: "intl \<Rightarrow> voucher_page \<Rightarrow> voucher \<Rightarrow> voucher_action view" where
  "voucherRow i p v = Group
     ([Txt (vo_code v), Btn False [] (CopyCode (vo_code v)),
       Txt (getCustomerPhone (dataOf (vp_customers p)) (vo_customer_id v)), Txt (vo_package_name v),
       Txt (if vo_expires_at v \<noteq> [] then formatNairobiDate i (vo_expires_at v) else ''-''),
       statusBadge (vo_status v)]
      @ onlyIf (vo_status v = ''pending_provision'')
          [Btn (vp_retrying p) [Txt ''Retry''] (RetryClick (vo_id v))]
      @ [Btn (vo_status v \<noteq> ''active'' \<or> vp_revoking p) [Txt ''Revoke''] (RevokeClick (vo_id v))])"

definition adminVouchersView :: "intl \<Rightarrow> voucher_page \<Rightarrow> voucher_action view" where
  "adminVouchersView i p = Group
     ([Txt ''Vouchers'', Txt ''Manage active, used, and expired WiFi vouchers.'']
      @ tabList SetVoucherTab
          [(''all'', ''All''), (''active'', ''Active''), (''pending_provision'', ''Pending''),
           (''used'', ''Used''), (''expired'', ''Expired''), (''revoked'', ''Revoked'')]
      @ headers [''Code'', ''Customer'', ''Package'', ''Expires'', ''Status'', ''Actions'']
      @ tableBody (isLoadingQuery (vp_vouchers p)) ''No vouchers found matching the selected filter.''
          (voucherRow i p) (filteredVouchers i (vp_statusFilter p) (dataOf (vp_vouchers p))))"

text \<open>The reseller's and the customer's pages filter in the same way and only display.\<close>

definition resellerFilteredVouchers :: "intl \<Rightarrow> string \<Rightarrow> voucher list option \<Rightarrow> voucher list" where
  "resellerFilteredVouchers i statusFilter vouchers =
     (case vouchers of
        None \<Rightarrow> []
      | Some vs \<Rightarrow> byTab vo_status statusFilter (newestFirst (\<lambda>v. getTime i (vo_created_at v)) vs))"

definition resellerVoucherRow :: "intl \<Rightarrow> voucher_page \<Rightarrow> voucher \<Rightarrow> voucher_action view" where
  "resellerVoucherRow i p v = Group
     [Txt (vo_code v), Btn False [] (CopyCode (vo_code v)),
      Txt (getCustomerPhone (dataOf (vp_customers p)) (vo_customer_id v)),
      Txt (orElse (Some (vo_package_name v)) ''Unknown''), Txt (formatNairobiDate i (vo_expires_at v)),
      statusBadge (vo_status v)]"

definition resellerVouchersView :: "intl \<Rightarrow> voucher_page \<Rightarrow> voucher_action view" where
  "resellerVouchersView i p = Group
     ([Txt ''Customer Vouchers'', Txt ''View vouchers generated for your customers.'']
      @ tabList SetVoucherTab
          [(''all'', ''All''), (''active'', ''Active''), (''used'', ''Used''), (''expired'', ''Expired''),
           (''revoked'', ''Revoked'')]
      @ headers [''Code'', ''Customer'', ''Package'', ''Expires'', ''Status'']
      @ tableBody (isLoadingQuery (vp_vouchers p)) ''No vouchers found matching the selected filter.''
          (resellerVoucherRow i p)
          (resellerFilteredVouchers i (vp_statusFilter p) (dataOf (vp_vouchers p))))"

definition customerFilteredVouchers :: "intl \<Rightarrow> string \<Rightarrow> voucher list option \<Rightarrow> voucher list" where
  "customerFilteredVouchers i statusFilter vouchers =
     (case vouchers of
        None \<Rightarrow> []
      | Some vs \<Rightarrow> byTab vo_status statusFilter (newestFirst (\<lambda>v. getTime i (vo_created_at v)) vs))"

definition customerVoucherRow :: "intl \<Rightarrow> voucher \<Rightarrow> voucher_action view" where
  "customerVoucherRow i v = Group
     [Txt (vo_code v), Btn False [] (CopyCode (vo_code v)),
      Txt (orElse (Some (vo_package_name v)) ''Unknown''), Txt (formatNairobiDate i (vo_expires_at v)),
      statusBadge (vo_status v)]"

definition customerVouchersView :: "intl \<Rightarrow> voucher_page \<Rightarrow> voucher_action view" where
  "customerVouchersView i p = Group
     ([Txt ''My Vouchers'', Txt ''View all your purchased internet access codes.'']
      @ tabList SetVoucherTab
          [(''all'', ''All''), (''active'', ''Active''), (''used'', ''Used''), (''expired'', ''Expired'')]
      @ headers [''Code'', ''Package'', ''Expires'', ''Status'']
      @ tableBody (isLoadingQuery (vp_vouchers p))
          ''You don't have any vouchers matching the selected filter.''
          (customerVoucherRow i)
          (customerFilteredVouchers i (vp_statusFilter p) (dataOf (vp_vouchers p))))"

fun voucher_ok :: "intl \<Rightarrow> voucher_page \<Rightarrow> voucher_action \<Rightarrow> bool" where
  "voucher_ok i p (VouchersAnswer d) = True"
| "voucher_ok i p (CustomersAnswer d) = True"
| "voucher_ok i p (RevokeSettled ok) = vp_revoking p"
| "voucher_ok i p (RetrySettled ok) = vp_retrying p"
| "voucher_ok i p a = offers (adminVouchersView i p) a"

section \<open>Payments\<close>

record payment_page =
  pg_payments :: "payment list fetched"
  pg_vouchers :: "voucher list fetched"
  pg_statusFilter :: string
  pg_revoking :: bool

datatype payment_action =
    PaymentsAnswer "payment list option"
  | PaymentVouchersAnswer "voucher list option"
  | SetPaymentTab string
  | RevokeVoucherClick string
  | RevokeVoucherSettled bool

definition paymentStart :: payment_page where
  "paymentStart =
     \<lparr>pg_payments = FLoading, pg_vouchers = FLoading, pg_statusFilter = ''all'', pg_revoking = False\<rparr>"

definition filteredPayments :: "intl \<Rightarrow> string \<Rightarrow> payment list option \<Rightarrow> payment list" where
  "filteredPayments i statusFilter payments =
     (case payments of
        None \<Rightarrow> []
      | Some ps \<Rightarrow> byTab py_status statusFilter (newestFirst (\<lambda>p. getTime i (py_created_at p)) ps))"

fun payment_step :: "payment_page \<Rightarrow> payment_action \<Rightarrow> payment_page \<times> page_out list" where
  "payment_step p (PaymentsAnswer d) = (p\<lparr>pg_payments := answered d (pg_payments p)\<rparr>, [])"
| "payment_step p (PaymentVouchersAnswer d) = (p\<lparr>pg_vouchers := answered d (pg_vouchers p)\<rparr>, [])"
| "payment_step p (SetPaymentTab t) = (p\<lparr>pg_statusFilter := t\<rparr>, [])"
| "payment_step p (RevokeVoucherClick v) = (p\<lparr>pg_revoking := True\<rparr>, [Mutate (MRevokeVoucher v)])"
| "payment_step p (RevokeVoucherSettled ok) =
     (p\<lparr>pg_revoking := False\<rparr>,
      [if ok then ToastSuccess ''Voucher revoked successfully'' else ToastError ''Failed to revoke voucher''])"

definition paymentCells :: "intl \<Rightarrow> payment \<Rightarrow> payment_action view list" where
  "paymentCells i p =
     [Txt (py_phone_number p), Txt (orElse (Some (py_package_name p)) ''Unknown''),
      Txt (formatKES i (py_amount_kes p)), Txt (orElse (py_mpesa_receipt_number p) ''-''),
      Txt (formatNairobiDate i (py_created_at p)), statusBadge (py_status p)]"

text \<open>The voucher of a confirmed payment with its tooltip; any other payment shows a dash.\<close>

definition voucherTip :: "intl \<Rightarrow> voucher \<Rightarrow> payment_action view list" where
  "voucherTip i v =
     [Txt (vo_code v), Txt (''Voucher Status: '' @ vo_status v)]
     @ onlyIf (vo_status v = ''active'') [Txt (''Expires: '' @ formatNairobiDate i (vo_expires_at v))]"

definition paymentRow :: "intl \<Rightarrow> payment_page \<Rightarrow> payment \<Rightarrow> payment_action view" where
  "paymentRow i pg p = Group
     (paymentCells i p
      @ (case getVoucherForPayment (dataOf (pg_vouchers pg)) (py_id p) of
           Some v \<Rightarrow>
             if py_status p = ''confirmed''
             then voucherTip i v
                  @ onlyIf (vo_status v = ''active'')
                      [Btn (pg_revoking pg) [Txt ''Revoke''] (RevokeVoucherClick (vo_id v))]
             else [Txt ''-'']
         | None \<Rightarrow> [Txt ''-'']))"

definition paymentHeaders :: "string list" where
  "paymentHeaders =
     [''Customer Phone'', ''Package'', ''Amount'', ''Txn Code'', ''Date'', ''Status'', ''Voucher'']"

definition paymentTabs :: "(string \<times> string) list" where
  "paymentTabs =
     [(''all'', ''All''), (''pending'', ''Pending''), (''confirmed'', ''Confirmed''), (''failed'', ''Failed'')]"

definition adminPaymentsView :: "intl \<Rightarrow> payment_page \<Rightarrow> payment_action view" where
  "adminPaymentsView i p = Group
     ([Txt ''Payments'', Txt ''View and manage all customer M-Pesa payments.'']
      @ tabList SetPaymentTab paymentTabs @ headers paymentHeaders
      @ tableBody (isLoadingQuery (pg_payments p)) ''No payments found matching the selected filter.''
          (paymentRow i p) (filteredPayments i (pg_statusFilter p) (dataOf (pg_payments p))))"

definition resellerFilteredPayments :: "intl \<Rightarrow> string \<Rightarrow> payment list option \<Rightarrow> payment list" where
  "resellerFilteredPayments i statusFilter payments =
     (case payments of
        None \<Rightarrow> []
      | Some ps \<Rightarrow> byTab py_status statusFilter (newestFirst (\<lambda>p. getTime i (py_created_at p)) ps))"

definition resellerPaymentRow :: "intl \<Rightarrow> payment_page \<Rightarrow> payment \<Rightarrow> payment_action view" where
  "resellerPaymentRow i pg p = Group
     (paymentCells i p
      @ (case getVoucherForPayment (dataOf (pg_vouchers pg)) (py_id p) of
           Some v \<Rightarrow> if py_status p = ''confirmed'' then voucherTip i v else [Txt ''-'']
         | None \<Rightarrow> [Txt ''-'']))"

definition resellerPaymentsView :: "intl \<Rightarrow> payment_page \<Rightarrow> payment_action view" where
  "resellerPaymentsView i p = Group
     ([Txt ''Customer Payments'', Txt ''View payments made by your customers.'']
      @ tabList SetPaymentTab paymentTabs @ headers paymentHeaders
      @ tableBody (isLoadingQuery (pg_payments p)) ''No payments found matching the selected filter.''
          (resellerPaymentRow i p)
          (resellerFilteredPayments i (pg_statusFilter p) (dataOf (pg_payments p))))"

fun payment_ok :: "intl \<Rightarrow> payment_page \<Rightarrow> payment_action \<Rightarrow> bool" where
  "payment_ok i p (PaymentsAnswer d) = True"
| "payment_ok i p (PaymentVouchersAnswer d) = True"
| "payment_ok i p (RevokeVoucherSettled ok) = pg_revoking p"
| "payment_ok i p a = offers (adminPaymentsView i p) a"

section \<open>Sessions\<close>

definition ITEMS_PER_PAGE :: nat where
  "ITEMS_PER_PAGE = 10"

record session_page =
  sp_sessions :: "session list fetched"
  sp_customers :: "user list fetched"
  sp_currentPage :: nat

datatype session_action =
    SessionsAnswer "session list option"
  | SessionCustomersAnswer "user list option"
  | PrevPage
  | NextPage

definition sessionStart :: session_page where
  "sessionStart = \<lparr>sp_sessions = FLoading, sp_customers = FLoading, sp_currentPage = 1\<rparr>"

definition sortedSessions :: "intl \<Rightarrow> session_page \<Rightarrow> session list" where
  "sortedSessions i p =
     (case dataOf (sp_sessions p) of
        None \<Rightarrow> [] | Some ss \<Rightarrow> newestFirst (\<lambda>s. getTime i (se_started_at s)) ss)"

definition sessionPages :: "intl \<Rightarrow> session_page \<Rightarrow> nat" where
  "sessionPages i p = totalPages ITEMS_PER_PAGE (length (sortedSessions i p))"

definition currentSessions :: "intl \<Rightarrow> session_page \<Rightarrow> session list" where
  "currentSessions i p = pageOf ITEMS_PER_PAGE (sp_currentPage p) (sortedSessions i p)"

fun session_step :: "intl \<Rightarrow> session_page \<Rightarrow> session_action \<Rightarrow> session_page \<times> page_out list" where
  "session_step i p (SessionsAnswer d) = (p\<lparr>sp_sessions := answered d (sp_sessions p)\<rparr>, [])"
| "session_step i p (SessionCustomersAnswer d) = (p\<lparr>sp_customers := answered d (sp_customers p)\<rparr>, [])"
| "session_step i p PrevPage = (p\<lparr>sp_currentPage := max 1 (sp_currentPage p - 1)\<rparr>, [])"
| "session_step i p NextPage =
     (p\<lparr>sp_currentPage := min (sessionPages i p) (sp_currentPage p + 1)\<rparr>, [])"

definition sessionRow :: "intl \<Rightarrow> session_page \<Rightarrow> session \<Rightarrow> session_action view" where
  "sessionRow i p s = Group
     [Txt (getCustomerPhone (dataOf (sp_customers p)) (se_customer_id s)),
      Txt (if truthy (se_ended_at s) then ''Closed'' else ''Active''),
      Txt (nullish (se_ip_address s) []), Txt (nullish (se_mac_address s) []),
      Txt (formatBytes i (se_bytes_uploaded s)), Txt (formatBytes i (se_bytes_downloaded s)),
      Txt (formatNairobiDate i (se_started_at s)),
      Txt (if truthy (se_ended_at s) then formatNairobiDate i (the (se_ended_at s)) else ''-'')]"

definition sessionPager :: "intl \<Rightarrow> session_page \<Rightarrow> session_action view list" where
  "sessionPager i p =
     (let n = length (sortedSessions i p); cp = sp_currentPage p
      in onlyIf (1 < sessionPages i p)
           [Txt (''Showing '' @ showNat ((cp - 1) * ITEMS_PER_PAGE + 1) @ '' to ''
                 @ showNat (min (cp * ITEMS_PER_PAGE) n) @ '' of '' @ showNat n @ '' entries''),
            Btn (cp = 1) [Txt ''Previous''] PrevPage,
            Btn (cp = sessionPages i p) [Txt ''Next''] NextPage])"

definition sessionsView :: "intl \<Rightarrow> session_page \<Rightarrow> session_action view" where
  "sessionsView i p = Group
     ([Txt ''Active & Past Sessions'', Txt ''Monitor customer network connections and data usage.'']
      @ headers [''Customer'', ''Status'', ''IP Address'', ''MAC Address'', ''Data Up'', ''Data Down'',
                 ''Started'', ''Ended'']
      @ tableBody (isLoadingQuery (sp_sessions p)) ''No sessions found.'' (sessionRow i p)
          (currentSessions i p)
      @ sessionPager i p)"

fun session_ok :: "intl \<Rightarrow> session_page \<Rightarrow> session_action \<Rightarrow> bool" where
  "session_ok i p (SessionsAnswer d) = True"
| "session_ok i p (SessionCustomersAnswer d) = True"
| "session_ok i p a = offers (sessionsView i p) a"

section \<open>Lemmas\<close>

lemmas row_defs = filteredVouchers_def resellerFilteredVouchers_def customerFilteredVouchers_def
  filteredPayments_def resellerFilteredPayments_def

interpretation vouchers: table "\<lambda>f vs. filteredVouchers i f (Some vs)"
    "\<lambda>f v. f = ''all'' \<or> vo_status v = f" "\<lambda>v. getTime i (vo_created_at v)" for i
  by unfold_locales (simp_all add: row_defs table_laws)

interpretation payments: table "\<lambda>f ps. filteredPayments i f (Some ps)"
    "\<lambda>f p. f = ''all'' \<or> py_status p = f" "\<lambda>p. getTime i (py_created_at p)" for i
  by unfold_locales (simp_all add: row_defs table_laws)

interpretation session_pages: pager ITEMS_PER_PAGE "pageOf ITEMS_PER_PAGE"
    "\<lambda>xs. totalPages ITEMS_PER_PAGE (length xs)"
  by unfold_locales (simp_all add: ITEMS_PER_PAGE_def pageOf_def slice_def totalPages_def)

text \<open>What tabs, headings and rows offer.\<close>

lemma offers_tabList: "list_ex (\<lambda>v. offers v a) (tabList act ts) \<longleftrightarrow> (\<exists>t \<in> set ts. a = act (fst t))"
  by (induction ts) (auto simp: tabList_def offers_simps typable_simps)

lemma offers_headers [simp]: "\<not> list_ex (\<lambda>v. offers v a) (headers hs)"
  by (induction hs) (auto simp: headers_def offers_simps)

lemma offers_statusBadge [simp]: "\<not> offers (statusBadge st) a"
  by (simp add: statusBadge_def offers_simps)

lemma offers_tableBody:
  "list_ex (\<lambda>v. offers v a) (tableBody ld none row rs) \<longleftrightarrow> \<not> ld \<and> (\<exists>r \<in> set rs. offers (row r) a)"
  by (auto simp: tableBody_def list_ex_iff offers_simps)

lemmas page_offers = view_lists offers_tabList offers_tableBody list_ex_append

lemma offers_voucherRow:
  "offers (voucherRow i p v) a \<longleftrightarrow>
     a = CopyCode (vo_code v)
     \<or> (a = RetryClick (vo_id v) \<and> vo_status v = ''pending_provision'' \<and> \<not> vp_retrying p)
     \<or> (a = RevokeClick (vo_id v) \<and> vo_status v = ''active'' \<and> \<not> vp_revoking p)"
  by (auto simp: voucherRow_def page_offers)

lemma offers_revoke:
  "offers (adminVouchersView i p) (RevokeClick x) \<longleftrightarrow>
     \<not> vp_revoking p \<and> (\<exists>vs. vp_vouchers p = FLoaded vs
       \<and> (\<exists>v \<in> set (filteredVouchers i (vp_statusFilter p) (Some vs)). vo_id v = x \<and> vo_status v = ''active''))"
  by (cases "vp_vouchers p")
    (auto simp: adminVouchersView_def page_offers offers_voucherRow isLoadingQuery_def row_defs)

lemma offers_retry:
  "offers (adminVouchersView i p) (RetryClick x) \<longleftrightarrow>
     \<not> vp_retrying p \<and> (\<exists>vs. vp_vouchers p = FLoaded vs
       \<and> (\<exists>v \<in> set (filteredVouchers i (vp_statusFilter p) (Some vs)).
            vo_id v = x \<and> vo_status v = ''pending_provision''))"
  by (cases "vp_vouchers p")
    (auto simp: adminVouchersView_def page_offers offers_voucherRow isLoadingQuery_def row_defs)

fun revoke_answer :: "voucher_action \<Rightarrow> bool" where
  "revoke_answer (RevokeSettled ok) = True"
| "revoke_answer _ = False"

fun is_revoke :: "page_out \<Rightarrow> bool" where
  "is_revoke (Mutate (MRevokeVoucher v)) = True"
| "is_revoke _ = False"

interpretation revocations: request_flight voucher_step "voucher_ok i" vp_revoking revoke_answer is_revoke
  for i
proof
  fix p :: voucher_page and a
  show "voucher_ok i p a \<Longrightarrow> revoke_answer a \<Longrightarrow> vp_revoking p
      \<and> \<not> vp_revoking (fst (voucher_step p a)) \<and> filter is_revoke (snd (voucher_step p a)) = []"
    by (cases a) auto
  show "voucher_ok i p a \<Longrightarrow> \<not> revoke_answer a \<Longrightarrow>
      (filter is_revoke (snd (voucher_step p a)) = [] \<and> vp_revoking (fst (voucher_step p a)) = vp_revoking p)
      \<or> (length (filter is_revoke (snd (voucher_step p a))) = 1 \<and> \<not> vp_revoking p
          \<and> vp_revoking (fst (voucher_step p a)))"
    by (cases a) (auto simp: offers_revoke)
qed

text \<open>The payments page offers a revocation only next to a confirmed payment's active voucher.\<close>

lemma offers_paymentRow:
  "offers (paymentRow i pg p) (RevokeVoucherClick x) \<longleftrightarrow>
     \<not> pg_revoking pg \<and> py_status p = ''confirmed''
     \<and> (\<exists>v. getVoucherForPayment (dataOf (pg_vouchers pg)) (py_id p) = Some v
            \<and> vo_id v = x \<and> vo_status v = ''active'')"
  by (auto simp: paymentRow_def paymentCells_def voucherTip_def page_offers split: option.splits)

lemma offers_payment_revoke:
  assumes "offers (adminPaymentsView i pg) (RevokeVoucherClick x)"
  shows "\<not> pg_revoking pg"
    and "\<exists>(p :: payment) v. py_status p = ''confirmed'' \<and> vo_payment_id v = py_id p \<and> vo_id v = x
       \<and> vo_status v = ''active'' \<and> v \<in> set (nullish (dataOf (pg_vouchers pg)) [])"
proof -
  obtain p where row: "offers (paymentRow i pg p) (RevokeVoucherClick x)"
    using assms by (auto simp: adminPaymentsView_def page_offers)
  then obtain v where "\<not> pg_revoking pg" "py_status p = ''confirmed''" "vo_id v = x" "vo_status v = ''active''"
    and v: "getVoucherForPayment (dataOf (pg_vouchers pg)) (py_id p) = Some v"
    by (auto simp: offers_paymentRow)
  with findIn_Some [OF v [unfolded getVoucherForPayment_def]]
  show "\<not> pg_revoking pg" "\<exists>(p :: payment) v. py_status p = ''confirmed'' \<and> vo_payment_id v = py_id p \<and> vo_id v = x
       \<and> vo_status v = ''active'' \<and> v \<in> set (nullish (dataOf (pg_vouchers pg)) [])"
    by blast+
qed

text \<open>The pager of the sessions.\<close>

lemma offers_session:
  "offers (sessionsView i p) a \<longleftrightarrow> 1 < sessionPages i p
     \<and> (a = PrevPage \<and> sp_currentPage p \<noteq> 1 \<or> a = NextPage \<and> sp_currentPage p \<noteq> sessionPages i p)"
  by (auto simp: sessionsView_def sessionPager_def sessionRow_def page_offers Let_def)

lemma sessionPages_page [simp]: "sessionPages i (p\<lparr>sp_currentPage := n\<rparr>) = sessionPages i p"
  by (simp add: sessionPages_def sortedSessions_def)

definition in_pages :: "intl \<Rightarrow> session_page \<Rightarrow> bool" where
  "in_pages i p \<longleftrightarrow> 1 \<le> sp_currentPage p \<and> sp_currentPage p \<le> max 1 (sessionPages i p)"

lemma paging_step:
  assumes "in_pages i p" and "session_ok i p a" and "a = PrevPage \<or> a = NextPage"
  shows "in_pages i (fst (session_step i p a))"
  using assms by (auto simp: in_pages_def offers_session)

lemma paging_run:
  assumes "in_pages i p" and "set as \<subseteq> {PrevPage, NextPage}"
    and "guarded_run (session_ok i) (session_step i) p as = Some (p', rs)"
  shows "in_pages i p' \<and> sp_sessions p' = sp_sessions p"
  using assms
proof (induction as arbitrary: p rs)
  case (Cons a as)
  obtain rs' where step: "session_ok i p a"
    and rest: "guarded_run (session_ok i) (session_step i) (fst (session_step i p a)) as = Some (p', rs')"
    using Cons.prems(3) by (auto simp: guarded_run_Cons)
  have a: "a = PrevPage \<or> a = NextPage" using Cons.prems(2) by auto
  then have "sp_sessions (fst (session_step i p a)) = sp_sessions p" by auto
  with Cons.IH [OF paging_step [OF Cons.prems(1) step a] _ rest] Cons.prems(2) show ?case by simp
qed simp

lemma next_pages:
  assumes "sp_currentPage p = 1" and "n < sessionPages i p"
  shows "\<exists>rs. guarded_run (session_ok i) (session_step i) p (replicate n NextPage)
     = Some (p\<lparr>sp_currentPage := Suc n\<rparr>, rs)"
  using assms(2)
proof (induction n)
  case 0
  then show ?case using assms(1) by (cases p) simp
next
  case (Suc n)
  then obtain rs where run: "guarded_run (session_ok i) (session_step i) p (replicate n NextPage)
     = Some (p\<lparr>sp_currentPage := Suc n\<rparr>, rs)"
    by auto
  have "replicate (Suc n) NextPage = replicate n NextPage @ [NextPage]"
    by (simp add: replicate_append_same)
  with Suc.prems show ?case
    by (simp add: guarded_run_append [OF run] guarded_run.simps offers_session min_def)
qed

section \<open>Properties\<close>

text \<open>What a table of records owes its reader: \<open>out\<close> shows every record of \<open>xs\<close> with the selected status as often
  as the service returned it and no other, newest first, records of the same time in the service's order. There
  is only one such list.\<close>

definition exactRows :: "('a \<Rightarrow> int) \<Rightarrow> ('a \<Rightarrow> string) \<Rightarrow> string \<Rightarrow> 'a list \<Rightarrow> 'a list \<Rightarrow> bool" where
  "exactRows time status f xs out \<longleftrightarrow>
     mset out = filter_mset (\<lambda>x. f = ''all'' \<or> status x = f) (mset xs)
     \<and> sorted_wrt (\<lambda>a b. time b \<le> time a) out
     \<and> (\<forall>t. filter (\<lambda>x. time x = t) out = filter (\<lambda>x. time x = t \<and> (f = ''all'' \<or> status x = f)) xs)"

lemma exactRows_unique:
  assumes "exactRows time status f xs out"
  shows "out = sort_key (\<lambda>x. - time x) (filter (\<lambda>x. f = ''all'' \<or> status x = f) xs)"
proof -
  let ?xs = "filter (\<lambda>x. f = ''all'' \<or> status x = f) xs"
  have "filter (\<lambda>x. - time k = - time x) out = filter (\<lambda>x. - time k = - time x) ?xs" for k
  proof -
    have "(\<lambda>x. - time k = - time x) = (\<lambda>x. time x = time k)" by auto
    moreover have "filter (\<lambda>x. time x = time k) out = filter (\<lambda>x. time x = time k) ?xs"
      using assms by (simp add: exactRows_def conj_commute)
    ultimately show ?thesis by simp
  qed
  moreover have "mset out = mset ?xs" using assms by (simp add: exactRows_def)
  moreover have "sorted (map (\<lambda>x. - time x) out)" using assms by (simp add: exactRows_def sorted_wrt_map)
  ultimately show ?thesis by (intro properties_for_sort_key [symmetric]) auto
qed

lemma exactRows_byTab: "exactRows time status f xs (byTab status f (newestFirst time xs))"
proof -
  have "filter (\<lambda>x. time x = t) (byTab status f (newestFirst time xs))
      = filter (\<lambda>x. f = ''all'' \<or> status x = f) (filter (\<lambda>x. time x = t) (newestFirst time xs))" for t
    by (simp add: byTab_def conj_commute)
  then have "filter (\<lambda>x. time x = t) (byTab status f (newestFirst time xs))
      = filter (\<lambda>x. time x = t \<and> (f = ''all'' \<or> status x = f)) xs" for t
    by (simp add: newestFirst_stable conj_commute)
  then show ?thesis by (simp add: exactRows_def table_laws)
qed

text \<open>C28: the voucher tables of the three portals and the payment tables of the admin and the reseller are exact:
  each shows every record of the selected status as often as the service returned it and no other, newest
  first, records of the same time in the service's order, which is sorting what is left after the filter;
  without an answer of the service it is empty.\<close>

theorem ledger_tables_exact:
  "exactRows (\<lambda>v. getTime i (vo_created_at v)) vo_status f vs (filteredVouchers i f (Some vs))
   \<and> exactRows (\<lambda>v. getTime i (vo_created_at v)) vo_status f vs (resellerFilteredVouchers i f (Some vs))
   \<and> exactRows (\<lambda>v. getTime i (vo_created_at v)) vo_status f vs (customerFilteredVouchers i f (Some vs))
   \<and> exactRows (\<lambda>p. getTime i (py_created_at p)) py_status f ps (filteredPayments i f (Some ps))
   \<and> exactRows (\<lambda>p. getTime i (py_created_at p)) py_status f ps (resellerFilteredPayments i f (Some ps))
   \<and> filteredVouchers i f (Some vs)
       = sort_key (\<lambda>v. - getTime i (vo_created_at v)) (filter (\<lambda>v. f = ''all'' \<or> vo_status v = f) vs)
   \<and> filteredPayments i f (Some ps)
       = sort_key (\<lambda>p. - getTime i (py_created_at p)) (filter (\<lambda>p. f = ''all'' \<or> py_status p = f) ps)
   \<and> filteredVouchers i f None = [] \<and> resellerFilteredVouchers i f None = [] \<and> customerFilteredVouchers i f None = []
   \<and> filteredPayments i f None = [] \<and> resellerFilteredPayments i f None = []"
proof -
  note v = exactRows_byTab [of "\<lambda>v. getTime i (vo_created_at v)" vo_status f vs]
  note p = exactRows_byTab [of "\<lambda>p. getTime i (py_created_at p)" py_status f ps]
  show ?thesis using v p exactRows_unique [OF v] exactRows_unique [OF p] by (simp add: row_defs)
qed

text \<open>Paging through the sessions: whatever is clicked, the page stays within the pages there are
  and shows sessions if there are any; the pages, one after the other, are all sessions with the
  newest first; and every page is reached by clicking on.\<close>

lemma sessions_paging:
  assumes "p = sessionStart\<lparr>sp_sessions := FLoaded ss\<rparr>" and "ss \<noteq> []"
    and "set as \<subseteq> {PrevPage, NextPage}"
    and "guarded_run (session_ok i) (session_step i) p as = Some (p', rs)"
  shows "1 \<le> sp_currentPage p' \<and> sp_currentPage p' \<le> sessionPages i p \<and> currentSessions i p' \<noteq> []
    \<and> concat (map (\<lambda>n. currentSessions i (p\<lparr>sp_currentPage := n\<rparr>)) [1..<Suc (sessionPages i p)])
        = newestFirst (\<lambda>s. getTime i (se_started_at s)) ss
    \<and> (\<forall>n. n < sessionPages i p \<longrightarrow>
          (\<exists>rs. guarded_run (session_ok i) (session_step i) p (replicate n NextPage)
             = Some (p\<lparr>sp_currentPage := Suc n\<rparr>, rs)))"
proof -
  let ?srt = "newestFirst (\<lambda>s. getTime i (se_started_at s)) ss"
  have srt: "sortedSessions i p = ?srt"
    by (simp add: assms(1) sortedSessions_def)
  have "0 < sessionPages i p"
    using assms(2) by (simp add: sessionPages_def srt totalPages_def ITEMS_PER_PAGE_def div_greater_zero_iff Suc_le_eq)
  moreover have start: "in_pages i p" "sp_currentPage p = 1"
    by (simp_all add: in_pages_def assms(1) sessionStart_def)
  from paging_run [OF start(1) assms(3,4)] have run: "in_pages i p'" "sp_sessions p' = sp_sessions p" by auto
  have same: "sortedSessions i p' = ?srt" "sessionPages i p' = sessionPages i p"
    using run(2) srt by (simp_all add: sortedSessions_def sessionPages_def)
  have bounds: "1 \<le> sp_currentPage p'" "sp_currentPage p' \<le> sessionPages i p"
    using run(1) same calculation by (auto simp: in_pages_def)
  have "currentSessions i p' \<noteq> []"
    using session_pages.pages_not_empty [of "sp_currentPage p'" ?srt] bounds
    by (simp add: currentSessions_def same sessionPages_def srt)
  moreover have "concat (map (\<lambda>n. currentSessions i (p\<lparr>sp_currentPage := n\<rparr>)) [1..<Suc (sessionPages i p)]) = ?srt"
    using session_pages.pages_are_everything [of ?srt]
    by (simp add: currentSessions_def sortedSessions_def assms(1) sessionPages_def del: upt_Suc)
  ultimately show ?thesis using bounds next_pages [OF start(2)] by blast
qed

definition sampleIntl :: intl where
  "sampleIntl = \<lparr>getTime = (\<lambda>s. int (length s)), showDate = id, numberFormatKES = (\<lambda>d. showInt),
     logQuotient = (\<lambda>b. 0), distanceToNow = id, showDay = id, validDate = (\<lambda>_. True)\<rparr>"

definition sampleSession :: "nat \<Rightarrow> session" where
  "sampleSession n = \<lparr>se_id = showNat n, se_voucher_id = ''v'', se_customer_id = ''c'', se_mac_address = None,
     se_ip_address = None, se_bytes_uploaded = 1, se_bytes_downloaded = 2,
     se_started_at = replicate n (CHR ''x''), se_ended_at = None\<rparr>"

definition sampleSessions :: session_page where
  "sampleSessions = sessionStart\<lparr>sp_sessions := FLoaded (map sampleSession [0..<11])\<rparr>"

lemma sample_pages: "sessionPages i sampleSessions = 2"
  by (simp add: sessionPages_def sortedSessions_def sampleSessions_def totalPages_def ITEMS_PER_PAGE_def)

text \<open>When the list has shrunk to one page behind the reader's back, a later page says that there
  are no sessions and offers no way back.\<close>

lemma shrunk_sessions_lost:
  "let p = (sampleSessions\<lparr>sp_currentPage := 2\<rparr>)\<lparr>sp_sessions := FLoaded [sampleSession 1]\<rparr> in
     shows_text (sessionsView i p) ''No sessions found.'' \<and> (\<forall>a. \<not> offers (sessionsView i p) a)"
proof -
  let ?p = "(sampleSessions\<lparr>sp_currentPage := 2\<rparr>)\<lparr>sp_sessions := FLoaded [sampleSession 1]\<rparr>"
  have "sessionPages i ?p = 1"
    by (simp add: sessionPages_def sortedSessions_def totalPages_def ITEMS_PER_PAGE_def)
  moreover have "currentSessions i ?p = []"
    by (simp add: currentSessions_def sortedSessions_def pageOf_def slice_def ITEMS_PER_PAGE_def newestFirst_def)
  ultimately show ?thesis
    by (simp add: offers_session Let_def) (simp add: sessionsView_def view_simps tableBody_def isLoadingQuery_def)
qed

text \<open>Vouchers are revoked with care: at most one revocation is outstanding, and the vouchers page
  offers to revoke only a voucher it lists as active and to provision again only one it lists as
  pending; the payments page offers it only for the active voucher of a confirmed payment.\<close>

lemma voucher_actions_safe:
  assumes "guarded_run (voucher_ok i) voucher_step voucherStart as = Some (p, rs)"
  shows "length (filter is_revoke rs) \<le> Suc (length (filter revoke_answer as))
    \<and> (voucher_ok i p (RevokeClick x) \<longrightarrow>
        (\<exists>vs v. vp_vouchers p = FLoaded vs \<and> v \<in> set vs \<and> vo_id v = x \<and> vo_status v = ''active''
              \<and> length (filter is_revoke rs) = length (filter revoke_answer as)))
    \<and> (voucher_ok i p (RetryClick x) \<longrightarrow>
        (\<exists>vs v. vp_vouchers p = FLoaded vs \<and> v \<in> set vs \<and> vo_id v = x \<and> vo_status v = ''pending_provision''))
    \<and> (payment_ok i pg (RevokeVoucherClick x) \<longrightarrow>
        \<not> pg_revoking pg \<and> (\<exists>(q :: payment) v. py_status q = ''confirmed'' \<and> vo_payment_id v = py_id q \<and> vo_id v = x
           \<and> vo_status v = ''active'' \<and> v \<in> set (nullish (dataOf (pg_vouchers pg)) [])))"
proof -
  have flights: "length (filter is_revoke rs) + 0 = length (filter revoke_answer as) + of_bool (vp_revoking p)"
    using revocations.request_flights [OF assms] by (simp add: voucherStart_def)
  have revoke: "\<exists>vs v. vp_vouchers p = FLoaded vs \<and> v \<in> set vs \<and> vo_id v = x \<and> vo_status v = ''active''
        \<and> length (filter is_revoke rs) = length (filter revoke_answer as)" if "voucher_ok i p (RevokeClick x)"
    using that flights by (auto simp: offers_revoke vouchers.shown_iff)
  have retry: "\<exists>vs v. vp_vouchers p = FLoaded vs \<and> v \<in> set vs \<and> vo_id v = x \<and> vo_status v = ''pending_provision''"
    if "voucher_ok i p (RetryClick x)"
    using that by (auto simp: offers_retry vouchers.shown_iff)
  have pay: "\<not> pg_revoking pg \<and> (\<exists>(q :: payment) v. py_status q = ''confirmed'' \<and> vo_payment_id v = py_id q \<and> vo_id v = x
           \<and> vo_status v = ''active'' \<and> v \<in> set (nullish (dataOf (pg_vouchers pg)) []))"
    if "payment_ok i pg (RevokeVoucherClick x)"
    using that offers_payment_revoke [of i pg x] by simp
  show ?thesis using flights revoke retry pay by auto
qed

definition sampleVoucher :: voucher where
  "sampleVoucher = \<lparr>vo_id = ''v1'', vo_code = ''ABC'', vo_status = ''active'', vo_expires_at = ''e'',
     vo_activated_at = None, vo_created_at = ''c'', vo_customer_id = ''u'', vo_package_id = ''k'',
     vo_package_name = ''Day'', vo_payment_id = ''p1''\<rparr>"

end
