(* ===== verification/Signup.thy ===== *)
theory Signup
  imports Onboarding Ledger_Pages
begin

text \<open>
  The form on which a new provider signs up (\<open>pages/public/TenantSignupPage.tsx\<close>): its defaults from
  the address, its schema, the request, and how the service's complaints reach the fields. What
  happens after a successful request is \<open>onSignupSuccess\<close> of \<open>Onboarding\<close>.
\<close>

section \<open>Data\<close>

definition subscriptionTiers :: "string list" where
  "subscriptionTiers = [''starter'', ''growth'', ''scale'', ''enterprise'']"

definition tierDetails :: "string \<Rightarrow> string \<times> string \<times> string" where
  "tierDetails t =
     (if t = ''starter'' then (''KES 1,500/mo'', ''Up to 100 customers'', ''1 router'')
      else if t = ''growth'' then (''KES 2,500/mo'', ''Up to 300 customers'', ''3 routers'')
      else if t = ''scale'' then (''KES 4,000/mo'', ''Up to 700 customers'', ''10 routers'')
      else (''KES 6,000/mo'', ''Unlimited customers'', ''50 routers''))"

text \<open>\<open>/^(?:\+?254|0)[17]\d{8}$/\<close>, one alternative after the other.\<close>

definition signupPhone :: "string \<Rightarrow> bool" where
  "signupPhone s \<longleftrightarrow>
     (startsWith s ''+254'' \<and> isSubscriber (drop 4 s)) \<or> (startsWith s ''254'' \<and> isSubscriber (drop 3 s))
     \<or> (startsWith s ''0'' \<and> isSubscriber (drop 1 s))"

definition stripSpaces :: "string \<Rightarrow> string" where
  "stripSpaces s = filter (\<lambda>c. \<not> is_space c) s"

definition tooLong :: "nat \<Rightarrow> string \<Rightarrow> string \<Rightarrow> string \<Rightarrow> field_errors" where
  "tooLong n field msg v = (if n < jsLength v then [(field, msg)] else [])"

text \<open>The schema checks the phone number without its white space and passes it on like that.\<close>

definition signupSchema :: "(string \<Rightarrow> bool) \<Rightarrow> signup_request \<Rightarrow> field_errors" where
  "signupSchema isEmail d =
     minLength 2 ''business_name'' ''Business name must be at least 2 characters'' (su_business_name d)
     @ tooLong 100 ''business_name'' ''Too big: expected string to have <=100 characters'' (su_business_name d)
     @ minLength 2 ''owner_name'' ''Your name must be at least 2 characters'' (su_owner_name d)
     @ (if isEmail (su_owner_email d) then [] else [(''owner_email'', ''Enter a valid email address'')])
     @ (if signupPhone (stripSpaces (su_owner_phone d)) then []
        else [(''owner_phone'', ''Enter a valid Kenyan phone number'')])
     @ minLength 8 ''password'' ''Password must be at least 8 characters'' (su_password d)
     @ (if su_subscription_tier d \<in> set subscriptionTiers then [] else [(''subscription_tier'', ''Invalid option'')])"

definition parsedSignup :: "signup_request \<Rightarrow> signup_request" where
  "parsedSignup d = d\<lparr>su_owner_phone := stripSpaces (su_owner_phone d)\<rparr>"

definition getPasswordStrength :: "string \<Rightarrow> nat" where
  "getPasswordStrength password =
     (if jsLength password < 8 then 1
      else if list_ex (\<lambda>c. c \<in> set ''ABCDEFGHIJKLMNOPQRSTUVWXYZ'') password \<and> list_ex is_digit password then 3
      else 2)"

definition mapApiFieldToFormField :: "string \<Rightarrow> string option" where
  "mapApiFieldToFormField apiField =
     (if apiField \<in> {''business_name'', ''owner_email'', ''owner_phone'', ''password'', ''subscription_tier''}
      then Some apiField else None)"

section \<open>The page\<close>

record signup_page =
  sg_form :: signup_request
  sg_errors :: field_errors
  sg_submitted :: bool
  sg_showPassword :: bool
  sg_pending :: bool
  sg_auth :: auth_state

text \<open>An element of a validation complaint: its location, whose last component is a field name or an
  index, and its message. The body of a failed request has a list of them, or something else.\<close>

type_synonym complaint = "(string + nat) list \<times> string"

datatype signup_failure = SignupFailure "nat option" "complaint list option"

datatype signup_field = SBusiness | SOwner | SEmail | SPhone | SPassword | STier

datatype signup_action =
    SignupInput signup_field string
  | PickService service_type
  | ToggleSignupPassword
  | SubmitSignup
  | SignupOk string string string signup_request
  | SignupFailed signup_failure

datatype signup_out = PostTenant "(string \<times> string) list" | Entered auth_effect

text \<open>The defaults from \<open>?tier=\<close> and \<open>?service=\<close>.\<close>

definition defaultTier :: "string option \<Rightarrow> string" where
  "defaultTier urlTier =
     (case urlTier of Some t \<Rightarrow> if t \<in> set subscriptionTiers then t else ''growth'' | None \<Rightarrow> ''growth'')"

definition defaultService :: "string option \<Rightarrow> service_type" where
  "defaultService urlService =
     (if urlService = Some ''pppoe'' then Pppoe else if urlService = Some ''hotspot'' then Hotspot else Hotspot)"

definition signupStart :: "string option \<Rightarrow> string option \<Rightarrow> auth_state \<Rightarrow> signup_page" where
  "signupStart urlTier urlService auth =
     \<lparr>sg_form = \<lparr>su_business_name = [], su_owner_name = [], su_owner_email = [], su_owner_phone = [],
                 su_password = [], su_subscription_tier = defaultTier urlTier,
                 su_service_type = defaultService urlService\<rparr>,
      sg_errors = [], sg_submitted = False, sg_showPassword = False, sg_pending = False, sg_auth = auth\<rparr>"

fun signupFieldName :: "signup_field \<Rightarrow> string" where
  "signupFieldName SBusiness = ''business_name''"
| "signupFieldName SOwner = ''owner_name''"
| "signupFieldName SEmail = ''owner_email''"
| "signupFieldName SPhone = ''owner_phone''"
| "signupFieldName SPassword = ''password''"
| "signupFieldName STier = ''subscription_tier''"

fun setSignupField :: "signup_field \<Rightarrow> string \<Rightarrow> signup_request \<Rightarrow> signup_request" where
  "setSignupField SBusiness v d = d\<lparr>su_business_name := v\<rparr>"
| "setSignupField SOwner v d = d\<lparr>su_owner_name := v\<rparr>"
| "setSignupField SEmail v d = d\<lparr>su_owner_email := v\<rparr>"
| "setSignupField SPhone v d = d\<lparr>su_owner_phone := v\<rparr>"
| "setSignupField SPassword v d = d\<lparr>su_password := v\<rparr>"
| "setSignupField STier v d = d\<lparr>su_subscription_tier := v\<rparr>"

text \<open>\<open>setError\<close> replaces the error of a field; a complaint names its field last.\<close>

definition setError :: "string \<Rightarrow> string \<Rightarrow> field_errors \<Rightarrow> field_errors" where
  "setError f m errs = AList.update f m errs"

definition complain :: "complaint \<Rightarrow> field_errors \<Rightarrow> field_errors" where
  "complain c errs =
     (case (if fst c = [] then None else Some (last (fst c))) of
        Some (Inl field) \<Rightarrow>
          (case mapApiFieldToFormField field of None \<Rightarrow> errs | Some f \<Rightarrow> setError f (snd c) errs)
      | _ \<Rightarrow> errs)"

fun signupErrors :: "signup_failure \<Rightarrow> field_errors \<Rightarrow> field_errors" where
  "signupErrors (SignupFailure status detail) errs =
     (if status = Some 409 then setError ''owner_email'' ''An account with this email already exists.'' errs
      else if status = Some 422 \<and> detail \<noteq> None then fold complain (the detail) errs
      else setError ''root'' ''Registration failed. Please try again.'' errs)"

text \<open>\<open>SignupOk t0 now token req\<close>: the answer to the request \<open>req\<close> brings a token; \<open>t0\<close> and \<open>now\<close> are
  the times that the stored progress records.\<close>

fun signup_step :: "(string \<Rightarrow> bool) \<Rightarrow> signup_page \<Rightarrow> signup_action \<Rightarrow> signup_page \<times> signup_out list" where
  "signup_step isEmail p (SignupInput k v) =
     (let d = setSignupField k v (sg_form p)
      in (p\<lparr>sg_form := d,
            sg_errors := recheck (sg_submitted p) (signupFieldName k) (signupSchema isEmail d) (sg_errors p)\<rparr>, []))"
| "signup_step isEmail p (PickService t) = (p\<lparr>sg_form := (sg_form p)\<lparr>su_service_type := t\<rparr>\<rparr>, [])"
| "signup_step isEmail p ToggleSignupPassword = (p\<lparr>sg_showPassword := \<not> sg_showPassword p\<rparr>, [])"
| "signup_step isEmail p SubmitSignup =
     (let errs = signupSchema isEmail (sg_form p); p1 = p\<lparr>sg_errors := errs, sg_submitted := True\<rparr>
      in if errs \<noteq> [] then (p1, [])
         else (p1\<lparr>sg_pending := True\<rparr>, [PostTenant (registerBody (parsedSignup (sg_form p)))]))"
| "signup_step isEmail p (SignupOk t0 now token req) =
     (let (auth, effs) = onSignupSuccess t0 now token req (sg_auth p)
      in (p\<lparr>sg_pending := False, sg_auth := auth\<rparr>, map Entered effs))"
| "signup_step isEmail p (SignupFailed e) =
     (p\<lparr>sg_pending := False, sg_errors := signupErrors e (sg_errors p)\<rparr>, [])"

definition arrow :: string where
  "arrow = [CHR 0xE2, CHR 0x86, CHR 0x92]"

definition emailError :: "field_errors \<Rightarrow> signup_action view list" where
  "emailError errs =
     (case map_of errs ''owner_email'' of
        None \<Rightarrow> []
      | Some m \<Rightarrow> [Txt m] @ onlyIf (strIncludes m ''already exists'') [Link ''/login'' [Txt (''Sign in instead '' @ arrow)]])"

definition tierBox :: "signup_page \<Rightarrow> signup_action view list" where
  "tierBox p =
     (let t = orElse (Some (su_subscription_tier (sg_form p))) ''growth''; (price, customers, routers) = tierDetails t
      in [Txt t, Txt price, Txt customers, Txt routers])"

definition tierField :: "signup_page \<Rightarrow> signup_action view list" where
  "tierField p =
     [Txt ''Subscription tier'']
     @ tabList (SignupInput STier)
         [(''starter'', ''Starter''), (''growth'', ''Growth (Recommended)''), (''scale'', ''Scale''), (''enterprise'', ''Enterprise'')]
     @ tierBox p @ fieldError (sg_errors p) ''subscription_tier''"

definition signupEnd :: "signup_page \<Rightarrow> signup_action view list" where
  "signupEnd p =
     fieldError (sg_errors p) ''root''
     @ [Btn (sg_pending p) [Txt (if sg_pending p then ''Creating account...'' else ''Create my account'')] SubmitSignup,
        Txt ''Already have an account?'', Link ''/login'' [Txt (''Sign in '' @ arrow)]]"

definition signupView :: "signup_page \<Rightarrow> signup_action view" where
  "signupView p =
     (let d = sg_form p; errs = sg_errors p
      in Group
        ([Txt ''Frixel Connect'', Txt ''Start your free 30-day pilot'', Txt ''No credit card. Cancel anytime.'',
          Txt ''What type of ISP are you?'',
          Btn False [Txt ''Hotspot WiFi'', Txt ''Captive portal + vouchers''] (PickService Hotspot),
          Btn False [Txt ''Fiber / PPPoE'', Txt ''Monthly subscriptions + recurring billing''] (PickService Pppoe),
          Txt ''Business / ISP Name'',
          Inp ''e.g. Eastlands Wireless, Mwangi Networks'' (su_business_name d) (SignupInput SBusiness)]
         @ fieldError errs ''business_name''
         @ [Txt ''Your Name'', Inp ''e.g. John Kamau'' (su_owner_name d) (SignupInput SOwner)]
         @ fieldError errs ''owner_name''
         @ [Txt ''Email address'', Inp ''you@yourcompany.com'' (su_owner_email d) (SignupInput SEmail)]
         @ emailError errs
         @ [Txt ''Phone number (M-Pesa)'', Inp ''0712 345 678'' (su_owner_phone d) (SignupInput SPhone),
            Txt ''This number receives your Frixel Connect billing invoices via M-Pesa'']
         @ fieldError errs ''owner_phone''
         @ [Txt ''Password'', Inp [] (su_password d) (SignupInput SPassword), Btn False [] ToggleSignupPassword]
         @ fieldError errs ''password''
         @ tierField p @ signupEnd p))"

fun signup_ok :: "signup_page \<Rightarrow> signup_action \<Rightarrow> bool" where
  "signup_ok p (SignupOk t0 now token req) = sg_pending p"
| "signup_ok p (SignupFailed e) = sg_pending p"
| "signup_ok p a = offers (signupView p) a"

section \<open>Lemmas\<close>

lemma signupPhone_kenyan: "signupPhone s \<longleftrightarrow> kenyanPhone s"
proof -
  have "\<not> (startsWith s ''0'' \<and> startsWith s ''254'')" "\<not> (startsWith s ''0'' \<and> startsWith s ''+254'')"
    "\<not> (startsWith s ''254'' \<and> startsWith s ''+254'')"
    by (cases s; simp add: startsWith_def)+
  then show ?thesis
    unfolding signupPhone_def kenyanPhone_def subscriberOf_def Let_def
    by (cases "startsWith s ''0''"; cases "startsWith s ''254''"; cases "startsWith s ''+254''"; simp)
qed

lemma stripSpaces_idem [simp]: "stripSpaces (stripSpaces s) = stripSpaces s"
  by (simp add: stripSpaces_def)

definition validSignup :: "(string \<Rightarrow> bool) \<Rightarrow> signup_request \<Rightarrow> bool" where
  "validSignup isEmail d \<longleftrightarrow> 2 \<le> jsLength (su_business_name d) \<and> jsLength (su_business_name d) \<le> 100
     \<and> 2 \<le> jsLength (su_owner_name d) \<and> isEmail (su_owner_email d) \<and> kenyanPhone (stripSpaces (su_owner_phone d))
     \<and> 8 \<le> jsLength (su_password d) \<and> su_subscription_tier d \<in> set subscriptionTiers"

lemma signupSchema_valid: "signupSchema isEmail d = [] \<longleftrightarrow> validSignup isEmail d"
  by (auto simp: signupSchema_def validSignup_def minLength_def tooLong_def signupPhone_kenyan)

lemma offers_emailError: "\<not> list_ex (\<lambda>v. offers v a) (emailError errs)"
  by (simp add: emailError_def page_offers offers_simps split: option.splits)

lemma offers_plain_error: "\<not> list_ex (\<lambda>v. offers v a) (fieldError errs f)"
  by (simp add: fieldError_def offers_simps split: option.splits)

lemma offers_tierBox: "\<not> list_ex (\<lambda>v. offers v a) (tierBox p)"
  by (simp add: tierBox_def page_offers Let_def split: prod.splits)

lemma offers_signup:
  "offers (signupView p) a \<longleftrightarrow>
     (\<exists>t. a = PickService t) \<or> (\<exists>k v. a = SignupInput k v \<and> (k = STier \<longrightarrow> v \<in> set subscriptionTiers))
     \<or> a = ToggleSignupPassword \<or> (a = SubmitSignup \<and> \<not> sg_pending p)"
proof (cases a)
  case (SignupInput k v)
  then show ?thesis
    by (cases k) (simp_all add: signupView_def tierField_def signupEnd_def page_offers offers_simps(5) offers_emailError offers_plain_error
        offers_tierBox Let_def subscriptionTiers_def)
next
  case (PickService t)
  then show ?thesis by (cases t) (simp_all add: signupView_def tierField_def signupEnd_def page_offers Let_def)
qed (simp_all add: signupView_def tierField_def signupEnd_def page_offers offers_simps(5) offers_emailError offers_plain_error offers_tierBox Let_def)

fun signup_answer :: "signup_action \<Rightarrow> bool" where
  "signup_answer (SignupOk t0 now token req) = True"
| "signup_answer (SignupFailed e) = True"
| "signup_answer _ = False"

fun is_signup :: "signup_out \<Rightarrow> bool" where
  "is_signup (PostTenant b) = True"
| "is_signup _ = False"

lemma no_signup_entered [simp]: "filter is_signup (map Entered effs) = []"
  by (induction effs) auto

interpretation signups: request_flight "signup_step isEmail" signup_ok sg_pending signup_answer is_signup for isEmail
proof
  fix p :: signup_page and a
  show "signup_ok p a \<Longrightarrow> signup_answer a \<Longrightarrow> sg_pending p
      \<and> \<not> sg_pending (fst (signup_step isEmail p a)) \<and> filter is_signup (snd (signup_step isEmail p a)) = []"
    by (cases a) (auto simp: Let_def split: prod.splits)
  show "signup_ok p a \<Longrightarrow> \<not> signup_answer a \<Longrightarrow>
      (filter is_signup (snd (signup_step isEmail p a)) = [] \<and> sg_pending (fst (signup_step isEmail p a)) = sg_pending p)
      \<or> (length (filter is_signup (snd (signup_step isEmail p a))) = 1 \<and> \<not> sg_pending p
          \<and> sg_pending (fst (signup_step isEmail p a)))"
    by (cases a) (auto simp: offers_signup Let_def)
qed

text \<open>Complaints: the last one about a field of the form is the one it shows.\<close>

definition complained :: "complaint list \<Rightarrow> string \<Rightarrow> string list" where
  "complained cs f = [m. (loc, m) \<leftarrow> cs, loc \<noteq> [] \<and> last loc = Inl f]"

lemma map_of_complain:
  "map_of (complain c errs) f =
     (if mapApiFieldToFormField f = Some f \<and> fst c \<noteq> [] \<and> last (fst c) = Inl f then Some (snd c) else map_of errs f)"
  by (cases "last (fst c)")
    (auto simp: complain_def setError_def update_conv' mapApiFieldToFormField_def split: if_splits)

lemma map_of_complaints:
  "map_of (fold complain cs errs) f =
     (if mapApiFieldToFormField f = Some f \<and> complained cs f \<noteq> [] then Some (last (complained cs f)) else map_of errs f)"
proof (induction cs arbitrary: errs)
  case (Cons c cs)
  then show ?case
    by (cases c) (auto simp: map_of_complain complained_def)
qed (simp add: complained_def)

section \<open>Properties\<close>

text \<open>Whatever is typed and clicked on the sign-up form, at most one registration is outstanding, and
  every registration sent is valid: a business name of 2 to 100 characters, a valid address, a Kenyan
  phone number without white space, a password of 8 characters and one of the four tiers.\<close>

lemma signup_requests_valid:
  assumes run: "guarded_run signup_ok (signup_step isEmail) (signupStart urlTier urlService auth) as = Some (p, rs)"
  shows "length (filter is_signup rs) = length (filter signup_answer as) + of_bool (sg_pending p)
    \<and> (\<forall>b. PostTenant b \<in> set rs \<longrightarrow>
         (\<exists>d. validSignup isEmail d \<and> b = registerBody d \<and> map_of b ''owner_phone'' = Some (stripSpaces (su_owner_phone d))
            \<and> kenyanPhone (the (map_of b ''owner_phone''))))
    \<and> (defaultTier urlTier \<in> set subscriptionTiers)"
proof -
  have sent: "\<exists>d. validSignup isEmail d \<and> b = registerBody d"
    if "PostTenant b \<in> set (snd (signup_step isEmail q a))" for q a b
  proof (cases a)
    case SubmitSignup
    with that have "validSignup isEmail (sg_form q)" "b = registerBody (parsedSignup (sg_form q))"
      by (auto simp: Let_def signupSchema_valid split: if_splits)
    moreover from this have "validSignup isEmail (parsedSignup (sg_form q))"
      by (simp add: validSignup_def parsedSignup_def)
    ultimately show ?thesis by blast
  qed (use that in \<open>auto simp: Let_def split: prod.splits\<close>)
  have "r \<in> set rs \<Longrightarrow> (\<forall>b. r = PostTenant b \<longrightarrow> (\<exists>d. validSignup isEmail d \<and> b = registerBody d))" for r
    by (rule guarded_run_outputs [OF _ run]) (use sent in auto)
  moreover have "map_of (registerBody d) ''owner_phone'' = Some (stripSpaces (su_owner_phone d))" for d
    by (simp add: registerBody_def stripSpaces_def)
  ultimately show ?thesis
    using signups.request_flights [OF run]
    by (fastforce simp: signupStart_def validSignup_def defaultTier_def subscriptionTiers_def split: option.splits)
qed

definition sampleSignup :: "signup_action list" where
  "sampleSignup =
     [SignupInput SBusiness ''Nairobi WiFi'', SignupInput SOwner ''Jane'', SignupInput SEmail ''j@x.ke'',
      SignupInput SPhone ''0712 345 678'', SignupInput SPassword ''secret12'', PickService Pppoe, SubmitSignup]"

text \<open>C33: what a failed registration shows: an address that is taken is reported at the address with a
  way to the login page, a complaint of the service at the field it names (the last one if there are
  several), anything else as a general message; but complaints about other fields only show nothing
  at all.\<close>

theorem signup_errors_shown:
  "map_of (signupErrors (SignupFailure (Some 409) d) errs) ''owner_email'' = Some ''An account with this email already exists.''
   \<and> (\<exists>v \<in> set (emailError (signupErrors (SignupFailure (Some 409) d) errs)). v = Link ''/login'' [Txt (''Sign in instead '' @ arrow)])
   \<and> map_of (signupErrors (SignupFailure (Some 422) (Some cs)) []) f =
       (if mapApiFieldToFormField f = Some f \<and> complained cs f \<noteq> [] then Some (last (complained cs f)) else None)
   \<and> (status \<noteq> Some 409 \<and> (status \<noteq> Some 422 \<or> d = None) \<longrightarrow>
        map_of (signupErrors (SignupFailure status d) errs) ''root'' = Some ''Registration failed. Please try again.'')
   \<and> signupErrors (SignupFailure (Some 422) (Some [([Inl ''body'', Inl ''owner_name''], m)])) [] = []"
proof -
  have "strIncludes ''An account with this email already exists.'' ''already exists''" by code_simp
  moreover have "complain ([Inl ''body'', Inl ''owner_name''], m) [] = []"
    by (simp add: complain_def mapApiFieldToFormField_def)
  ultimately show ?thesis
    by (auto simp: setError_def update_conv' map_of_complaints emailError_def onlyIf_def)
qed

theorem signup_errors_shown_witness:
  "map_of (signupErrors (SignupFailure (Some 500) None) []) ''root'' = Some ''Registration failed. Please try again.''"
  using signup_errors_shown [of None "[]" "[]" "[]" "Some 500" "[]"] by simp

end
