(* ===== verification/Router_Wizard.thy ===== *)
theory Router_Wizard
  imports Packages Payment_Status
begin

text \<open>
  Connecting a router: the magic command wizard
  (\<open>pages/admin/onboarding/RouterOnboardingWizard.tsx\<close>) with its hooks
  (\<open>hooks/useRouterOnboarding.ts\<close>), and the summary of a tenant's routers
  (\<open>hooks/useRouterSummary.ts\<close>). The wizard keeps its progress in seven entries of the browser's
  storage, polls the router's status while the command is shown, and provisions the router once it
  is online. Whether a date lies in the past is a parameter (\<open>expired\<close>), as is the display of
  dates.
\<close>

section \<open>Summary of routers\<close>

record mikrotik_router =
  mr_id :: string
  mr_name :: string
  mr_host :: "string option"
  mr_port :: "int option"
  mr_username :: "string option"
  mr_site_name :: string
  mr_status :: string
  mr_last_heartbeat_at :: "string option"
  mr_created_at :: string
  mr_wireguard_public_key :: "string option"
  mr_wireguard_assigned_ip :: "string option"
  mr_wireguard_peer_public_key :: "string option"
  mr_service_type :: "string option"

definition resolveRouterServiceType :: "mikrotik_router \<Rightarrow> service_type" where
  "resolveRouterServiceType r =
     (if mr_service_type r = Some ''pppoe'' then Pppoe
      else if mr_service_type r = Some ''hotspot'' then Hotspot
      else Hotspot)"

record router_summary =
  hasHotspotRouter :: bool
  hasPPPoERouter :: bool
  hasOnlineRouter :: bool
  rsm_routers :: "mikrotik_router list"

definition summariseStep :: "mikrotik_router \<Rightarrow> router_summary \<Rightarrow> router_summary" where
  "summariseStep r acc =
     (let acc1 = (if resolveRouterServiceType r = Pppoe then acc\<lparr>hasPPPoERouter := True\<rparr>
                  else acc\<lparr>hasHotspotRouter := True\<rparr>)
      in if mr_status r = ''online'' then acc1\<lparr>hasOnlineRouter := True\<rparr> else acc1)"

definition summariseRouters :: "mikrotik_router list \<Rightarrow> router_summary" where
  "summariseRouters rs =
     fold summariseStep rs
       \<lparr>hasHotspotRouter = False, hasPPPoERouter = False, hasOnlineRouter = False, rsm_routers = rs\<rparr>"

lemma summarise_exact:
  "summariseRouters rs =
     \<lparr>hasHotspotRouter = (\<exists>r \<in> set rs. resolveRouterServiceType r = Hotspot),
      hasPPPoERouter = (\<exists>r \<in> set rs. resolveRouterServiceType r = Pppoe),
      hasOnlineRouter = (\<exists>r \<in> set rs. mr_status r = ''online''), rsm_routers = rs\<rparr>"
proof -
  have "fold summariseStep rs \<lparr>hasHotspotRouter = h, hasPPPoERouter = p, hasOnlineRouter = n, rsm_routers = l\<rparr> =
     \<lparr>hasHotspotRouter = (h \<or> (\<exists>r \<in> set rs. resolveRouterServiceType r = Hotspot)),
      hasPPPoERouter = (p \<or> (\<exists>r \<in> set rs. resolveRouterServiceType r = Pppoe)),
      hasOnlineRouter = (n \<or> (\<exists>r \<in> set rs. mr_status r = ''online'')), rsm_routers = l\<rparr>" for h p n l
  proof (induction rs arbitrary: h p n)
    case (Cons r rs)
    then show ?case
      by (cases "resolveRouterServiceType r") (auto simp: summariseStep_def Let_def)
  qed simp
  then show ?thesis by (simp add: summariseRouters_def)
qed

section \<open>The wizard's state\<close>

record magic_init =
  mi_router_id :: string
  mi_setup_token :: string
  mi_magic_command :: string
  mi_expires_at :: string
  mi_is_chr :: bool

datatype wstep = WDetails | WCommand | WProvision | WComplete

text \<open>What the resume effect has read, while it waits for the router's status.\<close>

record resume =
  re_id :: string
  re_token :: string
  re_command :: string
  re_expires :: string
  re_isChr :: bool
  re_name :: "string option"
  re_site :: "string option"

record wizard =
  wz_embedded :: bool
  wz_step :: wstep
  wz_routerName :: string
  wz_siteName :: string
  wz_isChr :: bool
  wz_initData :: "magic_init option"
  wz_copied :: bool
  wz_isLoadingResume :: bool
  wz_resume :: "resume option"
  wz_nameError :: string
  wz_siteError :: string
  wz_serviceType :: service_type
  wz_selectedInterface :: string
  wz_ipRange :: string
  wz_interfaces :: "(string \<times> string) list"
  wz_isLoadingInterfaces :: bool
  wz_isProvisioning :: bool
  wz_completeCalled :: bool
  wz_initPending :: bool
  wz_submitted :: "string \<times> string"
  wz_status :: "router_status poll"
  wz_advances :: nat
  wz_local :: storage

section \<open>The browser's copy of the progress\<close>

abbreviation mk :: "string \<Rightarrow> string" where
  "mk n \<equiv> ''Frixel Connect_magic_'' @ n"

definition clearLocalStorage :: "storage \<Rightarrow> storage" where
  "clearLocalStorage s =
     removeItem (mk ''site_name'') (removeItem (mk ''router_name'') (removeItem (mk ''is_chr'')
       (removeItem (mk ''expires_at'') (removeItem (mk ''command'')
         (removeItem (mk ''setup_token'') (removeItem (mk ''router_id'') s))))))"

definition saveLocalStorage :: "magic_init \<Rightarrow> string \<Rightarrow> string \<Rightarrow> storage \<Rightarrow> storage" where
  "saveLocalStorage d name site s =
     setItem (mk ''site_name'') site (setItem (mk ''router_name'') name
       (setItem (mk ''is_chr'') (if mi_is_chr d then ''true'' else ''false'')
         (setItem (mk ''expires_at'') (mi_expires_at d) (setItem (mk ''command'') (mi_magic_command d)
           (setItem (mk ''setup_token'') (mi_setup_token d) (setItem (mk ''router_id'') (mi_router_id d) s))))))"

text \<open>\<open>resumeId || localId\<close> as a nullable text.\<close>

definition activeId :: "string option \<Rightarrow> storage \<Rightarrow> string option" where
  "activeId resumeId s = (if truthy resumeId then resumeId else getItem s (mk ''router_id''))"

definition readResume :: "string option \<Rightarrow> storage \<Rightarrow> resume option" where
  "readResume resumeId s =
     (let i = activeId resumeId s; token = getItem s (mk ''setup_token'');
          command = getItem s (mk ''command''); expires = getItem s (mk ''expires_at'')
      in if truthy i \<and> truthy token \<and> truthy command \<and> truthy expires
         then Some \<lparr>re_id = the i, re_token = the token, re_command = the command,
                    re_expires = the expires, re_isChr = (getItem s (mk ''is_chr'') = Some ''true''),
                    re_name = getItem s (mk ''router_name''), re_site = getItem s (mk ''site_name'')\<rparr>
         else None)"

section \<open>Events\<close>

datatype wizard_action =
    ResumeStatus string | ResumeFailed
  | NameChange string | SiteChange string | ToggleChr | SubmitDetails
  | InitOk magic_init | InitFailed "string option"
  | CopyCommand | CommandCopied | CommandCopyFailed | CopyTimeout
  | StatusEvent "router_status poll_event" | AdvanceDue
  | InterfacesLoaded "(string \<times> string) list" | InterfacesFailed
  | SelectService service_type | SelectInterface string | IpChange string | SubmitProvision
  | ProvisionOk | ProvisionFailed "string option" "string option"
  | ResetWizard | DashboardClick | BackClick

datatype wizard_out =
    GetRouterStatus path
  | PostInitMagic string string bool
  | GetInterfaces path
  | PostProvision path service_type string string
  | OnComplete string string
  | WriteCommand string
  | WToast string
  | WToastErr string
  | WNavigate path

abbreviation routerId :: "wizard \<Rightarrow> string option" where
  "routerId w \<equiv> map_option mi_router_id (wz_initData w)"

section \<open>Effects\<close>

text \<open>The arguments of \<open>useRouterStatus\<close>: another router is another query; a query that becomes
  enabled fetches, because its data is stale at once.\<close>

definition statusEnabled :: "wizard \<Rightarrow> bool" where
  "statusEnabled w = routerStatusEnabled (routerId w) (wz_step w = WCommand)"

definition statusUrl' :: "string option \<Rightarrow> path" where
  "statusUrl' i = ''/admin/routers/onboarding/status/'' @ nullish i []"

definition statusEffect :: "wizard \<Rightarrow> wizard \<Rightarrow> wizard \<times> wizard_out list" where
  "statusEffect old w =
     (let starts = (statusEnabled w \<and> (routerId w \<noteq> routerId old \<or> \<not> statusEnabled old) \<and>
                    (routerId w \<noteq> routerId old \<or> \<not> pl_fetching (wz_status w)))
      in (w\<lparr>wz_status :=
              (if routerId w \<noteq> routerId old then mounted (statusEnabled w)
               else if starts then startFetch (wz_status w) else wz_status w)\<rparr>,
          if starts then [GetRouterStatus (statusUrl' (routerId w))] else []))"

text \<open>The embedding page always passes \<open>onComplete\<close>.\<close>

definition completeEffect :: "wizard \<Rightarrow> wizard \<times> wizard_out list" where
  "completeEffect w =
     (if wz_embedded w \<and> wz_step w = WComplete \<and> truthy (routerId w) \<and> \<not> wz_completeCalled w
      then (w\<lparr>wz_completeCalled := True\<rparr>,
            [OnComplete (the (routerId w)) (if wz_routerName w = [] then ''Router'' else wz_routerName w)])
      else (w, []))"

definition routerOnline :: "wizard \<Rightarrow> bool" where
  "routerOnline w \<longleftrightarrow> map_option rs_status (pl_data (wz_status w)) = Some ''online''"

text \<open>The effect on \<open>[statusData?.status, step]\<close>.\<close>

definition advanceEffect :: "wizard \<Rightarrow> wizard \<Rightarrow> wizard" where
  "advanceEffect old w =
     (if (map_option rs_status (pl_data (wz_status w)), wz_step w)
           \<noteq> (map_option rs_status (pl_data (wz_status old)), wz_step old)
         \<and> routerOnline w \<and> wz_step w = WCommand
      then w\<lparr>wz_advances := Suc (wz_advances w)\<rparr> else w)"

text \<open>The effect on \<open>[step, initData?.router_id]\<close>.\<close>

definition interfacesEffect :: "wizard \<Rightarrow> wizard \<Rightarrow> wizard \<times> wizard_out list" where
  "interfacesEffect old w =
     (if (wz_step w, routerId w) \<noteq> (wz_step old, routerId old) \<and> wz_step w = WProvision \<and> truthy (routerId w)
      then (w\<lparr>wz_isLoadingInterfaces := True\<rparr>,
            [GetInterfaces (''/admin/routers/onboarding/interfaces/'' @ the (routerId w))])
      else (w, []))"

definition effects :: "wizard \<Rightarrow> wizard \<Rightarrow> wizard \<times> wizard_out list" where
  "effects old w =
     (let (w1, o1) = statusEffect old w;
          (w2, o2) = completeEffect w1;
          w3 = advanceEffect old w2;
          (w4, o3) = interfacesEffect old w3
      in (w4, o1 @ o2 @ o3))"

section \<open>Handlers\<close>

definition wizardStart ::
    "(string \<Rightarrow> bool) \<Rightarrow> bool \<Rightarrow> string option \<Rightarrow> storage \<Rightarrow> wizard \<times> wizard_out list" where
  "wizardStart expired embedded resumeId s =
     (let stored = getItem s ''Frixel Connect_onboarding_service'';
          service = (if embedded \<and> stored = Some ''pppoe'' then Pppoe else Hotspot);
          found = readResume resumeId s;
          live = (case found of None \<Rightarrow> False | Some r \<Rightarrow> \<not> expired (re_expires r))
      in (\<lparr>wz_embedded = embedded, wz_step = WDetails, wz_routerName = [], wz_siteName = [],
           wz_isChr = False, wz_initData = None, wz_copied = False, wz_isLoadingResume = live,
           wz_resume = (if live then found else None), wz_nameError = [], wz_siteError = [],
           wz_serviceType = service, wz_selectedInterface = [], wz_ipRange = ''10.0.0.1/24'',
           wz_interfaces = [], wz_isLoadingInterfaces = False, wz_isProvisioning = False,
           wz_completeCalled = False, wz_initPending = False, wz_submitted = ([], []),
           wz_status = mounted False, wz_advances = 0,
           wz_local = (if found \<noteq> None \<and> \<not> live then clearLocalStorage s else s)\<rparr>,
          if live then [GetRouterStatus (statusUrl' (map_option re_id found))] else []))"

definition resumedInit :: "resume \<Rightarrow> magic_init" where
  "resumedInit r =
     \<lparr>mi_router_id = re_id r, mi_setup_token = re_token r, mi_magic_command = re_command r,
      mi_expires_at = re_expires r, mi_is_chr = re_isChr r\<rparr>"

definition chrRange :: "bool \<Rightarrow> string" where
  "chrRange chr = (if chr then ''10.10.10.1/24'' else ''10.0.0.1/24'')"

text \<open>The status answer of the resume effect.\<close>

definition handleResume :: "string \<Rightarrow> wizard \<Rightarrow> wizard" where
  "handleResume status w =
     (case wz_resume w of
        None \<Rightarrow> w
      | Some r \<Rightarrow>
          (let w1 = w\<lparr>wz_isLoadingResume := False, wz_resume := None\<rparr>
           in if status = ''pending_setup'' then
                w1\<lparr>wz_initData := Some (resumedInit r), wz_isChr := re_isChr r,
                   wz_routerName := nullish (re_name r) [], wz_siteName := nullish (re_site r) [],
                   wz_step := WCommand\<rparr>
              else if status = ''online'' then
                w1\<lparr>wz_initData := Some (resumedInit r), wz_isChr := re_isChr r,
                   wz_ipRange := chrRange (re_isChr r),
                   wz_routerName := nullish (re_name r) [], wz_siteName := nullish (re_site r) [],
                   wz_step := WProvision\<rparr>
              else w1))"

definition handleSubmitDetails :: "wizard \<Rightarrow> wizard \<times> wizard_out list" where
  "handleSubmitDetails w =
     (let name = trim (wz_routerName w); site = trim (wz_siteName w);
          w1 = w\<lparr>wz_nameError := (if name = [] then ''Router name is required'' else []),
                 wz_siteError := (if site = [] then ''Site name is required'' else [])\<rparr>
      in if name = [] \<or> site = [] then (w1, [])
         else (w1\<lparr>wz_initPending := True, wz_submitted := (name, site)\<rparr>,
               [PostInitMagic name site (wz_isChr w)]))"

definition handleInitOk :: "magic_init \<Rightarrow> wizard \<Rightarrow> wizard" where
  "handleInitOk d w =
     w\<lparr>wz_initPending := False, wz_initData := Some d,
       wz_local := saveLocalStorage d (fst (wz_submitted w)) (snd (wz_submitted w)) (wz_local w),
       wz_step := WCommand\<rparr>"

definition handleReset :: "wizard \<Rightarrow> wizard" where
  "handleReset w =
     w\<lparr>wz_local := clearLocalStorage (wz_local w), wz_initData := None, wz_routerName := [],
       wz_siteName := [], wz_isChr := False, wz_nameError := [], wz_siteError := [],
       wz_copied := False, wz_serviceType := Hotspot, wz_selectedInterface := [],
       wz_ipRange := ''10.0.0.1/24'', wz_step := WDetails\<rparr>"

definition handleProvision :: "wizard \<Rightarrow> wizard \<times> wizard_out list" where
  "handleProvision w =
     (if wz_selectedInterface w = [] then (w, [WToastErr ''Please select an interface''])
      else if wz_ipRange w = [] then (w, [WToastErr ''Please enter an IP range''])
      else (w\<lparr>wz_isProvisioning := True\<rparr>,
            [PostProvision (''/admin/routers/onboarding/provision/'' @ nullish (routerId w) ''undefined'')
               (wz_serviceType w) (wz_selectedInterface w) (wz_ipRange w)]))"

fun wizard_handler :: "wizard \<Rightarrow> wizard_action \<Rightarrow> wizard \<times> wizard_out list" where
  "wizard_handler w (ResumeStatus st) = (handleResume st w, [])"
| "wizard_handler w ResumeFailed =
     (w\<lparr>wz_local := clearLocalStorage (wz_local w), wz_isLoadingResume := False, wz_resume := None\<rparr>, [])"
| "wizard_handler w (NameChange t) = (w\<lparr>wz_routerName := t, wz_nameError := []\<rparr>, [])"
| "wizard_handler w (SiteChange t) = (w\<lparr>wz_siteName := t, wz_siteError := []\<rparr>, [])"
| "wizard_handler w ToggleChr =
     (w\<lparr>wz_isChr := \<not> wz_isChr w, wz_ipRange := chrRange (\<not> wz_isChr w)\<rparr>, [])"
| "wizard_handler w SubmitDetails = handleSubmitDetails w"
| "wizard_handler w (InitOk d) = (handleInitOk d w, [])"
| "wizard_handler w (InitFailed detail) =
     (w\<lparr>wz_initPending := False\<rparr>,
      [WToastErr (orElse detail ''Failed to generate setup command. Please try again.'')])"
| "wizard_handler w CopyCommand =
     (w, case wz_initData w of None \<Rightarrow> [] | Some d \<Rightarrow> [WriteCommand (mi_magic_command d)])"
| "wizard_handler w CommandCopied = (w\<lparr>wz_copied := True\<rparr>, [])"
| "wizard_handler w CommandCopyFailed =
     (w, [WToastErr ''Could not copy automatically. Please select and copy the command manually.''])"
| "wizard_handler w CopyTimeout = (w\<lparr>wz_copied := False\<rparr>, [])"
| "wizard_handler w (StatusEvent e) =
     (let (q, fetches) = poll_step (wz_status w) e
      in (w\<lparr>wz_status := q\<rparr>, map (\<lambda>_. GetRouterStatus (statusUrl' (routerId w))) fetches))"
| "wizard_handler w AdvanceDue = (w\<lparr>wz_advances := wz_advances w - 1, wz_step := WProvision\<rparr>, [])"
| "wizard_handler w (InterfacesLoaded l) =
     (w\<lparr>wz_interfaces := l,
        wz_selectedInterface := (case l of [] \<Rightarrow> wz_selectedInterface w | x # _ \<Rightarrow> fst x),
        wz_isLoadingInterfaces := False\<rparr>, [])"
| "wizard_handler w InterfacesFailed =
     (w\<lparr>wz_isLoadingInterfaces := False\<rparr>, [WToastErr ''Failed to load router interfaces''])"
| "wizard_handler w (SelectService t) = (w\<lparr>wz_serviceType := t\<rparr>, [])"
| "wizard_handler w (SelectInterface t) = (w\<lparr>wz_selectedInterface := t\<rparr>, [])"
| "wizard_handler w (IpChange t) = (w\<lparr>wz_ipRange := t\<rparr>, [])"
| "wizard_handler w SubmitProvision = handleProvision w"
| "wizard_handler w ProvisionOk =
     (w\<lparr>wz_step := WComplete, wz_local := clearLocalStorage (wz_local w), wz_isProvisioning := False\<rparr>,
      [WToast ''Router provisioned successfully!''])"
| "wizard_handler w (ProvisionFailed detail err) =
     (w\<lparr>wz_isProvisioning := False\<rparr>,
      [WToastErr (orElse detail (orElse err ''Failed to provision router''))])"
| "wizard_handler w ResetWizard = (handleReset w, [])"
| "wizard_handler w DashboardClick = (w, [WNavigate ''/admin/dashboard''])"
| "wizard_handler w BackClick = (w\<lparr>wz_step := WDetails\<rparr>, [])"

definition wizard_step :: "wizard \<Rightarrow> wizard_action \<Rightarrow> wizard \<times> wizard_out list" where
  "wizard_step w a =
     (let (w1, o1) = wizard_handler w a; (w2, o2) = effects w w1 in (w2, o1 @ o2))"

section \<open>The rendered wizard\<close>

definition detailsView :: "wizard \<Rightarrow> wizard_action view list" where
  "detailsView w =
     onlyIf (\<not> wz_embedded w)
       [Txt ''Connect a Router'', Txt ''Takes about 60 seconds. One command does everything.'']
     @ [Txt ''Router Name'', Inp ''Eastlands Site A'' (wz_routerName w) NameChange]
     @ onlyIf (wz_nameError w \<noteq> []) [Txt (wz_nameError w)]
     @ [Txt ''Site Name'', Inp ''Eastlands'' (wz_siteName w) SiteChange]
     @ onlyIf (wz_siteError w \<noteq> []) [Txt (wz_siteError w)]
     @ [Txt ''Testing with CHR (VirtualBox)'', Txt ''Uses your local IP instead of the cloud API'',
        Btn False [] ToggleChr]
     @ onlyIf (wz_isChr w)
         [Txt ''CHR mode active-'',
          Txt ''commands use your local IP (192.168.56.1). WireGuard is skipped since CHR and the backend share the same machine.'',
          Txt ''Disable this for a physical MikroTik.'']
     @ [Btn (wz_initPending w)
          [Txt (if wz_initPending w then ''Generating command...'' else ''Generate Setup Command'')] SubmitDetails]"

definition commandView :: "(string \<Rightarrow> string) \<Rightarrow> magic_init \<Rightarrow> wizard \<Rightarrow> wizard_action view list" where
  "commandView formatDate d w =
     onlyIf (\<not> wz_embedded w)
       [Txt ''Run this on your MikroTik'', Txt ''Open your MikroTik terminal and paste this command:'']
     @ [Txt ''MikroTik Terminal'', Txt (mi_magic_command d),
        Btn False [Txt (if wz_copied w then ''Copied! '' @ [CHR 0xE2, CHR 0x9C, CHR 0x93] else ''Copy Command'')]
          CopyCommand,
        Txt ''How to run it'',
        Txt ''1'', Txt ''Open your MikroTik terminal'',
        Txt (''SSH, Winbox '' @ [CHR 0xE2, CHR 0x86, CHR 0x92] @ '' New Terminal, or WebFig ''
             @ [CHR 0xE2, CHR 0x86, CHR 0x92] @ '' Terminal''),
        Txt ''2'', Txt ''Paste the command and press Enter'',
        Txt ''The router will download and run the setup script'',
        Txt ''3'', Txt ''Wait about 30 seconds'', Txt ''This page updates automatically when done'',
        Txt (if routerOnline w then ''Router connected! Setting up...''
             else ''Waiting for your router to connect...''),
        Txt (''This command expires '' @ formatDate (mi_expires_at d))]
     @ onlyIf (mi_is_chr d)
         [Txt ''CHR mode-'', Txt ''command uses 192.168.56.1. Make sure CHR can reach your Ubuntu host.'']"

text \<open>The interface select: one item per interface, none while scanning or when there are none.\<close>

definition interfaceSelect :: "wizard \<Rightarrow> wizard_action view list" where
  "interfaceSelect w =
     (if wz_isLoadingInterfaces w then [Txt ''Scanning ports...'']
      else if wz_interfaces w = [] then [Btn False [Txt ''No interfaces found''] (SelectInterface [])]
      else map (\<lambda>(name, type). Btn False [Txt (name @ '' ('' @ type @ '')'')] (SelectInterface name))
             (wz_interfaces w))"

definition provisionView :: "wizard \<Rightarrow> wizard_action view list" where
  "provisionView w =
     onlyIf (\<not> wz_embedded w)
       [Txt ''Router Online!'',
        Txt (''Frixel Connect is now connected to '' @ wz_routerName w @ ''. Let's set up your network.'')]
     @ [Txt ''Service Type'', Btn False [Txt ''Hotspot (WiFi)''] (SelectService Hotspot),
        Btn False [Txt ''PPPoE (Fiber/CPE)''] (SelectService Pppoe), Txt ''Select Interface'']
     @ interfaceSelect w
     @ [Txt ''This is the physical or virtual port your customers will connect to.'',
        Txt ''IP Range (CIDR)'', Inp ''10.0.0.1/24'' (wz_ipRange w) IpChange,
        Txt (''The network range assigned to your ''
             @ (if wz_serviceType w = Hotspot then ''Hotspot DHCP pool'' else ''PPPoE clients'') @ ''.''),
        Btn (wz_isProvisioning w \<or> wz_isLoadingInterfaces w \<or> wz_selectedInterface w = [])
          [Txt (if wz_isProvisioning w then ''Provisioning...'' else ''Deploy Configuration'')] SubmitProvision]"

definition completeView :: "magic_init \<Rightarrow> wizard \<Rightarrow> wizard_action view list" where
  "completeView d w =
     onlyIf (\<not> wz_embedded w)
       [Txt ''Router Connected!'',
        Txt ''Your MikroTik is now linked to Frixel Connect and ready to process sessions.'']
     @ [Txt ''Router name'', Txt (if wz_routerName w = [] then ''Router'' else wz_routerName w),
        Txt ''Site'', Txt (if wz_siteName w = [] then ''Site'' else wz_siteName w),
        Txt ''Status'', Txt ''Online'',
        Txt ''Network'',
        Txt (if mi_is_chr d then ''Local (VirtualBox host-only)'' else ''WireGuard VPN (10.8.x.x)''),
        Txt ''API user'', Txt ''Frixel Connect-api'', Txt ''Speed tiers'', Txt ''10 / 20 / 50 Mbps'']
     @ onlyIf (\<not> wz_embedded w)
         [Btn False [Txt ''Add Another Router''] ResetWizard, Btn False [Txt ''Go to Dashboard''] DashboardClick]"

definition wizardContent :: "(string \<Rightarrow> string) \<Rightarrow> wizard \<Rightarrow> wizard_action view list" where
  "wizardContent formatDate w =
     (case wz_step w of
        WDetails \<Rightarrow> detailsView w
      | WCommand \<Rightarrow> (case wz_initData w of None \<Rightarrow> [] | Some d \<Rightarrow> commandView formatDate d w)
      | WProvision \<Rightarrow> (case wz_initData w of None \<Rightarrow> [] | Some d \<Rightarrow> provisionView w)
      | WComplete \<Rightarrow> (case wz_initData w of None \<Rightarrow> [] | Some d \<Rightarrow> completeView d w))"

definition wizardHeader :: "wizard \<Rightarrow> wizard_action view list" where
  "wizardHeader w =
     onlyIf (wz_step w = WCommand) [Btn False [Txt ''Back''] BackClick]
     @ [Txt ''Connect a Router'']
     @ onlyIf (wz_step w = WCommand \<or> wz_step w = WProvision)
         [Txt ''Details'', Txt ''Connect'', Txt ''Provision'']"

definition wizardView :: "(string \<Rightarrow> string) \<Rightarrow> wizard \<Rightarrow> wizard_action view" where
  "wizardView formatDate w =
     (if wz_isLoadingResume w then Group [Txt ''Checking setup status...'']
      else if wz_embedded w then Group (wizardContent formatDate w)
      else Group (wizardHeader w @ wizardContent formatDate w))"

text \<open>What can happen: answers to outstanding requests, timers that run, and what is offered.\<close>

fun wizard_ok :: "(string \<Rightarrow> string) \<Rightarrow> wizard \<Rightarrow> wizard_action \<Rightarrow> bool" where
  "wizard_ok fmt w (ResumeStatus st) = (wz_resume w \<noteq> None)"
| "wizard_ok fmt w ResumeFailed = (wz_resume w \<noteq> None)"
| "wizard_ok fmt w (InitOk d) = wz_initPending w"
| "wizard_ok fmt w (InitFailed d) = wz_initPending w"
| "wizard_ok fmt w CommandCopied = True"
| "wizard_ok fmt w CommandCopyFailed = True"
| "wizard_ok fmt w CopyTimeout = True"
| "wizard_ok fmt w (StatusEvent e) =
     (e \<noteq> PollRefetch \<and> poll_ok (statusEnabled w) routerStatusInterval (wz_status w) e)"
| "wizard_ok fmt w AdvanceDue = (0 < wz_advances w)"
| "wizard_ok fmt w (InterfacesLoaded l) = wz_isLoadingInterfaces w"
| "wizard_ok fmt w InterfacesFailed = wz_isLoadingInterfaces w"
| "wizard_ok fmt w ProvisionOk = wz_isProvisioning w"
| "wizard_ok fmt w (ProvisionFailed d e) = wz_isProvisioning w"
| "wizard_ok fmt w a = offers (wizardView fmt w) a"

section \<open>Lemmas\<close>

lemma interfaceSelect_offers: "list_ex (\<lambda>v. offers v a) (interfaceSelect w) \<Longrightarrow> \<exists>t. a = SelectInterface t"
  by (auto simp: interfaceSelect_def list_ex_iff offers_simps typable_simps split: if_splits)

text \<open>Which of the controls that move the wizard each screen has.\<close>

definition moves :: "wizard_action set" where
  "moves = {SubmitProvision, ResetWizard, BackClick}"

lemma details_moves: "a \<in> moves \<Longrightarrow> \<not> list_ex (\<lambda>v. offers v a) (detailsView w)"
  by (auto simp: moves_def detailsView_def view_lists)

lemma command_moves: "a \<in> moves \<Longrightarrow> \<not> list_ex (\<lambda>v. offers v a) (commandView fmt d w)"
  by (auto simp: moves_def commandView_def view_lists)

lemma provision_moves:
  "a \<in> moves \<Longrightarrow> list_ex (\<lambda>v. offers v a) (provisionView w) \<Longrightarrow> a = SubmitProvision \<and> \<not> wz_isProvisioning w"
  using interfaceSelect_offers [of a w] by (auto simp: moves_def provisionView_def view_lists)

lemma complete_moves: "a \<in> moves \<Longrightarrow> list_ex (\<lambda>v. offers v a) (completeView d w) \<Longrightarrow> a = ResetWizard"
  by (auto simp: moves_def completeView_def view_lists)

lemma header_moves:
  "a \<in> moves \<Longrightarrow> list_ex (\<lambda>v. offers v a) (wizardHeader w) \<Longrightarrow> a = BackClick \<and> wz_step w = WCommand"
  by (auto simp: moves_def wizardHeader_def view_lists)

lemma content_moves:
  "a \<in> moves \<Longrightarrow> list_ex (\<lambda>v. offers v a) (wizardContent fmt w) \<Longrightarrow>
     a = SubmitProvision \<and> wz_step w = WProvision \<and> \<not> wz_isProvisioning w
     \<or> a = ResetWizard \<and> wz_step w = WComplete"
  using details_moves [of a w] command_moves [of a fmt _ w] provision_moves [of a w] complete_moves [of a _ w]
  by (cases "wz_step w"; cases "wz_initData w") (auto simp: wizardContent_def)

lemma wizard_moves:
  assumes "offers (wizardView fmt w) a" "a \<in> moves"
  shows "a = SubmitProvision \<and> wz_step w = WProvision \<and> \<not> wz_isProvisioning w
     \<or> a = ResetWizard \<and> wz_step w = WComplete \<or> a = BackClick \<and> wz_step w = WCommand"
proof -
  have "list_ex (\<lambda>v. offers v a) (wizardContent fmt w) \<or> list_ex (\<lambda>v. offers v a) (wizardHeader w)"
    using assms(1) by (auto simp: wizardView_def offers_Group offers_simps(1) split: if_splits)
  then show ?thesis using content_moves [OF assms(2)] header_moves [OF assms(2)] by blast
qed

lemma wizard_offers:
  "offers (wizardView fmt w) SubmitProvision \<Longrightarrow> wz_step w = WProvision \<and> \<not> wz_isProvisioning w"
  "offers (wizardView fmt w) ResetWizard \<Longrightarrow> wz_step w = WComplete"
  using wizard_moves [of fmt w] by (auto simp: moves_def)

lemma offered:
  "\<not> wz_isLoadingResume w \<Longrightarrow> wz_step w = WDetails \<Longrightarrow> offers (wizardView fmt w) (NameChange t)"
  "\<not> wz_isLoadingResume w \<Longrightarrow> wz_step w = WDetails \<Longrightarrow> offers (wizardView fmt w) (SiteChange t)"
  "\<not> wz_isLoadingResume w \<Longrightarrow> wz_step w = WDetails \<Longrightarrow> \<not> wz_initPending w \<Longrightarrow>
     offers (wizardView fmt w) SubmitDetails"
  "\<not> wz_isLoadingResume w \<Longrightarrow> wz_step w = WProvision \<Longrightarrow> wz_initData w \<noteq> None \<Longrightarrow> \<not> wz_isProvisioning w \<Longrightarrow>
     \<not> wz_isLoadingInterfaces w \<Longrightarrow> wz_selectedInterface w \<noteq> [] \<Longrightarrow> offers (wizardView fmt w) SubmitProvision"
  by (auto simp: wizardView_def wizardContent_def detailsView_def provisionView_def view_lists)

fun provision_answer :: "wizard_action \<Rightarrow> bool" where
  "provision_answer ProvisionOk = True"
| "provision_answer (ProvisionFailed d e) = True"
| "provision_answer _ = False"

fun is_provision :: "wizard_out \<Rightarrow> bool" where
  "is_provision (PostProvision u t i r) = True"
| "is_provision _ = False"

lemma effects_simps:
  "wz_isProvisioning (fst (effects old w)) = wz_isProvisioning w"
  "filter is_provision (snd (effects old w)) = []"
  "wz_step (fst (effects old w)) = wz_step w"
  "wz_initData (fst (effects old w)) = wz_initData w"
  "wz_local (fst (effects old w)) = wz_local w"
  "wz_resume (fst (effects old w)) = wz_resume w"
  "wz_routerName (fst (effects old w)) = wz_routerName w"
  "wz_siteName (fst (effects old w)) = wz_siteName w"
  "wz_isChr (fst (effects old w)) = wz_isChr w"
  "wz_ipRange (fst (effects old w)) = wz_ipRange w"
  "PostProvision u t i r \<notin> set (snd (effects old w))"
  by (simp_all add: effects_def statusEffect_def completeEffect_def advanceEffect_def interfacesEffect_def Let_def)

lemma wizard_step_simps:
  "fst (wizard_step w a) = fst (effects w (fst (wizard_handler w a)))"
  "snd (wizard_step w a) = snd (wizard_handler w a) @ snd (effects w (fst (wizard_handler w a)))"
  by (simp_all add: wizard_step_def split: prod.splits)

interpretation provisioning: request_flight wizard_step "wizard_ok fmt" wz_isProvisioning provision_answer is_provision
  for fmt
proof
  fix w :: wizard and a
  show "wizard_ok fmt w a \<Longrightarrow> provision_answer a \<Longrightarrow> wz_isProvisioning w
      \<and> \<not> wz_isProvisioning (fst (wizard_step w a)) \<and> filter is_provision (snd (wizard_step w a)) = []"
    by (cases a) (auto simp: wizard_step_simps effects_simps)
  show "wizard_ok fmt w a \<Longrightarrow> \<not> provision_answer a \<Longrightarrow>
      (filter is_provision (snd (wizard_step w a)) = [] \<and> wz_isProvisioning (fst (wizard_step w a)) = wz_isProvisioning w)
      \<or> (length (filter is_provision (snd (wizard_step w a))) = 1 \<and> \<not> wz_isProvisioning w
         \<and> wz_isProvisioning (fst (wizard_step w a)))"
    by (cases a) (auto simp: wizard_step_simps effects_simps handleResume_def handleSubmitDetails_def
        handleInitOk_def handleReset_def handleProvision_def Let_def filter_empty_conv
        split: option.splits prod.splits dest: wizard_offers)
qed

text \<open>The answers that say the router is online.\<close>

fun is_online :: "wizard_action \<Rightarrow> bool" where
  "is_online (ResumeStatus st) = (st = ''online'')"
| "is_online (StatusEvent (PollAnswer d)) = (rs_status d = ''online'')"
| "is_online _ = False"

fun is_result :: "wizard_out \<Rightarrow> bool" where
  "is_result (PostProvision u t i r) = True"
| "is_result (OnComplete i n) = True"
| "is_result _ = False"

text \<open>A wizard that has not seen its router online.\<close>

definition offline :: "wizard \<Rightarrow> bool" where
  "offline w \<longleftrightarrow> (wz_step w = WDetails \<or> wz_step w = WCommand) \<and> wz_advances w = 0 \<and> \<not> routerOnline w
     \<and> \<not> wz_isProvisioning w"

lemma offline_effects:
  "offline w \<Longrightarrow> offline (fst (effects old w)) \<and> \<not> list_ex is_result (snd (effects old w))"
  by (auto simp: offline_def effects_def statusEffect_def completeEffect_def advanceEffect_def interfacesEffect_def
      routerOnline_def mounted_def startFetch_def Let_def)

lemma offline_handler:
  assumes "offline w" "wizard_ok fmt w a" "\<not> is_online a"
  shows "offline (fst (wizard_handler w a)) \<and> \<not> list_ex is_result (snd (wizard_handler w a))"
proof (cases a)
  case (StatusEvent e)
  with assms show ?thesis
    by (cases e) (auto simp: offline_def routerOnline_def startFetch_def)
qed (use assms in \<open>auto simp: offline_def routerOnline_def handleResume_def handleSubmitDetails_def handleInitOk_def
        handleReset_def Let_def dest: wizard_offers split: option.splits\<close>)

lemma offline_run:
  "guarded_run (wizard_ok fmt) wizard_step w as = Some (w', outs) \<Longrightarrow> offline w \<Longrightarrow> \<not> list_ex is_online as \<Longrightarrow>
   \<not> list_ex is_result outs"
proof (induction as arbitrary: w outs)
  case (Cons a as)
  from Cons.prems(1) obtain os where ok: "wizard_ok fmt w a"
    and run: "guarded_run (wizard_ok fmt) wizard_step (fst (wizard_step w a)) as = Some (w', os)"
    and outs: "outs = snd (wizard_step w a) @ os" by (auto simp: guarded_run_Cons)
  have h: "offline (fst (wizard_handler w a))" "\<not> list_ex is_result (snd (wizard_handler w a))"
    using offline_handler [OF Cons.prems(2) ok] Cons.prems(3) by auto
  have "offline (fst (wizard_step w a))" "\<not> list_ex is_result (snd (wizard_step w a))"
    using offline_effects [OF h(1)] h(2) by (auto simp: wizard_step_simps)
  with Cons.IH [OF run] Cons.prems(3) outs show ?case by simp
qed simp

lemma wizard_step_provision:
  "PostProvision u t i r \<in> set (snd (wizard_step w a)) \<Longrightarrow> i \<noteq> [] \<and> r \<noteq> []"
  by (cases a) (auto simp: wizard_step_simps effects_simps handleSubmitDetails_def handleProvision_def Let_def
      split: option.splits prod.splits if_splits)

lemma saved_fields:
  "getItem (saveLocalStorage d name site s) (mk ''router_id'') = Some (mi_router_id d)"
  "getItem (saveLocalStorage d name site s) (mk ''setup_token'') = Some (mi_setup_token d)"
  "getItem (saveLocalStorage d name site s) (mk ''command'') = Some (mi_magic_command d)"
  "getItem (saveLocalStorage d name site s) (mk ''expires_at'') = Some (mi_expires_at d)"
  "getItem (saveLocalStorage d name site s) (mk ''is_chr'') = Some (if mi_is_chr d then ''true'' else ''false'')"
  "getItem (saveLocalStorage d name site s) (mk ''router_name'') = Some name"
  "getItem (saveLocalStorage d name site s) (mk ''site_name'') = Some site"
  by (simp_all add: saveLocalStorage_def storage_simps)

text \<open>A command whose parts are all present.\<close>

definition usable :: "magic_init \<Rightarrow> bool" where
  "usable d \<longleftrightarrow> mi_router_id d \<noteq> [] \<and> mi_setup_token d \<noteq> [] \<and> mi_magic_command d \<noteq> [] \<and> mi_expires_at d \<noteq> []"

lemma readResume_saved:
  "usable d \<Longrightarrow> readResume None (saveLocalStorage d name site s) =
     Some \<lparr>re_id = mi_router_id d, re_token = mi_setup_token d, re_command = mi_magic_command d,
           re_expires = mi_expires_at d, re_isChr = mi_is_chr d, re_name = Some name, re_site = Some site\<rparr>"
  unfolding readResume_def activeId_def saved_fields by (simp add: usable_def)

lemma resume_state:
  assumes "usable d" "\<not> expired (mi_expires_at d)"
    and "wizardStart expired embedded None (saveLocalStorage d name site s) = (w2, outs)"
  shows "wz_resume w2 = Some \<lparr>re_id = mi_router_id d, re_token = mi_setup_token d, re_command = mi_magic_command d,
           re_expires = mi_expires_at d, re_isChr = mi_is_chr d, re_name = Some name, re_site = Some site\<rparr>"
    and "outs = [GetRouterStatus (statusUrl' (Some (mi_router_id d)))]"
    and "wz_isLoadingResume w2"
    and "wz_ipRange w2 = ''10.0.0.1/24''"
  using assms by (auto simp: wizardStart_def readResume_saved Let_def)

section \<open>Which router was seen online\<close>

text \<open>The router an answer is about: the one the resume effect asked for, or the one the wizard polls.\<close>

fun answeredRouter :: "wizard \<Rightarrow> wizard_action \<Rightarrow> string option" where
  "answeredRouter w (ResumeStatus st) = map_option re_id (wz_resume w)"
| "answeredRouter w (StatusEvent e) = routerId w"
| "answeredRouter w _ = None"

definition seenNow :: "wizard \<Rightarrow> wizard_action \<Rightarrow> string set" where
  "seenNow w a = (if is_online a then set_option (answeredRouter w a) else {})"

fun seenOnline :: "wizard \<Rightarrow> wizard_action list \<Rightarrow> string set" where
  "seenOnline w [] = {}"
| "seenOnline w (a # as) = seenNow w a \<union> seenOnline (fst (wizard_step w a)) as"

definition provisionUrl :: "string \<Rightarrow> path" where
  "provisionUrl i = ''/admin/routers/onboarding/provision/'' @ i"

text \<open>The wizard of one router: before its command there is nothing to provision, afterwards no other router
  comes in, and every step past the command is owed to an answer about it.\<close>

definition tracked :: "string set \<Rightarrow> wizard \<Rightarrow> bool" where
  "tracked S w \<longleftrightarrow>
     (case wz_initData w of
        None \<Rightarrow> wz_step w = WDetails \<and> wz_advances w = 0 \<and> \<not> routerOnline w \<and> \<not> pl_fetching (wz_status w)
          \<and> \<not> wz_isProvisioning w \<and> (wz_resume w \<noteq> None \<longrightarrow> wz_isLoadingResume w \<and> \<not> wz_initPending w)
      | Some d \<Rightarrow> wz_step w \<noteq> WDetails \<and> wz_resume w = None \<and> \<not> wz_initPending w
          \<and> (wz_step w = WProvision \<or> wz_step w = WComplete \<or> 0 < wz_advances w \<or> routerOnline w
               \<or> wz_isProvisioning w \<longrightarrow> mi_router_id d \<in> S))"

fun resultOf :: "string set \<Rightarrow> wizard_out \<Rightarrow> bool" where
  "resultOf S (PostProvision u t i r) = (u \<in> provisionUrl ` S)"
| "resultOf S (OnComplete x n) = (x \<in> S)"
| "resultOf S _ = True"

abbreviation resultsIn :: "string set \<Rightarrow> wizard_out list \<Rightarrow> bool" where
  "resultsIn S \<equiv> list_all (resultOf S)"

lemma resultOf_mono: "resultOf S x \<Longrightarrow> S \<subseteq> T \<Longrightarrow> resultOf T x"
  by (cases x) auto

lemma resultsIn_mono: "resultsIn S os \<Longrightarrow> S \<subseteq> T \<Longrightarrow> resultsIn T os"
  using resultOf_mono by (auto simp: list_all_iff)

lemma resultsIn_D:
  assumes "resultsIn S os"
  shows "(\<forall>u t i r. PostProvision u t i r \<in> set os \<longrightarrow> (\<exists>x \<in> S. u = provisionUrl x))
    \<and> (\<forall>x n. OnComplete x n \<in> set os \<longrightarrow> x \<in> S)"
  using assms by (force simp: list_all_iff)

lemma tracked_status: "tracked S w \<Longrightarrow> tracked S (fst (statusEffect old w)) \<and> resultsIn S (snd (statusEffect old w))"
  by (cases "wz_initData w")
     (simp_all add: tracked_def statusEffect_def routerOnline_def mounted_def startFetch_def statusEnabled_def
       routerStatusEnabled_def Let_def)

lemma tracked_complete: "tracked S w \<Longrightarrow> tracked S (fst (completeEffect w)) \<and> resultsIn S (snd (completeEffect w))"
  by (cases "wz_initData w") (simp_all add: tracked_def completeEffect_def routerOnline_def)

lemma tracked_advance: "tracked S w \<Longrightarrow> tracked S (advanceEffect old w)"
  by (cases "wz_initData w") (simp_all add: tracked_def advanceEffect_def routerOnline_def)

lemma tracked_interfaces: "tracked S w \<Longrightarrow> tracked S (fst (interfacesEffect old w)) \<and> resultsIn S (snd (interfacesEffect old w))"
  by (cases "wz_initData w") (simp_all add: tracked_def interfacesEffect_def routerOnline_def)

lemma tracked_effects:
  assumes "tracked S w"
  shows "tracked S (fst (effects old w)) \<and> resultsIn S (snd (effects old w))"
proof -
  note 1 = tracked_status [OF assms, of old]
  note 2 = tracked_complete [OF conjunct1 [OF 1]]
  note 3 = tracked_interfaces [OF tracked_advance [OF conjunct1 [OF 2], of old], of old]
  show ?thesis using 1 2 3 by (simp add: effects_def case_prod_beta Let_def)
qed

lemma submit_offered:
  "offers (wizardView fmt w) SubmitDetails \<Longrightarrow> wz_step w = WDetails \<and> \<not> wz_isLoadingResume w"
proof -
  assume offered: "offers (wizardView fmt w) SubmitDetails"
  have none: "\<not> list_ex (\<lambda>v. offers v SubmitDetails) (interfaceSelect w)" using interfaceSelect_offers [of SubmitDetails w] by auto
  show ?thesis
    using offered none
    by (cases "wz_step w"; cases "wz_initData w")
       (auto simp: wizardView_def wizardContent_def wizardHeader_def commandView_def provisionView_def completeView_def
         view_lists split: if_splits)
qed

lemma tracked_handler:
  assumes "tracked S w" "wizard_ok fmt w a" "a \<noteq> BackClick" "a \<noteq> ResetWizard"
  shows "tracked (S \<union> seenNow w a) (fst (wizard_handler w a))
    \<and> resultsIn (S \<union> seenNow w a) (snd (wizard_handler w a))"
proof (cases a)
  case (StatusEvent e)
  with assms show ?thesis
    by (cases e; cases "wz_initData w")
       (auto simp: tracked_def seenNow_def routerOnline_def startFetch_def statusEnabled_def routerStatusEnabled_def)
next
  case (ResumeStatus st)
  with assms show ?thesis
    by (cases "wz_initData w"; cases "wz_resume w")
       (auto simp: tracked_def seenNow_def handleResume_def routerOnline_def resumedInit_def Let_def)
next
  case SubmitProvision
  then have "wz_step w = WProvision" using assms(2) by (auto dest: wizard_offers)
  with SubmitProvision assms(1) show ?thesis
    by (auto simp: tracked_def seenNow_def handleProvision_def routerOnline_def provisionUrl_def split: option.splits)
next
  case SubmitDetails
  then have "wz_step w = WDetails" "\<not> wz_isLoadingResume w" using assms(2) by (auto dest: submit_offered)
  with SubmitDetails assms(1) show ?thesis
    by (auto simp: tracked_def seenNow_def handleSubmitDetails_def routerOnline_def Let_def split: option.splits)
qed (use assms in \<open>auto simp: tracked_def seenNow_def routerOnline_def handleInitOk_def split: option.splits\<close>)

lemma tracked_run:
  "guarded_run (wizard_ok fmt) wizard_step w as = Some (w', outs) \<Longrightarrow> tracked S w \<Longrightarrow>
   BackClick \<notin> set as \<Longrightarrow> ResetWizard \<notin> set as \<Longrightarrow> resultsIn (S \<union> seenOnline w as) outs"
proof (induction as arbitrary: w outs S)
  case (Cons a as)
  from Cons.prems(1) obtain os where ok: "wizard_ok fmt w a"
    and run: "guarded_run (wizard_ok fmt) wizard_step (fst (wizard_step w a)) as = Some (w', os)"
    and outs: "outs = snd (wizard_step w a) @ os" by (auto simp: guarded_run_Cons)
  have h: "tracked (S \<union> seenNow w a) (fst (wizard_handler w a))" "resultsIn (S \<union> seenNow w a) (snd (wizard_handler w a))"
    using tracked_handler [OF Cons.prems(2) ok] Cons.prems(3,4) by auto
  have s: "tracked (S \<union> seenNow w a) (fst (wizard_step w a))" "resultsIn (S \<union> seenNow w a) (snd (wizard_step w a))"
    using tracked_effects [OF h(1), of w] h(2) by (simp_all add: wizard_step_simps)
  have "resultsIn (S \<union> seenNow w a \<union> seenOnline (fst (wizard_step w a)) as) (snd (wizard_step w a))"
    by (rule resultsIn_mono [OF s(2)]) auto
  with Cons.IH [OF run s(1)] Cons.prems(3,4) outs show ?case by (simp add: Un_assoc)
qed simp

text \<open>Inside the onboarding page there is no way back and no second router.\<close>

lemma embedded_step: "wz_embedded (fst (wizard_step w a)) = wz_embedded w"
proof -
  have "wz_embedded (fst (effects old w)) = wz_embedded w" for old w
    by (simp add: effects_def statusEffect_def completeEffect_def advanceEffect_def interfacesEffect_def Let_def)
  then show ?thesis
    by (cases a) (auto simp: wizard_step_simps handleResume_def handleSubmitDetails_def handleInitOk_def handleReset_def
        handleProvision_def Let_def split: option.splits prod.splits)
qed

lemma embedded_offers:
  assumes "wz_embedded w" "a = BackClick \<or> a = ResetWizard"
  shows "\<not> offers (wizardView fmt w) a"
proof
  assume offered: "offers (wizardView fmt w) a"
  have "a \<in> moves" using assms(2) by (auto simp: moves_def)
  with offered assms have "list_ex (\<lambda>v. offers v a) (wizardContent fmt w)"
    by (auto simp: wizardView_def offers_Group offers_simps(1) split: if_splits)
  with content_moves [OF \<open>a \<in> moves\<close> this] assms show False
    by (auto simp: wizardContent_def completeView_def view_lists split: option.splits)
qed

lemma embedded_run:
  "guarded_run (wizard_ok fmt) wizard_step w as = Some (w', outs) \<Longrightarrow> wz_embedded w \<Longrightarrow>
   BackClick \<notin> set as \<and> ResetWizard \<notin> set as"
proof (induction as arbitrary: w outs)
  case (Cons a as)
  from Cons.prems(1) obtain os where ok: "wizard_ok fmt w a"
    and run: "guarded_run (wizard_ok fmt) wizard_step (fst (wizard_step w a)) as = Some (w', os)"
    by (auto simp: guarded_run_Cons)
  have "a \<noteq> BackClick" "a \<noteq> ResetWizard" using ok embedded_offers [OF Cons.prems(2), of a fmt] by auto
  with Cons.IH [OF run] Cons.prems(2) show ?case by (simp add: embedded_step)
qed simp

section \<open>Properties\<close>

text \<open>C23: provisioning only after this router answered: in every run of the wizard of the onboarding page, and in
  every run of the wizard page in which neither Back nor Add Another Router is used, a router is
  provisioned, or reported to the onboarding page as connected, only if an answer about that very router
  said it is online. In every run at all some answer said so before, each provisioning names an interface
  and a range, and there are as many as answered ones plus the one running.\<close>

theorem provision_needs_online:
  assumes "guarded_run (wizard_ok fmt) wizard_step (fst (wizardStart expired embedded rid s)) as = Some (w, outs)"
  shows "(embedded \<or> BackClick \<notin> set as \<and> ResetWizard \<notin> set as \<longrightarrow>
        (\<forall>u t i r. PostProvision u t i r \<in> set outs \<longrightarrow>
           (\<exists>x \<in> seenOnline (fst (wizardStart expired embedded rid s)) as. u = provisionUrl x))
        \<and> (\<forall>x n. OnComplete x n \<in> set outs \<longrightarrow> x \<in> seenOnline (fst (wizardStart expired embedded rid s)) as))
    \<and> (list_ex is_result outs \<longrightarrow> list_ex is_online as)
    \<and> (\<forall>u t i r. PostProvision u t i r \<in> set outs \<longrightarrow> i \<noteq> [] \<and> r \<noteq> [])
    \<and> length (filter is_provision outs) = length (filter provision_answer as) + of_bool (wz_isProvisioning w)"
proof -
  let ?w = "fst (wizardStart expired embedded rid s)"
  have start: "offline ?w" "\<not> wz_isProvisioning ?w" "tracked {} ?w" "wz_embedded ?w = embedded"
    by (simp_all add: wizardStart_def offline_def tracked_def routerOnline_def mounted_def Let_def)
  have "resultsIn (seenOnline ?w as) outs" if "embedded \<or> BackClick \<notin> set as \<and> ResetWizard \<notin> set as"
    using tracked_run [OF assms start(3)] embedded_run [OF assms] start(4) that by auto
  moreover have "i \<noteq> [] \<and> r \<noteq> []" if "PostProvision u t i r \<in> set outs" for u t i r
  proof -
    have "\<forall>u' t' i' r'. PostProvision u t i r = PostProvision u' t' i' r' \<longrightarrow> i' \<noteq> [] \<and> r' \<noteq> []"
      by (rule guarded_run_outputs [OF _ assms that]) (auto dest: wizard_step_provision)
    then show ?thesis by blast
  qed
  ultimately show ?thesis
    using resultsIn_D [of "seenOnline ?w as" outs] offline_run [OF assms start(1)] provisioning.request_flights [OF assms] start(2)
    by (intro conjI impI) auto
qed

text \<open>C24: the wizard survives a reload: once the command has been generated, a wizard started afresh
  over the same storage asks for that router's status and, when it is still pending, shows the
  command step again with the same command, names and mode, and polls.\<close>

theorem wizard_resumes:
  assumes "usable d" and "\<not> expired (mi_expires_at d)" and "wz_submitted w = (name, site)"
  shows "let w1 = fst (wizard_step w (InitOk d));
             (w2, outs) = wizardStart expired embedded None (wz_local w1);
             w3 = fst (wizard_step w2 (ResumeStatus ''pending_setup'')) in
      wz_isLoadingResume w2 \<and> outs = [GetRouterStatus (statusUrl' (Some (mi_router_id d)))]
      \<and> wz_step w3 = WCommand \<and> wz_initData w3 = Some d \<and> wz_routerName w3 = name \<and> wz_siteName w3 = site
      \<and> wz_isChr w3 = mi_is_chr d \<and> statusEnabled w3"
proof -
  have loc: "wz_local (fst (wizard_step w (InitOk d))) = saveLocalStorage d name site (wz_local w)"
    using assms(3) by (simp add: wizard_step_simps effects_simps handleInitOk_def)
  obtain w2 outs where start: "wizardStart expired embedded None (saveLocalStorage d name site (wz_local w)) = (w2, outs)"
    by fastforce
  note w2 = resume_state [where expired = expired, OF assms(1,2) start]
  have "handleResume ''pending_setup'' w2 =
     w2\<lparr>wz_isLoadingResume := False, wz_resume := None, wz_initData := Some d, wz_isChr := mi_is_chr d,
        wz_routerName := name, wz_siteName := site, wz_step := WCommand\<rparr>"
    by (simp add: handleResume_def w2 resumedInit_def Let_def)
  then show ?thesis
    unfolding Let_def loc start prod.case
    using assms(1)
    by (simp add: w2 wizard_step_simps effects_simps statusEnabled_def routerStatusEnabled_def usable_def)
qed

text \<open>A resumed command for the virtual router keeps the mode but not its address range.\<close>

lemma resume_forgets_range:
  assumes "usable d" "\<not> expired (mi_expires_at d)" "mi_is_chr d"
  shows "let w2 = fst (wizardStart expired embedded None (saveLocalStorage d name site s));
             w3 = fst (wizard_step w2 (ResumeStatus ''pending_setup'')) in
      wz_isChr w3 \<and> wz_ipRange w3 = ''10.0.0.1/24'' \<and> chrRange (wz_isChr w3) = ''10.10.10.1/24''"
proof -
  obtain w2 outs where start: "wizardStart expired embedded None (saveLocalStorage d name site s) = (w2, outs)"
    by fastforce
  show ?thesis
    using assms(3) resume_state [where expired = expired, OF assms(1,2) start]
    by (simp add: start wizard_step_simps effects_simps handleResume_def chrRange_def Let_def)
qed

text \<open>A link that resumes one router shows the command stored for another.\<close>

lemma resume_mixes_routers:
  assumes "usable d" "other \<noteq> []"
  shows "map_option re_id (readResume (Some other) (saveLocalStorage d name site s)) = Some other
    \<and> map_option re_command (readResume (Some other) (saveLocalStorage d name site s)) = Some (mi_magic_command d)"
  unfolding readResume_def activeId_def saved_fields using assms by (simp add: usable_def)

definition sampleInit :: magic_init where
  "sampleInit = \<lparr>mi_router_id = ''r1'', mi_setup_token = ''tok'', mi_magic_command = ''/import'',
                 mi_expires_at = ''2030'', mi_is_chr = True\<rparr>"

theorem wizard_resumes_witness:
  "let w = (fst (wizardStart (\<lambda>_. False) False None []))\<lparr>wz_submitted := (''A'', ''B'')\<rparr>;
       w1 = fst (wizard_step w (InitOk sampleInit));
       (w2, outs) = wizardStart (\<lambda>_. False) False None (wz_local w1);
       w3 = fst (wizard_step w2 (ResumeStatus ''pending_setup'')) in
      wz_isLoadingResume w2 \<and> outs = [GetRouterStatus (statusUrl' (Some (mi_router_id sampleInit)))]
      \<and> wz_step w3 = WCommand \<and> wz_initData w3 = Some sampleInit \<and> wz_routerName w3 = ''A'' \<and> wz_siteName w3 = ''B''
      \<and> wz_isChr w3 = mi_is_chr sampleInit \<and> statusEnabled w3"
  using wizard_resumes [of sampleInit "\<lambda>_. False"
      "(fst (wizardStart (\<lambda>_. False) False None []))\<lparr>wz_submitted := (''A'', ''B'')\<rparr>" "''A''" "''B''" False]
  by (simp add: usable_def sampleInit_def)

definition onlineRun :: "wizard_action list" where
  "onlineRun = [NameChange ''A'', SiteChange ''B'', SubmitDetails, InitOk sampleInit,
     StatusEvent (PollAnswer \<lparr>rs_router_id = ''r1'', rs_status = ''online''\<rparr>), AdvanceDue,
     InterfacesLoaded [(''ether2'', ''ether'')], SubmitProvision, ProvisionOk]"

lemmas wizard_eval = guarded_runs offered wizardStart_def readResume_def activeId_def getItem_def wizard_step_def
  handleSubmitDetails_def trim_def is_space_def handleInitOk_def handleProvision_def effects_def
  statusEffect_def completeEffect_def advanceEffect_def interfacesEffect_def routerOnline_def
  statusEnabled_def routerStatusEnabled_def mounted_def sampleInit_def Let_def

theorem provision_needs_online_witness:
  "\<exists>w outs. guarded_run (wizard_ok id) wizard_step (fst (wizardStart (\<lambda>_. False) True None [])) onlineRun = Some (w, outs)
     \<and> list_ex is_result outs
     \<and> (\<forall>x n. OnComplete x n \<in> set outs \<longrightarrow> x \<in> seenOnline (fst (wizardStart (\<lambda>_. False) True None [])) onlineRun)
     \<and> length (filter is_provision outs) = length (filter provision_answer onlineRun) + of_bool (wz_isProvisioning w)"
proof -
  have "guarded_run (wizard_ok id) wizard_step (fst (wizardStart (\<lambda>_. False) True None [])) onlineRun \<noteq> None"
    by (simp add: wizard_eval onlineRun_def del: not_None_eq)
  then obtain w outs where run: "guarded_run (wizard_ok id) wizard_step
      (fst (wizardStart (\<lambda>_. False) True None [])) onlineRun = Some (w, outs)" by auto
  note safe = provision_needs_online [OF run]
  have "length (filter provision_answer onlineRun) = 1" by (simp add: onlineRun_def)
  with safe have "filter is_provision outs \<noteq> []" by auto
  then obtain x where x: "x \<in> set outs" "is_provision x" by (auto simp: filter_empty_conv)
  have "is_result x" using x(2) by (cases x) simp_all
  with x have "list_ex is_result outs" by (auto simp: list_ex_iff)
  with safe run show ?thesis by (intro exI conjI) auto
qed

text \<open>The delay that follows an online answer is not cancelled: who goes back within it and asks for the command of
  another router finds that one on the provisioning step, although nothing said it is online.\<close>

definition staleRun :: "wizard_action list" where
  "staleRun = [NameChange ''A'', SiteChange ''B'', SubmitDetails, InitOk sampleInit,
     StatusEvent (PollAnswer \<lparr>rs_router_id = ''r1'', rs_status = ''online''\<rparr>), BackClick,
     SubmitDetails, InitOk (sampleInit\<lparr>mi_router_id := ''r2''\<rparr>), AdvanceDue]"

lemma stale_delay_skips_check:
  "let start = fst (wizardStart (\<lambda>_. False) False None []);
       w = foldl (\<lambda>w a. fst (wizard_step w a)) start staleRun in
     guarded_run (wizard_ok id) wizard_step start staleRun \<noteq> None
     \<and> wz_step w = WProvision \<and> routerId w = Some ''r2'' \<and> ''r2'' \<notin> seenOnline start staleRun"
proof -
  let ?start = "fst (wizardStart (\<lambda>_. False) False None [])"
  have "wz_step (foldl (\<lambda>w a. fst (wizard_step w a)) ?start staleRun) = WProvision"
    "routerId (foldl (\<lambda>w a. fst (wizard_step w a)) ?start staleRun) = Some ''r2''"
    "''r2'' \<notin> seenOnline ?start staleRun"
    by code_simp+
  moreover have "offers (wizardView fmt w) BackClick" if "\<not> wz_isLoadingResume w" "wz_step w = WCommand" "\<not> wz_embedded w" for fmt w
    using that by (simp add: wizardView_def wizardHeader_def view_lists)
  then have "guarded_run (wizard_ok id) wizard_step ?start staleRun \<noteq> None"
    by (simp add: wizard_eval staleRun_def del: not_None_eq)
  ultimately show ?thesis by (simp add: Let_def)
qed

end
