(* ===== verification/Reseller.thy ===== *)
theory Reseller
  imports Ledger_Pages Router_Wizard
begin

text \<open>
  The reseller's desk: the dialog that sells a voucher out of the prepaid wallet
  (\<open>pages/reseller/GenerateVoucherDialog.tsx\<close>), the wallet page (\<open>pages/reseller/WalletPage.tsx\<close>), the
  customers (\<open>pages/reseller/MyCustomersPage.tsx\<close>) and the dashboard
  (\<open>pages/reseller/ResellerDashboard.tsx\<close>). A page and the dialog on it read the same cache entries,
  so the page's record holds them once. Amounts are integers of cents.
\<close>

section \<open>The form of a new customer\<close>

text \<open>Both pages that register a customer have the same fields and the same schema.\<close>

record new_customer =
  nc_email :: string
  nc_phone :: string
  nc_password :: string
  nc_router_id :: string
  nc_errors :: field_errors
  nc_submitted :: bool

datatype customer_field = FEmail | FPhone | FPassword | FRouter

definition newCustomer0 :: new_customer where
  "newCustomer0 =
     \<lparr>nc_email = [], nc_phone = [], nc_password = [], nc_router_id = [], nc_errors = [], nc_submitted = False\<rparr>"

definition quickCustomerSchema :: "(string \<Rightarrow> bool) \<Rightarrow> new_customer \<Rightarrow> field_errors" where
  "quickCustomerSchema isEmail f =
     (if isEmail (nc_email f) then [] else [(''email'', ''Enter a valid email address'')])
     @ (if kenyanPhone (nc_phone f) then [] else [(''phone'', ''Enter a valid Kenyan phone number'')])
     @ minLength 8 ''password'' ''Password must be at least 8 characters'' (nc_password f)
     @ minLength 1 ''router_id'' ''Please select a router site'' (nc_router_id f)"

definition createCustomerSchema :: "(string \<Rightarrow> bool) \<Rightarrow> new_customer \<Rightarrow> field_errors" where
  "createCustomerSchema isEmail f =
     (if isEmail (nc_email f) then [] else [(''email'', ''Enter a valid email address'')])
     @ (if kenyanPhone (nc_phone f) then [] else [(''phone'', ''Enter a valid Kenyan phone number'')])
     @ minLength 8 ''password'' ''Password must be at least 8 characters'' (nc_password f)
     @ minLength 1 ''router_id'' ''Please select a router site'' (nc_router_id f)"

fun fieldName :: "customer_field \<Rightarrow> string" where
  "fieldName FEmail = ''email''"
| "fieldName FPhone = ''phone''"
| "fieldName FPassword = ''password''"
| "fieldName FRouter = ''router_id''"

fun setField :: "customer_field \<Rightarrow> string \<Rightarrow> new_customer \<Rightarrow> new_customer" where
  "setField FEmail v f = f\<lparr>nc_email := v\<rparr>"
| "setField FPhone v f = f\<lparr>nc_phone := v\<rparr>"
| "setField FPassword v f = f\<lparr>nc_password := v\<rparr>"
| "setField FRouter v f = f\<lparr>nc_router_id := v\<rparr>"

definition changeField :: "(new_customer \<Rightarrow> field_errors) \<Rightarrow> customer_field \<Rightarrow> string \<Rightarrow> new_customer \<Rightarrow> new_customer" where
  "changeField schema k v f =
     (let f1 = setField k v f
      in f1\<lparr>nc_errors := recheck (nc_submitted f1) (fieldName k) (schema f1) (nc_errors f1)\<rparr>)"

definition customerBody :: "new_customer \<Rightarrow> body" where
  "customerBody f =
     [(''email'', KS (nc_email f)), (''phone'', KS (nc_phone f)), (''password'', KS (nc_password f)),
      (''router_id'', KS (nc_router_id f))]"

section \<open>The voucher dialog\<close>

record voucher_dialog =
  gd_open :: bool
  gd_preselected :: "string option"
  gd_wallet :: "wallet_balance fetched"
  gd_customers :: "user list fetched"
  gd_packages :: "package list fetched"
  gd_routers :: "mikrotik_router list fetched"
  gd_step :: nat
  gd_selectedCustomerId :: string
  gd_selectedPackageId :: string
  gd_searchQuery :: string
  gd_isQuickAdding :: bool
  gd_generatedVoucher :: "voucher option"
  gd_form :: new_customer
  gd_generating :: bool
  gd_creating :: bool

datatype dialog_action =
    WalletAnswer "wallet_balance option"
  | DialogCustomersAnswer "user list option"
  | PackagesAnswer "package list option"
  | RoutersAnswer "mikrotik_router list option"
  | OpenDialog "string option"
  | CloseDialog
  | QuickAdd bool
  | SearchCustomer string
  | PickCustomer string
  | NextStep
  | QuickField customer_field string
  | QuickSubmit
  | QuickOk string
  | QuickFailed failure
  | PickPackage string
  | BackStep
  | ConfirmGenerate
  | GenerateOk voucher
  | GenerateFailed "string option"

definition dialog0 :: voucher_dialog where
  "dialog0 =
     \<lparr>gd_open = False, gd_preselected = None, gd_wallet = FLoading, gd_customers = FLoading,
      gd_packages = FLoading, gd_routers = FLoading, gd_step = 1, gd_selectedCustomerId = [],
      gd_selectedPackageId = [], gd_searchQuery = [], gd_isQuickAdding = False,
      gd_generatedVoucher = None, gd_form = newCustomer0, gd_generating = False, gd_creating = False\<rparr>"

text \<open>The effect on \<open>[open, preselectedCustomerId, reset]\<close>.\<close>

definition preselectEffect :: "voucher_dialog \<Rightarrow> voucher_dialog" where
  "preselectEffect d =
     (if gd_open d
      then d\<lparr>gd_step := 1, gd_selectedCustomerId := orElse (gd_preselected d) [], gd_selectedPackageId := [],
             gd_searchQuery := [], gd_isQuickAdding := False, gd_generatedVoucher := None,
             gd_form := newCustomer0\<rparr>
      else d)"

definition dialogCustomers :: "voucher_dialog \<Rightarrow> user list" where
  "dialogCustomers d =
     (case dataOf (gd_customers d) of
        None \<Rightarrow> []
      | Some cs \<Rightarrow> filter (\<lambda>c. if gd_searchQuery d = [] then True else userMatches (gd_searchQuery d) c) cs)"

definition handleNextStep :: "voucher_dialog \<Rightarrow> voucher_dialog \<times> page_out list" where
  "handleNextStep d =
     (if gd_selectedCustomerId d = [] then (d, [ToastError ''Please select or create a customer first.''])
      else (d\<lparr>gd_step := 2\<rparr>, []))"

definition currentPackage :: "voucher_dialog \<Rightarrow> package option" where
  "currentPackage d = findIn (dataOf (gd_packages d)) (\<lambda>p. pk_id p = gd_selectedPackageId d)"

definition dialogBalance :: "voucher_dialog \<Rightarrow> int" where
  "dialogBalance d = (case dataOf (gd_wallet d) of None \<Rightarrow> 0 | Some w \<Rightarrow> wb_balance_kes w)"

definition packagePrice :: "voucher_dialog \<Rightarrow> int" where
  "packagePrice d = (case currentPackage d of None \<Rightarrow> 0 | Some p \<Rightarrow> pk_price_kes p)"

definition balanceAfter :: "voucher_dialog \<Rightarrow> int" where
  "balanceAfter d = dialogBalance d - packagePrice d"

definition isAffordable :: "voucher_dialog \<Rightarrow> bool" where
  "isAffordable d \<longleftrightarrow> 0 \<le> balanceAfter d"

definition voucherBody :: "string \<Rightarrow> string \<Rightarrow> body" where
  "voucherBody c k = [(''customer_id'', KS c), (''package_id'', KS k)]"

definition handleConfirmGenerate :: "voucher_dialog \<Rightarrow> voucher_dialog \<times> page_out list" where
  "handleConfirmGenerate d =
     (if gd_selectedCustomerId d = [] \<or> gd_selectedPackageId d = [] then (d, [])
      else if \<not> isAffordable d then (d, [ToastError ''Insufficient wallet balance to buy this package.''])
      else (d\<lparr>gd_generating := True\<rparr>,
            [Mutate (MGenerateWalletVoucher (voucherBody (gd_selectedCustomerId d) (gd_selectedPackageId d)))]))"

definition quickSubmit :: "(string \<Rightarrow> bool) \<Rightarrow> voucher_dialog \<Rightarrow> voucher_dialog \<times> page_out list" where
  "quickSubmit isEmail d =
     (let errs = quickCustomerSchema isEmail (gd_form d); f = (gd_form d)\<lparr>nc_errors := errs, nc_submitted := True\<rparr>
      in if errs \<noteq> [] then (d\<lparr>gd_form := f\<rparr>, [])
         else (d\<lparr>gd_form := f, gd_creating := True\<rparr>, [Mutate (MCreateResellerCustomer (customerBody f))]))"

definition quickFailed :: "failure \<Rightarrow> voucher_dialog \<Rightarrow> voucher_dialog \<times> page_out list" where
  "quickFailed e d =
     (if errorStatus e = Some 409
      then (d\<lparr>gd_creating := False, gd_form := (gd_form d)\<lparr>nc_errors :=
                [(''root'', ''Phone or email is already registered.'')]\<rparr>\<rparr>, [])
      else (d\<lparr>gd_creating := False\<rparr>, [ToastError ''Failed to register customer'']))"

fun dialog_step :: "(string \<Rightarrow> bool) \<Rightarrow> voucher_dialog \<Rightarrow> dialog_action \<Rightarrow> voucher_dialog \<times> page_out list" where
  "dialog_step isEmail d (WalletAnswer x) = (d\<lparr>gd_wallet := answered x (gd_wallet d)\<rparr>, [])"
| "dialog_step isEmail d (DialogCustomersAnswer x) = (d\<lparr>gd_customers := answered x (gd_customers d)\<rparr>, [])"
| "dialog_step isEmail d (PackagesAnswer x) = (d\<lparr>gd_packages := answered x (gd_packages d)\<rparr>, [])"
| "dialog_step isEmail d (RoutersAnswer x) = (d\<lparr>gd_routers := answered x (gd_routers d)\<rparr>, [])"
| "dialog_step isEmail d (OpenDialog pre) = (preselectEffect (d\<lparr>gd_open := True, gd_preselected := pre\<rparr>), [])"
| "dialog_step isEmail d CloseDialog = (d\<lparr>gd_open := False\<rparr>, [])"
| "dialog_step isEmail d (QuickAdd b) = (d\<lparr>gd_isQuickAdding := b\<rparr>, [])"
| "dialog_step isEmail d (SearchCustomer q) = (d\<lparr>gd_searchQuery := q\<rparr>, [])"
| "dialog_step isEmail d (PickCustomer c) = (d\<lparr>gd_selectedCustomerId := c\<rparr>, [])"
| "dialog_step isEmail d NextStep = handleNextStep d"
| "dialog_step isEmail d (QuickField k v) =
     (d\<lparr>gd_form := changeField (quickCustomerSchema isEmail) k v (gd_form d)\<rparr>, [])"
| "dialog_step isEmail d QuickSubmit = quickSubmit isEmail d"
| "dialog_step isEmail d (QuickOk c) =
     (d\<lparr>gd_creating := False, gd_selectedCustomerId := c, gd_isQuickAdding := False, gd_form := newCustomer0\<rparr>,
      [ToastSuccess ''Customer account registered''])"
| "dialog_step isEmail d (QuickFailed e) = quickFailed e d"
| "dialog_step isEmail d (PickPackage k) = (if k = [] then (d, []) else (d\<lparr>gd_selectedPackageId := k\<rparr>, []))"
| "dialog_step isEmail d BackStep = (d\<lparr>gd_step := 1\<rparr>, [])"
| "dialog_step isEmail d ConfirmGenerate = handleConfirmGenerate d"
| "dialog_step isEmail d (GenerateOk v) =
     (d\<lparr>gd_generating := False, gd_generatedVoucher := Some v, gd_step := 3\<rparr>, [])"
| "dialog_step isEmail d (GenerateFailed detail) =
     (d\<lparr>gd_generating := False\<rparr>, [ToastError (orElse detail ''Failed to debit wallet and generate voucher.'')])"

text \<open>What the dialog shows, step by step.\<close>

definition customerButton :: "voucher_dialog \<Rightarrow> user \<Rightarrow> dialog_action view" where
  "customerButton d c =
     Btn False ([Txt (us_phone c), Txt (us_email c)]
                @ onlyIf (gd_selectedCustomerId d = us_id c) [Txt ''Selected'']) (PickCustomer (us_id c))"

definition pickCustomerView :: "voucher_dialog \<Rightarrow> dialog_action view list" where
  "pickCustomerView d =
     [Txt ''1. Select Subscriber'', Btn False [Txt ''Quick-add new''] (QuickAdd True),
      Inp ''Search phone or email...'' (gd_searchQuery d) SearchCustomer]
     @ (if dialogCustomers d = [] then [Txt ''No subscribers found.''] else map (customerButton d) (dialogCustomers d))
     @ [Btn (gd_selectedCustomerId d = []) [Txt ''Continue to Packages''] NextStep]"

definition routerOption :: "(string \<Rightarrow> 'a) \<Rightarrow> mikrotik_router \<Rightarrow> 'a view" where
  "routerOption act r = Btn False [Txt (mr_name r @ '' ('' @ mr_site_name r @ '')'')] (act (mr_id r))"

definition quickAddView :: "voucher_dialog \<Rightarrow> dialog_action view list" where
  "quickAddView d =
     (let f = gd_form d; errs = nc_errors f
      in [Txt ''Quick Register Customer'', Btn False [Txt ''Back to search''] (QuickAdd False),
          Txt ''Email'', Inp ''customer@example.com'' (nc_email f) (QuickField FEmail)]
         @ fieldError errs ''email''
         @ [Txt ''Phone'', Inp ''07XXXXXXXX'' (nc_phone f) (QuickField FPhone)]
         @ fieldError errs ''phone''
         @ [Txt ''Password'', Inp ''Min 8 characters'' (nc_password f) (QuickField FPassword)]
         @ fieldError errs ''password''
         @ [Txt ''Router/Site Location'',
            Txt (if dataOf (gd_routers d) = Some [] then ''No router sites'' else ''Select site'')]
         @ map (routerOption (QuickField FRouter)) (nullish (dataOf (gd_routers d)) [])
         @ fieldError errs ''router_id''
         @ fieldError errs ''root''
         @ [Btn (gd_creating d) [Txt (if gd_creating d then ''Registering...'' else ''Register & Select'')]
              QuickSubmit])"

definition packageOption :: "intl \<Rightarrow> package \<Rightarrow> dialog_action view" where
  "packageOption i p =
     Btn False [Txt (pk_name p @ '' - '' @ formatKES i (pk_price_kes p) @ '' (''
                     @ formatDuration (pk_duration_minutes p) @ '')'')] (PickPackage (pk_id p))"

definition pickPackageView :: "intl \<Rightarrow> voucher_dialog \<Rightarrow> dialog_action view list" where
  "pickPackageView i d =
     [Txt ''2. Select Package'']
     @ map (packageOption i) (filter pk_is_active (nullish (dataOf (gd_packages d)) []))
     @ onlyIf (gd_selectedPackageId d \<noteq> [] \<and> currentPackage d \<noteq> None)
         [Txt ''Reseller Wallet Balance'', Txt (formatKES i (dialogBalance d)),
          Txt ''Package Cost'', Txt (''- '' @ formatKES i (packagePrice d)),
          Txt ''Balance After Debit'', Txt (formatKES i (balanceAfter d))]
     @ onlyIf (\<not> isAffordable d \<and> gd_selectedPackageId d \<noteq> [])
         [Txt ''Insufficient balance. Top up your wallet before generating this voucher.'']
     @ [Btn (gd_generating d) [Txt ''Back''] BackStep,
        Btn (gd_selectedPackageId d = [] \<or> \<not> isAffordable d \<or> gd_generating d)
          [Txt (if gd_generating d then ''Generating...'' else ''Confirm & Generate'')] ConfirmGenerate]"

definition voucherView :: "voucher_dialog \<Rightarrow> dialog_action view list" where
  "voucherView d =
     (case gd_generatedVoucher d of
        None \<Rightarrow> []
      | Some v \<Rightarrow>
          [Txt ''Voucher Code Created'', Txt ''Voucher debited from wallet and synced with client profile.'',
           Txt ''Access Code'', Txt (vo_code v), Txt (''Plan: '' @ vo_package_name v),
           Btn False [Txt ''Close Dialog''] CloseDialog])"

text \<open>A dialog that is not open is not rendered; an open one can always be dismissed.\<close>

definition dialogView :: "intl \<Rightarrow> voucher_dialog \<Rightarrow> dialog_action view" where
  "dialogView i d = Group
     (onlyIf (gd_open d)
       ([Txt ''Generate Hotspot Voucher'',
         Txt ''Fund a new subscriber package directly from your reseller balance.'',
         Btn False [] CloseDialog]
        @ onlyIf (gd_step d = 1) (if \<not> gd_isQuickAdding d then pickCustomerView d else quickAddView d)
        @ onlyIf (gd_step d = 2) (pickPackageView i d)
        @ onlyIf (gd_step d = 3) (voucherView d)))"

text \<open>Opening the dialog that is open for the same customer changes neither of the effect's dependencies, so it is
  no step.\<close>

fun dialog_ok :: "intl \<Rightarrow> voucher_dialog \<Rightarrow> dialog_action \<Rightarrow> bool" where
  "dialog_ok i d (WalletAnswer x) = True"
| "dialog_ok i d (DialogCustomersAnswer x) = True"
| "dialog_ok i d (PackagesAnswer x) = True"
| "dialog_ok i d (RoutersAnswer x) = True"
| "dialog_ok i d (OpenDialog pre) = (\<not> (gd_open d \<and> gd_preselected d = pre))"
| "dialog_ok i d (QuickOk c) = gd_creating d"
| "dialog_ok i d (QuickFailed e) = gd_creating d"
| "dialog_ok i d (GenerateOk v) = gd_generating d"
| "dialog_ok i d (GenerateFailed e) = gd_generating d"
| "dialog_ok i d a = offers (dialogView i d) a"

section \<open>The wallet page\<close>

record wallet_transaction =
  wt_id :: string
  wt_type :: string
  wt_amount_kes :: int
  wt_balance_after :: int
  wt_reference :: string
  wt_created_at :: string

record wallet_page =
  wp_dialog :: voucher_dialog
  wp_transactions :: "wallet_transaction list fetched"
  wp_copiedField :: "string option"
  wp_refreshing :: bool

datatype wallet_action =
    InDialog dialog_action
  | TransactionsAnswer "wallet_transaction list option"
  | CopyField string string
  | CopyShown
  | RefreshWallet
  | WalletRefreshed

definition wallet0 :: wallet_page where
  "wallet0 = \<lparr>wp_dialog = dialog0, wp_transactions = FLoading, wp_copiedField = None, wp_refreshing = False\<rparr>"

definition handleCopy :: "string \<Rightarrow> string \<Rightarrow> wallet_page \<Rightarrow> wallet_page \<times> page_out list" where
  "handleCopy txt field p =
     (p\<lparr>wp_copiedField := Some field\<rparr>,
      [Clipboard txt, ToastSuccess ((if field = ''paybill'' then ''Paybill'' else ''Reference'') @ '' code copied'')])"

text \<open>The toast of a refresh waits for both queries (\<open>WalletRefreshed\<close>).\<close>

fun wallet_step :: "(string \<Rightarrow> bool) \<Rightarrow> wallet_page \<Rightarrow> wallet_action \<Rightarrow> wallet_page \<times> page_out list" where
  "wallet_step isEmail p (InDialog a) =
     (p\<lparr>wp_dialog := fst (dialog_step isEmail (wp_dialog p) a)\<rparr>, snd (dialog_step isEmail (wp_dialog p) a))"
| "wallet_step isEmail p (TransactionsAnswer x) = (p\<lparr>wp_transactions := answered x (wp_transactions p)\<rparr>, [])"
| "wallet_step isEmail p (CopyField txt field) = handleCopy txt field p"
| "wallet_step isEmail p CopyShown = (p\<lparr>wp_copiedField := None\<rparr>, [])"
| "wallet_step isEmail p RefreshWallet =
     (p\<lparr>wp_refreshing := True\<rparr>, [Refetch HWalletBalance, Refetch HWalletTransactions])"
| "wallet_step isEmail p WalletRefreshed =
     (p\<lparr>wp_refreshing := False\<rparr>, [ToastSuccess ''Wallet data refreshed''])"

definition walletLoading :: "wallet_page \<Rightarrow> bool" where
  "walletLoading p \<longleftrightarrow> isLoadingQuery (gd_wallet (wp_dialog p)) \<or> isLoadingQuery (wp_transactions p)"

definition paybillNumber :: "wallet_page \<Rightarrow> string" where
  "paybillNumber p = orElse (map_option wb_paybill_number (dataOf (gd_wallet (wp_dialog p)))) ''222111''"

definition walletReference :: "wallet_page \<Rightarrow> string" where
  "walletReference p = orElse (map_option wb_wallet_reference (dataOf (gd_wallet (wp_dialog p)))) ''WS00000''"

definition transactionRow :: "intl \<Rightarrow> wallet_transaction \<Rightarrow> wallet_action view" where
  "transactionRow i t = Group
     [Txt (if wt_type t = ''topup'' then ''Top Up'' else if wt_type t = ''debit'' then ''Debit'' else ''Adjustment''),
      Txt (wt_reference t),
      Txt ((if wt_type t = ''topup'' then ''+'' else ''-'') @ '' '' @ formatKES i (wt_amount_kes t)),
      Txt (formatKES i (wt_balance_after t)), Txt (formatNairobiDate i (wt_created_at t))]"

definition topUpCard :: "wallet_page \<Rightarrow> wallet_action view list" where
  "topUpCard p =
     [Txt ''How to Top Up Your Wallet'',
      Txt ''Frixel Connect supports automated wallet topups via Safaricom M-Pesa C2B.'',
      Txt ''1. M-PESA PAYBILL'', Txt (paybillNumber p), Btn False [] (CopyField (paybillNumber p) ''paybill''),
      Txt ''2. ACCOUNT NUMBER (YOUR REFERENCE)'', Txt (walletReference p),
      Btn False [] (CopyField (walletReference p) ''reference''),
      Txt ''Top-up Instructions:'', Txt ''Go to Lipa na M-Pesa on your Safaricom phone.'',
      Txt ''Enter the Paybill number shown above.'', Txt ''Enter the Account Number exactly as displayed.'',
      Txt ''Your balance will update automatically in about a minute.'']"

definition walletView :: "intl \<Rightarrow> wallet_page \<Rightarrow> wallet_action view" where
  "walletView i p = Group
     ([Txt ''Reseller Wallet'', Txt ''Manage your prepayed balance and generate customer hotspot vouchers.'',
       Btn (walletLoading p) [] RefreshWallet,
       Btn (walletLoading p) [Txt ''Generate Voucher''] (InDialog (OpenDialog None)),
       Txt ''Available Balance'']
      @ (if walletLoading p then [] else [Txt (formatKES i (dialogBalance (wp_dialog p)))])
      @ [Txt ''Funds are debited instantly when generating vouchers.'']
      @ topUpCard p
      @ [Txt ''Ledger & Transaction History'',
         Txt ''Audit log of all funds loaded and debits made for voucher generation.'']
      @ headers [''Type'', ''Reference'', ''Amount'', ''Balance After'', ''Date'']
      @ tableBody (isLoadingQuery (wp_transactions p))
          ''No wallet transactions recorded. Perform your first Paybill payment to load funds.''
          (transactionRow i) (nullish (dataOf (wp_transactions p)) [])
      @ [map_view InDialog (dialogView i (wp_dialog p))])"

fun wallet_ok :: "intl \<Rightarrow> wallet_page \<Rightarrow> wallet_action \<Rightarrow> bool" where
  "wallet_ok i p (InDialog (OpenDialog pre)) =
     (dialog_ok i (wp_dialog p) (OpenDialog pre) \<and> offers (walletView i p) (InDialog (OpenDialog pre)))"
| "wallet_ok i p (InDialog a) = dialog_ok i (wp_dialog p) a"
| "wallet_ok i p (TransactionsAnswer x) = True"
| "wallet_ok i p CopyShown = (wp_copiedField p \<noteq> None)"
| "wallet_ok i p WalletRefreshed = wp_refreshing p"
| "wallet_ok i p a = offers (walletView i p) a"

section \<open>The reseller's customers\<close>

record my_customers =
  mc_dialog :: voucher_dialog
  mc_searchQuery :: string
  mc_isDialogOpen :: bool
  mc_showPassword :: bool
  mc_form :: new_customer
  mc_creating :: bool

datatype my_customers_action =
    InVoucherDialog dialog_action
  | SearchMine string
  | AddCustomer
  | DismissAdd
  | CustomerInput customer_field string
  | ToggleCustomerPassword
  | SubmitCustomer
  | CustomerOk
  | CustomerFailed failure

definition myCustomers0 :: my_customers where
  "myCustomers0 = \<lparr>mc_dialog = dialog0, mc_searchQuery = [], mc_isDialogOpen = False, mc_showPassword = False,
     mc_form = newCustomer0, mc_creating = False\<rparr>"

definition myFilteredCustomers :: "my_customers \<Rightarrow> user list" where
  "myFilteredCustomers p =
     (case dataOf (gd_customers (mc_dialog p)) of
        None \<Rightarrow> []
      | Some cs \<Rightarrow> filter (\<lambda>c. if trim (mc_searchQuery p) = [] then True else userMatches (mc_searchQuery p) c) cs)"

definition submitCustomer :: "(string \<Rightarrow> bool) \<Rightarrow> my_customers \<Rightarrow> my_customers \<times> page_out list" where
  "submitCustomer isEmail p =
     (let errs = createCustomerSchema isEmail (mc_form p); f = (mc_form p)\<lparr>nc_errors := errs, nc_submitted := True\<rparr>
      in if errs \<noteq> [] then (p\<lparr>mc_form := f\<rparr>, [])
         else (p\<lparr>mc_form := f, mc_creating := True\<rparr>, [Mutate (MCreateResellerCustomer (customerBody f))]))"

definition customerFailed :: "failure \<Rightarrow> my_customers \<Rightarrow> my_customers \<times> page_out list" where
  "customerFailed e p =
     (if errorStatus e = Some 409
      then (p\<lparr>mc_creating := False, mc_form := (mc_form p)\<lparr>nc_errors :=
                [(''root'', ''This email or phone is already registered.'')]\<rparr>\<rparr>, [])
      else (p\<lparr>mc_creating := False\<rparr>, [ToastError ''Failed to create customer'']))"

fun my_customers_step ::
    "(string \<Rightarrow> bool) \<Rightarrow> my_customers \<Rightarrow> my_customers_action \<Rightarrow> my_customers \<times> page_out list" where
  "my_customers_step isEmail p (InVoucherDialog a) =
     (p\<lparr>mc_dialog := fst (dialog_step isEmail (mc_dialog p) a)\<rparr>, snd (dialog_step isEmail (mc_dialog p) a))"
| "my_customers_step isEmail p (SearchMine q) = (p\<lparr>mc_searchQuery := q\<rparr>, [])"
| "my_customers_step isEmail p AddCustomer = (p\<lparr>mc_form := newCustomer0, mc_isDialogOpen := True\<rparr>, [])"
| "my_customers_step isEmail p DismissAdd = (p\<lparr>mc_isDialogOpen := False\<rparr>, [])"
| "my_customers_step isEmail p (CustomerInput k v) =
     (p\<lparr>mc_form := changeField (createCustomerSchema isEmail) k v (mc_form p)\<rparr>, [])"
| "my_customers_step isEmail p ToggleCustomerPassword = (p\<lparr>mc_showPassword := \<not> mc_showPassword p\<rparr>, [])"
| "my_customers_step isEmail p SubmitCustomer = submitCustomer isEmail p"
| "my_customers_step isEmail p CustomerOk =
     (p\<lparr>mc_creating := False, mc_isDialogOpen := False\<rparr>, [ToastSuccess ''Customer created successfully''])"
| "my_customers_step isEmail p (CustomerFailed e) = customerFailed e p"

definition siteOf :: "mikrotik_router list option \<Rightarrow> user \<Rightarrow> string" where
  "siteOf routers c = orElse (map_option mr_site_name (findIn routers (\<lambda>r. Some (mr_id r) = us_router_id c))) ''-''"

text \<open>\<open>handleSellPlan\<close> opens the voucher dialog for the customer of the row.\<close>

definition myCustomerRow :: "intl \<Rightarrow> my_customers \<Rightarrow> user \<Rightarrow> my_customers_action view" where
  "myCustomerRow i p c = Group
     [Txt (us_phone c), Txt (us_email c), Txt (siteOf (dataOf (gd_routers (mc_dialog p))) c),
      Txt (if us_is_active c then ''Active'' else ''Inactive''), Txt (formatNairobiDate i (us_created_at c)),
      Btn (\<not> us_is_active c) [Txt ''Sell Plan''] (InVoucherDialog (OpenDialog (Some (us_id c))))]"

definition addCustomerDialog :: "my_customers \<Rightarrow> my_customers_action view list" where
  "addCustomerDialog p =
     (let f = mc_form p; errs = nc_errors f; routers = dataOf (gd_routers (mc_dialog p))
      in onlyIf (mc_isDialogOpen p)
         ([Txt ''Add Customer'', Txt ''Create a new customer account. They will be automatically linked to you.'',
           Btn False [] DismissAdd,
           Txt ''Email'', Inp ''customer@example.com'' (nc_email f) (CustomerInput FEmail)]
          @ fieldError errs ''email''
          @ [Txt ''Phone Number'', Inp ''0712 345 678'' (nc_phone f) (CustomerInput FPhone)]
          @ fieldError errs ''phone''
          @ [Txt ''Initial Password'', Inp [] (nc_password f) (CustomerInput FPassword),
             Btn False [] ToggleCustomerPassword]
          @ fieldError errs ''password''
          @ [Txt ''Site/Router Assignment'',
             Txt (if routers = Some [] then ''No router sites available'' else ''Select a site'')]
          @ map (routerOption (CustomerInput FRouter)) (nullish routers [])
          @ onlyIf (routers = Some []) [Txt ''No router sites available. Contact your admin.'']
          @ fieldError errs ''router_id''
          @ fieldError errs ''root''
          @ [Btn False [Txt ''Cancel''] DismissAdd,
             Btn (mc_creating p) [Txt (if mc_creating p then ''Creating...'' else ''Create Customer'')] SubmitCustomer]))"

definition myCustomersView :: "intl \<Rightarrow> my_customers \<Rightarrow> my_customers_action view" where
  "myCustomersView i p = Group
     ([Txt ''My Customers'', Txt ''Manage your WiFi hotspot customers.'', Btn False [Txt ''Add Customer''] AddCustomer,
       Inp ''Search email or phone...'' (mc_searchQuery p) SearchMine]
      @ headers [''Phone'', ''Email'', ''Site'', ''Status'', ''Joined'', ''Actions'']
      @ tableBody (isLoadingQuery (gd_customers (mc_dialog p)))
          ''No customers found. Add your first customer to get started.''
          (myCustomerRow i p) (myFilteredCustomers p)
      @ addCustomerDialog p
      @ [map_view InVoucherDialog (dialogView i (mc_dialog p))])"

fun my_customers_ok :: "intl \<Rightarrow> my_customers \<Rightarrow> my_customers_action \<Rightarrow> bool" where
  "my_customers_ok i p (InVoucherDialog (OpenDialog pre)) =
     (dialog_ok i (mc_dialog p) (OpenDialog pre) \<and> offers (myCustomersView i p) (InVoucherDialog (OpenDialog pre)))"
| "my_customers_ok i p (InVoucherDialog a) = dialog_ok i (mc_dialog p) a"
| "my_customers_ok i p CustomerOk = mc_creating p"
| "my_customers_ok i p (CustomerFailed e) = mc_creating p"
| "my_customers_ok i p a = offers (myCustomersView i p) a"

section \<open>The reseller's dashboard\<close>

text \<open>A query keeps its data when a later fetch fails, and holds the error beside it.\<close>

record reseller_dashboard =
  rd_payments :: "payment list fetched"
  rd_vouchers :: "voucher list fetched"
  rd_customers :: "user list fetched"
  rd_errorPayments :: bool
  rd_errorVouchers :: bool
  rd_errorCustomers :: bool

definition COMMISSION_RATE :: rat where
  "COMMISSION_RATE = 15 / 100"

definition totalRevenue :: "payment list option \<Rightarrow> int" where
  "totalRevenue payments =
     (case payments of
        None \<Rightarrow> 0
      | Some ps \<Rightarrow> foldl (\<lambda>sum p. sum + py_amount_kes p) 0 (filter (\<lambda>p. py_status p = ''confirmed'') ps))"

definition activeVouchersCount :: "voucher list option \<Rightarrow> nat" where
  "activeVouchersCount vouchers =
     (case vouchers of None \<Rightarrow> 0 | Some vs \<Rightarrow> length (filter (\<lambda>v. vo_status v = ''active'') vs))"

definition activeCustomersCount :: "user list option \<Rightarrow> nat" where
  "activeCustomersCount customers = (case customers of None \<Rightarrow> 0 | Some cs \<Rightarrow> length (filter us_is_active cs))"

definition estimatedCommission :: "payment list option \<Rightarrow> rat" where
  "estimatedCommission payments = of_int (totalRevenue payments) * COMMISSION_RATE"

definition recentPayments :: "intl \<Rightarrow> payment list option \<Rightarrow> payment list" where
  "recentPayments i payments =
     (case payments of None \<Rightarrow> [] | Some ps \<Rightarrow> slice 0 5 (newestFirst (\<lambda>p. getTime i (py_created_at p)) ps))"

definition recentCustomers :: "intl \<Rightarrow> user list option \<Rightarrow> user list" where
  "recentCustomers i customers =
     (case customers of None \<Rightarrow> [] | Some cs \<Rightarrow> slice 0 5 (newestFirst (\<lambda>c. getTime i (us_created_at c)) cs))"

definition recentCustomerRow :: "intl \<Rightarrow> user \<Rightarrow> page_out view" where
  "recentCustomerRow i c =
     Btn False [Txt (us_phone c), Txt (us_email c), Txt (formatNairobiDate i (us_created_at c))]
       (Goto ''/reseller/customers'')"

definition recentPaymentRow :: "intl \<Rightarrow> payment \<Rightarrow> page_out view" where
  "recentPaymentRow i p =
     Btn False [Txt (py_phone_number p), Txt (orElse (Some (py_package_name p)) ''Unknown''),
                Txt (formatKES i (py_amount_kes p)), statusBadge (py_status p)]
       (Goto ''/reseller/payments'')"

text \<open>The commission is not a whole number of cents; \<open>fmt\<close> is the display of such an amount.\<close>

definition resellerDashboardView :: "intl \<Rightarrow> (rat \<Rightarrow> string) \<Rightarrow> reseller_dashboard \<Rightarrow> page_out view" where
  "resellerDashboardView i fmt d =
     (let isLoading = isLoadingQuery (rd_payments d) \<or> isLoadingQuery (rd_vouchers d) \<or> isLoadingQuery (rd_customers d);
          isError = rd_errorPayments d \<or> rd_errorVouchers d \<or> rd_errorCustomers d;
          tile = (\<lambda>t. if isLoading then [] else [Txt t]);
          payments = dataOf (rd_payments d); customers = dataOf (rd_customers d)
      in if isError then Group
           [Txt ''Failed to load dashboard'',
            Txt ''There was an error fetching the dashboard data. Please try again.'']
         else Group
           ([Txt ''Estimated Commission''] @ tile (fmt (estimatedCommission payments)) @ [Txt ''Based on 15% rate'']
            @ [Txt ''Total Revenue''] @ tile (formatKES i (totalRevenue payments))
            @ [Txt ''Active Customers''] @ tile (showNat (activeCustomersCount customers))
            @ [Txt ''Active Vouchers''] @ tile (showNat (activeVouchersCount (dataOf (rd_vouchers d))))
            @ [Txt ''Recent Customers''] @ headers [''Phone'', ''Email'', ''Joined'']
            @ tableBody isLoading ''No customers yet'' (recentCustomerRow i) (recentCustomers i customers)
            @ [Txt ''Recent Payments''] @ headers [''Customer'', ''Package'', ''Amount'', ''Status'']
            @ tableBody isLoading ''No recent payments'' (recentPaymentRow i) (recentPayments i payments)))"

section \<open>Lemmas\<close>

lemma offers_fieldError [simp]: "\<not> list_ex (\<lambda>v. offers v a) (fieldError errs f)"
  by (simp add: fieldError_def offers_simps split: option.splits)

lemma list_ex_map_offers:
  "list_ex (\<lambda>v. offers v a) (map f xs) \<longleftrightarrow> (\<exists>x \<in> set xs. offers (f x) a)"
  by (simp add: list_ex_iff)

lemmas form_offers = page_offers list_ex_map_offers

lemma offers_customerButton: "offers (customerButton d c) a \<longleftrightarrow> a = PickCustomer (us_id c)"
  by (auto simp: customerButton_def offers_simps typable_simps onlyIf_def)

lemma offers_routerOption: "offers (routerOption act r) a \<longleftrightarrow> a = act (mr_id r)"
  by (auto simp: routerOption_def offers_simps typable_simps)

lemma offers_packageOption: "offers (packageOption i p) a \<longleftrightarrow> a = PickPackage (pk_id p)"
  by (auto simp: packageOption_def offers_simps typable_simps)

text \<open>What each step of the dialog offers.\<close>

lemma offers_pickCustomer:
  "list_ex (\<lambda>v. offers v a) (pickCustomerView d) \<longleftrightarrow>
     a = QuickAdd True \<or> (\<exists>q. a = SearchCustomer q) \<or> (\<exists>c \<in> set (dialogCustomers d). a = PickCustomer (us_id c))
     \<or> (a = NextStep \<and> gd_selectedCustomerId d \<noteq> [])"
  by (auto simp: pickCustomerView_def form_offers offers_customerButton)

lemma offers_quickAdd:
  "list_ex (\<lambda>v. offers v a) (quickAddView d) \<longleftrightarrow>
     a = QuickAdd False \<or> (\<exists>k v. a = QuickField k v \<and> k \<noteq> FRouter)
     \<or> (\<exists>r \<in> set (nullish (dataOf (gd_routers d)) []). a = QuickField FRouter (mr_id r))
     \<or> (a = QuickSubmit \<and> \<not> gd_creating d)"
proof -
  have "k \<noteq> FRouter \<longleftrightarrow> k = FEmail \<or> k = FPhone \<or> k = FPassword" for k by (cases k) auto
  then show ?thesis by (auto simp: quickAddView_def form_offers offers_routerOption Let_def)
qed

lemma offers_pickPackage:
  "list_ex (\<lambda>v. offers v a) (pickPackageView i d) \<longleftrightarrow>
     (\<exists>p \<in> set (nullish (dataOf (gd_packages d)) []). pk_is_active p \<and> a = PickPackage (pk_id p))
     \<or> (a = BackStep \<and> \<not> gd_generating d)
     \<or> (a = ConfirmGenerate \<and> gd_selectedPackageId d \<noteq> [] \<and> isAffordable d \<and> \<not> gd_generating d)"
  by (auto simp: pickPackageView_def form_offers offers_packageOption)

lemma offers_voucherView:
  "list_ex (\<lambda>v. offers v a) (voucherView d) \<longleftrightarrow> gd_generatedVoucher d \<noteq> None \<and> a = CloseDialog"
  by (auto simp: voucherView_def form_offers split: option.splits)

lemma offers_dialog:
  "offers (dialogView i d) a \<longleftrightarrow> gd_open d \<and>
     (a = CloseDialog
      \<or> (gd_step d = 1 \<and> \<not> gd_isQuickAdding d \<and> list_ex (\<lambda>v. offers v a) (pickCustomerView d))
      \<or> (gd_step d = 1 \<and> gd_isQuickAdding d \<and> list_ex (\<lambda>v. offers v a) (quickAddView d))
      \<or> (gd_step d = 2 \<and> list_ex (\<lambda>v. offers v a) (pickPackageView i d))
      \<or> (gd_step d = 3 \<and> gd_generatedVoucher d \<noteq> None \<and> a = CloseDialog))"
  unfolding dialogView_def by (auto simp: view_lists list_ex_append offers_voucherView)

lemmas dialog_offers = offers_dialog offers_pickCustomer offers_quickAdd offers_pickPackage

text \<open>One sale at a time.\<close>

fun generate_answer :: "dialog_action \<Rightarrow> bool" where
  "generate_answer (GenerateOk v) = True"
| "generate_answer (GenerateFailed d) = True"
| "generate_answer _ = False"

fun is_generate :: "page_out \<Rightarrow> bool" where
  "is_generate (Mutate (MGenerateWalletVoucher b)) = True"
| "is_generate _ = False"

lemmas dialog_handlers = handleNextStep_def handleConfirmGenerate_def quickSubmit_def quickFailed_def
  preselectEffect_def Let_def

interpretation sales: request_flight "dialog_step isEmail" "dialog_ok i" gd_generating generate_answer is_generate
  for isEmail i
proof
  fix d :: voucher_dialog and a
  show "dialog_ok i d a \<Longrightarrow> generate_answer a \<Longrightarrow> gd_generating d
      \<and> \<not> gd_generating (fst (dialog_step isEmail d a)) \<and> filter is_generate (snd (dialog_step isEmail d a)) = []"
    by (cases a) auto
  show "dialog_ok i d a \<Longrightarrow> \<not> generate_answer a \<Longrightarrow>
      (filter is_generate (snd (dialog_step isEmail d a)) = []
        \<and> gd_generating (fst (dialog_step isEmail d a)) = gd_generating d)
      \<or> (length (filter is_generate (snd (dialog_step isEmail d a))) = 1 \<and> \<not> gd_generating d
          \<and> gd_generating (fst (dialog_step isEmail d a)))"
    by (cases a) (auto simp: dialog_offers dialog_handlers)
qed

text \<open>What a run of the dialog has learned, and that its choices come from there.\<close>

definition customer_known :: "dialog_action list \<Rightarrow> string \<Rightarrow> bool" where
  "customer_known as c \<longleftrightarrow> OpenDialog (Some c) \<in> set as \<or> QuickOk c \<in> set as
     \<or> (\<exists>cs u. DialogCustomersAnswer (Some cs) \<in> set as \<and> u \<in> set cs \<and> us_id u = c)"

definition package_listed :: "dialog_action list \<Rightarrow> string \<Rightarrow> bool" where
  "package_listed as k \<longleftrightarrow>
     (\<exists>ps p. PackagesAnswer (Some ps) \<in> set as \<and> p \<in> set ps \<and> pk_id p = k \<and> pk_is_active p)"

definition choices_known :: "dialog_action list \<Rightarrow> voucher_dialog \<Rightarrow> bool" where
  "choices_known as d \<longleftrightarrow>
     (gd_selectedCustomerId d \<noteq> [] \<longrightarrow> customer_known as (gd_selectedCustomerId d))
     \<and> (gd_selectedPackageId d \<noteq> [] \<longrightarrow> package_listed as (gd_selectedPackageId d))
     \<and> (\<forall>v. gd_generatedVoucher d = Some v \<longrightarrow> GenerateOk v \<in> set as)
     \<and> (\<forall>cs. gd_customers d = FLoaded cs \<longrightarrow> DialogCustomersAnswer (Some cs) \<in> set as)
     \<and> (\<forall>ps. gd_packages d = FLoaded ps \<longrightarrow> PackagesAnswer (Some ps) \<in> set as)
     \<and> (gd_step d = 3 \<longrightarrow> gd_generatedVoucher d \<noteq> None)"

lemma answered_Loaded: "answered d q = FLoaded x \<longleftrightarrow> d = Some x \<or> (d = None \<and> q = FLoaded x)"
  by (cases d; cases q) auto

lemma nullish_data: "x \<in> set (nullish (dataOf q) []) \<longleftrightarrow> (\<exists>xs. q = FLoaded xs \<and> x \<in> set xs)"
  by (cases q) auto

lemma dialogCustomers_listed:
  "c \<in> set (dialogCustomers d) \<Longrightarrow> \<exists>cs. gd_customers d = FLoaded cs \<and> c \<in> set cs"
  by (cases "gd_customers d") (auto simp: dialogCustomers_def)

lemma choices_known_step:
  assumes known: "choices_known as d" and ok: "dialog_ok i d a" and a: "a \<in> set as"
  shows "choices_known as (fst (dialog_step isEmail d a))"
proof (cases a)
  case (PickCustomer c)
  with ok obtain u where u: "u \<in> set (dialogCustomers d)" "us_id u = c" by (auto simp: dialog_offers)
  then obtain cs where "gd_customers d = FLoaded cs" "u \<in> set cs" using dialogCustomers_listed by blast
  with u known have "customer_known as c" by (auto simp: choices_known_def customer_known_def)
  with PickCustomer known show ?thesis by (auto simp: choices_known_def)
next
  case (PickPackage k)
  with ok obtain p where "p \<in> set (nullish (dataOf (gd_packages d)) [])" "pk_is_active p" "pk_id p = k"
    by (auto simp: dialog_offers)
  with known have "package_listed as k"
    by (auto simp: choices_known_def package_listed_def nullish_data)
  with PickPackage known show ?thesis by (auto simp: choices_known_def)
next
  case (OpenDialog pre)
  with a have "customer_known as (orElse pre [])" if "orElse pre [] \<noteq> []"
    using that by (auto simp: customer_known_def orElse_def split: option.splits if_splits)
  with OpenDialog known show ?thesis by (auto simp: choices_known_def preselectEffect_def)
qed (use known a ok in \<open>auto simp: choices_known_def customer_known_def answered_Loaded dialog_handlers dialog_offers\<close>)

lemma choices_known_run:
  assumes "guarded_run (dialog_ok i) (dialog_step isEmail) dialog0 as = Some (d, rs)"
  shows "choices_known as d"
proof (rule guarded_run_trace(1) [OF assms, where Q = "\<lambda>_. True"])
  show "choices_known as dialog0" by (simp add: choices_known_def dialog0_def)
qed (simp add: choices_known_step)

text \<open>Both pages contain the dialog.\<close>

fun walletPasses :: "wallet_action \<Rightarrow> dialog_action option" where
  "walletPasses (InDialog a) = Some a"
| "walletPasses _ = None"

fun customersPasses :: "my_customers_action \<Rightarrow> dialog_action option" where
  "customersPasses (InVoucherDialog a) = Some a"
| "customersPasses _ = None"

lemma wallet_ok_dialog: "wallet_ok i p (InDialog b) \<Longrightarrow> dialog_ok i (wp_dialog p) b"
  by (cases b) auto

lemma my_customers_ok_dialog: "my_customers_ok i p (InVoucherDialog b) \<Longrightarrow> dialog_ok i (mc_dialog p) b"
  by (cases b) auto

interpretation wallet_sales: embedding "wallet_step isEmail" "wallet_ok i" "dialog_step isEmail" "dialog_ok i"
    wp_dialog walletPasses is_generate for isEmail i
proof
  fix p :: wallet_page and a b
  show "wallet_ok i p a \<Longrightarrow> walletPasses a = Some b \<Longrightarrow> dialog_ok i (wp_dialog p) b
      \<and> wp_dialog (fst (wallet_step isEmail p a)) = fst (dialog_step isEmail (wp_dialog p) b)
      \<and> filter is_generate (snd (wallet_step isEmail p a)) = filter is_generate (snd (dialog_step isEmail (wp_dialog p) b))"
    by (cases a) (auto dest: wallet_ok_dialog)
  show "wallet_ok i p a \<Longrightarrow> walletPasses a = None \<Longrightarrow>
      wp_dialog (fst (wallet_step isEmail p a)) = wp_dialog p \<and> filter is_generate (snd (wallet_step isEmail p a)) = []"
    by (cases a) (auto simp: handleCopy_def)
qed

interpretation customer_sales: embedding "my_customers_step isEmail" "my_customers_ok i" "dialog_step isEmail"
    "dialog_ok i" mc_dialog customersPasses is_generate for isEmail i
proof
  fix p :: my_customers and a b
  show "my_customers_ok i p a \<Longrightarrow> customersPasses a = Some b \<Longrightarrow> dialog_ok i (mc_dialog p) b
      \<and> mc_dialog (fst (my_customers_step isEmail p a)) = fst (dialog_step isEmail (mc_dialog p) b)
      \<and> filter is_generate (snd (my_customers_step isEmail p a))
        = filter is_generate (snd (dialog_step isEmail (mc_dialog p) b))"
    by (cases a) (auto dest: my_customers_ok_dialog)
  show "my_customers_ok i p a \<Longrightarrow> customersPasses a = None \<Longrightarrow>
      mc_dialog (fst (my_customers_step isEmail p a)) = mc_dialog p
      \<and> filter is_generate (snd (my_customers_step isEmail p a)) = []"
    by (cases a) (auto simp: submitCustomer_def customerFailed_def Let_def)
qed

lemma generate_only_confirmed:
  "Mutate (MGenerateWalletVoucher b) \<in> set (snd (dialog_step isEmail d a)) \<Longrightarrow> a = ConfirmGenerate
     \<and> b = voucherBody (gd_selectedCustomerId d) (gd_selectedPackageId d)
     \<and> gd_selectedCustomerId d \<noteq> [] \<and> gd_selectedPackageId d \<noteq> [] \<and> isAffordable d"
  by (cases a) (auto simp: dialog_handlers split: if_splits)

text \<open>The customer and the package chosen last.\<close>

fun chooseCustomer :: "string \<Rightarrow> dialog_action \<Rightarrow> string" where
  "chooseCustomer x (OpenDialog pre) = orElse pre []"
| "chooseCustomer x (PickCustomer c) = c"
| "chooseCustomer x (QuickOk c) = c"
| "chooseCustomer x _ = x"

fun choosePackage :: "string \<Rightarrow> dialog_action \<Rightarrow> string" where
  "choosePackage x (OpenDialog pre) = []"
| "choosePackage x (PickPackage k) = (if k = [] then x else k)"
| "choosePackage x _ = x"

definition chosenSale :: "dialog_action list \<Rightarrow> body" where
  "chosenSale as = voucherBody (foldl chooseCustomer [] as) (foldl choosePackage [] as)"

lemma dialog_step_choices:
  "gd_selectedCustomerId (fst (dialog_step isEmail d a)) = chooseCustomer (gd_selectedCustomerId d) a"
  "gd_selectedPackageId (fst (dialog_step isEmail d a)) = choosePackage (gd_selectedPackageId d) a"
  by (cases a; simp add: dialog_handlers)+

lemma dialog_run_choices:
  "guarded_run (dialog_ok i) (dialog_step isEmail) d as = Some (d', rs) \<Longrightarrow>
   gd_selectedCustomerId d' = foldl chooseCustomer (gd_selectedCustomerId d) as
   \<and> gd_selectedPackageId d' = foldl choosePackage (gd_selectedPackageId d) as"
proof (induction as arbitrary: d rs)
  case (Cons a as)
  then obtain rs' where "guarded_run (dialog_ok i) (dialog_step isEmail) (fst (dialog_step isEmail d a)) as = Some (d', rs')"
    by (auto simp: guarded_run_Cons)
  from Cons.IH [OF this] show ?case by (simp add: dialog_step_choices)
qed simp

lemma affordable_price:
  "isAffordable d \<Longrightarrow> findIn (dataOf (gd_packages d)) (\<lambda>p. pk_id p = gd_selectedPackageId d) = Some p \<Longrightarrow>
   pk_price_kes p \<le> dialogBalance d"
  by (simp add: isAffordable_def balanceAfter_def packagePrice_def currentPackage_def)

section \<open>Properties\<close>

text \<open>C31: a voucher is sold with care: whatever the reseller clicks and in whatever order the answers
  arrive, at most one sale is outstanding; a sale is sent only by the confirm button, for the customer chosen
  last (in the list, by the page, or by registering him) and the package chosen last; that customer was listed
  by the service, just registered or given by the page, and that package was listed as active; the balance covers
  the price the dialog computes, which is the listed price as long as the package is listed (one that has
  vanished from the list meanwhile counts as free); and the last step shows the code of a voucher that the
  service returned.\<close>

theorem voucher_sales_safe:
  assumes run: "guarded_run (dialog_ok i) (dialog_step isEmail) dialog0 as = Some (d, rs)"
  shows "length (filter is_generate rs) = length (filter generate_answer as) + of_bool (gd_generating d)
    \<and> (dialog_ok i d a \<and> Mutate (MGenerateWalletVoucher b) \<in> set (snd (dialog_step isEmail d a)) \<longrightarrow>
        a = ConfirmGenerate \<and> \<not> gd_generating d \<and> b = chosenSale as
        \<and> customer_known as (foldl chooseCustomer [] as) \<and> package_listed as (foldl choosePackage [] as)
        \<and> packagePrice d \<le> dialogBalance d
        \<and> (\<forall>p. findIn (dataOf (gd_packages d)) (\<lambda>p. pk_id p = foldl choosePackage [] as) = Some p \<longrightarrow>
             packagePrice d = pk_price_kes p))
    \<and> (gd_open d \<and> gd_step d = 3 \<longrightarrow>
        (\<exists>v. GenerateOk v \<in> set as \<and> shows_text (dialogView i d) (vo_code v)))"
proof -
  have known: "choices_known as d" by (rule choices_known_run [OF run])
  have choice: "gd_selectedCustomerId d = foldl chooseCustomer [] as" "gd_selectedPackageId d = foldl choosePackage [] as"
    using dialog_run_choices [OF run] by (simp_all add: dialog0_def)
  have sale: "a = ConfirmGenerate \<and> \<not> gd_generating d \<and> b = chosenSale as
        \<and> customer_known as (foldl chooseCustomer [] as) \<and> package_listed as (foldl choosePackage [] as)
        \<and> packagePrice d \<le> dialogBalance d
        \<and> (\<forall>p. findIn (dataOf (gd_packages d)) (\<lambda>p. pk_id p = foldl choosePackage [] as) = Some p \<longrightarrow>
             packagePrice d = pk_price_kes p)"
    if "dialog_ok i d a" "Mutate (MGenerateWalletVoucher b) \<in> set (snd (dialog_step isEmail d a))"
  proof -
    note sent = generate_only_confirmed [OF that(2)]
    then have "customer_known as (gd_selectedCustomerId d)" "package_listed as (gd_selectedPackageId d)"
      using known by (simp_all add: choices_known_def)
    moreover have "\<not> gd_generating d" using sent that(1) by (auto simp: dialog_offers)
    moreover have "packagePrice d \<le> dialogBalance d" using sent by (simp add: isAffordable_def balanceAfter_def)
    moreover have "packagePrice d = pk_price_kes p"
      if "findIn (dataOf (gd_packages d)) (\<lambda>p. pk_id p = foldl choosePackage [] as) = Some p" for p
      using that by (simp add: packagePrice_def currentPackage_def choice)
    ultimately show ?thesis using sent by (simp add: choice chosenSale_def)
  qed
  have shown: "\<exists>v. GenerateOk v \<in> set as \<and> shows_text (dialogView i d) (vo_code v)"
    if "gd_open d" "gd_step d = 3"
  proof -
    note at = that
    obtain v where "gd_generatedVoucher d = Some v" "GenerateOk v \<in> set as"
      using known at(2) by (auto simp: choices_known_def)
    then show ?thesis
      using at by (auto simp: dialogView_def voucherView_def onlyIf_def shows_text_simps)
  qed
  show ?thesis
    using sales.request_flights [OF run] sale shown by (auto simp: dialog0_def)
qed

definition samplePlan :: package where
  "samplePlan = \<lparr>pk_id = ''k1'', pk_name = ''Day'', pk_description = [], pk_price_kes = 5000,
     pk_duration_minutes = 1440, pk_speed_mbps = 5, pk_is_active = True, pk_created_at = ''d'',
     pk_service_type = None\<rparr>"

definition sampleCustomer :: user where
  "sampleCustomer = \<lparr>us_id = ''c1'', us_email = ''a@b.ke'', us_phone = ''0712345678'', us_role = ''customer'',
     us_reseller_id = None, us_router_id = None, us_is_active = True, us_created_at = ''d''\<rparr>"

definition sampleWallet :: wallet_balance where
  "sampleWallet = \<lparr>wb_balance_kes = 7000, wb_paybill_number = ''1'', wb_wallet_reference = ''W''\<rparr>"

definition sampleSale :: "dialog_action list" where
  "sampleSale =
     [WalletAnswer (Some sampleWallet), PackagesAnswer (Some [samplePlan]),
      DialogCustomersAnswer (Some [sampleCustomer]), OpenDialog None, PickCustomer ''c1'', NextStep,
      PickPackage ''k1'']"

lemma sampleSale_run:
  "guarded_run (dialog_ok i) (dialog_step isEmail) dialog0 sampleSale =
     Some (dialog0\<lparr>gd_open := True, gd_wallet := FLoaded sampleWallet, gd_packages := FLoaded [samplePlan],
             gd_customers := FLoaded [sampleCustomer], gd_selectedCustomerId := ''c1'', gd_step := 2,
             gd_selectedPackageId := ''k1''\<rparr>, [])"
  by (simp add: sampleSale_def guarded_run.simps dialog_offers dialog_handlers dialogCustomers_def dialog0_def orElse_def)
    (simp add: samplePlan_def sampleCustomer_def)

theorem voucher_sales_safe_witness:
  "\<exists>d rs. guarded_run (dialog_ok sampleIntl) (dialog_step (\<lambda>_. True)) dialog0 sampleSale = Some (d, rs)
     \<and> dialog_ok sampleIntl d ConfirmGenerate
     \<and> snd (dialog_step (\<lambda>_. True) d ConfirmGenerate) = [Mutate (MGenerateWalletVoucher (voucherBody ''c1'' ''k1''))]
     \<and> voucherBody ''c1'' ''k1'' = chosenSale sampleSale \<and> packagePrice d \<le> dialogBalance d"
proof -
  obtain d rs where run: "guarded_run (dialog_ok sampleIntl) (dialog_step (\<lambda>_. True)) dialog0 sampleSale = Some (d, rs)"
    and d: "d = dialog0\<lparr>gd_open := True, gd_wallet := FLoaded sampleWallet, gd_packages := FLoaded [samplePlan],
             gd_customers := FLoaded [sampleCustomer], gd_selectedCustomerId := ''c1'', gd_step := 2,
             gd_selectedPackageId := ''k1''\<rparr>"
    using sampleSale_run by blast
  have "dialog_ok sampleIntl d ConfirmGenerate"
    and out: "snd (dialog_step (\<lambda>_. True) d ConfirmGenerate) = [Mutate (MGenerateWalletVoucher (voucherBody ''c1'' ''k1''))]"
    by (simp_all add: d dialog_offers dialog_handlers isAffordable_def balanceAfter_def packagePrice_def
        currentPackage_def dialogBalance_def findIn_def sampleWallet_def samplePlan_def dialog0_def)
  with run voucher_sales_safe [OF run, of ConfirmGenerate "voucherBody ''c1'' ''k1''"] show ?thesis by auto
qed

text \<open>A sale that is answered after the dialog was closed and opened again for somebody else shows the
  first voucher in the new dialog.\<close>

lemma late_sale_shown:
  assumes "gd_generating d" and "gd_open d"
  shows "gd_step (fst (dialog_step isEmail (fst (dialog_step isEmail (fst (dialog_step isEmail d CloseDialog))
           (OpenDialog (Some c)))) (GenerateOk v))) = 3"
  by (simp add: preselectEffect_def)

text \<open>The wallet page and the customers page sell through the dialog only: whatever happens on such a page, the
  dialog on it goes through a run of the dialog alone with the same sales.\<close>

lemma pages_run_dialog:
  "guarded_run (wallet_ok i) (wallet_step isEmail) wallet0 as = Some (p, rs) \<Longrightarrow>
     \<exists>rs'. guarded_run (dialog_ok i) (dialog_step isEmail) dialog0 (List.map_filter walletPasses as) = Some (wp_dialog p, rs')
        \<and> filter is_generate rs' = filter is_generate rs"
  "guarded_run (my_customers_ok i) (my_customers_step isEmail) myCustomers0 bs = Some (q, rs) \<Longrightarrow>
     \<exists>rs'. guarded_run (dialog_ok i) (dialog_step isEmail) dialog0 (List.map_filter customersPasses bs) = Some (mc_dialog q, rs')
        \<and> filter is_generate rs' = filter is_generate rs"
  using wallet_sales.contains_run [of i isEmail wallet0 as p rs]
    customer_sales.contains_run [of i isEmail myCustomers0 bs q rs]
  by (simp_all add: wallet0_def myCustomers0_def)

lemma page_sale:
  assumes "my_customers_ok i q a" and "Mutate (MGenerateWalletVoucher b) \<in> set (snd (my_customers_step isEmail q a))"
  shows "a = InVoucherDialog ConfirmGenerate
    \<and> Mutate (MGenerateWalletVoucher b) \<in> set (snd (dialog_step isEmail (mc_dialog q) ConfirmGenerate))
    \<and> offers (myCustomersView i q) a"
proof -
  obtain x where a: "a = InVoucherDialog x"
    and sent: "Mutate (MGenerateWalletVoucher b) \<in> set (snd (dialog_step isEmail (mc_dialog q) x))"
    using assms(2) by (cases a) (auto simp: submitCustomer_def customerFailed_def Let_def split: if_splits)
  then have x: "x = ConfirmGenerate" using generate_only_confirmed by blast
  with assms(1) a have "offers (dialogView i (mc_dialog q)) ConfirmGenerate" by simp
  then show ?thesis using a x sent by (simp add: myCustomersView_def offers_Group list_ex_append offers_map_view)
qed

text \<open>The four clicks that sell package \<open>k\<close> to the customer of a row.\<close>

definition sellPlan :: "user \<Rightarrow> package \<Rightarrow> my_customers_action list" where
  "sellPlan c k = map InVoucherDialog [OpenDialog (Some (us_id c)), NextStep, PickPackage (pk_id k), ConfirmGenerate]"

lemma row_offers:
  "offers (myCustomerRow i q c) a \<longleftrightarrow> us_is_active c \<and> a = InVoucherDialog (OpenDialog (Some (us_id c)))"
  by (auto simp: myCustomerRow_def view_lists)

lemma sellPlan_run:
  assumes "c \<in> set (myFilteredCustomers q)" and "us_is_active c" and "us_id c \<noteq> []"
    and "\<not> gd_open (mc_dialog q)" and "\<not> gd_generating (mc_dialog q)"
    and "findIn (dataOf (gd_packages (mc_dialog q))) (\<lambda>p. pk_id p = pk_id k) = Some k"
    and "pk_is_active k" and "pk_id k \<noteq> []" and "pk_price_kes k \<le> dialogBalance (mc_dialog q)"
  shows "\<exists>q'. guarded_run (my_customers_ok i) (my_customers_step isEmail) q (sellPlan c k)
    = Some (q', [Mutate (MGenerateWalletVoucher (voucherBody (us_id c) (pk_id k)))])"
proof -
  have loaded: "\<not> isLoadingQuery (gd_customers (mc_dialog q))"
    using assms(1) by (cases "gd_customers (mc_dialog q)") (auto simp: myFilteredCustomers_def isLoadingQuery_def)
  have "offers (myCustomerRow i q c) (InVoucherDialog (OpenDialog (Some (us_id c))))"
    using assms(2) by (simp add: row_offers)
  with assms(1) loaded have row: "offers (myCustomersView i q) (InVoucherDialog (OpenDialog (Some (us_id c))))"
    by (auto simp: myCustomersView_def offers_Group list_ex_append page_offers)
  have "k \<in> set (nullish (dataOf (gd_packages (mc_dialog q))) [])" using findIn_Some [OF assms(6)] by simp
  then show ?thesis
    using assms row
    by (simp add: sellPlan_def guarded_run.simps dialog_offers dialog_handlers isAffordable_def balanceAfter_def
        packagePrice_def currentPackage_def dialogBalance_def orElse_def) blast
qed

text \<open>C32: the customers page sells to the right customer: in every run of the page the sales sent are those
  answered plus at most the one outstanding; the next sale is sent only by the dialog's confirm button, which
  the page shows enabled, and is for the customer and the package chosen last on the page; the row
  of a customer offers nothing but to open the dialog for that customer, if he is active; and from every state with the dialog closed and no sale outstanding, the
  button of an active customer's row, the package list and the confirm button do sell any listed, active and
  affordable package to that customer.\<close>

theorem row_sells_to_its_customer:
  assumes run: "guarded_run (my_customers_ok i) (my_customers_step isEmail) myCustomers0 bs = Some (q, rs)"
  shows "length (filter is_generate rs)
       = length (filter generate_answer (List.map_filter customersPasses bs)) + of_bool (gd_generating (mc_dialog q))
    \<and> (\<forall>a b. my_customers_ok i q a \<and> Mutate (MGenerateWalletVoucher b) \<in> set (snd (my_customers_step isEmail q a)) \<longrightarrow>
         a = InVoucherDialog ConfirmGenerate \<and> offers (myCustomersView i q) a \<and> \<not> gd_generating (mc_dialog q)
         \<and> b = chosenSale (List.map_filter customersPasses bs))
    \<and> (\<forall>c a. offers (myCustomerRow i q c) a \<longleftrightarrow> us_is_active c \<and> a = InVoucherDialog (OpenDialog (Some (us_id c))))
    \<and> (\<forall>c k. c \<in> set (myFilteredCustomers q) \<and> us_is_active c \<and> us_id c \<noteq> []
         \<and> \<not> gd_open (mc_dialog q) \<and> \<not> gd_generating (mc_dialog q)
         \<and> findIn (dataOf (gd_packages (mc_dialog q))) (\<lambda>p. pk_id p = pk_id k) = Some k
         \<and> pk_is_active k \<and> pk_id k \<noteq> [] \<and> pk_price_kes k \<le> dialogBalance (mc_dialog q) \<longrightarrow>
         (\<exists>q'. guarded_run (my_customers_ok i) (my_customers_step isEmail) q (sellPlan c k)
            = Some (q', [Mutate (MGenerateWalletVoucher (voucherBody (us_id c) (pk_id k)))])))"
proof -
  obtain rs' where drun: "guarded_run (dialog_ok i) (dialog_step isEmail) dialog0 (List.map_filter customersPasses bs)
      = Some (mc_dialog q, rs')" and same: "filter is_generate rs' = filter is_generate rs"
    using pages_run_dialog(2) [OF run] by blast
  have "a = InVoucherDialog ConfirmGenerate \<and> offers (myCustomersView i q) a \<and> \<not> gd_generating (mc_dialog q)
         \<and> b = chosenSale (List.map_filter customersPasses bs)"
    if sale: "my_customers_ok i q a" "Mutate (MGenerateWalletVoucher b) \<in> set (snd (my_customers_step isEmail q a))" for a b
  proof -
    note ps = page_sale [OF sale]
    have "b = voucherBody (gd_selectedCustomerId (mc_dialog q)) (gd_selectedPackageId (mc_dialog q))"
      using ps generate_only_confirmed by blast
    then have "b = chosenSale (List.map_filter customersPasses bs)"
      using dialog_run_choices [OF drun] by (simp add: chosenSale_def dialog0_def)
    moreover have "\<not> gd_generating (mc_dialog q)" using ps sale(1) by (auto simp: dialog_offers)
    ultimately show ?thesis using ps by blast
  qed
  then show ?thesis
    using sales.request_flights [OF drun] same sellPlan_run row_offers by (auto simp: dialog0_def)
qed

definition sampleDesk :: "my_customers_action list" where
  "sampleDesk = map InVoucherDialog
     [WalletAnswer (Some sampleWallet), PackagesAnswer (Some [samplePlan]), DialogCustomersAnswer (Some [sampleCustomer])]"

theorem row_sells_to_its_customer_witness:
  "\<exists>q rs q'. guarded_run (my_customers_ok sampleIntl) (my_customers_step (\<lambda>_. True)) myCustomers0 sampleDesk = Some (q, rs)
     \<and> guarded_run (my_customers_ok sampleIntl) (my_customers_step (\<lambda>_. True)) q (sellPlan sampleCustomer samplePlan)
         = Some (q', [Mutate (MGenerateWalletVoucher (voucherBody ''c1'' ''k1''))])"
proof -
  let ?q = "myCustomers0\<lparr>mc_dialog := dialog0\<lparr>gd_wallet := FLoaded sampleWallet, gd_packages := FLoaded [samplePlan],
      gd_customers := FLoaded [sampleCustomer]\<rparr>\<rparr>"
  have run: "guarded_run (my_customers_ok sampleIntl) (my_customers_step (\<lambda>_. True)) myCustomers0 sampleDesk = Some (?q, [])"
    by (simp add: sampleDesk_def guarded_run.simps myCustomers0_def dialog0_def)
  have facts: "sampleCustomer \<in> set (myFilteredCustomers ?q)" "us_is_active sampleCustomer" "us_id sampleCustomer = ''c1''"
    "\<not> gd_open (mc_dialog ?q)" "\<not> gd_generating (mc_dialog ?q)"
    "findIn (dataOf (gd_packages (mc_dialog ?q))) (\<lambda>p. pk_id p = pk_id samplePlan) = Some samplePlan"
    "pk_is_active samplePlan" "pk_id samplePlan = ''k1''" "pk_price_kes samplePlan \<le> dialogBalance (mc_dialog ?q)"
    by (simp_all add: myFilteredCustomers_def myCustomers0_def dialog0_def sampleCustomer_def samplePlan_def
        sampleWallet_def findIn_def dialogBalance_def trim_def)
  from row_sells_to_its_customer [OF run, THEN conjunct2, THEN conjunct2, THEN conjunct2, rule_format, of sampleCustomer samplePlan]
  obtain q' where "guarded_run (my_customers_ok sampleIntl) (my_customers_step (\<lambda>_. True)) ?q (sellPlan sampleCustomer samplePlan)
      = Some (q', [Mutate (MGenerateWalletVoucher (voucherBody (us_id sampleCustomer) (pk_id samplePlan)))])"
    using facts by auto
  with run show ?thesis by (auto simp only: facts)
qed

end
