(* ===== verification/Customers_Page.thy ===== *)
theory Customers_Page
  imports Reseller
begin

text \<open>
  The admin's page of users and customers (\<open>pages/admin/CustomersPage.tsx\<close>): the filtered table with
  the connection and the subscription of each customer, the dialog that creates and edits a user, the
  dialog that deactivates one, and the sheet with a user's vouchers and payments.
\<close>

section \<open>Lookup tables\<close>

text \<open>The two maps are filled by \<open>forEach\<close>: the last subscription of a customer stays, vouchers are
  collected in the order of the answer.\<close>

definition subscriptionByCustomer :: "subscription list option \<Rightarrow> string \<Rightarrow> subscription option" where
  "subscriptionByCustomer subscriptions =
     foldl (\<lambda>m s. m(sb_customer_id s \<mapsto> s)) Map.empty (nullish subscriptions [])"

definition vouchersByCustomer :: "voucher list option \<Rightarrow> string \<Rightarrow> voucher list option" where
  "vouchersByCustomer vouchers =
     foldl (\<lambda>m v. m(vo_customer_id v \<mapsto> nullish (m (vo_customer_id v)) [] @ [v])) Map.empty (nullish vouchers [])"

definition emDash :: string where
  "emDash = [CHR 0xE2, CHR 0x80, CHR 0x94]"

definition connectionBadge :: "service_type option \<Rightarrow> 'a view" where
  "connectionBadge t = Txt (case t of None \<Rightarrow> emDash | Some Pppoe \<Rightarrow> ''Fiber'' | Some Hotspot \<Rightarrow> ''Hotspot'')"

definition capitalised :: "string \<Rightarrow> string" where
  "capitalised s = toUpperCase (take 1 s) @ drop 1 s"

definition formatSubscriptionLabel :: "intl \<Rightarrow> subscription \<Rightarrow> string" where
  "formatSubscriptionLabel i sub =
     (if sb_status sub = ''grace'' then ''Grace period''
      else if sb_status sub = ''active'' then ''Active until '' @ showDay i (sb_current_period_end sub)
      else capitalised (sb_status sub))"

text \<open>\<open>formatDistanceToNow\<close> throws on a date that is not valid; the code catches it.\<close>

definition formatLastVoucherActivity :: "intl \<Rightarrow> voucher list \<Rightarrow> string" where
  "formatLastVoucherActivity i customerVouchers =
     (case newestFirst (\<lambda>v. getTime i (vo_created_at v)) customerVouchers of
        [] \<Rightarrow> ''No activity''
      | latest # _ \<Rightarrow>
          if validDate i (vo_created_at latest)
          then ''Last: '' @ distanceToNow i (vo_created_at latest) @ '' ago''
          else ''No activity'')"

definition getConnectionType :: "mikrotik_router list \<Rightarrow> user \<Rightarrow> service_type option" where
  "getConnectionType routers u =
     (if \<not> truthy (us_router_id u) then None
      else map_option resolveRouterServiceType (List.find (\<lambda>r. Some (mr_id r) = us_router_id u) routers))"

section \<open>The user form\<close>

record user_form =
  uf_email :: string
  uf_phone :: string
  uf_password :: string
  uf_role :: string
  uf_router_id :: string
  uf_errors :: field_errors
  uf_submitted :: bool

datatype user_field = UEmail | UPhone | UPassword | URole | URouter

definition userForm0 :: user_form where
  "userForm0 = \<lparr>uf_email = [], uf_phone = [], uf_password = [], uf_role = ''customer'', uf_router_id = [],
     uf_errors = [], uf_submitted = False\<rparr>"

definition userSchema :: "(string \<Rightarrow> bool) \<Rightarrow> user_form \<Rightarrow> field_errors" where
  "userSchema isEmail f =
     (if isEmail (uf_email f) then [] else [(''email'', ''Invalid email address'')])
     @ minLength 1 ''phone'' ''Phone is required'' (uf_phone f)
     @ (if uf_password f = [] then []
        else minLength 8 ''password'' ''Password must be at least 8 characters'' (uf_password f))
     @ (if uf_role f \<in> {''admin'', ''reseller'', ''customer''} then [] else [(''role'', ''Invalid option'')])"

fun userFieldName :: "user_field \<Rightarrow> string" where
  "userFieldName UEmail = ''email''"
| "userFieldName UPhone = ''phone''"
| "userFieldName UPassword = ''password''"
| "userFieldName URole = ''role''"
| "userFieldName URouter = ''router_id''"

fun setUserField :: "user_field \<Rightarrow> string \<Rightarrow> user_form \<Rightarrow> user_form" where
  "setUserField UEmail v f = f\<lparr>uf_email := v\<rparr>"
| "setUserField UPhone v f = f\<lparr>uf_phone := v\<rparr>"
| "setUserField UPassword v f = f\<lparr>uf_password := v\<rparr>"
| "setUserField URole v f = f\<lparr>uf_role := v\<rparr>"
| "setUserField URouter v f = f\<lparr>uf_router_id := v\<rparr>"

definition changeUserField :: "(string \<Rightarrow> bool) \<Rightarrow> user_field \<Rightarrow> string \<Rightarrow> user_form \<Rightarrow> user_form" where
  "changeUserField isEmail k v f =
     (let f1 = setUserField k v f
      in f1\<lparr>uf_errors := recheck (uf_submitted f1) (userFieldName k) (userSchema isEmail f1) (uf_errors f1)\<rparr>)"

text \<open>The bodies of the two requests; an update sends a password only if one was typed, and the router
  only for a customer.\<close>

definition updateData :: "user_form \<Rightarrow> body" where
  "updateData f =
     [(''email'', KS (uf_email f)), (''phone'', KS (uf_phone f)), (''role'', KS (uf_role f))]
     @ (if uf_password f \<noteq> [] then [(''password'', KS (uf_password f))] else [])
     @ (if uf_role f = ''customer''
        then [(''router_id'', if uf_router_id f \<noteq> [] then KS (uf_router_id f) else KNull)] else [])"

definition createData :: "user_form \<Rightarrow> body" where
  "createData f =
     [(''email'', KS (uf_email f)), (''phone'', KS (uf_phone f)), (''password'', KS (uf_password f)),
      (''role'', KS (uf_role f)), (''router_id'', KS (uf_router_id f))]"

section \<open>The page\<close>

record customers_page =
  cu_users :: "user list fetched"
  cu_payments :: "payment list fetched"
  cu_vouchers :: "voucher list fetched"
  cu_subscriptions :: "subscription list fetched"
  cu_routers :: "mikrotik_router list"
  cu_searchQuery :: string
  cu_roleFilter :: string
  cu_selectedUser :: "user option"
  cu_isSheetOpen :: bool
  cu_isDialogOpen :: bool
  cu_isDeleteDialogOpen :: bool
  cu_editingUser :: "user option"
  cu_deletingUserId :: "string option"
  cu_form :: user_form
  cu_saving :: bool
  cu_deactivations :: nat

datatype customers_action =
    UsersAnswer "user list option"
  | UserPaymentsAnswer "payment list option"
  | UserVouchersAnswer "voucher list option"
  | UserSubscriptionsAnswer "subscription list option"
  | SummaryAnswer "mikrotik_router list"
  | SearchUsers string
  | SetRole string
  | RowClick user
  | CloseSheet
  | OpenUserDialog "user option"
  | DismissDialog
  | CancelDialog
  | UserInput user_field string
  | SaveUser
  | SaveOk bool
  | SaveFailed "string option"
  | AskDeactivate string
  | DismissDeactivate
  | ConfirmDeactivate
  | DeactivateSettled bool

definition customers0 :: customers_page where
  "customers0 =
     \<lparr>cu_users = FLoading, cu_payments = FLoading, cu_vouchers = FLoading, cu_subscriptions = FLoading,
      cu_routers = [], cu_searchQuery = [], cu_roleFilter = ''all'', cu_selectedUser = None,
      cu_isSheetOpen = False, cu_isDialogOpen = False, cu_isDeleteDialogOpen = False,
      cu_editingUser = None, cu_deletingUserId = None, cu_form = userForm0, cu_saving = False,
      cu_deactivations = 0\<rparr>"

definition filteredUsers :: "customers_page \<Rightarrow> user list" where
  "filteredUsers p =
     (case dataOf (cu_users p) of
        None \<Rightarrow> []
      | Some us \<Rightarrow>
          (let filtered = (if cu_roleFilter p \<noteq> ''all'' then filter (\<lambda>u. us_role u = cu_roleFilter p) us else us)
           in if trim (cu_searchQuery p) \<noteq> [] then filter (userMatches (cu_searchQuery p)) filtered else filtered))"

definition selectedUserPayments :: "intl \<Rightarrow> customers_page \<Rightarrow> payment list" where
  "selectedUserPayments i p =
     (case (cu_selectedUser p, dataOf (cu_payments p)) of
        (Some u, Some ps) \<Rightarrow>
          slice 0 5 (newestFirst (\<lambda>q. getTime i (py_created_at q)) (filter (\<lambda>q. py_customer_id q = us_id u) ps))
      | _ \<Rightarrow> [])"

definition selectedUserVouchers :: "customers_page \<Rightarrow> voucher list" where
  "selectedUserVouchers p =
     (case (cu_selectedUser p, dataOf (cu_vouchers p)) of
        (Some u, Some vs) \<Rightarrow> filter (\<lambda>v. vo_customer_id v = us_id u \<and> vo_status v = ''active'') vs
      | _ \<Rightarrow> [])"

text \<open>The effect on \<open>[editingUser, reset]\<close> fills the form; it runs only when the edited user changes.\<close>

definition formOf :: "user option \<Rightarrow> user_form" where
  "formOf editing =
     (case editing of
        Some u \<Rightarrow> userForm0\<lparr>uf_email := us_email u, uf_phone := us_phone u, uf_role := us_role u,
                            uf_router_id := orElse (us_router_id u) []\<rparr>
      | None \<Rightarrow> userForm0)"

definition setEditingUser :: "user option \<Rightarrow> customers_page \<Rightarrow> customers_page" where
  "setEditingUser u p = (if u = cu_editingUser p then p else p\<lparr>cu_editingUser := u, cu_form := formOf u\<rparr>)"

definition handleOpenDialog :: "user option \<Rightarrow> customers_page \<Rightarrow> customers_page" where
  "handleOpenDialog u p = (setEditingUser u p)\<lparr>cu_isDialogOpen := True\<rparr>"

definition handleCloseDialog :: "customers_page \<Rightarrow> customers_page" where
  "handleCloseDialog p = setEditingUser None (p\<lparr>cu_isDialogOpen := False\<rparr>)"

definition saveUser :: "(string \<Rightarrow> bool) \<Rightarrow> customers_page \<Rightarrow> customers_page \<times> page_out list" where
  "saveUser isEmail p =
     (let f = cu_form p; errs = userSchema isEmail f; p1 = p\<lparr>cu_form := f\<lparr>uf_errors := errs, uf_submitted := True\<rparr>\<rparr>
      in if errs \<noteq> [] then (p1, [])
         else case cu_editingUser p of
                Some u \<Rightarrow> (p1\<lparr>cu_saving := True\<rparr>, [Mutate (MAdminUpdateUser (us_id u) (updateData f))])
              | None \<Rightarrow>
                  if uf_password f = [] then (p1, [ToastError ''Password is required for new users''])
                  else (p1\<lparr>cu_saving := True\<rparr>, [Mutate (MAdminCreateUser (createData f))]))"

definition handleDeactivate :: "customers_page \<Rightarrow> customers_page \<times> page_out list" where
  "handleDeactivate p =
     (if truthy (cu_deletingUserId p)
      then (p\<lparr>cu_deactivations := Suc (cu_deactivations p)\<rparr>, [Mutate (MAdminDeleteUser (the (cu_deletingUserId p)))])
      else (p, []))"

text \<open>\<open>SaveOk\<close> says whether the request that succeeded was an update.\<close>

fun customers_step :: "(string \<Rightarrow> bool) \<Rightarrow> customers_page \<Rightarrow> customers_action \<Rightarrow> customers_page \<times> page_out list" where
  "customers_step isEmail p (UsersAnswer d) = (p\<lparr>cu_users := answered d (cu_users p)\<rparr>, [])"
| "customers_step isEmail p (UserPaymentsAnswer d) = (p\<lparr>cu_payments := answered d (cu_payments p)\<rparr>, [])"
| "customers_step isEmail p (UserVouchersAnswer d) = (p\<lparr>cu_vouchers := answered d (cu_vouchers p)\<rparr>, [])"
| "customers_step isEmail p (UserSubscriptionsAnswer d) =
     (p\<lparr>cu_subscriptions := answered d (cu_subscriptions p)\<rparr>, [])"
| "customers_step isEmail p (SummaryAnswer rs) = (p\<lparr>cu_routers := rs\<rparr>, [])"
| "customers_step isEmail p (SearchUsers q) = (p\<lparr>cu_searchQuery := q\<rparr>, [])"
| "customers_step isEmail p (SetRole r) = (p\<lparr>cu_roleFilter := r\<rparr>, [])"
| "customers_step isEmail p (RowClick u) = (p\<lparr>cu_selectedUser := Some u, cu_isSheetOpen := True\<rparr>, [])"
| "customers_step isEmail p CloseSheet = (p\<lparr>cu_isSheetOpen := False\<rparr>, [])"
| "customers_step isEmail p (OpenUserDialog u) = (handleOpenDialog u p, [])"
| "customers_step isEmail p DismissDialog = (p\<lparr>cu_isDialogOpen := False\<rparr>, [])"
| "customers_step isEmail p CancelDialog = (handleCloseDialog p, [])"
| "customers_step isEmail p (UserInput k v) = (p\<lparr>cu_form := changeUserField isEmail k v (cu_form p)\<rparr>, [])"
| "customers_step isEmail p SaveUser = saveUser isEmail p"
| "customers_step isEmail p (SaveOk updated) =
     (handleCloseDialog (p\<lparr>cu_saving := False\<rparr>),
      [ToastSuccess (if updated then ''User updated successfully'' else ''User created successfully'')])"
| "customers_step isEmail p (SaveFailed detail) =
     (p\<lparr>cu_saving := False\<rparr>, [ToastError (orElse detail ''Failed to save user'')])"
| "customers_step isEmail p (AskDeactivate u) =
     (p\<lparr>cu_deletingUserId := Some u, cu_isDeleteDialogOpen := True\<rparr>, [])"
| "customers_step isEmail p DismissDeactivate = (p\<lparr>cu_isDeleteDialogOpen := False\<rparr>, [])"
| "customers_step isEmail p ConfirmDeactivate = handleDeactivate p"
| "customers_step isEmail p (DeactivateSettled ok) =
     (p\<lparr>cu_deactivations := cu_deactivations p - 1, cu_isDeleteDialogOpen := False, cu_deletingUserId := None\<rparr>,
      [if ok then ToastSuccess ''User deactivated'' else ToastError ''Failed to deactivate user''])"

definition userRow :: "intl \<Rightarrow> customers_page \<Rightarrow> user \<Rightarrow> customers_action view" where
  "userRow i p u =
     (let sub = subscriptionByCustomer (dataOf (cu_subscriptions p)) (us_id u);
          customerVouchers = nullish (vouchersByCustomer (dataOf (cu_vouchers p)) (us_id u)) []
      in Group
        [Btn False
           [Txt (us_phone u), Txt (us_email u), Txt (us_role u),
            (if us_role u = ''customer'' then connectionBadge (getConnectionType (cu_routers p) u) else Txt emDash),
            Txt (if us_role u = ''customer''
                 then (case sub of Some s \<Rightarrow> formatSubscriptionLabel i s
                                 | None \<Rightarrow> formatLastVoucherActivity i customerVouchers)
                 else emDash),
            Txt (if us_is_active u then ''Active'' else ''Inactive''),
            Txt (formatNairobiDate i (us_created_at u))] (RowClick u),
         Btn (\<not> us_is_active u) [Txt ''Edit''] (OpenUserDialog (Some u)),
         Btn (\<not> us_is_active u) [Txt ''Deactivate''] (AskDeactivate (us_id u))])"

definition userDialog :: "customers_page \<Rightarrow> customers_action view list" where
  "userDialog p =
     (let f = cu_form p; errs = uf_errors f; editing = cu_editingUser p \<noteq> None
      in onlyIf (cu_isDialogOpen p)
         ([Txt (if editing then ''Edit User'' else ''Add User''),
           Txt (if editing then ''Update user profile and role.'' else ''Create a new user. Default role is customer.''),
           Btn False [] DismissDialog,
           Txt ''Email Address'', Inp ''e.g. hello@example.com'' (uf_email f) (UserInput UEmail)]
          @ fieldError errs ''email''
          @ [Txt ''Phone Number'', Inp ''e.g. 0712345678'' (uf_phone f) (UserInput UPhone)]
          @ fieldError errs ''phone''
          @ [Txt (''Password '' @ (if editing then ''(Leave empty to keep current)'' else [])),
             Inp ''Min 8 characters'' (uf_password f) (UserInput UPassword)]
          @ fieldError errs ''password''
          @ [Txt ''Role'']
          @ tabList (UserInput URole) [(''customer'', ''Customer''), (''reseller'', ''Reseller''), (''admin'', ''Admin'')]
          @ fieldError errs ''role''
          @ onlyIf (orElse (Some (uf_role f)) ''customer'' = ''customer'')
              ([Txt ''Site/Router Assignment'',
                Txt (if cu_routers p = [] then ''No routers connected'' else ''Select a router site'')]
               @ map (routerOption (UserInput URouter)) (cu_routers p)
               @ onlyIf (cu_routers p = []) [Txt ''Please connect a router first in Routers management.'']
               @ fieldError errs ''router_id'')
          @ [Btn False [Txt ''Cancel''] CancelDialog,
             Btn (cu_saving p) [Txt (if cu_saving p then ''Saving...'' else ''Save User'')] SaveUser]))"

definition deactivateDialog :: "customers_page \<Rightarrow> customers_action view list" where
  "deactivateDialog p =
     onlyIf (cu_isDeleteDialogOpen p)
       [Txt ''Deactivate this user?'',
        Txt ''This will disable their access to the system. Their history, payments, and vouchers will be preserved.'',
        Btn False [Txt ''Cancel''] DismissDeactivate, Btn False [Txt ''Deactivate''] ConfirmDeactivate]"

definition sheetVoucher :: "intl \<Rightarrow> voucher \<Rightarrow> customers_action view" where
  "sheetVoucher i v = Group
     [Txt (vo_code v), Txt (''Expires: '' @ formatNairobiDate i (vo_expires_at v)),
      Txt (orElse (Some (vo_package_name v)) ''Unknown'')]"

definition sheetPayment :: "intl \<Rightarrow> payment \<Rightarrow> customers_action view" where
  "sheetPayment i q = Group
     ([Txt (formatKES i (py_amount_kes q)), Txt (formatNairobiDate i (py_created_at q)),
       Txt (orElse (Some (py_package_name q)) ''Unknown'')]
      @ onlyIf (truthy (py_mpesa_receipt_number q)) [Txt (''Txn: '' @ the (py_mpesa_receipt_number q))]
      @ [statusBadge (py_status q)])"

definition userSheet :: "intl \<Rightarrow> customers_page \<Rightarrow> customers_action view list" where
  "userSheet i p =
     onlyIf (cu_isSheetOpen p)
       ([Btn False [] CloseSheet]
        @ (case cu_selectedUser p of
             None \<Rightarrow> []
           | Some u \<Rightarrow>
               [Txt (us_phone u), Txt (us_email u), Txt (us_role u),
                Txt (if us_is_active u then ''Active'' else ''Inactive''), Txt ''Active Vouchers'']
               @ (if selectedUserVouchers p \<noteq> [] then map (sheetVoucher i) (selectedUserVouchers p)
                  else [Txt ''No active vouchers.''])
               @ [Txt ''Recent Payments'']
               @ (if selectedUserPayments i p \<noteq> [] then map (sheetPayment i) (selectedUserPayments i p)
                  else [Txt ''No recent payments.''])
               @ [Txt ''Joined'', Txt (formatNairobiDate i (us_created_at u))]
               @ onlyIf (truthy (us_reseller_id u)) [Txt ''Reseller ID'', Txt (shortId (the (us_reseller_id u)))]
               @ onlyIf (truthy (us_router_id u))
                   [Txt ''Router Site'',
                    Txt (orElse (map_option mr_name (List.find (\<lambda>r. Some (mr_id r) = us_router_id u) (cu_routers p)))
                           ''Unknown'')]))"

definition customersView :: "intl \<Rightarrow> customers_page \<Rightarrow> customers_action view" where
  "customersView i p = Group
     ([Txt ''Users'', Txt ''Manage your customers, resellers, and admins.'',
       Btn False [Txt ''Add User''] (OpenUserDialog None)]
      @ tabList SetRole [(''all'', ''All''), (''customer'', ''Customer''), (''reseller'', ''Reseller''), (''admin'', ''Admin'')]
      @ [Inp ''Search email or phone...'' (cu_searchQuery p) SearchUsers]
      @ headers [''Phone'', ''Email'', ''Role'', ''Connection'', ''Subscription'', ''Status'', ''Joined'', ''Actions'']
      @ tableBody (isLoadingQuery (cu_users p)) ''No users found matching your search.'' (userRow i p) (filteredUsers p)
      @ userDialog p @ deactivateDialog p @ userSheet i p)"

fun customers_ok :: "intl \<Rightarrow> customers_page \<Rightarrow> customers_action \<Rightarrow> bool" where
  "customers_ok i p (UsersAnswer d) = True"
| "customers_ok i p (UserPaymentsAnswer d) = True"
| "customers_ok i p (UserVouchersAnswer d) = True"
| "customers_ok i p (UserSubscriptionsAnswer d) = True"
| "customers_ok i p (SummaryAnswer rs) = True"
| "customers_ok i p (SaveOk b) = cu_saving p"
| "customers_ok i p (SaveFailed e) = cu_saving p"
| "customers_ok i p (DeactivateSettled b) = (0 < cu_deactivations p)"
| "customers_ok i p a = offers (customersView i p) a"

section \<open>Lemmas\<close>

text \<open>The maps against the lists they are made from.\<close>

lemma vouchersByCustomer_eq:
  "vouchersByCustomer (Some vs) cid =
     (if filter (\<lambda>v. vo_customer_id v = cid) vs = [] then None else Some (filter (\<lambda>v. vo_customer_id v = cid) vs))"
proof (induction vs rule: rev_induct)
  case (snoc v vs)
  then show ?case by (auto simp: vouchersByCustomer_def)
qed (simp add: vouchersByCustomer_def)

lemma subscriptionByCustomer_eq:
  "subscriptionByCustomer (Some ss) cid = List.find (\<lambda>s. sb_customer_id s = cid) (rev ss)"
proof (induction ss rule: rev_induct)
  case (snoc s ss)
  then show ?case by (auto simp: subscriptionByCustomer_def)
qed (simp add: subscriptionByCustomer_def)

lemma filteredUsers_eq:
  "cu_users p = FLoaded us \<Longrightarrow>
   filteredUsers p = filter (\<lambda>u. (cu_roleFilter p = ''all'' \<or> us_role u = cu_roleFilter p)
     \<and> (trim (cu_searchQuery p) = [] \<or> userMatches (cu_searchQuery p) u)) us"
  by (simp add: filteredUsers_def Let_def conj_commute)

lemma filteredUsers_listed: "u \<in> set (filteredUsers p) \<Longrightarrow> \<exists>us. cu_users p = FLoaded us \<and> u \<in> set us"
  by (cases "cu_users p") (auto simp: filteredUsers_def Let_def split: if_splits)

text \<open>What the page offers.\<close>

lemma offers_userRow:
  "offers (userRow i p u) a \<longleftrightarrow> a = RowClick u
     \<or> (us_is_active u \<and> (a = OpenUserDialog (Some u) \<or> a = AskDeactivate (us_id u)))"
  by (auto simp: userRow_def Let_def connectionBadge_def view_simps)

lemma offers_userDialog:
  "list_ex (\<lambda>v. offers v a) (userDialog p) \<longleftrightarrow> cu_isDialogOpen p \<and>
     (a = DismissDialog \<or> a = CancelDialog \<or> (a = SaveUser \<and> \<not> cu_saving p)
      \<or> (\<exists>v. a = UserInput UEmail v \<or> a = UserInput UPhone v \<or> a = UserInput UPassword v)
      \<or> (\<exists>r \<in> {''customer'', ''reseller'', ''admin''}. a = UserInput URole r)
      \<or> (\<exists>r \<in> set (cu_routers p). a = UserInput URouter (mr_id r)
            \<and> orElse (Some (uf_role (cu_form p))) ''customer'' = ''customer''))"
  unfolding userDialog_def by (auto simp: form_offers offers_routerOption Let_def)

lemma offers_deactivateDialog:
  "list_ex (\<lambda>v. offers v a) (deactivateDialog p) \<longleftrightarrow>
     cu_isDeleteDialogOpen p \<and> (a = DismissDeactivate \<or> a = ConfirmDeactivate)"
  by (auto simp: deactivateDialog_def form_offers)

lemma offers_userSheet:
  "list_ex (\<lambda>v. offers v a) (userSheet i p) \<longleftrightarrow> cu_isSheetOpen p \<and> a = CloseSheet"
proof -
  have "\<not> offers (sheetVoucher i v) a" "\<not> offers (sheetPayment i q) a" for v q
    by (simp_all add: sheetVoucher_def sheetPayment_def form_offers)
  then show ?thesis by (auto simp: userSheet_def form_offers split: option.splits)
qed

lemma offers_customers:
  "offers (customersView i p) a \<longleftrightarrow>
     a = OpenUserDialog None
     \<or> (\<exists>r \<in> {''all'', ''customer'', ''reseller'', ''admin''}. a = SetRole r) \<or> (\<exists>q. a = SearchUsers q)
     \<or> (cu_users p \<noteq> FLoading \<and> (\<exists>u \<in> set (filteredUsers p). offers (userRow i p u) a))
     \<or> list_ex (\<lambda>v. offers v a) (userDialog p) \<or> list_ex (\<lambda>v. offers v a) (deactivateDialog p)
     \<or> list_ex (\<lambda>v. offers v a) (userSheet i p)"
  unfolding customersView_def by (auto simp: form_offers isLoadingQuery_def)

lemmas customers_offers = offers_customers offers_userRow offers_userDialog offers_deactivateDialog offers_userSheet

text \<open>One save at a time.\<close>

fun save_answer :: "customers_action \<Rightarrow> bool" where
  "save_answer (SaveOk b) = True"
| "save_answer (SaveFailed d) = True"
| "save_answer _ = False"

fun is_save :: "page_out \<Rightarrow> bool" where
  "is_save (Mutate (MAdminCreateUser b)) = True"
| "is_save (Mutate (MAdminUpdateUser u b)) = True"
| "is_save _ = False"

lemmas customers_handlers = handleOpenDialog_def handleCloseDialog_def setEditingUser_def saveUser_def
  handleDeactivate_def Let_def

interpretation saves: request_flight "customers_step isEmail" "customers_ok i" cu_saving save_answer is_save
  for isEmail i
proof
  fix p :: customers_page and a
  show "customers_ok i p a \<Longrightarrow> save_answer a \<Longrightarrow> cu_saving p
      \<and> \<not> cu_saving (fst (customers_step isEmail p a)) \<and> filter is_save (snd (customers_step isEmail p a)) = []"
    by (cases a) (auto simp: customers_handlers)
  show "customers_ok i p a \<Longrightarrow> \<not> save_answer a \<Longrightarrow>
      (filter is_save (snd (customers_step isEmail p a)) = []
        \<and> cu_saving (fst (customers_step isEmail p a)) = cu_saving p)
      \<or> (length (filter is_save (snd (customers_step isEmail p a))) = 1 \<and> \<not> cu_saving p
          \<and> cu_saving (fst (customers_step isEmail p a)))"
    by (cases a) (auto simp: customers_offers customers_handlers split: option.splits)
qed

text \<open>Who may be changed: a user the service listed as active.\<close>

definition listed_active :: "customers_action list \<Rightarrow> string \<Rightarrow> bool" where
  "listed_active as x \<longleftrightarrow>
     (\<exists>us u. UsersAnswer (Some us) \<in> set as \<and> u \<in> set us \<and> us_id u = x \<and> us_is_active u)"

definition validUser :: "(string \<Rightarrow> bool) \<Rightarrow> user_form \<Rightarrow> bool" where
  "validUser isEmail f \<longleftrightarrow> isEmail (uf_email f) \<and> 1 \<le> jsLength (uf_phone f)
     \<and> (uf_password f = [] \<or> 8 \<le> jsLength (uf_password f)) \<and> uf_role f \<in> {''admin'', ''reseller'', ''customer''}"

lemma userSchema_valid: "userSchema isEmail f = [] \<longleftrightarrow> validUser isEmail f"
  by (auto simp: userSchema_def validUser_def minLength_def Suc_le_eq)

fun user_request_ok :: "(string \<Rightarrow> bool) \<Rightarrow> customers_action list \<Rightarrow> page_out \<Rightarrow> bool" where
  "user_request_ok isEmail as (Mutate (MAdminCreateUser b)) =
     (\<exists>f. b = createData f \<and> validUser isEmail f \<and> 8 \<le> jsLength (uf_password f))"
| "user_request_ok isEmail as (Mutate (MAdminUpdateUser x b)) =
     (listed_active as x \<and> (\<exists>f. b = updateData f \<and> validUser isEmail f))"
| "user_request_ok isEmail as (Mutate (MAdminDeleteUser x)) = listed_active as x"
| "user_request_ok isEmail as _ = True"

definition targets_known :: "customers_action list \<Rightarrow> customers_page \<Rightarrow> bool" where
  "targets_known as p \<longleftrightarrow>
     (\<forall>us. cu_users p = FLoaded us \<longrightarrow> UsersAnswer (Some us) \<in> set as)
     \<and> (\<forall>u. cu_editingUser p = Some u \<longrightarrow> listed_active as (us_id u))
     \<and> (\<forall>x. cu_deletingUserId p = Some x \<longrightarrow> listed_active as x)"

lemma saveUser_requests:
  "r \<in> set (snd (saveUser isEmail p)) \<Longrightarrow> targets_known as p \<Longrightarrow> user_request_ok isEmail as r"
  by (auto simp: saveUser_def Let_def targets_known_def userSchema_valid validUser_def
      split: if_splits option.splits)

lemma targets_known_step:
  assumes known: "targets_known as p" and ok: "customers_ok i p a" and a: "a \<in> set as"
  shows "targets_known as (fst (customers_step isEmail p a))
    \<and> (\<forall>r \<in> set (snd (customers_step isEmail p a)). user_request_ok isEmail as r)"
proof -
  have row: "listed_active as (us_id u)" if "u \<in> set (filteredUsers p)" "us_is_active u" for u
    using that known filteredUsers_listed [OF that(1)] by (auto simp: targets_known_def listed_active_def)
  show ?thesis
  proof (cases a)
    case (OpenUserDialog u)
    with ok row have "listed_active as (us_id v)" if "u = Some v" for v
      using that by (auto simp: customers_offers)
    with known OpenUserDialog show ?thesis by (auto simp: targets_known_def customers_handlers)
  next
    case (AskDeactivate x)
    with ok row have "listed_active as x" by (auto simp: customers_offers)
    with known AskDeactivate show ?thesis by (auto simp: targets_known_def)
  next
    case SaveUser
    with known show ?thesis
      using saveUser_requests [of _ isEmail p as]
      by (auto simp: targets_known_def saveUser_def Let_def split: option.splits)
  next
    case ConfirmDeactivate
    with known show ?thesis
      by (cases "cu_deletingUserId p") (auto simp: targets_known_def handleDeactivate_def)
  qed (use known a in \<open>auto simp: targets_known_def answered_Loaded customers_handlers\<close>)
qed

section \<open>Properties\<close>

text \<open>Accounts are administered with care: whatever the admin clicks and in whatever order the
  answers arrive, at most one save is outstanding; a new account has a valid address, a role and a
  password of eight characters; an update is valid, keeps the password unless one was typed, and like
  a deactivation concerns an account that the service listed as active.\<close>

lemma account_changes_safe:
  assumes run: "guarded_run (customers_ok i) (customers_step isEmail) customers0 as = Some (p, rs)"
  shows "length (filter is_save rs) = length (filter save_answer as) + of_bool (cu_saving p)
    \<and> (\<forall>r \<in> set rs. user_request_ok isEmail as r)
    \<and> (map_of (updateData f) ''password'' = (if uf_password f = [] then None else Some (KS (uf_password f))))"
proof -
  have start: "targets_known as customers0" by (simp add: targets_known_def customers0_def)
  have "\<forall>r \<in> set rs. user_request_ok isEmail as r"
    by (rule guarded_run_trace(2) [OF run start targets_known_step])
  then show ?thesis
    using saves.request_flights [OF run] by (simp add: customers0_def updateData_def)
qed

text \<open>The customers page shows what the lists contain: the table is the list of users of the
  selected role that match the search, in the service's order; the subscription of a customer is the
  last one listed, the vouchers are all of the customer's in the service's order; the sheet shows the
  customer's active vouchers and the newest five payments.\<close>

lemma customer_lookups_exact:
  "(cu_users p = FLoaded us \<longrightarrow>
      filteredUsers p = filter (\<lambda>u. (cu_roleFilter p = ''all'' \<or> us_role u = cu_roleFilter p)
        \<and> (trim (cu_searchQuery p) = [] \<or> userMatches (cu_searchQuery p) u)) us)
   \<and> nullish (vouchersByCustomer (Some vs) cid) [] = filter (\<lambda>v. vo_customer_id v = cid) vs
   \<and> subscriptionByCustomer (Some ss) cid = List.find (\<lambda>s. sb_customer_id s = cid) (rev ss)
   \<and> (cu_selectedUser p = Some u \<and> cu_payments p = FLoaded ps \<longrightarrow>
        newest_of (\<lambda>q. getTime i (py_created_at q)) 5 (filter (\<lambda>q. py_customer_id q = us_id u) ps)
          (selectedUserPayments i p))"
proof (intro conjI impI)
  show "nullish (vouchersByCustomer (Some vs) cid) [] = filter (\<lambda>v. vo_customer_id v = cid) vs"
    by (simp add: vouchersByCustomer_eq)
  show "newest_of (\<lambda>q. getTime i (py_created_at q)) 5 (filter (\<lambda>q. py_customer_id q = us_id u) ps) (selectedUserPayments i p)"
    if "cu_selectedUser p = Some u \<and> cu_payments p = FLoaded ps"
    using that by (simp add: selectedUserPayments_def slice_def newest_of_take)
qed (simp_all add: filteredUsers_eq subscriptionByCustomer_eq)

definition sampleCustomers :: customers_page where
  "sampleCustomers = customers0\<lparr>cu_users := FLoaded [sampleCustomer], cu_roleFilter := ''customer''\<rparr>"

text \<open>After a user was created the form still holds that user's data, the password included, when it
  is opened for the next one.\<close>

lemma add_user_prefilled:
  "cu_editingUser p = None \<Longrightarrow>
   cu_form (fst (customers_step e (fst (customers_step e p (SaveOk False))) (OpenUserDialog None))) = cu_form p"
  by (simp add: customers_handlers)

text \<open>The button that confirms a deactivation stays enabled while the request is on its way.\<close>

lemma deactivation_twice:
  assumes "cu_isDeleteDialogOpen p" and "cu_deletingUserId p = Some x" and "x \<noteq> []"
  shows "\<exists>p'. guarded_run (customers_ok i) (customers_step e) p [ConfirmDeactivate, ConfirmDeactivate]
     = Some (p', [Mutate (MAdminDeleteUser x), Mutate (MAdminDeleteUser x)])"
  using assms by (simp add: guarded_run.simps customers_offers handleDeactivate_def)

end
