(* ===== verification/Billing_Pages.thy ===== *)
theory Billing_Pages
  imports Ledger_Pages Json
begin

text \<open>
  The admin's pages about billing and operation: subscriptions
  (\<open>pages/admin/SubscriptionsPage.tsx\<close>), invoices (\<open>pages/admin/InvoicesPage.tsx\<close> and the
  customer's \<open>pages/customer/InvoicesPage.tsx\<close>), the audit lg (\<open>pages/admin/AuditLogPage.tsx\<close>),
  which is paged by the service, and the system health (\<open>pages/admin/SystemHealthPage.tsx\<close>).
  A page whose query has arguments holds the answers by argument, as the cache does.
\<close>

section \<open>Subscriptions\<close>

record subscription_page =
  sn_statusFilter :: string
  sn_searchQuery :: string
  sn_suspendDialogId :: "string option"
  sn_answers :: "string \<Rightarrow> subscription list fetched"
  sn_suspending :: bool
  sn_reactivating :: bool

datatype subscription_action =
    SubscriptionsAnswer string "subscription list option"
  | SetSubscriptionTab string
  | SearchSubscriptions string
  | AskSuspend string
  | DismissSuspend
  | ConfirmSuspend
  | SuspendOk
  | SuspendFailed "string option"
  | ReactivateClick string
  | ReactivateOk
  | ReactivateFailed "string option"

definition subscriptionStart :: subscription_page where
  "subscriptionStart =
     \<lparr>sn_statusFilter = ''All'', sn_searchQuery = [], sn_suspendDialogId = None,
      sn_answers = (\<lambda>_. FLoading), sn_suspending = False, sn_reactivating = False\<rparr>"

definition subscriptionQuery :: "subscription_page \<Rightarrow> hook" where
  "subscriptionQuery p = HAdminSubscriptions (Some (sn_statusFilter p))"

definition subscriptionMatches :: "string \<Rightarrow> subscription \<Rightarrow> bool" where
  "subscriptionMatches q s \<longleftrightarrow>
     strIncludes (toLowerCase (sb_package_name s)) (toLowerCase q)
     \<or> strIncludes (toLowerCase (sb_customer_id s)) (toLowerCase q)"

definition filteredSubscriptions :: "subscription_page \<Rightarrow> subscription list" where
  "filteredSubscriptions p =
     (case dataOf (sn_answers p (sn_statusFilter p)) of
        None \<Rightarrow> []
      | Some ss \<Rightarrow> filter (\<lambda>s. if sn_searchQuery p = [] then True
                                else subscriptionMatches (sn_searchQuery p) s) ss)"

definition handleSuspend :: "subscription_page \<Rightarrow> subscription_page \<times> page_out list" where
  "handleSuspend p =
     (if \<not> truthy (sn_suspendDialogId p) then (p, [])
      else (p\<lparr>sn_suspending := True\<rparr>, [Mutate (MSuspendSubscription (the (sn_suspendDialogId p)))]))"

fun subscription_step :: "subscription_page \<Rightarrow> subscription_action \<Rightarrow> subscription_page \<times> page_out list" where
  "subscription_step p (SubscriptionsAnswer f d) =
     (p\<lparr>sn_answers := (sn_answers p)(f := answered d (sn_answers p f))\<rparr>, [])"
| "subscription_step p (SetSubscriptionTab t) =
     (let p1 = p\<lparr>sn_statusFilter := t\<rparr> in (p1, [Refetch (subscriptionQuery p1)]))"
| "subscription_step p (SearchSubscriptions q) = (p\<lparr>sn_searchQuery := q\<rparr>, [])"
| "subscription_step p (AskSuspend i) = (p\<lparr>sn_suspendDialogId := Some i\<rparr>, [])"
| "subscription_step p DismissSuspend = (p\<lparr>sn_suspendDialogId := None\<rparr>, [])"
| "subscription_step p ConfirmSuspend = handleSuspend p"
| "subscription_step p SuspendOk =
     (p\<lparr>sn_suspending := False, sn_suspendDialogId := None\<rparr>,
      [ToastSuccess ''Subscription suspended successfully.''])"
| "subscription_step p (SuspendFailed detail) =
     (p\<lparr>sn_suspending := False\<rparr>, [ToastError (orElse detail ''Failed to suspend subscription.'')])"
| "subscription_step p (ReactivateClick i) =
     (p\<lparr>sn_reactivating := True\<rparr>, [Mutate (MReactivateSubscription i)])"
| "subscription_step p ReactivateOk =
     (p\<lparr>sn_reactivating := False\<rparr>, [ToastSuccess ''Subscription reactivated.''])"
| "subscription_step p (ReactivateFailed detail) =
     (p\<lparr>sn_reactivating := False\<rparr>, [ToastError (orElse detail ''Failed to reactivate subscription.'')])"

definition subscriptionRow :: "intl \<Rightarrow> subscription_page \<Rightarrow> subscription \<Rightarrow> subscription_action view" where
  "subscriptionRow i p s = Group
     ([Txt (shortId (sb_customer_id s)), Txt (sb_package_name s), statusBadge (sb_status s),
       Txt (formatNairobiDate i (sb_current_period_end s)),
       Txt (if sb_auto_renew s then ''Enabled'' else ''Disabled'')]
      @ (if sb_status s = ''active'' \<or> sb_status s = ''grace''
         then [Btn False [Txt ''Suspend''] (AskSuspend (sb_id s))]
         else if sb_status s = ''suspended''
         then [Btn (sn_reactivating p) [Txt ''Reactivate''] (ReactivateClick (sb_id s))]
         else []))"

text \<open>The dialog; it can also be dismissed by a click beside it at any time.\<close>

definition suspendDialog :: "subscription_page \<Rightarrow> subscription_action view list" where
  "suspendDialog p =
     onlyIf (truthy (sn_suspendDialogId p))
       [Txt ''Suspend Subscription?'',
        Txt ''This will immediately disconnect the user's PPPoE session and set their billing status to suspended. They will need to pay their outstanding balance to reactivate.'',
        Btn False [] DismissSuspend,
        Btn (sn_suspending p) [Txt ''Cancel''] DismissSuspend,
        Btn (sn_suspending p)
          [Txt (if sn_suspending p then ''Suspending...'' else ''Yes, Suspend Connection'')] ConfirmSuspend]"

definition subscriptionTabs :: "string list" where
  "subscriptionTabs = [''All'', ''Active'', ''Grace'', ''Suspended'', ''Cancelled'']"

definition subscriptionsView :: "intl \<Rightarrow> subscription_page \<Rightarrow> subscription_action view" where
  "subscriptionsView i p = Group
     ([Txt ''Recurring Subscriptions'', Txt ''Manage active PPPoE connections and customer renewals.'',
       Txt ''Subscriber Connections'', Txt ''View and manage all recurring subscriptions.'']
      @ tabList SetSubscriptionTab (map (\<lambda>t. (t, t)) subscriptionTabs)
      @ [Inp ''Search package or customer...'' (sn_searchQuery p) SearchSubscriptions]
      @ headers [''Customer ID'', ''Package'', ''Status'', ''Period End'', ''Auto-Renew'', ''Actions'']
      @ tableBody (isLoadingQuery (sn_answers p (sn_statusFilter p)))
          ''No subscriptions found matching the criteria.'' (subscriptionRow i p) (filteredSubscriptions p)
      @ suspendDialog p)"

fun subscription_ok :: "intl \<Rightarrow> subscription_page \<Rightarrow> subscription_action \<Rightarrow> bool" where
  "subscription_ok i p (SubscriptionsAnswer f d) = True"
| "subscription_ok i p SuspendOk = sn_suspending p"
| "subscription_ok i p (SuspendFailed d) = sn_suspending p"
| "subscription_ok i p ReactivateOk = sn_reactivating p"
| "subscription_ok i p (ReactivateFailed d) = sn_reactivating p"
| "subscription_ok i p a = offers (subscriptionsView i p) a"

section \<open>Invoices\<close>

text \<open>\<open>parseQrData\<close>: the url of the receipt and its signature.\<close>

definition parseQrData :: "string option \<Rightarrow> string \<times> string" where
  "parseQrData qrData =
     (if \<not> truthy qrData then ([], [])
      else if CHR ''|'' \<in> set (the qrData)
      then (let parts = splitOn (CHR ''|'') (the qrData) in (parts ! 1, parts ! 0))
      else (the qrData, []))"

datatype invoice_action =
    InvoicesAnswer "invoice list option"
  | SelectInvoice invoice
  | CloseInvoice
  | DownloadClick "string option" int
  | DownloadOk int
  | DownloadFailed

datatype invoice_out = GetPdf path | SaveFile string | DownloadError string

record invoice_page =
  ip_invoices :: "invoice list fetched"
  ip_selected :: "invoice option"

definition handleDownload :: "string option \<Rightarrow> int \<Rightarrow> invoice_out list" where
  "handleDownload pdfUrl invoiceNumber = (if \<not> truthy pdfUrl then [] else [GetPdf (the pdfUrl)])"

definition downloadName :: "int \<Rightarrow> string" where
  "downloadName invoiceNumber = ''invoice_'' @ showInt invoiceNumber @ ''.pdf''"

fun invoice_step :: "invoice_page \<Rightarrow> invoice_action \<Rightarrow> invoice_page \<times> invoice_out list" where
  "invoice_step p (InvoicesAnswer d) = (p\<lparr>ip_invoices := answered d (ip_invoices p)\<rparr>, [])"
| "invoice_step p (SelectInvoice v) = (p\<lparr>ip_selected := Some v\<rparr>, [])"
| "invoice_step p CloseInvoice = (p\<lparr>ip_selected := None\<rparr>, [])"
| "invoice_step p (DownloadClick url n) = (p, handleDownload url n)"
| "invoice_step p (DownloadOk n) = (p, [SaveFile (downloadName n)])"
| "invoice_step p DownloadFailed = (p, [DownloadError ''Failed to download invoice PDF.''])"

definition invoiceRow :: "intl \<Rightarrow> invoice \<Rightarrow> invoice_action view" where
  "invoiceRow i v = Group
     [Txt (showInt (iv_invoice_number v)), Txt (shortId (iv_payment_id v)),
      Txt (formatKES i (iv_amount_kes v)), Txt (formatNairobiDate i (iv_created_at v)),
      Btn False [Txt ''View''] (SelectInvoice v)]"

definition invoiceDialog :: "intl \<Rightarrow> invoice_page \<Rightarrow> invoice_action view list" where
  "invoiceDialog i p =
     (case ip_selected p of
        None \<Rightarrow> []
      | Some v \<Rightarrow>
          (let (qrUrl, kraSign) = parseQrData (iv_kra_etims_qr_code v)
           in [Btn False [] CloseInvoice,
               Txt (''Invoice '' @ (if iv_invoice_number v \<noteq> 0 then ''INV-'' @ showInt (iv_invoice_number v) else [])),
               Txt (''Amount: '' @ formatKES i (iv_amount_kes v)), Txt ''KRA eTIMS Verification'']
              @ (if qrUrl \<noteq> [] then
                   onlyIf (kraSign \<noteq> []) [Txt ''Signature:'', Txt kraSign]
                   @ [Link qrUrl [Txt ''Verify on KRA Portal'']]
                 else [Txt ''KRA eTIMS Sync Pending or Offline.''])
              @ [Btn (\<not> truthy (iv_pdf_url v)) [Txt ''Download PDF Receipt'']
                   (DownloadClick (iv_pdf_url v) (iv_invoice_number v))]))"

definition adminInvoicesView :: "intl \<Rightarrow> invoice_page \<Rightarrow> invoice_action view" where
  "adminInvoicesView i p = Group
     ([Txt ''Billing & Invoices'', Txt ''View customer invoices and KRA eTIMS receipts.'',
       Txt ''Generated Invoices'', Txt ''History of all invoices generated by successful payments.'']
      @ headers [''Invoice #'', ''Payment ID'', ''Amount'', ''Date'', ''Actions'']
      @ tableBody (isLoadingQuery (ip_invoices p)) ''No invoices found.'' (invoiceRow i)
          (nullish (dataOf (ip_invoices p)) [])
      @ invoiceDialog i p)"

text \<open>The customer's page has a card per invoice and its own copy of the two helpers.\<close>

definition customerParseQrData :: "string option \<Rightarrow> string \<times> string" where
  "customerParseQrData qrData =
     (if \<not> truthy qrData then ([], [])
      else if CHR ''|'' \<in> set (the qrData)
      then (let parts = splitOn (CHR ''|'') (the qrData) in (parts ! 1, parts ! 0))
      else (the qrData, []))"

definition customerDownload :: "string option \<Rightarrow> int \<Rightarrow> invoice_out list" where
  "customerDownload pdfUrl invoiceNumber = (if \<not> truthy pdfUrl then [] else [GetPdf (the pdfUrl)])"

definition invoiceCard :: "intl \<Rightarrow> invoice \<Rightarrow> invoice_action view" where
  "invoiceCard i v =
     (let (qrUrl, kraSign) = customerParseQrData (iv_kra_etims_qr_code v)
      in Group
        ([Txt (''INV-'' @ showInt (iv_invoice_number v)), Txt (formatNairobiDate i (iv_created_at v)),
          Txt ''Amount Paid'', Txt (formatKES i (iv_amount_kes v))]
         @ onlyIf (qrUrl \<noteq> [])
             ([Txt ''eTIMS Compliant''] @ onlyIf (kraSign \<noteq> []) [Txt (''Sign: '' @ kraSign)]
              @ [Link qrUrl [Txt ''Verify Receipt'']])
         @ [Btn (\<not> truthy (iv_pdf_url v)) [Txt ''Download Receipt'']
              (DownloadClick (iv_pdf_url v) (iv_invoice_number v))]))"

definition customerInvoicesView :: "intl \<Rightarrow> invoice_page \<Rightarrow> invoice_action view" where
  "customerInvoicesView i p = Group
     ([Txt ''Billing History'', Txt ''Download your KRA eTIMS compliant receipts.'']
      @ (if isLoadingQuery (ip_invoices p) then []
         else if nullish (dataOf (ip_invoices p)) [] = [] then
           [Txt ''No Invoices Found'',
            Txt ''You haven't made any payments yet. Invoices will appear here once you purchase a package.'']
         else map (invoiceCard i) (nullish (dataOf (ip_invoices p)) [])))"

section \<open>Audit log\<close>

text \<open>\<open>JSON.stringify(v, null, 2)\<close>: one member per line, indented by two spaces per level.\<close>

definition indented :: "nat \<Rightarrow> string" where
  "indented n = CHR 0x0A # replicate (2 * n) (CHR '' '')"

definition block :: "char \<Rightarrow> char \<Rightarrow> nat \<Rightarrow> string list \<Rightarrow> string" where
  "block l r n xs =
     (if xs = [] then [l, r]
      else l # commaSep (map (\<lambda>x. indented (Suc n) @ x) xs) @ indented n @ [r])"

primrec prettyJson :: "json \<Rightarrow> nat \<Rightarrow> string" where
  "prettyJson JNull = (\<lambda>n. ''null'')"
| "prettyJson (JBool b) = (\<lambda>n. if b then ''true'' else ''false'')"
| "prettyJson (JNum r) = (\<lambda>n. showNum r)"
| "prettyJson (JStr s) = (\<lambda>n. jquote s)"
| "prettyJson (JArr vs) =
     (\<lambda>n. block (CHR ''['') (CHR '']'') n (map (\<lambda>f. f (Suc n)) (map prettyJson vs)))"
| "prettyJson (JObj kvs) =
     (\<lambda>n. block (CHR ''{'') (CHR ''}'') n
            (map (\<lambda>kv. jquote (fst kv) @ '': '' @ snd kv (Suc n)) (map (map_prod id prettyJson) kvs)))"

record audit_entry =
  ae_id :: string
  ae_actor_user_id :: "string option"
  ae_actor_email :: "string option"
  ae_actor :: "(string \<times> string) option"
  ae_action :: string
  ae_target_type :: string
  ae_target_id :: "string option"
  ae_metadata :: json
  ae_created_at :: string

record audit_answer =
  aa_items :: "audit_entry list"
  aa_total :: nat

record audit_page =
  al_actionFilter :: string
  al_page :: nat
  al_expandedRow :: "string option"
  al_answers :: "string \<times> nat \<Rightarrow> audit_answer fetched"

datatype audit_action =
    AuditAnswer string nat "audit_answer option"
  | SelectAction string
  | PrevAudit
  | NextAudit
  | ToggleRow string

definition auditLimit :: nat where
  "auditLimit = 20"

definition auditStart :: audit_page where
  "auditStart =
     \<lparr>al_actionFilter = ''All'', al_page = 0, al_expandedRow = None, al_answers = (\<lambda>_. FLoading)\<rparr>"

definition auditData :: "audit_page \<Rightarrow> audit_answer fetched" where
  "auditData p = al_answers p (al_actionFilter p, al_page p)"

definition auditQuery :: "audit_page \<Rightarrow> hook" where
  "auditQuery p =
     HAuditLog (Some (al_actionFilter p)) (int auditLimit) (int (al_page p * auditLimit))"

definition totalItems :: "audit_page \<Rightarrow> nat" where
  "totalItems p = (case dataOf (auditData p) of None \<Rightarrow> 0 | Some a \<Rightarrow> aa_total a)"

definition hasMore :: "audit_page \<Rightarrow> bool" where
  "hasMore p \<longleftrightarrow> al_page p * auditLimit + auditLimit < totalItems p"

definition KNOWN_ACTIONS :: "string list" where
  "KNOWN_ACTIONS =
     [''All'', ''tenant.registered'', ''tenant.suspended'', ''package.created'', ''router.created'',
      ''payment.received'', ''voucher.generated'', ''subscription.suspended'',
      ''subscription.reactivated'', ''customer.deleted'']"

fun audit_step :: "audit_page \<Rightarrow> audit_action \<Rightarrow> audit_page \<times> page_out list" where
  "audit_step p (AuditAnswer f n d) =
     (p\<lparr>al_answers := (al_answers p)((f, n) := answered d (al_answers p (f, n)))\<rparr>, [])"
| "audit_step p (SelectAction v) =
     (if v = [] then (p, [])
      else (let p1 = p\<lparr>al_actionFilter := v, al_page := 0\<rparr> in (p1, [Refetch (auditQuery p1)])))"
| "audit_step p PrevAudit =
     (let p1 = p\<lparr>al_page := max 0 (al_page p - 1)\<rparr> in (p1, [Refetch (auditQuery p1)]))"
| "audit_step p NextAudit =
     (let p1 = p\<lparr>al_page := al_page p + 1\<rparr> in (p1, [Refetch (auditQuery p1)]))"
| "audit_step p (ToggleRow r) =
     (p\<lparr>al_expandedRow := (if al_expandedRow p = Some r then None else Some r)\<rparr>, [])"

definition auditRow :: "intl \<Rightarrow> audit_page \<Rightarrow> audit_entry \<Rightarrow> audit_action view" where
  "auditRow i p e = Group
     ([Btn False
         [Txt (orElse (map_option snd (ae_actor e)) (orElse (ae_actor_email e) ''System'')),
          Txt (if truthy (ae_actor_user_id e) then shortId (the (ae_actor_user_id e)) else ''System''),
          Txt (ae_action e), Txt (ae_target_type e),
          Txt (if truthy (ae_target_id e) then shortId (the (ae_target_id e)) else ''N/A''),
          Txt (formatNairobiDate i (ae_created_at e))] (ToggleRow (ae_id e))]
      @ onlyIf (al_expandedRow p = Some (ae_id e))
          [Txt ''Metadata Payload'', Txt (prettyJson (ae_metadata e) 0)])"

definition auditItems :: "audit_page \<Rightarrow> audit_entry list" where
  "auditItems p = (case dataOf (auditData p) of None \<Rightarrow> [] | Some a \<Rightarrow> aa_items a)"

definition auditView :: "intl \<Rightarrow> audit_page \<Rightarrow> audit_action view" where
  "auditView i p = Group
     ([Txt ''System Audit Log'', Txt ''Immutable record of all critical system actions.'',
       Txt ''Event History'', Txt ''Track who did what, and when.'']
      @ tabList SelectAction (map (\<lambda>a. (a, if a = ''All'' then ''All Actions'' else a)) KNOWN_ACTIONS)
      @ [Txt (showNat (length (auditItems p)) @ '' items showing''),
         Btn (al_page p = 0 \<or> isLoadingQuery (auditData p)) [] PrevAudit,
         Btn (\<not> hasMore p \<or> isLoadingQuery (auditData p)) [] NextAudit]
      @ headers [''Actor'', ''Action'', ''Target'', ''Date'']
      @ tableBody (isLoadingQuery (auditData p)) ''No audit logs found.'' (auditRow i p) (auditItems p))"

fun audit_ok :: "intl \<Rightarrow> audit_page \<Rightarrow> audit_action \<Rightarrow> bool" where
  "audit_ok i p (AuditAnswer f n d) = True"
| "audit_ok i p a = offers (auditView i p) a"

section \<open>System health\<close>

record router_health =
  rh_id :: string
  rh_name :: string
  rh_status :: string
  rh_last_heartbeat_at :: "string option"

record system_health =
  sh_routers :: "router_health list"
  sh_queue_depth :: int
  sh_reconciliation_backlog :: int
  sh_webhook_success_rate_24h :: int

record stuck_payment =
  st_id :: string
  st_customer_id :: string
  st_status :: string
  st_mpesa_receipt_number :: "string option"
  st_amount_kes :: int
  st_created_at :: string

record health_page =
  hp_health :: "system_health fetched"
  hp_stuck :: "stuck_payment list fetched"
  hp_retrying :: bool

datatype health_action =
    HealthAnswer "system_health option"
  | StuckAnswer "stuck_payment list option"
  | RefreshClick
  | RetryProvision string
  | RetryProvisionOk
  | RetryProvisionFailed "string option"

fun health_step :: "health_page \<Rightarrow> health_action \<Rightarrow> health_page \<times> page_out list" where
  "health_step p (HealthAnswer d) = (p\<lparr>hp_health := answered d (hp_health p)\<rparr>, [])"
| "health_step p (StuckAnswer d) = (p\<lparr>hp_stuck := answered d (hp_stuck p)\<rparr>, [])"
| "health_step p RefreshClick =
     (p, [Refetch HSystemHealth, ToastSuccess ''System health data refreshed''])"
| "health_step p (RetryProvision i) = (p\<lparr>hp_retrying := True\<rparr>, [Mutate (MRetryProvisioning i)])"
| "health_step p RetryProvisionOk =
     (p\<lparr>hp_retrying := False\<rparr>, [ToastSuccess ''Provisioning retry initiated successfully.''])"
| "health_step p (RetryProvisionFailed detail) =
     (p\<lparr>hp_retrying := False\<rparr>, [ToastError (orElse detail ''Failed to retry provisioning.'')])"

definition routerStatusBadge :: "string \<Rightarrow> 'a view" where
  "routerStatusBadge status = Txt status"

definition healthCards :: "health_page \<Rightarrow> health_action view list" where
  "healthCards p =
     (case dataOf (hp_health p) of
        None \<Rightarrow> []
      | Some h \<Rightarrow>
          [Txt ''Job Queue Depth'', Txt (showInt (sh_queue_depth h)), Txt ''Background tasks pending'',
           Txt ''Reconciliation Backlog'', Txt (showInt (sh_reconciliation_backlog h)),
           Txt ''Pending C2B verifications'', Txt ''Webhook Success Rate (24h)'',
           Txt (showInt (sh_webhook_success_rate_24h h) @ ''%''), Txt ''Successful Safaricom callbacks''])"

definition routerGrid :: "intl \<Rightarrow> health_page \<Rightarrow> health_action view list" where
  "routerGrid i p =
     [Txt ''Router Status Grid'', Txt ''Live heartbeat monitoring for all registered MikroTik devices.'']
     @ (if isLoadingQuery (hp_health p) then []
        else (let rs = (case dataOf (hp_health p) of None \<Rightarrow> [] | Some h \<Rightarrow> sh_routers h)
              in if rs = [] then [Txt ''No routers configured. Add one in the Routers tab.'']
                 else map (\<lambda>r. Group
                        [Txt (rh_name r),
                         Txt (if truthy (rh_last_heartbeat_at r)
                              then ''Last seen '' @ distanceToNow i (the (rh_last_heartbeat_at r)) @ '' ago''
                              else ''Never seen''),
                         routerStatusBadge (rh_status r)]) rs))"

definition stuckRow :: "intl \<Rightarrow> health_page \<Rightarrow> stuck_payment \<Rightarrow> health_action view" where
  "stuckRow i p s = Group
     [Txt (orElse (st_mpesa_receipt_number s) (shortId (st_id s))), Txt (formatKES i (st_amount_kes s)),
      Txt (distanceToNow i (st_created_at s)),
      Btn (hp_retrying p) [Txt ''Retry''] (RetryProvision (st_id s))]"

definition healthView :: "intl \<Rightarrow> health_page \<Rightarrow> health_action view" where
  "healthView i p = Group
     ([Txt ''System Health & Ops'', Txt ''Monitor platform performance, queues, and router connectivity.'',
       Btn (isLoadingQuery (hp_health p)) [Txt ''Refresh''] RefreshClick]
      @ healthCards p @ routerGrid i p
      @ [Txt ''Stuck Payments'', Txt ''Payments that succeeded but failed to provision a voucher.'']
      @ headers [''Payment'', ''Amount'', ''Age'', ''Action'']
      @ tableBody (isLoadingQuery (hp_stuck p)) ''No stuck payments. System is healthy.'' (stuckRow i p)
          (nullish (dataOf (hp_stuck p)) []))"

fun health_ok :: "intl \<Rightarrow> health_page \<Rightarrow> health_action \<Rightarrow> bool" where
  "health_ok i p (HealthAnswer d) = True"
| "health_ok i p (StuckAnswer d) = True"
| "health_ok i p RetryProvisionOk = hp_retrying p"
| "health_ok i p (RetryProvisionFailed d) = hp_retrying p"
| "health_ok i p a = offers (healthView i p) a"

section \<open>Lemmas\<close>

lemmas list_page_offers = page_offers isLoadingQuery_def

text \<open>Subscriptions: what the page offers.\<close>

lemma offers_subscriptionRow:
  "offers (subscriptionRow i p s) a \<longleftrightarrow>
     (a = AskSuspend (sb_id s) \<and> (sb_status s = ''active'' \<or> sb_status s = ''grace''))
     \<or> (a = ReactivateClick (sb_id s) \<and> sb_status s = ''suspended'' \<and> \<not> sn_reactivating p)"
  by (auto simp: subscriptionRow_def page_offers)

lemma offers_suspendDialog:
  "list_ex (\<lambda>v. offers v a) (suspendDialog p) \<longleftrightarrow>
     truthy (sn_suspendDialogId p) \<and> (a = DismissSuspend \<or> a = ConfirmSuspend \<and> \<not> sn_suspending p)"
  by (auto simp: suspendDialog_def page_offers)

lemma offers_subscriptions:
  "offers (subscriptionsView i p) a \<longleftrightarrow>
     (\<exists>t \<in> set subscriptionTabs. a = SetSubscriptionTab t) \<or> (\<exists>q. a = SearchSubscriptions q)
     \<or> (sn_answers p (sn_statusFilter p) \<noteq> FLoading
         \<and> (\<exists>s \<in> set (filteredSubscriptions p). offers (subscriptionRow i p s) a))
     \<or> (truthy (sn_suspendDialogId p) \<and> (a = DismissSuspend \<or> a = ConfirmSuspend \<and> \<not> sn_suspending p))"
  unfolding subscriptionsView_def
  by (auto simp: list_page_offers offers_suspendDialog)

lemma filteredSubscriptions_listed:
  "s \<in> set (filteredSubscriptions p) \<Longrightarrow>
   \<exists>ss. sn_answers p (sn_statusFilter p) = FLoaded ss \<and> s \<in> set ss"
  by (cases "sn_answers p (sn_statusFilter p)") (auto simp: filteredSubscriptions_def)

fun suspend_answer :: "subscription_action \<Rightarrow> bool" where
  "suspend_answer SuspendOk = True"
| "suspend_answer (SuspendFailed d) = True"
| "suspend_answer _ = False"

fun is_suspend :: "page_out \<Rightarrow> bool" where
  "is_suspend (Mutate (MSuspendSubscription v)) = True"
| "is_suspend _ = False"

fun reactivate_answer :: "subscription_action \<Rightarrow> bool" where
  "reactivate_answer ReactivateOk = True"
| "reactivate_answer (ReactivateFailed d) = True"
| "reactivate_answer _ = False"

fun is_reactivate :: "page_out \<Rightarrow> bool" where
  "is_reactivate (Mutate (MReactivateSubscription v)) = True"
| "is_reactivate _ = False"

interpretation suspensions: request_flight subscription_step "subscription_ok i" sn_suspending
    suspend_answer is_suspend for i
proof
  fix p :: subscription_page and a
  show "subscription_ok i p a \<Longrightarrow> suspend_answer a \<Longrightarrow> sn_suspending p
      \<and> \<not> sn_suspending (fst (subscription_step p a)) \<and> filter is_suspend (snd (subscription_step p a)) = []"
    by (cases a) auto
  show "subscription_ok i p a \<Longrightarrow> \<not> suspend_answer a \<Longrightarrow>
      (filter is_suspend (snd (subscription_step p a)) = []
        \<and> sn_suspending (fst (subscription_step p a)) = sn_suspending p)
      \<or> (length (filter is_suspend (snd (subscription_step p a))) = 1 \<and> \<not> sn_suspending p
          \<and> sn_suspending (fst (subscription_step p a)))"
    by (cases a) (auto simp: offers_subscriptions offers_subscriptionRow handleSuspend_def Let_def)
qed

interpretation reactivations: request_flight subscription_step "subscription_ok i" sn_reactivating
    reactivate_answer is_reactivate for i
proof
  fix p :: subscription_page and a
  show "subscription_ok i p a \<Longrightarrow> reactivate_answer a \<Longrightarrow> sn_reactivating p
      \<and> \<not> sn_reactivating (fst (subscription_step p a))
      \<and> filter is_reactivate (snd (subscription_step p a)) = []"
    by (cases a) auto
  show "subscription_ok i p a \<Longrightarrow> \<not> reactivate_answer a \<Longrightarrow>
      (filter is_reactivate (snd (subscription_step p a)) = []
        \<and> sn_reactivating (fst (subscription_step p a)) = sn_reactivating p)
      \<or> (length (filter is_reactivate (snd (subscription_step p a))) = 1 \<and> \<not> sn_reactivating p
          \<and> sn_reactivating (fst (subscription_step p a)))"
    by (cases a) (auto simp: offers_subscriptions offers_subscriptionRow handleSuspend_def Let_def)
qed

text \<open>What the answers of a run listed, and what a run may therefore change.\<close>

definition listedSubscriptions :: "subscription_action list \<Rightarrow> subscription set" where
  "listedSubscriptions as = {s. \<exists>f ss. SubscriptionsAnswer f (Some ss) \<in> set as \<and> s \<in> set ss}"

definition suspendable :: "subscription set \<Rightarrow> string \<Rightarrow> bool" where
  "suspendable K x \<longleftrightarrow> (\<exists>s \<in> K. sb_id s = x \<and> (sb_status s = ''active'' \<or> sb_status s = ''grace''))"

definition reactivatable :: "subscription set \<Rightarrow> string \<Rightarrow> bool" where
  "reactivatable K x \<longleftrightarrow> (\<exists>s \<in> K. sb_id s = x \<and> sb_status s = ''suspended'')"

definition subscriptions_known :: "subscription set \<Rightarrow> subscription_page \<Rightarrow> bool" where
  "subscriptions_known K p \<longleftrightarrow> (\<forall>f ss. sn_answers p f = FLoaded ss \<longrightarrow> set ss \<subseteq> K)
     \<and> (\<forall>x. sn_suspendDialogId p = Some x \<longrightarrow> suspendable K x)"

fun suspension_known :: "subscription set \<Rightarrow> page_out \<Rightarrow> bool" where
  "suspension_known K (Mutate (MSuspendSubscription x)) = suspendable K x"
| "suspension_known K (Mutate (MReactivateSubscription x)) = reactivatable K x"
| "suspension_known K _ = True"

lemma answered_FLoaded:
  "answered d q = FLoaded x \<longleftrightarrow> d = Some x \<or> (d = None \<and> q = FLoaded x)"
  by (cases d; cases q) auto

lemma subscriptions_known_step:
  assumes known: "subscriptions_known (listedSubscriptions as) p" and "subscription_ok i p a" and "a \<in> set as"
  shows "subscriptions_known (listedSubscriptions as) (fst (subscription_step p a))
    \<and> (\<forall>r \<in> set (snd (subscription_step p a)). suspension_known (listedSubscriptions as) r)"
proof -
  have row: "s \<in> listedSubscriptions as" if "s \<in> set (filteredSubscriptions p)" for s
    using that known filteredSubscriptions_listed by (fastforce simp: subscriptions_known_def)
  show ?thesis
  proof (cases a)
    case (SubscriptionsAnswer f d)
    with assms(3) have "set ss \<subseteq> listedSubscriptions as" if "d = Some ss" for ss
      using that by (auto simp: listedSubscriptions_def)
    with known SubscriptionsAnswer show ?thesis by (auto simp: subscriptions_known_def answered_FLoaded)
  next
    case (AskSuspend x)
    then have "suspendable (listedSubscriptions as) x"
      using assms(2) row by (auto simp: offers_subscriptions offers_subscriptionRow suspendable_def)
    with AskSuspend known show ?thesis by (simp add: subscriptions_known_def)
  next
    case (ReactivateClick x)
    then have "reactivatable (listedSubscriptions as) x"
      using assms(2) row by (auto simp: offers_subscriptions offers_subscriptionRow reactivatable_def)
    with ReactivateClick known show ?thesis by (simp add: subscriptions_known_def)
  next
    case ConfirmSuspend
    then show ?thesis
      using known by (cases "sn_suspendDialogId p") (auto simp: handleSuspend_def subscriptions_known_def)
  qed (use known in \<open>auto simp: subscriptions_known_def Let_def\<close>)
qed

lemma subscriptionStart_known: "subscriptions_known K subscriptionStart"
  by (simp add: subscriptions_known_def subscriptionStart_def)

text \<open>The audit log: what the page offers, and the pages of a service that returns the requested
  part of its log together with the length of the log.\<close>

lemma offers_audit:
  "offers (auditView i p) a \<longleftrightarrow>
     (\<exists>f \<in> set KNOWN_ACTIONS. a = SelectAction f)
     \<or> (a = PrevAudit \<and> al_page p \<noteq> 0 \<and> auditData p \<noteq> FLoading)
     \<or> (a = NextAudit \<and> hasMore p \<and> auditData p \<noteq> FLoading)
     \<or> (\<exists>e \<in> set (auditItems p). a = ToggleRow (ae_id e))"
proof -
  have row: "offers (auditRow i p e) a \<longleftrightarrow> a = ToggleRow (ae_id e)" for e
    by (auto simp: auditRow_def page_offers typable_simps)
  have "e \<in> set (auditItems p) \<Longrightarrow> auditData p \<noteq> FLoading" for e
    by (auto simp: auditItems_def)
  then show ?thesis
    unfolding auditView_def by (auto simp: list_page_offers row)
qed

definition auditAnswerOf :: "(string \<Rightarrow> audit_entry list) \<Rightarrow> string \<Rightarrow> nat \<Rightarrow> audit_answer" where
  "auditAnswerOf lg f n = \<lparr>aa_items = take auditLimit (drop (n * auditLimit) (lg f)), aa_total = length (lg f)\<rparr>"

interpretation audit_pages: pager auditLimit "\<lambda>n xs. take auditLimit (drop ((n - 1) * auditLimit) xs)"
    "\<lambda>xs. totalPages auditLimit (length xs)"
  by unfold_locales (simp_all add: auditLimit_def totalPages_def)

definition page_exists :: "(string \<Rightarrow> audit_entry list) \<Rightarrow> string \<Rightarrow> nat \<Rightarrow> bool" where
  "page_exists lg f n \<longleftrightarrow> n = 0 \<or> n * auditLimit < length (lg f)"

definition audit_in_range :: "(string \<Rightarrow> audit_entry list) \<Rightarrow> audit_page \<Rightarrow> bool" where
  "audit_in_range lg p \<longleftrightarrow> page_exists lg (al_actionFilter p) (al_page p)
     \<and> (\<forall>f n d. al_answers p (f, n) = FLoaded d \<longrightarrow> d = auditAnswerOf lg f n)"

fun request_in_range :: "(string \<Rightarrow> audit_entry list) \<Rightarrow> page_out \<Rightarrow> bool" where
  "request_in_range lg (Refetch (HAuditLog (Some f) limit offset)) =
     (limit = int auditLimit \<and> (\<exists>n. offset = int (n * auditLimit) \<and> page_exists lg f n))"
| "request_in_range lg _ = True"

lemma page_exists_prev: "page_exists lg f n \<Longrightarrow> page_exists lg f (n - 1)"
  by (cases n) (auto simp: page_exists_def)

lemma served_data:
  "audit_in_range lg p \<Longrightarrow> auditData p = FLoaded d \<Longrightarrow> d = auditAnswerOf lg (al_actionFilter p) (al_page p)"
  by (simp add: audit_in_range_def auditData_def)

lemma audit_in_range_step:
  assumes range: "audit_in_range lg p" and ok: "audit_ok i p a"
    and served: "\<And>f n d. a = AuditAnswer f n (Some d) \<Longrightarrow> d = auditAnswerOf lg f n"
  shows "audit_in_range lg (fst (audit_step p a)) \<and> (\<forall>r \<in> set (snd (audit_step p a)). request_in_range lg r)"
proof (cases a)
  case (AuditAnswer f n d)
  with range served show ?thesis by (auto simp: audit_in_range_def answered_FLoaded)
next
  case PrevAudit
  then show ?thesis
    using range page_exists_prev [of lg "al_actionFilter p" "al_page p"]
    by (auto simp: audit_in_range_def auditQuery_def Let_def)
next
  case NextAudit
  with ok obtain d where "auditData p = FLoaded d" "al_page p * auditLimit + auditLimit < aa_total d"
    by (cases "auditData p") (auto simp: offers_audit hasMore_def totalItems_def)
  then have "page_exists lg (al_actionFilter p) (Suc (al_page p))"
    using served_data [OF range] by (simp add: auditAnswerOf_def page_exists_def add.commute)
  with NextAudit range show ?thesis
    by (auto simp: audit_in_range_def auditQuery_def Let_def intro!: exI [of _ "Suc (al_page p)"])
qed (use range in \<open>auto simp: audit_in_range_def auditQuery_def Let_def page_exists_def auditLimit_def\<close>)

lemma auditItems_served:
  assumes "audit_in_range lg p" and "auditData p = FLoaded d" and "lg (al_actionFilter p) \<noteq> []"
  shows "auditItems p = take auditLimit (drop (al_page p * auditLimit) (lg (al_actionFilter p)))"
    and "auditItems p \<noteq> []"
proof -
  show "auditItems p = take auditLimit (drop (al_page p * auditLimit) (lg (al_actionFilter p)))"
    using assms(2) served_data [OF assms(1,2)] by (simp add: auditItems_def auditAnswerOf_def)
  then show "auditItems p \<noteq> []"
    using assms by (auto simp: audit_in_range_def page_exists_def auditLimit_def)
qed

text \<open>Waiting for each answer and clicking on reaches every page of the log.\<close>

definition browse :: "(string \<Rightarrow> audit_entry list) \<Rightarrow> nat \<Rightarrow> audit_action list" where
  "browse lg n = concat (map (\<lambda>k. [AuditAnswer ''All'' k (Some (auditAnswerOf lg ''All'' k)), NextAudit]) [0..<n])"

lemma browse_reaches:
  assumes "n * auditLimit < length (lg ''All'')"
  shows "\<exists>p rs. guarded_run (audit_ok i) audit_step auditStart (browse lg n) = Some (p, rs)
     \<and> al_page p = n \<and> al_actionFilter p = ''All''"
  using assms
proof (induction n)
  case 0
  then show ?case by (simp add: browse_def auditStart_def)
next
  case (Suc n)
  then obtain p rs where run: "guarded_run (audit_ok i) audit_step auditStart (browse lg n) = Some (p, rs)"
    and at: "al_page p = n" "al_actionFilter p = ''All''"
    by (auto simp: auditLimit_def)
  have "browse lg (Suc n) = browse lg n @ [AuditAnswer ''All'' n (Some (auditAnswerOf lg ''All'' n)), NextAudit]"
    by (simp add: browse_def)
  then show ?case
    using Suc.prems at
    by (simp add: guarded_run_append [OF run] guarded_run.simps offers_audit hasMore_def totalItems_def
        auditData_def auditAnswerOf_def Let_def)
qed

lemma offers_invoiceCard: "offers (invoiceCard i v) a \<longleftrightarrow> truthy (iv_pdf_url v)
    \<and> a = DownloadClick (iv_pdf_url v) (iv_invoice_number v)"
  by (cases "customerParseQrData (iv_kra_etims_qr_code v)")
    (auto simp: invoiceCard_def view_lists list_ex_append offers_simps(5))

section \<open>Properties\<close>

text \<open>C30: subscriptions are suspended and reactivated with care: whatever the admin clicks and in
  whatever order the answers arrive, at most one suspension and one reactivation is outstanding, a
  suspension is sent only for a subscription the service listed as active or in grace, and a
  reactivation only for one it listed as suspended.\<close>

theorem subscription_changes_safe:
  assumes run: "guarded_run (subscription_ok i) subscription_step subscriptionStart as = Some (p, rs)"
  shows "length (filter is_suspend rs) = length (filter suspend_answer as) + of_bool (sn_suspending p)
    \<and> length (filter is_reactivate rs) = length (filter reactivate_answer as) + of_bool (sn_reactivating p)
    \<and> (Mutate (MSuspendSubscription x) \<in> set rs \<longrightarrow>
        (\<exists>s \<in> listedSubscriptions as. sb_id s = x \<and> sb_status s \<in> {''active'', ''grace''}))
    \<and> (Mutate (MReactivateSubscription x) \<in> set rs \<longrightarrow>
        (\<exists>s \<in> listedSubscriptions as. sb_id s = x \<and> sb_status s = ''suspended''))"
proof -
  have "\<forall>r \<in> set rs. suspension_known (listedSubscriptions as) r"
    by (rule guarded_run_trace(2) [OF run subscriptionStart_known subscriptions_known_step])
  then show ?thesis
    using suspensions.request_flights [OF run] reactivations.request_flights [OF run]
    by (auto simp: subscriptionStart_def suspendable_def reactivatable_def)
qed

definition sampleSubscription :: "string \<Rightarrow> string \<Rightarrow> subscription" where
  "sampleSubscription x st = \<lparr>sb_id = x, sb_customer_id = ''c'', sb_package_id = ''k'',
     sb_package_name = ''Home'', sb_status = st, sb_current_period_end = ''e'', sb_auto_renew = True,
     sb_created_at = ''d''\<rparr>"

theorem subscription_changes_safe_witness:
  "let as = [SubscriptionsAnswer ''All'' (Some [sampleSubscription ''s1'' ''grace'', sampleSubscription ''s2'' ''suspended'']),
             AskSuspend ''s1'', ConfirmSuspend, ReactivateClick ''s2'', SuspendOk];
       r = the (guarded_run (subscription_ok sampleIntl) subscription_step subscriptionStart as)
   in Mutate (MSuspendSubscription ''s1'') \<in> set (snd r) \<and> Mutate (MReactivateSubscription ''s2'') \<in> set (snd r)
      \<and> sn_suspendDialogId (fst r) = None \<and> sn_reactivating (fst r)
      \<and> length (filter is_suspend (snd r)) = 1 \<and> length (filter is_reactivate (snd r)) = 1
      \<and> (\<exists>s \<in> listedSubscriptions as. sb_id s = ''s1'' \<and> sb_status s \<in> {''active'', ''grace''})"
proof -
  let ?as = "[SubscriptionsAnswer ''All'' (Some [sampleSubscription ''s1'' ''grace'', sampleSubscription ''s2'' ''suspended'']),
             AskSuspend ''s1'', ConfirmSuspend, ReactivateClick ''s2'', SuspendOk]"
  let ?r = "guarded_run (subscription_ok sampleIntl) subscription_step subscriptionStart ?as"
  note step_defs = guarded_run.simps handleSuspend_def offers_subscriptions offers_subscriptionRow
    filteredSubscriptions_def subscriptionStart_def sampleSubscription_def
  have "?r \<noteq> None \<and> Mutate (MSuspendSubscription ''s1'') \<in> set (snd (the ?r))
      \<and> Mutate (MReactivateSubscription ''s2'') \<in> set (snd (the ?r))
      \<and> sn_suspendDialogId (fst (the ?r)) = None \<and> sn_reactivating (fst (the ?r)) \<and> \<not> sn_suspending (fst (the ?r))"
    by (simp add: step_defs)
  moreover from this have run: "?r = Some (fst (the ?r), snd (the ?r))" by auto
  ultimately show ?thesis
    using subscription_changes_safe [OF run, of "''s1''"] by (auto simp: Let_def)
qed

text \<open>Paging through the audit log, for a service that answers each request with the requested part
  of the log and its length: whatever the admin clicks, only pages that exist are requested and the
  first page otherwise, the page shows its part of the log and never an empty table unless there is
  nothing to show, the parts together are the log, and clicking on reaches each of them.\<close>

lemma audit_log_paging:
  assumes run: "guarded_run (audit_ok i) audit_step auditStart as = Some (p, rs)"
    and served: "\<And>f n d. AuditAnswer f n (Some d) \<in> set as \<Longrightarrow> d = auditAnswerOf lg f n"
  shows "(\<forall>r \<in> set rs. request_in_range lg r) \<and> page_exists lg (al_actionFilter p) (al_page p)
    \<and> (auditData p = FLoaded d \<and> lg (al_actionFilter p) \<noteq> [] \<longrightarrow>
         auditItems p \<noteq> []
         \<and> auditItems p = take auditLimit (drop (al_page p * auditLimit) (lg (al_actionFilter p))))
    \<and> concat (map (\<lambda>n. aa_items (auditAnswerOf lg f (n - 1))) [1..<Suc (totalPages auditLimit (length (lg f)))])
        = lg f
    \<and> (n * auditLimit < length (lg ''All'') \<longrightarrow>
        (\<exists>q rs'. guarded_run (audit_ok i) audit_step auditStart (browse lg n) = Some (q, rs')
           \<and> al_page q = n \<and> al_actionFilter q = ''All''))"
proof -
  have start: "audit_in_range lg auditStart"
    by (simp add: audit_in_range_def auditStart_def page_exists_def)
  have step: "audit_in_range lg (fst (audit_step q a)) \<and> (\<forall>r \<in> set (snd (audit_step q a)). request_in_range lg r)"
    if "audit_in_range lg q" "audit_ok i q a" "a \<in> set as" for q a
    using audit_in_range_step [OF that(1,2)] served that(3) by blast
  note range = guarded_run_trace [OF run start step]
  have "concat (map (\<lambda>n. aa_items (auditAnswerOf lg f (n - 1))) [1..<Suc (totalPages auditLimit (length (lg f)))]) = lg f"
    using audit_pages.pages_are_everything [of "lg f"] by (simp add: auditAnswerOf_def del: upt_Suc)
  then show ?thesis
    using range auditItems_served [OF range(1)] browse_reaches [of n lg i]
    by (auto simp: audit_in_range_def)
qed

definition sampleEntry :: "nat \<Rightarrow> audit_entry" where
  "sampleEntry n = \<lparr>ae_id = showNat n, ae_actor_user_id = None, ae_actor_email = None, ae_actor = None,
     ae_action = ''package.created'', ae_target_type = ''package'', ae_target_id = None,
     ae_metadata = JObj [], ae_created_at = ''d''\<rparr>"

text \<open>Reading a receipt: the signature and the address that the service joins with a bar are
  recovered, an invoice that is not signed yet shows none, both portals read it alike, and a receipt
  is requested only where there is one.\<close>

lemma receipt_roundtrip:
  assumes "CHR ''|'' \<notin> set sign" and "CHR ''|'' \<notin> set url"
  shows "parseQrData (Some (sign @ CHR ''|'' # url)) = (url, sign) \<and> parseQrData None = ([], [])
    \<and> customerParseQrData qr = parseQrData qr \<and> customerDownload pdf n = handleDownload pdf n
    \<and> (offers (adminInvoicesView i p) (DownloadClick pdf n) \<longrightarrow> truthy pdf
         \<and> snd (invoice_step p (DownloadClick pdf n)) = [GetPdf (the pdf)])
    \<and> (offers (customerInvoicesView i p) (DownloadClick pdf n) \<longrightarrow> truthy pdf)"
proof -
  have "parseQrData (Some (sign @ CHR ''|'' # url)) = (url, sign)"
    using assms by (simp add: parseQrData_def splitOn_append Let_def)
  moreover have "truthy pdf" if "offers (adminInvoicesView i p) (DownloadClick pdf n)"
    using that by (auto simp: adminInvoicesView_def invoiceDialog_def invoiceRow_def page_offers offers_simps Let_def
        split: option.splits prod.splits if_splits)
  moreover have "truthy pdf" if "offers (customerInvoicesView i p) (DownloadClick pdf n)"
    using that by (auto simp: customerInvoicesView_def offers_simps offers_invoiceCard split: if_splits)
  ultimately show ?thesis
    by (simp add: parseQrData_def customerParseQrData_def handleDownload_def customerDownload_def)
qed

end
