(* ===== verification/Customer_Pages.thy ===== *)
theory Customer_Pages
  imports Billing_Pages Reseller
begin

text \<open>
  The customer's own pages: buying a package (\<open>pages/customer/BuyPackagePage.tsx\<close>), the card of a
  fiber subscription (\<open>components/customer/SubscriptionCard.tsx\<close>), the dashboard
  (\<open>pages/customer/DashboardPage.tsx\<close>), the profile (\<open>pages/customer/ProfilePage.tsx\<close>), and export
  and deletion of the account (\<open>pages/customer/DataPrivacyPage.tsx\<close>). Times are milliseconds.
\<close>

section \<open>Buying a package\<close>

record buy_page =
  bp_packages :: "package list fetched"
  bp_selectedPackageId :: "string option"
  bp_phoneNumber :: string
  bp_isDialogOpen :: bool
  bp_pending :: bool
  bp_left :: bool

datatype purchase_action =
    BuyPackagesAnswer "package list option"
  | BuyClick string
  | DismissBuy
  | TypePhone string
  | ConfirmPayment
  | PaymentOk string
  | PaymentFailed "string option"

definition buyPage0 :: buy_page where
  "buyPage0 = \<lparr>bp_packages = FLoading, bp_selectedPackageId = None, bp_phoneNumber = [], bp_isDialogOpen = False,
     bp_pending = False, bp_left = False\<rparr>"

definition activePackages :: "buy_page \<Rightarrow> package list" where
  "activePackages p = (case dataOf (bp_packages p) of None \<Rightarrow> [] | Some ps \<Rightarrow> filter pk_is_active ps)"

definition stkBody :: "string \<Rightarrow> string \<Rightarrow> body" where
  "stkBody k phone = [(''package_id'', KS k), (''phone'', KS phone)]"

definition handleConfirmPayment :: "buy_page \<Rightarrow> buy_page \<times> page_out list" where
  "handleConfirmPayment p =
     (if \<not> truthy (bp_selectedPackageId p) then (p, [])
      else (p\<lparr>bp_pending := True\<rparr>,
            [Mutate (MInitiateSTKPush (stkBody (the (bp_selectedPackageId p)) (bp_phoneNumber p)))]))"

fun buy_page_step :: "buy_page \<Rightarrow> purchase_action \<Rightarrow> buy_page \<times> page_out list" where
  "buy_page_step p (BuyPackagesAnswer d) = (p\<lparr>bp_packages := answered d (bp_packages p)\<rparr>, [])"
| "buy_page_step p (BuyClick k) = (p\<lparr>bp_selectedPackageId := Some k, bp_isDialogOpen := True\<rparr>, [])"
| "buy_page_step p DismissBuy = (p\<lparr>bp_isDialogOpen := False\<rparr>, [])"
| "buy_page_step p (TypePhone v) = (p\<lparr>bp_phoneNumber := v\<rparr>, [])"
| "buy_page_step p ConfirmPayment = handleConfirmPayment p"
| "buy_page_step p (PaymentOk i) =
     (p\<lparr>bp_pending := False, bp_isDialogOpen := False, bp_left := True\<rparr>, [Goto (''/customer/status/'' @ i)])"
| "buy_page_step p (PaymentFailed detail) =
     (p\<lparr>bp_pending := False\<rparr>, [ToastError (orElse detail ''Failed to initiate payment. Please try again.'')])"

definition planCard :: "intl \<Rightarrow> package \<Rightarrow> purchase_action view" where
  "planCard i k = Group
     [Txt (showInt (pk_speed_mbps k) @ '' Mbps''), Txt (pk_name k), Txt (formatKES i (pk_price_kes k)),
      Txt (pk_description k), Txt (''Duration: '' @ formatDuration (pk_duration_minutes k)),
      Txt (''Speed: '' @ showInt (pk_speed_mbps k) @ '' Mbps''),
      Btn False [Txt ''Buy via M-Pesa''] (BuyClick (pk_id k))]"

definition confirmDialog :: "buy_page \<Rightarrow> purchase_action view list" where
  "confirmDialog p =
     onlyIf (bp_isDialogOpen p)
       [Txt ''Confirm Payment'', Txt ''Enter your M-Pesa phone number to receive the payment prompt.'',
        Btn False [] DismissBuy,
        Txt ''M-Pesa Phone Number'', Inp ''0712 345 678'' (bp_phoneNumber p) TypePhone,
        Txt ''Format: 07XX XXX XXX or 2547XX XXX XXX'', Txt ''What happens next?'',
        Txt ''You will receive an M-Pesa prompt on your phone.'',
        Txt ''Enter your M-Pesa PIN to confirm the payment.'',
        Txt ''Wait for the confirmation page to give you your voucher code.'',
        Btn False [Txt ''Cancel''] DismissBuy,
        Btn (bp_phoneNumber p = [] \<or> bp_pending p)
          [Txt (if bp_pending p then ''Sending Prompt...'' else ''Send M-Pesa Prompt'')] ConfirmPayment]"

definition buyPageView :: "intl \<Rightarrow> buy_page \<Rightarrow> purchase_action view" where
  "buyPageView i p = Group
     ([Txt ''Choose Your Plan'', Txt ''Select an internet package that fits your needs.'']
      @ tableBody (isLoadingQuery (bp_packages p)) ''No internet packages are currently available.''
          (planCard i) (activePackages p)
      @ confirmDialog p)"

text \<open>Once the browser has left for the status page nothing happens on this one.\<close>

fun buy_page_ok :: "intl \<Rightarrow> buy_page \<Rightarrow> purchase_action \<Rightarrow> bool" where
  "buy_page_ok i p (BuyPackagesAnswer d) = (\<not> bp_left p)"
| "buy_page_ok i p (PaymentOk x) = (\<not> bp_left p \<and> bp_pending p)"
| "buy_page_ok i p (PaymentFailed e) = (\<not> bp_left p \<and> bp_pending p)"
| "buy_page_ok i p a = (\<not> bp_left p \<and> offers (buyPageView i p) a)"

section \<open>The subscription card\<close>

record sub_card =
  sd_subscription :: "subscription option fetched"
  sd_toggling :: bool

datatype card_action =
    MySubscriptionAnswer "subscription option option"
  | ToggleAutoRenew bool
  | ToggleSettled bool bool
  | RenewNow string

definition card0 :: sub_card where
  "card0 = \<lparr>sd_subscription = FLoading, sd_toggling = False\<rparr>"

definition renewBody :: "bool \<Rightarrow> body" where
  "renewBody b = [(''auto_renew'', KB b)]"

text \<open>\<open>ToggleSettled ok b\<close>: the request that set the preference to \<open>b\<close> was answered.\<close>

fun card_step :: "sub_card \<Rightarrow> card_action \<Rightarrow> sub_card \<times> page_out list" where
  "card_step c (MySubscriptionAnswer d) = (c\<lparr>sd_subscription := answered d (sd_subscription c)\<rparr>, [])"
| "card_step c (ToggleAutoRenew b) = (c\<lparr>sd_toggling := True\<rparr>, [Mutate (MToggleAutoRenew (renewBody b))])"
| "card_step c (ToggleSettled ok b) =
     (c\<lparr>sd_toggling := False\<rparr>,
      [if ok then ToastSuccess (''Auto-renew '' @ (if b then ''enabled'' else ''disabled''))
       else ToastError ''Failed to update auto-renew preference''])"
| "card_step c (RenewNow k) = (c, [Goto (''/customer/buy?package='' @ k)])"

text \<open>The share of the period that has passed, in percent, clamped; a period of length zero gives a
  bound, or no number at all when nothing has passed either.\<close>

definition progressPercentage :: "intl \<Rightarrow> int \<Rightarrow> subscription \<Rightarrow> rat option" where
  "progressPercentage i now s =
     (let total = getTime i (sb_current_period_end s) - getTime i (sb_created_at s);
          elapsed = now - getTime i (sb_created_at s)
      in if total = 0
         then (if elapsed = 0 then None else Some (if 0 < elapsed then 100 else 0))
         else Some (min (max ((of_int elapsed / of_int total) * 100) 0) 100))"

definition dayMs :: int where
  "dayMs = 1000 * 60 * 60 * 24"

definition daysRemaining :: "intl \<Rightarrow> int \<Rightarrow> subscription \<Rightarrow> int" where
  "daysRemaining i now s =
     \<lceil>(of_int (getTime i (sb_current_period_end s) - now) :: rat) / of_int dayMs\<rceil>"

definition showRenewButton :: "intl \<Rightarrow> int \<Rightarrow> subscription \<Rightarrow> bool" where
  "showRenewButton i now s \<longleftrightarrow> sb_status s = ''grace'' \<or> daysRemaining i now s \<le> 3"

definition cardView :: "intl \<Rightarrow> int \<Rightarrow> sub_card \<Rightarrow> card_action view" where
  "cardView i now c = Group
     (case dataOf (sd_subscription c) of
        Some (Some s) \<Rightarrow>
          [Txt ''Home Internet Plan'', statusBadge (sb_status s), Txt ''Your recurring PPPoE WiFi connection.'',
           Txt ''Current Package'', Txt (sb_package_name s),
           Txt ''Period Ends'', Txt (formatNairobiDate i (sb_current_period_end s)), Txt ''Cycle Progress'',
           Txt (if 0 < daysRemaining i now s then showInt (daysRemaining i now s) @ '' days left'' else ''Expired''),
           Txt ''Auto-Renew'', Txt ''Automatically bill my next cycle'',
           Btn (sd_toggling c \<or> sb_status s = ''suspended'') [] (ToggleAutoRenew (\<not> sb_auto_renew s))]
          @ onlyIf (sb_status s = ''grace'')
              [Txt ''Your subscription is in grace period. Pay now to avoid disconnection.'']
          @ onlyIf (showRenewButton i now s) [Btn False [Txt ''Renew Now''] (RenewNow (sb_package_id s))]
      | _ \<Rightarrow> [])"

fun card_ok :: "intl \<Rightarrow> int \<Rightarrow> sub_card \<Rightarrow> card_action \<Rightarrow> bool" where
  "card_ok i now c (MySubscriptionAnswer d) = True"
| "card_ok i now c (ToggleSettled ok b) = sd_toggling c"
| "card_ok i now c a = offers (cardView i now c) a"

section \<open>The dashboard\<close>

record customer_dashboard =
  cd_vouchers :: "voucher list fetched"
  cd_sessions :: "session list fetched"
  cd_card :: sub_card

datatype cdash_action = InCard card_action | CGoto path | CCopy string

definition activeVouchers :: "customer_dashboard \<Rightarrow> voucher list" where
  "activeVouchers d =
     (case dataOf (cd_vouchers d) of None \<Rightarrow> [] | Some vs \<Rightarrow> filter (\<lambda>v. vo_status v = ''active'') vs)"

definition totalBytes :: "(session \<Rightarrow> int) \<Rightarrow> customer_dashboard \<Rightarrow> int" where
  "totalBytes f d =
     (case dataOf (cd_sessions d) of None \<Rightarrow> 0 | Some ss \<Rightarrow> foldl (\<lambda>sum s. sum + f s) 0 ss)"

definition totalDataUsage :: "customer_dashboard \<Rightarrow> int" where
  "totalDataUsage d = totalBytes se_bytes_downloaded d + totalBytes se_bytes_uploaded d"

definition recentSessions :: "intl \<Rightarrow> customer_dashboard \<Rightarrow> session list" where
  "recentSessions i d =
     (case dataOf (cd_sessions d) of
        None \<Rightarrow> [] | Some ss \<Rightarrow> slice 0 3 (newestFirst (\<lambda>s. getTime i (se_started_at s)) ss))"

definition dashVoucher :: "intl \<Rightarrow> voucher \<Rightarrow> cdash_action view" where
  "dashVoucher i v = Group
     [Txt (vo_code v), Txt (orElse (Some (vo_package_name v)) ''Unknown''), statusBadge (vo_status v),
      Txt (''Exp: '' @ formatNairobiDate i (vo_expires_at v))]"

definition dashSession :: "intl \<Rightarrow> session \<Rightarrow> cdash_action view" where
  "dashSession i s = Group
     [Txt (orElse (se_mac_address s) ''Unknown Device''),
      Txt (if truthy (se_ended_at s) then ''Closed'' else ''Active''),
      Txt (formatNairobiDate i (se_started_at s)),
      Txt (formatBytes i (se_bytes_downloaded s + se_bytes_uploaded s))]"

definition quickConnect :: "customer_dashboard \<Rightarrow> cdash_action view list" where
  "quickConnect d =
     (case activeVouchers d of
        v # _ \<Rightarrow> [Txt ''Your latest code:'', Txt (vo_code v), Btn False [Txt ''Copy''] (CCopy (vo_code v))]
      | [] \<Rightarrow> [Txt ''You don't have any active vouchers. Buy a package to get connected.''])"

definition customerDashboardView :: "intl \<Rightarrow> int \<Rightarrow> customer_dashboard \<Rightarrow> cdash_action view" where
  "customerDashboardView i now d =
     (let lv = isLoadingQuery (cd_vouchers d); ls = isLoadingQuery (cd_sessions d);
          vs = nullish (dataOf (cd_vouchers d)) []
      in Group
        ([Txt ''Welcome to Frixel Connect'', Txt ''Manage your internet access and view usage.'',
          Btn False [Txt ''Buy New Package''] (CGoto ''/customer/buy''),
          map_view InCard (cardView i now (cd_card d)), Txt ''Active Vouchers'']
         @ (if lv then [] else [Txt (showNat (length (activeVouchers d)))])
         @ [Txt ''Ready to use'', Txt ''Total Data Usage'']
         @ (if ls then [] else [Txt (formatBytes i (totalDataUsage d))])
         @ [Txt ''Lifetime consumption'', Txt ''Quick Connect''] @ quickConnect d
         @ [Txt ''Your Vouchers'', Txt ''Recently purchased access codes.'']
         @ tableBody lv ''No vouchers found.'' (dashVoucher i) (slice 0 3 vs)
         @ onlyIf (\<not> lv \<and> 3 < length vs) [Btn False [Txt ''View All Vouchers''] (CGoto ''/customer/vouchers'')]
         @ [Txt ''Recent Sessions'', Txt ''Your latest device connections.'']
         @ tableBody ls ''No active sessions found.'' (dashSession i) (recentSessions i d)))"

section \<open>The profile\<close>

record profile_form =
  pro_email :: string
  pro_phone :: string
  pro_password :: string
  pro_errors :: field_errors
  pro_submitted :: bool

datatype profile_field = PEmail | PPhone | PPassword

record profile_page =
  pp_profile :: "user fetched"
  pp_form :: profile_form
  pp_pending :: bool

datatype profile_action =
    ProfileAnswer "user option"
  | ProfileInput profile_field string
  | SaveProfile
  | ProfileOk profile_form
  | ProfileFailed "string option"
  | GoPrivacy

definition profileForm0 :: profile_form where
  "profileForm0 = \<lparr>pro_email = [], pro_phone = [], pro_password = [], pro_errors = [], pro_submitted = False\<rparr>"

definition profilePage0 :: profile_page where
  "profilePage0 = \<lparr>pp_profile = FLoading, pp_form = profileForm0, pp_pending = False\<rparr>"

definition guestEmail :: "user \<Rightarrow> bool" where
  "guestEmail u \<longleftrightarrow> endsWith (us_email u) ''@guest.example.com''"

text \<open>Every field may be left empty.\<close>

definition updateProfileSchema :: "(string \<Rightarrow> bool) \<Rightarrow> profile_form \<Rightarrow> field_errors" where
  "updateProfileSchema isEmail f =
     (if pro_email f = [] \<or> isEmail (pro_email f) then [] else [(''email'', ''Enter a valid email address'')])
     @ (if pro_phone f = [] \<or> kenyanPhone (pro_phone f) then [] else [(''phone'', ''Enter a valid Kenyan phone number'')])
     @ (if pro_password f = [] then []
        else minLength 8 ''password'' ''Password must be at least 8 characters'' (pro_password f))"

text \<open>The effect on \<open>[profile, reset]\<close>: a profile that changed fills the form.\<close>

definition profileEffect :: "user fetched \<Rightarrow> profile_page \<Rightarrow> profile_page" where
  "profileEffect old p =
     (if dataOf (pp_profile p) = dataOf old then p
      else case dataOf (pp_profile p) of
             None \<Rightarrow> p
           | Some u \<Rightarrow> p\<lparr>pp_form := profileForm0\<lparr>pro_email := (if guestEmail u then [] else us_email u),
                                             pro_phone := us_phone u\<rparr>\<rparr>)"

fun setProfileField :: "profile_field \<Rightarrow> string \<Rightarrow> profile_form \<Rightarrow> profile_form" where
  "setProfileField PEmail v f = f\<lparr>pro_email := v\<rparr>"
| "setProfileField PPhone v f = f\<lparr>pro_phone := v\<rparr>"
| "setProfileField PPassword v f = f\<lparr>pro_password := v\<rparr>"

fun profileFieldName :: "profile_field \<Rightarrow> string" where
  "profileFieldName PEmail = ''email''"
| "profileFieldName PPhone = ''phone''"
| "profileFieldName PPassword = ''password''"

definition changeProfileField :: "(string \<Rightarrow> bool) \<Rightarrow> profile_field \<Rightarrow> string \<Rightarrow> profile_form \<Rightarrow> profile_form" where
  "changeProfileField isEmail k v f =
     (let f1 = setProfileField k v f
      in f1\<lparr>pro_errors := recheck (pro_submitted f1) (profileFieldName k) (updateProfileSchema isEmail f1) (pro_errors f1)\<rparr>)"

definition profilePayload :: "profile_form \<Rightarrow> body" where
  "profilePayload f =
     (if pro_email f \<noteq> [] then [(''email'', KS (pro_email f))] else [])
     @ (if pro_phone f \<noteq> [] then [(''phone'', KS (pro_phone f))] else [])
     @ (if pro_password f \<noteq> [] then [(''password'', KS (pro_password f))] else [])"

text \<open>\<open>ProfileOk\<close> carries the values that were submitted: the form is reset to them.\<close>

fun profile_step :: "(string \<Rightarrow> bool) \<Rightarrow> profile_page \<Rightarrow> profile_action \<Rightarrow> profile_page \<times> page_out list" where
  "profile_step isEmail p (ProfileAnswer d) =
     (profileEffect (pp_profile p) (p\<lparr>pp_profile := answered d (pp_profile p)\<rparr>), [])"
| "profile_step isEmail p (ProfileInput k v) = (p\<lparr>pp_form := changeProfileField isEmail k v (pp_form p)\<rparr>, [])"
| "profile_step isEmail p SaveProfile =
     (let f = pp_form p; errs = updateProfileSchema isEmail f;
          p1 = p\<lparr>pp_form := f\<lparr>pro_errors := errs, pro_submitted := True\<rparr>\<rparr>
      in if errs \<noteq> [] then (p1, [])
         else (p1\<lparr>pp_pending := True\<rparr>, [Mutate (MUpdateCustomerProfile (profilePayload f))]))"
| "profile_step isEmail p (ProfileOk f) =
     (p\<lparr>pp_pending := False, pp_form := f\<lparr>pro_password := [], pro_errors := [], pro_submitted := False\<rparr>\<rparr>,
      [ToastSuccess ''Profile updated successfully''])"
| "profile_step isEmail p (ProfileFailed detail) =
     (p\<lparr>pp_pending := False\<rparr>, [ToastError (orElse detail ''Failed to update profile'')])"
| "profile_step isEmail p GoPrivacy = (p, [Goto ''/customer/privacy''])"

definition profileFields :: "profile_page \<Rightarrow> profile_action view list" where
  "profileFields p =
     (let f = pp_form p; errs = pro_errors f;
          guest = (case dataOf (pp_profile p) of None \<Rightarrow> False | Some u \<Rightarrow> guestEmail u)
      in [Txt ''Email Address'',
          Inp (if guest then ''Please provide a real email'' else ''you@example.com'') (pro_email f) (ProfileInput PEmail)]
         @ fieldError errs ''email''
         @ onlyIf guest [Txt ''You are using a temporary guest email. Please update it.'']
         @ [Txt ''Phone Number'', Inp ''0712 345 678'' (pro_phone f) (ProfileInput PPhone)]
         @ fieldError errs ''phone''
         @ [Txt ''New Password (Leave blank to keep current)'',
            Inp (concat (replicate 8 [CHR 0xE2, CHR 0x80, CHR 0xA2])) (pro_password f) (ProfileInput PPassword)]
         @ fieldError errs ''password'')"

definition profileView :: "profile_page \<Rightarrow> profile_action view" where
  "profileView p = Group
     ([Txt ''Account Settings'', Txt ''Update your personal information.'', Txt ''Contact Information'',
       Txt ''This phone number is used for M-Pesa payments and account recovery.'']
      @ (if isLoadingQuery (pp_profile p) then [] else profileFields p)
      @ [Btn (isLoadingQuery (pp_profile p) \<or> pp_pending p)
           [Txt (if pp_pending p then ''Saving...'' else ''Save Changes'')] SaveProfile,
         Txt ''Data & Privacy'', Txt ''Manage your personal data, download an archive, or delete your account.'',
         Btn False [Txt ''Manage Privacy Settings''] GoPrivacy])"

fun profile_ok :: "profile_page \<Rightarrow> profile_action \<Rightarrow> bool" where
  "profile_ok p (ProfileAnswer d) = True"
| "profile_ok p (ProfileOk f) = pp_pending p"
| "profile_ok p (ProfileFailed e) = pp_pending p"
| "profile_ok p a = offers (profileView p) a"

section \<open>Data and privacy\<close>

record privacy_page =
  pv_isExporting :: bool
  pv_isDeleting :: bool
  pv_dialogOpen :: bool
  pv_deleted :: bool
  pv_left :: bool

datatype privacy_action =
    ExportClick
  | ExportOk json string
  | ExportFailed
  | OpenDelete
  | CancelDelete
  | DeleteClick
  | DeleteOk
  | DeleteFailed
  | BackToProfile

datatype privacy_out =
    GetExport
  | SaveJson string string
  | DeleteMe
  | SignOutCustomer
  | PrivacyToast bool string
  | PrivacyGoto path

definition privacy0 :: privacy_page where
  "privacy0 = \<lparr>pv_isExporting = False, pv_isDeleting = False, pv_dialogOpen = False, pv_deleted = False, pv_left = False\<rparr>"

text \<open>The name of the file has the current day in it, which comes with the answer; the content is the
  answer as indented JSON.\<close>

fun privacy_step :: "privacy_page \<Rightarrow> privacy_action \<Rightarrow> privacy_page \<times> privacy_out list" where
  "privacy_step p ExportClick = (p\<lparr>pv_isExporting := True\<rparr>, [GetExport])"
| "privacy_step p (ExportOk j today) =
     (p\<lparr>pv_isExporting := False\<rparr>,
      [SaveJson (''Frixel Connect_my_data_'' @ today @ ''.json'') (prettyJson j 0),
       PrivacyToast True ''Your data has been downloaded successfully.''])"
| "privacy_step p ExportFailed =
     (p\<lparr>pv_isExporting := False\<rparr>, [PrivacyToast False ''Failed to export data. Please try again later.''])"
| "privacy_step p OpenDelete = (p\<lparr>pv_dialogOpen := True\<rparr>, [])"
| "privacy_step p CancelDelete = (p\<lparr>pv_dialogOpen := False\<rparr>, [])"
| "privacy_step p DeleteClick = (p\<lparr>pv_isDeleting := True\<rparr>, [DeleteMe])"
| "privacy_step p DeleteOk =
     (p\<lparr>pv_deleted := True, pv_left := True\<rparr>,
      [PrivacyToast True ''Your account has been deleted.'', SignOutCustomer, PrivacyGoto ''/''])"
| "privacy_step p DeleteFailed =
     (p\<lparr>pv_isDeleting := False\<rparr>, [PrivacyToast False ''Failed to delete account. Please try again later.''])"
| "privacy_step p BackToProfile = (p\<lparr>pv_left := True\<rparr>, [PrivacyGoto ''/customer/profile''])"

definition privacyView :: "privacy_page \<Rightarrow> privacy_action view" where
  "privacyView p = Group
     ([Btn False [] BackToProfile, Txt ''Data & Privacy'', Txt ''Manage your personal data and account status.'',
       Txt ''Download My Data'',
       Txt ''Request a copy of your personal data, including your profile information, active vouchers, and session history in a machine-readable JSON format.'',
       Btn (pv_isExporting p) [Txt (if pv_isExporting p then ''Exporting...'' else ''Download JSON Data'')] ExportClick,
       Txt ''Delete My Account'', Txt ''Permanently close your account and anonymize your personal details.'',
       Txt ''Please note: Deleting your account will anonymize your name, email, and phone number in our database. However, your payment and voucher history will be retained as they are financial records required by law for accounting purposes. You will immediately lose access to the portal and any active subscriptions or vouchers.'',
       Btn False [Txt ''Delete Account''] OpenDelete]
      @ onlyIf (pv_dialogOpen p)
          [Txt ''Are you absolutely sure?'',
           Txt ''This action cannot be undone. It will immediately log you out and anonymize your personal profile data. Your payment history will remain intact for legal financial reporting, but it will no longer be associated with your identifiable details.'',
           Btn False [Txt ''Cancel''] CancelDelete,
           Btn (pv_isDeleting p) [Txt (if pv_isDeleting p then ''Deleting...'' else ''Yes, delete my account'')]
             DeleteClick])"

text \<open>Leaving the page does not stop the handlers that wait for an answer.\<close>

fun privacy_ok :: "privacy_page \<Rightarrow> privacy_action \<Rightarrow> bool" where
  "privacy_ok p (ExportOk j d) = pv_isExporting p"
| "privacy_ok p ExportFailed = pv_isExporting p"
| "privacy_ok p DeleteOk = (pv_isDeleting p \<and> \<not> pv_deleted p)"
| "privacy_ok p DeleteFailed = (pv_isDeleting p \<and> \<not> pv_deleted p)"
| "privacy_ok p a = (\<not> pv_left p \<and> offers (privacyView p) a)"

section \<open>Lemmas\<close>

text \<open>Buying: what the page offers, one prompt at a time, and where its choices come from.\<close>

lemma offers_buy:
  "offers (buyPageView i p) a \<longleftrightarrow>
     (bp_packages p \<noteq> FLoading \<and> (\<exists>k \<in> set (activePackages p). a = BuyClick (pk_id k)))
     \<or> (bp_isDialogOpen p \<and> (a = DismissBuy \<or> (\<exists>v. a = TypePhone v)
          \<or> (a = ConfirmPayment \<and> bp_phoneNumber p \<noteq> [] \<and> \<not> bp_pending p)))"
proof -
  have "offers (planCard i k) a \<longleftrightarrow> a = BuyClick (pk_id k)" for k
    by (simp add: planCard_def form_offers)
  then show ?thesis
    unfolding buyPageView_def confirmDialog_def by (auto simp: form_offers isLoadingQuery_def)
qed

fun payment_answer :: "purchase_action \<Rightarrow> bool" where
  "payment_answer (PaymentOk x) = True"
| "payment_answer (PaymentFailed d) = True"
| "payment_answer _ = False"

fun is_prompt :: "page_out \<Rightarrow> bool" where
  "is_prompt (Mutate (MInitiateSTKPush b)) = True"
| "is_prompt _ = False"

interpretation prompts: request_flight buy_page_step "buy_page_ok i" bp_pending payment_answer is_prompt for i
proof
  fix p :: buy_page and a
  show "buy_page_ok i p a \<Longrightarrow> payment_answer a \<Longrightarrow> bp_pending p
      \<and> \<not> bp_pending (fst (buy_page_step p a)) \<and> filter is_prompt (snd (buy_page_step p a)) = []"
    by (cases a) auto
  show "buy_page_ok i p a \<Longrightarrow> \<not> payment_answer a \<Longrightarrow>
      (filter is_prompt (snd (buy_page_step p a)) = [] \<and> bp_pending (fst (buy_page_step p a)) = bp_pending p)
      \<or> (length (filter is_prompt (snd (buy_page_step p a))) = 1 \<and> \<not> bp_pending p
          \<and> bp_pending (fst (buy_page_step p a)))"
    by (cases a) (auto simp: offers_buy handleConfirmPayment_def)
qed

definition plan_listed :: "purchase_action list \<Rightarrow> string \<Rightarrow> bool" where
  "plan_listed as k \<longleftrightarrow>
     (\<exists>ps p. BuyPackagesAnswer (Some ps) \<in> set as \<and> p \<in> set ps \<and> pk_id p = k \<and> pk_is_active p)"

definition plans_known :: "purchase_action list \<Rightarrow> buy_page \<Rightarrow> bool" where
  "plans_known as p \<longleftrightarrow> (\<forall>ps. bp_packages p = FLoaded ps \<longrightarrow> BuyPackagesAnswer (Some ps) \<in> set as)
     \<and> (\<forall>k. bp_selectedPackageId p = Some k \<longrightarrow> plan_listed as k)"

fun purchase_ok :: "purchase_action list \<Rightarrow> page_out \<Rightarrow> bool" where
  "purchase_ok as (Mutate (MInitiateSTKPush b)) =
     (\<exists>k phone. b = stkBody k phone \<and> plan_listed as k \<and> TypePhone phone \<in> set as \<and> phone \<noteq> [])"
| "purchase_ok as (Goto u) = (\<exists>x. PaymentOk x \<in> set as \<and> u = ''/customer/status/'' @ x)"
| "purchase_ok as _ = True"

definition phone_typed :: "purchase_action list \<Rightarrow> buy_page \<Rightarrow> bool" where
  "phone_typed as p \<longleftrightarrow> (bp_phoneNumber p \<noteq> [] \<longrightarrow> TypePhone (bp_phoneNumber p) \<in> set as)"

lemma activePackages_listed:
  "k \<in> set (activePackages p) \<Longrightarrow> \<exists>ps. bp_packages p = FLoaded ps \<and> k \<in> set ps \<and> pk_is_active k"
  by (cases "bp_packages p") (auto simp: activePackages_def)

lemma plans_known_step:
  assumes known: "plans_known as p \<and> phone_typed as p" and ok: "buy_page_ok i p a" and a: "a \<in> set as"
  shows "(plans_known as (fst (buy_page_step p a)) \<and> phone_typed as (fst (buy_page_step p a)))
    \<and> (\<forall>r \<in> set (snd (buy_page_step p a)). purchase_ok as r)"
proof (cases a)
  case (BuyClick k)
  with ok obtain q where "q \<in> set (activePackages p)" "pk_id q = k" by (auto simp: offers_buy)
  with known activePackages_listed [of q p] have "plan_listed as k"
    by (auto simp: plans_known_def plan_listed_def)
  with BuyClick known show ?thesis by (auto simp: plans_known_def phone_typed_def)
next
  case ConfirmPayment
  with ok known show ?thesis
    by (cases "bp_selectedPackageId p")
      (auto simp: plans_known_def phone_typed_def handleConfirmPayment_def offers_buy)
qed (use known a in \<open>auto simp: plans_known_def phone_typed_def answered_Loaded\<close>)

text \<open>The card: one toggle at a time.\<close>

lemma offers_card:
  "offers (cardView i now c) a \<longleftrightarrow>
     (\<exists>s. sd_subscription c = FLoaded (Some s)
        \<and> ((a = ToggleAutoRenew (\<not> sb_auto_renew s) \<and> \<not> sd_toggling c \<and> sb_status s \<noteq> ''suspended'')
           \<or> (a = RenewNow (sb_package_id s) \<and> showRenewButton i now s)))"
proof (cases "sd_subscription c")
  case (FLoaded x)
  then show ?thesis by (cases x) (auto simp: cardView_def form_offers)
qed (simp_all add: cardView_def form_offers)

fun toggle_answer :: "card_action \<Rightarrow> bool" where
  "toggle_answer (ToggleSettled ok b) = True"
| "toggle_answer _ = False"

fun is_toggle :: "page_out \<Rightarrow> bool" where
  "is_toggle (Mutate (MToggleAutoRenew b)) = True"
| "is_toggle _ = False"

interpretation toggles: request_flight card_step "card_ok i now" sd_toggling toggle_answer is_toggle for i now
proof
  fix c :: sub_card and a
  show "card_ok i now c a \<Longrightarrow> toggle_answer a \<Longrightarrow> sd_toggling c
      \<and> \<not> sd_toggling (fst (card_step c a)) \<and> filter is_toggle (snd (card_step c a)) = []"
    by (cases a) auto
  show "card_ok i now c a \<Longrightarrow> \<not> toggle_answer a \<Longrightarrow>
      (filter is_toggle (snd (card_step c a)) = [] \<and> sd_toggling (fst (card_step c a)) = sd_toggling c)
      \<or> (length (filter is_toggle (snd (card_step c a))) = 1 \<and> \<not> sd_toggling c
          \<and> sd_toggling (fst (card_step c a)))"
    by (cases a) (auto simp: offers_card)
qed

lemma daysRemaining_pos: "0 < daysRemaining i now s \<longleftrightarrow> now < getTime i (sb_current_period_end s)"
proof -
  have "0 < daysRemaining i now s \<longleftrightarrow> (0 :: rat) < of_int (getTime i (sb_current_period_end s) - now) / of_int dayMs"
    unfolding daysRemaining_def by (metis zero_less_ceiling)
  also have "\<dots> \<longleftrightarrow> now < getTime i (sb_current_period_end s)"
    by (simp add: dayMs_def zero_less_divide_iff)
  finally show ?thesis .
qed

lemma daysRemaining_le:
  "daysRemaining i now s \<le> n \<longleftrightarrow> getTime i (sb_current_period_end s) - now \<le> n * dayMs"
proof -
  have "daysRemaining i now s \<le> n \<longleftrightarrow>
      (of_int (getTime i (sb_current_period_end s) - now) :: rat) / of_int dayMs \<le> of_int n"
    unfolding daysRemaining_def by (rule ceiling_le_iff)
  also have "\<dots> \<longleftrightarrow> (of_int (getTime i (sb_current_period_end s) - now) :: rat) \<le> of_int n * of_int dayMs"
    by (simp add: dayMs_def divide_le_eq)
  also have "\<dots> \<longleftrightarrow> (of_int (getTime i (sb_current_period_end s) - now) :: rat) \<le> of_int (n * dayMs)"
    by simp
  also have "\<dots> \<longleftrightarrow> getTime i (sb_current_period_end s) - now \<le> n * dayMs"
    by (rule of_int_le_iff)
  finally show ?thesis .
qed

text \<open>Sums written as a loop.\<close>

lemma foldl_sum: "foldl (\<lambda>a x. a + f x) (b :: int) xs = b + sum_list (map f xs)"
  by (induction xs arbitrary: b) auto

text \<open>Profile: one save at a time.\<close>

lemma offers_profile:
  "offers (profileView p) a \<longleftrightarrow>
     a = GoPrivacy \<or> (pp_profile p \<noteq> FLoading \<and> ((\<exists>k v. a = ProfileInput k v) \<or> (a = SaveProfile \<and> \<not> pp_pending p)))"
proof -
  have "k = PEmail \<or> k = PPhone \<or> k = PPassword" for k by (cases k) auto
  then show ?thesis
    unfolding profileView_def profileFields_def by (auto simp: form_offers Let_def isLoadingQuery_def)
qed

fun profile_answer :: "profile_action \<Rightarrow> bool" where
  "profile_answer (ProfileOk f) = True"
| "profile_answer (ProfileFailed d) = True"
| "profile_answer _ = False"

fun is_profile_save :: "page_out \<Rightarrow> bool" where
  "is_profile_save (Mutate (MUpdateCustomerProfile b)) = True"
| "is_profile_save _ = False"

lemma pending_profileEffect [simp]: "pp_pending (profileEffect old p) = pp_pending p"
  by (simp add: profileEffect_def split: option.splits)

interpretation profile_saves: request_flight "profile_step isEmail" profile_ok pp_pending profile_answer is_profile_save
  for isEmail
proof
  fix p :: profile_page and a
  show "profile_ok p a \<Longrightarrow> profile_answer a \<Longrightarrow> pp_pending p
      \<and> \<not> pp_pending (fst (profile_step isEmail p a)) \<and> filter is_profile_save (snd (profile_step isEmail p a)) = []"
    by (cases a) auto
  show "profile_ok p a \<Longrightarrow> \<not> profile_answer a \<Longrightarrow>
      (filter is_profile_save (snd (profile_step isEmail p a)) = []
        \<and> pp_pending (fst (profile_step isEmail p a)) = pp_pending p)
      \<or> (length (filter is_profile_save (snd (profile_step isEmail p a))) = 1 \<and> \<not> pp_pending p
          \<and> pp_pending (fst (profile_step isEmail p a)))"
    by (cases a) (auto simp: offers_profile Let_def)
qed

text \<open>Privacy: one deletion at a time.\<close>

lemma offers_privacy:
  "offers (privacyView p) a \<longleftrightarrow> a = BackToProfile \<or> a = OpenDelete \<or> (a = ExportClick \<and> \<not> pv_isExporting p)
     \<or> (pv_dialogOpen p \<and> (a = CancelDelete \<or> (a = DeleteClick \<and> \<not> pv_isDeleting p)))"
  unfolding privacyView_def by (auto simp: form_offers)

fun delete_answer :: "privacy_action \<Rightarrow> bool" where
  "delete_answer DeleteOk = True"
| "delete_answer DeleteFailed = True"
| "delete_answer _ = False"

fun is_delete :: "privacy_out \<Rightarrow> bool" where
  "is_delete DeleteMe = True"
| "is_delete _ = False"

definition deletion_pending :: "privacy_page \<Rightarrow> bool" where
  "deletion_pending p \<longleftrightarrow> pv_isDeleting p \<and> \<not> pv_deleted p"

definition deleted_marked :: "privacy_page \<Rightarrow> bool" where
  "deleted_marked p \<longleftrightarrow> (pv_deleted p \<longrightarrow> pv_isDeleting p \<and> pv_left p)"

lemma deleted_marked_step:
  "deleted_marked p \<Longrightarrow> privacy_ok p a \<Longrightarrow> deleted_marked (fst (privacy_step p a))"
  by (cases a) (auto simp: deleted_marked_def)

interpretation deletions: request_flight privacy_step "\<lambda>p a. deleted_marked p \<and> privacy_ok p a" deletion_pending
    delete_answer is_delete
proof
  fix p :: privacy_page and a
  show "deleted_marked p \<and> privacy_ok p a \<Longrightarrow> delete_answer a \<Longrightarrow> deletion_pending p
      \<and> \<not> deletion_pending (fst (privacy_step p a)) \<and> filter is_delete (snd (privacy_step p a)) = []"
    by (cases a) (auto simp: deletion_pending_def)
  show "deleted_marked p \<and> privacy_ok p a \<Longrightarrow> \<not> delete_answer a \<Longrightarrow>
      (filter is_delete (snd (privacy_step p a)) = [] \<and> deletion_pending (fst (privacy_step p a)) = deletion_pending p)
      \<or> (length (filter is_delete (snd (privacy_step p a))) = 1 \<and> \<not> deletion_pending p
          \<and> deletion_pending (fst (privacy_step p a)))"
    by (cases a) (auto simp: deletion_pending_def offers_privacy deleted_marked_def)
qed

section \<open>Properties\<close>

text \<open>A customer buys with care: whatever is clicked and in whatever order the answers arrive, at
  most one payment prompt is outstanding; a prompt is for a package that the service listed as active
  and goes to a number that was typed; and the page leaves only for the status of a payment that the
  service created, where the status page starts polling.\<close>

lemma purchase_safe:
  assumes run: "guarded_run (buy_page_ok i) buy_page_step buyPage0 as = Some (p, rs)"
  shows "length (filter is_prompt rs) = length (filter payment_answer as) + of_bool (bp_pending p)
    \<and> (\<forall>r \<in> set rs. purchase_ok as r)
    \<and> (Goto (''/customer/status/'' @ x) \<in> set rs \<and> x \<noteq> [] \<longrightarrow>
         PaymentOk x \<in> set as \<and> statusRedirect \<lparr>sg_id = Some x, sg_query = q\<rparr> = None)"
proof -
  have start: "plans_known as buyPage0 \<and> phone_typed as buyPage0"
    by (simp add: plans_known_def phone_typed_def buyPage0_def)
  have "\<forall>r \<in> set rs. purchase_ok as r"
    by (rule guarded_run_trace(2) [OF run start plans_known_step])
  then show ?thesis
    using prompts.request_flights [OF run] by (auto simp: buyPage0_def statusRedirect_def)
qed

definition samplePurchase :: "purchase_action list" where
  "samplePurchase =
     [BuyPackagesAnswer (Some [samplePlan]), BuyClick ''k1'', TypePhone ''0712345678'', ConfirmPayment,
      PaymentOk ''p9'']"

text \<open>The subscription card is right about time: the progress bar is between 0 and 100, \<open>Expired\<close>
  is shown exactly from the end of the period on, the renew button exactly in the grace period and
  in the last three days, and a suspended subscription cannot be switched to auto-renewal, nor can
  any while a switch is outstanding.\<close>

lemma subscription_card_exact:
  "(\<forall>x. progressPercentage i now s = Some x \<longrightarrow> 0 \<le> x \<and> x \<le> 100)
   \<and> (0 < daysRemaining i now s \<longleftrightarrow> now < getTime i (sb_current_period_end s))
   \<and> (showRenewButton i now s \<longleftrightarrow>
        sb_status s = ''grace'' \<or> getTime i (sb_current_period_end s) \<le> now + 3 * dayMs)
   \<and> (card_ok i now c (ToggleAutoRenew b) \<and> sd_subscription c = FLoaded (Some s) \<longrightarrow>
        sb_status s \<noteq> ''suspended'' \<and> b = (\<not> sb_auto_renew s) \<and> \<not> sd_toggling c)"
proof -
  have "0 \<le> x \<and> x \<le> 100" if "progressPercentage i now s = Some x" for x
    using that by (auto simp: progressPercentage_def Let_def split: if_splits)
  then show ?thesis
    by (auto simp: daysRemaining_pos showRenewButton_def daysRemaining_le offers_card)
qed

text \<open>Deleting an account: at most one deletion is outstanding, it is sent only while the question
  is on the screen, and the session ends exactly when the service has confirmed it; a failure leaves
  the customer signed in with the button enabled again.\<close>

lemma account_deletion_safe:
  assumes run: "guarded_run privacy_ok privacy_step privacy0 as = Some (p, rs)"
  shows "length (filter is_delete rs) = length (filter delete_answer as) + of_bool (deletion_pending p)
    \<and> (SignOutCustomer \<in> set rs \<longleftrightarrow> DeleteOk \<in> set as)
    \<and> (privacy_ok p DeleteClick \<longrightarrow> pv_dialogOpen p \<and> \<not> deletion_pending p \<and> DeleteOk \<notin> set as)
    \<and> \<not> pv_isDeleting (fst (privacy_step p DeleteFailed))"
proof -
  have start: "deleted_marked privacy0" by (simp add: deleted_marked_def privacy0_def)
  have strong: "guarded_run (\<lambda>p a. deleted_marked p \<and> privacy_ok p a) privacy_step privacy0 as = Some (p, rs)"
    by (rule guarded_run_strengthen [OF deleted_marked_step start run])
  have count: "length (filter is_delete rs) = length (filter delete_answer as) + of_bool (deletion_pending p)"
    using deletions.request_flights [OF strong] by (simp add: deletion_pending_def privacy0_def)
  have ended: "(SignOutCustomer \<in> set rs \<longleftrightarrow> DeleteOk \<in> set as) \<and> (pv_deleted q' \<longleftrightarrow> pv_deleted q \<or> DeleteOk \<in> set as)"
    if "guarded_run privacy_ok privacy_step q as = Some (q', rs)" for q q' as rs
    using that
  proof (induction as arbitrary: q rs)
    case (Cons a as)
    then show ?case by (cases a) (fastforce simp: guarded_run_Cons)+
  qed simp
  have "deleted_marked p"
    by (rule guarded_run_inv [OF deleted_marked_step start run])
  then have "pv_dialogOpen p \<and> \<not> deletion_pending p \<and> DeleteOk \<notin> set as" if "privacy_ok p DeleteClick"
    using that ended [OF run] by (auto simp: offers_privacy deletion_pending_def deleted_marked_def privacy0_def)
  then show ?thesis using count ended [OF run] by auto
qed

text \<open>The dashboards add up: a customer's usage is the sum over all sessions, the reseller's revenue
  the sum over the confirmed payments and the commission fifteen percent of it; the boxes of recent
  records show the newest ones, newest first.\<close>

lemma dashboards_exact:
  "totalDataUsage (d\<lparr>cd_sessions := FLoaded ss\<rparr>) = (\<Sum>s\<leftarrow>ss. se_bytes_downloaded s + se_bytes_uploaded s)
   \<and> newest_of (\<lambda>s. getTime i (se_started_at s)) 3 ss (recentSessions i (d\<lparr>cd_sessions := FLoaded ss\<rparr>))
   \<and> totalRevenue (Some ps) = (\<Sum>q\<leftarrow>filter (\<lambda>q. py_status q = ''confirmed'') ps. py_amount_kes q)
   \<and> estimatedCommission (Some ps) * 100 = 15 * of_int (totalRevenue (Some ps))
   \<and> newest_of (\<lambda>q. getTime i (py_created_at q)) 5 ps (recentPayments i (Some ps))
   \<and> newest_of (\<lambda>c. getTime i (us_created_at c)) 5 us (recentCustomers i (Some us))"
  by (simp add: totalDataUsage_def totalBytes_def foldl_sum sum_list_addf recentSessions_def totalRevenue_def
      estimatedCommission_def COMMISSION_RATE_def recentPayments_def recentCustomers_def slice_def newest_of_take)

end
