(* ===== verification/Tenant_Admin.thy ===== *)
theory Tenant_Admin
  imports Reseller Super_Admin
begin

text \<open>
  The tenant administration of the super admin console: the list of tenants
  (\<open>pages/super-admin/TenantsPage.tsx\<close>), one tenant (\<open>pages/super-admin/TenantDetailPage.tsx\<close>), and
  the handshake by which both open a tab that acts for a tenant: the console's tab and the start-up
  script of \<open>main.tsx\<close> in the new tab exchange messages. What the pages send are the mutations of
  \<open>hooks/useSuperAdmin.ts\<close>.
\<close>

section \<open>Records and effects\<close>

record tenant =
  tn_id :: string
  tn_business_name :: string
  tn_owner_email :: string
  tn_owner_phone :: string
  tn_subscription_tier :: string
  tn_status :: string
  tn_current_customer_count :: int
  tn_max_customers :: int
  tn_billing_status :: string
  tn_next_billing_date :: string
  tn_created_at :: string

record tenant_stats =
  ts_total_customers :: int
  ts_active_customers :: int
  ts_total_active_routers :: int
  ts_total_active_vouchers :: int
  ts_total_revenue_kes :: int
  ts_last_payment_at :: "string option"

record tenant_detail = tenant +
  tn_stats :: "tenant_stats option"

datatype console_out =
    Send mutation
  | Say string
  | Complain string
  | OpenTab path
  | PostToTab nat string
  | FetchTenantLog string
  | ConsoleGoto path
  | RefetchQuery query

text \<open>\<open>Math.round\<close>; quotients are exact.\<close>

definition mathRound :: "rat \<Rightarrow> int" where
  "mathRound x = \<lfloor>x + 1 / 2\<rfloor>"

section \<open>The impersonation handshake: the console's side\<close>

text \<open>A success opens a tab and, if the browser allows it, registers a listener that holds the token
  and the tab. A message event reaches every listener; a listener does not look at the sender.\<close>

record handshake =
  hs_listeners :: "(nat \<times> string) list"
  hs_opened :: nat

definition handshake0 :: handshake where
  "handshake0 = \<lparr>hs_listeners = [], hs_opened = 0\<rparr>"

definition openImpersonation :: "string \<Rightarrow> bool \<Rightarrow> handshake \<Rightarrow> handshake" where
  "openImpersonation token newTab h =
     (if newTab then h\<lparr>hs_listeners := hs_listeners h @ [(hs_opened h, token)], hs_opened := Suc (hs_opened h)\<rparr>
      else h)"

definition handleReady :: "bool \<Rightarrow> string \<Rightarrow> handshake \<Rightarrow> handshake \<times> console_out list" where
  "handleReady sameOrigin msg h =
     (if sameOrigin \<and> msg = ''impersonation_ready''
      then (h\<lparr>hs_listeners := []\<rparr>, map (\<lambda>(tb, token). PostToTab tb token) (hs_listeners h))
      else (h, []))"

section \<open>The list of tenants\<close>

record tenants_answer =
  ta_tenants :: "tenant list"
  ta_total :: nat
  ta_pages :: nat

text \<open>The tenant a dialog is about: id and business name.\<close>

type_synonym target = "string \<times> string"

record tenants_page =
  tp_page :: nat
  tp_statusFilter :: string
  tp_searchVal :: string
  tp_debouncedSearch :: string
  tp_openMenuId :: "string option"
  tp_impersonateTenant :: "target option"
  tp_impersonateDuration :: int
  tp_suspendTenant :: "target option"
  tp_suspendReason :: string
  tp_reactivateTenant :: "target option"
  tp_billingTenant :: "target option"
  tp_answers :: "nat \<times> string option \<times> string option \<Rightarrow> tenants_answer fetched"
  tp_suspending :: "target option"
  tp_reactivating :: "target option"
  tp_impersonating :: "target option"
  tp_billing :: "target option"
  tp_handshake :: handshake

datatype tenants_action =
    TenantsAnswer nat "string option" "string option" "tenants_answer option"
  | TypeSearch string
  | SearchSubmit
  | StatusTab string
  | PrevTenants
  | NextTenants
  | ToggleMenu string
  | CloseMenu
  | AskImpersonate target
  | AskBilling target
  | AskSuspendTenant target
  | AskReactivateTenant target
  | PickDuration int
  | TypeReason string
  | CancelImpersonate
  | CancelSuspendTenant
  | CancelReactivateTenant
  | CancelBilling
  | StartSession
  | ConfirmSuspendTenant
  | ConfirmReactivateTenant
  | SendStkPush
  | ImpersonateOk string bool
  | ImpersonateFailed string
  | SuspendTenantOk
  | SuspendTenantFailed string
  | ReactivateTenantOk
  | ReactivateTenantFailed string
  | BillingOk
  | BillingFailed string
  | MessageEvent bool string

definition tenants0 :: tenants_page where
  "tenants0 =
     \<lparr>tp_page = 1, tp_statusFilter = ''all'', tp_searchVal = [], tp_debouncedSearch = [], tp_openMenuId = None,
      tp_impersonateTenant = None, tp_impersonateDuration = 30, tp_suspendTenant = None, tp_suspendReason = [],
      tp_reactivateTenant = None, tp_billingTenant = None, tp_answers = (\<lambda>_. FLoading), tp_suspending = None,
      tp_reactivating = None, tp_impersonating = None, tp_billing = None, tp_handshake = handshake0\<rparr>"

definition statusParam :: "tenants_page \<Rightarrow> string option" where
  "statusParam p = (if tp_statusFilter p = ''all'' then None else Some (tp_statusFilter p))"

definition searchParam :: "tenants_page \<Rightarrow> string option" where
  "searchParam p = (if tp_debouncedSearch p = [] then None else Some (tp_debouncedSearch p))"

definition tenantsQuery :: "tenants_page \<Rightarrow> query" where
  "tenantsQuery p = useTenants (int (tp_page p)) 10 (statusParam p) (searchParam p)"

definition tenantsData :: "tenants_page \<Rightarrow> tenants_answer fetched" where
  "tenantsData p = tp_answers p (tp_page p, statusParam p, searchParam p)"

definition tenantPages :: "tenants_page \<Rightarrow> nat" where
  "tenantPages p = (case dataOf (tenantsData p) of None \<Rightarrow> 0 | Some a \<Rightarrow> ta_pages a)"

definition tenantTotal :: "tenants_page \<Rightarrow> nat" where
  "tenantTotal p = (case dataOf (tenantsData p) of None \<Rightarrow> 0 | Some a \<Rightarrow> ta_total a)"

definition listedTenants :: "tenants_page \<Rightarrow> tenant list" where
  "listedTenants p = (case dataOf (tenantsData p) of None \<Rightarrow> [] | Some a \<Rightarrow> ta_tenants a)"

definition handleSearchSubmit :: "tenants_page \<Rightarrow> tenants_page" where
  "handleSearchSubmit p = p\<lparr>tp_debouncedSearch := tp_searchVal p, tp_page := 1\<rparr>"

definition handleStatusTabChange :: "string \<Rightarrow> tenants_page \<Rightarrow> tenants_page" where
  "handleStatusTabChange status p = p\<lparr>tp_statusFilter := status, tp_page := 1\<rparr>"

definition handleStartImpersonation :: "tenants_page \<Rightarrow> tenants_page \<times> console_out list" where
  "handleStartImpersonation p =
     (case tp_impersonateTenant p of
        None \<Rightarrow> (p, [])
      | Some t \<Rightarrow> (p\<lparr>tp_impersonating := Some t\<rparr>, [Send (useImpersonateTenant (fst t) (tp_impersonateDuration p))]))"

definition impersonateOk :: "string \<Rightarrow> bool \<Rightarrow> tenants_page \<Rightarrow> tenants_page \<times> console_out list" where
  "impersonateOk token newTab p =
     (p\<lparr>tp_impersonating := None, tp_impersonateTenant := None,
        tp_handshake := openImpersonation token newTab (tp_handshake p)\<rparr>,
      [Say (''Generated impersonation token for '' @ snd (the (tp_impersonating p))), OpenTab ''/admin/dashboard''])"

definition handleConfirmSuspend :: "tenants_page \<Rightarrow> tenants_page \<times> console_out list" where
  "handleConfirmSuspend p =
     (case tp_suspendTenant p of
        None \<Rightarrow> (p, [])
      | Some t \<Rightarrow> if jsLength (tp_suspendReason p) < 10 then (p, [])
                 else (p\<lparr>tp_suspending := Some t\<rparr>, [Send (useSuspendTenant (fst t) (tp_suspendReason p))]))"

definition handleConfirmReactivate :: "tenants_page \<Rightarrow> tenants_page \<times> console_out list" where
  "handleConfirmReactivate p =
     (case tp_reactivateTenant p of
        None \<Rightarrow> (p, [])
      | Some t \<Rightarrow> (p\<lparr>tp_reactivating := Some t\<rparr>, [Send (useReactivateTenant (fst t))]))"

definition handleConfirmBilling :: "tenants_page \<Rightarrow> tenants_page \<times> console_out list" where
  "handleConfirmBilling p =
     (case tp_billingTenant p of
        None \<Rightarrow> (p, [])
      | Some t \<Rightarrow> (p\<lparr>tp_billing := Some t\<rparr>, [Send (useTriggerBilling (fst t))]))"

text \<open>The pending flags are those of the four mutations, together with the tenant that the callbacks
  of the call remember.\<close>

fun tenants_step :: "tenants_page \<Rightarrow> tenants_action \<Rightarrow> tenants_page \<times> console_out list" where
  "tenants_step p (TenantsAnswer n st q d) =
     (p\<lparr>tp_answers := (tp_answers p)((n, st, q) := answered d (tp_answers p (n, st, q)))\<rparr>, [])"
| "tenants_step p (TypeSearch s) = (p\<lparr>tp_searchVal := s\<rparr>, [])"
| "tenants_step p SearchSubmit = (handleSearchSubmit p, [])"
| "tenants_step p (StatusTab s) = (handleStatusTabChange s p, [])"
| "tenants_step p PrevTenants = (p\<lparr>tp_page := max 1 (tp_page p - 1)\<rparr>, [])"
| "tenants_step p NextTenants = (p\<lparr>tp_page := min (tenantPages p) (tp_page p + 1)\<rparr>, [])"
| "tenants_step p (ToggleMenu x) =
     (p\<lparr>tp_openMenuId := (if tp_openMenuId p = Some x then None else Some x)\<rparr>, [])"
| "tenants_step p CloseMenu = (p\<lparr>tp_openMenuId := None\<rparr>, [])"
| "tenants_step p (AskImpersonate t) = (p\<lparr>tp_impersonateTenant := Some t, tp_openMenuId := None\<rparr>, [])"
| "tenants_step p (AskBilling t) = (p\<lparr>tp_billingTenant := Some t, tp_openMenuId := None\<rparr>, [])"
| "tenants_step p (AskSuspendTenant t) = (p\<lparr>tp_suspendTenant := Some t, tp_openMenuId := None\<rparr>, [])"
| "tenants_step p (AskReactivateTenant t) = (p\<lparr>tp_reactivateTenant := Some t, tp_openMenuId := None\<rparr>, [])"
| "tenants_step p (PickDuration d) = (p\<lparr>tp_impersonateDuration := d\<rparr>, [])"
| "tenants_step p (TypeReason s) = (p\<lparr>tp_suspendReason := s\<rparr>, [])"
| "tenants_step p CancelImpersonate = (p\<lparr>tp_impersonateTenant := None\<rparr>, [])"
| "tenants_step p CancelSuspendTenant = (p\<lparr>tp_suspendTenant := None, tp_suspendReason := []\<rparr>, [])"
| "tenants_step p CancelReactivateTenant = (p\<lparr>tp_reactivateTenant := None\<rparr>, [])"
| "tenants_step p CancelBilling = (p\<lparr>tp_billingTenant := None\<rparr>, [])"
| "tenants_step p StartSession = handleStartImpersonation p"
| "tenants_step p ConfirmSuspendTenant = handleConfirmSuspend p"
| "tenants_step p ConfirmReactivateTenant = handleConfirmReactivate p"
| "tenants_step p SendStkPush = handleConfirmBilling p"
| "tenants_step p (ImpersonateOk token newTab) = impersonateOk token newTab p"
| "tenants_step p (ImpersonateFailed m) =
     (p\<lparr>tp_impersonating := None\<rparr>, [Complain (orElse (Some m) ''Failed to impersonate tenant'')])"
| "tenants_step p SuspendTenantOk =
     (p\<lparr>tp_suspending := None, tp_suspendTenant := None, tp_suspendReason := []\<rparr>,
      [Say (''Suspended tenant '' @ snd (the (tp_suspending p)))])"
| "tenants_step p (SuspendTenantFailed m) =
     (p\<lparr>tp_suspending := None\<rparr>, [Complain (orElse (Some m) ''Failed to suspend tenant'')])"
| "tenants_step p ReactivateTenantOk =
     (p\<lparr>tp_reactivating := None, tp_reactivateTenant := None\<rparr>,
      [Say (''Reactivated tenant '' @ snd (the (tp_reactivating p)))])"
| "tenants_step p (ReactivateTenantFailed m) =
     (p\<lparr>tp_reactivating := None\<rparr>, [Complain (orElse (Some m) ''Failed to reactivate tenant'')])"
| "tenants_step p BillingOk =
     (p\<lparr>tp_billing := None, tp_billingTenant := None\<rparr>,
      [Say (''Manual billing payment triggered for '' @ snd (the (tp_billing p)))])"
| "tenants_step p (BillingFailed m) =
     (p\<lparr>tp_billing := None\<rparr>, [Complain (orElse (Some m) ''Failed to trigger billing push'')])"
| "tenants_step p (MessageEvent sameOrigin msg) =
     (let (h, posts) = handleReady sameOrigin msg (tp_handshake p) in (p\<lparr>tp_handshake := h\<rparr>, posts))"

text \<open>What the page renders.\<close>

definition customerPercentage :: "tenant \<Rightarrow> int" where
  "customerPercentage t =
     (let current = tn_current_customer_count t;
          cap = (if tn_max_customers t = 0 then 100 else tn_max_customers t)
      in min 100 (mathRound (of_int current / of_int cap * 100)))"

definition progressBarColor :: "int \<Rightarrow> string" where
  "progressBarColor percentage =
     (if 100 \<le> percentage then ''red'' else if 80 \<le> percentage then ''amber'' else ''teal'')"

definition tenantMenu :: "tenant \<Rightarrow> tenants_action view list" where
  "tenantMenu t =
     (let g = (tn_id t, tn_business_name t)
      in [Btn False [] CloseMenu, Link (''/super-admin/tenants/'' @ tn_id t) [Txt ''View Details''],
          Btn False [Txt ''Impersonate''] (AskImpersonate g), Btn False [Txt ''Trigger Billing''] (AskBilling g),
          (if tn_status t \<noteq> ''suspended'' then Btn False [Txt ''Suspend''] (AskSuspendTenant g)
           else Btn False [Txt ''Reactivate''] (AskReactivateTenant g))])"

definition tenantRow :: "tenants_page \<Rightarrow> tenant \<Rightarrow> tenants_action view" where
  "tenantRow p t = Group
     ([Txt (tn_business_name t), Txt (tn_owner_email t), Txt (tn_subscription_tier t),
       Txt (showInt (tn_current_customer_count t) @ '' / ''
            @ showInt (if tn_max_customers t = 0 then 100 else tn_max_customers t)),
       Txt (showInt (customerPercentage t) @ ''%''), Txt (tn_billing_status t), Txt (tn_status t),
       Btn False [] (ToggleMenu (tn_id t))]
      @ onlyIf (tp_openMenuId p = Some (tn_id t)) (tenantMenu t))"

definition tenantsPager :: "tenants_page \<Rightarrow> tenants_action view list" where
  "tenantsPager p =
     onlyIf (1 < tenantPages p)
       [Txt ''Showing Page '', Txt (showNat (tp_page p)), Txt '' of '', Txt (showNat (tenantPages p)),
        Txt (''('' @ showNat (tenantTotal p) @ '' total)''),
        Btn (tp_page p = 1) [Txt ''Previous''] PrevTenants,
        Btn (tp_page p = tenantPages p) [Txt ''Next''] NextTenants]"

definition durationButtons :: "(int \<Rightarrow> 'a) \<Rightarrow> 'a view list" where
  "durationButtons act = map (\<lambda>d. Btn False [Txt (showInt d @ '' Min'')] (act d)) [15, 30, 60]"

definition impersonateDialog :: "tenants_page \<Rightarrow> tenants_action view list" where
  "impersonateDialog p =
     onlyIf (tp_impersonateTenant p \<noteq> None)
       ([Txt ''Impersonate Tenant'', Btn False [] CancelImpersonate,
         Txt (''You are about to open a view-as-'' @ snd (the (tp_impersonateTenant p)) @ '' session.''),
         Txt ''All actions taken in this session will be logged against your super admin account.'',
         Txt ''Session Duration'']
        @ durationButtons PickDuration
        @ [Btn False [Txt ''Cancel''] CancelImpersonate,
           Btn (tp_impersonating p \<noteq> None) [Txt ''Start Session''] StartSession])"

definition suspendTenantDialog :: "tenants_page \<Rightarrow> tenants_action view list" where
  "suspendTenantDialog p =
     onlyIf (tp_suspendTenant p \<noteq> None)
       [Txt ''Suspend Tenant'', Btn False [] CancelSuspendTenant,
        Txt (''Are you sure you want to suspend '' @ snd (the (tp_suspendTenant p)) @ ''?''),
        Txt ''This will immediately lock out all users under this tenant.'', Txt ''Suspension Reason'',
        Inp ''Reason must be at least 10 characters...'' (tp_suspendReason p) TypeReason,
        Txt ''The reason is mandatory and recorded in the audit log.'',
        Btn False [Txt ''Cancel''] CancelSuspendTenant,
        Btn (tp_suspending p \<noteq> None \<or> jsLength (tp_suspendReason p) < 10) [Txt ''Confirm Suspension'']
          ConfirmSuspendTenant]"

definition reactivateTenantDialog :: "tenants_page \<Rightarrow> tenants_action view list" where
  "reactivateTenantDialog p =
     onlyIf (tp_reactivateTenant p \<noteq> None)
       [Txt ''Reactivate Tenant'', Btn False [] CancelReactivateTenant,
        Txt (''Are you sure you want to reactivate '' @ snd (the (tp_reactivateTenant p))
             @ ''? All users under this tenant will be allowed to log in again immediately.''),
        Btn False [Txt ''Cancel''] CancelReactivateTenant,
        Btn (tp_reactivating p \<noteq> None) [Txt ''Confirm Reactivation''] ConfirmReactivateTenant]"

definition billingDialog :: "tenants_page \<Rightarrow> tenants_action view list" where
  "billingDialog p =
     onlyIf (tp_billingTenant p \<noteq> None)
       [Txt ''Trigger Platform Billing'', Btn False [] CancelBilling,
        Txt (''This will trigger a manual M-Pesa STK push for Frixel Connect platform fees directly to the owner's phone for ''
             @ snd (the (tp_billingTenant p)) @ ''. Proceed?''),
        Btn False [Txt ''Cancel''] CancelBilling,
        Btn (tp_billing p \<noteq> None) [Txt ''Send STK Push''] SendStkPush]"

definition tenantTabs :: "string list" where
  "tenantTabs = [''all'', ''active'', ''suspended'', ''grace'', ''cancelled'']"

definition tenantsView :: "tenants_page \<Rightarrow> tenants_action view" where
  "tenantsView p = Group
     ([Txt ''ISP Tenants'', Txt ''Manage and audit all registered ISP accounts on Frixel Connect.'']
      @ tabList StatusTab (map (\<lambda>t. (t, t)) tenantTabs)
      @ [Inp ''Search by name or email...'' (tp_searchVal p) TypeSearch, Btn False [Txt ''Search''] SearchSubmit]
      @ headers [''Business Name'', ''Owner Email'', ''Tier'', ''Customers'', ''Billing'', ''Status'', ''Actions'']
      @ tableBody (isLoadingQuery (tenantsData p)) ''No ISP business tenants match these parameters.''
          (tenantRow p) (listedTenants p)
      @ tenantsPager p @ impersonateDialog p @ suspendTenantDialog p @ reactivateTenantDialog p @ billingDialog p)"

fun tenants_ok :: "tenants_page \<Rightarrow> tenants_action \<Rightarrow> bool" where
  "tenants_ok p (TenantsAnswer n st q d) = True"
| "tenants_ok p (MessageEvent b m) = True"
| "tenants_ok p (ImpersonateOk t w) = (tp_impersonating p \<noteq> None)"
| "tenants_ok p (ImpersonateFailed m) = (tp_impersonating p \<noteq> None)"
| "tenants_ok p SuspendTenantOk = (tp_suspending p \<noteq> None)"
| "tenants_ok p (SuspendTenantFailed m) = (tp_suspending p \<noteq> None)"
| "tenants_ok p ReactivateTenantOk = (tp_reactivating p \<noteq> None)"
| "tenants_ok p (ReactivateTenantFailed m) = (tp_reactivating p \<noteq> None)"
| "tenants_ok p BillingOk = (tp_billing p \<noteq> None)"
| "tenants_ok p (BillingFailed m) = (tp_billing p \<noteq> None)"
| "tenants_ok p a = offers (tenantsView p) a"

section \<open>One tenant\<close>

text \<open>The page uses one impersonation mutation for two purposes: to start a session, and to get a
  short-lived token for the tenant's audit log. The query library calls the callbacks given to
  \<open>mutate\<close> only for the latest call of a mutation, and its pending flag is that of the latest call;
  the promise of \<open>mutateAsync\<close> is settled in any case. Calls are numbered in their order.\<close>

datatype impersonation_call = StartCall string | AuditCall

record tenant_log =
  tl_id :: string
  tl_action :: string
  tl_target_type :: string
  tl_created_at :: string
  tl_actor_email :: "string option"

record detail_page =
  td_id :: "string option"
  td_activeTab :: string
  td_showImpersonateModal :: bool
  td_impersonateDuration :: int
  td_showSuspendModal :: bool
  td_suspendReason :: string
  td_tenantAuditLogs :: "tenant_log list"
  td_auditLoading :: bool
  td_tenant :: "tenant_detail fetched"
  td_calls :: "(nat \<times> impersonation_call) list"
  td_nextCall :: nat
  td_logFetches :: "string list"
  td_suspending :: "string option"
  td_reactivating :: "string option"
  td_handshake :: handshake

datatype detail_action =
    TenantAnswer "tenant_detail option"
  | BackToTenants
  | SetTenantTab string
  | OpenImpersonate
  | CloseImpersonate
  | SetDuration int
  | StartTenantSession
  | OpenSuspend
  | CloseSuspend
  | SuspendReason string
  | ConfirmTenantSuspension
  | ReactivateTenantClick
  | CallOk nat string bool
  | CallFailed nat string
  | LogOk string "tenant_log list option"
  | LogFailed string
  | TenantSuspended
  | TenantSuspendFailed string
  | TenantReactivated
  | TenantReactivateFailed string
  | DetailMessage bool string

definition detail0 :: "string option \<Rightarrow> detail_page" where
  "detail0 i =
     \<lparr>td_id = i, td_activeTab = ''overview'', td_showImpersonateModal = False, td_impersonateDuration = 30,
      td_showSuspendModal = False, td_suspendReason = [], td_tenantAuditLogs = [], td_auditLoading = False,
      td_tenant = FLoading, td_calls = [], td_nextCall = 0, td_logFetches = [], td_suspending = None,
      td_reactivating = None, td_handshake = handshake0\<rparr>"

definition impersonatePending :: "detail_page \<Rightarrow> bool" where
  "impersonatePending p \<longleftrightarrow> 0 < td_nextCall p \<and> td_nextCall p - 1 \<in> fst ` set (td_calls p)"

definition startCall :: "impersonation_call \<Rightarrow> int \<Rightarrow> detail_page \<Rightarrow> detail_page \<times> console_out list" where
  "startCall c duration p =
     (p\<lparr>td_calls := td_calls p @ [(td_nextCall p, c)], td_nextCall := Suc (td_nextCall p)\<rparr>,
      [Send (useImpersonateTenant (the (td_id p)) duration)])"

definition loadTenantAuditLogs :: "detail_page \<Rightarrow> detail_page \<times> console_out list" where
  "loadTenantAuditLogs p =
     (if \<not> truthy (td_id p) then (p, []) else startCall AuditCall 5 (p\<lparr>td_auditLoading := True\<rparr>))"

text \<open>The effect on \<open>[activeTab]\<close>.\<close>

definition setActiveTab :: "string \<Rightarrow> detail_page \<Rightarrow> detail_page \<times> console_out list" where
  "setActiveTab t p =
     (let p1 = p\<lparr>td_activeTab := t\<rparr>
      in if td_activeTab p \<noteq> t \<and> t = ''audit'' \<and> td_tenantAuditLogs p = [] then loadTenantAuditLogs p1 else (p1, []))"

definition detailStartImpersonation :: "detail_page \<Rightarrow> detail_page \<times> console_out list" where
  "detailStartImpersonation p =
     (case dataOf (td_tenant p) of
        Some t \<Rightarrow> if truthy (td_id p) then startCall (StartCall (tn_business_name t)) (td_impersonateDuration p) p else (p, [])
      | None \<Rightarrow> (p, []))"

definition logFailed :: "detail_page \<Rightarrow> detail_page \<times> console_out list" where
  "logFailed p = (p\<lparr>td_auditLoading := False\<rparr>, [Complain ''Failed to load tenant audit logs''])"

definition auditTokenOk :: "string \<Rightarrow> detail_page \<Rightarrow> detail_page \<times> console_out list" where
  "auditTokenOk token p = (p\<lparr>td_logFetches := td_logFetches p @ [token]\<rparr>, [FetchTenantLog token])"

definition sessionOk :: "string \<Rightarrow> string \<Rightarrow> bool \<Rightarrow> detail_page \<Rightarrow> detail_page \<times> console_out list" where
  "sessionOk name token newTab p =
     (p\<lparr>td_showImpersonateModal := False, td_handshake := openImpersonation token newTab (td_handshake p)\<rparr>,
      [Say (''Opening impersonation session for '' @ name), OpenTab ''/admin/dashboard''])"

definition callOk :: "nat \<Rightarrow> string \<Rightarrow> bool \<Rightarrow> detail_page \<Rightarrow> detail_page \<times> console_out list" where
  "callOk n token newTab p =
     (let p1 = p\<lparr>td_calls := filter (\<lambda>c. fst c \<noteq> n) (td_calls p)\<rparr>
      in case map_of (td_calls p) n of
           Some AuditCall \<Rightarrow> auditTokenOk token p1
         | Some (StartCall name) \<Rightarrow> if Suc n = td_nextCall p then sessionOk name token newTab p1 else (p1, [])
         | None \<Rightarrow> (p, []))"

definition callFailed :: "nat \<Rightarrow> string \<Rightarrow> detail_page \<Rightarrow> detail_page \<times> console_out list" where
  "callFailed n m p =
     (let p1 = p\<lparr>td_calls := filter (\<lambda>c. fst c \<noteq> n) (td_calls p)\<rparr>
      in case map_of (td_calls p) n of
           Some AuditCall \<Rightarrow> logFailed p1
         | Some (StartCall name) \<Rightarrow>
             (p1, if Suc n = td_nextCall p then [Complain (orElse (Some m) ''Impersonation failed'')] else [])
         | None \<Rightarrow> (p, []))"

definition detailConfirmSuspend :: "detail_page \<Rightarrow> detail_page \<times> console_out list" where
  "detailConfirmSuspend p =
     (case dataOf (td_tenant p) of
        Some t \<Rightarrow>
          if truthy (td_id p) \<and> 10 \<le> jsLength (td_suspendReason p)
          then (p\<lparr>td_suspending := Some (tn_business_name t)\<rparr>, [Send (useSuspendTenant (the (td_id p)) (td_suspendReason p))])
          else (p, [])
      | None \<Rightarrow> (p, []))"

definition handleReactivate :: "detail_page \<Rightarrow> detail_page \<times> console_out list" where
  "handleReactivate p =
     (case dataOf (td_tenant p) of
        Some t \<Rightarrow>
          if truthy (td_id p)
          then (p\<lparr>td_reactivating := Some (tn_business_name t)\<rparr>, [Send (useReactivateTenant (the (td_id p)))])
          else (p, [])
      | None \<Rightarrow> (p, []))"

definition detailQuery :: "detail_page \<Rightarrow> query" where
  "detailQuery p = useTenantDetail (orElse (td_id p) [])"

fun detail_step :: "detail_page \<Rightarrow> detail_action \<Rightarrow> detail_page \<times> console_out list" where
  "detail_step p (TenantAnswer d) = (p\<lparr>td_tenant := answered d (td_tenant p)\<rparr>, [])"
| "detail_step p BackToTenants = (p, [ConsoleGoto ''/super-admin/tenants''])"
| "detail_step p (SetTenantTab t) = setActiveTab t p"
| "detail_step p OpenImpersonate = (p\<lparr>td_showImpersonateModal := True\<rparr>, [])"
| "detail_step p CloseImpersonate = (p\<lparr>td_showImpersonateModal := False\<rparr>, [])"
| "detail_step p (SetDuration d) = (p\<lparr>td_impersonateDuration := d\<rparr>, [])"
| "detail_step p StartTenantSession = detailStartImpersonation p"
| "detail_step p OpenSuspend = (p\<lparr>td_showSuspendModal := True\<rparr>, [])"
| "detail_step p CloseSuspend = (p\<lparr>td_showSuspendModal := False, td_suspendReason := []\<rparr>, [])"
| "detail_step p (SuspendReason s) = (p\<lparr>td_suspendReason := s\<rparr>, [])"
| "detail_step p ConfirmTenantSuspension = detailConfirmSuspend p"
| "detail_step p ReactivateTenantClick = handleReactivate p"
| "detail_step p (CallOk n token newTab) = callOk n token newTab p"
| "detail_step p (CallFailed n m) = callFailed n m p"
| "detail_step p (LogOk token items) =
     (p\<lparr>td_logFetches := remove1 token (td_logFetches p), td_tenantAuditLogs := nullish items [], td_auditLoading := False\<rparr>, [])"
| "detail_step p (LogFailed token) = logFailed (p\<lparr>td_logFetches := remove1 token (td_logFetches p)\<rparr>)"
| "detail_step p TenantSuspended =
     (p\<lparr>td_suspending := None, td_showSuspendModal := False, td_suspendReason := []\<rparr>,
      [Say (''Suspended tenant '' @ the (td_suspending p)), RefetchQuery (detailQuery p)])"
| "detail_step p (TenantSuspendFailed m) =
     (p\<lparr>td_suspending := None\<rparr>, [Complain (orElse (Some m) ''Failed to suspend tenant'')])"
| "detail_step p TenantReactivated =
     (p\<lparr>td_reactivating := None\<rparr>,
      [Say (''Reactivated tenant '' @ the (td_reactivating p)), RefetchQuery (detailQuery p)])"
| "detail_step p (TenantReactivateFailed m) =
     (p\<lparr>td_reactivating := None\<rparr>, [Complain (orElse (Some m) ''Failed to reactivate tenant'')])"
| "detail_step p (DetailMessage sameOrigin msg) =
     (let (h, posts) = handleReady sameOrigin msg (td_handshake p) in (p\<lparr>td_handshake := h\<rparr>, posts))"

definition noStats :: tenant_stats where
  "noStats = \<lparr>ts_total_customers = 0, ts_active_customers = 0, ts_total_active_routers = 0, ts_total_active_vouchers = 0,
     ts_total_revenue_kes = 0, ts_last_payment_at = None\<rparr>"

definition detailActions :: "detail_page \<Rightarrow> tenant_detail \<Rightarrow> detail_action view list" where
  "detailActions p t =
     [Btn False [] BackToTenants, Txt (tn_business_name t), Txt (tn_status t), Txt (''Tenant ID: '' @ tn_id t),
      Btn False [Txt ''Impersonate Tenant''] OpenImpersonate,
      (if tn_status t \<noteq> ''suspended'' then Btn False [Txt ''Suspend Tenant''] OpenSuspend
       else Btn (td_reactivating p \<noteq> None) [Txt ''Reactivate Tenant''] ReactivateTenantClick)]"

text \<open>The page shows whole shillings.\<close>

definition detailKES :: "intl \<Rightarrow> int \<Rightarrow> string" where
  "detailKES i amount = numberFormatKES i 0 amount"

definition statCards :: "intl \<Rightarrow> tenant_stats \<Rightarrow> detail_action view list" where
  "statCards i s =
     [Txt ''Total Revenue'', Txt (detailKES i (ts_total_revenue_kes s)), Txt ''Customers'',
      Txt (showInt (ts_active_customers s)), Txt (''/ '' @ showInt (ts_total_customers s) @ '' active''),
      Txt ''Active Routers'', Txt (showInt (ts_total_active_routers s)), Txt ''Active Vouchers'',
      Txt (showInt (ts_total_active_vouchers s))]"

definition overviewPanel :: "intl \<Rightarrow> tenant_detail \<Rightarrow> detail_action view list" where
  "overviewPanel i t =
     [Txt ''Business Profile'', Txt ''Business Name'', Txt (tn_business_name t), Txt ''Owner Email'',
      Txt (tn_owner_email t), Txt ''Owner Phone'', Txt (tn_owner_phone t), Txt ''Created Date'',
      Txt (showDate i (tn_created_at t)), Txt ''Subscription & Billing'', Txt ''Subscription Tier'',
      Txt (tn_subscription_tier t), Txt ''Customer Capacity Limit'', Txt (showInt (tn_max_customers t) @ '' users max''),
      Txt ''Next Billing Renewal'',
      Txt (if tn_next_billing_date t \<noteq> [] then showDate i (tn_next_billing_date t) else ''N/A''),
      Txt ''Last Payment Activity'',
      (let s = nullish (tn_stats t) noStats
       in Txt (if truthy (ts_last_payment_at s) then showDate i (the (ts_last_payment_at s)) else ''No payment activity''))]"

definition logRow :: "intl \<Rightarrow> tenant_log \<Rightarrow> detail_action view" where
  "logRow i l = Group
     [Txt (showDate i (tl_created_at l)), Txt (orElse (tl_actor_email l) ''System''), Txt (tl_action l),
      Txt (tl_target_type l)]"

definition auditPanel :: "intl \<Rightarrow> detail_page \<Rightarrow> detail_action view list" where
  "auditPanel i p =
     [Txt ''Tenant Action Log''] @ headers [''Timestamp'', ''Actor'', ''Action'', ''Target'']
     @ (if td_tenantAuditLogs p \<noteq> [] then map (logRow i) (td_tenantAuditLogs p)
        else [Txt (if td_auditLoading p then ''Fetching tenant logs...'' else ''No logs recorded for this tenant.'')])"

definition detailImpersonateDialog :: "detail_page \<Rightarrow> tenant_detail \<Rightarrow> detail_action view list" where
  "detailImpersonateDialog p t =
     onlyIf (td_showImpersonateModal p)
       ([Txt ''Impersonate Tenant'', Btn False [] CloseImpersonate,
         Txt (''You are about to open a view-as-'' @ tn_business_name t @ '' session.''),
         Txt ''All actions taken in this session will be logged against your super admin account.'',
         Txt ''Session Duration'']
        @ durationButtons SetDuration
        @ [Btn False [Txt ''Cancel''] CloseImpersonate,
           Btn (impersonatePending p) [Txt ''Start Session''] StartTenantSession])"

definition detailSuspendDialog :: "detail_page \<Rightarrow> tenant_detail \<Rightarrow> detail_action view list" where
  "detailSuspendDialog p t =
     onlyIf (td_showSuspendModal p)
       [Txt ''Suspend Tenant'', Btn False [] CloseSuspend,
        Txt (''Are you sure you want to suspend '' @ tn_business_name t @ ''?''),
        Txt ''This will immediately lock out all users under this tenant.'', Txt ''Suspension Reason'',
        Inp ''Reason must be at least 10 characters...'' (td_suspendReason p) SuspendReason,
        Txt ''The reason is mandatory and recorded in the audit log.'', Btn False [Txt ''Cancel''] CloseSuspend,
        Btn (td_suspending p \<noteq> None \<or> jsLength (td_suspendReason p) < 10) [Txt ''Confirm Suspension'']
          ConfirmTenantSuspension]"

definition detailView :: "intl \<Rightarrow> detail_page \<Rightarrow> detail_action view" where
  "detailView i p = Group
     (if truthy (td_id p) \<and> isLoadingQuery (td_tenant p) then []
      else case dataOf (td_tenant p) of
             None \<Rightarrow> [Txt ''Tenant not found.'', Btn False [Txt ''Back to Tenants''] BackToTenants]
           | Some t \<Rightarrow>
               detailActions p t @ statCards i (nullish (tn_stats t) noStats)
               @ tabList SetTenantTab [(''overview'', ''Overview''), (''audit'', ''Audit Log'')]
               @ onlyIf (td_activeTab p = ''overview'') (overviewPanel i t)
               @ onlyIf (td_activeTab p = ''audit'') (auditPanel i p)
               @ detailImpersonateDialog p t @ detailSuspendDialog p t)"

fun detail_ok :: "intl \<Rightarrow> detail_page \<Rightarrow> detail_action \<Rightarrow> bool" where
  "detail_ok i p (TenantAnswer d) = truthy (td_id p)"
| "detail_ok i p (DetailMessage b m) = True"
| "detail_ok i p (CallOk n t w) = (n \<in> fst ` set (td_calls p))"
| "detail_ok i p (CallFailed n m) = (n \<in> fst ` set (td_calls p))"
| "detail_ok i p (LogOk t d) = (t \<in> set (td_logFetches p))"
| "detail_ok i p (LogFailed t) = (t \<in> set (td_logFetches p))"
| "detail_ok i p TenantSuspended = (td_suspending p \<noteq> None)"
| "detail_ok i p (TenantSuspendFailed m) = (td_suspending p \<noteq> None)"
| "detail_ok i p TenantReactivated = (td_reactivating p \<noteq> None)"
| "detail_ok i p (TenantReactivateFailed m) = (td_reactivating p \<noteq> None)"
| "detail_ok i p a = offers (detailView i p) a"

section \<open>The handshake between the tabs\<close>

text \<open>The console's tab, the tabs it opened with the state of their start-up script, and the messages on
  their way: \<open>impersonation_ready\<close> to the console, tokens to the tabs. A new tab starts with a copy
  of the console's session storage. \<open>br_issued\<close> records the token each tab was opened for. A script
  that is not running, before the first load or during a reload, hears nothing.\<close>

record browser =
  br_console :: handshake
  br_session :: storage
  br_tabs :: "boot list"
  br_ready :: nat
  br_mail :: "(nat \<times> string) list"
  br_issued :: "string list"

datatype browser_event =
    TabOpened string
  | PopupBlocked string
  | TabLoads nat storage
  | ConsoleReceives
  | TabReceives nat string
  | ForeignMessage nat string

definition browser0 :: "storage \<Rightarrow> browser" where
  "browser0 s = \<lparr>br_console = handshake0, br_session = s, br_tabs = [], br_ready = 0, br_mail = [], br_issued = []\<rparr>"

fun postsOf :: "console_out list \<Rightarrow> (nat \<times> string) list" where
  "postsOf [] = []"
| "postsOf (PostToTab i t # rs) = (i, t) # postsOf rs"
| "postsOf (_ # rs) = postsOf rs"

fun browser_step :: "browser \<Rightarrow> browser_event \<Rightarrow> browser" where
  "browser_step b (TabOpened token) =
     b\<lparr>br_console := openImpersonation token True (br_console b),
       br_tabs := br_tabs b @ [\<lparr>bt_dark = False, bt_session = br_session b, bt_listening = False\<rparr>],
       br_issued := br_issued b @ [token]\<rparr>"
| "browser_step b (PopupBlocked token) = b\<lparr>br_console := openImpersonation token False (br_console b)\<rparr>"
| "browser_step b (TabLoads i l) =
     (if i < length (br_tabs b)
      then (let (t, fx) = boot_start True l (bt_session (br_tabs b ! i))
            in b\<lparr>br_tabs := (br_tabs b)[i := t], br_ready := br_ready b + length (filter ((=) PostReady) fx)\<rparr>)
      else b)"
| "browser_step b ConsoleReceives =
     (if 0 < br_ready b
      then (let (h, posts) = handleReady True ''impersonation_ready'' (br_console b)
            in b\<lparr>br_console := h, br_ready := br_ready b - 1, br_mail := br_mail b @ postsOf posts\<rparr>)
      else b)"
| "browser_step b (TabReceives i token) =
     (if i < length (br_tabs b) \<and> (i, token) \<in> set (br_mail b)
      then b\<lparr>br_mail := remove1 (i, token) (br_mail b),
             br_tabs := (br_tabs b)[i := fst (handleImpersonationToken True (Some ''impersonation_token'') token (br_tabs b ! i))]\<rparr>
      else b)"
| "browser_step b (ForeignMessage i token) =
     (if i < length (br_tabs b)
      then b\<lparr>br_tabs := (br_tabs b)[i := fst (handleImpersonationToken False (Some ''impersonation_token'') token (br_tabs b ! i))]\<rparr>
      else b)"

section \<open>Lemmas\<close>

text \<open>What the list of tenants offers.\<close>

lemma offers_tenantRow:
  "offers (tenantRow p t) a \<longleftrightarrow> a = ToggleMenu (tn_id t)
     \<or> (tp_openMenuId p = Some (tn_id t) \<and>
         (a = CloseMenu \<or> a = AskImpersonate (tn_id t, tn_business_name t) \<or> a = AskBilling (tn_id t, tn_business_name t)
          \<or> (a = AskSuspendTenant (tn_id t, tn_business_name t) \<and> tn_status t \<noteq> ''suspended'')
          \<or> (a = AskReactivateTenant (tn_id t, tn_business_name t) \<and> tn_status t = ''suspended'')))"
  by (auto simp: tenantRow_def tenantMenu_def Let_def form_offers offers_simps(5))

lemma offers_durationButtons:
  "list_ex (\<lambda>v. offers v a) (durationButtons act) \<longleftrightarrow> (\<exists>d \<in> {15, 30, 60}. a = act d)"
  by (auto simp: durationButtons_def form_offers)

lemma offers_tenantsPager:
  "list_ex (\<lambda>v. offers v a) (tenantsPager p) \<longleftrightarrow> 1 < tenantPages p
     \<and> (a = PrevTenants \<and> tp_page p \<noteq> 1 \<or> a = NextTenants \<and> tp_page p \<noteq> tenantPages p)"
  by (auto simp: tenantsPager_def form_offers)

lemma offers_tenant_dialogs:
  "list_ex (\<lambda>v. offers v a) (impersonateDialog p) \<longleftrightarrow> tp_impersonateTenant p \<noteq> None
     \<and> (a = CancelImpersonate \<or> (\<exists>d \<in> {15, 30, 60}. a = PickDuration d) \<or> a = StartSession \<and> tp_impersonating p = None)"
  "list_ex (\<lambda>v. offers v a) (suspendTenantDialog p) \<longleftrightarrow> tp_suspendTenant p \<noteq> None
     \<and> (a = CancelSuspendTenant \<or> (\<exists>s. a = TypeReason s)
        \<or> a = ConfirmSuspendTenant \<and> tp_suspending p = None \<and> 10 \<le> jsLength (tp_suspendReason p))"
  "list_ex (\<lambda>v. offers v a) (reactivateTenantDialog p) \<longleftrightarrow> tp_reactivateTenant p \<noteq> None
     \<and> (a = CancelReactivateTenant \<or> a = ConfirmReactivateTenant \<and> tp_reactivating p = None)"
  "list_ex (\<lambda>v. offers v a) (billingDialog p) \<longleftrightarrow> tp_billingTenant p \<noteq> None
     \<and> (a = CancelBilling \<or> a = SendStkPush \<and> tp_billing p = None)"
  by (auto simp: impersonateDialog_def suspendTenantDialog_def reactivateTenantDialog_def billingDialog_def
      form_offers offers_durationButtons simp del: not_None_eq)

lemma offers_tenants:
  "offers (tenantsView p) a \<longleftrightarrow>
     (\<exists>t \<in> set tenantTabs. a = StatusTab t) \<or> (\<exists>s. a = TypeSearch s) \<or> a = SearchSubmit
     \<or> (tenantsData p \<noteq> FLoading \<and> (\<exists>t \<in> set (listedTenants p). offers (tenantRow p t) a))
     \<or> list_ex (\<lambda>v. offers v a) (tenantsPager p) \<or> list_ex (\<lambda>v. offers v a) (impersonateDialog p)
     \<or> list_ex (\<lambda>v. offers v a) (suspendTenantDialog p) \<or> list_ex (\<lambda>v. offers v a) (reactivateTenantDialog p)
     \<or> list_ex (\<lambda>v. offers v a) (billingDialog p)"
  unfolding tenantsView_def by (auto simp: form_offers isLoadingQuery_def)

lemmas tenants_offers = offers_tenants offers_tenantRow offers_tenantsPager offers_tenant_dialogs

lemmas tenants_handlers = handleSearchSubmit_def handleStatusTabChange_def handleStartImpersonation_def impersonateOk_def
  handleConfirmSuspend_def handleConfirmReactivate_def handleConfirmBilling_def handleReady_def

text \<open>The four kinds of changes, each with its request, its answers and its pending flag.\<close>

datatype tenant_change = Suspension | Reactivation | Impersonation | Billing

fun sends :: "tenant_change \<Rightarrow> console_out \<Rightarrow> bool" where
  "sends Suspension (Send m) = (\<exists>t r. m = useSuspendTenant t r)"
| "sends Reactivation (Send m) = (\<exists>t. m = useReactivateTenant t)"
| "sends Impersonation (Send m) = (\<exists>t d. m = useImpersonateTenant t d)"
| "sends Billing (Send m) = (\<exists>t. m = useTriggerBilling t)"
| "sends k _ = False"

lemma sends_mutations [simp]:
  "sends k (Send (useSuspendTenant t r)) \<longleftrightarrow> k = Suspension"
  "sends k (Send (useReactivateTenant t)) \<longleftrightarrow> k = Reactivation"
  "sends k (Send (useImpersonateTenant t d)) \<longleftrightarrow> k = Impersonation"
  "sends k (Send (useTriggerBilling t)) \<longleftrightarrow> k = Billing"
  by (cases k; auto simp: useSuspendTenant_def useReactivateTenant_def useImpersonateTenant_def useTriggerBilling_def
      tenantStatusChanged_def)+

lemma sends_none [simp]: "(\<And>m. r \<noteq> Send m) \<Longrightarrow> \<not> sends k r"
  by (cases r; cases k) auto

fun settles_change :: "tenant_change \<Rightarrow> tenants_action \<Rightarrow> bool" where
  "settles_change Suspension a = (a = SuspendTenantOk \<or> (\<exists>m. a = SuspendTenantFailed m))"
| "settles_change Reactivation a = (a = ReactivateTenantOk \<or> (\<exists>m. a = ReactivateTenantFailed m))"
| "settles_change Impersonation a = ((\<exists>t w. a = ImpersonateOk t w) \<or> (\<exists>m. a = ImpersonateFailed m))"
| "settles_change Billing a = (a = BillingOk \<or> (\<exists>m. a = BillingFailed m))"

fun change_pending :: "tenant_change \<Rightarrow> tenants_page \<Rightarrow> bool" where
  "change_pending Suspension p = (tp_suspending p \<noteq> None)"
| "change_pending Reactivation p = (tp_reactivating p \<noteq> None)"
| "change_pending Impersonation p = (tp_impersonating p \<noteq> None)"
| "change_pending Billing p = (tp_billing p \<noteq> None)"

lemma posts_send_nothing: "filter (sends k) (map (\<lambda>(tb, token). PostToTab tb token) xs) = []"
  by (induction xs) auto

interpretation changes: request_flight tenants_step tenants_ok "change_pending k" "settles_change k" "sends k" for k
proof
  fix p :: tenants_page and a
  show "tenants_ok p a \<Longrightarrow> settles_change k a \<Longrightarrow> change_pending k p
      \<and> \<not> change_pending k (fst (tenants_step p a)) \<and> filter (sends k) (snd (tenants_step p a)) = []"
    by (cases k) (auto simp: tenants_handlers)
  show "tenants_ok p a \<Longrightarrow> \<not> settles_change k a \<Longrightarrow>
      (filter (sends k) (snd (tenants_step p a)) = [] \<and> change_pending k (fst (tenants_step p a)) = change_pending k p)
      \<or> (length (filter (sends k) (snd (tenants_step p a))) = 1 \<and> \<not> change_pending k p
          \<and> change_pending k (fst (tenants_step p a)))"
    by (cases k; cases a)
      (auto simp: tenants_offers tenants_handlers posts_send_nothing simp del: not_None_eq split: option.splits if_splits)
qed

text \<open>Which tenants may be changed: those the service listed, in the status that the change needs.\<close>

definition tenant_listed :: "tenants_action list \<Rightarrow> (tenant \<Rightarrow> bool) \<Rightarrow> target \<Rightarrow> bool" where
  "tenant_listed as P g \<longleftrightarrow> (\<exists>n st q d t. TenantsAnswer n st q (Some d) \<in> set as \<and> t \<in> set (ta_tenants d)
     \<and> g = (tn_id t, tn_business_name t) \<and> P t)"

definition suspendableTenant :: "tenant \<Rightarrow> bool" where
  "suspendableTenant t \<longleftrightarrow> tn_status t \<noteq> ''suspended''"

definition suspendedTenant :: "tenant \<Rightarrow> bool" where
  "suspendedTenant t \<longleftrightarrow> tn_status t = ''suspended''"

text \<open>What the page may cause, given the actions of a run.\<close>

inductive tenant_request_ok :: "tenants_action list \<Rightarrow> console_out \<Rightarrow> bool" for as where
  may_suspend: "tenant_listed as suspendableTenant g \<Longrightarrow> 10 \<le> jsLength reason \<Longrightarrow>
    tenant_request_ok as (Send (useSuspendTenant (fst g) reason))"
| may_reactivate: "tenant_listed as suspendedTenant g \<Longrightarrow> tenant_request_ok as (Send (useReactivateTenant (fst g)))"
| may_bill: "tenant_listed as (\<lambda>_. True) g \<Longrightarrow> tenant_request_ok as (Send (useTriggerBilling (fst g)))"
| may_impersonate: "tenant_listed as (\<lambda>_. True) g \<Longrightarrow> d \<in> {15, 30, 60} \<Longrightarrow>
    tenant_request_ok as (Send (useImpersonateTenant (fst g) d))"
| may_open: "ImpersonateOk token w \<in> set as \<Longrightarrow> tenant_request_ok as (OpenTab ''/admin/dashboard'')"
| may_post: "ImpersonateOk token True \<in> set as \<Longrightarrow> tenant_request_ok as (PostToTab tb token)"
| may_say: "tenant_request_ok as (Say m)"
| may_complain: "tenant_request_ok as (Complain m)"

declare tenant_request_ok.intros [intro]

definition tenants_known :: "tenants_action list \<Rightarrow> tenants_page \<Rightarrow> bool" where
  "tenants_known as p \<longleftrightarrow>
     (\<forall>n st q d. tp_answers p (n, st, q) = FLoaded d \<longrightarrow> TenantsAnswer n st q (Some d) \<in> set as)
     \<and> (\<forall>g. tp_suspendTenant p = Some g \<longrightarrow> tenant_listed as suspendableTenant g)
     \<and> (\<forall>g. tp_reactivateTenant p = Some g \<longrightarrow> tenant_listed as suspendedTenant g)
     \<and> (\<forall>g. tp_billingTenant p = Some g \<longrightarrow> tenant_listed as (\<lambda>_. True) g)
     \<and> (\<forall>g. tp_impersonateTenant p = Some g \<longrightarrow> tenant_listed as (\<lambda>_. True) g)
     \<and> tp_impersonateDuration p \<in> {15, 30, 60}
     \<and> (\<forall>tb token. (tb, token) \<in> set (hs_listeners (tp_handshake p)) \<longrightarrow> ImpersonateOk token True \<in> set as)"

lemma listedTenants_known:
  assumes "tenants_known as p" and "t \<in> set (listedTenants p)" and "P t"
  shows "tenant_listed as P (tn_id t, tn_business_name t)"
proof -
  from assms(2) obtain d where "tenantsData p = FLoaded d" "t \<in> set (ta_tenants d)"
    by (cases "tenantsData p") (auto simp: listedTenants_def)
  moreover from this assms(1) have "TenantsAnswer (tp_page p) (statusParam p) (searchParam p) (Some d) \<in> set as"
    by (simp add: tenants_known_def tenantsData_def)
  ultimately show ?thesis using assms(3) unfolding tenant_listed_def by blast
qed

lemma tenants_known_step:
  assumes known: "tenants_known as p" and ok: "tenants_ok p a" and a: "a \<in> set as"
  shows "tenants_known as (fst (tenants_step p a)) \<and> (\<forall>r \<in> set (snd (tenants_step p a)). tenant_request_ok as r)"
proof (cases a)
  case (AskImpersonate g)
  with ok listedTenants_known [OF known, of _ "\<lambda>_. True"] have "tenant_listed as (\<lambda>_. True) g"
    by (auto simp: tenants_offers)
  with known AskImpersonate show ?thesis by (simp add: tenants_known_def)
next
  case (AskBilling g)
  with ok listedTenants_known [OF known, of _ "\<lambda>_. True"] have "tenant_listed as (\<lambda>_. True) g"
    by (auto simp: tenants_offers)
  with known AskBilling show ?thesis by (simp add: tenants_known_def)
next
  case (AskSuspendTenant g)
  with ok listedTenants_known [OF known, of _ suspendableTenant] have "tenant_listed as suspendableTenant g"
    by (auto simp: tenants_offers suspendableTenant_def)
  with known AskSuspendTenant show ?thesis by (simp add: tenants_known_def)
next
  case (AskReactivateTenant g)
  with ok listedTenants_known [OF known, of _ suspendedTenant] have "tenant_listed as suspendedTenant g"
    by (auto simp: tenants_offers suspendedTenant_def)
  with known AskReactivateTenant show ?thesis by (simp add: tenants_known_def)
next
  case (TenantsAnswer n st q d)
  with known a show ?thesis by (auto simp: tenants_known_def answered_Loaded)
next
  case (PickDuration d)
  with known ok show ?thesis by (auto simp: tenants_known_def tenants_offers)
next
  case StartSession
  with known show ?thesis
    by (cases "tp_impersonateTenant p") (auto simp: tenants_known_def handleStartImpersonation_def)
next
  case ConfirmSuspendTenant
  with known show ?thesis
    by (cases "tp_suspendTenant p")
      (auto simp: tenants_known_def handleConfirmSuspend_def not_less)
next
  case ConfirmReactivateTenant
  with known show ?thesis
    by (cases "tp_reactivateTenant p") (auto simp: tenants_known_def handleConfirmReactivate_def)
next
  case SendStkPush
  with known show ?thesis
    by (cases "tp_billingTenant p") (auto simp: tenants_known_def handleConfirmBilling_def)
next
  case (ImpersonateOk token w)
  with known a show ?thesis
    by (auto simp: tenants_known_def impersonateOk_def openImpersonation_def)
next
  case (MessageEvent o' m)
  with known show ?thesis by (auto simp: tenants_known_def handleReady_def)
qed (use known in \<open>auto simp: tenants_known_def tenants_handlers\<close>)

text \<open>What the page of one tenant offers.\<close>

lemma offers_detailActions:
  "list_ex (\<lambda>v. offers v a) (detailActions p t) \<longleftrightarrow> a = BackToTenants \<or> a = OpenImpersonate
     \<or> (a = OpenSuspend \<and> tn_status t \<noteq> ''suspended'')
     \<or> (a = ReactivateTenantClick \<and> tn_status t = ''suspended'' \<and> td_reactivating p = None)"
  by (auto simp: detailActions_def form_offers simp del: not_None_eq)

lemma offers_detail_panels [simp]:
  "\<not> list_ex (\<lambda>v. offers v a) (statCards i s)" "\<not> list_ex (\<lambda>v. offers v a) (overviewPanel i t)"
  "\<not> list_ex (\<lambda>v. offers v a) (auditPanel i p)"
  by (simp_all add: statCards_def overviewPanel_def auditPanel_def logRow_def form_offers Let_def)

lemma offers_detail_dialogs:
  "list_ex (\<lambda>v. offers v a) (detailImpersonateDialog p t) \<longleftrightarrow> td_showImpersonateModal p
     \<and> (a = CloseImpersonate \<or> (\<exists>d \<in> {15, 30, 60}. a = SetDuration d) \<or> a = StartTenantSession \<and> \<not> impersonatePending p)"
  "list_ex (\<lambda>v. offers v a) (detailSuspendDialog p t) \<longleftrightarrow> td_showSuspendModal p
     \<and> (a = CloseSuspend \<or> (\<exists>s. a = SuspendReason s)
        \<or> a = ConfirmTenantSuspension \<and> td_suspending p = None \<and> 10 \<le> jsLength (td_suspendReason p))"
  by (auto simp: detailImpersonateDialog_def detailSuspendDialog_def form_offers offers_durationButtons
      simp del: not_None_eq)

lemma offers_detail:
  "offers (detailView i p) a \<longleftrightarrow>
     (if truthy (td_id p) \<and> td_tenant p = FLoading then False
      else case dataOf (td_tenant p) of
             None \<Rightarrow> a = BackToTenants
           | Some t \<Rightarrow> list_ex (\<lambda>v. offers v a) (detailActions p t)
               \<or> a = SetTenantTab ''overview'' \<or> a = SetTenantTab ''audit''
               \<or> list_ex (\<lambda>v. offers v a) (detailImpersonateDialog p t)
               \<or> list_ex (\<lambda>v. offers v a) (detailSuspendDialog p t))"
  unfolding detailView_def by (auto simp: form_offers isLoadingQuery_def split: option.splits)

lemmas detail_offers = offers_detail offers_detailActions offers_detail_dialogs

lemmas detail_handlers = setActiveTab_def loadTenantAuditLogs_def startCall_def detailStartImpersonation_def
  logFailed_def callOk_def auditTokenOk_def sessionOk_def callFailed_def detailConfirmSuspend_def handleReactivate_def handleReady_def Let_def

fun detail_suspension :: "detail_action \<Rightarrow> bool" where
  "detail_suspension TenantSuspended = True"
| "detail_suspension (TenantSuspendFailed m) = True"
| "detail_suspension _ = False"

fun detail_reactivation :: "detail_action \<Rightarrow> bool" where
  "detail_reactivation TenantReactivated = True"
| "detail_reactivation (TenantReactivateFailed m) = True"
| "detail_reactivation _ = False"

interpretation detail_suspensions: request_flight detail_step "detail_ok i" "\<lambda>p. td_suspending p \<noteq> None"
    detail_suspension "sends Suspension" for i
proof
  fix p :: detail_page and a
  show "detail_ok i p a \<Longrightarrow> detail_suspension a \<Longrightarrow> td_suspending p \<noteq> None
      \<and> \<not> td_suspending (fst (detail_step p a)) \<noteq> None \<and> filter (sends Suspension) (snd (detail_step p a)) = []"
    by (cases a) auto
  show "detail_ok i p a \<Longrightarrow> \<not> detail_suspension a \<Longrightarrow>
      (filter (sends Suspension) (snd (detail_step p a)) = []
        \<and> (td_suspending (fst (detail_step p a)) \<noteq> None) = (td_suspending p \<noteq> None))
      \<or> (length (filter (sends Suspension) (snd (detail_step p a))) = 1 \<and> \<not> td_suspending p \<noteq> None
          \<and> td_suspending (fst (detail_step p a)) \<noteq> None)"
    by (cases a) (auto simp: detail_offers detail_handlers posts_send_nothing simp del: not_None_eq
        split: option.splits if_splits impersonation_call.splits)
qed

interpretation detail_reactivations: request_flight detail_step "detail_ok i" "\<lambda>p. td_reactivating p \<noteq> None"
    detail_reactivation "sends Reactivation" for i
proof
  fix p :: detail_page and a
  show "detail_ok i p a \<Longrightarrow> detail_reactivation a \<Longrightarrow> td_reactivating p \<noteq> None
      \<and> \<not> td_reactivating (fst (detail_step p a)) \<noteq> None \<and> filter (sends Reactivation) (snd (detail_step p a)) = []"
    by (cases a) auto
  show "detail_ok i p a \<Longrightarrow> \<not> detail_reactivation a \<Longrightarrow>
      (filter (sends Reactivation) (snd (detail_step p a)) = []
        \<and> (td_reactivating (fst (detail_step p a)) \<noteq> None) = (td_reactivating p \<noteq> None))
      \<or> (length (filter (sends Reactivation) (snd (detail_step p a))) = 1 \<and> \<not> td_reactivating p \<noteq> None
          \<and> td_reactivating (fst (detail_step p a)) \<noteq> None)"
    by (cases a) (auto simp: detail_offers detail_handlers posts_send_nothing simp del: not_None_eq
        split: option.splits if_splits impersonation_call.splits)
qed

text \<open>What the page may cause: changes of its own tenant only, and requests with tokens it was given.\<close>

definition tenant_seen :: "detail_action list \<Rightarrow> (string \<Rightarrow> bool) \<Rightarrow> bool" where
  "tenant_seen as P \<longleftrightarrow> (\<exists>t. TenantAnswer (Some t) \<in> set as \<and> P (tn_status t))"

inductive detail_request_ok :: "string \<Rightarrow> detail_action list \<Rightarrow> console_out \<Rightarrow> bool" for x as where
  own_suspend: "tenant_seen as (\<lambda>s. s \<noteq> ''suspended'') \<Longrightarrow> 10 \<le> jsLength reason \<Longrightarrow>
    detail_request_ok x as (Send (useSuspendTenant x reason))"
| own_reactivate: "tenant_seen as (\<lambda>s. s = ''suspended'') \<Longrightarrow> detail_request_ok x as (Send (useReactivateTenant x))"
| own_impersonate: "d \<in> {5, 15, 30, 60} \<Longrightarrow> detail_request_ok x as (Send (useImpersonateTenant x d))"
| own_log: "CallOk n token w \<in> set as \<Longrightarrow> detail_request_ok x as (FetchTenantLog token)"
| own_open: "CallOk n token w \<in> set as \<Longrightarrow> detail_request_ok x as (OpenTab ''/admin/dashboard'')"
| own_post: "CallOk n token True \<in> set as \<Longrightarrow> detail_request_ok x as (PostToTab tb token)"
| own_back: "detail_request_ok x as (ConsoleGoto ''/super-admin/tenants'')"
| own_refetch: "detail_request_ok x as (RefetchQuery (useTenantDetail x))"
| own_say: "detail_request_ok x as (Say m)"
| own_complain: "detail_request_ok x as (Complain m)"

declare detail_request_ok.intros [intro]

definition detail_known :: "string \<Rightarrow> detail_action list \<Rightarrow> detail_page \<Rightarrow> bool" where
  "detail_known x as p \<longleftrightarrow> td_id p = Some x
     \<and> (\<forall>t. td_tenant p = FLoaded t \<longrightarrow> TenantAnswer (Some t) \<in> set as)
     \<and> (td_showSuspendModal p \<longrightarrow> tenant_seen as (\<lambda>s. s \<noteq> ''suspended''))
     \<and> td_impersonateDuration p \<in> {15, 30, 60}
     \<and> (\<forall>token \<in> set (td_logFetches p). \<exists>n w. CallOk n token w \<in> set as)
     \<and> (td_tenantAuditLogs p \<noteq> [] \<longrightarrow>
          (\<exists>n w token. CallOk n token w \<in> set as \<and> LogOk token (Some (td_tenantAuditLogs p)) \<in> set as))
     \<and> (\<forall>tb token. (tb, token) \<in> set (hs_listeners (td_handshake p)) \<longrightarrow> (\<exists>n. CallOk n token True \<in> set as))"

lemma detail_known_step:
  assumes known: "detail_known x as p" and x: "x \<noteq> []" and ok: "detail_ok i p a" and a: "a \<in> set as"
  shows "detail_known x as (fst (detail_step p a)) \<and> (\<forall>r \<in> set (snd (detail_step p a)). detail_request_ok x as r)"
proof -
  note K = known [unfolded detail_known_def]
  show ?thesis
  proof (cases a)
    case (TenantAnswer d)
    with K a show ?thesis by (auto simp: detail_known_def answered_Loaded)
  next
    case (SetTenantTab t)
    with K show ?thesis by (auto simp: detail_known_def detail_handlers)
  next
    case (SetDuration d)
    with K ok show ?thesis by (auto simp: detail_known_def detail_offers split: option.splits if_splits)
  next
    case OpenSuspend
    with K ok have "tenant_seen as (\<lambda>s. s \<noteq> ''suspended'')"
      by (cases "td_tenant p") (auto simp: detail_offers tenant_seen_def split: if_splits)
    with K OpenSuspend show ?thesis by (auto simp: detail_known_def)
  next
    case StartTenantSession
    with K show ?thesis by (cases "td_tenant p") (auto simp: detail_known_def detail_handlers)
  next
    case ConfirmTenantSuspension
    with ok have "td_showSuspendModal p" by (auto simp: detail_offers split: option.splits if_splits)
    with K ConfirmTenantSuspension show ?thesis
      by (cases "td_tenant p") (auto simp: detail_known_def detailConfirmSuspend_def)
  next
    case ReactivateTenantClick
    with K ok have "tenant_seen as (\<lambda>s. s = ''suspended'')"
      by (cases "td_tenant p") (auto simp: detail_offers tenant_seen_def split: if_splits)
    with K ReactivateTenantClick show ?thesis
      by (cases "td_tenant p") (auto simp: detail_known_def handleReactivate_def)
  next
    case (CallOk n token w)
    with K a show ?thesis
      by (auto simp: detail_known_def callOk_def auditTokenOk_def sessionOk_def openImpersonation_def Let_def
          split: option.splits impersonation_call.splits)
  next
    case (LogOk token items)
    with ok have "token \<in> set (td_logFetches p)" by simp
    with K obtain n w where "CallOk n token w \<in> set as" by blast
    with K a LogOk show ?thesis
      by (cases items) (auto simp: detail_known_def dest: set_remove1_subset [THEN subsetD])
  next
    case (LogFailed token)
    with K show ?thesis by (auto simp: detail_known_def logFailed_def dest: set_remove1_subset [THEN subsetD])
  next
    case (CallFailed n m)
    with K show ?thesis
      by (auto simp: detail_known_def callFailed_def logFailed_def Let_def split: option.splits impersonation_call.splits)
  next
    case (DetailMessage b m)
    moreover have "detail_request_ok x as (PostToTab tb token)" if "(tb, token) \<in> set (hs_listeners (td_handshake p))"
      for tb token
      using that K by blast
    ultimately show ?thesis using known by (auto simp: detail_known_def handleReady_def)
  qed (use K x in \<open>auto simp: detail_known_def detailQuery_def orElse_def\<close>)
qed

text \<open>The tabs: a listener, a message and a stored token belong to the tab they were issued for.\<close>

definition own_token :: "browser \<Rightarrow> nat \<times> string \<Rightarrow> bool" where
  "own_token b x \<longleftrightarrow> fst x < length (br_issued b) \<and> snd x = br_issued b ! fst x"

definition browser_inv :: "storage \<Rightarrow> browser \<Rightarrow> bool" where
  "browser_inv s b \<longleftrightarrow> br_session b = s \<and> length (br_tabs b) = length (br_issued b)
     \<and> hs_opened (br_console b) = length (br_issued b)
     \<and> (\<forall>x \<in> set (hs_listeners (br_console b)). own_token b x) \<and> (\<forall>x \<in> set (br_mail b). own_token b x)
     \<and> (\<forall>i < length (br_tabs b).
          (bt_session (br_tabs b ! i) = s \<or> bt_session (br_tabs b ! i) = setItem IMPERSONATION_TOKEN_KEY (br_issued b ! i) s))"

lemma own_token_open [simp]:
  "own_token b x \<Longrightarrow> own_token (b\<lparr>br_console := c, br_tabs := ts, br_issued := br_issued b @ [t]\<rparr>) x"
  by (simp add: own_token_def nth_append)

lemma postsOf_map: "postsOf (map (\<lambda>(tb, token). PostToTab tb token) xs) = xs"
  by (induction xs) auto

lemma boot_session:
  "bt_session (fst (boot_start o' l s)) = s"
  "bt_session (fst (handleImpersonationToken so ty token t)) =
     (if bt_listening t \<and> so \<and> ty = Some ''impersonation_token'' then setItem IMPERSONATION_TOKEN_KEY token (bt_session t)
      else bt_session t)"
  by (simp_all add: boot_start_def handleImpersonationToken_def Let_def)

lemma setItem_again: "setItem k v (setItem k v s) = setItem k v s"
  by (induction s) (auto simp: setItem_def)

lemma browser_inv_step: "browser_inv s b \<Longrightarrow> browser_inv s (browser_step b e)"
proof (cases e)
  case (TabOpened token)
  assume "browser_inv s b"
  moreover have "own_token (browser_step b e) (length (br_issued b), token)"
    by (simp add: TabOpened own_token_def)
  ultimately show ?thesis
    by (auto simp: TabOpened browser_inv_def openImpersonation_def nth_append less_Suc_eq)
next
  case (PopupBlocked token)
  assume "browser_inv s b"
  then show ?thesis by (simp add: PopupBlocked browser_inv_def openImpersonation_def own_token_def)
next
  case (TabLoads i l)
  assume "browser_inv s b"
  then show ?thesis
    by (auto simp: TabLoads browser_inv_def own_token_def Let_def case_prod_beta nth_list_update boot_session)
next
  case ConsoleReceives
  assume "browser_inv s b"
  then show ?thesis
    by (auto simp: ConsoleReceives browser_inv_def own_token_def Let_def handleReady_def postsOf_map)
next
  case (TabReceives i token)
  assume inv: "browser_inv s b"
  have "x \<in> set (br_mail b)" if "x \<in> set (remove1 (i, token) (br_mail b))" for x
    by (rule set_remove1_subset [THEN subsetD, OF that])
  moreover have "token = br_issued b ! i" if "(i, token) \<in> set (br_mail b)"
    using that inv by (auto simp: browser_inv_def own_token_def)
  ultimately show ?thesis
    using inv by (auto simp: TabReceives browser_inv_def own_token_def nth_list_update boot_session setItem_again)
next
  case (ForeignMessage i token)
  assume "browser_inv s b"
  then show ?thesis
    by (auto simp: ForeignMessage browser_inv_def own_token_def nth_list_update boot_session)
qed

interpretation tabs: invariant_system "browser0 s" browser_step "browser_inv s" for s
  by unfold_locales (simp_all add: browser_inv_step, simp add: browser_inv_def browser0_def handshake0_def)

fun openedFor :: "browser_event \<Rightarrow> string option" where
  "openedFor (TabOpened token) = Some token"
| "openedFor _ = None"

lemma br_issued_run: "br_issued (foldl browser_step b es) = br_issued b @ List.map_filter openedFor es"
proof (induction es arbitrary: b)
  case (Cons e es)
  then show ?case by (cases e) (simp_all add: map_filter_simps Let_def case_prod_beta)
qed (simp add: map_filter_simps)

text \<open>When nothing else waits, the handshake delivers the token.\<close>

lemma handshake_delivers:
  assumes inv: "browser_inv s b" and "\<not> truthy (getItem s IMPERSONATION_TOKEN_KEY)"
    and "hs_listeners (br_console b) = []"
  shows "let n = length (br_tabs b);
             b' = foldl browser_step b [TabOpened token, TabLoads n l, ConsoleReceives, TabReceives n token]
         in getItem (bt_session (br_tabs b' ! n)) IMPERSONATION_TOKEN_KEY = Some token"
  using assms
  by (simp add: browser_inv_def openImpersonation_def boot_start_def handleReady_def postsOf_map
      handleImpersonationToken_def Let_def nth_append storage_simps)

section \<open>Properties\<close>

text \<open>Tenants are administered with care: whatever is clicked on the list of tenants and in whatever
  order the answers arrive, at most one suspension, one reactivation, one impersonation and one billing
  request is outstanding; each concerns a tenant that the service listed, a suspension one that is not
  suspended and with a reason of ten characters, a reactivation one that is suspended; and only
  tokens that the service issued are passed to tabs.\<close>

lemma tenant_changes_safe:
  assumes run: "guarded_run tenants_ok tenants_step tenants0 as = Some (p, rs)"
  shows "length (filter (sends k) rs) = length (filter (settles_change k) as) + of_bool (change_pending k p)
    \<and> (\<forall>r \<in> set rs. tenant_request_ok as r)"
proof -
  have start: "tenants_known as tenants0" by (simp add: tenants_known_def tenants0_def handshake0_def)
  have "\<forall>r \<in> set rs. tenant_request_ok as r"
    by (rule guarded_run_trace(2) [OF run start tenants_known_step])
  moreover have "\<not> change_pending k tenants0" by (cases k) (simp_all add: tenants0_def)
  ultimately show ?thesis using changes.request_flights [OF run, of k] by simp
qed

definition sampleTenant :: tenant where
  "sampleTenant = \<lparr>tn_id = ''t1'', tn_business_name = ''Acme'', tn_owner_email = ''a@b.c'', tn_owner_phone = ''0712345678'',
     tn_subscription_tier = ''starter'', tn_status = ''active'', tn_current_customer_count = 3, tn_max_customers = 100,
     tn_billing_status = ''active'', tn_next_billing_date = [], tn_created_at = []\<rparr>"

definition sampleTenantRun :: "tenants_action list" where
  "sampleTenantRun =
     [TenantsAnswer 1 None None (Some \<lparr>ta_tenants = [sampleTenant], ta_total = 1, ta_pages = 1\<rparr>), ToggleMenu ''t1'',
      AskSuspendTenant (''t1'', ''Acme''), TypeReason ''Unpaid invoices'', ConfirmSuspendTenant]"

text \<open>The page of one tenant acts on that tenant only: at most one suspension and one reactivation is
  outstanding, every request is for the tenant of the address, in the status that allows it; the
  tenant's audit log is fetched only with a token that the service issued to this page, and the log
  shown is an answer to such a fetch.\<close>

lemma tenant_detail_safe:
  assumes run: "guarded_run (detail_ok i) detail_step (detail0 (Some x)) as = Some (p, rs)" and "x \<noteq> []"
  shows "length (filter (sends Suspension) rs) = length (filter detail_suspension as) + of_bool (td_suspending p \<noteq> None)
    \<and> length (filter (sends Reactivation) rs) = length (filter detail_reactivation as) + of_bool (td_reactivating p \<noteq> None)
    \<and> (\<forall>r \<in> set rs. detail_request_ok x as r)
    \<and> (td_tenantAuditLogs p \<noteq> [] \<longrightarrow>
         (\<exists>n w token. CallOk n token w \<in> set as \<and> LogOk token (Some (td_tenantAuditLogs p)) \<in> set as))"
proof -
  have start: "detail_known x as (detail0 (Some x))" by (simp add: detail_known_def detail0_def handshake0_def)
  note step = detail_known_step [OF _ assms(2)]
  have "detail_known x as p" and "\<forall>r \<in> set rs. detail_request_ok x as r"
    by (rule guarded_run_trace [OF run start step]; assumption)+
  then show ?thesis
    using detail_suspensions.request_flights [OF run] detail_reactivations.request_flights [OF run]
    by (simp add: detail0_def detail_known_def)
qed

definition sampleDetail :: tenant_detail where
  "sampleDetail = tenant.extend sampleTenant \<lparr>tn_stats = None\<rparr>"

definition sampleLog :: tenant_log where
  "sampleLog = \<lparr>tl_id = ''l1'', tl_action = ''package.created'', tl_target_type = ''package'', tl_created_at = [],
     tl_actor_email = None\<rparr>"

definition sampleDetailRun :: "detail_action list" where
  "sampleDetailRun = [TenantAnswer (Some sampleDetail), SetTenantTab ''audit'', CallOk 0 ''tok'' False,
     LogOk ''tok'' (Some [sampleLog])]"

text \<open>C34: an impersonation token ends where it belongs: whatever the order in which tabs are opened,
  loaded and reloaded and messages arrive, the token in a tab is the one that tab was opened for, it
  is the only thing the handshake stores, requests of the tab carry it, and when no other tab is
  waiting the handshake of a new tab delivers it.\<close>

theorem impersonation_tabs_own_token:
  assumes "\<not> truthy (getItem s IMPERSONATION_TOKEN_KEY)"
    and b: "b = foldl browser_step (browser0 s) es"
  shows "(\<forall>i < length (br_tabs b).
        bt_session (br_tabs b ! i) = s
        \<or> (bt_session (br_tabs b ! i) = setItem IMPERSONATION_TOKEN_KEY (List.map_filter openedFor es ! i) s
            \<and> (List.map_filter openedFor es ! i \<noteq> [] \<longrightarrow>
                 getRequestToken now (freshTab l (bt_session (br_tabs b ! i)) ''/admin/dashboard'')
                   = Some (List.map_filter openedFor es ! i))))
    \<and> (hs_listeners (br_console b) = [] \<longrightarrow>
        (let n = length (br_tabs b);
             b' = foldl browser_step b [TabOpened token, TabLoads n l, ConsoleReceives, TabReceives n token]
         in getItem (bt_session (br_tabs b' ! n)) IMPERSONATION_TOKEN_KEY = Some token))"
proof -
  have inv: "browser_inv s b" unfolding b by (rule tabs.run_inv)
  have "br_issued b = List.map_filter openedFor es" by (simp add: b br_issued_run browser0_def)
  moreover have "getRequestToken now (freshTab l (setItem IMPERSONATION_TOKEN_KEY t s) ''/admin/dashboard'') = Some t"
    if "t \<noteq> []" for t
    using that by (simp add: getRequestToken_def freshTab_def storage_simps)
  ultimately show ?thesis
    using inv handshake_delivers [OF inv assms(1)] by (auto simp: browser_inv_def)
qed

theorem impersonation_tabs_own_token_witness:
  "getItem (bt_session (br_tabs (foldl browser_step (browser0 [])
      [TabOpened ''tok'', TabLoads 0 [], ConsoleReceives, TabReceives 0 ''tok'']) ! 0)) IMPERSONATION_TOKEN_KEY = Some ''tok''"
proof -
  have start: "hs_listeners (br_console (browser0 [])) = []" "br_tabs (browser0 []) = []"
    by (simp_all add: browser0_def handshake0_def)
  have none: "\<not> truthy (getItem [] IMPERSONATION_TOKEN_KEY)" by (simp add: getItem_def)
  have "browser0 [] = foldl browser_step (browser0 []) []" by simp
  from impersonation_tabs_own_token [OF none this, of 0 "[]" "''tok''"] show ?thesis
    by (simp only: start Let_def list.size simp_thms)
qed

text \<open>The console's listeners do not look at the sender: the first tab that is ready makes the console
  post the token of a second tab that has not loaded yet; it is lost and that tab never gets it.\<close>

lemma second_tab_starves:
  "let b = foldl browser_step (browser0 [])
        [TabOpened ''a'', TabOpened ''b'', TabLoads 0 [], ConsoleReceives, TabReceives 0 ''a'', TabReceives 1 ''b'', TabLoads 1 []]
   in bt_session (br_tabs b ! 1) = [] \<and> hs_listeners (br_console b) = [] \<and> br_mail b = []"
  by (simp add: browser0_def handshake0_def openImpersonation_def boot_start_def handleReady_def
      handleImpersonationToken_def Let_def getItem_def)

text \<open>A session that was started is forgotten when the audit log is opened before its answer arrives: no
  tab is opened and nothing is reported.\<close>

lemma superseded_session_lost:
  assumes "td_calls p = []" and "td_id p = Some x" and "x \<noteq> []" and "td_tenant p = FLoaded t"
    and "td_activeTab p = ''overview''" and "td_tenantAuditLogs p = []" and "td_showImpersonateModal p"
  shows "\<exists>p'. guarded_run (detail_ok i) detail_step p
      [StartTenantSession, CloseImpersonate, SetTenantTab ''audit'', CallOk (td_nextCall p) token True]
    = Some (p', [Send (useImpersonateTenant x (td_impersonateDuration p)), Send (useImpersonateTenant x 5)])"
  using assms by (simp add: guarded_run.simps detail_offers detail_handlers impersonatePending_def)

end
