(* ===== verification/Console_Pages.thy ===== *)
theory Console_Pages
  imports Tenant_Admin Billing_Pages
begin

text \<open>
  The other pages of the super admin console: the dashboard (\<open>pages/super-admin/DashboardPage.tsx\<close>),
  the audit log (\<open>pages/super-admin/AuditLogPage.tsx\<close>) and the accounts of the operators
  (\<open>pages/super-admin/AccountsPage.tsx\<close>).
\<close>

section \<open>Records\<close>

record operator =
  op_id :: string
  op_email :: string
  op_full_name :: string
  op_totp_verified_at :: "string option"
  op_last_login_at :: "string option"
  op_is_active :: bool

record operator_entry =
  oe_id :: string
  oe_super_admin_email :: string
  oe_action :: string
  oe_target_type :: "string option"
  oe_target_id :: "string option"
  oe_metadata :: json
  oe_ip_address :: "string option"
  oe_created_at :: string

record entries_answer =
  ea_entries :: "operator_entry list"
  ea_total :: nat
  ea_pages :: nat

text \<open>The counts can be missing; \<open>tenants_by_tier\<close> is an object.\<close>

record platform_stats =
  pl_total_tenants :: int
  pl_active_tenants :: int
  pl_suspended_tenants :: int
  pl_total_revenue_today_kes :: int
  pl_total_revenue_this_month_kes :: int
  pl_total_active_sessions :: int
  pl_tenants_by_tier :: "(string \<times> int) list"

section \<open>The accounts of the operators\<close>

record account_form =
  ca_email :: string
  ca_full_name :: string
  ca_password :: string
  ca_errors :: field_errors
  ca_submitted :: bool

datatype account_field = AEmail | AName | APassword

record accounts_page =
  ac_showAddModal :: bool
  ac_showPassword :: bool
  ac_admins :: "operator list fetched"
  ac_me :: "operator fetched"
  ac_form :: account_form
  ac_creating :: "string option"

datatype accounts_action =
    AdminsAnswer "operator list option"
  | MeAnswer "operator option"
  | ShowAddModal
  | CloseAddModal
  | AccountInput account_field string
  | TogglePassword
  | SubmitAccount
  | AccountCreated
  | AccountFailed "string option" string

definition accountForm0 :: account_form where
  "accountForm0 = \<lparr>ca_email = [], ca_full_name = [], ca_password = [], ca_errors = [], ca_submitted = False\<rparr>"

definition accounts0 :: accounts_page where
  "accounts0 = \<lparr>ac_showAddModal = False, ac_showPassword = False, ac_admins = FLoading, ac_me = FLoading,
     ac_form = accountForm0, ac_creating = None\<rparr>"

text \<open>The message for a name that is too long is the validation library's own; it is left empty.\<close>

definition createAccountSchema :: "(string \<Rightarrow> bool) \<Rightarrow> account_form \<Rightarrow> field_errors" where
  "createAccountSchema isEmail f =
     (if isEmail (ca_email f) then [] else [(''email'', ''Please enter a valid email address'')])
     @ (if jsLength (ca_full_name f) < 2 then [(''full_name'', ''Full name must be at least 2 characters'')]
        else if 100 < jsLength (ca_full_name f) then [(''full_name'', [])] else [])
     @ minLength 12 ''password'' ''Password must be at least 12 characters'' (ca_password f)"

definition accountBody :: "account_form \<Rightarrow> body" where
  "accountBody f =
     [(''email'', KS (ca_email f)), (''full_name'', KS (ca_full_name f)), (''password'', KS (ca_password f))]"

fun accountField :: "account_field \<Rightarrow> string" where
  "accountField AEmail = ''email''"
| "accountField AName = ''full_name''"
| "accountField APassword = ''password''"

fun setAccountField :: "account_field \<Rightarrow> string \<Rightarrow> account_form \<Rightarrow> account_form" where
  "setAccountField AEmail v f = f\<lparr>ca_email := v\<rparr>"
| "setAccountField AName v f = f\<lparr>ca_full_name := v\<rparr>"
| "setAccountField APassword v f = f\<lparr>ca_password := v\<rparr>"

definition changeAccountField :: "(string \<Rightarrow> bool) \<Rightarrow> account_field \<Rightarrow> string \<Rightarrow> account_form \<Rightarrow> account_form" where
  "changeAccountField isEmail k v f =
     (let f1 = setAccountField k v f
      in f1\<lparr>ca_errors := recheck (ca_submitted f1) (accountField k) (createAccountSchema isEmail f1) (ca_errors f1)\<rparr>)"

definition submitAccount :: "(string \<Rightarrow> bool) \<Rightarrow> accounts_page \<Rightarrow> accounts_page \<times> console_out list" where
  "submitAccount isEmail p =
     (let f = ac_form p; errs = createAccountSchema isEmail f; p1 = p\<lparr>ac_form := f\<lparr>ca_errors := errs, ca_submitted := True\<rparr>\<rparr>
      in if errs \<noteq> [] then (p1, [])
         else (p1\<lparr>ac_creating := Some (ca_full_name f)\<rparr>, [Send (useCreateSuperAdmin (accountBody f))]))"

fun accounts_step :: "(string \<Rightarrow> bool) \<Rightarrow> accounts_page \<Rightarrow> accounts_action \<Rightarrow> accounts_page \<times> console_out list" where
  "accounts_step isEmail p (AdminsAnswer d) = (p\<lparr>ac_admins := answered d (ac_admins p)\<rparr>, [])"
| "accounts_step isEmail p (MeAnswer d) = (p\<lparr>ac_me := answered d (ac_me p)\<rparr>, [])"
| "accounts_step isEmail p ShowAddModal = (p\<lparr>ac_showAddModal := True\<rparr>, [])"
| "accounts_step isEmail p CloseAddModal = (p\<lparr>ac_showAddModal := False, ac_form := accountForm0\<rparr>, [])"
| "accounts_step isEmail p (AccountInput k v) = (p\<lparr>ac_form := changeAccountField isEmail k v (ac_form p)\<rparr>, [])"
| "accounts_step isEmail p TogglePassword = (p\<lparr>ac_showPassword := \<not> ac_showPassword p\<rparr>, [])"
| "accounts_step isEmail p SubmitAccount = submitAccount isEmail p"
| "accounts_step isEmail p AccountCreated =
     (p\<lparr>ac_creating := None, ac_form := accountForm0, ac_showAddModal := False\<rparr>,
      [Say (''Successfully created Super Admin: '' @ the (ac_creating p))])"
| "accounts_step isEmail p (AccountFailed detail m) =
     (p\<lparr>ac_creating := None\<rparr>, [Complain (orElse detail (orElse (Some m) ''Failed to create Super Admin''))])"

definition lastLogin :: "intl \<Rightarrow> string option \<Rightarrow> string" where
  "lastLogin i d = (if truthy d then showDay i (the d) else ''Never'')"

definition operatorRow :: "intl \<Rightarrow> accounts_page \<Rightarrow> operator \<Rightarrow> accounts_action view" where
  "operatorRow i p a = Group
     ([Txt (op_full_name a)]
      @ onlyIf (\<exists>me \<in> set_option (dataOf (ac_me p)). op_id me = op_id a) [Txt ''You'']
      @ [Txt (op_email a), Txt (lastLogin i (op_last_login_at a)),
         Txt (if truthy (op_totp_verified_at a) then ''Configured'' else ''Pending setup''),
         Txt (if op_is_active a then ''Active'' else ''Suspended'')])"

definition addAccountDialog :: "accounts_page \<Rightarrow> accounts_action view list" where
  "addAccountDialog p =
     (let f = ac_form p; pending = ac_creating p \<noteq> None
      in onlyIf (ac_showAddModal p)
         ([Txt ''Create Operator Account'', Btn False [] CloseAddModal, Txt ''Full Name'']
          @ onlyIf (\<not> pending) [Inp ''E.g. Fredrick Nyangau'' (ca_full_name f) (AccountInput AName)]
          @ fieldError (ca_errors f) ''full_name'' @ [Txt ''Email Address'']
          @ onlyIf (\<not> pending) [Inp ''operator@Frixel Connect.com'' (ca_email f) (AccountInput AEmail)]
          @ fieldError (ca_errors f) ''email'' @ [Txt ''Password (Min 12 Chars)'']
          @ onlyIf (\<not> pending) [Inp [] (ca_password f) (AccountInput APassword)]
          @ [Btn False [] TogglePassword]
          @ fieldError (ca_errors f) ''password''
          @ [Btn False [Txt ''Cancel''] CloseAddModal, Btn pending [Txt ''Create Account''] SubmitAccount]))"

definition accountsView :: "intl \<Rightarrow> accounts_page \<Rightarrow> accounts_action view" where
  "accountsView i p = Group
     (if isLoadingQuery (ac_admins p) \<or> isLoadingQuery (ac_me p) then []
      else [Txt ''Super Admins'', Txt ''Manage administrative access keys and operator accounts.'',
            Btn False [Txt ''Add Super Admin''] ShowAddModal]
           @ headers [''Full Name'', ''Email Address'', ''Last Login'', ''MFA Status'', ''Status'']
           @ map (operatorRow i p) (nullish (dataOf (ac_admins p)) [])
           @ addAccountDialog p)"

fun accounts_ok :: "intl \<Rightarrow> accounts_page \<Rightarrow> accounts_action \<Rightarrow> bool" where
  "accounts_ok i p (AdminsAnswer d) = True"
| "accounts_ok i p (MeAnswer d) = True"
| "accounts_ok i p AccountCreated = (ac_creating p \<noteq> None)"
| "accounts_ok i p (AccountFailed d m) = (ac_creating p \<noteq> None)"
| "accounts_ok i p a = offers (accountsView i p) a"

section \<open>The audit log of the operators\<close>

record entries_page =
  en_page :: nat
  en_actionFilter :: string
  en_expandedId :: "string option"
  en_answers :: "nat \<times> string option \<Rightarrow> entries_answer fetched"

datatype entries_action =
    EntriesAnswer nat "string option" "entries_answer option"
  | FilterAction string
  | ToggleEntry string
  | PrevEntries
  | NextEntries

definition COMMON_ACTIONS :: "(string \<times> string) list" where
  "COMMON_ACTIONS =
     [([], ''All Actions''), (''auth.password_ok'', ''Password Check OK''), (''auth.login_success'', ''Login Success''),
      (''tenant.list'', ''List Tenants''), (''tenant.view'', ''View Tenant Details''), (''tenant.suspend'', ''Suspend Tenant''),
      (''tenant.reactivate'', ''Reactivate Tenant''), (''impersonation.start'', ''Start Impersonation''),
      (''super_admin.create'', ''Create SA Account'')]"

definition entriesLimit :: nat where
  "entriesLimit = 25"

definition entries0 :: entries_page where
  "entries0 = \<lparr>en_page = 1, en_actionFilter = [], en_expandedId = None, en_answers = (\<lambda>_. FLoading)\<rparr>"

definition actionParam :: "entries_page \<Rightarrow> string option" where
  "actionParam p = (if en_actionFilter p = [] then None else Some (en_actionFilter p))"

definition entriesQuery :: "entries_page \<Rightarrow> query" where
  "entriesQuery p = useSuperAdminAuditLog (int (en_page p)) (int entriesLimit) (actionParam p)"

definition entriesData :: "entries_page \<Rightarrow> entries_answer fetched" where
  "entriesData p = en_answers p (en_page p, actionParam p)"

definition entriesOf :: "entries_page \<Rightarrow> operator_entry list" where
  "entriesOf p = (case dataOf (entriesData p) of None \<Rightarrow> [] | Some a \<Rightarrow> ea_entries a)"

definition entryPages :: "entries_page \<Rightarrow> nat" where
  "entryPages p = (case dataOf (entriesData p) of None \<Rightarrow> 0 | Some a \<Rightarrow> ea_pages a)"

definition entryTotal :: "entries_page \<Rightarrow> nat" where
  "entryTotal p = (case dataOf (entriesData p) of None \<Rightarrow> 0 | Some a \<Rightarrow> ea_total a)"

definition handleActionFilterChange :: "string \<Rightarrow> entries_page \<Rightarrow> entries_page" where
  "handleActionFilterChange v p = p\<lparr>en_actionFilter := v, en_page := 1, en_expandedId := None\<rparr>"

fun entries_step :: "entries_page \<Rightarrow> entries_action \<Rightarrow> entries_page \<times> console_out list" where
  "entries_step p (EntriesAnswer n f d) =
     (p\<lparr>en_answers := (en_answers p)((n, f) := answered d (en_answers p (n, f)))\<rparr>, [])"
| "entries_step p (FilterAction v) =
     (let p1 = handleActionFilterChange v p in (p1, [RefetchQuery (entriesQuery p1)]))"
| "entries_step p (ToggleEntry x) =
     (p\<lparr>en_expandedId := (if en_expandedId p = Some x then None else Some x)\<rparr>, [])"
| "entries_step p PrevEntries =
     (let p1 = p\<lparr>en_page := max 1 (en_page p - 1)\<rparr> in (p1, [RefetchQuery (entriesQuery p1)]))"
| "entries_step p NextEntries =
     (let p1 = p\<lparr>en_page := min (entryPages p) (en_page p + 1)\<rparr> in (p1, [RefetchQuery (entriesQuery p1)]))"

definition entryRow :: "intl \<Rightarrow> entries_page \<Rightarrow> operator_entry \<Rightarrow> entries_action view" where
  "entryRow i p e = Group
     ([Btn False
         ([Txt (showDate i (oe_created_at e)), Txt (oe_super_admin_email e), Txt (oe_action e),
           Txt (orElse (oe_target_type e) ''system'')]
          @ onlyIf (truthy (oe_target_id e)) [Txt (''ID: '' @ the (oe_target_id e))]) (ToggleEntry (oe_id e))]
      @ onlyIf (en_expandedId p = Some (oe_id e))
          [Txt ''Event Payload (Metadata JSON)'', Txt (prettyJson (oe_metadata e) 0)])"

definition entriesView :: "intl \<Rightarrow> entries_page \<Rightarrow> entries_action view" where
  "entriesView i p = Group
     ([Txt ''Super Admin Audit Logs'', Txt ''Immutable chronological record of all administrative actions.'',
       Txt ''Filter Action:'']
      @ tabList FilterAction COMMON_ACTIONS
      @ headers [''Timestamp'', ''Operator (Email)'', ''Action'', ''Target'', ''Details'']
      @ tableBody (isLoadingQuery (entriesData p)) ''No system audit logs found.'' (entryRow i p) (entriesOf p)
      @ onlyIf (1 < entryPages p)
          [Txt ''Showing Page '', Txt (showNat (en_page p)), Txt '' of '', Txt (showNat (entryPages p)),
           Txt ('' ('' @ showNat (entryTotal p) @ '' total logs)''),
           Btn (en_page p = 1) [Txt ''Previous''] PrevEntries,
           Btn (en_page p = entryPages p) [Txt ''Next''] NextEntries])"

fun entries_ok :: "intl \<Rightarrow> entries_page \<Rightarrow> entries_action \<Rightarrow> bool" where
  "entries_ok i p (EntriesAnswer n f d) = True"
| "entries_ok i p a = offers (entriesView i p) a"

section \<open>The dashboard\<close>

record console_dashboard =
  cs_stats :: "platform_stats fetched"
  cs_tenants :: "tenants_answer fetched"
  cs_audit :: "entries_answer fetched"

text \<open>The arguments are the clock and the time of the entry; an invalid date gives \<open>NaN\<close> in every
  comparison and is not caught.\<close>

definition formatTimeAgo :: "intl \<Rightarrow> int \<Rightarrow> string \<Rightarrow> string" where
  "formatTimeAgo i now s =
     (if \<not> validDate i s then ''NaNd ago''
      else (let mins = (now - getTime i s) div 60000; hours = mins div 60; days = hours div 24
            in if mins < 1 then ''Just now''
               else if mins < 60 then showInt mins @ ''m ago''
               else if hours < 24 then showInt hours @ ''h ago''
               else showInt days @ ''d ago''))"

definition tierCount :: "platform_stats option \<Rightarrow> string \<Rightarrow> int" where
  "tierCount s tier = (case s of None \<Rightarrow> 0 | Some st \<Rightarrow> nullish (map_of (pl_tenants_by_tier st) tier) 0)"

definition tierPercentage :: "int \<Rightarrow> int \<Rightarrow> int" where
  "tierPercentage totalTenants n =
     (if 0 < totalTenants then mathRound (of_int n / of_int totalTenants * 100) else 0)"

definition renderTierRing :: "int \<Rightarrow> int \<Rightarrow> string \<Rightarrow> unit view" where
  "renderTierRing totalTenants n label =
     (let percentage = tierPercentage totalTenants n
      in Group [Txt label, Txt (showInt n), Txt (showInt percentage @ ''% of system''), Txt (showInt percentage @ ''%'')])"

definition bullet :: string where
  "bullet = [CHR 0xE2, CHR 0x80, CHR 0xA2]"

definition statValue :: "platform_stats option \<Rightarrow> (platform_stats \<Rightarrow> int) \<Rightarrow> int" where
  "statValue s f = (case s of None \<Rightarrow> 0 | Some st \<Rightarrow> f st)"

text \<open>The console shows whole shillings.\<close>

definition dashboardKES :: "intl \<Rightarrow> int \<Rightarrow> string" where
  "dashboardKES i amount = numberFormatKES i 0 amount"

definition statTiles :: "intl \<Rightarrow> platform_stats option \<Rightarrow> unit view list" where
  "statTiles i s =
     [Txt ''Total Tenants'', Txt (showInt (statValue s pl_total_tenants)),
      Txt (showInt (statValue s pl_active_tenants) @ '' active''), Txt bullet,
      Txt (showInt (statValue s pl_suspended_tenants) @ '' suspended''),
      Txt ''MRR (Month)'', Txt (dashboardKES i (statValue s pl_total_revenue_this_month_kes)),
      Txt ''Platform billing subscription fees'',
      Txt ''Today's Revenue'', Txt (dashboardKES i (statValue s pl_total_revenue_today_kes)),
      Txt ''Confirmed payments processed today'',
      Txt ''Active Sessions'', Txt (showInt (statValue s pl_total_active_sessions)),
      Txt ''Concurrent user sessions across all hotspots'']"

definition recentTenantRow :: "intl \<Rightarrow> tenant \<Rightarrow> unit view" where
  "recentTenantRow i t = Group
     [Txt (tn_business_name t), Txt (tn_subscription_tier t), Txt (tn_status t), Txt (showDay i (tn_created_at t))]"

definition activityRow :: "intl \<Rightarrow> int \<Rightarrow> operator_entry \<Rightarrow> unit view" where
  "activityRow i now e = Group
     ([Txt (oe_action e), Txt ''Target: '', Txt (orElse (oe_target_type e) ''system'')]
      @ onlyIf (truthy (oe_ip_address e)) [Txt (''('' @ the (oe_ip_address e) @ '')'')]
      @ [Txt (formatTimeAgo i now (oe_created_at e))])"

definition tierRings :: "platform_stats option \<Rightarrow> unit view list" where
  "tierRings s =
     (let total = statValue s pl_total_tenants
      in [renderTierRing total (tierCount s ''starter'') ''Starter'', renderTierRing total (tierCount s ''growth'') ''Growth'',
          renderTierRing total (tierCount s ''scale'') ''Scale'', renderTierRing total (tierCount s ''enterprise'') ''Enterprise''])"

definition recentSignups :: "intl \<Rightarrow> console_dashboard \<Rightarrow> unit view list" where
  "recentSignups i d =
     [Txt ''Recent Signups'', Link ''/super-admin/tenants'' [Txt ''View all tenants'']]
     @ headers [''Business Name'', ''Tier'', ''Status'', ''Joined'']
     @ tableBody False ''No tenants signed up yet.'' (recentTenantRow i)
         (case dataOf (cs_tenants d) of None \<Rightarrow> [] | Some a \<Rightarrow> ta_tenants a)"

definition systemActivity :: "intl \<Rightarrow> int \<Rightarrow> console_dashboard \<Rightarrow> unit view list" where
  "systemActivity i now d =
     [Txt ''System Activity'', Link ''/super-admin/audit-log'' [Txt ''View full log'']]
     @ tableBody False ''No system activity recorded yet.'' (activityRow i now)
         (case dataOf (cs_audit d) of None \<Rightarrow> [] | Some a \<Rightarrow> ea_entries a)"

definition consoleDashboardView :: "intl \<Rightarrow> int \<Rightarrow> console_dashboard \<Rightarrow> unit view" where
  "consoleDashboardView i now d = Group
     (if isLoadingQuery (cs_stats d) \<or> isLoadingQuery (cs_tenants d) \<or> isLoadingQuery (cs_audit d) then []
      else [Txt ''Frixel Connect Operations'', Txt ''Platform-wide statistics and system status overview.'']
           @ statTiles i (dataOf (cs_stats d)) @ tierRings (dataOf (cs_stats d)) @ recentSignups i d @ systemActivity i now d)"

section \<open>Lemmas\<close>

text \<open>The accounts page.\<close>

lemma offers_operatorRow [simp]: "\<not> offers (operatorRow i p a) x"
  by (simp add: operatorRow_def form_offers)

lemma offers_addAccountDialog:
  "list_ex (\<lambda>v. offers v a) (addAccountDialog p) \<longleftrightarrow> ac_showAddModal p
     \<and> (a = CloseAddModal \<or> a = TogglePassword \<or> (a = SubmitAccount \<and> ac_creating p = None)
        \<or> (ac_creating p = None \<and> (\<exists>k v. a = AccountInput k v)))"
proof -
  have "(\<exists>k v. a = AccountInput k v) \<longleftrightarrow>
      (\<exists>v. a = AccountInput AName v) \<or> (\<exists>v. a = AccountInput AEmail v) \<or> (\<exists>v. a = AccountInput APassword v)"
    by (metis account_field.exhaust)
  then show ?thesis
    unfolding addAccountDialog_def by (auto simp: form_offers Let_def simp del: not_None_eq)
qed

lemma offers_accounts:
  "offers (accountsView i p) a \<longleftrightarrow> ac_admins p \<noteq> FLoading \<and> ac_me p \<noteq> FLoading
     \<and> (a = ShowAddModal \<or> list_ex (\<lambda>v. offers v a) (addAccountDialog p))"
  unfolding accountsView_def by (auto simp: form_offers isLoadingQuery_def)

lemmas accounts_offers = offers_accounts offers_addAccountDialog

fun account_answer :: "accounts_action \<Rightarrow> bool" where
  "account_answer AccountCreated = True"
| "account_answer (AccountFailed d m) = True"
| "account_answer _ = False"

fun is_creation :: "console_out \<Rightarrow> bool" where
  "is_creation (Send m) = True"
| "is_creation _ = False"

interpretation creations: request_flight "accounts_step isEmail" "accounts_ok i" "\<lambda>p. ac_creating p \<noteq> None"
    account_answer is_creation for isEmail i
proof
  fix p :: accounts_page and a
  show "accounts_ok i p a \<Longrightarrow> account_answer a \<Longrightarrow> ac_creating p \<noteq> None
      \<and> \<not> ac_creating (fst (accounts_step isEmail p a)) \<noteq> None \<and> filter is_creation (snd (accounts_step isEmail p a)) = []"
    by (cases a) auto
  show "accounts_ok i p a \<Longrightarrow> \<not> account_answer a \<Longrightarrow>
      (filter is_creation (snd (accounts_step isEmail p a)) = []
        \<and> (ac_creating (fst (accounts_step isEmail p a)) \<noteq> None) = (ac_creating p \<noteq> None))
      \<or> (length (filter is_creation (snd (accounts_step isEmail p a))) = 1 \<and> \<not> ac_creating p \<noteq> None
          \<and> ac_creating (fst (accounts_step isEmail p a)) \<noteq> None)"
    by (cases a) (auto simp: accounts_offers submitAccount_def Let_def simp del: not_None_eq)
qed

definition validAccount :: "(string \<Rightarrow> bool) \<Rightarrow> account_form \<Rightarrow> bool" where
  "validAccount isEmail f \<longleftrightarrow> isEmail (ca_email f) \<and> 2 \<le> jsLength (ca_full_name f) \<and> jsLength (ca_full_name f) \<le> 100
     \<and> 12 \<le> jsLength (ca_password f)"

lemma createAccountSchema_valid: "createAccountSchema isEmail f = [] \<longleftrightarrow> validAccount isEmail f"
  by (auto simp: createAccountSchema_def validAccount_def minLength_def)

definition creation_ok :: "(string \<Rightarrow> bool) \<Rightarrow> console_out \<Rightarrow> bool" where
  "creation_ok isEmail r \<longleftrightarrow>
     (\<forall>m. r = Send m \<longrightarrow> (\<exists>f. validAccount isEmail f \<and> m = useCreateSuperAdmin (accountBody f)))"

lemma creations_valid:
  "r \<in> set (snd (accounts_step isEmail p a)) \<Longrightarrow> creation_ok isEmail r"
  by (cases a) (auto simp: creation_ok_def submitAccount_def Let_def createAccountSchema_valid split: if_splits)

text \<open>The operators' audit log, for a service that returns the requested page of its log together with
  the length of the log and the number of its pages.\<close>

definition entriesAnswerOf :: "(string option \<Rightarrow> operator_entry list) \<Rightarrow> nat \<Rightarrow> string option \<Rightarrow> entries_answer" where
  "entriesAnswerOf lg n f = \<lparr>ea_entries = pageOf entriesLimit n (lg f), ea_total = length (lg f),
     ea_pages = totalPages entriesLimit (length (lg f))\<rparr>"

interpretation entry_pages: pager entriesLimit "pageOf entriesLimit" "\<lambda>xs. totalPages entriesLimit (length xs)"
  by unfold_locales (simp_all add: entriesLimit_def pageOf_def slice_def totalPages_def)

definition entry_page_exists :: "operator_entry list \<Rightarrow> nat \<Rightarrow> bool" where
  "entry_page_exists xs n \<longleftrightarrow> 1 \<le> n \<and> n \<le> max 1 (totalPages entriesLimit (length xs))"

definition entries_in_range :: "(string option \<Rightarrow> operator_entry list) \<Rightarrow> entries_page \<Rightarrow> bool" where
  "entries_in_range lg p \<longleftrightarrow> entry_page_exists (lg (actionParam p)) (en_page p)
     \<and> (\<forall>n f d. en_answers p (n, f) = FLoaded d \<longrightarrow> d = entriesAnswerOf lg n f)"

lemma offers_entries:
  "offers (entriesView i p) a \<longleftrightarrow>
     (\<exists>f \<in> fst ` set COMMON_ACTIONS. a = FilterAction f) \<or> (\<exists>e \<in> set (entriesOf p). a = ToggleEntry (oe_id e))
     \<or> (1 < entryPages p \<and> (a = PrevEntries \<and> en_page p \<noteq> 1 \<or> a = NextEntries \<and> en_page p \<noteq> entryPages p))"
proof -
  have row: "offers (entryRow i p e) a \<longleftrightarrow> a = ToggleEntry (oe_id e)" for e
    by (auto simp: entryRow_def page_offers typable_simps onlyIf_def)
  have "e \<in> set (entriesOf p) \<Longrightarrow> entriesData p \<noteq> FLoading" for e by (auto simp: entriesOf_def)
  then show ?thesis unfolding entriesView_def by (auto simp: list_page_offers row)
qed

lemma entryPages_served:
  assumes "entries_in_range lg p" and "1 < entryPages p"
  shows "entryPages p = totalPages entriesLimit (length (lg (actionParam p)))"
proof -
  from assms(2) obtain d where d: "entriesData p = FLoaded d" "entryPages p = ea_pages d"
    by (cases "entriesData p") (auto simp: entryPages_def)
  with assms(1) have "d = entriesAnswerOf lg (en_page p) (actionParam p)"
    unfolding entries_in_range_def entriesData_def by blast
  with d show ?thesis by (simp add: entriesAnswerOf_def)
qed

lemma entries_in_range_step:
  assumes range: "entries_in_range lg p" and ok: "entries_ok i p a"
    and served: "\<And>n f d. a = EntriesAnswer n f (Some d) \<Longrightarrow> d = entriesAnswerOf lg n f"
  shows "entries_in_range lg (fst (entries_step p a))"
proof (cases a)
  case (EntriesAnswer n f d)
  with range served show ?thesis
    by (auto simp: entries_in_range_def actionParam_def answered_Loaded)
next
  case NextEntries
  with ok have "1 < entryPages p" by (auto simp: offers_entries)
  with NextEntries range entryPages_served [OF range this] show ?thesis
    by (auto simp: entries_in_range_def entry_page_exists_def actionParam_def Let_def)
qed (use range in \<open>auto simp: entries_in_range_def entry_page_exists_def actionParam_def handleActionFilterChange_def Let_def\<close>)

text \<open>Going through the log page by page.\<close>

definition browseEntries :: "(string option \<Rightarrow> operator_entry list) \<Rightarrow> nat \<Rightarrow> entries_action list" where
  "browseEntries lg n = concat (map (\<lambda>k. [EntriesAnswer k None (Some (entriesAnswerOf lg k None)), NextEntries]) [1..<Suc n])"

lemma browseEntries_reaches:
  "Suc n \<le> totalPages entriesLimit (length (lg None)) \<Longrightarrow>
   \<exists>p rs. guarded_run (entries_ok i) entries_step entries0 (browseEntries lg n) = Some (p, rs)
     \<and> en_page p = Suc n \<and> en_actionFilter p = []"
proof (induction n)
  case (Suc n)
  then obtain p rs where run: "guarded_run (entries_ok i) entries_step entries0 (browseEntries lg n) = Some (p, rs)"
    and p: "en_page p = Suc n" "en_actionFilter p = []" by auto
  let ?two = "[EntriesAnswer (Suc n) None (Some (entriesAnswerOf lg (Suc n) None)), NextEntries]"
  have "browseEntries lg (Suc n) = browseEntries lg n @ ?two" by (simp add: browseEntries_def)
  moreover have "\<exists>q rs'. guarded_run (entries_ok i) entries_step p ?two = Some (q, rs')
      \<and> en_page q = Suc (Suc n) \<and> en_actionFilter q = []"
    using Suc.prems p
    by (simp add: guarded_run.simps offers_entries entryPages_def entriesData_def actionParam_def entriesAnswerOf_def Let_def)
  ultimately show ?case using guarded_run_append [OF run, of ?two] by auto
qed (simp add: browseEntries_def entries0_def)

text \<open>Rounding.\<close>

lemma mathRound_nonneg: "0 \<le> x \<Longrightarrow> 0 \<le> mathRound x"
  by (simp add: mathRound_def)

lemma mathRound_le: "x \<le> of_int n \<Longrightarrow> mathRound x \<le> n"
proof -
  assume "x \<le> of_int n"
  then have "x + 1 / 2 < of_int (n + 1)" by simp
  then show ?thesis unfolding mathRound_def by (simp add: floor_le_iff add.commute)
qed

lemma le_mathRound: "of_int n \<le> x \<Longrightarrow> n \<le> mathRound x"
  by (simp add: mathRound_def le_floor_iff)

lemma div_between: "u * k \<le> x \<Longrightarrow> x < u * (k + 1) \<Longrightarrow> x div u = k" for x u k :: int
  by (rule int_div_pos_eq [where r = "x - u * k"]) (simp_all add: algebra_simps)

text \<open>The age of an entry, unit by unit.\<close>

lemma timeAgo_units:
  assumes "validDate i s"
  shows "now - getTime i s < 60000 \<longrightarrow> formatTimeAgo i now s = ''Just now''"
    and "1 \<le> k \<and> k < 60 \<and> 60000 * k \<le> now - getTime i s \<and> now - getTime i s < 60000 * (k + 1) \<longrightarrow>
      formatTimeAgo i now s = showInt k @ ''m ago''"
    and "1 \<le> k \<and> k < 24 \<and> 3600000 * k \<le> now - getTime i s \<and> now - getTime i s < 3600000 * (k + 1) \<longrightarrow>
      formatTimeAgo i now s = showInt k @ ''h ago''"
    and "1 \<le> k \<and> 86400000 * k \<le> now - getTime i s \<and> now - getTime i s < 86400000 * (k + 1) \<longrightarrow>
      formatTimeAgo i now s = showInt k @ ''d ago''"
proof -
  let ?d = "now - getTime i s"
  have units: "?d div 60000 div 60 = ?d div 3600000" "?d div 60000 div 60 div 24 = ?d div 86400000"
    by (simp_all add: zdiv_zmult2_eq [symmetric])
  show "?d < 60000 \<longrightarrow> formatTimeAgo i now s = ''Just now''"
    using assms by (auto simp: formatTimeAgo_def Let_def)
  show "1 \<le> k \<and> k < 60 \<and> 60000 * k \<le> ?d \<and> ?d < 60000 * (k + 1) \<longrightarrow> formatTimeAgo i now s = showInt k @ ''m ago''"
    using assms div_between [of 60000 k ?d] by (auto simp: formatTimeAgo_def Let_def)
  show "1 \<le> k \<and> k < 24 \<and> 3600000 * k \<le> ?d \<and> ?d < 3600000 * (k + 1) \<longrightarrow> formatTimeAgo i now s = showInt k @ ''h ago''"
    using assms div_between [of 3600000 k ?d] units by (auto simp: formatTimeAgo_def Let_def)
  show "1 \<le> k \<and> 86400000 * k \<le> ?d \<and> ?d < 86400000 * (k + 1) \<longrightarrow> formatTimeAgo i now s = showInt k @ ''d ago''"
    using assms div_between [of 86400000 k ?d] units by (auto simp: formatTimeAgo_def Let_def)
qed

section \<open>Properties\<close>

text \<open>Operators are created with care: at most one request is outstanding, and every account sent has a
  valid address, a name of 2 to 100 characters and a password of twelve.\<close>

lemma operator_creations_safe:
  assumes run: "guarded_run (accounts_ok i) (accounts_step isEmail) accounts0 as = Some (p, rs)"
  shows "length (filter is_creation rs) = length (filter account_answer as) + of_bool (ac_creating p \<noteq> None)
    \<and> (\<forall>r \<in> set rs. creation_ok isEmail r)"
proof -
  have "creation_ok isEmail r" if "r \<in> set rs" for r
    by (rule guarded_run_outputs [OF _ run that]) (rule creations_valid)
  then show ?thesis using creations.request_flights [OF run] by (simp add: accounts0_def)
qed

text \<open>Paging through the operators' audit log: only existing pages are requested, the pages together are the
  log, and clicking on reaches each of them.\<close>

lemma entries_paging:
  assumes run: "guarded_run (entries_ok i) entries_step entries0 as = Some (p, rs)"
    and served: "\<And>n f d. EntriesAnswer n f (Some d) \<in> set as \<Longrightarrow> d = entriesAnswerOf lg n f"
  shows "entry_page_exists (lg (actionParam p)) (en_page p)
    \<and> concat (map (\<lambda>n. ea_entries (entriesAnswerOf lg n f)) [1..<Suc (totalPages entriesLimit (length (lg f)))]) = lg f
    \<and> (1 \<le> n \<and> n \<le> totalPages entriesLimit (length (lg None)) \<longrightarrow>
        (\<exists>q rs'. guarded_run (entries_ok i) entries_step entries0 (browseEntries lg (n - 1)) = Some (q, rs') \<and> en_page q = n))"
proof -
  have start: "entries_in_range lg entries0"
    by (simp add: entries_in_range_def entries0_def entry_page_exists_def)
  have "entries_in_range lg p"
    by (rule guarded_run_trace(1) [where P = "entries_in_range lg" and Q = "\<lambda>_. True", OF run start])
      (use entries_in_range_step served in blast)
  moreover have "concat (map (\<lambda>n. ea_entries (entriesAnswerOf lg n f)) [1..<Suc (totalPages entriesLimit (length (lg f)))]) = lg f"
    using entry_pages.pages_are_everything [of "lg f"] by (simp add: entriesAnswerOf_def del: upt_Suc)
  ultimately show ?thesis
    using browseEntries_reaches [of "n - 1" lg i] by (auto simp: entries_in_range_def)
qed

text \<open>The numbers of the console: a percentage of customers or tenants is between 0 and 100, the bar of
  a tenant turns red exactly at its limit when rounded, and the age of an entry is given in the largest unit that is not zero,
  rounded down.\<close>

lemma console_numbers_exact:
  assumes "0 \<le> tn_current_customer_count t" and "0 \<le> tn_max_customers t" and "0 \<le> n" and "n \<le> tot"
    and "validDate i s"
  shows "0 \<le> customerPercentage t \<and> customerPercentage t \<le> 100
    \<and> (0 < tn_max_customers t \<and> tn_max_customers t \<le> tn_current_customer_count t \<longrightarrow>
         progressBarColor (customerPercentage t) = ''red'')
    \<and> 0 \<le> tierPercentage tot n \<and> tierPercentage tot n \<le> 100
    \<and> (now - getTime i s < 60000 \<longrightarrow> formatTimeAgo i now s = ''Just now'')
    \<and> (1 \<le> k \<and> k < 60 \<and> 60000 * k \<le> now - getTime i s \<and> now - getTime i s < 60000 * (k + 1) \<longrightarrow>
         formatTimeAgo i now s = showInt k @ ''m ago'')
    \<and> (1 \<le> k \<and> k < 24 \<and> 3600000 * k \<le> now - getTime i s \<and> now - getTime i s < 3600000 * (k + 1) \<longrightarrow>
         formatTimeAgo i now s = showInt k @ ''h ago'')
    \<and> (1 \<le> k \<and> 86400000 * k \<le> now - getTime i s \<and> now - getTime i s < 86400000 * (k + 1) \<longrightarrow>
         formatTimeAgo i now s = showInt k @ ''d ago'')"
proof -
  have bounds: "0 \<le> mathRound (of_int a / of_int b * 100)" "a \<le> b \<Longrightarrow> mathRound (of_int a / of_int b * 100) \<le> 100"
    "b \<le> a \<Longrightarrow> 100 \<le> mathRound (of_int a / of_int b * 100)"
    if "0 \<le> a" "0 < b" for a b :: int
  proof -
    show "0 \<le> mathRound (of_int a / of_int b * 100)" using that by (intro mathRound_nonneg) simp
    show "mathRound (of_int a / of_int b * 100) \<le> 100" if "a \<le> b"
      using that \<open>0 < b\<close> by (intro mathRound_le) (simp add: divide_le_eq)
    show "100 \<le> mathRound (of_int a / of_int b * 100)" if "b \<le> a"
      using that \<open>0 < b\<close> by (intro le_mathRound) (simp add: le_divide_eq)
  qed
  have "0 \<le> customerPercentage t \<and> customerPercentage t \<le> 100"
    using bounds(1) assms(1,2) by (auto simp: customerPercentage_def Let_def)
  moreover have "progressBarColor (customerPercentage t) = ''red''"
    if "0 < tn_max_customers t" "tn_max_customers t \<le> tn_current_customer_count t"
    using that bounds(3) [of "tn_current_customer_count t" "tn_max_customers t"] assms(1)
    by (simp add: customerPercentage_def progressBarColor_def Let_def)
  moreover have "0 \<le> tierPercentage tot n \<and> tierPercentage tot n \<le> 100"
    using bounds(1,2) [of n tot] assms(3,4) by (simp add: tierPercentage_def)
  ultimately show ?thesis
    using timeAgo_units(1) [OF assms(5), of now] timeAgo_units(2-4) [OF assms(5), where now = now and k = k] by blast
qed

text \<open>The guard for dates that cannot be read never applies: such an entry shows a meaningless age.\<close>

lemma bad_date_age: "\<not> validDate i s \<Longrightarrow> formatTimeAgo i now s = ''NaNd ago''"
  by (simp add: formatTimeAgo_def)

end
