(* ===== verification/Admin_Lists.thy ===== *)
theory Admin_Lists
  imports Reseller
begin

text \<open>
  The admin's lists of packages and routers: \<open>pages/admin/PackagesPage.tsx\<close> with the form of
  \<open>Packages\<close> in its dialog, and \<open>pages/admin/RoutersPage.tsx\<close> with the form of
  \<open>components/shared/RouterForm.tsx\<close>. A dialog mounts its form when it opens and drops it when it
  closes. The confirm button of the deletion dialogs is an ordinary button
  (\<open>components/ui/alert-dialog.tsx\<close>): it neither closes the dialog nor is it disabled.
\<close>

section \<open>Packages\<close>

text \<open>The type of a package. The map of types is written by \<open>savePackageServiceType\<close> only, so a
  resolved type is one of the two names (lemma \<open>typeOf_resolved\<close>).\<close>

definition typeOf :: "storage \<Rightarrow> package \<Rightarrow> service_type" where
  "typeOf s pkg = (if resolvePackageServiceType pkg s = Inr (JStr ''pppoe'') then Pppoe else Hotspot)"

record packages_page =
  kp_local :: storage
  kp_packages :: "package list fetched"
  kp_filtered :: "package list"
  kp_isDialogOpen :: bool
  kp_isDeleteDialogOpen :: bool
  kp_editingPackage :: "package option"
  kp_deletingPackageId :: "string option"
  kp_serviceFilter :: string
  kp_formServiceType :: service_type
  kp_form :: "package_form option"
  kp_saving :: "(package option \<times> service_type) option"
  kp_deactivations :: nat

datatype packages_action =
    PackageListAnswer "package list option"
  | OpenPackageDialog "package option"
  | DismissPackageDialog
  | SetServiceFilter string
  | InForm form_action
  | PackageSaved string
  | PackageSaveFailed
  | AskDeactivatePackage string
  | DismissDeactivatePackage
  | ConfirmDeactivatePackage
  | PackageDeactivated bool

datatype packages_out =
    PostNewPackage package_request
  | PutPackage string package_request
  | DeletePackage string
  | PackageToast string
  | PackageError string

text \<open>The properties of the form in the dialog.\<close>

definition packageProps :: "packages_page \<Rightarrow> form_props" where
  "packageProps p = \<lparr>fp_serviceType = Some (kp_formServiceType p), fp_allowSelect = True, fp_showBadge = False,
     fp_submitLabel = ''Save Package'', fp_canCancel = True\<rparr>"

text \<open>The form's default values: those of the edited package, or none. A form that is mounted while a
  request is outstanding starts disabled.\<close>

definition mountForm :: "packages_page \<Rightarrow> package_form" where
  "mountForm p =
     (case kp_editingPackage p of
        Some k \<Rightarrow> formStart (packageProps p) (pk_name k) (pk_description k) (showNum (of_int (pk_price_kes k) / 100))
                   (showInt (pk_speed_mbps k)) (Some (of_int (pk_duration_minutes k)))
      | None \<Rightarrow> formStart (packageProps p) [] [] [] [] None)\<lparr>pf_pending := (kp_saving p \<noteq> None)\<rparr>"

definition packages0 :: "storage \<Rightarrow> packages_page" where
  "packages0 s =
     \<lparr>kp_local = s, kp_packages = FLoading, kp_filtered = [], kp_isDialogOpen = False, kp_isDeleteDialogOpen = False,
      kp_editingPackage = None, kp_deletingPackageId = None, kp_serviceFilter = ''all'', kp_formServiceType = Hotspot,
      kp_form = None, kp_saving = None, kp_deactivations = 0\<rparr>"

text \<open>\<open>filteredPackages\<close> is memoised on the data and the filter (and the query keeps the identity of
  data that did not change): saving a type does not recompute it.\<close>

definition filterPackages :: "packages_page \<Rightarrow> package list" where
  "filterPackages p =
     (case dataOf (kp_packages p) of
        None \<Rightarrow> []
      | Some ks \<Rightarrow>
          if kp_serviceFilter p = ''all'' then ks
          else filter (\<lambda>k. serviceName (typeOf (kp_local p) k) = kp_serviceFilter p) ks)"

definition filteredPackages :: "packages_page \<Rightarrow> packages_page \<Rightarrow> packages_page" where
  "filteredPackages old p =
     (if dataOf (kp_packages p) = dataOf (kp_packages old) \<and> kp_serviceFilter p = kp_serviceFilter old then p
      else p\<lparr>kp_filtered := filterPackages p\<rparr>)"

definition openPackageDialog :: "package option \<Rightarrow> packages_page \<Rightarrow> packages_page" where
  "openPackageDialog k p =
     (let p1 = p\<lparr>kp_editingPackage := k,
                 kp_formServiceType := (case k of Some pkg \<Rightarrow> typeOf (kp_local p) pkg | None \<Rightarrow> Hotspot),
                 kp_isDialogOpen := True\<rparr>
      in p1\<lparr>kp_form := Some (mountForm p1)\<rparr>)"

definition closePackageDialog :: "packages_page \<Rightarrow> packages_page" where
  "closePackageDialog p = p\<lparr>kp_isDialogOpen := False, kp_editingPackage := None, kp_form := None\<rparr>"

text \<open>\<open>onSubmit\<close> up to its request: the callback remembers the edited package and the chosen type.\<close>

definition submitPackage :: "package_request \<Rightarrow> packages_page \<Rightarrow> packages_page \<times> packages_out list" where
  "submitPackage r p =
     (p\<lparr>kp_saving := Some (kp_editingPackage p, kp_formServiceType p)\<rparr>,
      [case kp_editingPackage p of Some k \<Rightarrow> PutPackage (pk_id k) r | None \<Rightarrow> PostNewPackage r])"

fun formOut :: "form_out \<Rightarrow> packages_page \<Rightarrow> packages_page \<times> packages_out list" where
  "formOut (OnSubmit r) p = submitPackage r p"
| "formOut (OnServiceTypeChange t) p = (p\<lparr>kp_formServiceType := t\<rparr>, [])"
| "formOut OnCancel p = (closePackageDialog p, [])"

definition inForm :: "form_action \<Rightarrow> packages_page \<Rightarrow> packages_page \<times> packages_out list" where
  "inForm a p =
     (case kp_form p of
        None \<Rightarrow> (p, [])
      | Some f \<Rightarrow>
          (let (f1, outs) = form_step (packageProps p) f a; p1 = p\<lparr>kp_form := Some f1\<rparr>
           in case outs of [] \<Rightarrow> (p1, []) | r # _ \<Rightarrow> formOut r p1))"

definition saveSettled :: "packages_page \<Rightarrow> packages_page" where
  "saveSettled p = p\<lparr>kp_saving := None, kp_form := map_option (\<lambda>f. f\<lparr>pf_pending := False\<rparr>) (kp_form p)\<rparr>"

text \<open>The rest of \<open>onSubmit\<close>: the type is kept in the browser, which can throw into the \<open>catch\<close> branch.\<close>

definition packageSaved :: "string \<Rightarrow> packages_page \<Rightarrow> packages_page \<times> packages_out list" where
  "packageSaved createdId p =
     (case kp_saving p of
        None \<Rightarrow> (p, [])
      | Some (editing, t) \<Rightarrow>
          (case savePackageServiceType (case editing of Some k \<Rightarrow> pk_id k | None \<Rightarrow> createdId) t (kp_local p) of
             Inr s \<Rightarrow> (closePackageDialog (saveSettled p\<lparr>kp_local := s\<rparr>),
                      [PackageToast (if editing = None then ''Package created successfully'' else ''Package updated successfully'')])
           | Inl e \<Rightarrow> (saveSettled p, [PackageError ''Failed to save package''])))"

definition deactivatePackage :: "packages_page \<Rightarrow> packages_page \<times> packages_out list" where
  "deactivatePackage p =
     (if truthy (kp_deletingPackageId p)
      then (p\<lparr>kp_deactivations := Suc (kp_deactivations p)\<rparr>, [DeletePackage (the (kp_deletingPackageId p))])
      else (p, []))"

fun packages_step :: "packages_page \<Rightarrow> packages_action \<Rightarrow> packages_page \<times> packages_out list" where
  "packages_step p (PackageListAnswer d) = (filteredPackages p (p\<lparr>kp_packages := answered d (kp_packages p)\<rparr>), [])"
| "packages_step p (OpenPackageDialog k) = (openPackageDialog k p, [])"
| "packages_step p DismissPackageDialog = (p\<lparr>kp_isDialogOpen := False, kp_form := None\<rparr>, [])"
| "packages_step p (SetServiceFilter v) = (filteredPackages p (p\<lparr>kp_serviceFilter := v\<rparr>), [])"
| "packages_step p (InForm a) = inForm a p"
| "packages_step p (PackageSaved createdId) = packageSaved createdId p"
| "packages_step p PackageSaveFailed = (saveSettled p, [PackageError ''Failed to save package''])"
| "packages_step p (AskDeactivatePackage x) =
     (p\<lparr>kp_deletingPackageId := Some x, kp_isDeleteDialogOpen := True\<rparr>, [])"
| "packages_step p DismissDeactivatePackage = (p\<lparr>kp_isDeleteDialogOpen := False\<rparr>, [])"
| "packages_step p ConfirmDeactivatePackage = deactivatePackage p"
| "packages_step p (PackageDeactivated ok) =
     (p\<lparr>kp_deactivations := kp_deactivations p - 1, kp_isDeleteDialogOpen := False, kp_deletingPackageId := None\<rparr>,
      [if ok then PackageToast ''Package deactivated'' else PackageError ''Failed to deactivate package''])"

definition serviceTypeBadge :: "service_type \<Rightarrow> 'a view" where
  "serviceTypeBadge t = Txt (case t of Pppoe \<Rightarrow> ''Fiber'' | Hotspot \<Rightarrow> ''Hotspot'')"

definition packageTableRow :: "intl \<Rightarrow> packages_page \<Rightarrow> package \<Rightarrow> packages_action view" where
  "packageTableRow i p k = Group
     [Txt (pk_name k), serviceTypeBadge (typeOf (kp_local p) k), Txt (showInt (pk_speed_mbps k) @ '' Mbps''),
      Txt (formatDuration (pk_duration_minutes k)), Txt (formatKES i (pk_price_kes k)),
      Txt (if pk_is_active k then ''Active'' else ''Inactive''),
      Btn (\<not> pk_is_active k) [Txt ''Edit''] (OpenPackageDialog (Some k)),
      Btn (\<not> pk_is_active k) [Txt ''Deactivate''] (AskDeactivatePackage (pk_id k))]"

definition packageDialog :: "string \<Rightarrow> packages_page \<Rightarrow> packages_action view list" where
  "packageDialog customText p =
     (case kp_form p of
        None \<Rightarrow> []
      | Some f \<Rightarrow>
          onlyIf (kp_isDialogOpen p)
            [Txt (if kp_editingPackage p \<noteq> None then ''Edit Package'' else ''Add Package''),
             Txt (if kp_editingPackage p \<noteq> None then ''Update package details below.''
                  else ''Create a new WiFi package offering.''),
             Btn False [] DismissPackageDialog, map_view InForm (formView customText (packageProps p) f)])"

definition deletePackageDialog :: "packages_page \<Rightarrow> packages_action view list" where
  "deletePackageDialog p =
     onlyIf (kp_isDeleteDialogOpen p)
       [Txt ''Deactivate this package?'',
        Txt ''Existing vouchers will not be affected. This action will hide the package from the customer portal so no new purchases can be made.'',
        Btn False [Txt ''Cancel''] DismissDeactivatePackage, Btn False [Txt ''Deactivate''] ConfirmDeactivatePackage]"

definition packagesView :: "intl \<Rightarrow> string \<Rightarrow> packages_page \<Rightarrow> packages_action view" where
  "packagesView i customText p = Group
     ([Txt ''Packages'', Txt ''Manage your WiFi plans and pricing.'',
       Btn False [Txt ''Add Package''] (OpenPackageDialog None)]
      @ tabList SetServiceFilter [(''all'', ''All''), (''hotspot'', ''Hotspot''), (''pppoe'', ''Fiber PPPoE'')]
      @ headers [''Name'', ''Service'', ''Speed (Mbps)'', ''Duration'', ''Price'', ''Status'', ''Actions'']
      @ tableBody (isLoadingQuery (kp_packages p)) ''No packages found. Create your first package to get started.''
          (packageTableRow i p) (kp_filtered p)
      @ packageDialog customText p @ deletePackageDialog p)"

fun packages_ok :: "intl \<Rightarrow> string \<Rightarrow> packages_page \<Rightarrow> packages_action \<Rightarrow> bool" where
  "packages_ok i ct p (PackageListAnswer d) = True"
| "packages_ok i ct p (PackageSaved x) = (kp_saving p \<noteq> None)"
| "packages_ok i ct p PackageSaveFailed = (kp_saving p \<noteq> None)"
| "packages_ok i ct p (PackageDeactivated b) = (0 < kp_deactivations p)"
| "packages_ok i ct p a = offers (packagesView i ct p) a"

section \<open>Routers\<close>

record router_form =
  rf_name :: string
  rf_site_name :: string
  rf_host :: string
  rf_port :: string
  rf_username :: string
  rf_password :: string
  rf_showPassword :: bool
  rf_rotatePassword :: bool
  rf_errors :: field_errors
  rf_submitted :: bool

datatype router_field = RName | RSite | RHost | RPort | RUser | RPassword

text \<open>\<open>z.coerce.number().int().positive()\<close>: whole numbers that JavaScript represents exactly. Any password
  is accepted, because the schema also allows the empty one.\<close>

definition portErrors :: "rat option \<Rightarrow> field_errors" where
  "portErrors v =
     (case v of
        None \<Rightarrow> [(''port'', [])]
      | Some x \<Rightarrow>
          (if of_int (floor x) = x \<and> \<bar>x\<bar> \<le> 9007199254740991 then [] else [(''port'', [])])
          @ (if 0 < x then [] else [(''port'', ''Port must be positive'')]))"

definition routerSchema :: "router_form \<Rightarrow> field_errors" where
  "routerSchema f =
     minLength 1 ''name'' ''Router name is required'' (rf_name f)
     @ minLength 1 ''host'' ''Host/IP is required'' (rf_host f)
     @ portErrors (Number (rf_port f))
     @ minLength 1 ''username'' ''Username is required'' (rf_username f)
     @ minLength 1 ''site_name'' ''Site/Location name is required'' (rf_site_name f)"

fun routerFieldName :: "router_field \<Rightarrow> string" where
  "routerFieldName RName = ''name''"
| "routerFieldName RSite = ''site_name''"
| "routerFieldName RHost = ''host''"
| "routerFieldName RPort = ''port''"
| "routerFieldName RUser = ''username''"
| "routerFieldName RPassword = ''password''"

fun setRouterField :: "router_field \<Rightarrow> string \<Rightarrow> router_form \<Rightarrow> router_form" where
  "setRouterField RName v f = f\<lparr>rf_name := v\<rparr>"
| "setRouterField RSite v f = f\<lparr>rf_site_name := v\<rparr>"
| "setRouterField RHost v f = f\<lparr>rf_host := v\<rparr>"
| "setRouterField RPort v f = f\<lparr>rf_port := v\<rparr>"
| "setRouterField RUser v f = f\<lparr>rf_username := v\<rparr>"
| "setRouterField RPassword v f = f\<lparr>rf_password := v\<rparr>"

definition changeRouterField :: "router_field \<Rightarrow> string \<Rightarrow> router_form \<Rightarrow> router_form" where
  "changeRouterField k v f =
     (let f1 = setRouterField k v f
      in f1\<lparr>rf_errors := recheck (rf_submitted f1) (routerFieldName k) (routerSchema f1) (rf_errors f1)\<rparr>)"

text \<open>The form with the values of a router, or with its own defaults.\<close>

definition routerFormOf :: "mikrotik_router option \<Rightarrow> router_form" where
  "routerFormOf r =
     (case r of
        Some m \<Rightarrow> \<lparr>rf_name = mr_name m, rf_site_name = mr_site_name m, rf_host = nullish (mr_host m) [],
                  rf_port = showInt (nullish (mr_port m) 80), rf_username = nullish (mr_username m) ''admin'',
                  rf_password = [], rf_showPassword = False, rf_rotatePassword = False, rf_errors = [], rf_submitted = False\<rparr>
      | None \<Rightarrow> \<lparr>rf_name = [], rf_site_name = [], rf_host = [], rf_port = ''8728'', rf_username = ''admin'', rf_password = [],
                 rf_showPassword = False, rf_rotatePassword = True, rf_errors = [], rf_submitted = False\<rparr>)"

text \<open>\<open>handleFormSubmit\<close> and the two bodies: without rotation an edit drops the password, and an empty
  one is not sent.\<close>

definition sentPassword :: "bool \<Rightarrow> router_form \<Rightarrow> string" where
  "sentPassword isEdit f = (if isEdit \<and> \<not> rf_rotatePassword f then [] else rf_password f)"

definition routerFields :: "router_form \<Rightarrow> body" where
  "routerFields f =
     [(''name'', KS (rf_name f)), (''host'', KS (rf_host f)), (''port'', KN (floor (the (Number (rf_port f))))),
      (''username'', KS (rf_username f)), (''site_name'', KS (rf_site_name f))]"

definition updateRouterBody :: "router_form \<Rightarrow> body" where
  "updateRouterBody f =
     routerFields f @ (if sentPassword True f = [] then [] else [(''password'', KS (sentPassword True f))])"

definition createRouterBody :: "router_form \<Rightarrow> body" where
  "createRouterBody f = routerFields f @ [(''password'', KS (sentPassword False f))]"

record routers_page =
  rt_routers :: "mikrotik_router list fetched"
  rt_isDialogOpen :: bool
  rt_isDeleteDialogOpen :: bool
  rt_editingRouter :: "mikrotik_router option"
  rt_deletingRouterId :: "string option"
  rt_form :: router_form
  rt_saving :: "mikrotik_router option option"
  rt_deletions :: nat

datatype routers_action =
    RouterListAnswer "mikrotik_router list option"
  | ConnectRouter
  | ResumeSetup string
  | EditRouter mikrotik_router
  | DismissRouterDialog
  | CancelRouterDialog
  | RouterInput router_field string
  | ToggleRouterPassword
  | SetRotate bool
  | SubmitRouter
  | RouterSaved
  | RouterSaveFailed "string option"
  | AskDeleteRouter string
  | DismissDeleteRouter
  | ConfirmDeleteRouter
  | RouterDeleted
  | RouterDeleteFailed "string option"

definition routers0 :: routers_page where
  "routers0 = \<lparr>rt_routers = FLoading, rt_isDialogOpen = False, rt_isDeleteDialogOpen = False, rt_editingRouter = None,
     rt_deletingRouterId = None, rt_form = routerFormOf None, rt_saving = None, rt_deletions = 0\<rparr>"

definition closeRouterDialog :: "routers_page \<Rightarrow> routers_page" where
  "closeRouterDialog p = p\<lparr>rt_isDialogOpen := False, rt_editingRouter := None\<rparr>"

definition submitRouter :: "routers_page \<Rightarrow> routers_page \<times> page_out list" where
  "submitRouter p =
     (let f = rt_form p; errs = routerSchema f; p1 = p\<lparr>rt_form := f\<lparr>rf_errors := errs, rf_submitted := True\<rparr>\<rparr>
      in if errs \<noteq> [] then (p1, [])
         else (p1\<lparr>rt_saving := Some (rt_editingRouter p)\<rparr>,
               [Mutate (case rt_editingRouter p of
                          Some m \<Rightarrow> MUpdateRouter (mr_id m) (updateRouterBody f)
                        | None \<Rightarrow> MCreateRouter (createRouterBody f))]))"

definition handleDelete :: "routers_page \<Rightarrow> routers_page \<times> page_out list" where
  "handleDelete p =
     (if truthy (rt_deletingRouterId p)
      then (p\<lparr>rt_deletions := Suc (rt_deletions p)\<rparr>, [Mutate (MDeleteRouter (the (rt_deletingRouterId p)))])
      else (p, []))"

definition deletionSettled :: "routers_page \<Rightarrow> routers_page" where
  "deletionSettled p =
     p\<lparr>rt_deletions := rt_deletions p - 1, rt_isDeleteDialogOpen := False, rt_deletingRouterId := None\<rparr>"

fun routers_step :: "routers_page \<Rightarrow> routers_action \<Rightarrow> routers_page \<times> page_out list" where
  "routers_step p (RouterListAnswer d) = (p\<lparr>rt_routers := answered d (rt_routers p)\<rparr>, [])"
| "routers_step p ConnectRouter = (p, [Goto ''/admin/onboarding/router''])"
| "routers_step p (ResumeSetup x) = (p, [Goto (''/admin/onboarding/router?router_id='' @ x)])"
| "routers_step p (EditRouter m) =
     (p\<lparr>rt_editingRouter := Some m, rt_isDialogOpen := True, rt_form := routerFormOf (Some m)\<rparr>, [])"
| "routers_step p DismissRouterDialog = (p\<lparr>rt_isDialogOpen := False\<rparr>, [])"
| "routers_step p CancelRouterDialog = (closeRouterDialog p, [])"
| "routers_step p (RouterInput k v) = (p\<lparr>rt_form := changeRouterField k v (rt_form p)\<rparr>, [])"
| "routers_step p ToggleRouterPassword =
     (p\<lparr>rt_form := (rt_form p)\<lparr>rf_showPassword := \<not> rf_showPassword (rt_form p)\<rparr>\<rparr>, [])"
| "routers_step p (SetRotate b) = (p\<lparr>rt_form := (rt_form p)\<lparr>rf_rotatePassword := b\<rparr>\<rparr>, [])"
| "routers_step p SubmitRouter = submitRouter p"
| "routers_step p RouterSaved =
     (closeRouterDialog (p\<lparr>rt_saving := None\<rparr>),
      [ToastSuccess (if rt_saving p = Some None then ''Router connected successfully'' else ''Router configuration updated'')])"
| "routers_step p (RouterSaveFailed d) =
     (p\<lparr>rt_saving := None\<rparr>, [ToastError (orElse d ''Failed to save router details.'')])"
| "routers_step p (AskDeleteRouter x) = (p\<lparr>rt_deletingRouterId := Some x, rt_isDeleteDialogOpen := True\<rparr>, [])"
| "routers_step p DismissDeleteRouter = (p\<lparr>rt_isDeleteDialogOpen := False\<rparr>, [])"
| "routers_step p ConfirmDeleteRouter = handleDelete p"
| "routers_step p RouterDeleted = (deletionSettled p, [ToastSuccess ''Router profile removed''])"
| "routers_step p (RouterDeleteFailed d) = (deletionSettled p, [ToastError (orElse d ''Failed to remove router.'')])"

definition routerTableRow :: "intl \<Rightarrow> mikrotik_router \<Rightarrow> routers_action view" where
  "routerTableRow i m = Group
     [Txt (mr_name m), Txt (nullish (mr_host m) [] @ '':'' @ (case mr_port m of None \<Rightarrow> [] | Some n \<Rightarrow> showInt n)),
      Txt (mr_site_name m), Txt (mr_status m),
      Txt (if truthy (mr_last_heartbeat_at m) then formatNairobiDate i (the (mr_last_heartbeat_at m)) else ''Never''),
      (if mr_status m = ''pending_setup'' then Btn False [Txt ''Resume Setup''] (ResumeSetup (mr_id m))
       else Btn False [Txt ''Edit''] (EditRouter m)),
      Btn False [Txt ''Delete''] (AskDeleteRouter (mr_id m))]"

definition routerFormView :: "routers_page \<Rightarrow> routers_action view list" where
  "routerFormView p =
     (let f = rt_form p; errs = rf_errors f; isEdit = rt_editingRouter p \<noteq> None; busy = rt_saving p \<noteq> None
      in [Txt ''Router Name'', Inp ''e.g. Core Mikrotik'' (rf_name f) (RouterInput RName)] @ fieldError errs ''name''
         @ [Txt ''Site/Location Name'', Inp ''e.g. Nairobi CBD'' (rf_site_name f) (RouterInput RSite)]
         @ fieldError errs ''site_name''
         @ [Txt ''Host IP or Domain'', Inp ''e.g. 192.168.88.1'' (rf_host f) (RouterInput RHost)] @ fieldError errs ''host''
         @ [Txt ''API Port'', Inp [] (rf_port f) (RouterInput RPort)] @ fieldError errs ''port''
         @ [Txt ''Username'', Inp ''e.g. admin'' (rf_username f) (RouterInput RUser)] @ fieldError errs ''username''
         @ onlyIf isEdit [Btn False [Txt ''Rotate credentials (change password)''] (SetRotate (\<not> rf_rotatePassword f))]
         @ onlyIf (rf_rotatePassword f)
             ([Txt ''Password'',
               Inp (if isEdit then ''Enter new router password'' else ''Router password'') (rf_password f) (RouterInput RPassword),
               Btn False [] ToggleRouterPassword] @ fieldError errs ''password'')
         @ [Btn busy [Txt ''Cancel''] CancelRouterDialog,
            Btn busy [Txt (if busy then ''Saving...'' else if isEdit then ''Update Router'' else ''Add Router'')] SubmitRouter])"

definition routerDialog :: "routers_page \<Rightarrow> routers_action view list" where
  "routerDialog p =
     onlyIf (rt_isDialogOpen p)
       ([Txt (if rt_editingRouter p \<noteq> None then ''Edit Router API'' else ''Connect MikroTik Router''),
         Txt (if rt_editingRouter p \<noteq> None
              then ''Update connection parameters. Leave password empty unless rotating.''
              else ''Define credentials for your local MikroTik router.''),
         Btn False [] DismissRouterDialog] @ routerFormView p)"

definition deleteRouterDialog :: "routers_page \<Rightarrow> routers_action view list" where
  "deleteRouterDialog p =
     onlyIf (rt_isDeleteDialogOpen p)
       [Txt ''Disconnect this router?'',
        Txt ''Deleting this router will remove the VPN connection and disconnect all customers currently using it. Active sessions will be terminated. Are you sure?'',
        Btn False [Txt ''Cancel''] DismissDeleteRouter, Btn False [Txt ''Disconnect Router''] ConfirmDeleteRouter]"

definition routersView :: "intl \<Rightarrow> routers_page \<Rightarrow> routers_action view" where
  "routersView i p = Group
     ([Txt ''MikroTik Routers'', Txt ''Manage your router site configurations and credentials.'',
       Btn False [Txt ''Connect Router''] ConnectRouter]
      @ headers [''Name'', ''Host/IP'', ''Site/Location'', ''Status'', ''Last Heartbeat'', ''Actions'']
      @ tableBody (isLoadingQuery (rt_routers p)) ''No routers connected yet. Add your first MikroTik router to begin.''
          (routerTableRow i) (nullish (dataOf (rt_routers p)) [])
      @ routerDialog p @ deleteRouterDialog p)"

fun routers_ok :: "intl \<Rightarrow> routers_page \<Rightarrow> routers_action \<Rightarrow> bool" where
  "routers_ok i p (RouterListAnswer d) = True"
| "routers_ok i p RouterSaved = (rt_saving p \<noteq> None)"
| "routers_ok i p (RouterSaveFailed d) = (rt_saving p \<noteq> None)"
| "routers_ok i p RouterDeleted = (0 < rt_deletions p)"
| "routers_ok i p (RouterDeleteFailed d) = (0 < rt_deletions p)"
| "routers_ok i p a = offers (routersView i p) a"

section \<open>Lemmas\<close>

text \<open>The type of a package against the saves of the browser.\<close>

lemma typeOf_saved:
  assumes "getItem s PACKAGE_TYPES_KEY = None"
  shows "resolvePackageServiceType k (saveTypes ts s) = Inr (JStr (serviceName (typeOf (saveTypes ts s) k)))"
    and "pk_service_type k \<notin> {Some ''pppoe'', Some ''hotspot''} \<Longrightarrow> x = pk_id k \<Longrightarrow>
      typeOf (saveTypes (ts @ [(x, t)]) s) k = t"
proof -
  show "resolvePackageServiceType k (saveTypes ts s) = Inr (JStr (serviceName (typeOf (saveTypes ts s) k)))"
    using service_type_roundtrip [OF assms, of k ts]
    by (auto simp: typeOf_def serviceName_def split: option.splits service_type.splits if_splits)
  show "typeOf (saveTypes (ts @ [(x, t)]) s) k = t"
    if "pk_service_type k \<notin> {Some ''pppoe'', Some ''hotspot''}" "x = pk_id k"
    using that service_type_roundtrip [OF assms, of k "ts @ [(pk_id k, t)]"]
    by (cases t) (auto simp: typeOf_def serviceName_def)
qed

lemma saveTypes_snoc:
  assumes "getItem s PACKAGE_TYPES_KEY = None"
  shows "savePackageServiceType x t (saveTypes ts s) = Inr (saveTypes (ts @ [(x, t)]) s)"
  using readMap_saveTypes [OF assms, of ts] by (simp add: saveTypes_def savePackageServiceType_def)

text \<open>What the packages page offers.\<close>

lemma formView_no_settle: "\<not> offers (formView ct pr f) FSettled"
  by (auto simp: formView_def view_simps dest: durationView_offers)

lemma offers_packageTableRow:
  "offers (packageTableRow i p k) a \<longleftrightarrow> pk_is_active k \<and> (a = OpenPackageDialog (Some k) \<or> a = AskDeactivatePackage (pk_id k))"
  by (auto simp: packageTableRow_def serviceTypeBadge_def form_offers)

lemma offers_packageDialog:
  "list_ex (\<lambda>v. offers v a) (packageDialog ct p) \<longleftrightarrow>
     kp_isDialogOpen p \<and> (\<exists>f. kp_form p = Some f
       \<and> (a = DismissPackageDialog \<or> (\<exists>b. a = InForm b \<and> offers (formView ct (packageProps p) f) b)))"
  by (auto simp: packageDialog_def form_offers offers_map_view split: option.splits)

lemma offers_packages:
  "offers (packagesView i ct p) a \<longleftrightarrow> a = OpenPackageDialog None
     \<or> (\<exists>v \<in> {''all'', ''hotspot'', ''pppoe''}. a = SetServiceFilter v)
     \<or> (kp_packages p \<noteq> FLoading \<and> (\<exists>k \<in> set (kp_filtered p). offers (packageTableRow i p k) a))
     \<or> list_ex (\<lambda>v. offers v a) (packageDialog ct p)
     \<or> (kp_isDeleteDialogOpen p \<and> (a = DismissDeactivatePackage \<or> a = ConfirmDeactivatePackage))"
  unfolding packagesView_def deletePackageDialog_def by (auto simp: form_offers isLoadingQuery_def)

lemmas packages_offers = offers_packages offers_packageTableRow offers_packageDialog

lemmas packages_handlers = openPackageDialog_def closePackageDialog_def submitPackage_def saveSettled_def packageSaved_def
  deactivatePackage_def Let_def

text \<open>The form in the dialog: it agrees with the page on the type and on whether a request is
  outstanding, and a fiber package has its fixed duration.\<close>

definition form_agrees :: "packages_page \<Rightarrow> bool" where
  "form_agrees p \<longleftrightarrow>
     (\<forall>f. kp_form p = Some f \<longrightarrow> pf_selected f = kp_formServiceType p \<and> (pf_pending f \<longleftrightarrow> kp_saving p \<noteq> None)
        \<and> (pf_selected f = Pppoe \<longrightarrow> pf_duration f = Some 43200))"

lemma isPppoe_packageProps [simp]: "isPppoe (packageProps p) f \<longleftrightarrow> pf_selected f = Pppoe"
  by (simp add: isPppoe_def effectiveServiceType_def packageProps_def)

lemma mountForm_agrees:
  "pf_selected (mountForm p) = kp_formServiceType p" "pf_pending (mountForm p) \<longleftrightarrow> kp_saving p \<noteq> None"
  "pf_selected (mountForm p) = Pppoe \<Longrightarrow> pf_duration (mountForm p) = Some 43200"
  by (auto simp: mountForm_def formStart_def pppoeEffect_def packageProps_def Let_def isPppoe_def
      effectiveServiceType_def split: option.splits if_splits)

text \<open>One step of the form, as the page sees it.\<close>

lemma form_agrees_inForm:
  assumes "form_agrees p" and f: "kp_form p = Some f" and ok: "offers (formView ct (packageProps p) f) a"
  shows "form_agrees (fst (inForm a p))
    \<and> ((snd (inForm a p) = [] \<and> kp_saving (fst (inForm a p)) = kp_saving p)
       \<or> (kp_saving p = None \<and> (\<exists>r. snd (inForm a p) = snd (submitPackage r p)
            \<and> kp_saving (fst (inForm a p)) = Some (kp_editingPackage p, kp_formServiceType p)
            \<and> validRequest r \<and> (kp_formServiceType p = Pppoe \<longrightarrow> rq_duration_minutes r = 43200))))"
proof -
  note A = assms(1) [unfolded form_agrees_def, rule_format, OF f]
  show ?thesis
  proof (cases a)
    case FSubmit
    have "\<not> pf_pending f" using ok FSubmit by (auto dest: Packages.form_offers)
    with A have none: "kp_saving p = None" "\<not> pf_pending f" by (auto simp del: not_None_eq)
    show ?thesis
    proof (cases "baseSchema f = []")
      case True
      let ?r = "\<lparr>rq_name = pf_name f, rq_description = pf_description f, rq_price_kes = the (Number (pf_price f)),
        rq_speed_mbps = the (Number (pf_speed f)), rq_duration_minutes = the (pf_duration f)\<rparr>"
      have "validRequest ?r" using form_step_valid [of ?r "packageProps p" f FSubmit] True by simp
      with True A f none FSubmit show ?thesis
        by (auto simp: inForm_def form_agrees_def submitPackage_def)
    next
      case False
      with A f FSubmit none show ?thesis by (simp add: inForm_def form_agrees_def)
    qed
  next
    case FSettled
    with ok show ?thesis using formView_no_settle by blast
  next
    case (FSelect t)
    with A f show ?thesis
      by (auto simp: inForm_def form_agrees_def pppoeEffect_def Let_def)
  next
    case (FPreset m)
    with A f ok show ?thesis by (auto simp: inForm_def form_agrees_def dest: Packages.form_offers)
  next
    case (FCustom v)
    with A f ok show ?thesis by (auto simp: inForm_def form_agrees_def dest: Packages.form_offers)
  qed (use A f in \<open>auto simp: inForm_def form_agrees_def closePackageDialog_def\<close>)
qed

lemma fiber_request:
  assumes "form_agrees p" and "packages_ok i ct p a"
    and "v \<in> set (snd (packages_step p a))" and "v = PostNewPackage r \<or> (\<exists>x. v = PutPackage x r)"
  shows "\<exists>e t. kp_saving (fst (packages_step p a)) = Some (e, t) \<and> (t = Pppoe \<longrightarrow> rq_duration_minutes r = 43200)"
proof (cases a)
  case (InForm b)
  with assms(2) obtain f where "kp_form p = Some f" "offers (formView ct (packageProps p) f) b"
    by (auto simp: packages_offers)
  from form_agrees_inForm [OF assms(1) this] InForm assms(3,4) show ?thesis
    by (auto simp: submitPackage_def split: option.splits)
qed (use assms(3,4) in \<open>auto simp: packages_handlers filteredPackages_def split: option.splits sum.splits if_splits\<close>)

text \<open>The invariant of the page, for packages \<open>K\<close> that the list has shown and a browser storage \<open>s\<close>
  that held no types at first.\<close>

definition packages_known :: "(package \<Rightarrow> bool) \<Rightarrow> storage \<Rightarrow> packages_page \<Rightarrow> bool" where
  "packages_known K s p \<longleftrightarrow> form_agrees p
     \<and> (\<forall>ks. dataOf (kp_packages p) = Some ks \<longrightarrow> (\<forall>k \<in> set ks. K k)) \<and> (\<forall>k \<in> set (kp_filtered p). K k)
     \<and> (\<forall>k. kp_editingPackage p = Some k \<longrightarrow> K k \<and> pk_is_active k)
     \<and> (\<forall>x. kp_deletingPackageId p = Some x \<longrightarrow> (\<exists>k. K k \<and> pk_is_active k \<and> pk_id k = x))
     \<and> (\<exists>ts. kp_local p = saveTypes ts s)"

inductive package_request_ok :: "(package \<Rightarrow> bool) \<Rightarrow> packages_out \<Rightarrow> bool" for K where
  "validRequest r \<Longrightarrow> package_request_ok K (PostNewPackage r)"
| "K k \<Longrightarrow> pk_is_active k \<Longrightarrow> validRequest r \<Longrightarrow> package_request_ok K (PutPackage (pk_id k) r)"
| "K k \<Longrightarrow> pk_is_active k \<Longrightarrow> package_request_ok K (DeletePackage (pk_id k))"
| "package_request_ok K (PackageToast t)"
| "package_request_ok K (PackageError t)"

declare package_request_ok.intros [intro]

inductive_simps package_request_ok_simps:
  "package_request_ok K (PostNewPackage r)" "package_request_ok K (PutPackage x r)" "package_request_ok K (DeletePackage x)"

lemma packages_known_inForm:
  assumes known: "packages_known K s p" and ok: "packages_ok i ct p (InForm a)"
  shows "packages_known K s (fst (inForm a p)) \<and> (\<forall>r \<in> set (snd (inForm a p)). package_request_ok K r)"
proof -
  from ok obtain f where f: "kp_form p = Some f" "offers (formView ct (packageProps p) f) a"
    by (auto simp: packages_offers)
  have step: "form_agrees (fst (inForm a p))" and outs: "\<forall>r \<in> set (snd (inForm a p)). package_request_ok K r"
    using form_agrees_inForm [OF _ f] known
    by (auto simp: packages_known_def submitPackage_def split: option.splits)
  have "kp_packages (fst (inForm a p)) = kp_packages p" "kp_filtered (fst (inForm a p)) = kp_filtered p"
    "kp_deletingPackageId (fst (inForm a p)) = kp_deletingPackageId p" "kp_local (fst (inForm a p)) = kp_local p"
    "kp_editingPackage (fst (inForm a p)) \<in> {kp_editingPackage p, None}"
    using f by (cases a; simp add: inForm_def Let_def packages_handlers)+
  with step outs known show ?thesis by (auto simp: packages_known_def)
qed

lemma packages_known_step:
  assumes "packages_known K s p" and "packages_ok i ct p a" and "getItem s PACKAGE_TYPES_KEY = None"
    and "\<And>ks k. a = PackageListAnswer (Some ks) \<Longrightarrow> k \<in> set ks \<Longrightarrow> K k"
  shows "packages_known K s (fst (packages_step p a)) \<and> (\<forall>r \<in> set (snd (packages_step p a)). package_request_ok K r)"
proof (cases a)
  case (InForm b)
  with packages_known_inForm [OF assms(1)] assms(2) show ?thesis by simp
next
  case (OpenPackageDialog k)
  with assms show ?thesis
    using mountForm_agrees
    by (auto simp: packages_known_def packages_offers openPackageDialog_def Let_def form_agrees_def split: option.splits)
next
  case (PackageSaved x)
  from assms(1) obtain ts where "kp_local p = saveTypes ts s" by (auto simp: packages_known_def)
  with PackageSaved assms show ?thesis
    by (auto simp: packages_known_def packages_handlers form_agrees_def saveTypes_snoc split: option.splits)
next
  case ConfirmDeactivatePackage
  with assms show ?thesis
    by (cases "kp_deletingPackageId p") (auto simp: packages_known_def deactivatePackage_def form_agrees_def)
next
  case (PackageListAnswer d)
  with assms show ?thesis
    by (cases d; cases "kp_packages p")
      (auto simp: packages_known_def filteredPackages_def filterPackages_def form_agrees_def split: if_splits)
next
  case (SetServiceFilter v)
  with assms show ?thesis
    by (cases "dataOf (kp_packages p)")
      (auto simp: packages_known_def filteredPackages_def filterPackages_def form_agrees_def split: if_splits)
qed (use assms in \<open>auto simp: packages_known_def packages_offers form_agrees_def saveSettled_def simp del: not_None_eq\<close>)

fun is_package_save :: "packages_out \<Rightarrow> bool" where
  "is_package_save (PostNewPackage r) = True"
| "is_package_save (PutPackage x r) = True"
| "is_package_save v = False"

fun is_package_answer :: "packages_action \<Rightarrow> bool" where
  "is_package_answer (PackageSaved x) = True"
| "is_package_answer PackageSaveFailed = True"
| "is_package_answer a = False"

interpretation package_saves: request_flight packages_step
  "\<lambda>p a. packages_known (\<lambda>k. True) s p \<and> packages_ok i ct p a"
  "\<lambda>p. kp_saving p \<noteq> None" is_package_answer is_package_save for s i ct
proof
  fix p a
  assume "packages_known (\<lambda>k. True) s p \<and> packages_ok i ct p a"
  then have ok: "form_agrees p \<and> packages_ok i ct p a" by (simp add: packages_known_def)
  show "is_package_answer a \<Longrightarrow> kp_saving p \<noteq> None \<and> \<not> kp_saving (fst (packages_step p a)) \<noteq> None
      \<and> filter is_package_save (snd (packages_step p a)) = []"
    using ok by (cases a) (auto simp: packages_handlers split: option.splits sum.splits)
  show "(filter is_package_save (snd (packages_step p a)) = []
         \<and> (kp_saving (fst (packages_step p a)) \<noteq> None) = (kp_saving p \<noteq> None))
      \<or> (length (filter is_package_save (snd (packages_step p a))) = 1 \<and> \<not> kp_saving p \<noteq> None
         \<and> kp_saving (fst (packages_step p a)) \<noteq> None)" if "\<not> is_package_answer a"
  proof (cases a)
    case (InForm b)
    with ok obtain f where "kp_form p = Some f" "offers (formView ct (packageProps p) f) b"
      by (auto simp: packages_offers)
    from form_agrees_inForm [OF _ this] ok InForm show ?thesis
      by (auto simp: submitPackage_def simp del: not_None_eq split: option.splits)
  qed (use that in \<open>auto simp: packages_handlers filteredPackages_def simp del: not_None_eq\<close>)
qed

section \<open>Properties of the packages page\<close>

text \<open>However the packages page is used, it has at most one save outstanding and sends one request
  per submission, only valid requests, and changes or deactivates only packages that the list showed as
  active. In every reachable state, a request that a step sends is remembered with the type chosen in
  the form, a fiber package being sold for exactly 43200 minutes; and when the save is answered, every
  package with the answered id whose type the server does not say resolves to the chosen type.\<close>

lemma package_changes_safe:
  assumes run: "guarded_run (packages_ok i ct) packages_step (packages0 s) as = Some (p, outs)"
    and fresh: "getItem s PACKAGE_TYPES_KEY = None"
  shows "(length (filter is_package_save outs) = length (filter is_package_answer as) + of_bool (kp_saving p \<noteq> None))
    \<and> (\<forall>v \<in> set outs. package_request_ok (\<lambda>k. \<exists>ks. PackageListAnswer (Some ks) \<in> set as \<and> k \<in> set ks) v)
    \<and> (\<forall>a r. packages_ok i ct p a \<and> (\<exists>v \<in> set (snd (packages_step p a)). v = PostNewPackage r \<or> (\<exists>x. v = PutPackage x r)) \<longrightarrow>
      (\<exists>e t. kp_saving (fst (packages_step p a)) = Some (e, t) \<and> (t = Pppoe \<longrightarrow> rq_duration_minutes r = 43200)))
    \<and> (\<forall>e t x k. kp_saving p = Some (e, t) \<and> pk_id k = (case e of Some k' \<Rightarrow> pk_id k' | None \<Rightarrow> x)
      \<and> pk_service_type k \<notin> {Some ''pppoe'', Some ''hotspot''} \<longrightarrow>
      typeOf (kp_local (fst (packages_step p (PackageSaved x)))) k = t)"
proof -
  let ?K = "\<lambda>k. \<exists>ks. PackageListAnswer (Some ks) \<in> set as \<and> k \<in> set ks"
  have start: "packages_known ?K s (packages0 s)"
    by (auto simp: packages_known_def packages0_def form_agrees_def saveTypes_def intro: exI [of _ "[]"])
  have step: "packages_known ?K s (fst (packages_step p a)) \<and> (\<forall>r \<in> set (snd (packages_step p a)). package_request_ok ?K r)"
    if "packages_known ?K s p" "packages_ok i ct p a" "a \<in> set as" for p a
    using packages_known_step [OF that(1,2) fresh] that(3) by blast
  have anything: "packages_known (\<lambda>k. True) s (packages0 s)" using start by (auto simp: packages_known_def)
  note known = guarded_run_trace [OF run, of "packages_known ?K s", OF start step]
  have agrees: "form_agrees p" and "\<exists>ts. kp_local p = saveTypes ts s" using known(1) by (auto simp: packages_known_def)
  then obtain ts where ts: "kp_local p = saveTypes ts s" by blast
  have "\<forall>v \<in> set outs. package_request_ok ?K v" by (rule known(2))
  moreover have "\<forall>e t x k. kp_saving p = Some (e, t) \<and> pk_id k = (case e of Some k' \<Rightarrow> pk_id k' | None \<Rightarrow> x)
      \<and> pk_service_type k \<notin> {Some ''pppoe'', Some ''hotspot''} \<longrightarrow>
      typeOf (kp_local (fst (packages_step p (PackageSaved x)))) k = t"
    by (auto intro!: typeOf_saved(2) [OF fresh] simp: packageSaved_def ts saveTypes_snoc [OF fresh] closePackageDialog_def split: option.splits)
  moreover have "length (filter is_package_save outs) = length (filter is_package_answer as) + of_bool (kp_saving p \<noteq> None)"
    using package_saves.request_flights [OF guarded_run_strengthen [OF _ _ run, of "packages_known (\<lambda>k. True) s"]]
      packages_known_step [OF _ _ fresh, of "\<lambda>k. True"] anything
    by (simp add: packages0_def)
  moreover have "\<forall>a r. packages_ok i ct p a \<and> (\<exists>v \<in> set (snd (packages_step p a)). v = PostNewPackage r \<or> (\<exists>x. v = PutPackage x r)) \<longrightarrow>
      (\<exists>e t. kp_saving (fst (packages_step p a)) = Some (e, t) \<and> (t = Pppoe \<longrightarrow> rq_duration_minutes r = 43200))"
    using fiber_request [OF agrees] by blast
  ultimately show ?thesis by blast
qed

definition samplePackagesRun :: "packages_action list" where
  "samplePackagesRun = [PackageListAnswer (Some [samplePackage]), OpenPackageDialog None, InForm (FName ''Home''),
     InForm (FPrice ''1500''), InForm (FSpeed ''20''), InForm (FSelect Pppoe), InForm FSubmit]"

lemma formView_offered:
  "offers (formView ct (packageProps p) f) (FName t)" "offers (formView ct (packageProps p) f) (FPrice t)"
  "offers (formView ct (packageProps p) f) (FSpeed t)" "offers (formView ct (packageProps p) f) (FSelect k)"
  "\<not> pf_pending f \<Longrightarrow> offers (formView ct (packageProps p) f) FSubmit"
  by (simp_all add: form_offered packageProps_def)

lemma samplePackagesRun_runs:
  "\<exists>p outs. guarded_run (packages_ok sampleIntl []) packages_step (packages0 []) samplePackagesRun = Some (p, outs)
     \<and> outs = [PostNewPackage \<lparr>rq_name = ''Home'', rq_description = [], rq_price_kes = 1500, rq_speed_mbps = 20,
                 rq_duration_minutes = 43200\<rparr>]
     \<and> kp_saving p = Some (None, Pppoe)"
proof -
  have "Number ''1500'' = Some 1500" "Number ''20'' = Some 20"
    by (simp_all add: Number_def startsWith_def is_digit_def readFrac_def digit_val_def pexp_def)
  then show ?thesis
    by (simp add: samplePackagesRun_def guarded_run.simps packages_offers packages0_def formView_offered
        packages_handlers filteredPackages_def inForm_def mountForm_def formStart_def pppoeEffect_def
        baseSchema_def atLeastOne_def)
qed

text \<open>The list a filter shows is not recomputed when the type of a package changes: the package stays
  under its old type, with the badge of the new one, until the data or the filter change.\<close>

lemma stale_filter:
  "let as = [PackageListAnswer (Some [samplePackage]), SetServiceFilter ''hotspot'', OpenPackageDialog (Some samplePackage),
             InForm (FSelect Pppoe), InForm FSubmit, PackageSaved [], PackageListAnswer (Some [samplePackage])]
   in \<exists>p outs. guarded_run (packages_ok sampleIntl []) packages_step (packages0 []) as = Some (p, outs)
     \<and> kp_serviceFilter p = ''hotspot'' \<and> kp_filtered p = [samplePackage] \<and> typeOf (kp_local p) samplePackage = Pppoe"
proof -
  have fresh: "getItem [] PACKAGE_TYPES_KEY = None" "saveTypes [] [] = []" by (simp_all add: saveTypes_def)
  have numbers: "showNum 50 = ''50''" "Number ''50'' = Some 50" "Number ''5'' = Some 5" "showInt 5 = ''5''"
    by (simp_all add: showNum_def showInt_def showNat.simps digit_char_def Number_def startsWith_def is_digit_def readFrac_def digit_val_def pexp_def)
  have sample: "pk_id samplePackage = ''p1''" "pk_name samplePackage = ''Daily''" "pk_description samplePackage = []"
    "pk_price_kes samplePackage = 5000" "pk_speed_mbps samplePackage = 5" "pk_duration_minutes samplePackage = 1440"
    "pk_is_active samplePackage" "pk_service_type samplePackage = None"
    by (simp_all add: samplePackage_def)
  have new: "typeOf (saveTypes [(''p1'', Pppoe)] []) samplePackage = Pppoe"
    using typeOf_saved(2) [OF fresh(1), of samplePackage "''p1''" "[]" Pppoe] sample by simp
  have old: "typeOf [] samplePackage = Hotspot"
    by (simp add: sample typeOf_def resolvePackageServiceType_def storedServiceType_def readMap_def jfield_def)
  have save: "savePackageServiceType ''p1'' Pppoe [] = Inr (saveTypes [(''p1'', Pppoe)] [])"
    using saveTypes_snoc [OF fresh(1), of "''p1''" Pppoe "[]"] fresh(2) by simp
  show ?thesis
    by (simp add: guarded_run.simps packages_offers packages0_def formView_offered
        packages_handlers filteredPackages_def filterPackages_def inForm_def mountForm_def formStart_def pppoeEffect_def
        baseSchema_def atLeastOne_def new old save sample numbers jsLength_def serviceName_def)
qed

text \<open>The confirm button stays enabled: two presses deactivate twice.\<close>

lemma double_deactivation:
  "\<exists>p. guarded_run (packages_ok sampleIntl []) packages_step (packages0 [])
      [PackageListAnswer (Some [samplePackage]), AskDeactivatePackage ''p1'', ConfirmDeactivatePackage, ConfirmDeactivatePackage]
    = Some (p, [DeletePackage ''p1'', DeletePackage ''p1''])"
  by (simp add: guarded_run.simps packages_offers packages0_def filteredPackages_def filterPackages_def deactivatePackage_def)
    (simp add: samplePackage_def)

section \<open>Properties of the routers page\<close>

lemma offers_routerTableRow:
  "offers (routerTableRow i m) a \<longleftrightarrow> a = AskDeleteRouter (mr_id m)
     \<or> (mr_status m = ''pending_setup'' \<and> a = ResumeSetup (mr_id m)) \<or> (mr_status m \<noteq> ''pending_setup'' \<and> a = EditRouter m)"
  by (auto simp: routerTableRow_def form_offers)

lemma offers_routerForm:
  "list_ex (\<lambda>v. offers v a) (routerFormView p) \<longleftrightarrow>
     (\<exists>k t. a = RouterInput k t \<and> (k = RPassword \<longrightarrow> rf_rotatePassword (rt_form p)))
     \<or> (rt_editingRouter p \<noteq> None \<and> a = SetRotate (\<not> rf_rotatePassword (rt_form p)))
     \<or> (rf_rotatePassword (rt_form p) \<and> a = ToggleRouterPassword)
     \<or> (rt_saving p = None \<and> (a = CancelRouterDialog \<or> a = SubmitRouter))"
proof (cases a)
  case (RouterInput k t)
  then show ?thesis by (cases k) (simp_all add: routerFormView_def form_offers Let_def offers_fieldError)
qed (auto simp: routerFormView_def form_offers Let_def offers_fieldError)

lemma offers_routers:
  "offers (routersView i p) a \<longleftrightarrow> a = ConnectRouter
     \<or> (rt_routers p \<noteq> FLoading \<and> (\<exists>m \<in> set (nullish (dataOf (rt_routers p)) []). offers (routerTableRow i m) a))
     \<or> (rt_isDialogOpen p \<and> (a = DismissRouterDialog \<or> list_ex (\<lambda>v. offers v a) (routerFormView p)))
     \<or> (rt_isDeleteDialogOpen p \<and> (a = DismissDeleteRouter \<or> a = ConfirmDeleteRouter))"
  unfolding routersView_def routerDialog_def deleteRouterDialog_def by (auto simp: form_offers isLoadingQuery_def)

lemmas routers_offers = offers_routers offers_routerTableRow offers_routerForm

lemmas routers_handlers = closeRouterDialog_def submitRouter_def handleDelete_def deletionSettled_def Let_def

definition routers_known :: "(mikrotik_router \<Rightarrow> bool) \<Rightarrow> routers_page \<Rightarrow> bool" where
  "routers_known K p \<longleftrightarrow>
     (\<forall>m \<in> set (nullish (dataOf (rt_routers p)) []). K m)
     \<and> (rt_isDialogOpen p \<longrightarrow> (\<exists>m. rt_editingRouter p = Some m \<and> K m \<and> mr_status m \<noteq> ''pending_setup''))
     \<and> (\<forall>x. rt_deletingRouterId p = Some x \<longrightarrow> (\<exists>m. K m \<and> mr_id m = x))"

text \<open>An update names every field but the password, which it has only when there is one to change.\<close>

definition validRouterUpdate :: "body \<Rightarrow> bool" where
  "validRouterUpdate b \<longleftrightarrow>
     (\<exists>n h q u s pw. b = [(''name'', KS n), (''host'', KS h), (''port'', KN q), (''username'', KS u), (''site_name'', KS s)] @ pw
        \<and> n \<noteq> [] \<and> h \<noteq> [] \<and> u \<noteq> [] \<and> s \<noteq> [] \<and> 0 < q \<and> (pw = [] \<or> (\<exists>w. w \<noteq> [] \<and> pw = [(''password'', KS w)])))"

inductive router_request_ok :: "(mikrotik_router \<Rightarrow> bool) \<Rightarrow> page_out \<Rightarrow> bool" for K where
  "K m \<Longrightarrow> mr_status m \<noteq> ''pending_setup'' \<Longrightarrow> validRouterUpdate b \<Longrightarrow>
     router_request_ok K (Mutate (MUpdateRouter (mr_id m) b))"
| "K m \<Longrightarrow> router_request_ok K (Mutate (MDeleteRouter (mr_id m)))"
| "router_request_ok K (Goto t)"
| "router_request_ok K (ToastSuccess t)"
| "router_request_ok K (ToastError t)"

declare router_request_ok.intros [intro]

inductive_cases router_created: "router_request_ok K (Mutate (MCreateRouter b))"

lemma validRouterUpdate_sent: "routerSchema f = [] \<Longrightarrow> validRouterUpdate (updateRouterBody f)"
  by (auto simp: routerSchema_def minLength_def portErrors_def jsLength_def validRouterUpdate_def updateRouterBody_def
      routerFields_def split: if_splits option.splits)

lemma routers_known_step:
  assumes "routers_known K p" and "routers_ok i p a"
    and "\<And>ms m. a = RouterListAnswer (Some ms) \<Longrightarrow> m \<in> set ms \<Longrightarrow> K m"
  shows "routers_known K (fst (routers_step p a)) \<and> (\<forall>r \<in> set (snd (routers_step p a)). router_request_ok K r)"
proof (cases a)
  case (RouterListAnswer d)
  with assms show ?thesis by (cases d; cases "rt_routers p") (auto simp: routers_known_def)
next
  case SubmitRouter
  with assms show ?thesis
    by (auto simp: routers_known_def routers_offers submitRouter_def Let_def
        intro!: router_request_ok.intros(1) validRouterUpdate_sent)
next
  case ConfirmDeleteRouter
  with assms show ?thesis
    by (cases "rt_deletingRouterId p") (auto simp: routers_known_def handleDelete_def)
qed (use assms in \<open>auto simp: routers_known_def routers_offers routers_handlers split: if_splits option.splits\<close>)

fun is_router_save :: "page_out \<Rightarrow> bool" where
  "is_router_save (Mutate (MCreateRouter b)) = True"
| "is_router_save (Mutate (MUpdateRouter x b)) = True"
| "is_router_save v = False"

fun is_router_answer :: "routers_action \<Rightarrow> bool" where
  "is_router_answer RouterSaved = True"
| "is_router_answer (RouterSaveFailed d) = True"
| "is_router_answer a = False"

interpretation router_saves: request_flight routers_step "routers_ok i" "\<lambda>p. rt_saving p \<noteq> None" is_router_answer is_router_save
  for i
proof
  fix p a
  assume ok: "routers_ok i p a"
  show "is_router_answer a \<Longrightarrow> rt_saving p \<noteq> None \<and> \<not> rt_saving (fst (routers_step p a)) \<noteq> None
      \<and> filter is_router_save (snd (routers_step p a)) = []"
    using ok by (cases a) (auto simp: routers_handlers)
  show "(filter is_router_save (snd (routers_step p a)) = []
         \<and> (rt_saving (fst (routers_step p a)) \<noteq> None) = (rt_saving p \<noteq> None))
      \<or> (length (filter is_router_save (snd (routers_step p a))) = 1 \<and> \<not> rt_saving p \<noteq> None
         \<and> rt_saving (fst (routers_step p a)) \<noteq> None)" if "\<not> is_router_answer a"
    using ok that
    by (cases a) (auto simp: routers_handlers routers_offers simp del: not_None_eq split: option.splits)
qed

lemma password_rotated:
  assumes "Mutate (MUpdateRouter x b) \<in> set (snd (routers_step p a))" and "(''password'', KS w) \<in> set b"
  shows "rf_rotatePassword (rt_form p) \<and> w = rf_password (rt_form p) \<and> w \<noteq> []"
proof -
  from assms(1) have "b = updateRouterBody (rt_form p)"
    by (cases a) (auto simp: routers_handlers split: if_splits option.splits)
  with assms(2) show ?thesis
    by (auto simp: updateRouterBody_def routerFields_def sentPassword_def split: if_splits)
qed

text \<open>C35: However the routers page is used, it has at most one save outstanding and sends one request
  per submission; it never creates a router, updates only routers that the list showed and that are past
  their setup, with every field given and a positive port, removes only listed routers, and sends a
  password only when the form is set to rotate it and one was typed.\<close>

theorem router_changes_safe:
  assumes run: "guarded_run (routers_ok i) routers_step routers0 as = Some (p, outs)"
  shows "(length (filter is_router_save outs) = length (filter is_router_answer as) + of_bool (rt_saving p \<noteq> None))
    \<and> (\<forall>v \<in> set outs. router_request_ok (\<lambda>m. \<exists>ms. RouterListAnswer (Some ms) \<in> set as \<and> m \<in> set ms) v)
    \<and> (\<forall>b. Mutate (MCreateRouter b) \<notin> set outs)
    \<and> (\<forall>a x b w. Mutate (MUpdateRouter x b) \<in> set (snd (routers_step p a)) \<and> (''password'', KS w) \<in> set b \<longrightarrow>
      rf_rotatePassword (rt_form p) \<and> w = rf_password (rt_form p) \<and> w \<noteq> [])"
proof -
  let ?K = "\<lambda>m. \<exists>ms. RouterListAnswer (Some ms) \<in> set as \<and> m \<in> set ms"
  have start: "routers_known ?K routers0" by (simp add: routers_known_def routers0_def)
  have step: "routers_known ?K (fst (routers_step p a)) \<and> (\<forall>r \<in> set (snd (routers_step p a)). router_request_ok ?K r)"
    if "routers_known ?K p" "routers_ok i p a" "a \<in> set as" for p a
    using routers_known_step [OF that(1,2)] that(3) by blast
  have all: "\<forall>v \<in> set outs. router_request_ok ?K v"
    by (rule guarded_run_trace(2) [OF run, of "routers_known ?K", OF start step])
  moreover have "\<forall>b. Mutate (MCreateRouter b) \<notin> set outs" using all by (blast elim: router_created)
  moreover have "length (filter is_router_save outs) = length (filter is_router_answer as) + of_bool (rt_saving p \<noteq> None)"
    using router_saves.request_flights [OF run] by (simp add: routers0_def)
  ultimately show ?thesis using password_rotated by blast
qed

definition sampleMikrotik :: mikrotik_router where
  "sampleMikrotik = \<lparr>mr_id = ''r1'', mr_name = ''Core'', mr_host = Some ''10.0.0.2'', mr_port = Some 8728,
     mr_username = Some ''api'', mr_site_name = ''CBD'', mr_status = ''online'', mr_last_heartbeat_at = None, mr_created_at = [],
     mr_wireguard_public_key = None, mr_wireguard_assigned_ip = None, mr_wireguard_peer_public_key = None,
     mr_service_type = None\<rparr>"

definition sampleRoutersRun :: "routers_action list" where
  "sampleRoutersRun = [RouterListAnswer (Some [sampleMikrotik]), EditRouter sampleMikrotik, RouterInput RPort ''8729'',
     SetRotate True, RouterInput RPassword ''s3cret'']"

theorem router_changes_safe_witness:
  "\<exists>p. guarded_run (routers_ok sampleIntl) routers_step routers0 sampleRoutersRun = Some (p, [])
     \<and> rt_saving p = None \<and> snd (routers_step p SubmitRouter) =
       [Mutate (MUpdateRouter ''r1'' [(''name'', KS ''Core''), (''host'', KS ''10.0.0.2''), (''port'', KN 8729),
          (''username'', KS ''api''), (''site_name'', KS ''CBD''), (''password'', KS ''s3cret'')])]
     \<and> rf_rotatePassword (rt_form p)"
proof -
  have "Number ''8729'' = Some 8729"
    by (simp add: Number_def startsWith_def is_digit_def readFrac_def digit_val_def pexp_def)
  then have "\<exists>p. guarded_run (routers_ok sampleIntl) routers_step routers0 sampleRoutersRun = Some (p, [])
     \<and> snd (routers_step p SubmitRouter) =
       [Mutate (MUpdateRouter ''r1'' [(''name'', KS ''Core''), (''host'', KS ''10.0.0.2''), (''port'', KN 8729),
          (''username'', KS ''api''), (''site_name'', KS ''CBD''), (''password'', KS ''s3cret'')])]"
    by (simp add: sampleRoutersRun_def guarded_run.simps routers_offers routers0_def routers_handlers
        changeRouterField_def routerFormOf_def sampleMikrotik_def recheck_def)
      (simp add: routerSchema_def minLength_def portErrors_def updateRouterBody_def routerFields_def sentPassword_def
        jsLength_def)
  then obtain p where run: "guarded_run (routers_ok sampleIntl) routers_step routers0 sampleRoutersRun = Some (p, [])"
    and sent: "snd (routers_step p SubmitRouter) =
       [Mutate (MUpdateRouter ''r1'' [(''name'', KS ''Core''), (''host'', KS ''10.0.0.2''), (''port'', KN 8729),
          (''username'', KS ''api''), (''site_name'', KS ''CBD''), (''password'', KS ''s3cret'')])]"
    by blast
  note safe = router_changes_safe [OF run]
  have "rt_saving p = None" using safe [THEN conjunct1] by (simp add: sampleRoutersRun_def split: if_splits)
  moreover have "rf_rotatePassword (rt_form p)"
    using safe [THEN conjunct2, THEN conjunct2, THEN conjunct2, rule_format, of "''r1''" _ SubmitRouter "''s3cret''"] sent by force
  ultimately show ?thesis using run sent by blast
qed

end
