(* ===== verification/Admin_Dashboard.thy ===== *)
theory Admin_Dashboard
  imports Reseller Onboarding Router_Wizard
begin

text \<open>
  The admin's first page and account: \<open>pages/admin/DashboardPage.tsx\<close> with the widgets
  \<open>components/admin/SetupChecklist.tsx\<close>, \<open>RouterStatusWidget.tsx\<close> and \<open>TestPaymentGuideDialog.tsx\<close>, and
  \<open>pages/admin/AccountPage.tsx\<close>. Whether a date falls on the current day or in the current month of
  Nairobi is a parameter (record \<open>calendar\<close>), as is the display of dates.
\<close>

section \<open>Router health\<close>

datatype health = Online | Degraded | Offline

definition getRouterHealthStatus :: "string \<Rightarrow> health" where
  "getRouterHealthStatus status =
     (if status = ''online'' then Online else if status = ''offline'' then Offline else Degraded)"

text \<open>\<open>formatDistanceToNow\<close> throws for a date that is not valid.\<close>

definition formatLastSeen :: "intl \<Rightarrow> string option \<Rightarrow> string" where
  "formatLastSeen i lastHeartbeat =
     (if \<not> truthy lastHeartbeat then ''Never connected''
      else if validDate i (the lastHeartbeat) then ''Last seen '' @ distanceToNow i (the lastHeartbeat) @ '' ago''
      else ''Last seen unknown'')"

definition arrow :: string where
  "arrow = [CHR '' '', CHR 0xE2, CHR 0x86, CHR 0x92]"

definition middleDot :: string where
  "middleDot = [CHR '' '', CHR 0xC2, CHR 0xB7, CHR '' '']"

definition routerHealthRow :: "intl \<Rightarrow> mikrotik_router \<Rightarrow> 'a view" where
  "routerHealthRow i m =
     (let health = getRouterHealthStatus (mr_status m)
      in Group
        ([Txt (mr_name m), Txt (middleDot @ mr_site_name m), Txt (formatLastSeen i (mr_last_heartbeat_at m))]
         @ onlyIf (health = Offline) [Link ''/admin/routers'' [Txt ''Check router'']]
         @ [Txt (if health = Degraded then ''pending_setup'' else mr_status m)]))"

definition routerStatusWidget :: "intl \<Rightarrow> mikrotik_router list \<Rightarrow> bool \<Rightarrow> 'a view list" where
  "routerStatusWidget i routers loading =
     [Txt ''Router health'']
     @ onlyIf (\<exists>m \<in> set routers. getRouterHealthStatus (mr_status m) = Offline)
         [Link ''/admin/routers'' [Txt ''Check routers'']]
     @ (if loading then []
        else if routers = [] then [Txt ''No routers connected'', Link ''/admin/onboarding/router'' [Txt (''Connect router'' @ arrow)]]
        else map (routerHealthRow i) routers)"

section \<open>The setup checklist\<close>

datatype 'a cta = CtaHref path | CtaClick 'a

record 'a checklist_item =
  ci_id :: string
  ci_title :: string
  ci_description :: string
  ci_done :: bool
  ci_ctaLabel :: string
  ci_cta :: "'a cta"

definition checklistCard :: "'a checklist_item \<Rightarrow> 'a view" where
  "checklistCard item = Group
     ([Txt (ci_title item), Txt (ci_description item)]
      @ onlyIf (\<not> ci_done item)
          [case ci_cta item of
             CtaClick a \<Rightarrow> Btn False [Txt (ci_ctaLabel item)] a
           | CtaHref to \<Rightarrow> Link to [Txt (ci_ctaLabel item)]])"

definition setupChecklist :: "'a checklist_item list \<Rightarrow> 'a view list" where
  "setupChecklist items = map checklistCard items"

section \<open>The dashboard\<close>

record admin_tenant =
  at_business_name :: string
  at_owner_email :: string
  at_owner_phone :: string
  at_subscription_tier :: string
  at_max_customers :: nat
  at_current_customer_count :: nat
  at_billing_status :: string
  at_next_billing_date :: string
  at_created_at :: string

record calendar =
  isToday :: "string \<Rightarrow> bool"
  isThisMonth :: "string \<Rightarrow> bool"

text \<open>A query of the dashboard: its data, and whether its last attempt failed.\<close>

record admin_dashboard =
  ab_local :: storage
  ab_session :: storage
  ab_tenant :: "admin_tenant fetched"
  ab_packages :: "package list fetched"
  ab_routers :: "mikrotik_router list fetched"
  ab_payments :: "payment list fetched"
  ab_vouchers :: "voucher list fetched"
  ab_customers :: "user list fetched"
  ab_errorPayments :: bool
  ab_errorVouchers :: bool
  ab_errorCustomers :: bool
  ab_onboardingBannerDismissed :: bool
  ab_firstRunBannerDismissed :: bool
  ab_testPaymentGuideOpen :: bool

datatype dashboard_action =
    TenantAnswer "admin_tenant option"
  | PackagesAnswer "package list option"
  | RoutersAnswer "mikrotik_router list option"
  | PaymentsAnswer "payment list option"
  | VoucherAnswer "voucher list option"
  | UsersAnswer "user list option"
  | ContinueSetup
  | DismissOnboardingBanner
  | DismissFirstRunBanner
  | SetTestPaymentGuide bool
  | OpenPayments
  | OpenVouchers

definition ONBOARDING_BANNER_KEY :: string where
  "ONBOARDING_BANNER_KEY = ''Frixel Connect_onboarding_banner_dismissed''"

definition FIRST_RUN_BANNER_KEY :: string where
  "FIRST_RUN_BANNER_KEY = ''Frixel Connect_first_run_banner_dismissed''"

definition dashboardStart :: "storage \<Rightarrow> storage \<Rightarrow> admin_dashboard" where
  "dashboardStart l s =
     \<lparr>ab_local = l, ab_session = s, ab_tenant = FLoading, ab_packages = FLoading, ab_routers = FLoading,
      ab_payments = FLoading, ab_vouchers = FLoading, ab_customers = FLoading,
      ab_errorPayments = False, ab_errorVouchers = False, ab_errorCustomers = False,
      ab_onboardingBannerDismissed = (getItem s ONBOARDING_BANNER_KEY = Some ''true''),
      ab_firstRunBannerDismissed = (getItem l FIRST_RUN_BANNER_KEY = Some ''true''),
      ab_testPaymentGuideOpen = False\<rparr>"

fun dashboard_step :: "admin_dashboard \<Rightarrow> dashboard_action \<Rightarrow> admin_dashboard \<times> page_out list" where
  "dashboard_step p (TenantAnswer d) = (p\<lparr>ab_tenant := answered d (ab_tenant p)\<rparr>, [])"
| "dashboard_step p (PackagesAnswer d) = (p\<lparr>ab_packages := answered d (ab_packages p)\<rparr>, [])"
| "dashboard_step p (RoutersAnswer d) = (p\<lparr>ab_routers := answered d (ab_routers p)\<rparr>, [])"
| "dashboard_step p (PaymentsAnswer d) = (p\<lparr>ab_payments := answered d (ab_payments p), ab_errorPayments := (d = None)\<rparr>, [])"
| "dashboard_step p (VoucherAnswer d) = (p\<lparr>ab_vouchers := answered d (ab_vouchers p), ab_errorVouchers := (d = None)\<rparr>, [])"
| "dashboard_step p (UsersAnswer d) = (p\<lparr>ab_customers := answered d (ab_customers p), ab_errorCustomers := (d = None)\<rparr>, [])"
| "dashboard_step p ContinueSetup = (p, [Goto ''/admin/onboarding''])"
| "dashboard_step p DismissOnboardingBanner =
     (p\<lparr>ab_session := setItem ONBOARDING_BANNER_KEY ''true'' (ab_session p), ab_onboardingBannerDismissed := True\<rparr>, [])"
| "dashboard_step p DismissFirstRunBanner =
     (p\<lparr>ab_local := setItem FIRST_RUN_BANNER_KEY ''true'' (ab_local p), ab_firstRunBannerDismissed := True\<rparr>, [])"
| "dashboard_step p (SetTestPaymentGuide b) = (p\<lparr>ab_testPaymentGuideOpen := b\<rparr>, [])"
| "dashboard_step p OpenPayments = (p, [Goto ''/admin/payments''])"
| "dashboard_step p OpenVouchers = (p, [Goto ''/admin/vouchers''])"

definition dashboardLoading :: "admin_dashboard \<Rightarrow> bool" where
  "dashboardLoading p \<longleftrightarrow> isLoadingQuery (ab_payments p) \<or> isLoadingQuery (ab_vouchers p) \<or> isLoadingQuery (ab_customers p)
     \<or> isLoadingQuery (ab_packages p) \<or> isLoadingQuery (ab_routers p)"

definition dashboardError :: "admin_dashboard \<Rightarrow> bool" where
  "dashboardError p \<longleftrightarrow> ab_errorPayments p \<or> ab_errorVouchers p \<or> ab_errorCustomers p"

definition confirmedPaymentCount :: "admin_dashboard \<Rightarrow> nat" where
  "confirmedPaymentCount p = length (filter (\<lambda>q. py_status q = ''confirmed'') (nullish (dataOf (ab_payments p)) []))"

definition isFirstRun :: "admin_dashboard \<Rightarrow> bool" where
  "isFirstRun p \<longleftrightarrow> \<not> dashboardLoading p \<and> confirmedPaymentCount p = 0"

definition hasCustomers :: "admin_dashboard \<Rightarrow> bool" where
  "hasCustomers p \<longleftrightarrow> 0 < length (filter (\<lambda>c. us_role c = ''customer'') (nullish (dataOf (ab_customers p)) []))"

definition checklistItems :: "admin_dashboard \<Rightarrow> dashboard_action checklist_item list" where
  "checklistItems p =
     [\<lparr>ci_id = ''packages'', ci_title = ''Create a package'',
        ci_description = ''Define what your customers buy-speed, duration, and price.'',
        ci_done = (0 < length (nullish (dataOf (ab_packages p)) [])),
        ci_ctaLabel = ''Add package'' @ arrow, ci_cta = CtaHref ''/admin/packages''\<rparr>,
      \<lparr>ci_id = ''router'', ci_title = ''Connect your MikroTik router'',
        ci_description = ''Paste one command in your router terminal. Done in 60 seconds.'',
        ci_done = hasOnlineRouter (summariseRouters (nullish (dataOf (ab_routers p)) [])),
        ci_ctaLabel = ''Connect router'' @ arrow, ci_cta = CtaHref ''/admin/onboarding/router''\<rparr>,
      \<lparr>ci_id = ''payment'', ci_title = ''Test a payment'',
        ci_description = ''Use the Daraja sandbox to send a test M-Pesa payment and see it appear here.'',
        ci_done = (0 < length (nullish (dataOf (ab_payments p)) [])),
        ci_ctaLabel = ''View test guide'' @ arrow, ci_cta = CtaClick (SetTestPaymentGuide True)\<rparr>,
      \<lparr>ci_id = ''customer'', ci_title = ''Add your first customer'',
        ci_description = ''Create a customer account manually or share your hotspot portal link for self-registration.'',
        ci_done = hasCustomers p,
        ci_ctaLabel = ''Add customer'' @ arrow, ci_cta = CtaHref ''/admin/customers''\<rparr>]"

text \<open>The loop over the payments.\<close>

record tally =
  tl_revenue :: int
  tl_today :: int
  tl_month :: nat

definition tallyPayment :: "calendar \<Rightarrow> payment \<Rightarrow> tally \<Rightarrow> tally" where
  "tallyPayment c q t =
     (if py_status q = ''confirmed'' then
        let t1 = t\<lparr>tl_revenue := tl_revenue t + py_amount_kes q\<rparr>;
            t2 = (if isToday c (py_created_at q) then t1\<lparr>tl_today := tl_today t1 + py_amount_kes q\<rparr> else t1)
        in if isThisMonth c (py_created_at q) then t2\<lparr>tl_month := tl_month t2 + 1\<rparr> else t2
      else t)"

definition dashboardTally :: "calendar \<Rightarrow> admin_dashboard \<Rightarrow> tally" where
  "dashboardTally c p =
     fold (tallyPayment c) (nullish (dataOf (ab_payments p)) [])
       \<lparr>tl_revenue = 0, tl_today = 0, tl_month = 0\<rparr>"

definition activeVoucherTotal :: "admin_dashboard \<Rightarrow> nat" where
  "activeVoucherTotal p = length (filter (\<lambda>v. vo_status v = ''active'') (nullish (dataOf (ab_vouchers p)) []))"

definition dashPayments :: "intl \<Rightarrow> admin_dashboard \<Rightarrow> payment list" where
  "dashPayments i p = slice 0 10 (newestFirst (\<lambda>q. getTime i (py_created_at q)) (nullish (dataOf (ab_payments p)) []))"

definition dashVouchers :: "intl \<Rightarrow> admin_dashboard \<Rightarrow> voucher list" where
  "dashVouchers i p = slice 0 10 (newestFirst (\<lambda>v. getTime i (vo_created_at v)) (nullish (dataOf (ab_vouchers p)) []))"

definition onboardingBanner :: "admin_dashboard \<Rightarrow> dashboard_action view list" where
  "onboardingBanner p =
     onlyIf (isOnboardingIncomplete (ab_local p) \<and> \<not> ab_onboardingBannerDismissed p)
       [Txt (''Complete your setup to start accepting payments'' @ arrow),
        Btn False [Txt ''Continue setup''] ContinueSetup, Btn False [Txt ''Dismiss banner''] DismissOnboardingBanner]"

definition firstRunBanner :: "admin_dashboard \<Rightarrow> dashboard_action view list" where
  "firstRunBanner p =
     onlyIf (isFirstRun p \<and> \<not> ab_firstRunBannerDismissed p)
       [Btn False [Txt ''Dismiss welcome banner''] DismissFirstRunBanner,
        Txt (''Welcome to Frixel Connect, '' @ nullish (map_option at_business_name (dataOf (ab_tenant p))) ''there'' @ ''!''),
        Txt ''You're set up. Here's what to do first to start accepting your first M-Pesa payment.'']"

definition statCard :: "bool \<Rightarrow> string \<Rightarrow> string \<Rightarrow> 'a view list" where
  "statCard loading title val = [Txt title] @ onlyIf (\<not> loading) [Txt val]"

definition dashboardCards :: "intl \<Rightarrow> calendar \<Rightarrow> admin_dashboard \<Rightarrow> dashboard_action view list" where
  "dashboardCards i c p =
     (let card = statCard (dashboardLoading p); t = dashboardTally c p
      in card ''Total Revenue'' (formatKES i (tl_revenue t))
         @ card ''Total Revenue Today'' (formatKES i (tl_today t))
         @ card ''Active Vouchers'' (showNat (activeVoucherTotal p))
         @ card ''Total Customers'' (showNat (length (nullish (dataOf (ab_customers p)) [])))
         @ card ''Payments This Month'' (showNat (tl_month t)))"

definition dashPaymentRow :: "intl \<Rightarrow> payment \<Rightarrow> dashboard_action view" where
  "dashPaymentRow i q = Btn False
     [Txt (py_phone_number q), Txt (orElse (Some (py_package_name q)) ''Unknown''), Txt (formatKES i (py_amount_kes q)),
      statusBadge (py_status q), Txt (formatNairobiDate i (py_created_at q))] OpenPayments"

definition dashVoucherRow :: "intl \<Rightarrow> user list option \<Rightarrow> voucher \<Rightarrow> dashboard_action view" where
  "dashVoucherRow i customers v = Btn False
     [Txt (vo_code v), statusBadge (vo_status v), Txt (formatNairobiDate i (vo_expires_at v)),
      Txt (getCustomerPhone customers (vo_customer_id v))] OpenVouchers"

definition testPaymentGuideDialog :: "admin_dashboard \<Rightarrow> dashboard_action view list" where
  "testPaymentGuideDialog p =
     onlyIf (ab_testPaymentGuideOpen p)
       [Txt ''Test an M-Pesa payment'', Txt ''Use Safaricom's Daraja sandbox to confirm payments flow into your dashboard.'',
        Txt ''In Account & Billing, confirm your tenant is on sandbox mode (default for new trials).'',
        Txt ''Open your customer hotspot portal or use the admin STK test endpoint with a sandbox phone number (e.g. 254708374149).'',
        Txt ''Complete the STK prompt on the test handset-amount should match one of your packages.'',
        Txt ''Return to Payments; the record should appear within a few seconds once Daraja confirms.'',
        Txt ''Need production go-live? Configure live Daraja credentials under Account & Billing once you are ready for real customer payments.'',
        Btn False [] (SetTestPaymentGuide False)]"

definition recentPaymentsCard :: "intl \<Rightarrow> admin_dashboard \<Rightarrow> dashboard_action view list" where
  "recentPaymentsCard i p =
     [Txt ''Recent Payments''] @ headers [''Customer'', ''Package'', ''Amount'', ''Status'', ''Date'']
     @ tableBody (dashboardLoading p) ''No recent payments'' (dashPaymentRow i) (dashPayments i p)"

definition recentVouchersCard :: "intl \<Rightarrow> admin_dashboard \<Rightarrow> dashboard_action view list" where
  "recentVouchersCard i p =
     [Txt ''Recent Vouchers''] @ headers [''Code'', ''Status'', ''Expires'', ''Customer'']
     @ tableBody (dashboardLoading p) ''No recent vouchers'' (dashVoucherRow i (dataOf (ab_customers p))) (dashVouchers i p)"

definition adminDashboardView :: "intl \<Rightarrow> calendar \<Rightarrow> admin_dashboard \<Rightarrow> dashboard_action view" where
  "adminDashboardView i c p =
     (if dashboardError p
      then Group [Txt ''Failed to load dashboard'',
                  Txt ''There was an error fetching the dashboard data. Please try again.'']
      else Group
        (onboardingBanner p @ firstRunBanner p @ onlyIf (isFirstRun p) (setupChecklist (checklistItems p))
         @ dashboardCards i c p
         @ routerStatusWidget i (nullish (dataOf (ab_routers p)) []) (isLoadingQuery (ab_routers p))
         @ recentPaymentsCard i p @ recentVouchersCard i p
         @ testPaymentGuideDialog p))"

fun dashboard_ok :: "intl \<Rightarrow> calendar \<Rightarrow> admin_dashboard \<Rightarrow> dashboard_action \<Rightarrow> bool" where
  "dashboard_ok i c p (TenantAnswer d) = True"
| "dashboard_ok i c p (PackagesAnswer d) = True"
| "dashboard_ok i c p (RoutersAnswer d) = True"
| "dashboard_ok i c p (PaymentsAnswer d) = True"
| "dashboard_ok i c p (VoucherAnswer d) = True"
| "dashboard_ok i c p (UsersAnswer d) = True"
| "dashboard_ok i c p a = offers (adminDashboardView i c p) a"

section \<open>The account page\<close>

record account_page =
  ac_tenant :: "admin_tenant fetched"
  ac_pending :: bool
  ac_isPaying :: bool
  ac_timer :: bool

datatype account_action =
    AccountAnswer "admin_tenant option"
  | PayNowClick
  | PayNowOk
  | PayNowFailed "string option"
  | PayTimer

datatype account_out =
    PostPayNow mhook
  | AccountToast string
  | AccountError string
  | ReloadPage

definition accountStart :: account_page where
  "accountStart = \<lparr>ac_tenant = FLoading, ac_pending = False, ac_isPaying = False, ac_timer = False\<rparr>"

text \<open>\<open>handlePayNow\<close> sends the request; its success arms a timer of fifteen seconds.\<close>

fun account_step :: "account_page \<Rightarrow> account_action \<Rightarrow> account_page \<times> account_out list" where
  "account_step p (AccountAnswer d) = (p\<lparr>ac_tenant := answered d (ac_tenant p)\<rparr>, [])"
| "account_step p PayNowClick = (p\<lparr>ac_pending := True\<rparr>, [PostPayNow MTenantPayNow])"
| "account_step p PayNowOk = (p\<lparr>ac_pending := False, ac_isPaying := True, ac_timer := True\<rparr>, [])"
| "account_step p (PayNowFailed d) = (p\<lparr>ac_pending := False\<rparr>, [AccountError (orElse d ''Failed to initiate payment.'')])"
| "account_step p PayTimer =
     (p\<lparr>ac_timer := False, ac_isPaying := False\<rparr>,
      [AccountToast ''Payment received successfully. Thank you!'', ReloadPage])"

text \<open>The quotient is exact; \<open>0 / 0\<close> is not a number, anything else over 0 is infinite.\<close>

definition usagePercent :: "admin_tenant \<Rightarrow> rat option" where
  "usagePercent t =
     (if at_max_customers t = 0 then (if at_current_customer_count t = 0 then None else Some 100)
      else Some (min (of_nat (at_current_customer_count t) / of_nat (at_max_customers t) * 100) 100))"

definition isAmber :: "admin_tenant \<Rightarrow> bool" where
  "isAmber t \<longleftrightarrow> (case usagePercent t of None \<Rightarrow> False | Some x \<Rightarrow> 80 \<le> x \<and> x < 100)"

definition isRed :: "admin_tenant \<Rightarrow> bool" where
  "isRed t \<longleftrightarrow> (case usagePercent t of None \<Rightarrow> False | Some x \<Rightarrow> 100 \<le> x)"

definition usageColor :: "admin_tenant \<Rightarrow> string" where
  "usageColor t = (if isAmber t then ''amber'' else if isRed t then ''red'' else [])"

definition usageView :: "admin_tenant \<Rightarrow> 'a view list" where
  "usageView t =
     [Txt ''Customer Limit Usage'',
      Txt (showNat (at_current_customer_count t) @ '' / '' @ showNat (at_max_customers t))]
     @ onlyIf (isRed t) [Txt ''You have reached your maximum customer limit. Please upgrade your tier.'']"

definition payFooter :: "account_page \<Rightarrow> admin_tenant \<Rightarrow> account_action view list" where
  "payFooter p t =
     onlyIf (\<not> ac_isPaying p)
       (onlyIf (at_billing_status t = ''grace'')
          [Txt ''Your account is in grace period. Pay now to avoid service suspension for you and your customers.'']
        @ [Btn (ac_pending p) [Txt (if ac_pending p then ''Initiating...'' else ''Pay Subscription Now'')] PayNowClick])"

definition accountView :: "intl \<Rightarrow> account_page \<Rightarrow> account_action view" where
  "accountView i p =
     (case dataOf (ac_tenant p) of
        None \<Rightarrow> Group []
      | Some t \<Rightarrow> Group
          ([Txt ''Your Frixel Connect Account'', Txt ''Manage your ISP's SaaS subscription and view usage limits.'',
            Txt ''Business Profile'', Txt ''Your registered ISP details.'', Txt ''Business Name'', Txt (at_business_name t),
            Txt ''Owner Email'', Txt (at_owner_email t), Txt ''Contact Phone'', Txt (at_owner_phone t),
            Txt ''Member Since'', Txt (formatNairobiDate i (at_created_at t)),
            Txt ''Subscription & Billing'', statusBadge (at_billing_status t), Txt ''Your current Frixel Connect SaaS plan.'']
           @ (if ac_isPaying p
              then stkPendingState (Some ''Confirm Payment on your Phone'')
                     (Some (''An M-Pesa prompt has been sent to '' @ at_owner_phone t
                            @ ''. Please enter your PIN to complete the transaction.''))
              else [Txt ''Current Tier'', Txt (at_subscription_tier t @ '' Plan''), Txt ''Next Billing Date'',
                    Txt (formatNairobiDate i (at_next_billing_date t))] @ usageView t)
           @ payFooter p t))"

fun account_ok :: "intl \<Rightarrow> account_page \<Rightarrow> account_action \<Rightarrow> bool" where
  "account_ok i p (AccountAnswer d) = True"
| "account_ok i p PayNowOk = ac_pending p"
| "account_ok i p (PayNowFailed d) = ac_pending p"
| "account_ok i p PayTimer = ac_timer p"
| "account_ok i p a = offers (accountView i p) a"

section \<open>Lemmas\<close>

lemma offers_checklistCard:
  "offers (checklistCard item) a \<longleftrightarrow> \<not> ci_done item \<and> ci_cta item = CtaClick a"
  by (cases "ci_cta item") (auto simp: checklistCard_def form_offers offers_simps(5))

lemma offers_routerStatusWidget [simp]: "\<not> list_ex (\<lambda>v. offers v a) (routerStatusWidget i ms ld)"
  by (auto simp: routerStatusWidget_def routerHealthRow_def form_offers offers_simps(5) Let_def)

lemma ex_in_list: "(\<exists>x. x \<in> set xs) \<longleftrightarrow> xs \<noteq> []"
  by (cases xs) auto

lemma offers_dashboard_parts:
  "list_ex (\<lambda>v. offers v a) (setupChecklist (checklistItems p))
     \<longleftrightarrow> a = SetTestPaymentGuide True \<and> nullish (dataOf (ab_payments p)) [] = []"
  "list_ex (\<lambda>v. offers v a) (onboardingBanner p) \<longleftrightarrow> isOnboardingIncomplete (ab_local p)
     \<and> \<not> ab_onboardingBannerDismissed p \<and> (a = ContinueSetup \<or> a = DismissOnboardingBanner)"
  "list_ex (\<lambda>v. offers v a) (firstRunBanner p) \<longleftrightarrow> isFirstRun p \<and> \<not> ab_firstRunBannerDismissed p \<and> a = DismissFirstRunBanner"
  "\<not> list_ex (\<lambda>v. offers v a) (dashboardCards i c p)"
  "list_ex (\<lambda>v. offers v a) (testPaymentGuideDialog p) \<longleftrightarrow> ab_testPaymentGuideOpen p \<and> a = SetTestPaymentGuide False"
  "offers (dashPaymentRow i q) a \<longleftrightarrow> a = OpenPayments" "offers (dashVoucherRow i us v) a \<longleftrightarrow> a = OpenVouchers"
  by (auto simp: setupChecklist_def checklistItems_def form_offers offers_checklistCard onboardingBanner_def
      firstRunBanner_def dashboardCards_def statCard_def Let_def testPaymentGuideDialog_def dashPaymentRow_def
      dashVoucherRow_def statusBadge_def typable_simps)

lemma offers_dashboard:
  "offers (adminDashboardView i c p) a \<longleftrightarrow> \<not> dashboardError p \<and>
     ((isOnboardingIncomplete (ab_local p) \<and> \<not> ab_onboardingBannerDismissed p
         \<and> (a = ContinueSetup \<or> a = DismissOnboardingBanner))
      \<or> (isFirstRun p \<and> \<not> ab_firstRunBannerDismissed p \<and> a = DismissFirstRunBanner)
      \<or> (isFirstRun p \<and> a = SetTestPaymentGuide True \<and> nullish (dataOf (ab_payments p)) [] = [])
      \<or> (\<not> dashboardLoading p \<and> dashPayments i p \<noteq> [] \<and> a = OpenPayments)
      \<or> (\<not> dashboardLoading p \<and> dashVouchers i p \<noteq> [] \<and> a = OpenVouchers)
      \<or> (ab_testPaymentGuideOpen p \<and> a = SetTestPaymentGuide False))"
proof (cases "dashboardError p")
  case True
  then show ?thesis by (simp add: adminDashboardView_def recentPaymentsCard_def recentVouchersCard_def form_offers)
next
  case False
  then show ?thesis by (simp add: adminDashboardView_def recentPaymentsCard_def recentVouchersCard_def form_offers offers_dashboard_parts ex_in_list)
qed

lemma tally_exact:
  "fold (tallyPayment c) ps t =
     \<lparr>tl_revenue = tl_revenue t + (\<Sum>q\<leftarrow>filter (\<lambda>q. py_status q = ''confirmed'') ps. py_amount_kes q),
      tl_today = tl_today t + (\<Sum>q\<leftarrow>filter (\<lambda>q. py_status q = ''confirmed'' \<and> isToday c (py_created_at q)) ps. py_amount_kes q),
      tl_month = tl_month t + length (filter (\<lambda>q. py_status q = ''confirmed'' \<and> isThisMonth c (py_created_at q)) ps)\<rparr>"
  by (induction ps arbitrary: t) (auto simp: tallyPayment_def Let_def)

text \<open>Only the dismissals write to the browser.\<close>

definition banners_kept :: "storage \<Rightarrow> storage \<Rightarrow> bool \<Rightarrow> bool \<Rightarrow> admin_dashboard \<Rightarrow> bool" where
  "banners_kept l s d1 d2 p \<longleftrightarrow>
     (\<forall>k. getItem (ab_local p) k = (if k = FIRST_RUN_BANNER_KEY \<and> d2 then Some ''true'' else getItem l k))
     \<and> (\<forall>k. getItem (ab_session p) k = (if k = ONBOARDING_BANNER_KEY \<and> d1 then Some ''true'' else getItem s k))
     \<and> (ab_onboardingBannerDismissed p \<longleftrightarrow> getItem (ab_session p) ONBOARDING_BANNER_KEY = Some ''true'')
     \<and> (ab_firstRunBannerDismissed p \<longleftrightarrow> getItem (ab_local p) FIRST_RUN_BANNER_KEY = Some ''true'')"

lemma banners_kept_step:
  "banners_kept l s d1 d2 p \<Longrightarrow>
   banners_kept l s (d1 \<or> a = DismissOnboardingBanner) (d2 \<or> a = DismissFirstRunBanner) (fst (dashboard_step p a))"
  by (cases a) (auto simp: banners_kept_def ls.get_put)

lemma banners_kept_run:
  "guarded_run (dashboard_ok i c) dashboard_step p as = Some (p', outs) \<Longrightarrow> banners_kept l s d1 d2 p \<Longrightarrow>
   banners_kept l s (d1 \<or> DismissOnboardingBanner \<in> set as) (d2 \<or> DismissFirstRunBanner \<in> set as) p'"
proof (induction as arbitrary: p outs d1 d2)
  case (Cons a as)
  then obtain outs' where "guarded_run (dashboard_ok i c) dashboard_step (fst (dashboard_step p a)) as = Some (p', outs')"
    by (auto simp: guarded_run_Cons)
  from Cons.IH [OF this banners_kept_step [OF Cons.prems(2)]] show ?case
    by (simp add: disj_assoc eq_commute [of a])
qed simp

lemma banners_dismissed:
  assumes "banners_kept l s d1 d2 p"
  shows "d2 \<or> getItem l FIRST_RUN_BANNER_KEY = Some ''true'' \<Longrightarrow>
      ab_firstRunBannerDismissed p \<and> getItem (ab_local p) FIRST_RUN_BANNER_KEY = Some ''true''"
    and "d1 \<or> getItem s ONBOARDING_BANNER_KEY = Some ''true'' \<Longrightarrow>
      ab_onboardingBannerDismissed p \<and> getItem (ab_session p) ONBOARDING_BANNER_KEY = Some ''true''"
    and "getItem (ab_local p) k \<noteq> getItem l k \<Longrightarrow> k = FIRST_RUN_BANNER_KEY \<and> d2"
    and "getItem (ab_session p) k \<noteq> getItem s k \<Longrightarrow> k = ONBOARDING_BANNER_KEY \<and> d1"
  using assms by (auto simp: banners_kept_def split: if_splits)

text \<open>The account page: a payment is being requested or waited for, never both.\<close>

lemma offers_account:
  "offers (accountView i p) a \<longleftrightarrow> (\<exists>t. ac_tenant p = FLoaded t) \<and> \<not> ac_isPaying p \<and> \<not> ac_pending p \<and> a = PayNowClick"
  by (cases "ac_tenant p")
    (auto simp: accountView_def form_offers stkPendingState_def usageView_def payFooter_def)

definition one_payment :: "account_page \<Rightarrow> bool" where
  "one_payment p \<longleftrightarrow> (ac_timer p \<longleftrightarrow> ac_isPaying p) \<and> \<not> (ac_pending p \<and> ac_isPaying p)"

lemma one_payment_step: "one_payment p \<Longrightarrow> account_ok i p a \<Longrightarrow> one_payment (fst (account_step p a))"
  by (cases a) (auto simp: one_payment_def offers_account)

fun is_pay_request :: "account_out \<Rightarrow> bool" where
  "is_pay_request (PostPayNow h) = True"
| "is_pay_request v = False"

fun is_thanks :: "account_out \<Rightarrow> bool" where
  "is_thanks (AccountToast t) = True"
| "is_thanks v = False"

fun is_pay_answer :: "account_action \<Rightarrow> bool" where
  "is_pay_answer PayNowOk = True"
| "is_pay_answer (PayNowFailed d) = True"
| "is_pay_answer a = False"

interpretation pay_now: request_flight account_step "account_ok i" ac_pending is_pay_answer is_pay_request for i
proof
  fix p a
  assume ok: "account_ok i p a"
  show "is_pay_answer a \<Longrightarrow> ac_pending p \<and> \<not> ac_pending (fst (account_step p a))
      \<and> filter is_pay_request (snd (account_step p a)) = []"
    using ok by (cases a) auto
  show "\<not> is_pay_answer a \<Longrightarrow>
      (filter is_pay_request (snd (account_step p a)) = [] \<and> ac_pending (fst (account_step p a)) = ac_pending p)
      \<or> (length (filter is_pay_request (snd (account_step p a))) = 1 \<and> \<not> ac_pending p \<and> ac_pending (fst (account_step p a)))"
    using ok by (cases a) (auto simp: offers_account)
qed

lemma thanks_counted:
  "guarded_run (account_ok i) account_step p as = Some (p', outs) \<Longrightarrow> one_payment p \<Longrightarrow>
   length (filter is_thanks outs) + of_bool (ac_isPaying p') = length (filter ((=) PayNowOk) as) + of_bool (ac_isPaying p)"
proof (induction as arbitrary: p outs)
  case (Cons a as)
  then obtain outs' where run: "account_ok i p a" "guarded_run (account_ok i) account_step (fst (account_step p a)) as = Some (p', outs')"
    "outs = snd (account_step p a) @ outs'"
    by (auto simp: guarded_run_Cons)
  note rest = Cons.IH [OF run(2) one_payment_step [OF Cons.prems(2) run(1)]]
  show ?case using rest run Cons.prems(2) by (cases a) (auto simp: offers_account one_payment_def)
qed simp

lemma usage_exact:
  shows usage_range: "usagePercent t = Some x \<Longrightarrow> 0 \<le> x \<and> x \<le> 100"
    and usage_red: "isRed t \<longleftrightarrow> at_max_customers t \<le> at_current_customer_count t \<and> 0 < at_current_customer_count t"
    and usage_amber: "isAmber t \<longleftrightarrow> at_current_customer_count t < at_max_customers t
      \<and> 4 * at_max_customers t \<le> 5 * at_current_customer_count t"
proof -
  let ?n = "at_current_customer_count t" and ?m = "at_max_customers t"
  show "usagePercent t = Some x \<Longrightarrow> 0 \<le> x \<and> x \<le> 100" by (auto simp: usagePercent_def split: if_splits)
  have frac: "(100 \<le> (of_nat ?n / of_nat ?m * 100 :: rat)) = (?m \<le> ?n)"
    "(80 \<le> (of_nat ?n / of_nat ?m * 100 :: rat)) = (4 * ?m \<le> 5 * ?n)" if "0 < ?m"
  proof -
    have pos: "(0::rat) < of_nat ?m" using that by simp
    have "(100 \<le> (of_nat ?n / of_nat ?m * 100 :: rat)) = ((of_nat ?m :: rat) \<le> of_nat ?n)"
      using pos by (simp add: field_simps)
    then show "(100 \<le> (of_nat ?n / of_nat ?m * 100 :: rat)) = (?m \<le> ?n)" by simp
    have "(80 \<le> (of_nat ?n / of_nat ?m * 100 :: rat)) = ((of_nat (4 * ?m) :: rat) \<le> of_nat (5 * ?n))"
      using pos by (simp add: field_simps)
    then show "(80 \<le> (of_nat ?n / of_nat ?m * 100 :: rat)) = (4 * ?m \<le> 5 * ?n)" by (simp only: of_nat_le_iff)
  qed
  show "isRed t \<longleftrightarrow> ?m \<le> ?n \<and> 0 < ?n"
    using frac(1) by (cases "?m = 0") (auto simp: isRed_def usagePercent_def)
  show "isAmber t \<longleftrightarrow> ?n < ?m \<and> 4 * ?m \<le> 5 * ?n"
    using frac by (cases "?m = 0") (auto simp: isAmber_def usagePercent_def min_def not_le)
qed

section \<open>Properties\<close>

text \<open>C36: The figures of the dashboard are those of its data: the revenue is the sum of all confirmed
  payments, that of today the sum of those of today, the month's count their number, and the tables hold
  the ten newest payments and vouchers.\<close>

theorem dashboard_figures_exact:
  assumes "ab_payments p = FLoaded ps" and "ab_vouchers p = FLoaded vs"
  shows "let t = dashboardTally c p; paid = filter (\<lambda>q. py_status q = ''confirmed'') ps in
      tl_revenue t = (\<Sum>q\<leftarrow>paid. py_amount_kes q)
    \<and> tl_today t = (\<Sum>q\<leftarrow>filter (\<lambda>q. isToday c (py_created_at q)) paid. py_amount_kes q)
    \<and> tl_month t = length (filter (\<lambda>q. isThisMonth c (py_created_at q)) paid)
    \<and> activeVoucherTotal p \<le> length vs
    \<and> newest_of (\<lambda>q. getTime i (py_created_at q)) 10 ps (dashPayments i p)
    \<and> newest_of (\<lambda>v. getTime i (vo_created_at v)) 10 vs (dashVouchers i p)"
  using assms
  by (simp add: Let_def dashboardTally_def tally_exact activeVoucherTotal_def dashPayments_def dashVouchers_def
      slice_def newest_of_take conj_commute)

definition samplePaid :: "string \<Rightarrow> int \<Rightarrow> string \<Rightarrow> payment" where
  "samplePaid st amount day = \<lparr>py_id = day, py_customer_id = [], py_package_id = [], py_package_name = [], py_amount_kes = amount,
     py_status = st, py_phone_number = [], py_mpesa_receipt_number = None, py_created_at = day\<rparr>"

definition sampleDashboard :: admin_dashboard where
  "sampleDashboard = (dashboardStart [] [])\<lparr>ab_vouchers := FLoaded [], ab_payments := FLoaded
     [samplePaid ''confirmed'' 5000 ''d1'', samplePaid ''failed'' 700 ''d2'', samplePaid ''confirmed'' 2000 ''d2'']\<rparr>"

theorem dashboard_figures_exact_witness:
  "let t = dashboardTally \<lparr>isToday = (=) ''d2'', isThisMonth = (\<lambda>d. True)\<rparr> sampleDashboard in
     tl_revenue t = 7000 \<and> tl_today t = 2000 \<and> tl_month t = 2
     \<and> newest_of (\<lambda>q. getTime sampleIntl (py_created_at q)) 10
         [samplePaid ''confirmed'' 5000 ''d1'', samplePaid ''failed'' 700 ''d2'', samplePaid ''confirmed'' 2000 ''d2'']
         (dashPayments sampleIntl sampleDashboard)"
proof -
  have "ab_payments sampleDashboard = FLoaded
      [samplePaid ''confirmed'' 5000 ''d1'', samplePaid ''failed'' 700 ''d2'', samplePaid ''confirmed'' 2000 ''d2'']"
    "ab_vouchers sampleDashboard = FLoaded []"
    by (simp_all add: sampleDashboard_def)
  from dashboard_figures_exact [OF this, of "\<lparr>isToday = (=) ''d2'', isThisMonth = (\<lambda>d. True)\<rparr>" sampleIntl]
  show ?thesis by (simp add: Let_def samplePaid_def)
qed

text \<open>A query of packages or routers that failed is not an error of the page: the checklist asks for a
  package and a router as if there were none.\<close>

lemma failed_query_looks_empty:
  assumes "ab_packages p = FFailed" and "ab_routers p = FFailed"
  shows "map ci_done (take 2 (checklistItems p)) = [False, False]" and "dashboardError (fst (dashboard_step p (PackagesAnswer None))) = dashboardError p"
  using assms by (simp_all add: checklistItems_def summarise_exact dashboardError_def)

text \<open>On every visit, the page writes nothing but the two dismissals; a dismissed welcome banner stays
  away on every later visit of this browser and a dismissed setup banner on every later visit of this
  tab, and while a payment, voucher or customer query has failed the page offers nothing at all.\<close>

lemma dashboard_dismissals_kept:
  assumes "guarded_run (dashboard_ok i c) dashboard_step (dashboardStart l s) as = Some (p, outs)"
  shows "(\<forall>k. getItem (ab_local p) k \<noteq> getItem l k \<longrightarrow> k = FIRST_RUN_BANNER_KEY \<and> DismissFirstRunBanner \<in> set as)
    \<and> (\<forall>k. getItem (ab_session p) k \<noteq> getItem s k \<longrightarrow> k = ONBOARDING_BANNER_KEY \<and> DismissOnboardingBanner \<in> set as)
    \<and> (DismissFirstRunBanner \<in> set as \<longrightarrow> \<not> offers (adminDashboardView i c p) DismissFirstRunBanner
        \<and> (\<forall>s' bs p' outs'. guarded_run (dashboard_ok i c) dashboard_step (dashboardStart (ab_local p) s') bs = Some (p', outs')
             \<longrightarrow> \<not> offers (adminDashboardView i c p') DismissFirstRunBanner))
    \<and> (DismissOnboardingBanner \<in> set as \<longrightarrow> \<not> offers (adminDashboardView i c p) DismissOnboardingBanner
        \<and> (\<forall>l' bs p' outs'. guarded_run (dashboard_ok i c) dashboard_step (dashboardStart l' (ab_session p)) bs = Some (p', outs')
             \<longrightarrow> \<not> offers (adminDashboardView i c p') DismissOnboardingBanner))
    \<and> (dashboardError p \<longrightarrow> \<not> offers (adminDashboardView i c p) a)"
proof -
  have start: "banners_kept l s False False (dashboardStart l s)" for l s
    by (simp add: banners_kept_def dashboardStart_def)
  note here = banners_dismissed [OF banners_kept_run [OF assms start]]
  note later = banners_dismissed [OF banners_kept_run [OF _ start]]
  show ?thesis
  proof (intro conjI allI impI)
    show "\<not> offers (adminDashboardView i c p') DismissFirstRunBanner"
      if "DismissFirstRunBanner \<in> set as"
        "guarded_run (dashboard_ok i c) dashboard_step (dashboardStart (ab_local p) s') bs = Some (p', outs')" for s' bs p' outs'
      using here(1) later(1) [OF that(2)] that(1) by (simp add: offers_dashboard)
    show "\<not> offers (adminDashboardView i c p') DismissOnboardingBanner"
      if "DismissOnboardingBanner \<in> set as"
        "guarded_run (dashboard_ok i c) dashboard_step (dashboardStart l' (ab_session p)) bs = Some (p', outs')" for l' bs p' outs'
      using here(2) later(2) [OF that(2)] that(1) by (simp add: offers_dashboard)
  qed (use here in \<open>auto simp: offers_dashboard\<close>)
qed

text \<open>The account page has at most one payment request or one wait for the phone at a time, sends one
  request per click, and thanks for a payment exactly once for every request that was accepted, after
  its wait and whatever the service says of the payment. The usage of the tenant is shown in red exactly
  when there are as many customers as allowed, in amber exactly from four fifths on.\<close>

lemma account_page_exact:
  assumes "guarded_run (account_ok i) account_step accountStart as = Some (p, outs)"
  shows "length (filter is_pay_request outs) = length (filter is_pay_answer as) + of_bool (ac_pending p)
    \<and> length (filter is_thanks outs) + of_bool (ac_isPaying p) = length (filter ((=) PayNowOk) as)
    \<and> \<not> (ac_pending p \<and> ac_isPaying p)
    \<and> (offers (accountView i p) PayNowClick \<longleftrightarrow> (\<exists>t. ac_tenant p = FLoaded t) \<and> \<not> ac_pending p \<and> \<not> ac_isPaying p)
    \<and> (usageColor t = ''red'' \<longleftrightarrow> at_max_customers t \<le> at_current_customer_count t \<and> 0 < at_current_customer_count t)
    \<and> (usageColor t = ''amber'' \<longleftrightarrow>
        at_current_customer_count t < at_max_customers t \<and> 4 * at_max_customers t \<le> 5 * at_current_customer_count t)"
proof -
  have "one_payment accountStart" by (simp add: one_payment_def accountStart_def)
  with guarded_run_inv [OF one_payment_step this assms] show ?thesis
    using pay_now.request_flights [OF assms] thanks_counted [OF assms]
    by (auto simp: accountStart_def one_payment_def offers_account usageColor_def usage_red usage_amber)
qed

definition sampleAdminTenant :: admin_tenant where
  "sampleAdminTenant = \<lparr>at_business_name = ''Acme'', at_owner_email = [], at_owner_phone = ''254700000000'',
     at_subscription_tier = ''starter'', at_max_customers = 100, at_current_customer_count = 80, at_billing_status = ''grace'',
     at_next_billing_date = [], at_created_at = []\<rparr>"

end
