(* ===== verification/Router_Steps.thy ===== *)
theory Router_Steps
  imports Reseller
begin

text \<open>
  The step components of the earlier router wizard (\<open>pages/admin/onboarding/steps\<close>) and the texts they show
  (\<open>pages/admin/onboarding/RouterOSInstructions.ts\<close>). Each component gets its requests as callbacks and
  whether one of them is pending as a property; calls are outputs, their answers and a change of the
  property are events. The two connection tests share one contract (locale \<open>connection_test\<close>).
\<close>

section \<open>Commands for the router\<close>

datatype router_version = V7 | V6

fun joinLines :: "string list \<Rightarrow> string" where
  "joinLines [] = []"
| "joinLines [l] = l"
| "joinLines (l # ls) = l @ CHR 0x0A # joinLines ls"

text \<open>A line that the next one continues: it ends with a backslash.\<close>

definition continued :: "string \<Rightarrow> string" where
  "continued l = l @ [CHR '' '', CHR 0x5C]"

definition quoted :: "string \<Rightarrow> string" where
  "quoted s = CHR 0x22 # s @ [CHR 0x22]"

record wireguard_params =
  serverPublicKey :: string
  serverEndpoint :: string
  assignedIp :: string

definition endpointHost :: "string \<Rightarrow> string" where
  "endpointHost e = hd (splitOn (CHR '':'') e)"

definition endpointPort :: "string \<Rightarrow> string" where
  "endpointPort e = orElse (case splitOn (CHR '':'') e of h # p # r \<Rightarrow> Some p | _ \<Rightarrow> None) ''51820''"

text \<open>\<open>ROUTEROS_COMMANDS.v7\<close>.\<close>

definition wireguard_setup :: "wireguard_params \<Rightarrow> string" where
  "wireguard_setup ps = joinLines
     [''/interface wireguard add name=wg-Frixel Connect'',
      continued ''/interface wireguard peers add'',
      continued ''  interface=wg-Frixel Connect'',
      continued (''  public-key='' @ quoted (serverPublicKey ps)),
      continued (''  endpoint-address='' @ endpointHost (serverEndpoint ps)),
      continued (''  endpoint-port='' @ endpointPort (serverEndpoint ps)),
      continued ''  allowed-address=10.8.0.1/32'',
      ''  persistent-keepalive=25s'',
      continued ''/ip address add'',
      continued (''  address='' @ hd (splitOn (CHR ''/'') (assignedIp ps)) @ ''/24''),
      ''  interface=wg-Frixel Connect'']"

definition get_public_key :: string where
  "get_public_key = joinLines
     [''/interface wireguard print'', ''# Look for the 'public-key' column under the 'wg-Frixel Connect' interface'']"

definition create_api_user :: "string \<Rightarrow> string" where
  "create_api_user password = joinLines
     [''/user group add name=Frixel Connect-api-group policy=api,read,write,test,rest-api'',
      continued ''/user add name=Frixel Connect-api'',
      continued (''  password='' @ password),
      ''  group=Frixel Connect-api-group'']"

definition enable_rest_api :: "string \<Rightarrow> string" where
  "enable_rest_api port = joinLines [''/ip service enable www'', ''/ip service set www port='' @ port]"

definition create_hotspot_profile :: "string \<Rightarrow> string \<Rightarrow> string" where
  "create_hotspot_profile name rateLimit =
     ''/ip hotspot user profile add name='' @ quoted name @ '' rate-limit='' @ quoted rateLimit"

definition verify_commands :: "string list" where
  "verify_commands = [''/ping 10.8.0.1 count=3'', ''/ip service print'']"

text \<open>\<open>ROUTEROS_COMMANDS.v6\<close>.\<close>

definition wireguard_setup_v6 :: string where
  "wireguard_setup_v6 = joinLines
     [''# WireGuard is NOT supported natively on RouterOS v6.'',
      ''# You must upgrade your router to RouterOS v7 to use Frixel Connect VPN onboarding.'',
      ''# Alternatively, configure a custom SSTP/PPTP/L2TP client to 10.8.0.1 manually.'']"

definition create_api_user_v6 :: "string \<Rightarrow> string" where
  "create_api_user_v6 password = joinLines
     [''/user group add name=Frixel Connect-api-group policy=api,read,write,test'',
      continued ''/user add name=Frixel Connect-api'',
      continued (''  password='' @ password),
      ''  group=Frixel Connect-api-group'']"

definition enable_router_api :: "string \<Rightarrow> string" where
  "enable_router_api port = joinLines [''/ip service enable api'', ''/ip service set api port='' @ port]"

text \<open>\<open>WINBOX_PATHS\<close>, as far as the steps show them.\<close>

definition winboxWireguard :: string where
  "winboxWireguard = joinLines
     [''1. Go to '' @ quoted ''WireGuard'' @ '' tab in sidebar'',
      ''2. Click '' @ quoted ''+'' @ '' (Add New)'',
      ''3. Set Name to: wg-Frixel Connect. Click Apply/OK'',
      ''4. Go to '' @ quoted ''Peers'' @ '' sub-tab, click '' @ quoted ''+'' @ '' (Add New)'',
      ''5. Select Interface: wg-Frixel Connect'',
      ''6. Paste Public Key, Endpoint, Endpoint Port (51820)'',
      ''7. Set Allowed IPs to: 10.8.0.1/32'',
      ''8. Set Persistent Keepalive to: 25'',
      ''9. Click OK'',
      ''10. Go to '' @ quoted ''IP'' @ '' -> '' @ quoted ''Addresses'' @ '', click '' @ quoted ''+'' @ '' (Add New)'',
      ''11. Set Address to: [YOUR_ASSIGNED_IP]/24'',
      ''12. Select Interface: wg-Frixel Connect. Click OK'']"

definition winboxWireguard_v6 :: string where
  "winboxWireguard_v6 = ''Not supported on RouterOS v6. Please upgrade your firmware to RouterOS v7.''"

definition winboxPublicKey :: string where
  "winboxPublicKey = joinLines
     [''1. Go to '' @ quoted ''WireGuard'' @ '' tab in sidebar'',
      ''2. Double-click '' @ quoted ''wg-Frixel Connect'' @ '' interface'',
      ''3. Copy the value in the '' @ quoted ''Public Key'' @ '' field'']"

section \<open>What the steps cause\<close>

datatype step_out =
    OnInit string string
  | OnRegister string
  | OnSave string string int
  | OnTestTunnel
  | OnTestAPI
  | OnSetupProfiles "(string \<times> string) list"
  | OnComplete
  | OnDetails string router_version
  | OnSuccess
  | OnNext
  | OnBack
  | OnReset
  | OnFinish
  | CopyText string
  | StepToast string
  | StepError string

section \<open>Router details\<close>

text \<open>The calls that are not answered yet remember the version that was submitted.\<close>

record details_step =
  ds_name :: string
  ds_site :: string
  ds_version :: router_version
  ds_errors :: field_errors
  ds_submitted :: bool
  ds_isPending :: bool
  ds_calls :: "router_version list"

datatype details_action =
    DetailsPending bool
  | DetailsName string
  | DetailsSite string
  | DetailsVersion router_version
  | SubmitDetails
  | DetailsOk nat string
  | DetailsFailed nat "string option"

definition details0 :: details_step where
  "details0 = \<lparr>ds_name = [], ds_site = [], ds_version = V7, ds_errors = [], ds_submitted = False, ds_isPending = False,
     ds_calls = []\<rparr>"

definition upTo100 :: "string \<Rightarrow> string \<Rightarrow> string \<Rightarrow> field_errors" where
  "upTo100 field msg v = minLength 1 field msg v @ (if 100 < jsLength v then [(field, [])] else [])"

definition detailsSchema :: "details_step \<Rightarrow> field_errors" where
  "detailsSchema d =
     upTo100 ''name'' ''Router name is required'' (ds_name d)
     @ upTo100 ''site_name'' ''Site/location name is required'' (ds_site d)"

definition recheckDetails :: "string \<Rightarrow> details_step \<Rightarrow> details_step" where
  "recheckDetails n d = d\<lparr>ds_errors := recheck (ds_submitted d) n (detailsSchema d) (ds_errors d)\<rparr>"

definition removeNth :: "nat \<Rightarrow> 'a list \<Rightarrow> 'a list" where
  "removeNth n xs = take n xs @ drop (Suc n) xs"

fun details_step_step :: "details_step \<Rightarrow> details_action \<Rightarrow> details_step \<times> step_out list" where
  "details_step_step d (DetailsPending b) = (d\<lparr>ds_isPending := b\<rparr>, [])"
| "details_step_step d (DetailsName v) = (recheckDetails ''name'' (d\<lparr>ds_name := v\<rparr>), [])"
| "details_step_step d (DetailsSite v) = (recheckDetails ''site_name'' (d\<lparr>ds_site := v\<rparr>), [])"
| "details_step_step d (DetailsVersion v) = (d\<lparr>ds_version := v\<rparr>, [])"
| "details_step_step d SubmitDetails =
     (let errs = detailsSchema d; d1 = d\<lparr>ds_errors := errs, ds_submitted := True\<rparr>
      in if errs \<noteq> [] then (d1, [])
         else (d1\<lparr>ds_calls := ds_calls d @ [ds_version d]\<rparr>, [OnInit (ds_name d) (ds_site d)]))"
| "details_step_step d (DetailsOk n rid) =
     (d\<lparr>ds_calls := removeNth n (ds_calls d)\<rparr>,
      [OnDetails rid (ds_calls d ! n), StepToast ''Router details initialized!''])"
| "details_step_step d (DetailsFailed n detail) =
     (d\<lparr>ds_calls := removeNth n (ds_calls d)\<rparr>, [StepError (orElse detail ''Failed to initialize router.'')])"

definition detailsStepView :: "details_step \<Rightarrow> details_action view" where
  "detailsStepView d = Group
     ([Txt ''Router Details'', Txt ''Enter a friendly name and the physical site location for this router.'',
       Txt ''Router Name'', Inp ''e.g. Eastlands Site A'' (ds_name d) DetailsName] @ fieldError (ds_errors d) ''name''
      @ [Txt ''Site Name / Location'', Inp ''e.g. Eastlands'' (ds_site d) DetailsSite] @ fieldError (ds_errors d) ''site_name''
      @ [Txt ''RouterOS Version'',
         Btn False [Txt ''RouterOS v7 (Recommended)'', Txt ''Supports native WireGuard REST API''] (DetailsVersion V7),
         Btn False [Txt ''RouterOS v6 (Legacy)'', Txt ''Uses API socket (Port 8728)''] (DetailsVersion V6),
         Btn (ds_isPending d) [Txt (if ds_isPending d then ''Initializing...'' else ''Initialize & Continue'')] SubmitDetails])"

fun details_ok :: "details_step \<Rightarrow> details_action \<Rightarrow> bool" where
  "details_ok d (DetailsPending b) = True"
| "details_ok d (DetailsOk n x) = (n < length (ds_calls d))"
| "details_ok d (DetailsFailed n x) = (n < length (ds_calls d))"
| "details_ok d a = offers (detailsStepView d) a"

section \<open>The tunnel's configuration\<close>

record init_details =
  id_router_id :: string
  id_server_endpoint :: string
  id_public_key :: string
  id_assigned_ip :: string
  id_server_wg_ip :: string

text \<open>The copy button that shows a check mark; every copy arms a timer that clears it.\<close>

record config_step =
  cg_copiedField :: "string option"
  cg_tab :: string
  cg_timers :: nat

datatype config_action = CopyField string string | CopiedTimer | ConfigTab string | ConfigNext

fun config_step_step :: "config_step \<Rightarrow> config_action \<Rightarrow> config_step \<times> step_out list" where
  "config_step_step c (CopyField t f) =
     (c\<lparr>cg_copiedField := Some f, cg_timers := Suc (cg_timers c)\<rparr>, [CopyText t, StepToast ''Copied to clipboard''])"
| "config_step_step c CopiedTimer = (c\<lparr>cg_copiedField := None, cg_timers := cg_timers c - 1\<rparr>, [])"
| "config_step_step c (ConfigTab t) = (c\<lparr>cg_tab := t\<rparr>, [])"
| "config_step_step c ConfigNext = (c, [OnNext])"

definition wgParams :: "init_details \<Rightarrow> wireguard_params" where
  "wgParams d = \<lparr>serverPublicKey = id_public_key d, serverEndpoint = id_server_endpoint d, assignedIp = id_assigned_ip d\<rparr>"

definition paramCards :: "init_details \<Rightarrow> (string \<times> string \<times> string) list" where
  "paramCards d =
     [(''Frixel Connect VPN Endpoint'', id_server_endpoint d, ''endpoint''),
      (''Frixel Connect VPN Public Key'', id_public_key d, ''pubkey''),
      (''Your Router's Assigned IP'', id_assigned_ip d @ ''/24'', ''assigned_ip''),
      (''Frixel Connect VPN Server IP'', id_server_wg_ip d, ''server_ip'')]"

definition configView :: "init_details \<Rightarrow> router_version \<Rightarrow> config_step \<Rightarrow> config_action view" where
  "configView d v c =
     (let cliCommands = (case v of V7 \<Rightarrow> wireguard_setup (wgParams d) | V6 \<Rightarrow> wireguard_setup_v6)
      in Group
        ([Txt ''Configure WireGuard on MikroTik'',
          Txt ''Use the details below to establish a secure VPN tunnel between Frixel Connect and your router.'']
         @ map (\<lambda>(label, val, f). Group [Txt label, Txt val, Btn False [] (CopyField val f)]) (paramCards d)
         @ [Btn False [Txt ''CLI Commands''] (ConfigTab ''cli''), Btn False [Txt ''Winbox GUI Path''] (ConfigTab ''gui'')]
         @ onlyIf (cg_tab c = ''cli'')
             ([Txt cliCommands]
              @ onlyIf (v = V7)
                  [Btn False [Txt ''Copy All''] (CopyField cliCommands ''cli''),
                   Txt ''Why persistent-keepalive=25s? This setting forces your MikroTik to send a heartbeat packet every 25 seconds. Since your router is on a private network, this keeps the firewall port open so Frixel Connect can initiate connections back to your router.''])
         @ onlyIf (cg_tab c = ''gui'') [Txt (case v of V7 \<Rightarrow> winboxWireguard | V6 \<Rightarrow> winboxWireguard_v6)]
         @ [Btn False [Txt ''I've configured this''] ConfigNext]))"

section \<open>The router's key\<close>

record key_step =
  ks_key :: string
  ks_errors :: field_errors
  ks_submitted :: bool
  ks_isPending :: bool
  ks_calls :: nat

datatype key_action = KeyPending bool | KeyInput string | SubmitKey | KeyOk | KeyFailed "string option" | CopyKeyCommand

text \<open>\<open>/^[a-zA-Z0-9+/]+={1}$/\<close>.\<close>

definition base64Key :: "string \<Rightarrow> bool" where
  "base64Key s \<longleftrightarrow> 2 \<le> length s \<and> last s = CHR ''='' \<and> (\<forall>c \<in> set (butlast s). c \<in> set b64alphabet)"

definition keySchema :: "string \<Rightarrow> field_errors" where
  "keySchema s =
     (if jsLength s = 44 then [] else [(''peer_public_key'', ''WireGuard public keys must be exactly 44 characters'')])
     @ (if base64Key s then [] else [(''peer_public_key'', ''Must be a valid base64 key ending with ='')])"

fun key_step_step :: "key_step \<Rightarrow> key_action \<Rightarrow> key_step \<times> step_out list" where
  "key_step_step k (KeyPending b) = (k\<lparr>ks_isPending := b\<rparr>, [])"
| "key_step_step k (KeyInput v) =
     (k\<lparr>ks_key := v, ks_errors := recheck (ks_submitted k) ''peer_public_key'' (keySchema v) (ks_errors k)\<rparr>, [])"
| "key_step_step k SubmitKey =
     (let errs = keySchema (ks_key k); k1 = k\<lparr>ks_errors := errs, ks_submitted := True\<rparr>
      in if errs \<noteq> [] then (k1, []) else (k1\<lparr>ks_calls := Suc (ks_calls k)\<rparr>, [OnRegister (ks_key k)]))"
| "key_step_step k KeyOk =
     (k\<lparr>ks_calls := ks_calls k - 1\<rparr>, [StepToast ''MikroTik public key registered!'', OnSuccess])"
| "key_step_step k (KeyFailed d) = (k\<lparr>ks_calls := ks_calls k - 1\<rparr>, [StepError (orElse d ''Failed to register peer key.'')])"
| "key_step_step k CopyKeyCommand = (k, [CopyText get_public_key, StepToast ''Command copied''])"

definition keyView :: "router_version \<Rightarrow> key_step \<Rightarrow> key_action view" where
  "keyView v k = Group
     ([Txt ''Register MikroTik VPN Key'',
       Txt ''Frixel Connect needs your MikroTik's WireGuard public key to accept incoming connection handshakes.'']
      @ (case v of
           V7 \<Rightarrow> [Txt ''CLI Command to view Public Key:'', Txt get_public_key, Btn False [] CopyKeyCommand,
                  Txt ''Winbox GUI Path:'', Txt winboxPublicKey]
         | V6 \<Rightarrow> [Txt ''WireGuard is not natively supported on RouterOS v6. If you've set up a custom VPN tunnel, enter your manual client public key or a placeholder key to continue.''])
      @ [Txt ''MikroTik WireGuard Public Key'', Inp ''e.g. abcdEFGH12345+67890ij/klmnopQRSTuvwxYZabcde='' (ks_key k) KeyInput]
      @ fieldError (ks_errors k) ''peer_public_key''
      @ [Btn (ks_isPending k) [Txt (if ks_isPending k then ''Registering...'' else ''Register Key & Continue'')] SubmitKey])"

definition key0 :: key_step where
  "key0 = \<lparr>ks_key = [], ks_errors = [], ks_submitted = False, ks_isPending = False, ks_calls = 0\<rparr>"

fun key_ok :: "router_version \<Rightarrow> key_step \<Rightarrow> key_action \<Rightarrow> bool" where
  "key_ok v k (KeyPending b) = True"
| "key_ok v k KeyOk = (0 < ks_calls k)"
| "key_ok v k (KeyFailed d) = (0 < ks_calls k)"
| "key_ok v k a = offers (keyView v k) a"

section \<open>The connection tests\<close>

datatype test_status = Idle | Testing | Success | Failed

text \<open>A troubleshooting list: one entry at most is open.\<close>

definition toggleAccordion :: "nat \<Rightarrow> nat option \<Rightarrow> nat option" where
  "toggleAccordion n current = (if current = Some n then None else Some n)"

definition accordion :: "(nat \<Rightarrow> 'a) \<Rightarrow> nat option \<Rightarrow> (string \<times> string) list \<Rightarrow> 'a view list" where
  "accordion toggle current items =
     map (\<lambda>n. Group ([Btn False [Txt (fst (items ! n))] (toggle n)] @ onlyIf (current = Some n) [Txt (snd (items ! n))]))
       [0..<length items]"

record tunnel_test =
  tt_status :: test_status
  tt_latency :: "rat option"
  tt_openAccordion :: "nat option"

datatype tunnel_action =
    TunnelAgain
  | TunnelAnswer bool "rat option"
  | TunnelFailed "string option"
  | TunnelToggle nat
  | TunnelNext

text \<open>Mounting runs the effect: the first test starts at once.\<close>

definition runTunnelTest :: "tunnel_test \<Rightarrow> tunnel_test \<times> step_out list" where
  "runTunnelTest t = (t\<lparr>tt_status := Testing\<rparr>, [OnTestTunnel])"

definition tunnelStart :: "tunnel_test \<times> step_out list" where
  "tunnelStart = runTunnelTest \<lparr>tt_status = Idle, tt_latency = None, tt_openAccordion = None\<rparr>"

fun tunnel_step :: "tunnel_test \<Rightarrow> tunnel_action \<Rightarrow> tunnel_test \<times> step_out list" where
  "tunnel_step t TunnelAgain = runTunnelTest t"
| "tunnel_step t (TunnelAnswer up latency) =
     (if up
      then (t\<lparr>tt_latency := latency, tt_status := Success\<rparr>, [StepToast ''VPN tunnel connection successful!''])
      else (t\<lparr>tt_status := Failed\<rparr>, [StepError ''VPN tunnel check failed. Router is unreachable.'']))"
| "tunnel_step t (TunnelFailed d) = (t\<lparr>tt_status := Failed\<rparr>, [StepError (orElse d ''Failed to check VPN tunnel.'')])"
| "tunnel_step t (TunnelToggle n) = (t\<lparr>tt_openAccordion := toggleAccordion n (tt_openAccordion t)\<rparr>, [])"
| "tunnel_step t TunnelNext = (t, [OnSuccess])"

definition tunnelTroubleshooting :: "(string \<times> string) list" where
  "tunnelTroubleshooting =
     [(''Did you add persistent-keepalive=25s to the peer config?'',
       ''Without this option, your MikroTik only sends data when there is active user traffic. This keepalive forces it to maintain the NAT routing table mappings on intermediate firewalls so that Frixel Connect can communicate with it at any time.''),
      (''Is the Frixel Connect public key entered correctly on your router?'',
       ''Double-check the public key entered in Step 1. A single typo in the base64 key will cause WireGuard to reject packets silently without establishing a handshake.''),
      (''Is your MikroTik connected to the internet?'',
       ''Ensure your router has basic internet connectivity. Run '' @ quoted ''/ping 8.8.8.8'' @ '' or check if other WAN traffic is flowing normally.''),
      (''Check '' @ quoted ''last-handshake'' @ '' on your MikroTik interface'',
       ''Run '' @ quoted ''/interface wireguard peers print'' @ '' in the terminal. The '' @ quoted ''last-handshake'' @ '' column should show a time format (e.g. 10s or 1m45s) instead of being empty or showing '' @ quoted ''never'' @ ''. If it shows '' @ quoted ''never'' @ '', no VPN packets have reached our server yet.'')]"

text \<open>\<open>toFixed1\<close> stands for \<open>latency.toFixed(1)\<close>.\<close>

definition tunnelView :: "(rat \<Rightarrow> string) \<Rightarrow> tunnel_test \<Rightarrow> tunnel_action view" where
  "tunnelView toFixed1 t = Group
     ([Txt ''Verify VPN Tunnel'', Txt ''We are checking if we can ping your router over the established WireGuard tunnel.'']
      @ onlyIf (tt_status t = Testing)
          [Txt ''Testing VPN Tunnel...'',
           Txt ''Frixel Connect is pinging your MikroTik's VPN address to confirm the tunnel is active. This usually takes 5-15 seconds.'']
      @ onlyIf (tt_status t = Success)
          [Txt ''VPN Tunnel Active!'',
           Txt (''Successfully routed traffic to your MikroTik over VPN.''
                @ (case tt_latency t of None \<Rightarrow> [] | Some l \<Rightarrow> '' Latency: '' @ toFixed1 l @ ''ms.''))]
      @ onlyIf (tt_status t = Failed)
          ([Txt ''Tunnel Connection Failed'', Txt ''Could not reach your MikroTik over the VPN tunnel.'',
            Txt ''Troubleshooting Checklist:'']
           @ accordion TunnelToggle (tt_openAccordion t) tunnelTroubleshooting @ [Btn False [Txt ''Test Again''] TunnelAgain])
      @ [Btn (tt_status t \<noteq> Success) [Txt ''Next Step''] TunnelNext])"

fun tunnel_ok :: "(rat \<Rightarrow> string) \<Rightarrow> tunnel_test \<Rightarrow> tunnel_action \<Rightarrow> bool" where
  "tunnel_ok tf t (TunnelAnswer b l) = (tt_status t = Testing)"
| "tunnel_ok tf t (TunnelFailed d) = (tt_status t = Testing)"
| "tunnel_ok tf t a = offers (tunnelView tf t) a"

record api_test =
  aq_status :: test_status
  aq_profiles :: "string list"
  aq_errorMsg :: "string option"
  aq_openAccordion :: "nat option"

datatype api_action =
    ApiAgain
  | ApiAnswer bool "string list option" "string option"
  | ApiFailed "string option" "string option"
  | ApiToggle nat
  | ApiBack
  | ApiNext

definition runApiTest :: "api_test \<Rightarrow> api_test \<times> step_out list" where
  "runApiTest t = (t\<lparr>aq_status := Testing, aq_errorMsg := None\<rparr>, [OnTestAPI])"

definition apiStart :: "api_test \<times> step_out list" where
  "apiStart = runApiTest \<lparr>aq_status = Idle, aq_profiles = [], aq_errorMsg = None, aq_openAccordion = None\<rparr>"

text \<open>A failure carries the detail of the answer and the message of the error.\<close>

fun apitest_step :: "api_test \<Rightarrow> api_action \<Rightarrow> api_test \<times> step_out list" where
  "apitest_step t ApiAgain = runApiTest t"
| "apitest_step t (ApiAnswer up profiles err) =
     (if up
      then (t\<lparr>aq_profiles := nullish profiles [], aq_status := Success\<rparr>,
            [StepToast ''API connection verified successfully!''])
      else (t\<lparr>aq_errorMsg := Some (orElse err ''Failed to authenticate.''), aq_status := Failed\<rparr>,
            [StepError ''API connection failed.'']))"
| "apitest_step t (ApiFailed d m) =
     (t\<lparr>aq_errorMsg := Some (orElse d (orElse m ''API connection timed out.'')), aq_status := Failed\<rparr>,
      [StepError ''API connection check failed.''])"
| "apitest_step t (ApiToggle n) = (t\<lparr>aq_openAccordion := toggleAccordion n (aq_openAccordion t)\<rparr>, [])"
| "apitest_step t ApiBack = (t, [OnBack])"
| "apitest_step t ApiNext = (t, [OnSuccess])"

definition apiPort :: "router_version \<Rightarrow> string" where
  "apiPort v = (case v of V7 \<Rightarrow> ''80'' | V6 \<Rightarrow> ''8728'')"

definition serviceOf :: "router_version \<Rightarrow> string" where
  "serviceOf v = (case v of V7 \<Rightarrow> ''www'' | V6 \<Rightarrow> ''api'')"

definition apiTroubleshooting :: "router_version \<Rightarrow> (string \<times> string) list" where
  "apiTroubleshooting v =
     [(''Is the '' @ (case v of V7 \<Rightarrow> ''www (REST)'' | V6 \<Rightarrow> ''api'') @ '' service enabled?'',
       ''Run '' @ quoted ''/ip service print'' @ '' in the terminal. The '' @ serviceOf v @ '' service must be enabled (without an '' @ quoted ''X'' @ '' flag) and configure the same port you saved in the previous step.''),
      (''Is the API user in the correct group?'',
       ''Run '' @ quoted ''/user print'' @ ''. Ensure the user '' @ quoted ''Frixel Connect-api'' @ '' exists and is assigned to '' @ quoted ''Frixel Connect-api-group'' @ '' with '' @ quoted (''api, read, write, test'' @ (case v of V7 \<Rightarrow> '', rest-api'' | V6 \<Rightarrow> [])) @ '' policies enabled.''),
      (''Is the firewall blocking port '' @ apiPort v @ '' from 10.8.0.1?'',
       ''Run '' @ quoted ''/ip firewall filter print'' @ '' and look for drop rules. If you have restrictive firewall rules, you must add an input rule allowing traffic from 10.8.0.1 (Frixel Connect server) to your API port.'')]"

definition apiTestView :: "router_version \<Rightarrow> api_test \<Rightarrow> api_action view" where
  "apiTestView v t = Group
     ([Txt ''Verify API Connection'',
       Txt ''We are checking if Frixel Connect can log in and retrieve hotspot profile names from your router.'']
      @ onlyIf (aq_status t = Testing)
          [Txt ''Connecting to your MikroTik API...'', Txt ''Retrieving configuration profiles over the VPN tunnel.'']
      @ onlyIf (aq_status t = Success)
          ([Txt ''API Connection Successful!'', Txt ''Frixel Connect has authenticated and connected to your MikroTik.'']
           @ (if aq_profiles t \<noteq> []
              then Txt (''Found '' @ showNat (length (aq_profiles t)) @ '' existing hotspot profiles:'') # map Txt (aq_profiles t)
              else [Txt ''No hotspot profiles found on this router.'']))
      @ onlyIf (aq_status t = Failed)
          ([Txt ''API Connection Failed''] @ onlyIf (truthy (aq_errorMsg t)) [Txt (the (aq_errorMsg t))]
           @ [Txt ''Troubleshooting Checklist:''] @ accordion ApiToggle (aq_openAccordion t) (apiTroubleshooting v)
           @ [Btn False [Txt ''Back to Credentials''] ApiBack, Btn False [Txt ''Test Again''] ApiAgain])
      @ [Btn (aq_status t \<noteq> Success) [Txt ''Next Step''] ApiNext])"

fun apitest_ok :: "router_version \<Rightarrow> api_test \<Rightarrow> api_action \<Rightarrow> bool" where
  "apitest_ok v t (ApiAnswer b p e) = (aq_status t = Testing)"
| "apitest_ok v t (ApiFailed d m) = (aq_status t = Testing)"
| "apitest_ok v t a = offers (apiTestView v t) a"

section \<open>Credentials\<close>

text \<open>The port field holds a number (\<open>valueAsNumber\<close>; \<open>None\<close> for NaN).\<close>

record credentials_step =
  cr_username :: string
  cr_password :: string
  cr_port :: "rat option"
  cr_showPassword :: bool
  cr_errors :: field_errors
  cr_submitted :: bool
  cr_isPending :: bool
  cr_calls :: nat

datatype credentials_action =
    CredPending bool
  | CredUser string
  | CredPassword string
  | CredPort string
  | CredToggle
  | CredCopy string
  | SubmitCred
  | CredOk
  | CredFailed "string option"

definition defaultPort :: "router_version \<Rightarrow> rat" where
  "defaultPort v = (case v of V7 \<Rightarrow> 80 | V6 \<Rightarrow> 8728)"

definition credentials0 :: "router_version \<Rightarrow> credentials_step" where
  "credentials0 v = \<lparr>cr_username = ''Frixel Connect-api'', cr_password = [], cr_port = Some (defaultPort v),
     cr_showPassword = False, cr_errors = [], cr_submitted = False, cr_isPending = False, cr_calls = 0\<rparr>"

definition credPortErrors :: "rat option \<Rightarrow> field_errors" where
  "credPortErrors v =
     (case v of
        None \<Rightarrow> [(''port'', [])]
      | Some x \<Rightarrow> (if of_int (floor x) = x then [] else [(''port'', [])])
                 @ (if x < 1 then [(''port'', [])] else []) @ (if 65535 < x then [(''port'', [])] else []))"

definition credSchema :: "credentials_step \<Rightarrow> field_errors" where
  "credSchema c =
     upTo100 ''username'' ''API username is required'' (cr_username c)
     @ minLength 4 ''password'' ''API password must be at least 4 characters'' (cr_password c)
     @ credPortErrors (cr_port c)"

definition recheckCred :: "string \<Rightarrow> credentials_step \<Rightarrow> credentials_step" where
  "recheckCred n c = c\<lparr>cr_errors := recheck (cr_submitted c) n (credSchema c) (cr_errors c)\<rparr>"

text \<open>The commands shown while the fields are being filled in: 0 and NaN count as no port.\<close>

definition combinedCommands :: "router_version \<Rightarrow> credentials_step \<Rightarrow> string" where
  "combinedCommands v c =
     (let password = orElse (Some (cr_password c)) ''ChooseAStrongPassword'';
          port = (case cr_port c of None \<Rightarrow> defaultPort v | Some x \<Rightarrow> if x = 0 then defaultPort v else x)
      in (case v of
            V7 \<Rightarrow> create_api_user password @ [CHR 0x0A, CHR 0x0A] @ enable_rest_api (showNum port)
          | V6 \<Rightarrow> create_api_user_v6 password @ [CHR 0x0A, CHR 0x0A] @ enable_router_api (showNum port)))"

fun cred_step :: "credentials_step \<Rightarrow> credentials_action \<Rightarrow> credentials_step \<times> step_out list" where
  "cred_step c (CredPending b) = (c\<lparr>cr_isPending := b\<rparr>, [])"
| "cred_step c (CredUser v) = (recheckCred ''username'' (c\<lparr>cr_username := v\<rparr>), [])"
| "cred_step c (CredPassword v) = (recheckCred ''password'' (c\<lparr>cr_password := v\<rparr>), [])"
| "cred_step c (CredPort v) = (recheckCred ''port'' (c\<lparr>cr_port := (if v = [] then None else Number v)\<rparr>), [])"
| "cred_step c CredToggle = (c\<lparr>cr_showPassword := \<not> cr_showPassword c\<rparr>, [])"
| "cred_step c (CredCopy t) = (c, [CopyText t, StepToast ''Commands copied''])"
| "cred_step c SubmitCred =
     (let errs = credSchema c; c1 = c\<lparr>cr_errors := errs, cr_submitted := True\<rparr>
      in if errs \<noteq> [] then (c1, [])
         else (c1\<lparr>cr_calls := Suc (cr_calls c)\<rparr>, [OnSave (cr_username c) (cr_password c) (floor (the (cr_port c)))]))"
| "cred_step c CredOk = (c\<lparr>cr_calls := cr_calls c - 1\<rparr>, [StepToast ''API credentials saved!'', OnSuccess])"
| "cred_step c (CredFailed d) = (c\<lparr>cr_calls := cr_calls c - 1\<rparr>, [StepError (orElse d ''Failed to save credentials.'')])"

definition credView :: "router_version \<Rightarrow> credentials_step \<Rightarrow> credentials_action view" where
  "credView v c = Group
     ([Txt ''Configure Router API'', Txt ''Create a secure, restricted API user and enable the appropriate RouterOS service.'',
       Txt ''Run these CLI commands in Winbox Terminal:'', Btn False [Txt ''Copy All''] (CredCopy (combinedCommands v c)),
       Txt (combinedCommands v c),
       Txt (case v of
              V7 \<Rightarrow> ''Note: RouterOS v7 REST API runs on standard HTTP port 80. Ensure no other service blocks this port.''
            | V6 \<Rightarrow> ''Note: RouterOS v6 utilizes the binary RouterOS API on port 8728. The REST API is not supported on v6.''),
       Txt ''API Username'', Inp ''Frixel Connect-api'' (cr_username c) CredUser] @ fieldError (cr_errors c) ''username''
      @ [Txt ''API Password'', Inp ''Choose a strong password'' (cr_password c) CredPassword, Btn False [] CredToggle]
      @ fieldError (cr_errors c) ''password''
      @ [Txt ''API Port'', Inp (apiPort v) (case cr_port c of None \<Rightarrow> [] | Some x \<Rightarrow> showNum x) CredPort]
      @ fieldError (cr_errors c) ''port''
      @ [Btn (cr_isPending c) [Txt (if cr_isPending c then ''Saving...'' else ''Save & Test API Connection'')] SubmitCred])"

fun cred_ok :: "router_version \<Rightarrow> credentials_step \<Rightarrow> credentials_action \<Rightarrow> bool" where
  "cred_ok v c (CredPending b) = True"
| "cred_ok v c CredOk = (0 < cr_calls c)"
| "cred_ok v c (CredFailed d) = (0 < cr_calls c)"
| "cred_ok v c a = offers (credView v c) a"

section \<open>Speed profiles\<close>

record profiles_step =
  pr_profiles :: "(string \<times> string) list"
  pr_errors :: "nat \<Rightarrow> string option"
  pr_results :: "(string list \<times> string list) option"
  pr_hasRun :: bool
  pr_isPending :: bool
  pr_calls :: nat

datatype profiles_action =
    ProfilesPending bool
  | AddProfile
  | RemoveProfile nat
  | ProfileName nat string
  | ProfileRate nat string
  | SubmitProfiles
  | ProfilesOk "string list" "string list"
  | ProfilesFailed "string option"
  | ProfilesNext

definition profiles0 :: profiles_step where
  "profiles0 = \<lparr>pr_profiles = [(''10Mbps'', ''10M/10M''), (''20Mbps'', ''20M/20M''), (''50Mbps'', ''50M/50M'')],
     pr_errors = (\<lambda>n. None), pr_results = None, pr_hasRun = False, pr_isPending = False, pr_calls = 0\<rparr>"

text \<open>\<open>/^\d+M\/\d+M$/\<close>.\<close>

definition megabits :: "string \<Rightarrow> bool" where
  "megabits s \<longleftrightarrow> 2 \<le> length s \<and> last s = CHR ''M'' \<and> (\<forall>c \<in> set (butlast s). is_digit c)"

definition rateLimitFormat :: "string \<Rightarrow> bool" where
  "rateLimitFormat s = (case splitOn (CHR ''/'') s of [d, u] \<Rightarrow> megabits d \<and> megabits u | _ \<Rightarrow> False)"

definition removeProfile :: "nat \<Rightarrow> profiles_step \<Rightarrow> profiles_step" where
  "removeProfile n p = p\<lparr>pr_profiles := removeNth n (pr_profiles p), pr_errors := (pr_errors p)(n := None)\<rparr>"

definition updateRate :: "nat \<Rightarrow> string \<Rightarrow> profiles_step \<Rightarrow> profiles_step" where
  "updateRate n v p =
     p\<lparr>pr_profiles := (pr_profiles p)[n := (fst (pr_profiles p ! n), v)],
       pr_errors := (pr_errors p)(n := (if v \<noteq> [] \<and> \<not> rateLimitFormat v
                                        then Some ''Format must be like 10M/10M (download/upload)'' else None))\<rparr>"

definition profileError :: "string \<times> string \<Rightarrow> string option" where
  "profileError p =
     (if fst p = [] then Some ''Profile name is required''
      else if snd p = [] then Some ''Rate limit is required''
      else if \<not> rateLimitFormat (snd p) then Some ''Format must be like 10M/10M''
      else None)"

definition profileErrors :: "(string \<times> string) list \<Rightarrow> nat \<Rightarrow> string option" where
  "profileErrors ps n = (if n < length ps then profileError (ps ! n) else None)"

definition submitProfiles :: "profiles_step \<Rightarrow> profiles_step \<times> step_out list" where
  "submitProfiles p =
     (if \<exists>q \<in> set (pr_profiles p). profileError q \<noteq> None
      then (p\<lparr>pr_errors := profileErrors (pr_profiles p)\<rparr>, [StepError ''Please fix validation errors before submitting.''])
      else (p\<lparr>pr_calls := Suc (pr_calls p)\<rparr>, [OnSetupProfiles (pr_profiles p)]))"

fun profiles_step_step :: "profiles_step \<Rightarrow> profiles_action \<Rightarrow> profiles_step \<times> step_out list" where
  "profiles_step_step p (ProfilesPending b) = (p\<lparr>pr_isPending := b\<rparr>, [])"
| "profiles_step_step p AddProfile = (p\<lparr>pr_profiles := pr_profiles p @ [([], [])]\<rparr>, [])"
| "profiles_step_step p (RemoveProfile n) = (removeProfile n p, [])"
| "profiles_step_step p (ProfileName n v) = (p\<lparr>pr_profiles := (pr_profiles p)[n := (v, snd (pr_profiles p ! n))]\<rparr>, [])"
| "profiles_step_step p (ProfileRate n v) = (updateRate n v p, [])"
| "profiles_step_step p SubmitProfiles = submitProfiles p"
| "profiles_step_step p (ProfilesOk created failed) =
     (p\<lparr>pr_results := Some (created, failed), pr_hasRun := True, pr_calls := pr_calls p - 1\<rparr>,
      [StepToast ''Hotspot profiles configuration completed!''])"
| "profiles_step_step p (ProfilesFailed d) = (p\<lparr>pr_calls := pr_calls p - 1\<rparr>, [StepError (orElse d ''Failed to setup profiles.'')])"
| "profiles_step_step p ProfilesNext = (p, [OnSuccess])"

definition profileRow :: "profiles_step \<Rightarrow> nat \<Rightarrow> profiles_action view" where
  "profileRow p n = Group
     ([Inp ''e.g. 10Mbps'' (fst (pr_profiles p ! n)) (ProfileName n), Inp ''e.g. 10M/10M'' (snd (pr_profiles p ! n)) (ProfileRate n),
       Btn (length (pr_profiles p) = 1) [] (RemoveProfile n)]
      @ (case pr_errors p n of None \<Rightarrow> [] | Some m \<Rightarrow> [Txt m]))"

definition profileOutcome :: "string list \<times> string list \<Rightarrow> string \<Rightarrow> string" where
  "profileOutcome results name =
     (if name \<in> set (fst results) then ''Created''
      else if \<exists>f \<in> set (snd results). startsWith f name then ''Failed / Exists''
      else ''Skipped'')"

definition profilesView :: "profiles_step \<Rightarrow> profiles_action view" where
  "profilesView p = Group
     ([Txt ''Configure Speed Tier Profiles'',
       Txt ''Define the packages that will be pushed to your MikroTik. These limit user speeds upon payment activation.'']
      @ (if \<not> pr_hasRun p
         then [Txt ''Profile Name'', Txt ''Rate Limit (Download/Upload)'']
              @ map (profileRow p) [0..<length (pr_profiles p)]
              @ [Btn False [Txt ''Add Profile Row''] AddProfile,
                 Btn (pr_isPending p) [Txt (if pr_isPending p then ''Pushing Profiles...'' else ''Create Profiles on MikroTik'')]
                   SubmitProfiles]
         else [Txt ''Configuration Summary:'']
              @ map (\<lambda>q. Group [Txt (fst q), Txt (''('' @ snd q @ '')''),
                                Txt (case pr_results p of None \<Rightarrow> ''Skipped'' | Some r \<Rightarrow> profileOutcome r (fst q))]) (pr_profiles p)
              @ [Btn False [Txt ''Next Step''] ProfilesNext]))"

fun profiles_ok :: "profiles_step \<Rightarrow> profiles_action \<Rightarrow> bool" where
  "profiles_ok p (ProfilesPending b) = True"
| "profiles_ok p (ProfilesOk c f) = (0 < pr_calls p)"
| "profiles_ok p (ProfilesFailed d) = (0 < pr_calls p)"
| "profiles_ok p a = offers (profilesView p) a"

section \<open>Completion\<close>

record complete_step =
  cs_local :: storage
  cs_isPending :: bool

datatype complete_action = CompleteOk | CompleteFailed "string option" | CompleteCopy | CompleteReset | CompleteFinish

definition completeStart :: "storage \<Rightarrow> complete_step \<times> step_out list" where
  "completeStart l = (\<lparr>cs_local = l, cs_isPending = True\<rparr>, [OnComplete])"

definition antiTethering :: string where
  "antiTethering = ''/ip firewall mangle add action=change-ttl chain=postrouting new-ttl=set:1 out-interface=bridge-local passthrough=yes''"

fun complete_step_step :: "complete_step \<Rightarrow> complete_action \<Rightarrow> complete_step \<times> step_out list" where
  "complete_step_step c CompleteOk =
     (c\<lparr>cs_local := removeItem ''Frixel Connect_onboarding_router_version''
                     (removeItem ''Frixel Connect_onboarding_router_id'' (cs_local c)),
        cs_isPending := False\<rparr>, [StepToast ''MikroTik router is now online!''])"
| "complete_step_step c (CompleteFailed d) =
     (c\<lparr>cs_isPending := False\<rparr>, [StepError (orElse d ''Failed to finalize onboarding.'')])"
| "complete_step_step c CompleteCopy = (c, [CopyText antiTethering, StepToast ''Copied to clipboard''])"
| "complete_step_step c CompleteReset = (c, [OnReset])"
| "complete_step_step c CompleteFinish = (c, [OnFinish])"

definition completeStepView :: "string \<Rightarrow> string \<Rightarrow> string \<Rightarrow> complete_step \<Rightarrow> complete_action view" where
  "completeStepView name siteName vpnIp c = Group
     (if cs_isPending c then [Txt ''Activating router configuration...'']
      else [Txt ''Onboarding Complete!'',
            Txt ''Your MikroTik router has been successfully registered and is now active for billing and provisioning.'',
            Txt ''Router Details:'', Txt ''Router Name'', Txt name, Txt ''Site Location'', Txt siteName,
            Txt ''VPN Assigned IP'', Txt vpnIp, Txt ''API & Tunnel Connection'', Txt ''Active'',
            Txt (''Voucher Provisioning Ready: Customers purchasing WiFi packages at site '' @ siteName
                 @ '' will now have their voucher codes automatically provisioned onto this router.''),
            Txt ''Optional: Prevent Hotspot Sharing'',
            Txt ''Want to block customers from sharing their active connection with other devices using mobile hotspots? Paste this command into your RouterOS Terminal:'',
            Txt antiTethering, Btn False [Txt ''Copy''] CompleteCopy,
            Txt (''* Note: Replace '' @ quoted ''bridge-local'' @ '' with your local bridge name if it differs on your device.''),
            Btn False [Txt ''Add Another Router''] CompleteReset, Btn False [Txt ''Go to Dashboard''] CompleteFinish])"

lemma answers_filtered: "length (filter (\<lambda>a. \<exists>b. f a = Some b) xs) = length (List.map_filter f xs)"
  by (induction xs) (auto simp: map_filter_simps split: option.splits)

section \<open>The contract of a connection test\<close>

text \<open>A test starts on mounting and again only after a failure; the step can be left only while the last
  test succeeded.\<close>

locale connection_test =
  fixes stp :: "'s \<Rightarrow> 'a \<Rightarrow> 's \<times> step_out list"
    and ok :: "'s \<Rightarrow> 'a \<Rightarrow> bool"
    and status :: "'s \<Rightarrow> test_status"
    and answer :: "'a \<Rightarrow> bool option"
    and test :: step_out
  assumes tested: "ok s a \<Longrightarrow> answer a = Some b \<Longrightarrow>
      status s = Testing \<and> status (fst (stp s a)) = (if b then Success else Failed) \<and> filter ((=) test) (snd (stp s a)) = []
      \<and> OnSuccess \<notin> set (snd (stp s a))"
    and used: "ok s a \<Longrightarrow> answer a = None \<Longrightarrow>
      (filter ((=) test) (snd (stp s a)) = [] \<and> status (fst (stp s a)) = status s)
      \<or> (filter ((=) test) (snd (stp s a)) = [test] \<and> status s = Failed \<and> status (fst (stp s a)) = Testing)"
    and leaves: "ok s a \<Longrightarrow> OnSuccess \<in> set (snd (stp s a)) \<Longrightarrow> status s = Success"

sublocale connection_test \<subseteq> tests: request_flight stp ok "\<lambda>s. status s = Testing" "\<lambda>a. answer a \<noteq> None" "(=) test"
proof
  fix s a
  assume ok: "ok s a"
  show "answer a \<noteq> None \<Longrightarrow>
      status s = Testing \<and> \<not> status (fst (stp s a)) = Testing \<and> filter ((=) test) (snd (stp s a)) = []"
    using tested [OF ok, of "the (answer a)"] by (auto split: if_splits)
  show "\<not> answer a \<noteq> None \<Longrightarrow>
      (filter ((=) test) (snd (stp s a)) = [] \<and> (status (fst (stp s a)) = Testing) = (status s = Testing))
      \<or> (length (filter ((=) test) (snd (stp s a))) = 1 \<and> \<not> status s = Testing \<and> status (fst (stp s a)) = Testing)"
    using used [OF ok] by auto
qed

context connection_test
begin

lemma after_success:
  "guarded_run ok stp s as = Some (s', outs) \<Longrightarrow> status s = Success \<Longrightarrow>
   status s' = Success \<and> List.map_filter answer as = []"
proof (induction as arbitrary: s outs)
  case (Cons a as)
  then obtain outs' where run: "ok s a" "guarded_run ok stp (fst (stp s a)) as = Some (s', outs')"
    by (auto simp: guarded_run_Cons)
  have none: "answer a = None" using tested [OF run(1)] Cons.prems(2) by (cases "answer a") auto
  then have "status (fst (stp s a)) = Success" using used [OF run(1)] Cons.prems(2) by auto
  with Cons.IH [OF run(2)] none show ?case by (simp add: map_filter_simps)
qed (simp add: map_filter_simps)

lemma failures_then_success:
  "guarded_run ok stp s as = Some (s', outs) \<Longrightarrow> status s \<noteq> Success \<Longrightarrow> status s \<noteq> Idle \<Longrightarrow>
   \<exists>k. List.map_filter answer as = replicate k False @ (if status s' = Success then [True] else [])
     \<and> (OnSuccess \<in> set outs \<longrightarrow> status s' = Success)"
proof (induction as arbitrary: s outs)
  case (Cons a as)
  then obtain outs' where run: "ok s a" "guarded_run ok stp (fst (stp s a)) as = Some (s', outs')"
    and outs: "outs = snd (stp s a) @ outs'"
    by (auto simp: guarded_run_Cons)
  have quiet: "OnSuccess \<notin> set (snd (stp s a))" using leaves [OF run(1)] Cons.prems(2) by blast
  show ?case
  proof (cases "answer a")
    case None
    with used [OF run(1)] Cons.prems have "status (fst (stp s a)) \<noteq> Success" "status (fst (stp s a)) \<noteq> Idle" by auto
    from Cons.IH [OF run(2) this] None quiet outs show ?thesis by (simp add: map_filter_simps)
  next
    case (Some b)
    show ?thesis
    proof (cases b)
      case True
      with tested [OF run(1) Some] have "status (fst (stp s a)) = Success" by simp
      from after_success [OF run(2) this] Some True show ?thesis by (auto simp: map_filter_simps intro: exI [of _ 0])
    next
      case False
      with tested [OF run(1) Some] have "status (fst (stp s a)) = Failed" by simp
      with Cons.IH [OF run(2)] obtain k where
        "List.map_filter answer as = replicate k False @ (if status s' = Success then [True] else [])"
        "OnSuccess \<in> set outs' \<longrightarrow> status s' = Success" by auto
      with Some False quiet outs show ?thesis by (auto simp: map_filter_simps intro: exI [of _ "Suc k"])
    qed
  qed
qed (simp add: map_filter_simps)

end

fun tunnelUp :: "tunnel_action \<Rightarrow> bool option" where
  "tunnelUp (TunnelAnswer b l) = Some b"
| "tunnelUp (TunnelFailed d) = Some False"
| "tunnelUp a = None"

fun apiUp :: "api_action \<Rightarrow> bool option" where
  "apiUp (ApiAnswer b p e) = Some b"
| "apiUp (ApiFailed d m) = Some False"
| "apiUp a = None"

lemma offers_accordion:
  "list_ex (\<lambda>v. offers v a) (accordion toggle current items) \<longleftrightarrow> (\<exists>n < length items. a = toggle n)"
  by (auto simp: accordion_def form_offers)

lemma offers_tunnel:
  "offers (tunnelView tf t) a \<longleftrightarrow> (tt_status t = Failed \<and> (a = TunnelAgain \<or> (\<exists>n < 4. a = TunnelToggle n)))
     \<or> (tt_status t = Success \<and> a = TunnelNext)"
  by (auto simp: tunnelView_def form_offers offers_accordion tunnelTroubleshooting_def)

lemma offers_apiTest:
  "offers (apiTestView v t) a \<longleftrightarrow>
     (aq_status t = Failed \<and> (a = ApiBack \<or> a = ApiAgain \<or> (\<exists>n < 3. a = ApiToggle n)))
     \<or> (aq_status t = Success \<and> a = ApiNext)"
  by (auto simp: apiTestView_def form_offers offers_accordion apiTroubleshooting_def)

interpretation tunnel: connection_test tunnel_step "tunnel_ok tf" tt_status tunnelUp OnTestTunnel for tf
proof
  fix t a b
  assume ok: "tunnel_ok tf t a"
  show "tunnelUp a = Some b \<Longrightarrow> tt_status t = Testing
      \<and> tt_status (fst (tunnel_step t a)) = (if b then Success else Failed)
      \<and> filter ((=) OnTestTunnel) (snd (tunnel_step t a)) = [] \<and> OnSuccess \<notin> set (snd (tunnel_step t a))"
    using ok by (cases a) auto
  show "tunnelUp a = None \<Longrightarrow>
      (filter ((=) OnTestTunnel) (snd (tunnel_step t a)) = [] \<and> tt_status (fst (tunnel_step t a)) = tt_status t)
      \<or> (filter ((=) OnTestTunnel) (snd (tunnel_step t a)) = [OnTestTunnel] \<and> tt_status t = Failed
         \<and> tt_status (fst (tunnel_step t a)) = Testing)"
    using ok by (cases a) (auto simp: runTunnelTest_def offers_tunnel)
  show "OnSuccess \<in> set (snd (tunnel_step t a)) \<Longrightarrow> tt_status t = Success"
    using ok by (cases a) (auto simp: runTunnelTest_def offers_tunnel split: if_splits)
qed

interpretation api: connection_test apitest_step "apitest_ok v" aq_status apiUp OnTestAPI for v
proof
  fix t a b
  assume ok: "apitest_ok v t a"
  show "apiUp a = Some b \<Longrightarrow> aq_status t = Testing
      \<and> aq_status (fst (apitest_step t a)) = (if b then Success else Failed)
      \<and> filter ((=) OnTestAPI) (snd (apitest_step t a)) = [] \<and> OnSuccess \<notin> set (snd (apitest_step t a))"
    using ok by (cases a) auto
  show "apiUp a = None \<Longrightarrow>
      (filter ((=) OnTestAPI) (snd (apitest_step t a)) = [] \<and> aq_status (fst (apitest_step t a)) = aq_status t)
      \<or> (filter ((=) OnTestAPI) (snd (apitest_step t a)) = [OnTestAPI] \<and> aq_status t = Failed
         \<and> aq_status (fst (apitest_step t a)) = Testing)"
    using ok by (cases a) (auto simp: runApiTest_def offers_apiTest)
  show "OnSuccess \<in> set (snd (apitest_step t a)) \<Longrightarrow> aq_status t = Success"
    using ok by (cases a) (auto simp: runApiTest_def offers_apiTest split: if_splits)
qed

text \<open>Keys: an accepted text is base64 of 32 bytes.\<close>

lemma b64bytes_length: "length xs mod 4 \<noteq> 1 \<Longrightarrow> length (b64bytes xs) = length xs * 3 div 4"
  by (induction xs rule: b64bytes.induct) auto

lemma b64sextets_size: "length (b64sextets bs) = (length bs * 4 + 2) div 3"
  by (induction bs rule: b64sextets.induct) auto

lemma b64alphabet_plain:
  "c \<in> set b64alphabet \<Longrightarrow> (of_char c :: nat) < 0x80 \<and> c \<notin> {CHR 0x09, CHR 0x0A, CHR 0x0C, CHR 0x0D, CHR 0x20, CHR ''=''}"
  unfolding b64alphabet_def by (auto simp: of_char_def)

lemma jsLength_ascii: "\<forall>c \<in> set s. (of_char c :: nat) < 0x80 \<Longrightarrow> jsLength s = length s"
  by (induction s) auto

lemma base64Key_split: "base64Key s \<longleftrightarrow> (\<exists>t. s = t @ ''='' \<and> t \<noteq> [] \<and> set t \<subseteq> set b64alphabet)"
proof
  assume key: "base64Key s"
  then have "s \<noteq> []" "last s = CHR ''=''" by (auto simp: base64Key_def)
  then have "s = butlast s @ ''=''" using append_butlast_last_id [of s] by simp
  moreover have "butlast s \<noteq> []" using key by (cases s rule: rev_cases) (auto simp: base64Key_def)
  ultimately show "\<exists>t. s = t @ ''='' \<and> t \<noteq> [] \<and> set t \<subseteq> set b64alphabet" using key by (auto simp: base64Key_def)
next
  assume "\<exists>t. s = t @ ''='' \<and> t \<noteq> [] \<and> set t \<subseteq> set b64alphabet"
  then show "base64Key s" by (auto simp: base64Key_def neq_Nil_conv)
qed

lemma keySchema_split: "keySchema s = [] \<longleftrightarrow> (\<exists>t. s = t @ ''='' \<and> length t = 43 \<and> set t \<subseteq> set b64alphabet)"
proof -
  have "jsLength (t @ ''='') = length t + 1" if "set t \<subseteq> set b64alphabet" for t
    using jsLength_ascii [of "t @ ''=''"] that b64alphabet_plain by (auto simp: of_char_def)
  then show ?thesis by (auto simp: keySchema_def base64Key_split split: if_splits)
qed

lemma atob_padded:
  assumes "length t mod 4 = 3" and "set t \<subseteq> set b64alphabet"
  shows "atob (t @ ''='') = Some (map char_of (b64bytes (map (\<lambda>c. the (b64val c)) t)))"
    and "atob (t @ ''='') = atob t"
proof -
  let ?ws = "\<lambda>c. c \<notin> {CHR 0x09, CHR 0x0A, CHR 0x0C, CHR 0x0D, CHR 0x20}"
  have clean: "filter ?ws t = t" "filter ?ws (t @ ''='') = t @ ''=''"
    using assms(2) b64alphabet_plain by (auto intro!: filter_True)
  have "rev t \<noteq> []" using assms(1) by auto
  then obtain y r where yr: "rev t = y # r" by (cases "rev t") auto
  then have "y \<noteq> CHR ''=''" using assms(2) b64alphabet_plain set_rev [of t] by fastforce
  moreover have "(length t + 1) mod 4 = 0" using assms(1) by presburger
  ultimately have pad: "dropPad (t @ ''='') = t" using yr by (simp add: dropPad_def rev_swap)
  have bare: "dropPad t = t" using assms(1) by (simp add: dropPad_def)
  have known: "\<not> (\<exists>c \<in> set t. b64val c = None)" using assms(2) by (auto simp: b64val_def)
  show "atob (t @ ''='') = Some (map char_of (b64bytes (map (\<lambda>c. the (b64val c)) t)))"
    using assms(1) known unfolding atob_def Let_def clean(2) pad by simp
  show "atob (t @ ''='') = atob t"
    unfolding atob_def Let_def clean pad bare by simp
qed

lemma encoded_plain: "set (fromBase64Url (b64urlEncode s)) \<subseteq> set b64alphabet"
proof
  fix c
  assume "c \<in> set (fromBase64Url (b64urlEncode s))"
  then obtain y where y: "y \<in> set (b64sextets (map of_char s))" "c = hd (fromBase64Url [b64urlAlphabet ! y])"
    by (subst (asm) fromBase64Url_map) (auto simp: b64urlEncode_def)
  have "\<forall>x \<in> set (map of_char s :: nat list). x < 256" by (auto simp: of_char_def)
  with y(1) have "y \<in> set [0..<64]" using b64sextets_bound by force
  with b64url_table y(2) have "b64val c = Some y" by blast
  then show "c \<in> set b64alphabet" by (simp add: b64val_def split: if_splits)
qed

lemma encoded_size: "length (fromBase64Url (b64urlEncode s)) = (length s * 4 + 2) div 3"
  by (simp add: fromBase64Url_def b64urlEncode_def b64sextets_size)

text \<open>Requests of the forms.\<close>

definition validDetails :: "string \<Rightarrow> string \<Rightarrow> bool" where
  "validDetails n s \<longleftrightarrow> n \<noteq> [] \<and> jsLength n \<le> 100 \<and> s \<noteq> [] \<and> jsLength s \<le> 100"

definition validCredentials :: "string \<Rightarrow> string \<Rightarrow> int \<Rightarrow> bool" where
  "validCredentials u w q \<longleftrightarrow> u \<noteq> [] \<and> jsLength u \<le> 100 \<and> 4 \<le> jsLength w \<and> 1 \<le> q \<and> q \<le> 65535"

lemma upTo100_Nil: "upTo100 f m v = [] \<longleftrightarrow> 1 \<le> jsLength v \<and> jsLength v \<le> 100"
  by (auto simp: upTo100_def minLength_def)

lemma nonempty_jsLength: "1 \<le> jsLength v \<Longrightarrow> v \<noteq> []"
  by auto

lemma details_valid: "OnInit n s \<in> set (snd (details_step_step d a)) \<Longrightarrow> validDetails n s"
  by (cases a) (auto simp: Let_def detailsSchema_def upTo100_Nil validDetails_def split: if_splits)

lemma key_valid: "OnRegister s \<in> set (snd (key_step_step k a)) \<Longrightarrow> keySchema s = []"
  by (cases a) (auto simp: Let_def split: if_splits)

lemma cred_valid: "OnSave u w q \<in> set (snd (cred_step c a)) \<Longrightarrow> validCredentials u w q"
  by (cases a)
    (auto simp: Let_def credSchema_def upTo100_Nil minLength_def credPortErrors_def validCredentials_def le_floor_iff floor_le_iff
      split: if_splits option.splits)

text \<open>Endpoints \<open>host:port\<close> and \<open>host\<close>; the brackets of an IPv6 address are not understood.\<close>

lemma endpoint_parts:
  assumes "CHR '':'' \<notin> set h" and "CHR '':'' \<notin> set q"
  shows "endpointHost (h @ CHR '':'' # q) = h" and "q \<noteq> [] \<Longrightarrow> endpointPort (h @ CHR '':'' # q) = q"
    and "endpointHost h = h" and "endpointPort h = ''51820''"
  using assms by (simp_all add: endpointHost_def endpointPort_def splitOn_append orElse_def)

lemma ipv6_endpoint: "endpointHost ''[fd00::1]:51820'' = ''[fd00''" "endpointPort ''[fd00::1]:51820'' = ''51820''"
  by (simp_all add: endpointHost_def endpointPort_def orElse_def)

lemma double_mask:
  "(''Your Router's Assigned IP'', ''10.8.0.5/24/24'', ''assigned_ip'') \<in> set (paramCards (d\<lparr>id_assigned_ip := ''10.8.0.5/24''\<rparr>))"
  by (simp add: paramCards_def)

text \<open>Rate limits: the check is the regular expression.\<close>

lemma megabits_split: "megabits s \<longleftrightarrow> (\<exists>d. s = d @ ''M'' \<and> d \<noteq> [] \<and> (\<forall>c \<in> set d. is_digit c))"
proof
  assume m: "megabits s"
  then have "s \<noteq> []" "last s = CHR ''M''" by (auto simp: megabits_def)
  then have "s = butlast s @ ''M''" using append_butlast_last_id [of s] by simp
  moreover have "butlast s \<noteq> []" using m by (cases s rule: rev_cases) (auto simp: megabits_def)
  ultimately show "\<exists>d. s = d @ ''M'' \<and> d \<noteq> [] \<and> (\<forall>c \<in> set d. is_digit c)" using m by (auto simp: megabits_def)
next
  assume "\<exists>d. s = d @ ''M'' \<and> d \<noteq> [] \<and> (\<forall>c \<in> set d. is_digit c)"
  then show "megabits s" by (auto simp: megabits_def neq_Nil_conv)
qed

lemma splitOn_two: "splitOn c s = [x, y] \<longleftrightarrow> s = x @ c # y \<and> c \<notin> set x \<and> c \<notin> set y"
proof
  show "s = x @ c # y \<and> c \<notin> set x \<and> c \<notin> set y \<Longrightarrow> splitOn c s = [x, y]" by (simp add: splitOn_append)
  have one: "splitOn c s = [x] \<Longrightarrow> s = x \<and> c \<notin> set x" for s x
    by (induction s arbitrary: x) (auto split: if_splits list.splits)
  show "splitOn c s = [x, y] \<Longrightarrow> s = x @ c # y \<and> c \<notin> set x \<and> c \<notin> set y"
  proof (induction s arbitrary: x)
    case (Cons a s)
    show ?case
    proof (cases "a = c")
      case True
      with Cons.prems one show ?thesis by auto
    next
      case False
      then obtain w ws where w: "splitOn c s = w # ws" by (cases "splitOn c s") auto
      with Cons.prems False have "x = a # w" "ws = [y]" by auto
      with Cons.IH [of w] w False show ?thesis by auto
    qed
  qed simp
qed

lemma rateLimitFormat_exact:
  "rateLimitFormat s \<longleftrightarrow> (\<exists>d u. s = d @ ''M/'' @ u @ ''M'' \<and> d \<noteq> [] \<and> u \<noteq> [] \<and> (\<forall>c \<in> set d \<union> set u. is_digit c))"
proof
  assume "rateLimitFormat s"
  then obtain x y where "splitOn (CHR ''/'') s = [x, y]" "megabits x" "megabits y"
    by (auto simp: rateLimitFormat_def split: list.splits)
  then show "\<exists>d u. s = d @ ''M/'' @ u @ ''M'' \<and> d \<noteq> [] \<and> u \<noteq> [] \<and> (\<forall>c \<in> set d \<union> set u. is_digit c)"
    by (fastforce simp: splitOn_two megabits_split)
next
  assume "\<exists>d u. s = d @ ''M/'' @ u @ ''M'' \<and> d \<noteq> [] \<and> u \<noteq> [] \<and> (\<forall>c \<in> set d \<union> set u. is_digit c)"
  then obtain d u where s: "s = d @ ''M/'' @ u @ ''M''" "d \<noteq> []" "u \<noteq> []" "\<forall>c \<in> set d \<union> set u. is_digit c" by blast
  then have "splitOn (CHR ''/'') s = [d @ ''M'', u @ ''M'']" by (auto simp: splitOn_two is_digit_def)
  with s show "rateLimitFormat s" by (simp add: rateLimitFormat_def megabits_split)
qed

lemma offers_profiles:
  "offers (profilesView p) a \<longleftrightarrow>
     (if pr_hasRun p then a = ProfilesNext
      else a = AddProfile \<or> (\<not> pr_isPending p \<and> a = SubmitProfiles)
        \<or> (\<exists>n < length (pr_profiles p). (\<exists>v. a = ProfileName n v) \<or> (\<exists>v. a = ProfileRate n v)
             \<or> (length (pr_profiles p) \<noteq> 1 \<and> a = RemoveProfile n)))"
proof -
  have "offers (profileRow p n) a \<longleftrightarrow> (\<exists>v. a = ProfileName n v) \<or> (\<exists>v. a = ProfileRate n v)
      \<or> (length (pr_profiles p) \<noteq> 1 \<and> a = RemoveProfile n)" for n
    by (cases "pr_errors p n") (auto simp: profileRow_def form_offers)
  then show ?thesis by (auto simp: profilesView_def form_offers)
qed

lemma profiles_kept:
  "pr_profiles p \<noteq> [] \<Longrightarrow> profiles_ok p a \<Longrightarrow> pr_profiles (fst (profiles_step_step p a)) \<noteq> []"
proof (cases a)
  case (RemoveProfile n)
  assume "pr_profiles p \<noteq> []" and "profiles_ok p a"
  then have "2 \<le> length (pr_profiles p)" "n < length (pr_profiles p)"
    using RemoveProfile by (cases "pr_profiles p"; auto simp: offers_profiles Suc_le_eq split: if_splits)+
  then have "length (removeNth n (pr_profiles p)) > 0" by (simp add: removeNth_def)
  with RemoveProfile show ?thesis by (simp add: removeProfile_def)
qed (auto simp: updateRate_def submitProfiles_def)

section \<open>Properties\<close>

text \<open>The connection tests guard their steps: however the tunnel step and the API step are used, one test
  runs at a time, every test but the first repeats a failed one, and the step is left only after the last
  test connected, which no further test follows.\<close>

lemma connection_tests_gate:
  assumes t: "guarded_run (tunnel_ok tf) tunnel_step (fst tunnelStart) as = Some (t, outs)"
    and q: "guarded_run (apitest_ok v) apitest_step (fst apiStart) bs = Some (q, outs')"
  shows "length (filter ((=) OnTestTunnel) (snd tunnelStart @ outs))
        = length (List.map_filter tunnelUp as) + of_bool (tt_status t = Testing)
    \<and> length (filter ((=) OnTestAPI) (snd apiStart @ outs'))
        = length (List.map_filter apiUp bs) + of_bool (aq_status q = Testing)
    \<and> (OnSuccess \<in> set outs \<longrightarrow> (\<exists>k. List.map_filter tunnelUp as = replicate k False @ [True]))
    \<and> (OnSuccess \<in> set outs' \<longrightarrow> (\<exists>k. List.map_filter apiUp bs = replicate k False @ [True]))"
proof -
  have start: "tt_status (fst tunnelStart) = Testing" "aq_status (fst apiStart) = Testing"
    by (simp_all add: tunnelStart_def apiStart_def runTunnelTest_def runApiTest_def)
  have first: "snd tunnelStart = [OnTestTunnel]" "snd apiStart = [OnTestAPI]"
    by (simp_all add: tunnelStart_def apiStart_def runTunnelTest_def runApiTest_def)
  show ?thesis
    using tunnel.tests.request_flights [OF t] api.tests.request_flights [OF q]
      tunnel.failures_then_success [OF t] api.failures_then_success [OF q]
    by (auto simp: start first answers_filtered split: if_splits)
qed

text \<open>C37: The key form accepts exactly the texts that are WireGuard keys: what it accepts decodes to 32 bytes,
  and every sequence of 32 bytes has a text that is accepted and decodes to it. The step registers
  nothing else.\<close>

theorem peer_key_is_32_bytes:
  "(keySchema s = [] \<longrightarrow> (\<exists>bs. atob s = Some bs \<and> length bs = 32))
   \<and> (length bs = 32 \<longrightarrow>
        (let t = fromBase64Url (b64urlEncode bs) @ ''='' in keySchema t = [] \<and> atob t = Some bs))
   \<and> (OnRegister s \<in> set (snd (key_step_step k a)) \<longrightarrow> s = ks_key k \<and> keySchema s = [])"
proof (intro conjI impI)
  assume "keySchema s = []"
  then obtain t where t: "s = t @ ''=''" "length t = 43" "set t \<subseteq> set b64alphabet" by (auto simp: keySchema_split)
  with atob_padded(1) [of t] b64bytes_length [of "map (\<lambda>c. the (b64val c)) t"]
  show "\<exists>bs. atob s = Some bs \<and> length bs = 32" by simp
next
  assume size: "length bs = 32"
  let ?t = "fromBase64Url (b64urlEncode bs)"
  have t: "length ?t = 43" using size by (simp add: encoded_size)
  then have "keySchema (?t @ ''='') = []" using encoded_plain by (auto simp: keySchema_split)
  moreover have "atob (?t @ ''='') = Some bs"
    using atob_padded(2) [of ?t] t encoded_plain atob_encode [of bs] by simp
  ultimately show "let t = ?t @ ''='' in keySchema t = [] \<and> atob t = Some bs" by (simp add: Let_def)
next
  assume sent: "OnRegister s \<in> set (snd (key_step_step k a))"
  then show "keySchema s = []" by (rule key_valid)
  from sent show "s = ks_key k" by (cases a) (auto simp: Let_def split: if_splits)
qed

theorem peer_key_is_32_bytes_witness:
  "let t = fromBase64Url (b64urlEncode (replicate 32 (CHR ''k''))) @ ''='' in
     keySchema t = [] \<and> (\<exists>bs. atob t = Some bs \<and> length bs = 32)
     \<and> snd (key_step_step (key0\<lparr>ks_key := t\<rparr>) SubmitKey) = [OnRegister t]"
proof -
  define bs where "bs = replicate 32 (CHR ''k'')"
  define t where "t = fromBase64Url (b64urlEncode bs) @ ''=''"
  have "length bs = 32" by (simp add: bs_def)
  then have key: "keySchema t = []"
    using peer_key_is_32_bytes [of "[]" bs key0 SubmitKey] unfolding Let_def t_def by blast
  moreover from key have "\<exists>bs. atob t = Some bs \<and> length bs = 32"
    using peer_key_is_32_bytes [of t "[]" key0 SubmitKey] by blast
  moreover from key have "snd (key_step_step (key0\<lparr>ks_key := t\<rparr>) SubmitKey) = [OnRegister t]" by simp
  ultimately show ?thesis unfolding Let_def t_def [symmetric, unfolded bs_def] by blast
qed

lemma sent_profiles:
  "(\<forall>q \<in> set ps. profileError q = None) \<longleftrightarrow> (\<forall>(n, r) \<in> set ps. n \<noteq> [] \<and> rateLimitFormat r)"
  by (fastforce simp: profileError_def rateLimitFormat_def megabits_def split: if_splits)

text \<open>The requests of the forms: details, credentials and profiles are complete and in range, and there is
  always a profile.\<close>

lemma setup_requests_valid:
  assumes "guarded_run profiles_ok profiles_step_step profiles0 as = Some (p, outs)"
  shows "OnSetupProfiles ps \<in> set outs \<Longrightarrow> ps \<noteq> [] \<and> (\<forall>(n, r) \<in> set ps. n \<noteq> [] \<and> rateLimitFormat r)"
    and "OnInit n s \<in> set (snd (details_step_step d a)) \<Longrightarrow> validDetails n s"
    and "OnSave u w q \<in> set (snd (cred_step c b)) \<Longrightarrow> validCredentials u w q"
proof -
  let ?Q = "\<lambda>v. \<forall>ps. v = OnSetupProfiles ps \<longrightarrow> ps \<noteq> [] \<and> (\<forall>(n, r) \<in> set ps. n \<noteq> [] \<and> rateLimitFormat r)"
  have start: "pr_profiles profiles0 \<noteq> []" by (simp add: profiles0_def)
  have step: "pr_profiles (fst (profiles_step_step p a)) \<noteq> [] \<and> (\<forall>v \<in> set (snd (profiles_step_step p a)). ?Q v)"
    if "pr_profiles p \<noteq> []" "profiles_ok p a" "a \<in> set as" for p a
    using that(1) profiles_kept [OF that(1,2)]
    by (cases a) (auto simp: submitProfiles_def sent_profiles)
  have all: "\<forall>v \<in> set outs. ?Q v"
    by (rule guarded_run_trace(2) [where P = "\<lambda>p. pr_profiles p \<noteq> []" and Q = ?Q, OF assms start step])
  show "OnSetupProfiles ps \<in> set outs \<Longrightarrow> ps \<noteq> [] \<and> (\<forall>(n, r) \<in> set ps. n \<noteq> [] \<and> rateLimitFormat r)"
    using all by simp
qed (use details_valid cred_valid in auto)

text \<open>Removing a row leaves the error of a later row under its old number.\<close>

lemma profile_error_misplaced:
  "let as = [ProfileRate 1 ''fast'', RemoveProfile 0];
       p = fold (\<lambda>a p. fst (profiles_step_step p a)) as profiles0
   in pr_profiles p = [(''20Mbps'', ''fast''), (''50Mbps'', ''50M/50M'')] \<and> pr_errors p 0 = None \<and> pr_errors p 1 \<noteq> None"
  by (simp add: profiles0_def removeProfile_def removeNth_def updateRate_def rateLimitFormat_def)

text \<open>A failure of a longer name counts for its prefix.\<close>

lemma prefix_failure: "profileOutcome ([], [''10Mbps: exists'']) ''10M'' = ''Failed / Exists''"
  by (simp add: profileOutcome_def startsWith_def)

text \<open>A completion that failed is announced as complete.\<close>

lemma failed_completion_shown:
  "shows_text (completeStepView n s ip (fst (complete_step_step c (CompleteFailed d)))) ''Onboarding Complete!''"
  by (simp add: completeStepView_def shows_text_simps)

end
