(* ===== verification/Setup_Wizard.thy ===== *)
theory Setup_Wizard
  imports Reseller Router_Wizard
begin

text \<open>
  The first-run wizard of \<open>pages/admin/onboarding/OnboardingWizard.tsx\<close> with the plain package form of
  \<open>components/shared/PackageForm.tsx\<close>: a package, a router, done. No route leads to it any more. The
  form is mounted in the first step only.
\<close>

section \<open>The plain package form\<close>

record plain_form =
  pl_name :: string
  pl_description :: string
  pl_price :: string
  pl_duration :: string
  pl_speed :: string
  pl_errors :: field_errors
  pl_submitted :: bool

datatype plain_field = PlName | PlDescription | PlPrice | PlDuration | PlSpeed

definition plain0 :: plain_form where
  "plain0 = \<lparr>pl_name = [], pl_description = [], pl_price = ''0'', pl_duration = ''0'', pl_speed = ''0'', pl_errors = [],
     pl_submitted = False\<rparr>"

text \<open>\<open>z.coerce.number().positive(msg)\<close>, and with \<open>int()\<close> before it.\<close>

definition positiveNumber :: "string \<Rightarrow> string \<Rightarrow> string \<Rightarrow> field_errors" where
  "positiveNumber field msg v =
     (case Number v of None \<Rightarrow> [(field, [])] | Some x \<Rightarrow> if 0 < x then [] else [(field, msg)])"

definition positiveInt :: "string \<Rightarrow> string \<Rightarrow> string \<Rightarrow> field_errors" where
  "positiveInt field msg v =
     (case Number v of
        None \<Rightarrow> [(field, [])]
      | Some x \<Rightarrow> (if of_int (floor x) = x \<and> \<bar>x\<bar> \<le> 9007199254740991 then [] else [(field, [])])
                 @ (if 0 < x then [] else [(field, msg)]))"

definition packageSchema :: "plain_form \<Rightarrow> field_errors" where
  "packageSchema f =
     minLength 1 ''name'' ''Name is required'' (pl_name f) @ (if 100 < jsLength (pl_name f) then [(''name'', [])] else [])
     @ positiveNumber ''price_kes'' ''Price must be greater than 0'' (pl_price f)
     @ positiveInt ''duration_minutes'' ''Duration must be a positive number'' (pl_duration f)
     @ positiveInt ''speed_mbps'' ''Speed must be a positive number'' (pl_speed f)"

fun setPlain :: "plain_field \<Rightarrow> string \<Rightarrow> plain_form \<Rightarrow> plain_form" where
  "setPlain PlName v f = f\<lparr>pl_name := v\<rparr>"
| "setPlain PlDescription v f = f\<lparr>pl_description := v\<rparr>"
| "setPlain PlPrice v f = f\<lparr>pl_price := v\<rparr>"
| "setPlain PlDuration v f = f\<lparr>pl_duration := v\<rparr>"
| "setPlain PlSpeed v f = f\<lparr>pl_speed := v\<rparr>"

fun plainName :: "plain_field \<Rightarrow> string" where
  "plainName PlName = ''name''"
| "plainName PlDescription = ''description''"
| "plainName PlPrice = ''price_kes''"
| "plainName PlDuration = ''duration_minutes''"
| "plainName PlSpeed = ''speed_mbps''"

definition changePlain :: "plain_field \<Rightarrow> string \<Rightarrow> plain_form \<Rightarrow> plain_form" where
  "changePlain k v f =
     (let f1 = setPlain k v f
      in f1\<lparr>pl_errors := recheck (pl_submitted f1) (plainName k) (packageSchema f1) (pl_errors f1)\<rparr>)"

section \<open>The wizard\<close>

record setup_wizard =
  sw_step :: nat
  sw_routers :: "mikrotik_router list fetched"
  sw_form :: plain_form
  sw_pending :: bool

datatype setup_action =
    SetupRouters "mikrotik_router list option"
  | PlainInput plain_field string
  | SubmitPlain
  | SetupCreated
  | SetupCreateFailed
  | SkipPackage
  | AddRouter
  | SkipRouter
  | FinishSetup

datatype setup_out =
    CreateFirstPackage package_request
  | SetupToast string
  | SetupError string
  | SetupGoto path

text \<open>The effect on \<open>[routers, step]\<close>.\<close>

definition autoAdvance :: "setup_wizard \<Rightarrow> setup_wizard" where
  "autoAdvance w =
     (if (\<exists>m \<in> set (nullish (dataOf (sw_routers w)) []). mr_status m = ''online'') \<and> sw_step w = 2
      then w\<lparr>sw_step := 3\<rparr> else w)"

definition setup0 :: setup_wizard where
  "setup0 = \<lparr>sw_step = 1, sw_routers = FLoading, sw_form = plain0, sw_pending = False\<rparr>"

definition packageData :: "plain_form \<Rightarrow> package_request" where
  "packageData f =
     \<lparr>rq_name = pl_name f, rq_description = pl_description f, rq_price_kes = the (Number (pl_price f)),
      rq_speed_mbps = the (Number (pl_speed f)),
      rq_duration_minutes = (let d = the (Number (pl_duration f)) in if d = 0 then 1440 else d)\<rparr>"

definition handlePackageSubmit :: "setup_wizard \<Rightarrow> setup_wizard \<times> setup_out list" where
  "handlePackageSubmit w =
     (let f = sw_form w; errs = packageSchema f; w1 = w\<lparr>sw_form := f\<lparr>pl_errors := errs, pl_submitted := True\<rparr>\<rparr>
      in if errs \<noteq> [] then (w1, []) else (w1\<lparr>sw_pending := True\<rparr>, [CreateFirstPackage (packageData f)]))"

fun setup_handler :: "setup_wizard \<Rightarrow> setup_action \<Rightarrow> setup_wizard \<times> setup_out list" where
  "setup_handler w (SetupRouters d) = (w\<lparr>sw_routers := answered d (sw_routers w)\<rparr>, [])"
| "setup_handler w (PlainInput k v) = (w\<lparr>sw_form := changePlain k v (sw_form w)\<rparr>, [])"
| "setup_handler w SubmitPlain = handlePackageSubmit w"
| "setup_handler w SetupCreated = (w\<lparr>sw_pending := False, sw_step := 2\<rparr>, [SetupToast ''First package created!''])"
| "setup_handler w SetupCreateFailed =
     (w\<lparr>sw_pending := False\<rparr>, [SetupError ''Failed to create package. Please try again.''])"
| "setup_handler w SkipPackage = (w\<lparr>sw_step := 2\<rparr>, [])"
| "setup_handler w AddRouter = (w, [SetupGoto ''/admin/onboarding/router''])"
| "setup_handler w SkipRouter = (w\<lparr>sw_step := 3\<rparr>, [])"
| "setup_handler w FinishSetup = (w, [SetupGoto ''/admin/dashboard''])"

definition setup_step :: "setup_wizard \<Rightarrow> setup_action \<Rightarrow> setup_wizard \<times> setup_out list" where
  "setup_step w a = (let (w1, outs) = setup_handler w a in (autoAdvance w1, outs))"

definition plainView :: "bool \<Rightarrow> string \<Rightarrow> plain_form \<Rightarrow> setup_action view list" where
  "plainView busy label f =
     (let errs = pl_errors f
      in [Txt ''Package Name'', Inp ''e.g. Bronze Plan'' (pl_name f) (PlainInput PlName)] @ fieldError errs ''name''
         @ [Txt ''Speed (Mbps)'', Inp [] (pl_speed f) (PlainInput PlSpeed)] @ fieldError errs ''speed_mbps''
         @ [Txt ''Duration (Minutes)'', Inp [] (pl_duration f) (PlainInput PlDuration)] @ fieldError errs ''duration_minutes''
         @ [Txt ''Price (KES)'', Inp [] (pl_price f) (PlainInput PlPrice)] @ fieldError errs ''price_kes''
         @ [Txt ''Description (Optional)'', Inp ''Short description'' (pl_description f) (PlainInput PlDescription),
            Btn busy [Txt (if busy then ''Saving...'' else label)] SubmitPlain])"

definition stepper :: "nat \<Rightarrow> 'a view list" where
  "stepper n = onlyIf (n \<le> 1) [Txt ''1''] @ [Txt ''Packages''] @ onlyIf (n \<le> 2) [Txt ''2''] @ [Txt ''Router'', Txt ''3'', Txt ''Done'']"

definition setupView :: "setup_wizard \<Rightarrow> setup_action view" where
  "setupView w = Group
     (stepper (sw_step w)
      @ onlyIf (sw_step w = 1)
          ([Txt ''Create Your First Package'',
            Txt ''Define your WiFi plans and speed configurations. Customers can buy these packages on self-service portals.'']
           @ plainView (sw_pending w) ''Create Package & Continue'' (sw_form w) @ [Btn False [Txt ''I'll do this later''] SkipPackage])
      @ onlyIf (sw_step w = 2)
          [Txt ''Connect Your First Router'', Txt ''Link Frixel Connect to your MikroTik router in about 60 seconds.'',
           Txt ''One command does everything'',
           Txt ''Frixel Connect generates a single terminal command. Paste it into your MikroTik terminal, and the router configures itself-VPN, API user, speed profiles, and firewall rules, all in one step.'',
           Txt (''/tool fetch url='' @ [CHR 0x22] @ ''https://api.Frixel Connect.dev/api/v1/setup/...'' @ [CHR 0x22] @ '' ...''),
           Btn False [Txt ''Add Router''] AddRouter, Btn False [Txt ''I'll do this later''] SkipRouter]
      @ onlyIf (sw_step w = 3)
          [Txt ''ISP Setup Complete!'',
           Txt ''Your Frixel Connect workspace is ready to process automated payments and manage sessions.'',
           Txt ''You can configure additional packages, routers, resellers, and customize portal layouts inside your main ISP Admin dashboard at any time.'',
           Btn False [Txt ''Go to Dashboard''] FinishSetup])"

fun setup_ok :: "setup_wizard \<Rightarrow> setup_action \<Rightarrow> bool" where
  "setup_ok w (SetupRouters d) = True"
| "setup_ok w SetupCreated = sw_pending w"
| "setup_ok w SetupCreateFailed = sw_pending w"
| "setup_ok w a = offers (setupView w) a"

section \<open>Lemmas\<close>

lemma offers_plain:
  "list_ex (\<lambda>v. offers v a) (plainView b l f) \<longleftrightarrow> (\<exists>k v. a = PlainInput k v) \<or> (\<not> b \<and> a = SubmitPlain)"
proof (cases a)
  case (PlainInput k v)
  then show ?thesis by (cases k) (simp_all add: plainView_def form_offers offers_fieldError Let_def)
qed (auto simp: plainView_def form_offers offers_fieldError Let_def)

lemma offers_setup:
  "offers (setupView w) a \<longleftrightarrow>
     (sw_step w = 1 \<and> (a = SkipPackage \<or> (\<exists>k v. a = PlainInput k v) \<or> (\<not> sw_pending w \<and> a = SubmitPlain)))
     \<or> (sw_step w = 2 \<and> (a = AddRouter \<or> a = SkipRouter)) \<or> (sw_step w = 3 \<and> a = FinishSetup)"
  by (auto simp: setupView_def stepper_def form_offers offers_plain)

text \<open>A request of the wizard.\<close>

definition validPackage :: "package_request \<Rightarrow> bool" where
  "validPackage r \<longleftrightarrow> rq_name r \<noteq> [] \<and> jsLength (rq_name r) \<le> 100 \<and> 0 < rq_price_kes r
     \<and> 0 < rq_speed_mbps r \<and> rq_speed_mbps r \<in> \<int> \<and> 0 < rq_duration_minutes r \<and> rq_duration_minutes r \<in> \<int>"

lemma positiveInt_Nil: "positiveInt f m v = [] \<Longrightarrow> \<exists>n :: int. Number v = Some (of_int n) \<and> 0 < n"
proof -
  assume "positiveInt f m v = []"
  then obtain x where x: "Number v = Some x" "of_int (floor x) = x" "0 < x"
    by (auto simp: positiveInt_def split: option.splits if_splits)
  then have "0 < floor x" by (metis of_int_0_less_iff)
  with x show ?thesis by (metis)
qed

lemma packageData_valid: "packageSchema f = [] \<Longrightarrow> validPackage (packageData f)"
  by (auto simp: packageSchema_def minLength_def positiveNumber_def validPackage_def packageData_def Let_def
      dest!: positiveInt_Nil split: option.splits if_splits)

lemma autoAdvance_simps [simp]:
  "sw_pending (autoAdvance w) = sw_pending w" "sw_routers (autoAdvance w) = sw_routers w" "sw_form (autoAdvance w) = sw_form w"
  by (simp_all add: autoAdvance_def)

fun is_first_package :: "setup_out \<Rightarrow> bool" where
  "is_first_package (CreateFirstPackage r) = True"
| "is_first_package v = False"

fun is_setup_answer :: "setup_action \<Rightarrow> bool" where
  "is_setup_answer SetupCreated = True"
| "is_setup_answer SetupCreateFailed = True"
| "is_setup_answer a = False"

interpretation first_package: request_flight setup_step setup_ok sw_pending is_setup_answer is_first_package
proof
  fix w a
  assume ok: "setup_ok w a"
  show "is_setup_answer a \<Longrightarrow> sw_pending w \<and> \<not> sw_pending (fst (setup_step w a))
      \<and> filter is_first_package (snd (setup_step w a)) = []"
    using ok by (cases a) (auto simp: setup_step_def)
  show "\<not> is_setup_answer a \<Longrightarrow>
      (filter is_first_package (snd (setup_step w a)) = [] \<and> sw_pending (fst (setup_step w a)) = sw_pending w)
      \<or> (length (filter is_first_package (snd (setup_step w a))) = 1 \<and> \<not> sw_pending w \<and> sw_pending (fst (setup_step w a)))"
    using ok by (cases a) (auto simp: setup_step_def handlePackageSubmit_def Let_def offers_setup)
qed

text \<open>What the wizard knows in each step.\<close>

definition online_listed :: "setup_action list \<Rightarrow> bool" where
  "online_listed as \<longleftrightarrow> (\<exists>ms m. SetupRouters (Some ms) \<in> set as \<and> m \<in> set ms \<and> mr_status m = ''online'')"

definition setup_known :: "setup_action list \<Rightarrow> setup_wizard \<Rightarrow> bool" where
  "setup_known as w \<longleftrightarrow> sw_step w \<in> {1, 2, 3}
     \<and> (\<forall>ms. sw_routers w = FLoaded ms \<longrightarrow> SetupRouters (Some ms) \<in> set as)
     \<and> (sw_step w = 2 \<longrightarrow> (\<forall>m \<in> set (nullish (dataOf (sw_routers w)) []). mr_status m \<noteq> ''online''))
     \<and> (sw_step w = 3 \<longrightarrow> SkipRouter \<in> set as \<or> online_listed as)"

lemma setup_known_advance:
  assumes "sw_step w \<in> {1, 2, 3}" and "\<forall>ms. sw_routers w = FLoaded ms \<longrightarrow> SetupRouters (Some ms) \<in> set as"
    and "sw_step w = 3 \<longrightarrow> SkipRouter \<in> set as \<or> online_listed as"
  shows "setup_known as (autoAdvance w)"
  using assms by (cases "sw_routers w") (auto simp: setup_known_def autoAdvance_def online_listed_def)

lemma setup_known_step:
  assumes "setup_known as w" and "setup_ok w a" and "a \<in> set as"
  shows "setup_known as (fst (setup_step w a)) \<and> (\<forall>v \<in> set (snd (setup_step w a)). \<forall>r. v = CreateFirstPackage r \<longrightarrow> validPackage r)"
proof
  have w: "sw_step w \<in> {1, 2, 3}" "\<forall>ms. sw_routers w = FLoaded ms \<longrightarrow> SetupRouters (Some ms) \<in> set as"
    "sw_step w = 3 \<longrightarrow> SkipRouter \<in> set as \<or> online_listed as"
    using assms(1) by (simp_all add: setup_known_def)
  have "sw_step (fst (setup_handler w a)) \<in> {1, 2, 3}" "sw_step (fst (setup_handler w a)) = 3 \<longrightarrow> SkipRouter \<in> set as \<or> online_listed as"
    using w assms(3) by (cases a; simp add: handlePackageSubmit_def Let_def)+
  moreover have "\<forall>ms. sw_routers (fst (setup_handler w a)) = FLoaded ms \<longrightarrow> SetupRouters (Some ms) \<in> set as"
  proof (cases a)
    case (SetupRouters d)
    with w(2) assms(3) show ?thesis by (cases d; cases "sw_routers w") auto
  qed (use w(2) in \<open>simp_all add: handlePackageSubmit_def Let_def\<close>)
  ultimately have "setup_known as (autoAdvance (fst (setup_handler w a)))" by (intro setup_known_advance)
  then show "setup_known as (fst (setup_step w a))" by (simp add: setup_step_def case_prod_beta)
  show "\<forall>v \<in> set (snd (setup_step w a)). \<forall>r. v = CreateFirstPackage r \<longrightarrow> validPackage r"
    by (cases a) (auto simp: setup_step_def handlePackageSubmit_def Let_def packageData_valid)
qed

section \<open>Properties\<close>

text \<open>The wizard sends at most one package at a time, with a name, a positive price and whole positive
  speed and duration; it is always in one of its three steps, waits in the second only while no router is
  known to be online, and reaches the last one only by skipping or with a router that is online.\<close>

lemma setup_wizard_safe:
  assumes run: "guarded_run setup_ok setup_step setup0 as = Some (w, outs)"
  shows "length (filter is_first_package outs) = length (filter is_setup_answer as) + of_bool (sw_pending w)
    \<and> (\<forall>r. CreateFirstPackage r \<in> set outs \<longrightarrow> validPackage r) \<and> setup_known as w"
proof -
  have "setup_known as setup0" by (simp add: setup_known_def setup0_def)
  note known = guarded_run_trace [where P = "setup_known as"
      and Q = "\<lambda>v. \<forall>r. v = CreateFirstPackage r \<longrightarrow> validPackage r", OF run this setup_known_step]
  then show ?thesis using first_package.request_flights [OF run] by (auto simp: setup0_def)
qed

text \<open>A creation that is answered after both steps were skipped takes the admin from the end back to the
  second step.\<close>

lemma late_package_steps_back:
  "sw_step w = 3 \<Longrightarrow> sw_routers w = FLoading \<Longrightarrow> sw_step (fst (setup_step w SetupCreated)) = 2"
  by (simp add: setup_step_def autoAdvance_def)

end
