(* ===== verification/Layouts.thy ===== *)
theory Layouts
  imports App_Shell Admin_Dashboard Customer_Pages
begin

text \<open>
  The frames around the pages: \<open>components/layout\<close>, with the shared \<open>ErrorBoundary\<close>, \<open>EmptyState\<close> and
  \<open>PageTitle\<close> of \<open>components/shared\<close>. A layout shows links, a switch of the theme and a sign-out button;
  where a link leads is decided by the route table of \<open>App_Shell\<close>. A frame has its navigation twice, in a
  side bar and in a menu for small screens; each copy keeps a theme of its own until the frame is rendered
  again, which mounts both anew.
\<close>

section \<open>The admin's frame\<close>

datatype nav_state = NavActive | NavMuted | NavDisabled

record sidebar_item =
  si_label :: string
  si_href :: path
  si_navState :: "nav_state option"

abbreviation item :: "string \<Rightarrow> path \<Rightarrow> sidebar_item" where
  "item l h \<equiv> \<lparr>si_label = l, si_href = h, si_navState = None\<rparr>"

definition coreSidebarItems :: "sidebar_item list" where
  "coreSidebarItems =
     [item ''Dashboard'' ''/admin/dashboard'', item ''Customers'' ''/admin/customers'', item ''Packages'' ''/admin/packages'',
      item ''Payments'' ''/admin/payments'', item ''Invoices'' ''/admin/invoices'', item ''Sessions'' ''/admin/sessions'',
      item ''Routers'' ''/admin/routers'', item ''System Health'' ''/admin/system-health'',
      item ''Audit Log'' ''/admin/audit-log'', item ''Account & Billing'' ''/admin/account'']"

definition serviceNavState :: "router_summary \<Rightarrow> bool \<Rightarrow> nav_state" where
  "serviceNavState s hasServiceRouter =
     (if \<not> 0 < length (rsm_routers s) then NavMuted else if hasServiceRouter then NavActive else NavDisabled)"

definition serviceSidebarItems :: "router_summary \<Rightarrow> sidebar_item list" where
  "serviceSidebarItems s =
     [\<lparr>si_label = ''Vouchers'', si_href = ''/admin/vouchers'', si_navState = Some (serviceNavState s (hasHotspotRouter s))\<rparr>,
      \<lparr>si_label = ''Subscriptions'', si_href = ''/admin/subscriptions'', si_navState = Some (serviceNavState s (hasPPPoERouter s))\<rparr>]"

definition adminSidebarItems :: "router_summary \<Rightarrow> sidebar_item list" where
  "adminSidebarItems s = slice 0 5 coreSidebarItems @ serviceSidebarItems s @ drop 5 coreSidebarItems"

text \<open>The state of a frame: the signed-in session, the theme of the side bar, and the menu with its theme
  while it is open.\<close>

record frame =
  fr_auth :: auth_state
  fr_theme :: theme
  fr_menu :: "theme option"

datatype frame_action = ToggleTheme | ToggleMenuTheme | OpenMenu | CloseMenu | LogoutClick | UpdateProfile | RenderAgain

definition frameStart :: "auth_state \<Rightarrow> frame" where
  "frameStart st = \<lparr>fr_auth = st, fr_theme = initialTheme (au_local st), fr_menu = None\<rparr>"

definition otherTheme :: "theme \<Rightarrow> theme" where
  "otherTheme t = (if t = Dark then Light else Dark)"

definition withLocal :: "storage \<Rightarrow> auth_state \<Rightarrow> auth_state" where
  "withLocal s st = st\<lparr>au_local := s\<rparr>"

definition handleLogout :: "auth_state \<Rightarrow> auth_state \<times> auth_effect list" where
  "handleLogout st = (let (st1, effs) = logout st in (st1, effs @ [NavigateTo ''/login'']))"

fun frame_step :: "frame \<Rightarrow> frame_action \<Rightarrow> frame \<times> auth_effect list" where
  "frame_step f ToggleTheme =
     (let (t, s) = setTheme (otherTheme (fr_theme f)) (au_local (fr_auth f))
      in (f\<lparr>fr_theme := t, fr_auth := withLocal s (fr_auth f)\<rparr>, []))"
| "frame_step f ToggleMenuTheme =
     (case fr_menu f of
        None \<Rightarrow> (f, [])
      | Some m \<Rightarrow>
          (let (t, s) = setTheme (otherTheme m) (au_local (fr_auth f))
           in (f\<lparr>fr_menu := Some t, fr_auth := withLocal s (fr_auth f)\<rparr>, [])))"
| "frame_step f OpenMenu = (f\<lparr>fr_menu := Some (initialTheme (au_local (fr_auth f)))\<rparr>, [])"
| "frame_step f CloseMenu = (f\<lparr>fr_menu := None\<rparr>, [])"
| "frame_step f LogoutClick = (let (st, effs) = handleLogout (fr_auth f) in (f\<lparr>fr_auth := st\<rparr>, effs))"
| "frame_step f UpdateProfile = (f, [NavigateTo ''/customer/profile''])"
| "frame_step f RenderAgain =
     (let t = initialTheme (au_local (fr_auth f)) in (f\<lparr>fr_theme := t, fr_menu := map_option (\<lambda>_. t) (fr_menu f)\<rparr>, []))"

definition navItem :: "sidebar_item \<Rightarrow> 'a view" where
  "navItem it =
     (if nullish (si_navState it) NavActive = NavDisabled then Txt (si_label it) else Link (si_href it) [Txt (si_label it)])"

definition themeSwitch :: "theme \<Rightarrow> 'a \<Rightarrow> 'a view" where
  "themeSwitch t a = Btn False [Txt (if t = Dark then ''Light mode'' else ''Dark mode'')] a"

definition adminNavItems :: "router_summary \<Rightarrow> theme \<Rightarrow> frame_action \<Rightarrow> frame_action view list" where
  "adminNavItems s t toggle =
     map navItem (adminSidebarItems s) @ [themeSwitch t toggle, Btn False [Txt ''Logout''] LogoutClick]"

definition menuSheet :: "theme option \<Rightarrow> (theme \<Rightarrow> frame_action view list) \<Rightarrow> frame_action view list" where
  "menuSheet menu content =
     [Btn False [Txt ''Toggle navigation menu''] OpenMenu]
     @ (case menu of None \<Rightarrow> [] | Some t \<Rightarrow> [Txt ''Navigation Menu'', Btn False [] CloseMenu] @ content t)"

definition adminLayoutView :: "router_summary \<Rightarrow> frame \<Rightarrow> frame_action view \<Rightarrow> frame_action view" where
  "adminLayoutView s f outlet = Group
     ([Txt ''Frixel Connect'', Txt ''Admin''] @ adminNavItems s (fr_theme f) ToggleTheme
      @ [Txt ''Frixel Connect'', Txt ''Admin''] @ menuSheet (fr_menu f) (\<lambda>t. adminNavItems s t ToggleMenuTheme)
      @ [outlet])"

section \<open>The reseller's and the customer's frame\<close>

definition resellerSidebarItems :: "sidebar_item list" where
  "resellerSidebarItems =
     [item ''Dashboard'' ''/reseller/dashboard'', item ''My Customers'' ''/reseller/customers'',
      item ''Payments'' ''/reseller/payments'', item ''Vouchers'' ''/reseller/vouchers'', item ''Wallet'' ''/reseller/wallet'']"

definition resellerNavItems :: "frame_action view list" where
  "resellerNavItems = map navItem resellerSidebarItems @ [Btn False [Txt ''Logout''] LogoutClick]"

definition resellerLayoutView :: "frame \<Rightarrow> frame_action view \<Rightarrow> frame_action view" where
  "resellerLayoutView f outlet = Group
     ([Txt ''Frixel Connect'', Txt ''Reseller''] @ resellerNavItems
      @ [Txt ''Frixel Connect'', Txt ''Reseller''] @ menuSheet (fr_menu f) (\<lambda>t. resellerNavItems) @ [outlet])"

definition customerNavItems :: "sidebar_item list" where
  "customerNavItems =
     [item ''Home'' ''/customer/dashboard'', item ''Buy WiFi'' ''/customer/buy'', item ''Vouchers'' ''/customer/vouchers'',
      item ''Invoices'' ''/customer/invoices'', item ''Profile'' ''/customer/profile'']"

definition guestBanner :: "user option \<Rightarrow> frame_action view list" where
  "guestBanner profile =
     (case profile of
        None \<Rightarrow> []
      | Some u \<Rightarrow> onlyIf (guestEmail u)
          [Txt ''Complete your profile'',
           Txt ''You are currently using a guest account. Update your email and password to secure your account.'',
           Btn False [Txt ''Update Profile''] UpdateProfile])"

definition customerLayoutView :: "user option \<Rightarrow> frame_action view \<Rightarrow> frame_action view" where
  "customerLayoutView profile outlet = Group
     ([Txt ''Frixel Connect'', Btn False [Txt ''Logout''] LogoutClick] @ map navItem customerNavItems
      @ [Btn False [Txt ''Logout''] LogoutClick] @ guestBanner profile @ [outlet] @ map navItem customerNavItems)"

section \<open>The console's frame\<close>

record console_frame =
  cf_ctx :: sa_ctx
  cf_theme :: theme
  cf_menu :: "theme option"

definition saSidebarItems :: "sidebar_item list" where
  "saSidebarItems =
     [item ''Dashboard'' ''/super-admin/dashboard'', item ''Tenants'' ''/super-admin/tenants'',
      item ''Audit Log'' ''/super-admin/audit-log'', item ''SA Accounts'' ''/super-admin/accounts'']"

text \<open>The provider's sign-out replaces the location; the frame then navigates to the same page.\<close>

definition saHandleLogout :: "sa_ctx \<Rightarrow> sa_ctx \<times> path list" where
  "saHandleLogout c = (fst (saLogout c), [''/super-admin/login'', ''/super-admin/login''])"

fun console_frame_step :: "console_frame \<Rightarrow> frame_action \<Rightarrow> console_frame \<times> path list" where
  "console_frame_step f ToggleTheme =
     (let (t, s) = setTheme (otherTheme (cf_theme f)) (sa_local (cf_ctx f))
      in (f\<lparr>cf_theme := t, cf_ctx := (cf_ctx f)\<lparr>sa_local := s\<rparr>\<rparr>, []))"
| "console_frame_step f ToggleMenuTheme =
     (case cf_menu f of
        None \<Rightarrow> (f, [])
      | Some m \<Rightarrow>
          (let (t, s) = setTheme (otherTheme m) (sa_local (cf_ctx f))
           in (f\<lparr>cf_menu := Some t, cf_ctx := (cf_ctx f)\<lparr>sa_local := s\<rparr>\<rparr>, [])))"
| "console_frame_step f OpenMenu = (f\<lparr>cf_menu := Some (initialTheme (sa_local (cf_ctx f)))\<rparr>, [])"
| "console_frame_step f CloseMenu = (f\<lparr>cf_menu := None\<rparr>, [])"
| "console_frame_step f LogoutClick = (let (c, ps) = saHandleLogout (cf_ctx f) in (f\<lparr>cf_ctx := c\<rparr>, ps))"
| "console_frame_step f UpdateProfile = (f, [])"
| "console_frame_step f RenderAgain =
     (let t = initialTheme (sa_local (cf_ctx f)) in (f\<lparr>cf_theme := t, cf_menu := map_option (\<lambda>_. t) (cf_menu f)\<rparr>, []))"

definition saNavItems :: "sa_ctx \<Rightarrow> theme \<Rightarrow> frame_action \<Rightarrow> frame_action view list" where
  "saNavItems c t toggle =
     map navItem saSidebarItems
     @ [Txt (case superAdmin c of None \<Rightarrow> [] | Some u \<Rightarrow> sa_full_name u), Txt ''Frixel Connect Operator'',
        Btn False [Txt (if t = Dark then ''Light Mode'' else ''Dark Mode'')] toggle, Btn False [Txt ''Sign Out''] LogoutClick]"

definition superAdminLayoutView :: "console_frame \<Rightarrow> frame_action view \<Rightarrow> frame_action view" where
  "superAdminLayoutView f outlet = Group
     ([Txt ''Frixel Connect'', Txt ''SA'', Txt ''Control''] @ saNavItems (cf_ctx f) (cf_theme f) ToggleTheme
      @ [Txt ''Frixel Connect Control Panel'', Txt ''Frixel Connect'', Txt ''SA'', Txt ''Control'',
         Btn False [Txt ''Toggle navigation menu''] OpenMenu]
      @ (case cf_menu f of
           None \<Rightarrow> []
         | Some t \<Rightarrow> [Txt ''Control Panel Menu'', Btn False [] CloseMenu, Txt ''Frixel Connect'', Txt ''SA'']
                    @ saNavItems (cf_ctx f) t ToggleMenuTheme)
      @ [outlet])"

section \<open>The public frame\<close>

text \<open>The menu for small screens: its button, and the links that close it, which are the one on the product's
  name and those of the menu itself.\<close>

datatype public_action = SetMobileMenu bool | FollowLogo | FollowInMenu path | FollowElsewhere path

fun public_step :: "bool \<Rightarrow> public_action \<Rightarrow> bool" where
  "public_step shown (SetMobileMenu b) = b"
| "public_step shown FollowLogo = False"
| "public_step shown (FollowInMenu q) = False"
| "public_step shown (FollowElsewhere q) = shown"

definition isLandingPage :: "path \<Rightarrow> bool" where
  "isLandingPage loc \<longleftrightarrow> loc = ''/''"

definition anchor :: "path \<Rightarrow> string \<Rightarrow> path" where
  "anchor loc name = (if isLandingPage loc then ''#'' @ name else ''/#'' @ name)"

definition publicNav :: "path \<Rightarrow> bool \<Rightarrow> public_action view list" where
  "publicNav loc shown =
     [Link ''/'' [Txt ''Frixel Connect''], Link (anchor loc ''features'') [Txt ''Features''],
      Link (anchor loc ''pricing'') [Txt ''Pricing''], Link ''/login'' [Txt ''Log in''],
      Link ''/register'' [Txt ''Get Connected''], Btn False [] (SetMobileMenu (\<not> shown))]
     @ onlyIf shown
         [Link (anchor loc ''features'') [Txt ''Features''], Link (anchor loc ''pricing'') [Txt ''Pricing''],
          Link ''/login'' [Txt ''Log in''], Link ''/register'' [Txt ''Get Connected'']]"

definition publicFooter :: "path \<Rightarrow> string \<Rightarrow> public_action view list" where
  "publicFooter loc year =
     [Txt ''Frixel Connect'', Txt ''Next-generation WiFi billing and hotspot management for the modern world.'', Txt ''Product'',
      Link (anchor loc ''features'') [Txt ''Features''], Link (anchor loc ''pricing'') [Txt ''Pricing''],
      Link ''/register'' [Txt ''Reseller Program''], Txt ''Support'', Link ''#'' [Txt ''Help Center''],
      Link ''#'' [Txt ''Contact Us''], Link ''#'' [Txt ''Status''], Txt ''Legal'', Link ''#'' [Txt ''Privacy Policy''],
      Link ''#'' [Txt ''Terms of Service''], Link ''#'' [Txt ''Refund Policy''],
      Txt ([CHR 0xC2, CHR 0xA9, CHR '' ''] @ year @ '' Frixel Connect Networks. All rights reserved.'')]"

definition publicLayoutView :: "path \<Rightarrow> string \<Rightarrow> bool \<Rightarrow> public_action view \<Rightarrow> public_action view" where
  "publicLayoutView loc year shown outlet = Group
     (onlyIf (\<not> isLandingPage loc) (publicNav loc shown) @ [outlet]
      @ onlyIf (\<not> isLandingPage loc) (publicFooter loc year))"

section \<open>Shared pieces\<close>

text \<open>The error boundary: an error of its children replaces them until the reader tries again.\<close>

record error_boundary =
  eb_hasError :: bool
  eb_error :: "string option"

definition boundary0 :: error_boundary where
  "boundary0 = \<lparr>eb_hasError = False, eb_error = None\<rparr>"

definition getDerivedStateFromError :: "string \<Rightarrow> error_boundary" where
  "getDerivedStateFromError message = \<lparr>eb_hasError = True, eb_error = Some message\<rparr>"

definition boundaryReset :: error_boundary where
  "boundaryReset = \<lparr>eb_hasError = False, eb_error = None\<rparr>"

datatype 'a boundary_action = TryAgain | InChild 'a

definition boundaryView :: "error_boundary \<Rightarrow> 'a view \<Rightarrow> 'a boundary_action view" where
  "boundaryView b children =
     (if eb_hasError b
      then Group ([Txt ''Something went wrong'', Txt ''An unexpected error occurred while rendering this page.'']
                  @ (case eb_error b of None \<Rightarrow> [] | Some m \<Rightarrow> [Txt m]) @ [Btn False [Txt ''Try again''] TryAgain])
      else map_view InChild children)"

definition emptyState :: "string \<Rightarrow> string \<Rightarrow> (string \<times> 'a) option \<Rightarrow> 'a view" where
  "emptyState title description action =
     Group ([Txt title, Txt description] @ (case action of None \<Rightarrow> [] | Some (label, a) \<Rightarrow> [Btn False [Txt label] a]))"

definition pageTitle :: "string \<Rightarrow> string" where
  "pageTitle title = title @ '' | Frixel Connect''"

section \<open>Lemmas\<close>

primrec linksOf :: "'a view \<Rightarrow> path list" where
  "linksOf (Txt t) = []"
| "linksOf (Group vs) = concat (map linksOf vs)"
| "linksOf (Btn d vs a) = concat (map linksOf vs)"
| "linksOf (Inp p v h) = []"
| "linksOf (Link p vs) = p # concat (map linksOf vs)"

text \<open>A path leads to a page that is shown.\<close>

definition leadsTo :: "auth_state \<Rightarrow> sa_ctx \<Rightarrow> path \<Rightarrow> bool" where
  "leadsTo st c q \<longleftrightarrow> (\<exists>chain. (q, chain) \<in> set appLeaves \<and> visible st c chain)"

definition pageFor :: "elem list \<Rightarrow> path \<Rightarrow> bool" where
  "pageFor es q = list_ex (\<lambda>x. fst x = q \<and> list_all (\<lambda>e. e \<in> set es \<or> isPage e) (snd x)) appLeaves"

lemma pageFor_leads:
  assumes "pageFor es q" and "\<forall>e \<in> set es. elemGuard st c e = ShowOutlet"
  shows "leadsTo st c q"
proof -
  from assms(1) obtain chain where "(q, chain) \<in> set appLeaves" "\<forall>e \<in> set chain. e \<in> set es \<or> isPage e"
    by (auto simp: pageFor_def list_ex_iff list_all_iff)
  moreover from this assms(2) have "\<forall>e \<in> set chain. elemGuard st c e = ShowOutlet" by auto
  ultimately show ?thesis unfolding leadsTo_def visible_def renderChain_passes by blast
qed

lemma portal_links:
  "\<forall>q \<in> set (map si_href coreSidebarItems @ [''/admin/vouchers'', ''/admin/subscriptions'', ''/admin/onboarding/router'']).
     pageFor [ProtectedRoute [''admin''], AdminLayout] q"
  "\<forall>q \<in> set (map si_href resellerSidebarItems). pageFor [ProtectedRoute [''reseller''], ResellerLayout] q"
  "\<forall>q \<in> set (map si_href customerNavItems). pageFor [ProtectedRoute [''customer''], CustomerLayout] q"
  "\<forall>q \<in> set (map si_href saSidebarItems). pageFor [SuperAdminRoute, SuperAdminLayout] q"
  "\<forall>q \<in> set [''/'', ''/login'', ''/register'']. pageFor [PublicLayout] q"
  by code_simp+

lemma linksOf_navItem: "q \<in> set (linksOf (navItem it)) \<Longrightarrow> q = si_href it"
  by (auto simp: navItem_def split: if_splits)

lemma adminSidebarItems_hrefs:
  "it \<in> set (adminSidebarItems s) \<Longrightarrow>
   si_href it \<in> set (map si_href coreSidebarItems @ [''/admin/vouchers'', ''/admin/subscriptions''])"
  by (auto simp: adminSidebarItems_def serviceSidebarItems_def slice_def dest: in_set_takeD in_set_dropD)

lemma frame_links:
  "q \<in> set (linksOf (adminLayoutView s f (Group []))) \<Longrightarrow>
     q \<in> set (map si_href coreSidebarItems @ [''/admin/vouchers'', ''/admin/subscriptions''])"
  "q \<in> set (linksOf (resellerLayoutView f (Group []))) \<Longrightarrow> q \<in> set (map si_href resellerSidebarItems)"
  "q \<in> set (linksOf (customerLayoutView pr (Group []))) \<Longrightarrow> q \<in> set (map si_href customerNavItems)"
  "q \<in> set (linksOf (superAdminLayoutView cf (Group []))) \<Longrightarrow> q \<in> set (map si_href saSidebarItems)"
  by (auto simp: adminLayoutView_def adminNavItems_def menuSheet_def themeSwitch_def resellerLayoutView_def resellerNavItems_def
      customerLayoutView_def guestBanner_def onlyIf_def superAdminLayoutView_def saNavItems_def
      split: option.splits if_splits dest!: linksOf_navItem adminSidebarItems_hrefs)

lemma widget_links:
  "q \<in> set (linksOf (Group (setupChecklist (checklistItems d) @ routerStatusWidget i ms ld))) \<Longrightarrow>
     q \<in> {''/admin/packages'', ''/admin/onboarding/router'', ''/admin/customers'', ''/admin/routers''}"
  by (auto simp: setupChecklist_def checklistItems_def checklistCard_def routerStatusWidget_def routerHealthRow_def onlyIf_def
      Let_def split: if_splits)

lemma public_links:
  "q \<in> set (linksOf (publicLayoutView loc year shown (Group []))) \<Longrightarrow>
     takeWhile (\<lambda>x. x \<noteq> CHR ''#'') q \<in> {[], ''/'', ''/login'', ''/register''}"
  by (auto simp: publicLayoutView_def publicNav_def publicFooter_def anchor_def onlyIf_def split: if_splits)

text \<open>The service entries of the admin's side bar.\<close>

lemma nav_states_exact:
  "serviceNavState (summariseRouters ms) (hasHotspotRouter (summariseRouters ms)) = NavDisabled
     \<longleftrightarrow> ms \<noteq> [] \<and> (\<forall>m \<in> set ms. resolveRouterServiceType m = Pppoe)"
  "serviceNavState (summariseRouters ms) (hasPPPoERouter (summariseRouters ms)) = NavDisabled
     \<longleftrightarrow> ms \<noteq> [] \<and> (\<forall>m \<in> set ms. resolveRouterServiceType m = Hotspot)"
proof -
  have flip: "t = Pppoe \<longleftrightarrow> t \<noteq> Hotspot" for t by (cases t) auto
  show "serviceNavState (summariseRouters ms) (hasHotspotRouter (summariseRouters ms)) = NavDisabled
     \<longleftrightarrow> ms \<noteq> [] \<and> (\<forall>m \<in> set ms. resolveRouterServiceType m = Pppoe)"
    by (auto simp: serviceNavState_def summarise_exact flip)
  show "serviceNavState (summariseRouters ms) (hasPPPoERouter (summariseRouters ms)) = NavDisabled
     \<longleftrightarrow> ms \<noteq> [] \<and> (\<forall>m \<in> set ms. resolveRouterServiceType m = Hotspot)"
    by (auto simp: serviceNavState_def summarise_exact flip)
qed

text \<open>The two copies of the navigation can show different themes; rendering the frame again settles both on the
  stored one.\<close>

lemma themes_disagree:
  "let f = fst (frame_step (fst (frame_step (frameStart st) OpenMenu)) ToggleTheme)
   in fr_menu f \<noteq> Some (fr_theme f) \<and> fr_menu (fst (frame_step f RenderAgain)) = Some (fr_theme f)
      \<and> fr_theme (fst (frame_step f RenderAgain)) = fr_theme f"
  by (cases "initialTheme (au_local st)")
     (simp_all add: frameStart_def setTheme_def otherTheme_def withLocal_def initialTheme_def themeName_def storage_simps Let_def)

text \<open>The error boundary hides what failed and recovers on request.\<close>

lemma boundary_recovers:
  "offers (boundaryView (getDerivedStateFromError m) v) a \<longleftrightarrow> a = TryAgain"
  "boundaryView boundaryReset v = map_view InChild v" "boundaryView boundary0 v = map_view InChild v"
  by (auto simp: boundaryView_def getDerivedStateFromError_def boundaryReset_def boundary0_def form_offers)

text \<open>Most pages pass a title that already names the product.\<close>

lemma title_doubled: "pageTitle ''Packages | Frixel Connect Admin'' = ''Packages | Frixel Connect Admin | Frixel Connect''"
  by (simp add: pageTitle_def)

lemma portal_closed:
  assumes "(p, chain) \<in> set appLeaves" and "au_user st = None"
    and "startsWith p ''/admin'' \<or> startsWith p ''/reseller'' \<or> startsWith p ''/customer''"
  shows "\<not> visible st c chain"
proof -
  from assms(1,3) admin_leaves reseller_leaves customer_leaves obtain roles where "ProtectedRoute roles \<in> set chain"
    by fastforce
  with assms(2) show ?thesis by (force simp: visible_def renderChain_passes protectedRoute_outlet)
qed

lemma console_closed:
  assumes "(p, chain) \<in> set appLeaves" and "superAdmin c = None"
    and "startsWith p ''/super-admin''" and "p \<noteq> ''/super-admin/login''"
  shows "\<not> visible st c chain"
proof -
  from assms(1,3,4) super_admin_leaves have "SuperAdminRoute \<in> set chain" by fastforce
  moreover from assms(2) have "elemGuard st c SuperAdminRoute \<noteq> ShowOutlet" by (simp add: superAdminRoute_def)
  ultimately show ?thesis unfolding visible_def renderChain_passes by blast
qed

section \<open>Properties\<close>

text \<open>C38: Navigation never leads astray: for a signed-in user, every link of the frame of his portal, and every
  link of the dashboard's checklist and router panel, is a page of the route table that he is shown; so is every
  link of the console's frame for whoever passes the console's guard, whether or not a tenant's user is signed in;
  and for every visitor, signed in or not, the links of the public frame lead to pages he is shown or stay on the
  page.\<close>

theorem layout_links_live:
  "(\<not> au_loading st \<and> au_user st = Some u \<longrightarrow>
      (hasRole u ''admin'' \<longrightarrow>
        (\<forall>q \<in> set (linksOf (adminLayoutView s f (Group []))). leadsTo st c q)
        \<and> (\<forall>q \<in> set (linksOf (Group (setupChecklist (checklistItems d) @ routerStatusWidget i ms ld))). leadsTo st c q))
      \<and> (hasRole u ''reseller'' \<longrightarrow> (\<forall>q \<in> set (linksOf (resellerLayoutView f (Group []))). leadsTo st c q))
      \<and> (hasRole u ''customer'' \<longrightarrow> (\<forall>q \<in> set (linksOf (customerLayoutView pr (Group []))). leadsTo st c q)))
    \<and> (superAdminRoute c = ShowOutlet \<longrightarrow> (\<forall>q \<in> set (linksOf (superAdminLayoutView cf (Group []))). leadsTo st' c q))
    \<and> (\<forall>q \<in> set (linksOf (publicLayoutView loc year shown (Group []))).
         takeWhile (\<lambda>x. x \<noteq> CHR ''#'') q = [] \<or> leadsTo visitor c' (takeWhile (\<lambda>x. x \<noteq> CHR ''#'') q))"
proof (intro conjI impI ballI)
  have passes: "elemGuard st c (ProtectedRoute [r]) = ShowOutlet" if "\<not> au_loading st \<and> au_user st = Some u" "hasRole u r" for r
    using that by (simp add: protectedRoute_outlet)
  note live = pageFor_leads
  fix q
  show "leadsTo st c q" if "\<not> au_loading st \<and> au_user st = Some u" "hasRole u ''admin''"
    "q \<in> set (linksOf (adminLayoutView s f (Group [])))"
    using frame_links(1) [OF that(3)] portal_links(1) passes [OF that(1,2)] by (intro live) auto
  show "leadsTo st c q" if "\<not> au_loading st \<and> au_user st = Some u" "hasRole u ''admin''"
    "q \<in> set (linksOf (Group (setupChecklist (checklistItems d) @ routerStatusWidget i ms ld)))"
    using widget_links [OF that(3)] portal_links(1) passes [OF that(1,2)]
    by (intro live [of "[ProtectedRoute [''admin''], AdminLayout]"]) (auto simp: coreSidebarItems_def)
  show "leadsTo st c q" if "\<not> au_loading st \<and> au_user st = Some u" "hasRole u ''reseller''"
    "q \<in> set (linksOf (resellerLayoutView f (Group [])))"
    using frame_links(2) [OF that(3)] portal_links(2) passes [OF that(1,2)] by (intro live) auto
  show "leadsTo st c q" if "\<not> au_loading st \<and> au_user st = Some u" "hasRole u ''customer''"
    "q \<in> set (linksOf (customerLayoutView pr (Group [])))"
    using frame_links(3) [OF that(3)] portal_links(3) passes [OF that(1,2)] by (intro live) auto
  show "leadsTo st' c q" if "superAdminRoute c = ShowOutlet" "q \<in> set (linksOf (superAdminLayoutView cf (Group [])))"
    using frame_links(4) [OF that(2)] portal_links(4) that(1) by (intro live) auto
  show "takeWhile (\<lambda>x. x \<noteq> CHR ''#'') q = [] \<or> leadsTo visitor c' (takeWhile (\<lambda>x. x \<noteq> CHR ''#'') q)"
    if "q \<in> set (linksOf (publicLayoutView loc year shown (Group [])))"
    using public_links [OF that] portal_links(5) live [of "[PublicLayout]" _ visitor c'] by auto
qed

theorem layout_links_live_witness:
  "''/admin/vouchers'' \<in> set (linksOf (adminLayoutView (summariseRouters []) (frameStart adminSession) (Group [])))
   \<and> leadsTo adminSession (saProviderStart []) ''/admin/vouchers''
   \<and> ''/login'' \<in> set (linksOf (publicLayoutView ''/login'' ''2026'' True (Group [])))
   \<and> leadsTo (providerStart []) (saProviderStart []) ''/login''"
proof -
  have link: "''/admin/vouchers'' \<in> set (linksOf (adminLayoutView (summariseRouters []) (frameStart adminSession) (Group [])))"
    by (simp add: adminLayoutView_def adminNavItems_def adminSidebarItems_def serviceSidebarItems_def serviceNavState_def
        summariseRouters_def navItem_def)
  have public: "''/login'' \<in> set (linksOf (publicLayoutView ''/login'' ''2026'' True (Group [])))"
    by (simp add: publicLayoutView_def publicNav_def publicFooter_def anchor_def onlyIf_def isLandingPage_def)
  note live = layout_links_live [where st = adminSession and u = "the (au_user adminSession)" and s = "summariseRouters []"
      and f = "frameStart adminSession" and c = "saProviderStart []" and loc = "''/login''" and year = "''2026''" and shown = True
      and visitor = "providerStart []" and c' = "saProviderStart []"]
  from live link have "leadsTo adminSession (saProviderStart []) ''/admin/vouchers''"
    by (simp add: hasRole_def adminSession_eq)
  moreover from live public have "takeWhile (\<lambda>x. x \<noteq> CHR ''#'') ''/login'' = []
      \<or> leadsTo (providerStart []) (saProviderStart []) (takeWhile (\<lambda>x. x \<noteq> CHR ''#'') ''/login'')" by blast
  then have "leadsTo (providerStart []) (saProviderStart []) ''/login''" by simp
  ultimately show ?thesis using link public by blast
qed

text \<open>C39: Signing out leaves the portals: after the sign-out of a frame no access token and no refresh token of any
  tenant is left in the browser's storage, and everything else in it stays; no page of the three portals is
  shown in any state of the console, and the browser goes to the login page, which is shown. Signing out of the
  console closes the console alike, removes its token and leaves every other key of the storage alone. (The
  impersonation token of a tab is in the session storage, which neither touches.)\<close>

theorem sign_out_leaves_portals:
  assumes "frame_step f LogoutClick = (f', effs)" and "saHandleLogout c = (c', ps)"
  shows "(\<forall>(p, chain) \<in> set appLeaves.
        startsWith p ''/admin'' \<or> startsWith p ''/reseller'' \<or> startsWith p ''/customer'' \<longrightarrow>
        \<not> visible (fr_auth f') d chain)
    \<and> last effs = NavigateTo ''/login'' \<and> leadsTo (fr_auth f') d ''/login''
    \<and> getToken (au_local (fr_auth f')) = None \<and> getRefreshToken (au_local (fr_auth f')) = None
    \<and> (\<forall>tid. getItem (au_local (fr_auth f')) (TOKEN_KEY tid) = None \<and> getItem (au_local (fr_auth f')) (REFRESH_KEY tid) = None)
    \<and> (\<forall>k. getItem (au_local (fr_auth f')) k = (if session_key k then None else getItem (au_local (fr_auth f)) k))
    \<and> (\<forall>(p, chain) \<in> set appLeaves.
        startsWith p ''/super-admin'' \<and> p \<noteq> ''/super-admin/login'' \<longrightarrow> \<not> visible st c' chain)
    \<and> last ps = ''/super-admin/login'' \<and> leadsTo st c' ''/super-admin/login''
    \<and> (\<forall>k. getItem (sa_local c') k = (if k = SUPER_ADMIN_TOKEN_KEY then None else getItem (sa_local c) k))"
proof -
  have f': "fr_auth f' = fst (logout (fr_auth f))" "last effs = NavigateTo ''/login''"
    using assms(1) by (auto simp: handleLogout_def split: prod.splits)
  have c': "superAdmin c' = None" "last ps = ''/super-admin/login''"
      "sa_local c' = clearSuperAdminToken (sa_local c)"
    using assms(2) by (auto simp: saHandleLogout_def saLogout_def)
  note out = logout_complete [of "fr_auth f", folded f', unfolded Let_def case_prod_beta]
  have "leadsTo (fr_auth f') d ''/login''"
    using portal_links(5) by (intro pageFor_leads [of "[PublicLayout]"]) auto
  moreover have "leadsTo st c' ''/super-admin/login''"
    unfolding leadsTo_def by (rule exI, rule conjI, rule landing_leaves(5)) (simp add: visible_def renderChain_passes)
  moreover have "getItem (sa_local c') k = (if k = SUPER_ADMIN_TOKEN_KEY then None else getItem (sa_local c) k)" for k
    by (simp add: c' clearSuperAdminToken_def storage_simps)
  ultimately show ?thesis
    using portal_closed [of _ _ "fr_auth f'" d] console_closed [of _ _ c' st] out f' c'(1,2) by (auto simp del: frame_step.simps)
qed

theorem sign_out_leaves_portals_witness:
  "let (f', effs) = frame_step (frameStart adminSession) LogoutClick in
     au_user adminSession \<noteq> None \<and> getToken (au_local adminSession) \<noteq> None
     \<and> \<not> visible (fr_auth f') (saProviderStart []) [ProtectedRoute [''admin''], AdminLayout, Page ''AdminDashboard'']
     \<and> leadsTo (fr_auth f') (saProviderStart []) ''/login''
     \<and> getItem (au_local (fr_auth f')) (REFRESH_KEY ''t1'') = None"
proof -
  obtain f' effs where f': "frame_step (frameStart adminSession) LogoutClick = (f', effs)" by fastforce
  obtain c' ps where c': "saHandleLogout (saProviderStart []) = (c', ps)" by fastforce
  have token: "getToken (au_local adminSession) \<noteq> None"
    by (simp add: adminSession_def initAuth_def providerStart_def decode_sampleToken Let_def)
  note left = sign_out_leaves_portals [OF f' c', of "saProviderStart []"]
  from left landing_leaves(2) have "\<not> visible (fr_auth f') (saProviderStart []) [ProtectedRoute [''admin''], AdminLayout, Page ''AdminDashboard'']"
    by (force simp: startsWith_def)
  with left token show ?thesis by (simp add: f' adminSession_eq del: frame_step.simps)
qed

end
