(* ===== verification/Landing_Page.thy ===== *)
theory Landing_Page
  imports Layouts Signup
begin

text \<open>
  The landing page (\<open>pages/public/LandingPage.tsx\<close>): its menu, its sections with the elements that a button
  can scroll to, the plans with their prices, and the data it publishes for search engines. What the
  page shows is compared with the sign-up page its links open.
\<close>

section \<open>State\<close>

record landing =
  ld_scrolled :: bool
  ld_mobileMenuOpen :: bool

definition landing0 :: landing where
  "landing0 = \<lparr>ld_scrolled = False, ld_mobileMenuOpen = False\<rparr>"

datatype landing_action =
    Scrolled int
  | GoSection string
  | GoSectionInMenu string
  | SetMenu bool
  | FollowMenuLink path

datatype landing_out = ScrollIntoView string

section \<open>Content\<close>

text \<open>A part of the page: the \<open>id\<close>s of its elements, and what it shows.\<close>

type_synonym part = "string list \<times> landing_action view list"

definition jsonLdData :: json where
  "jsonLdData =
     JObj [(''@context'', JStr ''https://schema.org''),
       (''@graph'', JArr
         [JObj [(''@type'', JStr ''Organization''), (''name'', JStr ''Frixel Connect''), (''url'', JStr ''https://Frixel Connect.dev''),
            (''address'', JObj [(''@type'', JStr ''PostalAddress''), (''addressLocality'', JStr ''Nairobi''),
                                (''addressCountry'', JStr ''KE'')])],
          JObj [(''@type'', JStr ''SoftwareApplication''), (''name'', JStr ''Frixel Connect''),
            (''applicationCategory'', JStr ''BusinessApplication''), (''operatingSystem'', JStr ''Web''),
            (''offers'', JArr
              [JObj [(''@type'', JStr ''Offer''), (''price'', JStr ''1500''), (''priceCurrency'', JStr ''KES''), (''name'', JStr ''Starter'')],
               JObj [(''@type'', JStr ''Offer''), (''price'', JStr ''2500''), (''priceCurrency'', JStr ''KES''), (''name'', JStr ''Growth'')]])]])]"

definition landingNav :: "bool \<Rightarrow> landing_action view list" where
  "landingNav menuShown =
     [Link ''/'' [Txt ''Frixel Connect''], Btn False [Txt ''Hotspot''] (GoSection ''hotspot''),
      Btn False [Txt ''Fiber''] (GoSection ''fiber''), Btn False [Txt ''Pricing''] (GoSection ''pricing''),
      Link ''/login'' [Txt ''Sign In''], Link ''/signup'' [Txt ''Start Free Trial''], Btn False [] (SetMenu True)]
     @ onlyIf menuShown
         [Btn False [] (SetMenu False), Txt ''Frixel Connect'', Btn False [Txt ''Hotspot''] (GoSectionInMenu ''hotspot''),
          Btn False [Txt ''Fiber''] (GoSectionInMenu ''fiber''), Btn False [Txt ''Pricing''] (GoSectionInMenu ''pricing''),
          Link ''/login'' [Txt ''Sign In''], Link ''/signup'' [Txt ''Start Free Trial'']]"

definition hero :: part where
  "hero =
     ([],
      [Txt ''Now supporting Hotspot + Fiber PPPoE'', Txt ''WiFi Billing Software Built for Kenyan ISPs'',
       Txt ''From M-Pesa payment to internet access in under 60 seconds. Automate your hotspot vouchers and fiber subscriptions-no manual Winbox, no Excel sheets, no midnight calls.'',
       Link ''/signup'' [Txt ''Start Free Trial''], Btn False [Txt ''See It Live''] (GoSection ''demo''),
       Txt ''Frixel Connect WiFi'', Txt ''Pay KES 100'',
       Txt (''M-Pesa '' @ arrow @ '' Voucher '' @ arrow @ '' Online''), Txt ''MikroTik'',
       Txt ''No percentage cuts on your revenue'', Txt ''Works with your existing MikroTik'', Txt ''Free 30-day pilot''])"

definition theProblem :: part where
  "theProblem =
     ([''the-problem''],
      [Txt ''Sound familiar?'', Txt ''Running an ISP in Kenya shouldn't feel like this'', Txt ''Midnight M-Pesa alerts'',
       Txt ''You wake up to 20 payment notifications and customers whose internet expired at 2 AM.'',
       Txt ''3 hours in Winbox every day'',
       Txt ''Manually enabling PPPoE secrets and generating hotspot vouchers instead of growing your business.'',
       Txt ''Resellers calling for vouchers'',
       Txt ''Your agents in Kasarani, Eastlands, and Kibera can't operate without calling you first.''])"

text \<open>The two cards of services, each a target of its own inside the section.\<close>

record service_card =
  sc_id :: string
  sc_badge :: string
  sc_title :: string
  sc_about :: string
  sc_how :: "string list"
  sc_features :: "string list"
  sc_href :: path
  sc_action :: string

definition hotspotCard :: service_card where
  "hotspotCard = \<lparr>sc_id = ''hotspot'', sc_badge = ''Hotspot'', sc_title = ''Public WiFi & Captive Portal'',
     sc_about = ''For ISPs selling session-based WiFi access in estates, malls, matatus, cyber caf'' @ [CHR 0xC3, CHR 0xA9]
       @ ''s, hotels, and student hostels. Customers pay per session-daily, weekly, or custom.'',
     sc_how = [''Customer joins your WiFi and opens any website'',
       ''They see your Frixel Connect captive portal-select a plan and pay via M-Pesa STK Push'',
       ''Voucher activates instantly. Internet access starts.''],
     sc_features = [''M-Pesa STK Push-no manual payment collection'', ''MikroTik hotspot user created automatically'',
       ''Voucher code sent via SMS (Africa's Talking)'', ''Reseller wallet-agents sell autonomously'',
       ''Speed tiers: 10 / 20 / 50 Mbps profiles''],
     sc_href = ''/signup?service=hotspot'', sc_action = ''Set up hotspot billing''\<rparr>"

definition fiberCard :: service_card where
  "fiberCard = \<lparr>sc_id = ''fiber'', sc_badge = ''Fiber / PPPoE'', sc_title = ''Home Fiber & CPE Broadband'',
     sc_about = ''For ISPs providing fixed home internet via fiber, wireless CPE, or LTE routers. Monthly subscriptions with automated renewal reminders and instant suspension on non-payment.'',
     sc_how = [''Customer subscribes to a monthly package'', ''Auto-renewal reminder sent 3 days before expiry via SMS'',
       ''Payment received via M-Pesa-PPPoE secret re-enabled instantly. Customer never loses service mid-month.''],
     sc_features = [''Monthly recurring billing via M-Pesa'', ''PPPoE secret management (enable/disable on MikroTik)'',
       ''Grace period-customer gets 24h before suspension'', ''SMS dunning: T-3 days, T-1 day, and suspension notice'',
       ''Auto-renewal with configurable billing cycle''],
     sc_href = ''/signup?service=pppoe'', sc_action = ''Set up fiber billing''\<rparr>"

definition serviceCardView :: "service_card \<Rightarrow> landing_action view" where
  "serviceCardView c = Group
     ([Txt (sc_badge c), Txt (sc_title c), Txt (sc_about c), Txt ''How it works'']
      @ concat (map2 (\<lambda>n h. [Txt n, Txt h]) [''1.'', ''2.'', ''3.''] (sc_how c))
      @ [Txt ''Key features''] @ map Txt (sc_features c) @ [Link (sc_href c) [Txt (sc_action c)]])"

definition services :: part where
  "services =
     ([''services'', sc_id hotspotCard, sc_id fiberCard],
      [Txt ''What Frixel Connect supports'', Txt ''One platform for both types of Kenyan ISP'',
       serviceCardView hotspotCard, serviceCardView fiberCard])"

definition setupPart :: part where
  "setupPart =
     ([''setup''],
      [Txt ''Setup in 60 seconds'', Txt ''Your MikroTik configures itself'',
       Txt ''No SSH sessions. No Winbox navigation. No calling a technician. One command in the MikroTik terminal and Frixel Connect does the rest.'',
       Txt ''Generate your setup command'',
       Txt ''Sign up, enter your router name, and Frixel Connect generates a unique one-line command just for your router.'',
       Txt ''Paste it into your MikroTik terminal'',
       Txt ''Open Winbox Terminal, WebFig, or SSH. Paste the command. Press Enter. Walk away.'',
       Txt (''/tool fetch url='' @ [CHR 0x22] @ ''https://api.Frixel Connect.dev/api/v1/setup/TOKEN'' @ [CHR 0x22, CHR '' '', CHR 0x5C]),
       Txt ([CHR 0xC2, CHR 0xA0, CHR 0xC2, CHR 0xA0] @ ''dst-path=Frixel Connect-setup.rsc mode=https; /import Frixel Connect-setup.rsc''),
       Txt ''Dashboard updates automatically'',
       Txt ''Frixel Connect detects when your router is ready. No manual confirmation needed. Your dashboard shows the router as Online within 30 seconds.'',
       Txt ''The setup command configures WireGuard VPN, creates the API user, sets up speed profiles, and removes itself-all without storing credentials on the router.''])"

definition featureTable :: "(string \<times> string) list" where
  "featureTable =
     [(''Duplicate payment protection'', ''M-Pesa receipt unique constraint at database level. Daraja retry storms never double-credit a customer.''),
      (''MikroTik RouterOS integration'', ''Full REST API integration for hotspot users and PPPoE secrets. Works with CHR, physical RouterBOARDs, and CCRs.''),
      (''Offline router recovery'', ''Payment queued when your router blinks offline. Voucher activates automatically when connectivity restores.''),
      (''Reseller self-service portal'', ''Resellers top up a digital wallet via M-Pesa Paybill and generate vouchers 24/7-no calls to you needed.''),
      (''Real-time admin dashboard'', ''Revenue today, active sessions, vouchers, and router health-visible on your phone from anywhere.''),
      (''SMS via Africa's Talking'', ''Voucher codes, renewal reminders, and suspension notices delivered to your customers automatically.''),
      (''WireGuard VPN security'', ''Your router's REST API is never exposed to the internet. All Frixel Connect traffic goes through an encrypted VPN tunnel.''),
      (''KRA eTIMS compliant invoices'', ''Every payment generates a tax-compliant invoice with a KRA QR code. Automatic compliance for registered businesses.'')]"

definition features :: part where
  "features =
     ([''features''],
      [Txt ''What's included'', Txt ''Everything your ISP needs in one platform'']
      @ map (\<lambda>(title, desc). Group [Txt title, Txt desc]) featureTable)"

text \<open>A row of the sample table: name, phone, amount, package and the colour code.\<close>

definition demoRow :: "string \<times> string \<times> string \<times> string \<times> string \<Rightarrow> landing_action view" where
  "demoRow r =
     (case r of (name, phone, amount, pkg, code) \<Rightarrow>
        Group [Txt name, Txt phone, Txt amount, Txt pkg,
          Txt (if code = ''green'' then [CHR 0xE2, CHR 0x9C, CHR 0x85] @ '' Confirmed''
               else [CHR 0xF0, CHR 0x9F, CHR 0x9F, CHR 0xA1] @ '' Pending'')])"

definition demo :: part where
  "demo =
     ([''demo''],
      [Txt ''The dashboard'', Txt ''See your entire ISP business at a glance'', Txt ''Frixel Connect Admin'']
      @ map Txt [''Dashboard'', ''Customers'', ''Payments'', ''Vouchers'', ''Routers'']
      @ [Txt ''Overview'', Txt ''Live data'']
      @ map (\<lambda>(label, val). Group [Txt label, Txt val])
          [(''Revenue Today'', ''KES 4,500''), (''Active Sessions'', ''142''), (''Total Customers'', ''890''), (''Active Vouchers'', ''356'')]
      @ [Txt ''Recent Payments''] @ map Txt [''Customer'', ''Phone'', ''Amount'', ''Package'', ''Status'']
      @ map demoRow
          [(''Mwangi J.'', ''0712 345 678'', ''KES 300'', ''Daily 10Mbps'', ''green''),
           (''Akinyi C.'', ''0722 456 789'', ''KES 1,500'', ''Monthly Fiber'', ''green''),
           (''Otieno P.'', ''0733 567 890'', ''KES 50'', ''Daily 10Mbps'', ''yellow''),
           (''Hassan A.'', ''0700 678 901'', ''KES 300'', ''Weekly 20Mbps'', ''green''),
           (''Wanjiku M.'', ''0711 789 012'', ''KES 1,500'', ''Monthly Fiber'', ''green'')])"

text \<open>The plans.\<close>

record plan_card =
  pc_name :: string
  pc_price :: string
  pc_features :: "string list"
  pc_href :: path

definition planCards :: "plan_card list" where
  "planCards =
     [\<lparr>pc_name = ''Starter'', pc_price = ''KES 1,500'',
       pc_features = [''Up to 100 customers'', ''1 router'', ''Hotspot billing'', ''M-Pesa STK Push'',
         ''Africa's Talking SMS (500 messages/mo)'', ''Admin dashboard'', ''WhatsApp support''],
       pc_href = ''/signup?tier=starter''\<rparr>,
      \<lparr>pc_name = ''Growth'', pc_price = ''KES 2,500'',
       pc_features = [''Up to 300 customers'', ''3 routers'', ''Hotspot + PPPoE billing'', ''Everything in Starter'',
         ''Reseller portal + wallet'', ''KRA eTIMS invoices'', ''Priority support''],
       pc_href = ''/signup?tier=growth''\<rparr>,
      \<lparr>pc_name = ''Scale'', pc_price = ''KES 4,000'',
       pc_features = [''Up to 700 customers'', ''10 routers'', ''Everything in Growth'', ''Multi-site management'',
         ''Analytics and revenue reports'', ''Dedicated onboarding call''],
       pc_href = ''/signup?tier=scale''\<rparr>,
      \<lparr>pc_name = ''Enterprise'', pc_price = ''KES 6,000'',
       pc_features = [''Unlimited customers'', ''50 routers'', ''Everything in Scale'', ''Custom SMS sender ID'', ''API access'',
         ''SLA guarantee''],
       pc_href = ''/signup?tier=enterprise''\<rparr>]"

definition planCardView :: "plan_card \<Rightarrow> landing_action view" where
  "planCardView c = Group
     (onlyIf (pc_name c = ''Growth'') [Txt ''Most Popular''] @ [Txt (pc_name c), Txt (pc_price c), Txt ''/mo'']
      @ map Txt (pc_features c) @ [Link (pc_href c) [Txt ''Start free trial'']])"

definition pricing :: part where
  "pricing =
     ([''pricing''],
      [Txt ''Pricing'', Txt ''Simple flat-rate pricing. No percentage cuts.'',
       Txt ''Unlike other systems that take 3-5% of your hotspot revenue, Frixel Connect charges a flat monthly fee-so the more you earn, the more you keep.'']
      @ map planCardView planCards
      @ [Txt ''All plans include a free 30-day pilot. No credit card required. Cancel anytime.''])"

definition landingFooter :: part where
  "landingFooter =
     ([],
      [Txt ''Ready to stop managing billing manually?'', Txt ''Join Kenyan ISPs who automated their operations with Frixel Connect.'',
       Link ''/signup'' [Txt ''Start Free Trial''], Link ''https://wa.me/+254XXXXXXXXX'' [Txt ''Chat on WhatsApp''],
       Link ''/'' [Txt ''Frixel Connect''], Txt ''WiFi billing for Kenyan ISPs'', Txt ''Product'',
       Btn False [Txt ''Hotspot Billing''] (GoSection ''hotspot''), Btn False [Txt ''Fiber Billing''] (GoSection ''fiber''),
       Btn False [Txt ''Pricing''] (GoSection ''pricing''), Btn False [Txt ''Features''] (GoSection ''features''), Txt ''Resources'',
       Link ''#'' [Txt ''Documentation''], Link ''#'' [Txt ''Setup Guide''], Link ''#'' [Txt ''API Reference''], Txt ''Company'',
       Link ''#'' [Txt ''About''], Link ''#'' [Txt ''Contact''], Link ''#'' [Txt ''Privacy Policy''],
       Txt ([CHR 0xC2, CHR 0xA9] @ '' 2026 Frixel Labs. Made in Nairobi, Kenya.''),
       Link ''#'' [Txt ''GitHub''], Link ''#'' [Txt ''LinkedIn''], Link ''#'' [Txt ''Twitter'']])"

definition landingParts :: "part list" where
  "landingParts = [hero, theProblem, services, setupPart, features, demo, pricing, landingFooter]"

section \<open>Operations\<close>

text \<open>\<open>document.getElementById\<close> over the page, with the gradient of the drawing, which has an \<open>id\<close> too.\<close>

definition elementIds :: "string list" where
  "elementIds = ''glow'' # concat (map fst landingParts)"

definition scrollToSection :: "string \<Rightarrow> landing_out list" where
  "scrollToSection i = (if i \<in> set elementIds then [ScrollIntoView i] else [])"

fun landing_step :: "landing \<Rightarrow> landing_action \<Rightarrow> landing \<times> landing_out list" where
  "landing_step p (Scrolled y) = (p\<lparr>ld_scrolled := 20 < y\<rparr>, [])"
| "landing_step p (GoSection i) = (p, scrollToSection i)"
| "landing_step p (GoSectionInMenu i) = (p\<lparr>ld_mobileMenuOpen := False\<rparr>, scrollToSection i)"
| "landing_step p (SetMenu b) = (p\<lparr>ld_mobileMenuOpen := b\<rparr>, [])"
| "landing_step p (FollowMenuLink q) = (p\<lparr>ld_mobileMenuOpen := False\<rparr>, [])"

definition landingView :: "landing \<Rightarrow> landing_action view" where
  "landingView p = Group (landingNav (ld_mobileMenuOpen p) @ concat (map snd landingParts))"

text \<open>\<open>URLSearchParams.get\<close> on the address a link opens, for values without escapes.\<close>

definition searchParamOf :: "path \<Rightarrow> string \<Rightarrow> string option" where
  "searchParamOf q k =
     map_of (map (\<lambda>s. (takeWhile (\<lambda>x. x \<noteq> CHR ''='') s, drop 1 (dropWhile (\<lambda>x. x \<noteq> CHR ''='') s)))
              (splitOn (CHR ''&'') (drop 1 (dropWhile (\<lambda>x. x \<noteq> CHR ''?'') q)))) k"

definition pathOf :: "path \<Rightarrow> path" where
  "pathOf q = takeWhile (\<lambda>x. x \<noteq> CHR ''?'' \<and> x \<noteq> CHR ''#'') q"

definition opensSignup :: "path \<Rightarrow> auth_state \<Rightarrow> signup_page" where
  "opensSignup q st = signupStart (searchParamOf q ''tier'') (searchParamOf q ''service'') st"

section \<open>Lemmas\<close>

text \<open>The target of a button of the page.\<close>

fun scrollTarget :: "landing_action \<Rightarrow> string option" where
  "scrollTarget (GoSection i) = Some i"
| "scrollTarget (GoSectionInMenu i) = Some i"
| "scrollTarget _ = None"

lemma landing_targets:
  "\<forall>b \<in> {True, False}. \<forall>(d, a) \<in> set (buttons (Group (landingNav b @ concat (map snd landingParts)) :: landing_action view)).
     list_all (\<lambda>i. i \<in> set elementIds) (case scrollTarget a of None \<Rightarrow> [] | Some i \<Rightarrow> [i])"
  by code_simp

lemma landing_hrefs:
  "\<forall>b \<in> {True, False}. \<forall>q \<in> set (linksOf (Group (landingNav b @ concat (map snd landingParts)) :: landing_action view)).
     q = ''#'' \<or> q = ''https://wa.me/+254XXXXXXXXX'' \<or> pageFor [PublicLayout] (pathOf q)"
  by code_simp

lemma plans_match:
  "map (\<lambda>card. (the (searchParamOf (pc_href card) ''tier''), pc_price card @ ''/mo'', pc_features card ! 0, pc_features card ! 1)) planCards
     = map (\<lambda>t. (t, tierDetails t)) subscriptionTiers"
  by code_simp

text \<open>The offers that the published data names, with their prices.\<close>

fun offerOf :: "json \<Rightarrow> (string \<times> string) option" where
  "offerOf (JObj kvs) =
     (case (map_of kvs ''name'', map_of kvs ''price'') of (Some (JStr n), Some (JStr p)) \<Rightarrow> Some (n, p) | _ \<Rightarrow> None)"
| "offerOf _ = None"

fun publishedOffers :: "json \<Rightarrow> (string \<times> string) option list" where
  "publishedOffers (JObj [c, (g, JArr [org, JObj app])]) =
     (case map_of app ''offers'' of Some (JArr os) \<Rightarrow> map offerOf os | _ \<Rightarrow> [])"
| "publishedOffers _ = []"

lemma published_offers:
  "publishedOffers jsonLdData = map (\<lambda>card. Some (pc_name card, filter is_digit (pc_price card))) (take 2 planCards)"
  by code_simp

lemma landing_signup:
  "list_all2 (\<lambda>t card. searchParamOf (pc_href card) ''tier'' = Some t \<and> fst (tierDetails t) = pc_price card @ ''/mo''
       \<and> fst (snd (tierDetails t)) \<in> set (pc_features card) \<and> snd (snd (tierDetails t)) \<in> set (pc_features card))
     subscriptionTiers planCards"
  "searchParamOf (sc_href hotspotCard) ''service'' = Some ''hotspot''"
  "searchParamOf (sc_href fiberCard) ''service'' = Some ''pppoe''"
  by code_simp+

lemma landing_scrolls:
  assumes "offers (landingView p) a" and "scrollTarget a = Some i"
  shows "snd (landing_step p a) = [ScrollIntoView i]"
proof -
  have "inputs (landingView p) = []"
  proof -
    have "\<forall>b \<in> {True, False}. list_all (\<lambda>v. inputs v = []) (landingNav b @ concat (map snd landingParts))" by code_simp
    then show ?thesis by (cases "ld_mobileMenuOpen p") (auto simp: landingView_def list_all_iff)
  qed
  with assms(1) have "(False, a) \<in> set (buttons (landingView p))" by (auto simp: offers_def typable_def clickable_def)
  with landing_targets assms(2) have "i \<in> set elementIds"
    unfolding landingView_def by (cases "ld_mobileMenuOpen p") fastforce+
  with assms(2) show ?thesis by (cases a) (auto simp: scrollToSection_def)
qed

section \<open>Properties\<close>

text \<open>C40: The landing page and the sign-up form agree: every button that names a section scrolls to it; every link
  leads to a page that anybody is shown, apart from the placeholders \<open>#\<close> and the WhatsApp address; the
  link of the card of a plan opens the sign-up form with that plan chosen, and the form shows the price, the
  customers and the routers of the card, for every plan the form knows; the cards of the two services open it
  with their service; and the offers published for search engines are plans of the page at their prices. (What
  the service charges is not part of it.)\<close>

theorem landing_agrees_with_signup:
  "(\<forall>a i. offers (landingView p) a \<and> scrollTarget a = Some i \<longrightarrow> snd (landing_step p a) = [ScrollIntoView i])
   \<and> (\<forall>q \<in> set (linksOf (landingView p)). q = ''#'' \<or> q = ''https://wa.me/+254XXXXXXXXX'' \<or> leadsTo st c (pathOf q))
   \<and> list_all2 (\<lambda>t card. pc_href card \<in> set (linksOf (landingView p))
         \<and> su_subscription_tier (sg_form (opensSignup (pc_href card) auth)) = t
         \<and> fst (tierDetails t) = pc_price card @ ''/mo''
         \<and> fst (snd (tierDetails t)) \<in> set (pc_features card) \<and> snd (snd (tierDetails t)) \<in> set (pc_features card))
       subscriptionTiers planCards
   \<and> su_service_type (sg_form (opensSignup (sc_href hotspotCard) auth)) = Hotspot
   \<and> su_service_type (sg_form (opensSignup (sc_href fiberCard) auth)) = Pppoe
   \<and> publishedOffers jsonLdData = map (\<lambda>card. Some (pc_name card, filter is_digit (pc_price card))) (take 2 planCards)"
proof (intro conjI allI ballI impI)
  show "snd (landing_step p a) = [ScrollIntoView i]" if "offers (landingView p) a \<and> scrollTarget a = Some i" for a i
    using that landing_scrolls by blast
  show "q = ''#'' \<or> q = ''https://wa.me/+254XXXXXXXXX'' \<or> leadsTo st c (pathOf q)" if "q \<in> set (linksOf (landingView p))" for q
    using that landing_hrefs pageFor_leads [of "[PublicLayout]" "pathOf q" st c]
    unfolding landingView_def by (cases "ld_mobileMenuOpen p") fastforce+
  have shown: "pc_href card \<in> set (linksOf (landingView p))" if "card \<in> set planCards" for card
    using that by (auto simp: landingView_def landingParts_def pricing_def planCardView_def)
  have tier: "defaultTier (Some t) = t" if "t \<in> set subscriptionTiers" for t
    using that by (simp add: defaultTier_def)
  show "list_all2 (\<lambda>t card. pc_href card \<in> set (linksOf (landingView p))
         \<and> su_subscription_tier (sg_form (opensSignup (pc_href card) auth)) = t
         \<and> fst (tierDetails t) = pc_price card @ ''/mo''
         \<and> fst (snd (tierDetails t)) \<in> set (pc_features card) \<and> snd (snd (tierDetails t)) \<in> set (pc_features card))
       subscriptionTiers planCards"
    by (rule list.rel_mono_strong [OF landing_signup(1)]) (simp add: opensSignup_def signupStart_def shown tier)
qed (simp_all add: opensSignup_def signupStart_def defaultService_def landing_signup published_offers)

theorem landing_agrees_with_signup_witness:
  "offers (landingView landing0) (GoSection ''demo'') \<and> snd (landing_step landing0 (GoSection ''demo'')) = [ScrollIntoView ''demo'']
   \<and> su_service_type (sg_form (opensSignup (sc_href fiberCard) adminSession)) = Pppoe"
proof -
  have "offers (landingView landing0) (GoSection ''demo'')"
    by (simp add: landingView_def landingParts_def hero_def offers_simps)
  moreover note kept = landing_agrees_with_signup [of landing0 adminSession "saProviderStart []" adminSession]
  from kept have "\<forall>a i. offers (landingView landing0) a \<and> scrollTarget a = Some i \<longrightarrow>
      snd (landing_step landing0 a) = [ScrollIntoView i]" by (rule conjunct1)
  ultimately have "snd (landing_step landing0 (GoSection ''demo'')) = [ScrollIntoView ''demo'']"
    by (metis scrollTarget.simps(1))
  with \<open>offers (landingView landing0) (GoSection ''demo'')\<close> kept show ?thesis by blast
qed

end
