(* ===== verification/Captive_Journey.thy ===== *)
theory Captive_Journey
  imports Captive_Portal
begin

text \<open>
  The captive portal as a whole: the buy flow, the waiting screen and the login screen of
  \<open>CaptivePortalPage.tsx\<close>, run together under what they offer. A visitor of the WiFi who pays gets online.
\<close>

section \<open>The captive portal as a whole\<close>

datatype captive_out = BuyOut buy_out | PollOut polling_out | LoginOut redirect_out

definition captive_outs :: "captive \<Rightarrow> captive_action \<Rightarrow> captive_out list" where
  "captive_outs c a =
     (case a of
        BuyAct x \<Rightarrow> map BuyOut (snd (buy_step (cp_buy c) x))
      | PollAct x \<Rightarrow> (case cp_polling c of None \<Rightarrow> [] | Some q \<Rightarrow> map PollOut (snd (polling_step q x)))
      | LoginAct x \<Rightarrow> (case cp_redirect c of None \<Rightarrow> [] | Some r \<Rightarrow> map LoginOut (snd (redirect_step r x))))"

definition captive_act :: "int \<Rightarrow> captive \<Rightarrow> captive_action \<Rightarrow> captive \<times> captive_out list" where
  "captive_act now c a = (captive_step now c a, captive_outs c a)"

text \<open>A confirmation comes from the waiting screen, which hands it up.\<close>

fun from_waiting :: "buy_action \<Rightarrow> bool" where
  "from_waiting (PaymentConfirmed code) = True"
| "from_waiting _ = False"

fun captive_ok :: "(int \<Rightarrow> string) \<Rightarrow> string option \<Rightarrow> captive \<Rightarrow> captive_action \<Rightarrow> bool" where
  "captive_ok fmt paybill c (BuyAct a) =
     (captiveScreen c \<in> {BuyScreen, PollingScreen} \<and> buy_ok fmt (cp_buy c) a \<and> \<not> from_waiting a)"
| "captive_ok fmt paybill c (PollAct a) =
     (captiveScreen c = PollingScreen \<and> (case cp_polling c of None \<Rightarrow> False | Some q \<Rightarrow> polling_ok paybill q a))"
| "captive_ok fmt paybill c (LoginAct a) =
     (captiveScreen c = LoginScreen \<and> (case cp_redirect c of None \<Rightarrow> False | Some r \<Rightarrow> redirect_ok r a))"

section \<open>Waiting for the payment\<close>

lemma handUp_silent: "\<forall>x \<in> set outs. \<forall>c. x \<noteq> OnConfirmed c \<Longrightarrow> handUp outs b = (b, [])"
proof -
  have "\<forall>x \<in> set outs. \<forall>c. x \<noteq> OnConfirmed c \<Longrightarrow>
    fold (\<lambda>x (b, os). case x of OnConfirmed code \<Rightarrow> (let (b', os') = buy_step b (PaymentConfirmed code) in (b', os @ os'))
             | _ \<Rightarrow> (b, os)) outs (b, os) = (b, os)" for os
    by (induction outs) (auto split: polling_out.splits)
  then show "\<forall>x \<in> set outs. \<forall>c. x \<noteq> OnConfirmed c \<Longrightarrow> ?thesis" by (simp add: handUp_def)
qed

text \<open>A page that waits for its payment: nothing is on its way, and no final answer has come.\<close>

definition inCheck :: "captive \<Rightarrow> bool" where
  "inCheck c \<longleftrightarrow> (case cp_polling c of None \<Rightarrow> False | Some q \<Rightarrow> pl_fetching (pp_query q))"

definition awaits :: "string \<Rightarrow> string \<Rightarrow> captive \<Rightarrow> bool" where
  "awaits pid link c \<longleftrightarrow> captiveScreen c = PollingScreen \<and> cp_voucherCode c = None \<and> cp_redirect c = None
     \<and> cp_linkLogin c = link \<and> \<not> by_stkPending (cp_buy c) \<and> \<not> by_trialLoading (cp_buy c) \<and> by_due (cp_buy c) = []
     \<and> (\<exists>q. cp_polling c = Some q \<and> pp_due q = [] \<and> pp_paymentId q = pid
           \<and> (\<forall>d. pl_data (pp_query q) = Some d \<longrightarrow> \<not> paymentFinal d))"

text \<open>What can happen meanwhile: anything but a final answer, a new list of packages, or leaving the page.\<close>

fun unsettled :: "captive_action \<Rightarrow> bool" where
  "unsettled (BuyAct (PackagesLoaded ps)) = False"
| "unsettled (PollAct (Query (PollAnswer d))) = (\<not> paymentFinal d)"
| "unsettled (PollAct ReloadClick) = False"
| "unsettled _ = True"

lemma confirmEffect_pending:
  "\<forall>d. pl_data (pp_query q) = Some d \<longrightarrow> \<not> paymentFinal d \<Longrightarrow> confirmEffect q = q"
  by (auto simp: confirmEffect_def paymentFinal_def split: option.splits)

lemma waiting_polls:
  assumes "polling_ok paybill q a" "unsettled (PollAct a)" "pp_due q = []"
    "\<forall>d. pl_data (pp_query q) = Some d \<longrightarrow> \<not> paymentFinal d"
  shows "pp_due (fst (polling_step q a)) = [] \<and> pp_paymentId (fst (polling_step q a)) = pp_paymentId q
    \<and> (\<forall>d. pl_data (pp_query (fst (polling_step q a))) = Some d \<longrightarrow> \<not> paymentFinal d)
    \<and> (\<forall>x \<in> set (snd (polling_step q a)). x = GetStatus (statusUrl (pp_paymentId q)))"
proof (cases a)
  case (Query e)
  have "confirmEffect (q\<lparr>pp_query := fst (poll_step (pp_query q) e)\<rparr>) = q\<lparr>pp_query := fst (poll_step (pp_query q) e)\<rparr>"
    using Query assms(2,4) by (intro confirmEffect_pending) (cases e; auto simp: startFetch_def)
  then show ?thesis
    using Query assms(2-4) by (cases e) (auto simp: polling_step.simps startFetch_def Let_def)
qed (use assms in \<open>auto simp: polling_ok.simps confirmEffect_pending handleTick_def Let_def\<close>)

lemma waiting_buys:
  assumes "buy_ok fmt b a" "\<not> from_waiting a" "showsPolling b" "\<not> by_stkPending b" "\<not> by_trialLoading b" "by_due b = []"
    "unsettled (BuyAct a)"
  shows "snd (buy_step b a) = [] \<and> \<not> by_stkPending (fst (buy_step b a)) \<and> \<not> by_trialLoading (fst (buy_step b a))
    \<and> by_due (fst (buy_step b a)) = [] \<and> by_tenantId (fst (buy_step b a)) = by_tenantId b
    \<and> by_paymentId (fst (buy_step b a)) = by_paymentId b
    \<and> selectedPackage (fst (buy_step b a)) = selectedPackage b"
  using assms by (cases a) (auto simp: buy_handlers intro!: selectedPackage_cong)

lemma awaits_remount:
  assumes "captiveScreen c = PollingScreen" "cp_polling c = Some q" "selectedPackage (cp_buy c) = Some p"
  shows "remount now c = c\<lparr>cp_polling := Some (q\<lparr>pp_price := pk_price_kes p, pp_name := pk_name p\<rparr>)\<rparr>"
  using assms by (simp add: remount_def)

lemma awaits_step:
  assumes "awaits pid link c" "captive_ok fmt paybill c a" "unsettled a"
  shows "awaits pid link (fst (captive_act now c a))
    \<and> (\<forall>x \<in> set (snd (captive_act now c a)). x = PollOut (GetStatus (statusUrl pid)))"
proof -
  obtain q where q: "cp_polling c = Some q" "pp_due q = []" "pp_paymentId q = pid"
    "\<forall>d. pl_data (pp_query q) = Some d \<longrightarrow> \<not> paymentFinal d"
    using assms(1) by (auto simp: awaits_def)
  have c: "captiveScreen c = PollingScreen" "cp_voucherCode c = None" "cp_redirect c = None" "cp_linkLogin c = link"
    "\<not> by_stkPending (cp_buy c)" "\<not> by_trialLoading (cp_buy c)" "by_due (cp_buy c) = []"
    using assms(1) by (auto simp: awaits_def)
  then have buy: "showsPolling (cp_buy c)" "by_tenantId (cp_buy c) \<noteq> []"
    by (auto simp: captiveScreen_def split: if_splits)
  then obtain p where p: "selectedPackage (cp_buy c) = Some p" by (auto simp: showsPolling_def)
  show ?thesis
  proof (cases a)
    case (BuyAct x)
    let ?b = "fst (buy_step (cp_buy c) x)"
    have b: "snd (buy_step (cp_buy c) x) = []" "\<not> by_stkPending ?b" "\<not> by_trialLoading ?b" "by_due ?b = []"
      "by_tenantId ?b = by_tenantId (cp_buy c)" "by_paymentId ?b = by_paymentId (cp_buy c)" "selectedPackage ?b = Some p"
      using waiting_buys [of fmt "cp_buy c" x] BuyAct assms(2,3) buy c p by auto
    have "rerender ?b c = c\<lparr>cp_buy := ?b\<rparr>" using q confirmEffect_pending [OF q(4)] by (simp add: rerender_def)
    moreover have "captiveScreen (c\<lparr>cp_buy := ?b\<rparr>) = PollingScreen"
      using c b buy p by (simp add: captiveScreen_def showsPolling_def)
    ultimately have "captive_step now c a = c\<lparr>cp_buy := ?b, cp_polling := Some (q\<lparr>pp_price := pk_price_kes p, pp_name := pk_name p\<rparr>)\<rparr>"
      using BuyAct b q awaits_remount [of "c\<lparr>cp_buy := ?b\<rparr>" q p now] by (simp add: receive_def case_prod_beta Let_def)
    moreover have "captiveScreen (c\<lparr>cp_buy := ?b, cp_polling := y\<rparr>) = PollingScreen" for y
      using c b buy p by (simp add: captiveScreen_def showsPolling_def)
    ultimately show ?thesis
      using BuyAct b c q by (simp add: awaits_def captive_act_def captive_outs_def)
  next
    case (PollAct x)
    let ?q = "fst (polling_step q x)"
    have ok: "polling_ok paybill q x" "unsettled (PollAct x)" using PollAct assms(2,3) q by auto
    note w = waiting_polls [OF ok q(2,4)]
    have "handUp (snd (polling_step q x)) (cp_buy c) = (cp_buy c, [])" using w by (intro handUp_silent) auto
    moreover have scr: "captiveScreen (c\<lparr>cp_polling := y\<rparr>) = PollingScreen" for y
      using c(1) by (simp add: captiveScreen_def split: if_splits)
    ultimately have "captive_step now c a = c\<lparr>cp_polling := Some (?q\<lparr>pp_price := pk_price_kes p, pp_name := pk_name p\<rparr>)\<rparr>"
      using PollAct q p awaits_remount [of "c\<lparr>cp_polling := Some ?q\<rparr>" ?q p now]
      by (simp add: receive_def case_prod_beta Let_def)
    then show ?thesis
      using PollAct w c q scr by (auto simp: awaits_def captive_act_def captive_outs_def)
  next
    case (LoginAct x)
    with assms(2) c show ?thesis by simp
  qed
qed

lemma awaits_offers_check:
  assumes "awaits pid link c"
  shows "inCheck c \<or> captive_ok fmt paybill c (PollAct (Query PollRefetch))"
  using assms by (auto simp: awaits_def inCheck_def polling_ok.simps pollingView_refetch)

section \<open>Buying and getting online\<close>

text \<open>What the visitor does: the packages load, he picks one, types his number and pays; the prompt is
  accepted as payment \<open>pid\<close>. Later the payment is confirmed with a voucher, the delay and the login
  timer elapse, and the router answers.\<close>

definition buying :: "package list \<Rightarrow> string \<Rightarrow> string \<Rightarrow> string \<Rightarrow> captive_action list" where
  "buying ps i phone pid = map BuyAct [PackagesLoaded ps, SelectPackage i, TypePhone phone, Pay, StkOk pid]"

definition confirming :: "string \<Rightarrow> string \<Rightarrow> captive_action list" where
  "confirming pid code =
     [PollAct (Query (PollAnswer (confirmation pid code))), PollAct Due, LoginAct LoginTimer, LoginAct (LoginEnded True)]"

lemma buying_run:
  assumes "tid \<noteq> []" and "i \<noteq> []" and "pid \<noteq> []" and "kenyanPhone phone" and "find (\<lambda>p. pk_id p = i) ps = Some p"
  shows "\<exists>b. guarded_run (captive_ok fmt paybill) (captive_act now)
        \<lparr>cp_voucherCode = None, cp_linkLogin = link, cp_buy = buyStart tid mac ip s, cp_polling = None, cp_redirect = None\<rparr>
        (buying ps i phone pid)
      = Some (\<lparr>cp_voucherCode = None, cp_linkLogin = link, cp_buy = b,
               cp_polling = Some (pollingStart now pid (pk_price_kes p) (pk_name p)), cp_redirect = None\<rparr>,
              [BuyOut (PostStk phone i tid mac ip)])
    \<and> by_tenantId b = tid \<and> selectedPackage b = Some p \<and> by_paymentId b = Some pid
    \<and> \<not> by_stkPending b \<and> \<not> by_trialLoading b \<and> by_due b = []"
proof -
  have "phone \<noteq> []" using assms(4) by (auto simp: kenyanPhone_def subscriberOf_def startsWith_def)
  moreover have "i \<in> pk_id ` set ps" using assms(5) by (auto simp: find_Some_iff)
  ultimately show ?thesis
    using assms
    by (simp add: buying_def guarded_run.simps captive_act_def captive_outs_def captiveScreen_def showsPolling_def selectedPackage_def rerender_def
        buyStart_def buy_offers handlePay_def validatePhone_def receive_def remount_def hotspotPackagesEnabled_def Let_def)
qed

lemma confirmed_run:
  assumes "captiveScreen c = PollingScreen" and "cp_voucherCode c = None" and "cp_redirect c = None" and "cp_linkLogin c \<noteq> []"
    and "cp_polling c = Some q" and "pp_due q = []" and "pl_fetching (pp_query q)" and "code \<noteq> []"
    and "d = \<lparr>ps_payment_id = pid, ps_status = ''confirmed'', ps_voucher_code = Some code\<rparr>" and "pl_data (pp_query q) \<noteq> Some d"
  shows "\<exists>c'. guarded_run (captive_ok fmt paybill) (captive_act now) c
        [PollAct (Query (PollAnswer d)), PollAct Due, LoginAct LoginTimer, LoginAct (LoginEnded True)]
      = Some (c', [PollOut (OnConfirmed code), LoginOut (LoginPost (loginUrl (cp_linkLogin c)) (loginBody code))])
    \<and> captiveScreen c' = LoginScreen \<and> map_option rd_isOnline (cp_redirect c') = Some True
    \<and> getItem (by_local (cp_buy c')) ACTIVE_VOUCHER_KEY = Some code"
proof -
  define q1 where "q1 = q\<lparr>pp_query := (pp_query q)\<lparr>pl_data := Some d, pl_isError := False, pl_fetching := False\<rparr>, pp_due := [code]\<rparr>"
  have step1: "polling_step q (Query (PollAnswer d)) = (q1, [])"
    using assms(6,8-10) by (simp add: polling_step.simps confirmEffect_def q1_def Let_def)
  from assms(1) have "showsPolling (cp_buy c)" "by_tenantId (cp_buy c) \<noteq> []"
    by (auto simp: captiveScreen_def split: if_splits)
  then obtain p where p: "selectedPackage (cp_buy c) = Some p" by (auto simp: showsPolling_def)
  let ?q = "q1\<lparr>pp_price := pk_price_kes p, pp_name := pk_name p\<rparr>"
  let ?c1 = "c\<lparr>cp_polling := Some ?q\<rparr>"
  have screen: "captiveScreen (c\<lparr>cp_polling := x\<rparr>) = PollingScreen" for x
    using assms(1) by (simp add: captiveScreen_def split: if_splits)
  have act1: "captive_act now c (PollAct (Query (PollAnswer d))) = (?c1, [])"
    using assms(5) p screen by (simp add: captive_act_def captive_outs_def step1 handUp_def receive_def remount_def Let_def)
  have ok1: "captive_ok fmt paybill c (PollAct (Query (PollAnswer d)))"
    using assms(1,5,7) by (simp add: polling_okQ)
  have due: "pp_due q1 = [code]" by (simp add: q1_def)
  have ok2: "captive_ok fmt paybill ?c1 (PollAct Due)" using screen by (simp add: polling_ok.simps q1_def)
  let ?b = "fst (keepVoucher code (cp_buy c))"
  let ?c2 = "c\<lparr>cp_voucherCode := Some code, cp_buy := ?b, cp_polling := None, cp_redirect := Some (redirectStart code (cp_linkLogin c))\<rparr>"
  have act2: "captive_act now ?c1 (PollAct Due) = (?c2, [PollOut (OnConfirmed code)])"
    using assms(3,8) by (simp add: captive_act_def captive_outs_def due handUp_def receive_def remount_def captiveScreen_def
        keepVoucher_def Let_def)
  let ?r = "fst (redirect_step (fst (redirect_step (redirectStart code (cp_linkLogin c)) LoginTimer)) (LoginEnded True))"
  have "guarded_run (captive_ok fmt paybill) (captive_act now) ?c2 [LoginAct LoginTimer, LoginAct (LoginEnded True)]
      = Some (?c2\<lparr>cp_redirect := Some ?r\<rparr>, [LoginOut (LoginPost (loginUrl (cp_linkLogin c)) (loginBody code))])"
    using assms(4,8) by (simp add: guarded_run.simps captive_act_def captive_outs_def captiveScreen_def redirectStart_def performLogin_def)
  then have "guarded_run (captive_ok fmt paybill) (captive_act now) c
      [PollAct (Query (PollAnswer d)), PollAct Due, LoginAct LoginTimer, LoginAct (LoginEnded True)]
      = Some (?c2\<lparr>cp_redirect := Some ?r\<rparr>, [PollOut (OnConfirmed code), LoginOut (LoginPost (loginUrl (cp_linkLogin c)) (loginBody code))])"
    by (simp only: guarded_run_Cons ok1 act1 ok2 act2 fst_conv snd_conv) simp
  moreover have "captiveScreen (?c2\<lparr>cp_redirect := Some ?r\<rparr>) = LoginScreen"
    "getItem (by_local (cp_buy (?c2\<lparr>cp_redirect := Some ?r\<rparr>))) ACTIVE_VOUCHER_KEY = Some code" "rd_isOnline ?r"
    using assms(8) by (simp_all add: captiveScreen_def keepVoucher_def storage_simps)
  ultimately show ?thesis by (intro exI [of _ "?c2\<lparr>cp_redirect := Some ?r\<rparr>"]) simp
qed

section \<open>Properties\<close>

text \<open>C12: Whoever pays gets online: on the page a router opened for a tenant with its login link, a visitor can pick any
  package on offer, type a Kenyan number and pay, which sends one payment prompt and starts checking the payment.
  Whatever happens then while the payment is unsettled (ticks, the time-out, failed and unfinished checks, pings,
  renders; but no new list of packages and no reload of the page): the page keeps waiting, sends nothing but
  checks of this payment, and a check is running or the visitor can ask for one. As soon as a running check says
  that the payment is confirmed, the voucher is handed over when its delay has elapsed, kept in the browser, and
  used by the login timer to log the device in at the router, and when the router has answered the page says so.\<close>

theorem purchase_gets_online:
  assumes "map_of params ''tenant_id'' = Some tid" and "tid \<noteq> []"
    and "map_of params ''link-login'' = Some link" and "link \<noteq> []"
    and "find (\<lambda>p. pk_id p = i) ps = Some p" and "i \<noteq> []" and "kenyanPhone phone" and "pid \<noteq> []" and "code \<noteq> []"
  shows "\<exists>c1. guarded_run (captive_ok fmt paybill) (captive_act now) (captiveStart params s) (buying ps i phone pid)
        = Some (c1, [BuyOut (PostStk phone i tid (nullish (map_of params ''mac'') []) (nullish (map_of params ''ip'') []))])
    \<and> inCheck c1
    \<and> (\<forall>ws c outs. guarded_run (captive_ok fmt paybill) (captive_act now) c1 ws = Some (c, outs) \<longrightarrow> list_all unsettled ws \<longrightarrow>
         captiveScreen c = PollingScreen \<and> (\<forall>x \<in> set outs. x = PollOut (GetStatus (statusUrl pid)))
         \<and> (inCheck c \<or> captive_ok fmt paybill c (PollAct (Query PollRefetch)))
         \<and> (inCheck c \<longrightarrow>
              (\<exists>c'. guarded_run (captive_ok fmt paybill) (captive_act now) c (confirming pid code)
                  = Some (c', [PollOut (OnConfirmed code), LoginOut (LoginPost (loginUrl link) (loginBody code))])
                \<and> captiveScreen c' = LoginScreen \<and> map_option rd_isOnline (cp_redirect c') = Some True
                \<and> getItem (by_local (cp_buy c')) ACTIVE_VOUCHER_KEY = Some code)))"
proof -
  let ?run = "guarded_run (captive_ok fmt paybill) (captive_act now)"
  let ?mac = "nullish (map_of params ''mac'') []" let ?ip = "nullish (map_of params ''ip'') []"
  let ?q = "pollingStart now pid (pk_price_kes p) (pk_name p)"
  have start: "captiveStart params s = \<lparr>cp_voucherCode = None, cp_linkLogin = link, cp_buy = buyStart tid ?mac ?ip s,
      cp_polling = None, cp_redirect = None\<rparr>"
    using assms(1,3) by (simp add: captiveStart_def)
  from buying_run [OF assms(2,6,8,7,5)] obtain b where bought:
    "?run (captiveStart params s) (buying ps i phone pid)
      = Some (\<lparr>cp_voucherCode = None, cp_linkLogin = link, cp_buy = b, cp_polling = Some ?q, cp_redirect = None\<rparr>,
              [BuyOut (PostStk phone i tid ?mac ?ip)])"
    and b: "by_tenantId b = tid" "selectedPackage b = Some p" "by_paymentId b = Some pid"
      "\<not> by_stkPending b" "\<not> by_trialLoading b" "by_due b = []"
    unfolding start by blast
  define c1 where "c1 = \<lparr>cp_voucherCode = None, cp_linkLogin = link, cp_buy = b, cp_polling = Some ?q, cp_redirect = None\<rparr>"
  have c1: "inCheck c1" "awaits pid link c1"
    using b assms(2,8) by (simp_all add: c1_def inCheck_def awaits_def captiveScreen_def showsPolling_def mounted_def)
  have "captiveScreen c = PollingScreen \<and> (\<forall>x \<in> set outs. x = PollOut (GetStatus (statusUrl pid)))
      \<and> (inCheck c \<or> captive_ok fmt paybill c (PollAct (Query PollRefetch)))
      \<and> (inCheck c \<longrightarrow> (\<exists>c'. ?run c (confirming pid code)
            = Some (c', [PollOut (OnConfirmed code), LoginOut (LoginPost (loginUrl link) (loginBody code))])
          \<and> captiveScreen c' = LoginScreen \<and> map_option rd_isOnline (cp_redirect c') = Some True
          \<and> getItem (by_local (cp_buy c')) ACTIVE_VOUCHER_KEY = Some code))"
    if "?run c1 ws = Some (c, outs)" "list_all unsettled ws" for ws c outs
  proof -
    have w: "awaits pid link c" "\<forall>x \<in> set outs. x = PollOut (GetStatus (statusUrl pid))"
      using guarded_run_trace [where P = "awaits pid link" and Q = "\<lambda>x. x = PollOut (GetStatus (statusUrl pid))", OF that(1) c1(2)]
        awaits_step that(2) by (simp_all add: list_all_iff)
    then obtain q where q: "cp_polling c = Some q" "pp_due q = []" "\<forall>d. pl_data (pp_query q) = Some d \<longrightarrow> \<not> paymentFinal d"
      by (auto simp: awaits_def)
    then have "pl_data (pp_query q) \<noteq> Some (confirmation pid code)" by (auto simp: paymentFinal_def confirmation_def)
    then have "\<exists>c'. ?run c (confirming pid code)
            = Some (c', [PollOut (OnConfirmed code), LoginOut (LoginPost (loginUrl link) (loginBody code))])
          \<and> captiveScreen c' = LoginScreen \<and> map_option rd_isOnline (cp_redirect c') = Some True
          \<and> getItem (by_local (cp_buy c')) ACTIVE_VOUCHER_KEY = Some code" if "inCheck c"
      using confirmed_run [of c q code "confirmation pid code" pid fmt paybill now] w(1) q assms(4,9) that
      by (simp add: awaits_def inCheck_def confirming_def confirmation_def)
    then show ?thesis using w awaits_offers_check [OF w(1)] by (simp add: awaits_def)
  qed
  with c1(1) bought show ?thesis unfolding c1_def [symmetric] by blast
qed

theorem purchase_gets_online_witness:
  "\<exists>c1 c'. guarded_run (captive_ok showInt None) (captive_act 0)
        (captiveStart [(''tenant_id'', ''t''), (''link-login'', ''10.0.0.1/login'')] []) (buying samplePackages ''p1'' ''0712345678'' ''pay1'')
      = Some (c1, [BuyOut (PostStk ''0712345678'' ''p1'' ''t'' [] [])])
    \<and> guarded_run (captive_ok showInt None) (captive_act 0) c1 (confirming ''pay1'' ''ABC'')
      = Some (c', [PollOut (OnConfirmed ''ABC''), LoginOut (LoginPost ''http://10.0.0.1/login'' (loginBody ''ABC''))])
    \<and> map_option rd_isOnline (cp_redirect c') = Some True"
proof -
  have "find (\<lambda>p. pk_id p = ''p1'') samplePackages \<noteq> None" by code_simp
  then obtain p where p: "find (\<lambda>p. pk_id p = ''p1'') samplePackages = Some p" by auto
  have url: "loginUrl ''10.0.0.1/login'' = ''http://10.0.0.1/login''" by code_simp
  let ?run = "guarded_run (captive_ok showInt None) (captive_act 0)"
  have "\<exists>c1. ?run (captiveStart [(''tenant_id'', ''t''), (''link-login'', ''10.0.0.1/login'')] [])
        (buying samplePackages ''p1'' ''0712345678'' ''pay1'') = Some (c1, [BuyOut (PostStk ''0712345678'' ''p1'' ''t'' [] [])])
      \<and> inCheck c1
      \<and> (\<forall>ws c outs. ?run c1 ws = Some (c, outs) \<longrightarrow> list_all unsettled ws \<longrightarrow> inCheck c \<longrightarrow>
          (\<exists>c'. ?run c (confirming ''pay1'' ''ABC'')
              = Some (c', [PollOut (OnConfirmed ''ABC''), LoginOut (LoginPost (loginUrl ''10.0.0.1/login'') (loginBody ''ABC''))])
            \<and> map_option rd_isOnline (cp_redirect c') = Some True))"
    using purchase_gets_online [OF _ _ _ _ p _ kenyan_sample, of "[(''tenant_id'', ''t''), (''link-login'', ''10.0.0.1/login'')]"
      "''t''" "''10.0.0.1/login''" "''pay1''" "''ABC''" showInt None 0 "[]"]
    apply (simp del: map_option_eq_Some)
    apply (erule ex_forward)
    apply (elim conjE, intro conjI allI impI)
      apply assumption
     apply assumption
    apply (elim exE, drule spec, drule spec, drule spec, drule mp, assumption, drule mp, assumption)
    apply (elim conjE, drule mp, assumption)
    apply blast
    done
  then obtain c1 where c1: "?run (captiveStart [(''tenant_id'', ''t''), (''link-login'', ''10.0.0.1/login'')] [])
        (buying samplePackages ''p1'' ''0712345678'' ''pay1'') = Some (c1, [BuyOut (PostStk ''0712345678'' ''p1'' ''t'' [] [])])"
    "inCheck c1"
    and rest: "\<And>ws c outs. ?run c1 ws = Some (c, outs) \<Longrightarrow> list_all unsettled ws \<Longrightarrow> inCheck c \<Longrightarrow>
          (\<exists>c'. ?run c (confirming ''pay1'' ''ABC'')
              = Some (c', [PollOut (OnConfirmed ''ABC''), LoginOut (LoginPost (loginUrl ''10.0.0.1/login'') (loginBody ''ABC''))])
            \<and> map_option rd_isOnline (cp_redirect c') = Some True)"
    by blast
  from rest [of "[]" c1 "[]"] c1 show ?thesis by (auto simp: url)
qed

end
