(* ===== verification/Onboarding_Spec.thy ===== *)
theory Onboarding_Spec
  imports Onboarding
begin

text \<open>
  What onboarding promises, without its storage: three stages, a package and a router that may each be set
  up or skipped, and at most one package being created. The page of \<open>Onboarding\<close>, which keeps its state as
  JSON read without a check, implements this: locale \<open>simulation\<close> is the contract, and the page meets it.
\<close>

section \<open>Simulations\<close>

text \<open>A system whose actions are exactly those of its abstraction, with the same outputs.\<close>

locale simulation =
  fixes ok :: "'s \<Rightarrow> 'a \<Rightarrow> bool"
    and stp :: "'s \<Rightarrow> 'a \<Rightarrow> 's \<times> 'r list"
    and aok :: "'t \<Rightarrow> 'a \<Rightarrow> bool"
    and astp :: "'t \<Rightarrow> 'a \<Rightarrow> 't \<times> 'r list"
    and abst :: "'s \<Rightarrow> 't"
    and inv :: "'s \<Rightarrow> bool"
  assumes inv_step: "inv s \<Longrightarrow> ok s a \<Longrightarrow> inv (fst (stp s a))"
    and same_actions: "inv s \<Longrightarrow> aok (abst s) a \<longleftrightarrow> ok s a"
    and same_effect: "inv s \<Longrightarrow> ok s a \<Longrightarrow> astp (abst s) a = (abst (fst (stp s a)), snd (stp s a))"
begin

lemma same_runs: "inv s \<Longrightarrow> guarded_run aok astp (abst s) as = map_option (map_prod abst id) (guarded_run ok stp s as)"
proof (induction as arbitrary: s)
  case (Cons a as)
  then show ?case
    using Cons.IH [OF inv_step [OF Cons.prems]]
    by (auto simp: guarded_run.simps same_actions same_effect split: option.splits)
qed simp

end

section \<open>The specification\<close>

datatype stage = PackagesStage | RouterStage | CompleteStage

record progress =
  se_stage :: "stage option"
  se_package :: "string option"
  se_router :: "string option"
  se_creating :: bool

fun progress_ok :: "progress \<Rightarrow> onboarding_action \<Rightarrow> bool" where
  "progress_ok s (SubmitPackage r) = (se_stage s = Some PackagesStage \<and> \<not> se_creating s)"
| "progress_ok s (PackageCreated i n) = se_creating s"
| "progress_ok s PackageRejected = se_creating s"
| "progress_ok s SkipPackage = (se_stage s = Some PackagesStage)"
| "progress_ok s (RouterConnected i n) = (se_stage s = Some RouterStage)"
| "progress_ok s SkipRouter = (se_stage s = Some RouterStage)"
| "progress_ok s GoToDashboard = (se_stage s = Some CompleteStage)"
| "progress_ok s SignOutClick = True"

fun progress_act :: "progress \<Rightarrow> onboarding_action \<Rightarrow> progress \<times> onboarding_out list" where
  "progress_act s (SubmitPackage r) = (s\<lparr>se_creating := True\<rparr>, [PostPackage r])"
| "progress_act s (PackageCreated i n) =
     (s\<lparr>se_stage := Some RouterStage, se_package := Some n, se_creating := False\<rparr>, [OToast ''Package created!''])"
| "progress_act s PackageRejected = (s\<lparr>se_creating := False\<rparr>, [OToastErr ''Failed to create package. Please try again.''])"
| "progress_act s SkipPackage = (s\<lparr>se_stage := Some RouterStage, se_package := None\<rparr>, [])"
| "progress_act s (RouterConnected i n) = (s\<lparr>se_stage := Some CompleteStage, se_router := Some n\<rparr>, [])"
| "progress_act s SkipRouter = (s\<lparr>se_stage := Some CompleteStage, se_router := None\<rparr>, [])"
| "progress_act s GoToDashboard = (s, [ONavigate ''/admin/dashboard''])"
| "progress_act s SignOutClick = (s, [OLogout])"

definition progress0 :: progress where
  "progress0 = \<lparr>se_stage = Some PackagesStage, se_package = None, se_router = None, se_creating = False\<rparr>"

section \<open>The abstraction\<close>

definition stageOf :: "json option \<Rightarrow> stage option" where
  "stageOf st =
     (if st = Some (JStr ''packages'') then Some PackagesStage
      else if st = Some (JStr ''router'') then Some RouterStage
      else if st = Some (JStr ''complete'') then Some CompleteStage else None)"

definition setupOf :: "onboarding_page \<Rightarrow> progress" where
  "setupOf p =
     \<lparr>se_stage = stageOf (pageStep p),
      se_package = (if flag p ''packages_done'' then Some (fieldText p ''package_name'' []) else None),
      se_router = (if flag p ''router_done'' then Some (fieldText p ''router_name'' []) else None),
      se_creating = op_createPending p\<rparr>"

lemma stageOf_iff [simp]:
  "stageOf st = Some PackagesStage \<longleftrightarrow> st = Some (JStr ''packages'')"
  "stageOf st = Some RouterStage \<longleftrightarrow> st = Some (JStr ''router'')"
  "stageOf st = Some CompleteStage \<longleftrightarrow> st = Some (JStr ''complete'')"
  by (auto simp: stageOf_def)

definition objectPage :: "onboarding_page \<Rightarrow> bool" where
  "objectPage p \<longleftrightarrow> (\<exists>m. op_state p = JObj m)"

lemma op_state_effects [simp]:
  "op_state (writeEffect t0 p) = op_state p" "op_createPending (writeEffect t0 p) = op_createPending p"
  "op_createPending (clearEffect p) = op_createPending p"
  by (simp_all add: writeEffect_def clearEffect_def)

lemma advanceTo_fields:
  assumes "op_state p = JObj m"
  shows "op_state (advanceTo t0 stp patch p) = JObj (merge (merge m patch) [(''step'', JStr stp)])"
    and "op_createPending (advanceTo t0 stp patch p) = op_createPending p"
  using assms by (simp_all add: advanceTo_def spread_def Let_def)

lemma page_offers_setup:
  "clickable (onboardingView [] [] None None p) SkipPackage \<longleftrightarrow> pageStep p = Some (JStr ''packages'')"
  "clickable (onboardingView [] [] None None p) GoToDashboard \<longleftrightarrow> pageStep p = Some (JStr ''complete'')"
  "clickable (onboardingView [] [] None None p) SignOutClick"
proof -
  have none: "\<not> list_ex (\<lambda>v. clickable v a) (progressBar p)" for a
    by (simp add: progressBar_def STEPS_def view_lists clickable_simps(5) upt_rec)
  have skip: "\<not> list_ex (\<lambda>v. clickable v SkipPackage) (completeStep None p)"
    "list_ex (\<lambda>v. clickable v GoToDashboard) (completeStep None p)"
    by (simp_all add: completeStep_def view_lists clickable_simps(5))
  from none skip show "clickable (onboardingView [] [] None None p) SkipPackage \<longleftrightarrow> pageStep p = Some (JStr ''packages'')"
    "clickable (onboardingView [] [] None None p) GoToDashboard \<longleftrightarrow> pageStep p = Some (JStr ''complete'')"
    "clickable (onboardingView [] [] None None p) SignOutClick"
    by (simp_all add: onboardingView_def view_lists clickable_simps(5))
qed

lemmas setup_fields = setupOf_def stageOf_def pageStep_def flag_def fieldText_def jfield_def map_of_merge jtruthy_def advanceTo_fields

interpretation shell: simulation onboarding_ok "onboarding_step t0" progress_ok progress_act setupOf objectPage
proof
  fix s a
  assume inv: "objectPage s"
  then obtain m where m: "op_state s = JObj m" by (auto simp: objectPage_def)
  show "progress_ok (setupOf s) a \<longleftrightarrow> onboarding_ok s a"
    by (cases a) (auto simp: setupOf_def page_offers_setup onboarding_offers)
  show "objectPage (fst (onboarding_step t0 s a))"
    using m by (cases a) (auto simp: objectPage_def advanceTo_fields)
  show "progress_act (setupOf s) a = (setupOf (fst (onboarding_step t0 s a)), snd (onboarding_step t0 s a))"
    using m by (cases a) (auto simp: setup_fields)
qed

text \<open>Reloading keeps the progress.\<close>

lemma setupOf_reload:
  assumes "resumable p" and "se_stage (setupOf p) \<noteq> Some CompleteStage"
  shows "setupOf (onboardingStart t1 now1 (op_local p)) = (setupOf p)\<lparr>se_creating := False\<rparr>"
proof -
  have "op_createPending (onboardingStart t1 now1 (op_local p)) = False" by (simp add: onboardingStart_def)
  with resumable_reload [OF assms(1), of t1 now1] assms(2) show ?thesis
    by (simp add: setupOf_def pageStep_def flag_def fieldText_def)
qed

lemma resumable_object: "resumable p \<Longrightarrow> objectPage p"
  by (auto simp: resumable_def objectPage_def)

lemma start_empty: "getOnboardingState s = None \<Longrightarrow> setupOf (onboardingStart t0 now s) = progress0"
  by (simp add: setupOf_def progress0_def onboardingStart_def initialState_def freshState_def pageStep_def flag_def
      fieldText_def jfield_def jtruthy_def)

lemma start_after_signup: "setupOf (onboardingStart t0 now (snd (initOnboardingState t1 now1 svc s))) = progress0"
  by (simp add: setupOf_def progress0_def onboardingStart_def initialState_def init_reads pageStep_def flag_def fieldText_def)
     (simp add: initOnboardingState_def DEFAULT_STATE_def Let_def jfield_def map_of_merge jtruthy_def)

text \<open>From every stage setup can be finished with at most three clicks.\<close>

definition finishing :: "progress \<Rightarrow> onboarding_action list" where
  "finishing s =
     (if se_stage s = Some PackagesStage then [SkipPackage, SkipRouter, GoToDashboard]
      else if se_stage s = Some RouterStage then [SkipRouter, GoToDashboard]
      else if se_stage s = Some CompleteStage then [GoToDashboard] else [])"

lemma finishing_run:
  assumes "se_stage s \<noteq> None"
  shows "\<exists>s'. guarded_run progress_ok progress_act s (finishing s) = Some (s', [ONavigate ''/admin/dashboard''])
    \<and> se_stage s' = Some CompleteStage"
proof -
  from assms obtain st where "se_stage s = Some st" by auto
  then show ?thesis by (cases st) (simp_all add: finishing_def guarded_run.simps)
qed

lemma known_stage:
  assumes "guarded_run progress_ok progress_act s as = Some (s', outs)" and "se_stage s \<noteq> None"
  shows "se_stage s' \<noteq> None"
proof (rule guarded_run_inv [where P = "\<lambda>s. se_stage s \<noteq> None", OF _ assms(2,1)])
  show "se_stage (fst (progress_act x a)) \<noteq> None" if "se_stage x \<noteq> None" for x a
    using that by (cases a) simp_all
qed

section \<open>Properties\<close>

text \<open>C25: The onboarding page implements the three stages of its specification: from a store that is empty or was
  written by the sign-up, it allows exactly the sequences of actions the specification allows, with the
  same requests, messages and navigation, and its stage, package and router are those of the
  specification; it starts at the packages when nothing is stored; a reload in between changes nothing but
  that the outstanding answer is lost; and from every point a finish is three clicks away at most.\<close>

theorem onboarding_refines_setup:
  assumes "goodStore s"
  shows "guarded_run progress_ok progress_act (setupOf (onboardingStart t0 now s)) as
      = map_option (map_prod setupOf id) (guarded_run onboarding_ok (onboarding_step t0) (onboardingStart t0 now s) as)
    \<and> (getOnboardingState s = None \<longrightarrow> setupOf (onboardingStart t0 now s) = progress0)
    \<and> (\<forall>p outs. guarded_run onboarding_ok (onboarding_step t0) (onboardingStart t0 now s) as = Some (p, outs) \<longrightarrow>
        (se_stage (setupOf p) \<noteq> Some CompleteStage \<longrightarrow>
           setupOf (onboardingStart t1 now1 (op_local p)) = (setupOf p)\<lparr>se_creating := False\<rparr>)
        \<and> (se_stage (setupOf (onboardingStart t0 now s)) \<noteq> None \<longrightarrow>
           (\<exists>q. guarded_run onboarding_ok (onboarding_step t0) p (finishing (setupOf p))
                = Some (q, [ONavigate ''/admin/dashboard''])) \<and> length (finishing (setupOf p)) \<le> 3))"
proof (intro conjI allI impI)
  let ?p = "onboardingStart t0 now s"
  have start: "resumable ?p" by (rule resumable_start [OF assms])
  note sim = shell.same_runs [OF resumable_object]
  show refines: "guarded_run progress_ok progress_act (setupOf ?p) as
      = map_option (map_prod setupOf id) (guarded_run onboarding_ok (onboarding_step t0) ?p as)"
    by (rule sim [OF start])
  show "getOnboardingState s = None \<Longrightarrow> setupOf ?p = progress0" by (rule start_empty)
  fix p outs assume run: "guarded_run onboarding_ok (onboarding_step t0) ?p as = Some (p, outs)"
  have res: "resumable p"
    by (rule guarded_run_inv [where P = resumable, OF _ start run]) (rule resumable_step)
  show "se_stage (setupOf p) \<noteq> Some CompleteStage \<Longrightarrow>
      setupOf (onboardingStart t1 now1 (op_local p)) = (setupOf p)\<lparr>se_creating := False\<rparr>"
    by (rule setupOf_reload [OF res])
  show "length (finishing (setupOf p)) \<le> 3" by (simp add: finishing_def)
  assume "se_stage (setupOf ?p) \<noteq> None"
  with refines run have "se_stage (setupOf p) \<noteq> None" using known_stage by fastforce
  from finishing_run [OF this] sim [OF res, of "finishing (setupOf p)" t0]
  show "\<exists>q. guarded_run onboarding_ok (onboarding_step t0) p (finishing (setupOf p)) = Some (q, [ONavigate ''/admin/dashboard''])"
    by auto
qed

theorem onboarding_refines_setup_witness:
  "goodStore [] \<and> setupOf (onboardingStart ''t'' ''n'' []) = progress0
   \<and> (\<exists>p outs. guarded_run onboarding_ok (onboarding_step ''t'') (onboardingStart ''t'' ''n'' []) [SkipPackage] = Some (p, outs)
        \<and> setupOf p = progress0\<lparr>se_stage := Some RouterStage\<rparr>)"
proof -
  have good: "goodStore []" "getOnboardingState [] = None" by (simp_all add: goodStore_def getOnboardingState_def getItem_def)
  note refines = onboarding_refines_setup [OF good(1), of "''t''" "''n''" "[SkipPackage]"]
  have start: "setupOf (onboardingStart ''t'' ''n'' []) = progress0"
    using refines [THEN conjunct2, THEN conjunct1] good(2) by (rule mp)
  from refines [THEN conjunct1] have "guarded_run progress_ok progress_act progress0 [SkipPackage]
      = map_option (map_prod setupOf id) (guarded_run onboarding_ok (onboarding_step ''t'') (onboardingStart ''t'' ''n'' []) [SkipPackage])"
    unfolding start .
  then have "\<exists>p outs. guarded_run onboarding_ok (onboarding_step ''t'') (onboardingStart ''t'' ''n'' []) [SkipPackage] = Some (p, outs)
        \<and> setupOf p = progress0\<lparr>se_stage := Some RouterStage\<rparr>"
    by (cases "guarded_run onboarding_ok (onboarding_step ''t'') (onboardingStart ''t'' ''n'' []) [SkipPackage]")
       (auto simp: guarded_run.simps progress0_def)
  with start good show ?thesis by blast
qed

end
