(* ===== verification/Signup_Journey.thy ===== *)
theory Signup_Journey
  imports Landing_Page Onboarding_Spec
begin

text \<open>
  The journey of a new provider: from the landing page's link over the sign-up form and onboarding to the
  dashboard. The theorem runs the form of \<open>Signup\<close> and the page of \<open>Onboarding\<close> under what they offer, and
  checks with the guards of \<open>App_Shell\<close> that each page on the way is shown to the new user.
\<close>

section \<open>The actions\<close>

text \<open>Filling the form, sending it, and the service's answer with a token.\<close>

definition filling :: "signup_request \<Rightarrow> signup_action list" where
  "filling d =
     [SignupInput SBusiness (su_business_name d), SignupInput SOwner (su_owner_name d),
      SignupInput SEmail (su_owner_email d), SignupInput SPhone (su_owner_phone d),
      SignupInput SPassword (su_password d), SignupInput STier (su_subscription_tier d), PickService (su_service_type d)]"

definition signingUp :: "signup_request \<Rightarrow> string \<Rightarrow> string \<Rightarrow> string \<Rightarrow> signup_action list" where
  "signingUp d t0 now token = filling d @ [SubmitSignup, SignupOk t0 now token (parsedSignup d)]"

text \<open>Creating a package and connecting a router.\<close>

definition settingUp :: "package_request \<Rightarrow> string \<Rightarrow> string \<Rightarrow> string \<Rightarrow> string \<Rightarrow> onboarding_action list" where
  "settingUp r k package j routr = [SubmitPackage r, PackageCreated k package, RouterConnected j routr, GoToDashboard]"

section \<open>Lemmas\<close>

lemma filling_run:
  assumes "validSignup isEmail d" and "\<not> sg_pending p"
  shows "\<exists>q. guarded_run signup_ok (signup_step isEmail) p (filling d) = Some (q, [])
    \<and> sg_form q = d \<and> \<not> sg_pending q \<and> sg_auth q = sg_auth p"
  using assms by (simp add: filling_def guarded_run.simps offers_signup validSignup_def Let_def)

lemma login_user:
  assumes "decodeToken token = Some dt" and "truthy (dt_tenant_id dt)"
  shows "au_user (fst (onSignupSuccess t0 now token req st)) = Some (userOf dt)"
    "au_loading (fst (onSignupSuccess t0 now token req st)) = au_loading st"
    "snd (onSignupSuccess t0 now token req st) = [ClearCache, NavigateTo ''/admin/onboarding'']"
    "\<exists>s. au_local (fst (onSignupSuccess t0 now token req st)) = snd (initOnboardingState t0 now (su_service_type req) s)"
proof -
  show "au_user (fst (onSignupSuccess t0 now token req st)) = Some (userOf dt)"
    "au_loading (fst (onSignupSuccess t0 now token req st)) = au_loading st"
    "snd (onSignupSuccess t0 now token req st) = [ClearCache, NavigateTo ''/admin/onboarding'']"
    using assms by (auto simp: onSignupSuccess_def login_def Let_def split: prod.splits)
  show "\<exists>s. au_local (fst (onSignupSuccess t0 now token req st)) = snd (initOnboardingState t0 now (su_service_type req) s)"
    using assms by (simp add: onSignupSuccess_def login_def Let_def case_prod_beta) blast
qed

lemma signing_up_run:
  assumes "validSignup isEmail d" and "decodeToken token = Some dt" and "truthy (dt_tenant_id dt)"
  shows "\<exists>p s. guarded_run signup_ok (signup_step isEmail) (signupStart tier service st) (signingUp d t0 now token)
      = Some (p, [PostTenant (registerBody (parsedSignup d)), Entered ClearCache, Entered (NavigateTo ''/admin/onboarding'')])
    \<and> au_user (sg_auth p) = Some (userOf dt) \<and> au_loading (sg_auth p) = au_loading st
    \<and> au_local (sg_auth p) = snd (initOnboardingState t0 now (su_service_type d) s)"
proof -
  have "\<not> sg_pending (signupStart tier service st)" "sg_auth (signupStart tier service st) = st" by (simp_all add: signupStart_def)
  with filling_run [OF assms(1)] obtain q where q:
    "guarded_run signup_ok (signup_step isEmail) (signupStart tier service st) (filling d) = Some (q, [])"
    "sg_form q = d" "\<not> sg_pending q" "sg_auth q = st" by metis
  have valid: "signupSchema isEmail d = []" using assms(1) signupSchema_valid by simp
  obtain st' effs where ok: "onSignupSuccess t0 now token (parsedSignup d) st = (st', effs)" by fastforce
  note user = login_user [OF assms(2,3), of t0 now "parsedSignup d" st, unfolded ok fst_conv snd_conv]
  have "guarded_run signup_ok (signup_step isEmail) q [SubmitSignup, SignupOk t0 now token (parsedSignup d)]
      = Some (q\<lparr>sg_errors := [], sg_submitted := True, sg_pending := False, sg_auth := st'\<rparr>,
              [PostTenant (registerBody (parsedSignup d)), Entered ClearCache, Entered (NavigateTo ''/admin/onboarding'')])"
    using q(2-4) valid ok user(3) by (simp add: guarded_run.simps offers_signup Let_def)
  with guarded_run_append [OF q(1)] user show ?thesis
    by (auto simp: signingUp_def parsedSignup_def)
qed

lemma onboarding_page_leaf: "pageFor [ProtectedRoute [''admin''], AdminLayout] ''/admin/onboarding''"
  by code_simp

section \<open>Properties\<close>

text \<open>C22: A new provider reaches his dashboard: whoever fills in the sign-up form with valid input, from any link of
  the landing page, sends one registration; when the service answers with an admin's token he is led to
  onboarding, which he is shown, with the service he chose and nothing set up; creating a package and
  connecting a router lead to the dashboard, which he is shown, with both recorded; the stored progress is
  then cleared, so he is not asked again.\<close>

theorem signup_reaches_dashboard:
  assumes "validSignup isEmail d" and "decodeToken token = Some dt" and "truthy (dt_tenant_id dt)"
    and "dt_role dt = Some ''admin''" and "\<not> au_loading st"
  shows "\<exists>p q. guarded_run signup_ok (signup_step isEmail) (opensSignup link st) (signingUp d t0 now token)
      = Some (p, [PostTenant (registerBody (parsedSignup d)), Entered ClearCache, Entered (NavigateTo ''/admin/onboarding'')])
    \<and> leadsTo (sg_auth p) c ''/admin/onboarding''
    \<and> setupOf (onboardingStart t0 now1 (au_local (sg_auth p))) = progress0
    \<and> getServiceType (au_local (sg_auth p)) = JStr (serviceName (su_service_type d))
    \<and> guarded_run onboarding_ok (onboarding_step t0) (onboardingStart t0 now1 (au_local (sg_auth p))) (settingUp r k package j routr)
      = Some (q, [PostPackage r, OToast ''Package created!'', ONavigate ''/admin/dashboard''])
    \<and> setupOf q = \<lparr>se_stage = Some CompleteStage, se_package = Some package, se_router = Some routr, se_creating = False\<rparr>
    \<and> leadsTo (sg_auth p) c ''/admin/dashboard'' \<and> \<not> isOnboardingIncomplete (op_local q)"
proof -
  from signing_up_run [OF assms(1-3)] obtain p s where p:
    "guarded_run signup_ok (signup_step isEmail) (opensSignup link st) (signingUp d t0 now token)
      = Some (p, [PostTenant (registerBody (parsedSignup d)), Entered ClearCache, Entered (NavigateTo ''/admin/onboarding'')])"
    "au_user (sg_auth p) = Some (userOf dt)" "au_loading (sg_auth p) = au_loading st"
    "au_local (sg_auth p) = snd (initOnboardingState t0 now (su_service_type d) s)"
    unfolding opensSignup_def by blast
  have guard: "\<forall>e \<in> set [ProtectedRoute [''admin''], AdminLayout]. elemGuard (sg_auth p) c e = ShowOutlet"
    using p(2,3) assms(4,5) by (simp add: protectedRoute_outlet hasRole_def userOf_def)
  have service: "getServiceType (au_local (sg_auth p)) = JStr (serviceName (su_service_type d))"
    unfolding p(4) getServiceType_def init_reads(1) by (simp add: init_reads jtruthy_def serviceName_def split: service_type.splits)
  let ?o = "onboardingStart t0 now1 (au_local (sg_auth p))"
  have o: "setupOf ?o = progress0" "resumable ?o" unfolding p(4) by (rule start_after_signup, rule resumable_start [OF init_good])
  have "guarded_run progress_ok progress_act progress0 (settingUp r k package j routr)
      = Some (\<lparr>se_stage = Some CompleteStage, se_package = Some package, se_router = Some routr, se_creating = False\<rparr>,
              [PostPackage r, OToast ''Package created!'', ONavigate ''/admin/dashboard''])"
    by (simp add: settingUp_def progress0_def guarded_run.simps)
  with shell.same_runs [OF resumable_object [OF o(2)], of "settingUp r k package j routr" t0] o(1) obtain q where q:
    "guarded_run onboarding_ok (onboarding_step t0) ?o (settingUp r k package j routr)
      = Some (q, [PostPackage r, OToast ''Package created!'', ONavigate ''/admin/dashboard''])"
    "setupOf q = \<lparr>se_stage = Some CompleteStage, se_package = Some package, se_router = Some routr, se_creating = False\<rparr>"
    by (cases "guarded_run onboarding_ok (onboarding_step t0) ?o (settingUp r k package j routr)") auto
  have "resumable q" by (rule guarded_run_inv [where P = resumable, OF _ o(2) q(1)]) (rule resumable_step)
  moreover have "pageStep q = Some (JStr ''complete'')"
    using q(2) stageOf_iff(3) [of "pageStep q"] by (simp add: setupOf_def)
  ultimately have "\<not> isOnboardingIncomplete (op_local q)" using resumable_finished by blast
  moreover have "leadsTo (sg_auth p) c ''/admin/onboarding''" "leadsTo (sg_auth p) c ''/admin/dashboard''"
    using onboarding_page_leaf portal_links(1) guard by (auto intro!: pageFor_leads [of "[ProtectedRoute [''admin''], AdminLayout]"]
        simp: coreSidebarItems_def)
  ultimately show ?thesis using p(1) o(1) service q by blast
qed

text \<open>A valid form, and the token of an admin.\<close>

definition sampleProvider :: signup_request where
  "sampleProvider = \<lparr>su_business_name = ''Eastlands Wireless'', su_owner_name = ''John Kamau'', su_owner_email = ''j@k.co'',
     su_owner_phone = ''0712 345 678'', su_password = ''secret123'', su_subscription_tier = ''growth'', su_service_type = Pppoe\<rparr>"

theorem signup_reaches_dashboard_witness:
  "\<exists>p q. guarded_run signup_ok (signup_step (\<lambda>_. True)) (opensSignup ''/signup?tier=growth'' adminSession)
        (signingUp sampleProvider ''t'' ''n'' sampleToken)
      = Some (p, [PostTenant (registerBody (parsedSignup sampleProvider)), Entered ClearCache, Entered (NavigateTo ''/admin/onboarding'')])
    \<and> getServiceType (au_local (sg_auth p)) = JStr ''pppoe''
    \<and> setupOf q = \<lparr>se_stage = Some CompleteStage, se_package = Some ''Home'', se_router = Some ''Roof'', se_creating = False\<rparr>"
proof -
  have valid: "validSignup (\<lambda>_. True) sampleProvider" by code_simp
  obtain dt where dt: "decodeToken sampleToken = Some dt" "truthy (dt_tenant_id dt)" "dt_role dt = Some ''admin''"
    using decode_sampleToken by auto
  have service: "serviceName (su_service_type sampleProvider) = ''pppoe''" by code_simp
  from signup_reaches_dashboard [OF valid dt adminSession_eq(2), of "''/signup?tier=growth''" "''t''" "''n''" "saProviderStart []"
      "''m''" "\<lparr>rq_name = ''Home'', rq_description = [], rq_price_kes = 2500, rq_speed_mbps = 10, rq_duration_minutes = 43200\<rparr>"
      "''k''" "''Home''" "''j''" "''Roof''"]
  show ?thesis unfolding service by blast
qed

end
