(* ===== verification/Json_Export.thy ===== *)
theory Json_Export
  imports Customer_Pages Console_Pages
begin

text \<open>
  The indented JSON that the audit logs show and that a customer downloads as his data
  (\<open>JSON.stringify(v, null, 2)\<close>, \<open>prettyJson\<close> of \<open>Billing_Pages\<close>): a reader of the text gets back the value,
  numbers with up to six decimals included.
\<close>

section \<open>Numbers\<close>

text \<open>The numbers that \<open>showNum\<close> prints as the language does: at most six decimals, less than a billion.\<close>

definition decimal :: "rat \<Rightarrow> bool" where
  "decimal r \<longleftrightarrow> r * 10 ^ 6 = of_int \<lfloor>r * 10 ^ 6\<rfloor> \<and> \<bar>r\<bar> < 10 ^ 9"

text \<open>What can follow a number in a printed value.\<close>

definition delimited :: "string \<Rightarrow> bool" where
  "delimited s \<longleftrightarrow> (case s of [] \<Rightarrow> True | c # _ \<Rightarrow> \<not> is_digit c \<and> c \<notin> {CHR ''.'', CHR ''e'', CHR ''E''})"

lemma readNat_Cons: "readNat_acc a (c # cs) = (10 * a + digit_val c) * 10 ^ length cs + readNat cs"
proof -
  have acc: "readNat_acc b ds = b * 10 ^ length ds + readNat ds" for b ds
  proof (induction ds arbitrary: b)
    case (Cons d ds)
    show ?case using Cons [of "10 * b + digit_val d"] Cons [of "digit_val d"] by (simp add: algebra_simps)
  qed simp
  show ?thesis using acc [of "10 * a + digit_val c" cs] by simp
qed

lemma fracDigits_read:
  assumes "0 \<le> r" and "r < 1" and "r * 10 ^ k = of_int z" and "k \<le> n"
  shows "list_all is_digit (fracDigits n r) \<and> readFrac (fracDigits n r) = r"
  using assms
proof (induction n arbitrary: k r z)
  case 0
  then show ?case by (simp add: readFrac_def)
next
  case (Suc n)
  show ?case
  proof (cases "r = 0")
    case False
    define d where "d = \<lfloor>10 * r\<rfloor>"
    have d: "0 \<le> d" "d < 10" using Suc.prems(1,2) by (simp_all add: d_def floor_less_iff)
    obtain j where k: "k = Suc j" using False Suc.prems by (cases k) auto
    have "(10 * r - of_int d) * 10 ^ j = of_int (z - d * 10 ^ j)"
      using Suc.prems(3) k by (simp add: algebra_simps)
    moreover have "0 \<le> 10 * r - of_int d" "10 * r - of_int d < 1" unfolding d_def by linarith+
    ultimately have IH: "list_all is_digit (fracDigits n (10 * r - of_int d))"
      "readFrac (fracDigits n (10 * r - of_int d)) = 10 * r - of_int d"
      using Suc.IH [of "10 * r - of_int d" j "z - d * 10 ^ j"] Suc.prems(4) k by simp_all
    let ?ds = "fracDigits n (10 * r - of_int d)"
    have "readFrac (digit_char (nat d) # ?ds) = (of_int d + readFrac ?ds) / 10"
      using d by (simp add: readFrac_def readNat_Cons digit_val_char field_simps del: readNat_acc.simps(2))
    then show ?thesis using IH d False by (simp add: d_def [symmetric] is_digit_char)
  qed (simp add: readFrac_def)
qed

lemma showNat_lead: "hd (showNat n) = CHR ''0'' \<longrightarrow> length (showNat n) = 1"
proof (induction n rule: showNat.induct)
  case (1 n)
  have zero: "digit_char d = CHR ''0'' \<longleftrightarrow> d = 0" if "d < 10" for d
    using that digit_val_char [of d] by (auto simp: digit_val_def digit_char_def)
  have one: "showNat m = [CHR ''0''] \<Longrightarrow> m = 0" for m
    using readNat_showNat [of m] by (simp add: digit_val_def)
  show ?case
  proof (cases "n < 10")
    case False
    have "showNat (n div 10) \<noteq> []" by (subst showNat.simps) simp
    moreover have "hd (showNat (n div 10)) \<noteq> CHR ''0''"
    proof
      assume *: "hd (showNat (n div 10)) = CHR ''0''"
      with 1 [OF False] have "length (showNat (n div 10)) = 1" by simp
      with * have "showNat (n div 10) = [CHR ''0'']" by (cases "showNat (n div 10)") auto
      with one [of "n div 10"] False show False by simp
    qed
    ultimately show ?thesis using False by (subst (1) showNat.simps) simp
  qed (simp add: showNat.simps)
qed

lemma takeWhile_digits:
  "list_all is_digit ds \<Longrightarrow> (case s of [] \<Rightarrow> True | c # _ \<Rightarrow> \<not> is_digit c) \<Longrightarrow>
   takeWhile is_digit (ds @ s) = ds \<and> dropWhile is_digit (ds @ s) = s"
  by (induction ds) (auto split: list.splits)

lemma pexp_delimited: "delimited s \<Longrightarrow> pexp m s = Some (JNum m, s)"
  by (auto simp: pexp_def delimited_def split: list.splits)

lemma fracDigits_not_Nil: "r \<noteq> 0 \<Longrightarrow> fracDigits (Suc n) r \<noteq> []"
  by simp

lemma pnum_showNum:
  assumes "decimal r" and "delimited s"
  shows "pnum (showNum r @ s) = Some (JNum r, s)"
proof -
  define w f where "w = \<lfloor>\<bar>r\<bar>\<rfloor>" and "f = \<bar>r\<bar> - of_int w"
  have w: "0 \<le> w" by (simp add: w_def)
  have f: "0 \<le> f" "f < 1" unfolding f_def w_def by linarith+
  define z where "z = \<lfloor>r * 10 ^ 6\<rfloor>"
  have "\<bar>r\<bar> * 10 ^ 6 = of_int \<bar>z\<bar>"
  proof -
    have "r * 10 ^ 6 = of_int z" using assms(1) unfolding decimal_def z_def by blast
    moreover have "\<bar>r\<bar> * 10 ^ 6 = \<bar>r * 10 ^ 6\<bar>" by (simp add: abs_mult)
    ultimately show ?thesis by (metis of_int_abs)
  qed
  then have "f * 10 ^ 6 = of_int (\<bar>z\<bar> - w * 10 ^ 6)" by (simp add: f_def algebra_simps)
  from fracDigits_read [OF f this, of 30] have ds: "list_all is_digit (fracDigits 30 f)" "readFrac (fracDigits 30 f) = f"
    by simp_all
  define t where "t = (if f = 0 then [] else ''.'' @ fracDigits 30 f) @ s"
  have frac: "pfrac sg (of_int w) t = Some (JNum (sg * \<bar>r\<bar>), s)" for sg
  proof (cases "f = 0")
    case True
    then have "\<bar>r\<bar> = of_int w" by (simp add: f_def)
    with True assms(2) show ?thesis
      by (auto simp: t_def pfrac_def pexp_delimited delimited_def split: list.splits)
  next
    case False
    have "fracDigits 30 f \<noteq> []" using False fracDigits_not_Nil [of f 29] by (simp add: numeral_eq_Suc)
    moreover have "takeWhile is_digit (fracDigits 30 f @ s) = fracDigits 30 f \<and> dropWhile is_digit (fracDigits 30 f @ s) = s"
      using ds(1) assms(2) by (intro takeWhile_digits) (auto simp: delimited_def split: list.splits)
    ultimately show ?thesis
      using False ds(2) assms(2) by (simp add: t_def pfrac_def pexp_delimited f_def Let_def del: fracDigits.simps)
  qed
  have "(case t of [] \<Rightarrow> True | c # _ \<Rightarrow> \<not> is_digit c)"
    using assms(2) by (auto simp: t_def delimited_def is_digit_def split: list.splits)
  then have whole: "takeWhile is_digit (showNat (nat w) @ t) = showNat (nat w) \<and> dropWhile is_digit (showNat (nat w) @ t) = t"
    using showNat_digits by (intro takeWhile_digits) (auto simp: list_all_iff)
  have ne: "showNat (nat w) \<noteq> []" "hd (showNat (nat w)) \<noteq> CHR ''-''"
    using showNat_no_minus by (subst showNat.simps, simp, blast)
  have "showNum r @ s = (if r < 0 then ''-'' else []) @ showNat (nat w) @ t"
    by (simp add: showNum_def w_def f_def t_def Let_def)
  with whole ne showNat_lead [of "nat w"] frac w show ?thesis
    by (auto simp: pnum_def Let_def)
qed

section \<open>Indented text\<close>

primrec printable :: "json \<Rightarrow> bool" where
  "printable JNull = True"
| "printable (JBool b) = True"
| "printable (JNum r) = decimal r"
| "printable (JStr s) = True"
| "printable (JArr vs) = list_all id (map printable vs)"
| "printable (JObj kvs) = (distinct (map fst kvs) \<and> list_all id (map snd (map (map_prod id printable) kvs)))"

lemma skipWs_indented [simp]: "skipWs (indented n @ s) = skipWs s"
  unfolding skipWs_def by (rule dropWhile_append2) (auto simp: indented_def is_ws_def)

lemma pval_indented [simp]: "pval m (indented n @ s) = pval m s"
  by (cases m) simp_all

lemma pval_space [simp]: "pval m (CHR '' '' # s) = pval m s"
  by (cases m) (simp_all add: skipWs_def is_ws_def)

lemma delimited_simps [simp]:
  "delimited []" "delimited (CHR '','' # s)" "delimited (indented n @ s)"
  by (simp_all add: delimited_def indented_def is_digit_def)

definition prettyItem :: "nat \<Rightarrow> json \<Rightarrow> string" where
  "prettyItem n v = indented n @ prettyJson v n"

definition prettyMember :: "nat \<Rightarrow> string \<times> json \<Rightarrow> string" where
  "prettyMember n kv = indented n @ jquote (fst kv) @ '': '' @ prettyJson (snd kv) n"

lemma prettyJson_JArr:
  "prettyJson (JArr vs) n =
     (if vs = [] then ''[]'' else ''['' @ commaSep (map (prettyItem (Suc n)) vs) @ indented n @ '']'')"
  by (simp add: block_def prettyItem_def [abs_def] comp_def)

lemma prettyJson_JObj:
  "prettyJson (JObj kvs) n =
     (if kvs = [] then ''{}'' else ''{'' @ commaSep (map (prettyMember (Suc n)) kvs) @ indented n @ ''}'')"
  by (simp add: block_def prettyMember_def [abs_def] comp_def)

lemma pelems_pretty:
  assumes IH: "\<And>v m r. v \<in> set vs \<Longrightarrow> delimited r \<Longrightarrow> Suc (2 * length (prettyJson v n)) \<le> m \<Longrightarrow>
                 pval m (prettyJson v n @ r) = Some (v, r)"
    and "vs \<noteq> []" and "2 * Suc (length (commaSep (map (prettyItem n) vs))) \<le> m"
  shows "pelems m (commaSep (map (prettyItem n) vs) @ indented k @ CHR '']'' # r) = Some (vs, r)"
  using assms
proof (induction vs arbitrary: m)
  case (Cons v vs)
  then obtain j where m: "m = Suc j" by (cases m) auto
  show ?case
  proof (cases "vs = []")
    case True
    with Cons.prems m show ?thesis by (simp add: prettyItem_def)
  next
    case False
    have "pelems j (commaSep (map (prettyItem n) vs) @ indented k @ CHR '']'' # r) = Some (vs, r)"
      using Cons.IH [of j] Cons.prems False m by (simp add: commaSep_Cons)
    with Cons.prems False m show ?thesis by (simp add: commaSep_Cons push_def prettyItem_def [of n v])
  qed
qed simp

lemma pmembers_pretty:
  assumes IH: "\<And>kv m r. kv \<in> set kvs \<Longrightarrow> delimited r \<Longrightarrow> Suc (2 * length (prettyJson (snd kv) n)) \<le> m \<Longrightarrow>
                 pval m (prettyJson (snd kv) n @ r) = Some (snd kv, r)"
    and "kvs \<noteq> []" and "2 * Suc (length (commaSep (map (prettyMember n) kvs))) \<le> m"
  shows "pmembers m (commaSep (map (prettyMember n) kvs) @ indented k @ CHR ''}'' # r) = Some (kvs, r)"
  using assms
proof (induction kvs arbitrary: m)
  case (Cons kv kvs)
  then obtain j where m: "m = Suc j" by (cases m) auto
  have len: "length (prettyMember n kv) = length (indented n) + length (jquote (fst kv)) + Suc (Suc (length (prettyJson (snd kv) n)))"
    by (simp add: prettyMember_def)
  show ?case
  proof (cases "kvs = []")
    case True
    with Cons.prems m len show ?thesis by (simp add: prettyMember_def jquote_append pstr_quoted)
  next
    case False
    have "pmembers j (commaSep (map (prettyMember n) kvs) @ indented k @ CHR ''}'' # r) = Some (kvs, r)"
      using Cons.IH [of j] Cons.prems False m len by (simp add: commaSep_Cons)
    with Cons.prems False m len show ?thesis
      by (simp add: commaSep_Cons push_def prettyMember_def [of n kv] jquote_append pstr_quoted)
  qed
qed simp

lemma showNum_head: "\<exists>c cs. showNum r = c # cs \<and> (is_digit c \<or> c = CHR ''-'')"
proof -
  have "showNat n \<noteq> []" for n by (subst showNat.simps) simp
  then obtain c cs where "showNat (nat \<lfloor>\<bar>r\<bar>\<rfloor>) = c # cs" by (meson neq_Nil_conv)
  moreover from this have "is_digit c" using showNat_digits [of "nat \<lfloor>\<bar>r\<bar>\<rfloor>"] by simp
  ultimately show ?thesis by (simp add: showNum_def Let_def)
qed

lemma digit_opener: "is_digit c \<or> c = CHR ''-'' \<Longrightarrow>
    opener c \<and> c \<notin> {CHR 0x22, CHR ''['', CHR ''{'', CHR ''t'', CHR ''f'', CHR ''n''}"
  by (auto simp: is_digit_def opener_def is_ws_def)

lemma pval_num:
  assumes "decimal r" and "delimited s"
  shows "pval (Suc m) (showNum r @ s) = Some (JNum r, s)"
proof -
  obtain c cs where c: "showNum r = c # cs" "is_digit c \<or> c = CHR ''-''" using showNum_head by blast
  with digit_opener [OF c(2)] pnum_showNum [OF assms] show ?thesis by simp
qed

lemma prettyJson_opener: "\<exists>c cs. prettyJson v n = c # cs \<and> opener c"
proof (cases v)
  case (JNum r)
  then show ?thesis using showNum_head [of r] digit_opener by auto
next
  case (JArr vs)
  then show ?thesis unfolding JArr prettyJson_JArr by (auto simp: opener_def is_ws_def)
next
  case (JObj kvs)
  then show ?thesis unfolding JObj prettyJson_JObj by (auto simp: opener_def is_ws_def)
qed (auto simp: jquote_def opener_def is_ws_def)

lemma pval_pretty:
  "printable v \<Longrightarrow> delimited r \<Longrightarrow> Suc (2 * length (prettyJson v n)) \<le> m \<Longrightarrow> pval m (prettyJson v n @ r) = Some (v, r)"
proof (induction v arbitrary: n m r)
  case JNull
  then show ?case by (cases m) (simp_all add: plit_def startsWith_def is_ws_def skipWs_def)
next
  case (JBool b)
  then show ?case by (cases m) (auto simp: plit_def startsWith_def is_ws_def skipWs_def)
next
  case (JNum x)
  then show ?case by (cases m) (simp_all add: pval_num del: pval.simps)
next
  case (JStr s)
  then show ?case by (cases m) (simp_all add: pval_str del: pval.simps)
next
  case (JArr vs)
  then obtain j where m: "m = Suc j" by (cases m) auto
  show ?case
  proof (cases vs)
    case (Cons w ws)
    have "pelems j (commaSep (map (prettyItem (Suc n)) vs) @ indented n @ CHR '']'' # r) = Some (vs, r)"
    proof (rule pelems_pretty)
      show "2 * Suc (length (commaSep (map (prettyItem (Suc n)) vs))) \<le> j"
        using JArr.prems(3) Cons unfolding m prettyJson_JArr by simp
    qed (use JArr Cons in \<open>auto simp: list_all_iff\<close>)
    moreover obtain c ds where "skipWs (commaSep (map (prettyItem (Suc n)) vs) @ indented n @ CHR '']'' # r) = c # ds" "opener c"
      using prettyJson_opener [of w "Suc n"] Cons by (cases ws) (auto simp: prettyItem_def)
    ultimately show ?thesis using Cons unfolding m prettyJson_JArr by (simp add: opener_def)
  qed (simp add: m block_def)
next
  case (JObj kvs)
  then obtain j where m: "m = Suc j" by (cases m) auto
  show ?case
  proof (cases kvs)
    case (Cons kv rest)
    have "pmembers j (commaSep (map (prettyMember (Suc n)) kvs) @ indented n @ CHR ''}'' # r) = Some (kvs, r)"
    proof (rule pmembers_pretty)
      fix x k r' assume x: "x \<in> set kvs" "delimited r'" and k: "Suc (2 * length (prettyJson (snd x) (Suc n))) \<le> k"
      have "snd x \<in> Basic_BNFs.snds x" by (cases x) auto
      moreover have "printable (snd x)" using x JObj.prems by (auto simp: list_all_iff)
      ultimately show "pval k (prettyJson (snd x) (Suc n) @ r') = Some (snd x, r')" using JObj.IH x k by blast
    next
      show "2 * Suc (length (commaSep (map (prettyMember (Suc n)) kvs))) \<le> j"
        using JObj.prems(3) Cons unfolding m prettyJson_JObj by simp
    qed (simp add: Cons)
    moreover obtain ds where "skipWs (commaSep (map (prettyMember (Suc n)) kvs) @ indented n @ CHR ''}'' # r) = CHR 0x22 # ds"
      using Cons by (cases rest) (auto simp: prettyMember_def jquote_def)
    moreover have "objOf kvs = JObj kvs" using JObj.prems(1) by (simp add: objOf_distinct)
    ultimately show ?thesis using Cons unfolding m prettyJson_JObj by simp
  qed (simp add: m block_def)
qed

section \<open>Properties\<close>

text \<open>C15: The exported data can be read back: whatever value the service answers to a customer's request for his
  data, the file he downloads is JSON text of exactly that value; so is the payload that the tenant's and the
  console's audit logs show for an opened entry. Objects have distinct
  keys; numbers have up to six decimals and are below a billion in size.\<close>

theorem exported_data_reads_back:
  assumes "printable v"
  shows "\<exists>content. SaveJson (''Frixel Connect_my_data_'' @ today @ ''.json'') content \<in> set (snd (privacy_step p (ExportOk v today)))
      \<and> jparse content = Some v
    \<and> (ae_metadata e = v \<and> al_expandedRow a = Some (ae_id e) \<longrightarrow> content \<in> set (texts (auditRow i a e)))
    \<and> (oe_metadata x = v \<and> en_expandedId b = Some (oe_id x) \<longrightarrow> content \<in> set (texts (entryRow i b x)))"
proof (intro exI conjI impI)
  show "jparse (prettyJson v 0) = Some v"
    using pval_pretty [OF assms, of "[]" 0 "Suc (2 * length (prettyJson v 0))"] by (simp add: jparse_def)
qed (auto simp: auditRow_def entryRow_def onlyIf_def)

definition sampleExport :: json where
  "sampleExport = JObj [(''phone'', JStr ''0712345678''), (''payments'', JArr [JObj [(''amount_kes'', JNum (1999 / 100))], JNull])]"

theorem exported_data_reads_back_witness:
  "printable sampleExport
   \<and> (\<exists>content. SaveJson (''Frixel Connect_my_data_'' @ ''2026'' @ ''.json'') content \<in> set (snd (privacy_step privacy0 (ExportOk sampleExport ''2026'')))
      \<and> jparse content = Some sampleExport)"
proof -
  have sample: "printable sampleExport" by code_simp
  from exported_data_reads_back [OF this, of "''2026''" privacy0] sample show ?thesis by blast
qed

end
