(* ===== verification/Request_Flow.thy ===== *)
theory Request_Flow
  imports Api_Client
begin

text \<open>
  The client of \<open>lib/api.ts\<close> together with the network: requests in flight, which succeed or fail in any order
  and with any status, and the refreshes and repetitions that the handlers of \<open>Api_Client\<close> cause. However the
  service answers, the exchange ends: a request that keeps being refused cannot keep the client refreshing.
\<close>

section \<open>The client and the network\<close>

record net =
  nt_tab :: tab
  nt_flight :: "request list"

definition resent :: "emission list \<Rightarrow> request list" where
  "resent os = [rq. Resend rq \<leftarrow> os]"

text \<open>A step: an answer to a request in flight, or to the refresh a handler waits for. The list is what the
  handler emits; what it sends again is in flight afterwards.\<close>

inductive net_step :: "net \<Rightarrow> emission list \<Rightarrow> net \<Rightarrow> bool" where
  succeeded: "rq \<in> set (nt_flight n) \<Longrightarrow> net_step n [] (n\<lparr>nt_flight := remove1 rq (nt_flight n)\<rparr>)"
| failed: "rq \<in> set (nt_flight n) \<Longrightarrow> onError (nt_tab n) rq status = (tb, os) \<Longrightarrow>
    net_step n os \<lparr>nt_tab = tb, nt_flight = remove1 rq (nt_flight n) @ resent os\<rparr>"
| refreshed: "awaiting (nt_tab n) \<noteq> [] \<Longrightarrow> api_step (nt_tab n) (RefreshOk access refresh) = (tb, os) \<Longrightarrow>
    net_step n os \<lparr>nt_tab = tb, nt_flight = nt_flight n @ resent os\<rparr>"
| refused: "awaiting (nt_tab n) \<noteq> [] \<Longrightarrow> api_step (nt_tab n) (RefreshFailed e) = (tb, os) \<Longrightarrow>
    net_step n os \<lparr>nt_tab = tb, nt_flight = nt_flight n @ resent os\<rparr>"

text \<open>A run: steps, new requests of the pages (counted), and writes of other tabs to the shared storage.\<close>

inductive net_run :: "net \<Rightarrow> nat \<Rightarrow> emission list \<Rightarrow> net \<Rightarrow> bool" where
  idle: "net_run n 0 [] n"
| answer: "net_run n k os n1 \<Longrightarrow> net_step n1 os' n2 \<Longrightarrow> net_run n k (os @ os') n2"
| start: "net_run n k os n1 \<Longrightarrow> \<not> rq_retry rq \<Longrightarrow> net_run n (Suc k) os (n1\<lparr>nt_flight := nt_flight n1 @ [rq]\<rparr>)"
| other: "net_run n k os n1 \<Longrightarrow> net_run n k os (n1\<lparr>nt_tab := fst (api_step (nt_tab n1) (OtherTab s))\<rparr>)"

inductive_cases net_stepE: "net_step n os n'"

section \<open>Lemmas\<close>

text \<open>The requests that may still start a refresh, and the refreshes posted.\<close>

definition fresh :: "request list \<Rightarrow> nat" where
  "fresh rqs = length (filter (\<lambda>rq. \<not> rq_retry rq) rqs)"

definition unretried :: "net \<Rightarrow> nat" where
  "unretried n = fresh (nt_flight n) + fresh (failedQueue (nt_tab n))"

fun is_refresh :: "emission \<Rightarrow> bool" where
  "is_refresh (PostRefresh t) = True"
| "is_refresh _ = False"

abbreviation posts :: "emission list \<Rightarrow> nat" where
  "posts os \<equiv> length (filter is_refresh os)"

lemma fresh_simps [simp]:
  "fresh [] = 0" "fresh (rq # rqs) = of_bool (\<not> rq_retry rq) + fresh rqs" "fresh (xs @ ys) = fresh xs + fresh ys"
  by (simp_all add: fresh_def)

lemma fresh_remove1: "rq \<in> set rqs \<Longrightarrow> fresh rqs = of_bool (\<not> rq_retry rq) + fresh (remove1 rq rqs)"
  by (induction rqs) auto

lemma fresh_map_auth [simp]: "fresh (map (\<lambda>rq. rq\<lparr>rq_auth := a\<rparr>) rqs) = fresh rqs"
  by (induction rqs) auto

lemma length_remove1_in: "rq \<in> set rqs \<Longrightarrow> length (remove1 rq rqs) < length rqs"
  by (metis length_remove1 length_pos_if_in_set diff_less zero_less_one)

lemma resent_simps [simp]:
  "resent [] = []" "resent (Resend rq # os) = rq # resent os" "resent (Reject rq e # os) = resent os"
  "resent (PostRefresh t # os) = resent os" "resent (GoTo p # os) = resent os" "resent (os @ os') = resent os @ resent os'"
  by (simp_all add: resent_def)

lemma toLogin_silent [simp]: "resent (toLogin tb) = []" "filter is_refresh (toLogin tb) = []"
  by (simp_all add: toLogin_def)

lemma queue_outs [simp]:
  "resent (map (\<lambda>rq. Resend (rq\<lparr>rq_auth := a\<rparr>)) rqs) = map (\<lambda>rq. rq\<lparr>rq_auth := a\<rparr>) rqs"
  "resent (map (\<lambda>rq. Reject rq e) rqs) = []"
  "filter is_refresh (map (\<lambda>rq. Resend (rq\<lparr>rq_auth := a\<rparr>)) rqs) = []" "filter is_refresh (map (\<lambda>rq. Reject rq e) rqs) = []"
  by (induction rqs) auto

text \<open>What a failed request does to the counts.\<close>

lemma onError_counts:
  assumes "onError tb rq status = (tb', os)"
  shows "resent os = []"
    and "posts os + fresh (failedQueue tb') \<le> fresh (failedQueue tb) + of_bool (\<not> rq_retry rq)"
    and "posts os = 0 \<Longrightarrow> awaiting tb' = awaiting tb"
  using assms by (auto simp: onError_def Let_def split: if_splits)

lemma refresh_counts:
  assumes "awaiting tb \<noteq> []" and "\<forall>rq \<in> set (awaiting tb). rq_retry rq"
    and "api_step tb (RefreshOk a r) = (tb', os) \<or> api_step tb (RefreshFailed e) = (tb', os)"
  shows "posts os = 0" and "fresh (resent os) + fresh (failedQueue tb') \<le> fresh (failedQueue tb)"
    and "length (awaiting tb') < length (awaiting tb)"
  using assms
  by (cases "awaiting tb"; auto simp: onRefreshOk_def onRefreshFailed_def processQueue_def Let_def)+

text \<open>Every handler that waits for a refresh has marked its request, so that it is never refreshed again.\<close>

definition marked :: "net \<Rightarrow> bool" where
  "marked n = list_all rq_retry (awaiting (nt_tab n))"

lemma onError_marked: "onError tb rq status = (tb', os) \<Longrightarrow> list_all rq_retry (awaiting tb) \<Longrightarrow> list_all rq_retry (awaiting tb')"
  by (auto simp: onError_def Let_def split: if_splits)

lemma refresh_marked:
  assumes "list_all rq_retry (awaiting tb)"
    and "api_step tb (RefreshOk a r) = (tb', os) \<or> api_step tb (RefreshFailed e) = (tb', os)"
  shows "list_all rq_retry (awaiting tb')"
  using assms by (cases "awaiting tb") (auto simp: onRefreshOk_def onRefreshFailed_def processQueue_def Let_def)

lemma step_marked: "net_step n os n' \<Longrightarrow> marked n \<Longrightarrow> marked n'"
  by (erule net_step.cases) (auto simp: marked_def intro: onError_marked refresh_marked)

text \<open>The budget: a step spends one unmarked request on each refresh it posts, and otherwise shortens the list of
  waiting handlers or the list of requests in flight.\<close>

lemma step_budget:
  assumes "net_step n os n'" and "marked n"
  shows "posts os + unretried n' \<le> unretried n"
  using assms
proof (cases rule: net_step.cases)
  case (succeeded rq)
  then show ?thesis using fresh_remove1 [of rq "nt_flight n"] by (simp add: unretried_def)
next
  case (failed rq status tb)
  then show ?thesis using fresh_remove1 [of rq "nt_flight n"] onError_counts(1,2) [of "nt_tab n" rq status tb os]
    by (simp add: unretried_def)
next
  case (refreshed access refresh tb)
  then show ?thesis using refresh_counts(1,2) [of "nt_tab n" access refresh tb os] \<open>marked n\<close>
    by (simp add: unretried_def marked_def list_all_iff)
next
  case (refused e tb)
  then show ?thesis using refresh_counts(1,2) [of "nt_tab n" _ _ tb os e] \<open>marked n\<close>
    by (simp add: unretried_def marked_def list_all_iff)
qed

definition effort :: "net \<Rightarrow> nat \<times> nat \<times> nat" where
  "effort n = (unretried n, length (awaiting (nt_tab n)), length (nt_flight n))"

abbreviation lesser :: "((nat \<times> nat \<times> nat) \<times> (nat \<times> nat \<times> nat)) set" where
  "lesser \<equiv> less_than <*lex*> less_than <*lex*> less_than"

lemma step_progress:
  assumes "net_step n os n'" and "marked n"
  shows "(effort n', effort n) \<in> lesser"
  using assms step_budget [OF assms]
proof (cases rule: net_step.cases)
  case (succeeded rq)
  then show ?thesis using step_budget [OF assms] length_remove1_in [of rq "nt_flight n"] by (auto simp: effort_def)
next
  case (failed rq status tb)
  then show ?thesis
    using step_budget [OF assms] onError_counts(1,3) [of "nt_tab n" rq status tb os] length_remove1_in [of rq "nt_flight n"]
    by (cases "posts os") (auto simp: effort_def simp del: length_0_conv)
next
  case (refreshed access refresh tb)
  then show ?thesis using step_budget [OF assms] refresh_counts(3) [of "nt_tab n" access refresh tb os] \<open>marked n\<close>
    by (auto simp: effort_def marked_def list_all_iff)
next
  case (refused e tb)
  then show ?thesis using step_budget [OF assms] refresh_counts(3) [of "nt_tab n" _ _ tb os e] \<open>marked n\<close>
    by (auto simp: effort_def marked_def list_all_iff)
qed

lemma run_budget:
  assumes "net_run n k os n'" and "marked n"
  shows "marked n' \<and> posts os + unretried n' \<le> unretried n + k"
  using assms
proof (induction rule: net_run.induct)
  case (answer n k os n1 os' n2)
  then show ?case using step_budget [of n1 os' n2] step_marked [of n1 os' n2] by simp
qed (auto simp: marked_def unretried_def)

text \<open>While anything is in flight or waited for, some answer can still come.\<close>

lemma net_not_stuck: "nt_flight n \<noteq> [] \<or> awaiting (nt_tab n) \<noteq> [] \<Longrightarrow> \<exists>os n'. net_step n os n'"
  by (metis succeeded refused list.set_intros(1) neq_Nil_conv surj_pair)

lemma no_endless_exchange:
  assumes "marked n"
  shows "\<nexists>f. f 0 = n \<and> (\<forall>i. \<exists>os. net_step (f i) os (f (Suc i)))"
proof
  assume "\<exists>f. f 0 = n \<and> (\<forall>i. \<exists>os. net_step (f i) os (f (Suc i)))"
  then obtain f where f: "f 0 = n" "\<And>i. \<exists>os. net_step (f i) os (f (Suc i))" by blast
  have "marked (f i)" for i by (induction i) (use f assms step_marked in \<open>blast+\<close>)
  then have "(effort (f (Suc i)), effort (f i)) \<in> lesser" for i using f(2) step_progress by blast
  then have "\<exists>g. \<forall>i. (g (Suc i), g i) \<in> lesser" by (intro exI [of _ "\<lambda>i. effort (f i)"]) blast
  moreover have "wf lesser" by blast
  ultimately show False unfolding wf_iff_no_infinite_down_chain by contradiction
qed

definition pageLoaded :: "storage \<Rightarrow> storage \<Rightarrow> path \<Rightarrow> net" where
  "pageLoaded l s p = \<lparr>nt_tab = freshTab l s p, nt_flight = []\<rparr>"

lemma pageLoaded_start [simp]: "marked (pageLoaded l s p)" "unretried (pageLoaded l s p) = 0"
  by (simp_all add: pageLoaded_def freshTab_def marked_def unretried_def)

section \<open>A refused repetition\<close>

text \<open>A request is refused, the refresh succeeds, the repetition is refused and rejected: one refresh, and the end.\<close>

definition sampleStorage :: storage where
  "sampleStorage = saveRefreshToken ''r1'' ''t1'' (saveToken ''a1'' ''t1'' [])"

definition sampleRequest :: request where
  "sampleRequest = \<lparr>rq_id = 1, rq_retry = False, rq_auth = None\<rparr>"

definition twoRefusals :: "tab \<times> emission list" where
  "twoRefusals = api_run (freshTab sampleStorage [] ''/admin'')
     [Failed sampleRequest (Some 401), RefreshOk ''a2'' ''r2'',
      Failed (sampleRequest\<lparr>rq_retry := True, rq_auth := Some (bearer ''a2'')\<rparr>) (Some 401)]"

lemma twoRefusals_run:
  "net_run (pageLoaded sampleStorage [] ''/admin'') 1 (snd twoRefusals) \<lparr>nt_tab = fst twoRefusals, nt_flight = []\<rparr>"
proof -
  let ?t0 = "freshTab sampleStorage [] ''/admin''"
  let ?rq' = "sampleRequest\<lparr>rq_retry := True, rq_auth := Some (bearer ''a2'')\<rparr>"
  obtain t1 o1 where 1: "onError ?t0 sampleRequest (Some 401) = (t1, o1)" by (rule prod.exhaust)
  obtain t2 o2 where 2: "api_step t1 (RefreshOk ''a2'' ''r2'') = (t2, o2)" by (rule prod.exhaust)
  obtain t3 o3 where 3: "onError t2 ?rq' (Some 401) = (t3, o3)" by (rule prod.exhaust)
  have "truthy (getRefreshToken sampleStorage)" by (simp add: sampleStorage_def)
  then have w: "awaiting t1 = [sampleRequest\<lparr>rq_retry := True\<rparr>]" "failedQueue t1 = []" "resent o1 = []"
    using 1 by (auto simp: onError_def freshTab_def sampleRequest_def Let_def getItem_def)
  then have r: "resent o2 = [?rq']" using 2 by (auto simp: api_defs)
  have "net_run (pageLoaded sampleStorage [] ''/admin'') 1 [] \<lparr>nt_tab = ?t0, nt_flight = [sampleRequest]\<rparr>"
    using start [OF idle, of sampleRequest "pageLoaded sampleStorage [] ''/admin''"]
    by (simp add: pageLoaded_def sampleRequest_def)
  from answer [OF this failed [where rq = sampleRequest and status = "Some 401" and tb = t1 and os = o1]]
  have "net_run (pageLoaded sampleStorage [] ''/admin'') 1 o1 \<lparr>nt_tab = t1, nt_flight = []\<rparr>"
    using 1 w by simp
  from answer [OF this refreshed [where access = "''a2''" and refresh = "''r2''" and tb = t2 and os = o2]]
  have "net_run (pageLoaded sampleStorage [] ''/admin'') 1 (o1 @ o2) \<lparr>nt_tab = t2, nt_flight = [?rq']\<rparr>"
    using w r 2 by simp
  from answer [OF this failed [where rq = ?rq' and status = "Some 401" and tb = t3 and os = o3]]
  have "net_run (pageLoaded sampleStorage [] ''/admin'') 1 ((o1 @ o2) @ o3) \<lparr>nt_tab = t3, nt_flight = []\<rparr>"
    using 3 onError_counts(1) [OF 3] by simp
  moreover have e: "twoRefusals = (t3, o1 @ o2 @ o3)" using 1 2 3 by (simp add: twoRefusals_def api_run_Cons)
  ultimately show ?thesis unfolding e by simp
qed

section \<open>Properties\<close>

text \<open>C3: the client never refreshes in a circle. From a page load, after any requests of the page, any answers to
  them (successes, failures of every status, refreshes that succeed or fail, in any order) and any writes of other
  tabs: the refreshes posted are at most the requests the page started, even when every repetition is refused again;
  the answers that can still come are finitely many, whatever they are; and when none can come any more, no request
  is in flight and no handler waits for a refresh.\<close>

theorem refreshing_ends:
  assumes "net_run (pageLoaded l s p) k os n"
  shows "posts os \<le> k
    \<and> (\<nexists>f. f 0 = n \<and> (\<forall>i. \<exists>os. net_step (f i) os (f (Suc i))))
    \<and> ((\<forall>os n'. \<not> net_step n os n') \<longrightarrow> nt_flight n = [] \<and> awaiting (nt_tab n) = [])"
proof (intro conjI)
  have "marked n \<and> posts os + unretried n \<le> k" using run_budget [OF assms] by simp
  then show "posts os \<le> k" and "\<nexists>f. f 0 = n \<and> (\<forall>i. \<exists>os. net_step (f i) os (f (Suc i)))"
    using no_endless_exchange by auto
  show "(\<forall>os n'. \<not> net_step n os n') \<longrightarrow> nt_flight n = [] \<and> awaiting (nt_tab n) = []"
    using net_not_stuck by blast
qed

theorem refreshing_ends_witness:
  "net_run (pageLoaded sampleStorage [] ''/admin'') 1 (snd twoRefusals) \<lparr>nt_tab = fst twoRefusals, nt_flight = []\<rparr>
    \<and> posts (snd twoRefusals) \<le> 1
    \<and> (\<nexists>f. f 0 = \<lparr>nt_tab = fst twoRefusals, nt_flight = []\<rparr> \<and> (\<forall>i. \<exists>os. net_step (f i) os (f (Suc i))))"
  using refreshing_ends [OF twoRefusals_run] twoRefusals_run by blast

end
