(* ===== verification/Spec2Isabelle.thy ===== *)
theory Spec2Isabelle
  imports Captive_Portal Signup Customers_Page Customer_Pages Console_Pages Admin_Lists Admin_Dashboard
    Router_Steps Setup_Wizard Landing_Page Captive_Journey Signup_Journey Json_Export Request_Flow
begin

text \<open>
  Frixel Connect: verification of the web portal.

  \<^bold>\<open>The program.\<close> Frixel Connect lets small internet providers (tenants) sell WiFi and fiber
  packages over MikroTik routers. A FastAPI service (\<open>app/\<close>) talks to the routers, to RADIUS and
  to M-Pesa; the React portal in \<open>frontend/src\<close> (TypeScript) is what people use: tenant admins,
  resellers and customers, the platform's super admins, and anybody who joins a WiFi and meets the
  captive portal. This development models the portal. The service is its environment: every answer
  of an HTTP request is an event that a component receives, with an arbitrary content.

  \<^bold>\<open>How the parts interact.\<close> \<open>lib/auth.ts\<close> keeps one access and one refresh token per tenant in
  \<open>localStorage\<close>. \<open>lib/api.ts\<close> attaches the active token to requests and refreshes it when one is
  refused. \<open>context/AuthContext.tsx\<close> turns the token into the current user, and the guards of
  \<open>router/index.tsx\<close> decide from that user which page is rendered. The super admin console has a
  client, a token and a guard of its own. Pages send requests through the client and poll for
  payment and router status through query hooks. Onboarding and the router wizard keep their
  progress in \<open>localStorage\<close>, so the browser's storage is the state that the components share.

  \<^bold>\<open>Way of modelling.\<close> State that a module or component keeps is a record; each handler, effect or
  exported function is a definition under the source's name that returns the new state and what it
  causes (requests, navigations, toasts) as a list of outputs. A component that waits for answers
  has a step function over its events. What a component renders is a tree (\<open>'a view\<close> of
  \<open>Prelude\<close>) whose buttons and inputs carry the events they raise and whether they are disabled;
  \<open>guarded_run\<close> of \<open>Submission\<close> runs only what the rendered page offers and answers to requests
  that are outstanding. A statement about every sequence of clicks is a statement about
  \<open>guarded_run\<close>. Definitions compute, so that the witnesses evaluate them.

  \<^bold>\<open>Theories.\<close>

  \<^item> \<open>Prelude\<close>: strings, decimal printing, truthiness, browser storage as an association list,
    rendered trees. Locale \<open>web_storage\<close> states the laws of a storage (interpreted as \<open>ls\<close>), and
    \<open>invariant_system\<close> the induction over the states an event-driven component reaches.
  \<^item> \<open>Json\<close>: \<open>JSON.parse\<close> and \<open>JSON.stringify\<close>. The parser is fuelled: \<open>jparse s\<close> runs \<open>pval\<close>
    with fuel \<open>Suc (2 * length s)\<close>. Each call consumes a character or descends once between two
    characters, and \<open>pval_enough\<close> proves that more fuel never changes the answer. Locale
    \<open>json_codec\<close>, interpreted as \<open>codec\<close>, is the round trip that the stored records rely on.
  \<^item> \<open>Auth_Lib\<close> (\<open>lib/auth.ts\<close>, \<open>types/auth.ts\<close>): the tenant-scoped keys, saving, reading,
    sweeping and decoding of tokens with base64 and UTF-8 written out. Locale \<open>tenant_sessions\<close>,
    interpreted as \<open>tokens\<close>: tokens of different tenants never mix.
  \<^item> \<open>Api_Client\<close> (\<open>lib/api.ts\<close>): both interceptors and the refresh queue, as steps between the
    suspension points of the asynchronous handlers. No request is lost or answered twice, at most
    one refresh runs, a success resends everything that waited and a failure ends the session.
    \<open>Request_Flow\<close> closes the loop with a service that answers in any way: the requests in flight, and what
    the handlers send again. At most one refresh per started request, and every exchange ends.
  \<^item> \<open>Format\<close> (\<open>lib/formatDuration.ts\<close>, \<open>lib/utils.ts\<close>): durations and phone numbers. \<open>Byte_Sizes\<close>: the display
    of amounts of data, right to the second decimal for every logarithm that is off by less than \<open>2^-40\<close>
    (the language leaves its precision open, so it is an argument), and the decimals of amounts of money.
  \<^item> \<open>Submission\<close>: \<open>offers\<close>, \<open>guarded_run\<close> and the locales \<open>single_flight\<close> and
    \<open>request_flight\<close> (a \<open>sublocale\<close> of the first): a form whose busy state blocks its own submit
    never has two requests outstanding. The forms of the portal are interpretations.
  \<^item> \<open>Auth_Context\<close> (\<open>context/AuthContext.tsx\<close>, \<open>hooks/useAuth.ts\<close>, \<open>main.tsx\<close>, the login and
    registration pages): the user shown always owns the stored token, sessions survive a reload,
    logout is complete, the forms send what they should and when they should.
  \<^item> \<open>Super_Admin\<close> (\<open>lib/superAdminApi.ts\<close>, its context, hook, guard and login page): the console
    cannot be reached without the second factor, and the two portals keep apart.
  \<^item> \<open>App_Shell\<close> (\<open>router/index.tsx\<close>, the guards, the suspended page, the theme): the route table
    as data; every page is shown only to its role, and no redirect loops.
  \<^item> \<open>Packages\<close> (\<open>types/packages.ts\<close>, \<open>lib/packageServiceType.ts\<close>, the package form).
  \<^item> \<open>Payment_Status\<close> (the polled status hooks, the waiting screen, the payment page): locale
    \<open>poller\<close>, interpreted on all three hooks, is the contract of an interval that ends with the
    final answer; whatever happens on the waiting screen, a confirmed payment is delivered with its own code,
    once and once more for each render with a new callback, and polling stops after the countdown.
  \<^item> \<open>Captive_Portal\<close> (\<open>BuyPackageFlow\<close>, \<open>HotspotLoginRedirect\<close>, \<open>CaptivePortalPage\<close>): payment
    prompts, vouchers and the login of the device at the router.
  \<^item> \<open>Onboarding\<close> (\<open>useTenantSignup\<close>, \<open>useOnboarding\<close>, \<open>OnboardingPage\<close>) and \<open>Router_Wizard\<close>
    (\<open>RouterOnboardingWizard\<close>, \<open>useRouterSummary\<close>): progress that survives a reload, and a router
    that is provisioned only once it has been seen online (on the wizard's own page, as long as Back and
    Add Another Router are not used: \<open>stale_delay_skips_check\<close>). \<open>Onboarding_Spec\<close> states what onboarding
    promises without its storage; locale \<open>simulation\<close>, interpreted on the page, is the refinement.
  \<^item> \<open>Query_Cache\<close> (\<open>lib/queryKeys.ts\<close>, \<open>lib/queryClient.ts\<close> and the hooks of \<open>hooks/\<close>): every
    query and mutation as data (path, key, enabling condition, invalidated keys). The key determines
    the request, a mutation refreshes the lists it changes, with the exceptions named, and in one tab
    the cache holds only answers fetched with the signed-in user's token, or with one that the answer of a
    refresh or another tab has put into the storage.
  \<^item> \<open>Tables\<close> and \<open>Ledger_Pages\<close> (the voucher, payment and session pages of the three portals):
    sorting, tabs and paging. Locales \<open>table\<close> and \<open>pager\<close> are the contracts of a sorted, filtered
    list and of a clamped page number; each page interprets them.
  \<^item> \<open>Billing_Pages\<close> (subscriptions, invoices, audit log, system health), \<open>Reseller\<close> (the voucher
    dialog and the pages around it; locale \<open>embedding\<close> of \<open>Submission\<close> lifts what holds of the
    dialog to the pages, so that a sale is for the customer of the row it was
    started from), \<open>Customers_Page\<close> (accounts of a tenant), \<open>Customer_Pages\<close> (purchase, subscription card,
    profile, privacy) and \<open>Signup\<close> (\<open>TenantSignupPage\<close>): which requests the
    pages can send, for which records and with which contents, and what they show.
  \<^item> \<open>Tenant_Admin\<close> (\<open>TenantsPage\<close>, \<open>TenantDetailPage\<close> and the handshake by which the console passes
    an impersonation token to the tab it opens, as a system of tabs and messages in transit) and
    \<open>Console_Pages\<close> (accounts, audit log and dashboard of the console; percentages are exact
    rationals).
  \<^item> \<open>Admin_Lists\<close> (\<open>PackagesPage\<close>, \<open>RoutersPage\<close>, \<open>RouterForm\<close>): the lists of packages and routers
    with their dialogs.
  \<^item> \<open>Admin_Dashboard\<close> (\<open>DashboardPage\<close> with its checklist, router widget and guide, \<open>AccountPage\<close>):
    the figures against sums over the data, the dismissals kept in the browser, and the payment of the
    subscription. Whether a date is today or in this month is a parameter (record \<open>calendar\<close>).
  \<^item> \<open>Router_Steps\<close> (\<open>RouterOSInstructions.ts\<close> and \<open>steps/\<close>) and \<open>Setup_Wizard\<close> (\<open>OnboardingWizard\<close>,
    \<open>components/shared/PackageForm.tsx\<close>): the wizards that no route reaches any more. Locale
    \<open>connection_test\<close>, interpreted on the tunnel and the API test, is the contract of a step that can be
    left only after a test succeeded; a key is accepted exactly when it is base64 of 32 bytes.
  \<^item> \<open>Layouts\<close> (\<open>components/layout/\<close>, \<open>ErrorBoundary\<close>, \<open>EmptyState\<close>, \<open>PageTitle\<close>): the frames around the
    pages. The links they show are checked against the route table of \<open>App_Shell\<close>, and their sign-out
    against its guards.
  \<^item> \<open>Landing_Page\<close> (\<open>pages/public/LandingPage.tsx\<close>): the public page, which agrees with the sign-up form that
    its links open on plans, prices and limits (the service's own tables differ and are not modelled).
  \<^item> \<open>Captive_Journey\<close> and \<open>Signup_Journey\<close>: whole journeys through several components. Whoever pays on the
    captive portal gets online, whatever happens while the payment is unsettled, and a new provider
    gets from the landing page to his dashboard; both are runs of the components' own steps under what their pages offer.
  \<^item> \<open>Json_Export\<close>: the indented JSON of the audit logs and of a customer's exported data is read back as the
    value it was written from, numbers included.

  \<^bold>\<open>Parameters.\<close> Code that is not part of the repository is an argument: zod's check of an email
  address (\<open>isEmail\<close>), the displays of \<open>Intl\<close>, \<open>Date\<close> and date-fns and the logarithm (record \<open>intl\<close> of \<open>Tables\<close>,
  \<open>formatKES\<close> and \<open>formatDate\<close> in the captive portal), and the comparison of a date with the clock
  (\<open>expired\<close>). No theorem assumes anything of them beyond what its statement shows. The query
  client is modelled by the part the hooks configure: \<open>enabled\<close>, \<open>refetchInterval\<close> and the entry
  that holds data, error and whether a fetch runs.

  \<^bold>\<open>Data.\<close> Strings are the bytes of their UTF-8 encoding and \<open>jsLength\<close> counts the UTF-16 units that
  \<open>length\<close> counts in the source; JSON numbers are rationals, prices are integers of cents, and times
  are integers of seconds or milliseconds as in the code.

  \<^bold>\<open>Not modelled.\<close> Styling, icons and animation, the interface primitives of \<open>components/ui\<close>, the
  Python service and the placeholder pages. They are listed with reasons beside the modelled parts in the
  manifest.
\<close>

end
